(* ===== verification/Prelude.thy ===== *)
theory Prelude
  imports Main "HOL-Library.Word" "HOL-Library.State_Monad"
begin

text \<open>
  Shared ground of the development: the types every component uses (instants, durations,
  identifiers, byte strings), the Rust standard-library string operations the services call,
  the SQL-like operations on tables of rows, and a weakest-precondition calculus for the state
  monad in which the services are written.
\<close>

named_theorems wp_rules \<open>equations that push a weakest precondition through a program\<close>
named_theorems run_rules \<open>which runs of the parts a run of the whole came from\<close>
named_theorems sql_simps \<open>what the row operations do to lookups\<close>

section \<open>Types\<close>

text \<open>
  A Rust \<open>String\<close> is a sequence of UTF-8 bytes, which is what \<^typ>\<open>string\<close> is here.
  A \<open>chrono::DateTime<Utc>\<close> is the number of nanoseconds since the epoch and a
  \<open>chrono::Duration\<close> a difference of two of them. A \<open>Uuid\<close> is a 128-bit value.
\<close>

type_synonym instant = int
type_synonym duration = int
type_synonym uuid = "128 word"
type_synonym u64 = "64 word"

text \<open>A Rust function either returns or panics (\<open>expect\<close>, \<open>unwrap\<close>).\<close>

datatype 'a outcome = Return 'a | Panic

definition nanos_per_sec :: int where
  "nanos_per_sec = 1000000000"

definition seconds :: "int \<Rightarrow> duration" where
  "seconds n = n * nanos_per_sec"

definition minutes :: "int \<Rightarrow> duration" where
  "minutes n = n * 60 * nanos_per_sec"

definition days :: "int \<Rightarrow> duration" where
  "days n = n * 86400 * nanos_per_sec"

text \<open>\<open>DateTime::timestamp\<close> rounds down; \<open>Duration::num_seconds\<close> rounds towards zero.\<close>

definition timestamp :: "instant \<Rightarrow> int" where
  "timestamp t = t div nanos_per_sec"

definition num_seconds :: "duration \<Rightarrow> int" where
  "num_seconds d = (if d < 0 then - ((- d) div nanos_per_sec) else d div nanos_per_sec)"

text \<open>Two's-complement wrap-around of a 32-bit signed integer.\<close>

definition i32 :: "int \<Rightarrow> int" where
  "i32 n = (n + 2 ^ 31) mod 2 ^ 32 - 2 ^ 31"

definition i64 :: "int \<Rightarrow> int" where
  "i64 n = (n + 2 ^ 63) mod 2 ^ 64 - 2 ^ 63"

lemma i64_id [simp]: "- (2 ^ 63) \<le> n \<Longrightarrow> n < 2 ^ 63 \<Longrightarrow> i64 n = n"
  by (simp add: i64_def)

lemma i32_id [simp]: "- (2 ^ 31) \<le> n \<Longrightarrow> n < 2 ^ 31 \<Longrightarrow> i32 n = n"
  by (simp add: i32_def)

lemma i32_code [code]: "i32 n = (n + 2147483648) mod 4294967296 - 2147483648"
  by (simp add: i32_def)

lemma i64_code [code]: "i64 n = (n + 9223372036854775808) mod 18446744073709551616 - 9223372036854775808"
  by (simp add: i64_def)

lemma num_seconds_seconds [simp]: "num_seconds (seconds n) = n"
  by (auto simp: num_seconds_def seconds_def nanos_per_sec_def)

lemma less_div_iff:
  fixes c :: int
  assumes "0 < c"
  shows "n < d div c \<longleftrightarrow> (n + 1) * c \<le> d"
proof
  assume "n < d div c"
  then have "(n + 1) * c \<le> (d div c) * c" using assms by (intro mult_right_mono) auto
  also have "\<dots> \<le> d" using assms by (metis div_mult_mod_eq le_add_same_cancel1 pos_mod_sign)
  finally show "(n + 1) * c \<le> d" .
next
  assume "(n + 1) * c \<le> d"
  then have "(n + 1) * c div c \<le> d div c" using assms by (rule zdiv_mono1)
  with assms show "n < d div c" by simp
qed

lemma num_seconds_gt_iff:
  assumes "0 \<le> n"
  shows "num_seconds d > n \<longleftrightarrow> d \<ge> seconds (n + 1)"
proof (cases "d < 0")
  case True
  then have "0 \<le> (- d) div nanos_per_sec" by (simp add: nanos_per_sec_def pos_imp_zdiv_nonneg_iff)
  moreover have "0 \<le> seconds (n + 1)" using assms by (simp add: seconds_def nanos_per_sec_def)
  ultimately show ?thesis using True assms by (simp add: num_seconds_def)
next
  case False
  then show ?thesis
    using less_div_iff [of nanos_per_sec n d] by (simp add: num_seconds_def seconds_def nanos_per_sec_def)
qed

section \<open>Options and strings\<close>

text \<open>\<open>Option<&str>::filter(|s| !s.is_empty())\<close>\<close>

definition non_empty :: "string option \<Rightarrow> string option" where
  "non_empty v = (case v of Some s \<Rightarrow> if s = [] then None else Some s | None \<Rightarrow> None)"

lemma non_empty_Some [simp]: "non_empty v = Some s \<longleftrightarrow> v = Some s \<and> s \<noteq> []"
  by (auto simp: non_empty_def split: option.splits)

lemma non_empty_None: "non_empty v = None \<longleftrightarrow> v = None \<or> v = Some []"
  by (auto simp: non_empty_def split: option.splits)

definition unwrap_or_default :: "string option \<Rightarrow> string" where
  "unwrap_or_default v = (case v of Some s \<Rightarrow> s | None \<Rightarrow> [])"

text \<open>\<open>bool::then_some\<close>\<close>

definition then_some :: "bool \<Rightarrow> 'a \<Rightarrow> 'a option" where
  "then_some b x = (if b then Some x else None)"

lemma then_some_simps [simp]: "then_some True x = Some x" "then_some False x = None"
  by (simp_all add: then_some_def)

text \<open>\<open>str::chars().count()\<close>: the UTF-8 bytes that are not continuation bytes.\<close>

definition is_continuation_byte :: "char \<Rightarrow> bool" where
  "is_continuation_byte c = (let b = (of_char c :: nat) in 128 \<le> b \<and> b < 192)"

definition chars_count :: "string \<Rightarrow> nat" where
  "chars_count s = length (filter (\<lambda>c. \<not> is_continuation_byte c) s)"

lemma chars_count_le: "chars_count s \<le> length s"
  by (simp add: chars_count_def)

text \<open>\<open>str::split(c)\<close> on a one-byte separator; the result is never empty.\<close>

fun split_on :: "char \<Rightarrow> string \<Rightarrow> string list" where
  "split_on c [] = [[]]"
| "split_on c (x # xs) =
     (if x = c then [] # split_on c xs
      else (case split_on c xs of [] \<Rightarrow> [[x]] | p # ps \<Rightarrow> (x # p) # ps))"

lemma split_on_not_Nil [simp]: "split_on c s \<noteq> []"
  by (induction s) (auto split: list.splits)

lemma split_on_no_sep: "c \<notin> set s \<Longrightarrow> split_on c s = [s]"
  by (induction s) auto

lemma split_on_append: "c \<notin> set p \<Longrightarrow> split_on c (p @ c # s) = p # split_on c s"
  by (induction p) auto

lemma split_on_singleton_iff: "split_on c s = [p] \<longleftrightarrow> s = p \<and> c \<notin> set p"
proof
  assume "split_on c s = [p]"
  then show "s = p \<and> c \<notin> set p"
    by (induction s arbitrary: p) (auto split: list.splits if_splits)
qed (auto simp: split_on_no_sep)

lemma split_on_pair_iff:
  "split_on c s = [p, q] \<longleftrightarrow> s = p @ c # q \<and> c \<notin> set p \<and> c \<notin> set q"
proof
  assume "split_on c s = [p, q]"
  then show "s = p @ c # q \<and> c \<notin> set p \<and> c \<notin> set q"
    by (induction s arbitrary: p) (auto simp: split_on_singleton_iff split: list.splits if_splits)
qed (auto simp: split_on_append split_on_no_sep)

text \<open>
  \<open>str::split_whitespace\<close>. \<open>whitespace\<close> lists the UTF-8 encodings of the
  characters with the Unicode property White\_Space. Scanning bytes is right on valid UTF-8,
  because no encoding of another character contains one of these sequences at a boundary.
\<close>

definition byte_string :: "nat list \<Rightarrow> string" where
  "byte_string ns = map char_of ns"

definition whitespace :: "string list" where
  "whitespace = map byte_string
     ([[9], [10], [11], [12], [13], [32], [194, 133], [194, 160], [225, 154, 128],
       [226, 128, 168], [226, 128, 169], [226, 128, 175], [226, 129, 159], [227, 128, 128]]
      @ map (\<lambda>n. [226, 128, n]) [128..<139])"

text \<open>The same list with its characters written out, for evaluation.\<close>

lemma whitespace_code [code]: "whitespace =
     [[CHR 0x09], [CHR 0x0A], [CHR 0x0B], [CHR 0x0C], [CHR 0x0D], [CHR 0x20],
      [CHR 0xC2, CHR 0x85], [CHR 0xC2, CHR 0xA0], [CHR 0xE1, CHR 0x9A, CHR 0x80],
      [CHR 0xE2, CHR 0x80, CHR 0xA8], [CHR 0xE2, CHR 0x80, CHR 0xA9],
      [CHR 0xE2, CHR 0x80, CHR 0xAF], [CHR 0xE2, CHR 0x81, CHR 0x9F],
      [CHR 0xE3, CHR 0x80, CHR 0x80], [CHR 0xE2, CHR 0x80, CHR 0x80],
      [CHR 0xE2, CHR 0x80, CHR 0x81], [CHR 0xE2, CHR 0x80, CHR 0x82],
      [CHR 0xE2, CHR 0x80, CHR 0x83], [CHR 0xE2, CHR 0x80, CHR 0x84],
      [CHR 0xE2, CHR 0x80, CHR 0x85], [CHR 0xE2, CHR 0x80, CHR 0x86],
      [CHR 0xE2, CHR 0x80, CHR 0x87], [CHR 0xE2, CHR 0x80, CHR 0x88],
      [CHR 0xE2, CHR 0x80, CHR 0x89], [CHR 0xE2, CHR 0x80, CHR 0x8A]]"
  by (simp add: whitespace_def byte_string_def char_of_def upt_rec bit_Suc_0_iff)

fun starts_with :: "string \<Rightarrow> string \<Rightarrow> bool" where
  "starts_with s [] = True"
| "starts_with [] (p # ps) = False"
| "starts_with (x # xs) (p # ps) = (x = p \<and> starts_with xs ps)"

definition whitespace_prefix :: "string \<Rightarrow> string option" where
  "whitespace_prefix s = find (starts_with s) whitespace"

definition push_word :: "string \<Rightarrow> string list \<Rightarrow> string list" where
  "push_word w ws = (if w = [] then ws else w # ws)"

text \<open>\<open>skip\<close> counts the remaining bytes of the separator that is being passed over.\<close>

fun split_words :: "string \<Rightarrow> nat \<Rightarrow> string \<Rightarrow> string list" where
  "split_words w skip [] = push_word w []"
| "split_words w (Suc k) (x # xs) = split_words w k xs"
| "split_words w 0 (x # xs) =
     (case whitespace_prefix (x # xs) of
        Some p \<Rightarrow> push_word w (split_words [] (length p - 1) xs)
      | None \<Rightarrow> split_words (w @ [x]) 0 xs)"

definition split_whitespace :: "string \<Rightarrow> string list" where
  "split_whitespace s = split_words [] 0 s"

text \<open>\<open>[String]::join\<close>\<close>

fun join :: "string \<Rightarrow> string list \<Rightarrow> string" where
  "join sep [] = []"
| "join sep [x] = x"
| "join sep (x # y # ys) = x @ sep @ join sep (y # ys)"

text \<open>A word: not empty and with no white space anywhere inside it.\<close>

definition is_word :: "string \<Rightarrow> bool" where
  "is_word w \<longleftrightarrow> w \<noteq> [] \<and>
     (\<forall>i < length w. \<forall>t. (t = [] \<or> hd t = CHR '' '') \<longrightarrow>
        whitespace_prefix (drop i w @ t) = None)"

lemma split_words_nonempty: "w \<in> set (split_words acc k s) \<Longrightarrow> w \<noteq> []"
  by (induction acc k s rule: split_words.induct)
     (auto simp: push_word_def split: if_splits option.splits)

lemma find_append: "find P (xs @ ys) = (case find P xs of Some x \<Rightarrow> Some x | None \<Rightarrow> find P ys)"
  by (induction xs) auto

lemma whitespace_head:
  "whitespace = [[CHR 0x09], [CHR 0x0A], [CHR 0x0B], [CHR 0x0C], [CHR 0x0D], '' ''] @ drop 6 whitespace"
  by code_simp

lemma whitespace_prefix_space: "whitespace_prefix (CHR '' '' # t) = Some '' ''"
  unfolding whitespace_prefix_def by (subst whitespace_head) (simp add: find_append)

lemma split_words_word:
  assumes "\<forall>i < length w. whitespace_prefix (drop i w @ t) = None"
  shows "split_words acc 0 (w @ t) = split_words (acc @ w) 0 t"
  using assms
proof (induction w arbitrary: acc)
  case Nil
  then show ?case by simp
next
  case (Cons x w)
  from Cons.prems have "whitespace_prefix (x # w @ t) = None" by force
  moreover have "split_words (acc @ [x]) 0 (w @ t) = split_words ((acc @ [x]) @ w) 0 t"
    using Cons.prems by (intro Cons.IH) force
  ultimately show ?case by simp
qed

lemma split_whitespace_join_aux:
  assumes "\<forall>w \<in> set ws. is_word w" and "is_word v"
  shows "split_words [] 0 (join '' '' (v # ws)) = v # ws"
  using assms
proof (induction ws arbitrary: v)
  case Nil
  then have "\<forall>i < length v. whitespace_prefix (drop i v @ []) = None"
    by (auto simp: is_word_def)
  then have "split_words [] 0 (v @ []) = split_words ([] @ v) 0 []" by (rule split_words_word)
  with Nil show ?case by (simp add: push_word_def is_word_def)
next
  case (Cons u ws)
  let ?t = "CHR '' '' # join '' '' (u # ws)"
  from Cons.prems have "\<forall>i < length v. whitespace_prefix (drop i v @ ?t) = None"
    by (auto simp: is_word_def)
  then have "split_words [] 0 (v @ ?t) = split_words ([] @ v) 0 ?t" by (rule split_words_word)
  also have "\<dots> = push_word v (split_words [] 0 (join '' '' (u # ws)))"
    by (simp add: whitespace_prefix_space)
  finally show ?case using Cons by (simp add: push_word_def is_word_def)
qed

text \<open>Joining words with a space and splitting again gives the words back.\<close>

lemma split_whitespace_join:
  assumes "\<forall>w \<in> set ws. is_word w"
  shows "split_whitespace (join '' '' ws) = ws"
proof (cases ws)
  case Nil
  then show ?thesis by (simp add: split_whitespace_def push_word_def)
next
  case (Cons v vs)
  with assms show ?thesis by (simp add: split_whitespace_def split_whitespace_join_aux)
qed

text \<open>The ASCII part of \<open>str::to_lowercase\<close>.\<close>

definition ascii_lower :: "char \<Rightarrow> char" where
  "ascii_lower c = (let n = (of_char c :: nat) in if 65 \<le> n \<and> n \<le> 90 then char_of (n + 32) else c)"

section \<open>Rows\<close>

text \<open>
  A table is a list of rows in the order of insertion. The SQL statements of the repositories
  are \<open>find\<close> (a SELECT of at most one row), \<open>filter\<close> (a SELECT of many rows, and a DELETE
  with the condition negated), an insert with a primary-key check, and \<open>update_where\<close>.
\<close>

definition update_where :: "('r \<Rightarrow> bool) \<Rightarrow> ('r \<Rightarrow> 'r) \<Rightarrow> 'r list \<Rightarrow> 'r list" where
  "update_where P f rows = map (\<lambda>r. if P r then f r else r) rows"

definition delete_where :: "('r \<Rightarrow> bool) \<Rightarrow> 'r list \<Rightarrow> 'r list" where
  "delete_where P rows = filter (\<lambda>r. \<not> P r) rows"

definition rows_affected :: "('r \<Rightarrow> bool) \<Rightarrow> 'r list \<Rightarrow> nat" where
  "rows_affected P rows = length (filter P rows)"

lemma rows_affected_0 [sql_simps]: "rows_affected P rows = 0 \<longleftrightarrow> (\<forall>r \<in> set rows. \<not> P r)"
  by (auto simp: rows_affected_def filter_empty_conv)

lemma set_update_where [sql_simps]:
  "r \<in> set (update_where P f rows) \<longleftrightarrow> (\<exists>r0 \<in> set rows. r = (if P r0 then f r0 else r0))"
  by (auto simp: update_where_def)

lemma in_update_where: "r \<in> set rows \<Longrightarrow> (if P r then f r else r) \<in> set (update_where P f rows)"
  by (auto simp: update_where_def)

lemma set_delete_where [sql_simps]: "r \<in> set (delete_where P rows) \<longleftrightarrow> r \<in> set rows \<and> \<not> P r"
  by (auto simp: delete_where_def)

lemma find_update_where [sql_simps]:
  assumes "\<And>r. Q (f r) = Q r"
  shows "find Q (update_where P f rows) = map_option (\<lambda>r. if P r then f r else r) (find Q rows)"
  using assms by (induction rows) (auto simp: update_where_def)

lemma find_delete_where_self [sql_simps]: "find P (delete_where P rows) = None"
  by (auto simp: find_None_iff delete_where_def)

lemma find_SomeD: "find P xs = Some x \<Longrightarrow> P x \<and> x \<in> set xs"
  by (induction xs) (auto split: if_splits)

text \<open>With a unique key, a lookup by the key of a row finds that row.\<close>

lemma find_unique:
  assumes "distinct (map k rows)" and "r \<in> set rows"
  shows "find (\<lambda>x. k x = k r) rows = Some r"
  using assms by (induction rows) (auto simp: rev_image_eqI)

lemma distinct_map_update_where:
  assumes "\<And>r. k (f r) = k r"
  shows "map k (update_where P f rows) = map k rows"
  using assms by (auto simp: update_where_def)

lemma distinct_map_delete_where: "distinct (map k rows) \<Longrightarrow> distinct (map k (delete_where P rows))"
  by (auto simp: delete_where_def distinct_map_filter)

text \<open>
  An UPDATE that leaves the key \<open>K\<close> of the rows alone keeps a property \<open>Q\<close> of the rows with that
  key, when it keeps it of each row.
\<close>

lemma keyed_update_where:
  assumes "\<And>r. K (f r) = K r" and "\<exists>r \<in> set rows. K r" and "\<forall>r \<in> set rows. K r \<longrightarrow> Q r"
    and "\<And>r. P r \<Longrightarrow> Q r \<Longrightarrow> Q (f r)"
  shows "(\<exists>r \<in> set (update_where P f rows). K r) \<and> (\<forall>r \<in> set (update_where P f rows). K r \<longrightarrow> Q r)"
proof
  from assms(2) obtain r where r: "r \<in> set rows" "K r" by blast
  then have "(if P r then f r else r) \<in> set (update_where P f rows)" by (auto simp: update_where_def)
  moreover have "K (if P r then f r else r)" using r(2) assms(1) by simp
  ultimately show "\<exists>r \<in> set (update_where P f rows). K r" by blast
  show "\<forall>r \<in> set (update_where P f rows). K r \<longrightarrow> Q r"
    using assms by (auto simp: update_where_def)
qed

section \<open>Weakest preconditions\<close>

text \<open>
  The services thread the world through every repository, clock and random-number call. They
  are written in the state monad; \<open>wp m Q s\<close> says that running \<open>m\<close> from \<open>s\<close> ends
  with a result and a state that satisfy \<open>Q\<close>. Programs are total, so this is total correctness.
\<close>

abbreviation (input) ret :: "'a \<Rightarrow> ('s, 'a) state" where
  "ret \<equiv> State_Monad.return"

definition wp :: "('s, 'a) state \<Rightarrow> ('a \<Rightarrow> 's \<Rightarrow> bool) \<Rightarrow> 's \<Rightarrow> bool" where
  "wp m Q s = (case run_state m s of (a, s') \<Rightarrow> Q a s')"

lemma wp_return [wp_rules]: "wp (State_Monad.return x) Q s = Q x s"
  by (simp add: wp_def)

lemma wp_bind [wp_rules]: "wp (State_Monad.bind m f) Q s = wp m (\<lambda>a. wp (f a) Q) s"
  by (simp add: wp_def split: prod.splits)

lemma wp_State [wp_rules]: "wp (State f) Q s = (case f s of (a, s') \<Rightarrow> Q a s')"
  by (simp add: wp_def)

lemma wp_if [wp_rules]: "wp (if b then m else n) Q s = (if b then wp m Q s else wp n Q s)"
  by simp

lemma wp_case_option [wp_rules]:
  "wp (case x of None \<Rightarrow> m | Some a \<Rightarrow> f a) Q s =
   (case x of None \<Rightarrow> wp m Q s | Some a \<Rightarrow> wp (f a) Q s)"
  by (simp split: option.splits)

lemma wp_case_sum [wp_rules]:
  "wp (case x of Inl e \<Rightarrow> f e | Inr a \<Rightarrow> g a) Q s =
   (case x of Inl e \<Rightarrow> wp (f e) Q s | Inr a \<Rightarrow> wp (g a) Q s)"
  by (simp split: sum.splits)

lemma wp_case_prod [wp_rules]:
  "wp (case x of (a, b) \<Rightarrow> f a b) Q s = (case x of (a, b) \<Rightarrow> wp (f a b) Q s)"
  by (simp split: prod.splits)

lemma wp_Let [wp_rules]: "wp (let x = t in f x) Q s = (let x = t in wp (f x) Q s)"
  by simp

lemma wpI: "(\<And>a s'. run_state m s = (a, s') \<Longrightarrow> Q a s') \<Longrightarrow> wp m Q s"
  by (auto simp: wp_def split: prod.splits)

lemma wpD: "wp m Q s \<Longrightarrow> run_state m s = (a, s') \<Longrightarrow> Q a s'"
  by (simp add: wp_def)

lemma wp_mono: "wp m Q s \<Longrightarrow> (\<And>a s'. Q a s' \<Longrightarrow> R a s') \<Longrightarrow> wp m R s"
  by (auto simp: wp_def split: prod.splits)

lemma wp_True [simp]: "wp m (\<lambda>_ _. True) s"
  by (simp add: wp_def split: prod.splits)

text \<open>
  The \<open>?\<close> operator: \<open>and_then m f\<close> runs \<open>m\<close>, returns its error, or goes on with its value. \<open>map_err\<close> is
  \<open>Result::map_err\<close>.
\<close>

definition and_then :: "('s, 'e + 'a) state \<Rightarrow> ('a \<Rightarrow> ('s, 'e + 'b) state) \<Rightarrow> ('s, 'e + 'b) state" where
  "and_then m f = State_Monad.bind m (\<lambda>r. case r of Inl e \<Rightarrow> ret (Inl e) | Inr a \<Rightarrow> f a)"

definition map_err :: "('e \<Rightarrow> 'f) \<Rightarrow> ('s, 'e + 'a) state \<Rightarrow> ('s, 'f + 'a) state" where
  "map_err g m = State_Monad.bind m (\<lambda>r. ret (case r of Inl e \<Rightarrow> Inl (g e) | Inr a \<Rightarrow> Inr a))"

definition require :: "bool \<Rightarrow> 'e \<Rightarrow> ('s, 'e + unit) state" where
  "require b e = ret (if b then Inr () else Inl e)"

lemma wp_and_then [wp_rules]:
  "wp (and_then m f) Q s = wp m (\<lambda>r s'. case r of Inl e \<Rightarrow> Q (Inl e) s' | Inr a \<Rightarrow> wp (f a) Q s') s"
  by (auto simp: and_then_def wp_def split: prod.splits sum.splits)

lemma wp_map_err [wp_rules]:
  "wp (map_err g m) Q s = wp m (\<lambda>r s'. Q (case r of Inl e \<Rightarrow> Inl (g e) | Inr a \<Rightarrow> Inr a) s') s"
  by (auto simp: map_err_def wp_def split: prod.splits sum.splits)

text \<open>
  Reading a run backwards. Each rule says which run of the parts a run of the whole came from, with
  the states between them named, so that a fact about the result becomes a chain of facts about the
  calls that were made.
\<close>

lemma run_bindE [run_rules]:
  "run_state (State_Monad.bind m f) s = (b, u) \<longleftrightarrow>
   (\<exists>a t. run_state m s = (a, t) \<and> run_state (f a) t = (b, u))"
  by (auto split: prod.splits)

lemma run_returnE [run_rules]: "run_state (State_Monad.return x) s = (y, t) \<longleftrightarrow> x = y \<and> t = s"
  by auto

lemma run_and_then_Inr [run_rules]:
  "run_state (and_then m f) s = (Inr b, u) \<longleftrightarrow>
   (\<exists>a t. run_state m s = (Inr a, t) \<and> run_state (f a) t = (Inr b, u))"
  by (cases "run_state m s"; cases "fst (run_state m s)") (auto simp: and_then_def)

lemma run_and_then_Inl [run_rules]:
  "run_state (and_then m f) s = (Inl e, u) \<longleftrightarrow>
   run_state m s = (Inl e, u) \<or>
   (\<exists>a t. run_state m s = (Inr a, t) \<and> run_state (f a) t = (Inl e, u))"
  by (cases "run_state m s"; cases "fst (run_state m s)") (auto simp: and_then_def)

lemma run_map_err_Inr [run_rules]:
  "run_state (map_err g m) s = (Inr a, t) \<longleftrightarrow> run_state m s = (Inr a, t)"
  by (cases "run_state m s"; cases "fst (run_state m s)") (auto simp: map_err_def)

lemma run_map_err_Inl [run_rules]:
  "run_state (map_err g m) s = (Inl f, t) \<longleftrightarrow> (\<exists>e. run_state m s = (Inl e, t) \<and> f = g e)"
  by (cases "run_state m s"; cases "fst (run_state m s)") (auto simp: map_err_def)

lemma run_case_sumE [run_rules]:
  "run_state (case x of Inl e \<Rightarrow> f e | Inr a \<Rightarrow> g a) s = r \<longleftrightarrow>
   (\<exists>e. x = Inl e \<and> run_state (f e) s = r) \<or> (\<exists>a. x = Inr a \<and> run_state (g a) s = r)"
  by (cases x) auto

lemma run_case_optionE [run_rules]:
  "run_state (case x of None \<Rightarrow> m | Some a \<Rightarrow> f a) s = r \<longleftrightarrow>
   (x = None \<and> run_state m s = r) \<or> (\<exists>a. x = Some a \<and> run_state (f a) s = r)"
  by (cases x) auto

lemma run_case_prodE [run_rules]:
  "run_state (case x of (a, b) \<Rightarrow> f a b) s = r \<longleftrightarrow> (\<exists>a b. x = (a, b) \<and> run_state (f a b) s = r)"
  by (cases x) auto

lemma run_ifE [run_rules]:
  "run_state (if b then m else n) s = r \<longleftrightarrow> (b \<and> run_state m s = r) \<or> (\<not> b \<and> run_state n s = r)"
  by simp

lemma run_letE [run_rules]: "run_state (let x = t in f x) s = r \<longleftrightarrow> run_state (f t) s = r"
  by simp

lemma case_sum_eqE [run_rules]:
  "(case x of Inl e \<Rightarrow> f e | Inr a \<Rightarrow> g a) = r \<longleftrightarrow>
   (\<exists>e. x = Inl e \<and> f e = r) \<or> (\<exists>a. x = Inr a \<and> g a = r)"
  by (cases x) auto

lemma case_option_eqE [run_rules]:
  "(case x of None \<Rightarrow> m | Some a \<Rightarrow> f a) = r \<longleftrightarrow>
   (x = None \<and> m = r) \<or> (\<exists>a. x = Some a \<and> f a = r)"
  by (cases x) auto

lemma case_sum_boolE [run_rules]:
  "(case x of Inl e \<Rightarrow> P e | Inr a \<Rightarrow> Q a) \<longleftrightarrow> (\<exists>e. x = Inl e \<and> P e) \<or> (\<exists>a. x = Inr a \<and> Q a)"
  by (cases x) auto

lemma case_option_boolE [run_rules]:
  "(case x of None \<Rightarrow> P | Some a \<Rightarrow> Q a) \<longleftrightarrow> (x = None \<and> P) \<or> (\<exists>a. x = Some a \<and> Q a)"
  by (cases x) auto

lemma if_eqE [run_rules]: "(if b then x else y) = r \<longleftrightarrow> (b \<and> x = r) \<or> (\<not> b \<and> y = r)"
  by simp

lemma run_require_Inr [run_rules]:
  "run_state (require b e) s = (Inr x, t) \<longleftrightarrow> b \<and> t = s"
  by (auto simp: require_def)

lemma run_require_Inl [run_rules]:
  "run_state (require b e) s = (Inl f, t) \<longleftrightarrow> \<not> b \<and> f = e \<and> t = s"
  by (auto simp: require_def)

text \<open>
  \<open>always I m\<close>: the program keeps the relation \<open>I\<close> between the state before it and the
  state after it. For a reflexive and transitive relation this composes.
\<close>

definition always :: "('s \<Rightarrow> 's \<Rightarrow> bool) \<Rightarrow> ('s, 'a) state \<Rightarrow> bool" where
  "always R m \<longleftrightarrow> (\<forall>s. wp m (\<lambda>_ s'. R s s') s)"

lemma alwaysI: "(\<And>s. wp m (\<lambda>_ s'. R s s') s) \<Longrightarrow> always R m"
  by (simp add: always_def)

lemma alwaysD: "always R m \<Longrightarrow> run_state m s = (a, s') \<Longrightarrow> R s s'"
  unfolding always_def by (drule spec [of _ s]) (simp add: wp_def)

text \<open>
  The interface of a kept relation: a preorder on states. Everything that is built from
  statements that keep it, by sequencing and branching, keeps it.
\<close>

locale kept =
  fixes R :: "'s \<Rightarrow> 's \<Rightarrow> bool"
  assumes kept_refl: "R s s"
    and kept_trans: "R s t \<Longrightarrow> R t u \<Longrightarrow> R s u"
begin

lemma always_return: "always R (State_Monad.return x)"
  by (simp add: always_def wp_return kept_refl)

lemma always_bind:
  assumes "always R m" and "\<And>a. always R (f a)"
  shows "always R (State_Monad.bind m f)"
proof (rule alwaysI)
  fix s
  obtain a t where m: "run_state m s = (a, t)" by (cases "run_state m s")
  obtain b u where f: "run_state (f a) t = (b, u)" by (cases "run_state (f a) t")
  from assms(1) m have "R s t" by (rule alwaysD)
  moreover from assms(2) f have "R t u" by (rule alwaysD)
  ultimately have "R s u" by (rule kept_trans)
  with m f show "wp (State_Monad.bind m f) (\<lambda>_ s'. R s s') s" by (simp add: wp_def)
qed

lemma always_case_option:
  "always R m \<Longrightarrow> (\<And>a. always R (f a)) \<Longrightarrow> always R (case x of None \<Rightarrow> m | Some a \<Rightarrow> f a)"
  by (cases x) simp_all

lemma always_case_sum:
  "(\<And>e. always R (f e)) \<Longrightarrow> (\<And>a. always R (g a)) \<Longrightarrow>
   always R (case x of Inl e \<Rightarrow> f e | Inr a \<Rightarrow> g a)"
  by (cases x) simp_all

lemma always_case_prod:
  "(\<And>a b. always R (f a b)) \<Longrightarrow> always R (case x of (a, b) \<Rightarrow> f a b)"
  by (cases x) simp

lemma always_if: "always R m \<Longrightarrow> always R n \<Longrightarrow> always R (if b then m else n)"
  by simp

lemma always_let: "(\<And>a. always R (f a)) \<Longrightarrow> always R (let x = t in f x)"
  by simp

lemma always_and_then: "always R m \<Longrightarrow> (\<And>a. always R (f a)) \<Longrightarrow> always R (and_then m f)"
  unfolding and_then_def by (intro always_bind always_case_sum always_return)

lemma always_map_err: "always R m \<Longrightarrow> always R (map_err g m)"
  unfolding map_err_def by (intro always_bind always_return)

lemma always_require: "always R (require b e)"
  unfolding require_def by (rule always_return)

lemmas always_rules =
  always_return always_bind always_case_option always_case_sum always_case_prod always_if always_let
  always_and_then always_map_err always_require

end

text \<open>For concrete runs: which of the two kinds of result there is.\<close>

lemma run_InrI: "\<not> isl (fst (run_state m s)) \<Longrightarrow> \<exists>a t. run_state m s = (Inr a, t)"
  by (cases "run_state m s"; cases "fst (run_state m s)") auto

lemma run_fstI: "fst (run_state m s) = a \<Longrightarrow> run_state m s = (a, snd (run_state m s))"
  by auto

text \<open>From here on runs are read with \<open>run_rules\<close>.\<close>

declare run_state_bind [simp del]

end
