(* ===== verification/Values.thy ===== *)
theory Values
  imports Prelude
begin

text \<open>
  \<^verbatim>\<open>domain/error.rs\<close>, \<^verbatim>\<open>domain/values.rs\<close>, \<^verbatim>\<open>domain/password.rs\<close> and \<^verbatim>\<open>domain/pkce.rs\<close>
  (its format check): the error types, the enumerations with their string forms, and the
  validators of user-supplied values. The enumerations share one contract, the locale
  \<open>string_enum\<close>, which every one of them interprets.
\<close>

section \<open>Errors\<close>

datatype domain_error =
    NotFound
  | Conflict string
  | InvalidValue string
  | Repository string

fun domain_error_to_string :: "domain_error \<Rightarrow> string" where
  "domain_error_to_string NotFound = ''resource not found''"
| "domain_error_to_string (Conflict m) = ''conflict: '' @ m"
| "domain_error_to_string (InvalidValue m) = ''invalid value: '' @ m"
| "domain_error_to_string (Repository m) = ''repository error: '' @ m"

datatype oauth_error_code =
    InvalidRequest | InvalidClient | InvalidGrant | UnauthorizedClient | UnsupportedGrantType
  | UnsupportedResponseType | InvalidScope | AccessDenied | ServerError
  | LoginRequiredCode | ConsentRequiredCode | InteractionRequired

fun oauth_error_as_str :: "oauth_error_code \<Rightarrow> string" where
  "oauth_error_as_str InvalidRequest = ''invalid_request''"
| "oauth_error_as_str InvalidClient = ''invalid_client''"
| "oauth_error_as_str InvalidGrant = ''invalid_grant''"
| "oauth_error_as_str UnauthorizedClient = ''unauthorized_client''"
| "oauth_error_as_str UnsupportedGrantType = ''unsupported_grant_type''"
| "oauth_error_as_str UnsupportedResponseType = ''unsupported_response_type''"
| "oauth_error_as_str InvalidScope = ''invalid_scope''"
| "oauth_error_as_str AccessDenied = ''access_denied''"
| "oauth_error_as_str ServerError = ''server_error''"
| "oauth_error_as_str LoginRequiredCode = ''login_required''"
| "oauth_error_as_str ConsentRequiredCode = ''consent_required''"
| "oauth_error_as_str InteractionRequired = ''interaction_required''"

section \<open>Enumerations with string forms\<close>

datatype user_status = UserActive | UserDisabled | UserLocked

fun user_status_as_str :: "user_status \<Rightarrow> string" where
  "user_status_as_str UserActive = ''ACTIVE''"
| "user_status_as_str UserDisabled = ''DISABLED''"
| "user_status_as_str UserLocked = ''LOCKED''"

definition parse_user_status :: "string \<Rightarrow> domain_error + user_status" where
  "parse_user_status s =
     (if s = ''ACTIVE'' then Inr UserActive
      else if s = ''DISABLED'' then Inr UserDisabled
      else if s = ''LOCKED'' then Inr UserLocked
      else Inl (InvalidValue (''UserStatus: '' @ s)))"

datatype tenant_status = TenantActive | TenantDisabled

fun tenant_status_as_str :: "tenant_status \<Rightarrow> string" where
  "tenant_status_as_str TenantActive = ''ACTIVE''"
| "tenant_status_as_str TenantDisabled = ''DISABLED''"

definition parse_tenant_status :: "string \<Rightarrow> domain_error + tenant_status" where
  "parse_tenant_status s =
     (if s = ''ACTIVE'' then Inr TenantActive
      else if s = ''DISABLED'' then Inr TenantDisabled
      else Inl (InvalidValue (''TenantStatus: '' @ s)))"

datatype membership_type = Home | Guest

fun membership_type_as_str :: "membership_type \<Rightarrow> string" where
  "membership_type_as_str Home = ''HOME''"
| "membership_type_as_str Guest = ''GUEST''"

definition parse_membership_type :: "string \<Rightarrow> domain_error + membership_type" where
  "parse_membership_type s =
     (if s = ''HOME'' then Inr Home
      else if s = ''GUEST'' then Inr Guest
      else Inl (InvalidValue (''MembershipType: '' @ s)))"

datatype membership_status = MemberInvited | MemberActive

fun membership_status_as_str :: "membership_status \<Rightarrow> string" where
  "membership_status_as_str MemberInvited = ''INVITED''"
| "membership_status_as_str MemberActive = ''ACTIVE''"

definition parse_membership_status :: "string \<Rightarrow> domain_error + membership_status" where
  "parse_membership_status s =
     (if s = ''INVITED'' then Inr MemberInvited
      else if s = ''ACTIVE'' then Inr MemberActive
      else Inl (InvalidValue (''MembershipStatus: '' @ s)))"

datatype client_type = Public | Confidential

fun client_type_as_str :: "client_type \<Rightarrow> string" where
  "client_type_as_str Public = ''public''"
| "client_type_as_str Confidential = ''confidential''"

definition parse_client_type :: "string \<Rightarrow> domain_error + client_type" where
  "parse_client_type s =
     (if s = ''public'' then Inr Public
      else if s = ''confidential'' then Inr Confidential
      else Inl (InvalidValue (''ClientType: '' @ s)))"

datatype client_status = ClientActive | ClientDisabled

fun client_status_as_str :: "client_status \<Rightarrow> string" where
  "client_status_as_str ClientActive = ''ACTIVE''"
| "client_status_as_str ClientDisabled = ''DISABLED''"

definition parse_client_status :: "string \<Rightarrow> domain_error + client_status" where
  "parse_client_status s =
     (if s = ''ACTIVE'' then Inr ClientActive
      else if s = ''DISABLED'' then Inr ClientDisabled
      else Inl (InvalidValue (''ClientStatus: '' @ s)))"

datatype token_endpoint_auth_method = ClientSecretBasic | AuthNone

fun token_endpoint_auth_method_as_str :: "token_endpoint_auth_method \<Rightarrow> string" where
  "token_endpoint_auth_method_as_str ClientSecretBasic = ''client_secret_basic''"
| "token_endpoint_auth_method_as_str AuthNone = ''none''"

definition parse_token_endpoint_auth_method :: "string \<Rightarrow> domain_error + token_endpoint_auth_method" where
  "parse_token_endpoint_auth_method s =
     (if s = ''client_secret_basic'' then Inr ClientSecretBasic
      else if s = ''none'' then Inr AuthNone
      else Inl (InvalidValue (''TokenEndpointAuthMethod: '' @ s)))"

datatype signing_key_status = KeyActive | KeyRetired

fun signing_key_status_as_str :: "signing_key_status \<Rightarrow> string" where
  "signing_key_status_as_str KeyActive = ''ACTIVE''"
| "signing_key_status_as_str KeyRetired = ''RETIRED''"

definition parse_signing_key_status :: "string \<Rightarrow> domain_error + signing_key_status" where
  "parse_signing_key_status s =
     (if s = ''ACTIVE'' then Inr KeyActive
      else if s = ''RETIRED'' then Inr KeyRetired
      else Inl (InvalidValue (''SigningKeyStatus: '' @ s)))"

datatype signing_algorithm = Rs256 | Es256

fun signing_algorithm_as_str :: "signing_algorithm \<Rightarrow> string" where
  "signing_algorithm_as_str Rs256 = ''RS256''"
| "signing_algorithm_as_str Es256 = ''ES256''"

definition parse_signing_algorithm :: "string \<Rightarrow> domain_error + signing_algorithm" where
  "parse_signing_algorithm s =
     (if s = ''RS256'' then Inr Rs256
      else if s = ''ES256'' then Inr Es256
      else Inl (InvalidValue (''SigningAlgorithm: '' @ s)))"

datatype code_challenge_method = S256

fun code_challenge_method_as_str :: "code_challenge_method \<Rightarrow> string" where
  "code_challenge_method_as_str S256 = ''S256''"

definition parse_code_challenge_method :: "string \<Rightarrow> domain_error + code_challenge_method" where
  "parse_code_challenge_method s =
     (if s = ''S256'' then Inr S256
      else Inl (InvalidValue (''CodeChallengeMethod: '' @ s)))"

datatype scope = OpenId | Profile | Email | OfflineAccess

fun scope_as_str :: "scope \<Rightarrow> string" where
  "scope_as_str OpenId = ''openid''"
| "scope_as_str Profile = ''profile''"
| "scope_as_str Email = ''email''"
| "scope_as_str OfflineAccess = ''offline_access''"

definition parse_scope :: "string \<Rightarrow> domain_error + scope" where
  "parse_scope s =
     (if s = ''openid'' then Inr OpenId
      else if s = ''profile'' then Inr Profile
      else if s = ''email'' then Inr Email
      else if s = ''offline_access'' then Inr OfflineAccess
      else Inl (InvalidValue (''Scope: '' @ s)))"

section \<open>Validators\<close>

definition validate_email :: "string \<Rightarrow> domain_error + unit" where
  "validate_email email =
     (let parts = split_on CHR ''@'' email in
      if length parts = 2 \<and> parts ! 0 \<noteq> [] \<and> parts ! 1 \<noteq> [] then Inr ()
      else Inl (InvalidValue ''invalid email format''))"

definition PREFERRED_USERNAME_MAX_LEN :: nat where
  "PREFERRED_USERNAME_MAX_LEN = 255"

definition validate_preferred_username :: "string \<Rightarrow> domain_error + unit" where
  "validate_preferred_username value =
     (if chars_count value > PREFERRED_USERNAME_MAX_LEN
      then Inl (InvalidValue ''preferred_username must be at most 255 characters'')
      else Inr ())"

definition DISPLAY_NAME_MAX_LEN :: nat where
  "DISPLAY_NAME_MAX_LEN = 255"

definition validate_display_name :: "string \<Rightarrow> domain_error + unit" where
  "validate_display_name value =
     (if chars_count value > DISPLAY_NAME_MAX_LEN
      then Inl (InvalidValue ''name must be at most 255 characters'')
      else Inr ())"

definition MIN_PASSWORD_LEN :: nat where
  "MIN_PASSWORD_LEN = 8"

definition MAX_PASSWORD_LEN :: nat where
  "MAX_PASSWORD_LEN = 256"

definition validate_password_strength :: "string \<Rightarrow> string + unit" where
  "validate_password_strength password =
     (if length password < MIN_PASSWORD_LEN then Inl ''password must be at least 8 characters''
      else if length password > MAX_PASSWORD_LEN then Inl ''password must be at most 256 characters''
      else Inr ())"

definition MIN_VERIFIER_LEN :: nat where
  "MIN_VERIFIER_LEN = 43"

definition MAX_VERIFIER_LEN :: nat where
  "MAX_VERIFIER_LEN = 128"

definition is_ascii_alphanumeric :: "char \<Rightarrow> bool" where
  "is_ascii_alphanumeric c =
     (let b = (of_char c :: nat) in
      (48 \<le> b \<and> b \<le> 57) \<or> (65 \<le> b \<and> b \<le> 90) \<or> (97 \<le> b \<and> b \<le> 122))"

definition is_verifier_char :: "char \<Rightarrow> bool" where
  "is_verifier_char c =
     (is_ascii_alphanumeric c \<or> c = CHR ''-'' \<or> c = CHR ''.'' \<or> c = CHR ''_'' \<or> c = CHR ''~'')"

definition is_valid_code_verifier :: "string \<Rightarrow> bool" where
  "is_valid_code_verifier verifier =
     (MIN_VERIFIER_LEN \<le> length verifier \<and> length verifier \<le> MAX_VERIFIER_LEN \<and>
      list_all is_verifier_char verifier)"

section \<open>The contract of the enumerations\<close>

locale string_enum =
  fixes as_str :: "'a \<Rightarrow> string"
    and parse :: "string \<Rightarrow> domain_error + 'a"
  assumes parse_as_str: "parse (as_str x) = Inr x"
    and as_str_parse: "parse s = Inr x \<Longrightarrow> as_str x = s"
begin

lemma parse_iff: "parse s = Inr x \<longleftrightarrow> s = as_str x"
  using parse_as_str as_str_parse by auto

lemma as_str_inject: "as_str x = as_str y \<longleftrightarrow> x = y"
  by (metis parse_as_str sum.inject(2))

lemma parse_fails_iff: "(\<exists>e. parse s = Inl e) \<longleftrightarrow> s \<notin> range as_str"
proof (cases "parse s")
  case (Inl e)
  moreover have "s \<notin> range as_str"
  proof
    assume "s \<in> range as_str"
    then obtain x where "s = as_str x" by blast
    with Inl show False by (simp add: parse_as_str)
  qed
  ultimately show ?thesis by blast
next
  case (Inr x)
  then have "s = as_str x" using as_str_parse by simp
  with Inr show ?thesis by auto
qed

end

interpretation us: string_enum user_status_as_str parse_user_status
proof
  show "parse_user_status (user_status_as_str x) = Inr x" for x by (cases x) (simp_all add: parse_user_status_def)
  show "user_status_as_str x = s" if "parse_user_status s = Inr x" for s x
    using that by (auto simp: parse_user_status_def split: if_splits)
qed

interpretation ts: string_enum tenant_status_as_str parse_tenant_status
proof
  show "parse_tenant_status (tenant_status_as_str x) = Inr x" for x by (cases x) (simp_all add: parse_tenant_status_def)
  show "tenant_status_as_str x = s" if "parse_tenant_status s = Inr x" for s x
    using that by (auto simp: parse_tenant_status_def split: if_splits)
qed

interpretation mt: string_enum membership_type_as_str parse_membership_type
proof
  show "parse_membership_type (membership_type_as_str x) = Inr x" for x by (cases x) (simp_all add: parse_membership_type_def)
  show "membership_type_as_str x = s" if "parse_membership_type s = Inr x" for s x
    using that by (auto simp: parse_membership_type_def split: if_splits)
qed

interpretation ms: string_enum membership_status_as_str parse_membership_status
proof
  show "parse_membership_status (membership_status_as_str x) = Inr x" for x by (cases x) (simp_all add: parse_membership_status_def)
  show "membership_status_as_str x = s" if "parse_membership_status s = Inr x" for s x
    using that by (auto simp: parse_membership_status_def split: if_splits)
qed

interpretation ct: string_enum client_type_as_str parse_client_type
proof
  show "parse_client_type (client_type_as_str x) = Inr x" for x by (cases x) (simp_all add: parse_client_type_def)
  show "client_type_as_str x = s" if "parse_client_type s = Inr x" for s x
    using that by (auto simp: parse_client_type_def split: if_splits)
qed

interpretation cs: string_enum client_status_as_str parse_client_status
proof
  show "parse_client_status (client_status_as_str x) = Inr x" for x by (cases x) (simp_all add: parse_client_status_def)
  show "client_status_as_str x = s" if "parse_client_status s = Inr x" for s x
    using that by (auto simp: parse_client_status_def split: if_splits)
qed

interpretation am: string_enum token_endpoint_auth_method_as_str parse_token_endpoint_auth_method
proof
  show "parse_token_endpoint_auth_method (token_endpoint_auth_method_as_str x) = Inr x" for x by (cases x) (simp_all add: parse_token_endpoint_auth_method_def)
  show "token_endpoint_auth_method_as_str x = s" if "parse_token_endpoint_auth_method s = Inr x" for s x
    using that by (auto simp: parse_token_endpoint_auth_method_def split: if_splits)
qed

interpretation ks: string_enum signing_key_status_as_str parse_signing_key_status
proof
  show "parse_signing_key_status (signing_key_status_as_str x) = Inr x" for x by (cases x) (simp_all add: parse_signing_key_status_def)
  show "signing_key_status_as_str x = s" if "parse_signing_key_status s = Inr x" for s x
    using that by (auto simp: parse_signing_key_status_def split: if_splits)
qed

interpretation sa: string_enum signing_algorithm_as_str parse_signing_algorithm
proof
  show "parse_signing_algorithm (signing_algorithm_as_str x) = Inr x" for x by (cases x) (simp_all add: parse_signing_algorithm_def)
  show "signing_algorithm_as_str x = s" if "parse_signing_algorithm s = Inr x" for s x
    using that by (auto simp: parse_signing_algorithm_def split: if_splits)
qed

interpretation cm: string_enum code_challenge_method_as_str parse_code_challenge_method
proof
  show "parse_code_challenge_method (code_challenge_method_as_str x) = Inr x" for x by (cases x) (simp_all add: parse_code_challenge_method_def)
  show "code_challenge_method_as_str x = s" if "parse_code_challenge_method s = Inr x" for s x
    using that by (auto simp: parse_code_challenge_method_def split: if_splits)
qed

interpretation sc: string_enum scope_as_str parse_scope
proof
  show "parse_scope (scope_as_str x) = Inr x" for x by (cases x) (simp_all add: parse_scope_def)
  show "scope_as_str x = s" if "parse_scope s = Inr x" for s x
    using that by (auto simp: parse_scope_def split: if_splits)
qed

lemma oauth_error_as_str_inject: "oauth_error_as_str a = oauth_error_as_str b \<longleftrightarrow> a = b"
  by (cases a; cases b) simp_all

lemma validate_email_iff:
  "validate_email s = Inr () \<longleftrightarrow>
     (\<exists>l d. s = l @ CHR ''@'' # d \<and> l \<noteq> [] \<and> d \<noteq> [] \<and> CHR ''@'' \<notin> set l \<and> CHR ''@'' \<notin> set d)"
proof -
  have "validate_email s = Inr () \<longleftrightarrow> (\<exists>l d. split_on CHR ''@'' s = [l, d] \<and> l \<noteq> [] \<and> d \<noteq> [])"
    by (auto simp: validate_email_def length_Suc_conv numeral_2_eq_2 Let_def split: if_splits)
  then show ?thesis by (simp add: split_on_pair_iff) blast
qed

end
