(* ===== verification/Entities.thy ===== *)
theory Entities
  imports Values
begin

text \<open>
  The entities of \<^verbatim>\<open>crates/core/src/domain/\<close> and the predicates their \<open>impl\<close>
  blocks define. A struct is a record; the fields carry a prefix (\<open>u_\<close> for \<open>User\<close>,
  \<open>c_\<close> for \<open>Client\<close>, \<open>as_\<close> for \<open>AuthSession\<close>, \<open>ss_\<close> for \<open>SsoSession\<close>, \<open>ac_\<close> for
  \<open>AuthorizationCode\<close>, \<open>rt_\<close> for \<open>RefreshToken\<close>, \<open>cc_\<close> for \<open>ClientConsent\<close>, \<open>ra_\<close>
  for \<open>RevokedAccessToken\<close>, \<open>sk_\<close> for \<open>SigningKey\<close>, \<open>ts_\<close> for \<open>TotpSecret\<close>,
  \<open>tm_\<close> for \<open>TenantMembership\<close>, \<open>ae_\<close> for \<open>AuditEvent\<close>), because Isabelle's field
  selectors are global. A \<open>TenantId\<close> and a \<open>TenantContext\<close> wrap one \<open>Uuid\<close> and are
  that \<open>Uuid\<close> here.
\<close>

type_synonym tenant_id = uuid

record user =
  u_id :: uuid
  u_tenant_id :: tenant_id
  u_sub :: uuid
  u_email :: string
  u_email_verified :: bool
  u_preferred_username :: "string option"
  u_name :: "string option"
  u_language :: "string option"
  u_password_hash :: string
  u_must_change_password :: bool
  u_status :: user_status
  u_failed_login_count :: int
  u_locked_until :: "instant option"
  u_created_at :: instant
  u_updated_at :: instant

definition user_is_active :: "user \<Rightarrow> bool" where
  "user_is_active u = (u_status u = UserActive)"

definition user_is_locked_at :: "user \<Rightarrow> instant \<Rightarrow> bool" where
  "user_is_locked_at u now = (case u_locked_until u of Some until \<Rightarrow> until > now | None \<Rightarrow> False)"

record client =
  c_id :: uuid
  c_tenant_id :: tenant_id
  c_client_id :: string
  c_client_secret_hash :: "string option"
  c_client_type :: client_type
  c_client_status :: client_status
  c_app_name :: string
  c_redirect_uris :: "string list"
  c_grant_types :: "string list"
  c_response_types :: "string list"
  c_scopes :: "string list"
  c_token_endpoint_auth_method :: token_endpoint_auth_method
  c_require_pkce :: bool
  c_post_logout_redirect_uris :: "string list"
  c_frontchannel_logout_uri :: "string option"
  c_backchannel_logout_uri :: "string option"
  c_created_at :: instant
  c_updated_at :: instant

definition client_is_active :: "client \<Rightarrow> bool" where
  "client_is_active c = (c_client_status c = ClientActive)"

definition allows_redirect_uri :: "client \<Rightarrow> string \<Rightarrow> bool" where
  "allows_redirect_uri c uri = list_ex (\<lambda>u. u = uri) (c_redirect_uris c)"

definition allows_post_logout_redirect_uri :: "client \<Rightarrow> string \<Rightarrow> bool" where
  "allows_post_logout_redirect_uri c uri = list_ex (\<lambda>u. u = uri) (c_post_logout_redirect_uris c)"

definition allows_scopes :: "client \<Rightarrow> string list \<Rightarrow> bool" where
  "allows_scopes c requested = list_all (\<lambda>s. s \<in> set (c_scopes c)) requested"

record auth_session =
  as_id :: string
  as_tenant_id :: tenant_id
  as_client_id :: string
  as_redirect_uri :: string
  as_scope :: "string list"
  as_state :: string
  as_nonce :: string
  as_code_challenge :: string
  as_code_challenge_method :: code_challenge_method
  as_authenticated_user_id :: "uuid option"
  as_auth_time :: "instant option"
  as_password_verified_at :: "instant option"
  as_expires_at :: instant
  as_created_at :: instant
  as_updated_at :: instant

definition auth_session_is_expired_at :: "auth_session \<Rightarrow> instant \<Rightarrow> bool" where
  "auth_session_is_expired_at s now = (as_expires_at s \<le> now)"

record sso_session =
  ss_session_hash :: string
  ss_user_id :: uuid
  ss_auth_time :: instant
  ss_idle_expires_at :: instant
  ss_absolute_expires_at :: instant
  ss_user_agent :: "string option"
  ss_ip_address :: "string option"
  ss_created_at :: instant
  ss_updated_at :: instant

definition sso_is_valid_at :: "sso_session \<Rightarrow> instant \<Rightarrow> bool" where
  "sso_is_valid_at s now = (ss_idle_expires_at s > now \<and> ss_absolute_expires_at s > now)"

record authorization_code =
  ac_code_hash :: string
  ac_tenant_id :: tenant_id
  ac_user_id :: uuid
  ac_client_id :: string
  ac_redirect_uri :: string
  ac_scope :: "string list"
  ac_nonce :: string
  ac_auth_time :: instant
  ac_code_challenge :: string
  ac_code_challenge_method :: code_challenge_method
  ac_expires_at :: instant
  ac_used_at :: "instant option"
  ac_created_at :: instant
  ac_updated_at :: instant

definition code_is_used :: "authorization_code \<Rightarrow> bool" where
  "code_is_used c = (ac_used_at c \<noteq> None)"

definition code_is_expired_at :: "authorization_code \<Rightarrow> instant \<Rightarrow> bool" where
  "code_is_expired_at c now = (ac_expires_at c \<le> now)"

record refresh_token =
  rt_token_hash :: string
  rt_parent_hash :: "string option"
  rt_tenant_id :: tenant_id
  rt_user_id :: uuid
  rt_client_id :: string
  rt_scope :: "string list"
  rt_expires_at :: instant
  rt_revoked_at :: "instant option"
  rt_created_at :: instant

definition refresh_is_revoked :: "refresh_token \<Rightarrow> bool" where
  "refresh_is_revoked t = (rt_revoked_at t \<noteq> None)"

definition refresh_is_expired_at :: "refresh_token \<Rightarrow> instant \<Rightarrow> bool" where
  "refresh_is_expired_at t now = (rt_expires_at t \<le> now)"

definition refresh_is_valid_at :: "refresh_token \<Rightarrow> instant \<Rightarrow> bool" where
  "refresh_is_valid_at t now = (\<not> refresh_is_revoked t \<and> \<not> refresh_is_expired_at t now)"

record client_consent =
  cc_user_id :: uuid
  cc_tenant_id :: tenant_id
  cc_client_id :: string
  cc_scopes :: "string list"
  cc_granted_at :: instant
  cc_updated_at :: instant

definition consent_covers :: "client_consent \<Rightarrow> string list \<Rightarrow> bool" where
  "consent_covers c required_scopes = list_all (\<lambda>s. s \<in> set (cc_scopes c)) required_scopes"

record revoked_access_token =
  ra_jti :: string
  ra_revoked_at :: instant
  ra_expires_at :: instant

record signing_key =
  sk_kid :: string
  sk_algorithm :: string
  sk_public_key :: string
  sk_private_key_encrypted :: string
  sk_status :: signing_key_status
  sk_not_before :: instant
  sk_not_after :: instant
  sk_created_at :: instant
  sk_updated_at :: instant

definition is_usable_for_signing_at :: "signing_key \<Rightarrow> instant \<Rightarrow> bool" where
  "is_usable_for_signing_at k now =
     (sk_status k = KeyActive \<and> sk_not_before k \<le> now \<and> now < sk_not_after k)"

record totp_secret =
  ts_user_id :: uuid
  ts_secret_encrypted :: string
  ts_confirmed_at :: "instant option"
  ts_created_at :: instant
  ts_updated_at :: instant

definition totp_is_confirmed :: "totp_secret \<Rightarrow> bool" where
  "totp_is_confirmed t = (ts_confirmed_at t \<noteq> None)"

record tenant_membership =
  tm_tenant_id :: tenant_id
  tm_user_id :: uuid
  tm_membership_type :: membership_type
  tm_status :: membership_status
  tm_invited_by :: "uuid option"
  tm_invitation_token_hash :: "string option"
  tm_invitation_expires_at :: "instant option"
  tm_created_at :: instant
  tm_updated_at :: instant

definition new_home :: "tenant_id \<Rightarrow> uuid \<Rightarrow> instant \<Rightarrow> tenant_membership" where
  "new_home tenant_id user_id now =
     \<lparr>tm_tenant_id = tenant_id, tm_user_id = user_id, tm_membership_type = Home,
      tm_status = MemberActive, tm_invited_by = None, tm_invitation_token_hash = None,
      tm_invitation_expires_at = None, tm_created_at = now, tm_updated_at = now\<rparr>"

definition new_active_guest :: "tenant_id \<Rightarrow> uuid \<Rightarrow> instant \<Rightarrow> tenant_membership" where
  "new_active_guest tenant_id user_id now =
     \<lparr>tm_tenant_id = tenant_id, tm_user_id = user_id, tm_membership_type = Guest,
      tm_status = MemberActive, tm_invited_by = None, tm_invitation_token_hash = None,
      tm_invitation_expires_at = None, tm_created_at = now, tm_updated_at = now\<rparr>"

definition membership_is_home :: "tenant_membership \<Rightarrow> bool" where
  "membership_is_home m = (tm_membership_type m = Home)"

definition membership_is_active :: "tenant_membership \<Rightarrow> bool" where
  "membership_is_active m = (tm_status m = MemberActive)"

datatype audit_event_type =
    LoginSucceeded | LoginFailed | LoginLocked | AuthorizationCodeIssued | AuthorizationCodeUsed
  | AuthorizationCodeReuseDetected | TokenIssued | ClientAuthenticationFailed
  | SsoSessionCreated | SsoSessionResumed | SsoSessionExpired | SsoSessionTerminated
  | UserPermissionGranted | UserPermissionRevoked
  | ClientRegistered | ClientUpdated | ClientSecretRotated
  | RefreshTokenIssued | RefreshTokenUsed | RefreshTokenReuseDetected
  | ConsentGranted | ConsentDenied
  | TenantInvitationCreated | TenantInvitationAccepted | TenantMembershipRevoked
  | UserCreated | UserStatusChanged | UserDeleted | UserPasswordReset | PasswordChanged
  | TenantCreated | TenantUpdated | TenantDeleted | SystemSettingsUpdated
  | PasswordResetRequested | PasswordResetCompleted | EmailVerificationRequested | EmailVerified

datatype audit_result = AuditSuccess | AuditFailure

record audit_event =
  ae_event_type :: audit_event_type
  ae_occurred_at :: instant
  ae_tenant_id :: "tenant_id option"
  ae_user_id :: "uuid option"
  ae_client_id :: "string option"
  ae_ip_address :: "string option"
  ae_user_agent :: "string option"
  ae_result :: audit_result
  ae_reason :: "string option"
  ae_correlation_id :: string

text \<open>
  \<^verbatim>\<open>domain/tenant.rs\<close>. The parent is where the tenant was created; only the root has none.
\<close>

record tenant =
  t_id :: tenant_id
  t_parent_tenant_id :: "tenant_id option"
  t_name :: string
  t_status :: tenant_status
  t_self_registration_enabled :: bool
  t_created_at :: instant
  t_updated_at :: instant

definition tenant_is_root :: "tenant \<Rightarrow> bool" where
  "tenant_is_root t = (t_parent_tenant_id t = None)"

definition tenant_is_active :: "tenant \<Rightarrow> bool" where
  "tenant_is_active t = (t_status t = TenantActive)"

text \<open>A row of \<^verbatim>\<open>user_permissions\<close>: the user holds the code in the scope of the tenant.\<close>

record user_permission =
  up_user_id :: uuid
  up_permission_code :: string
  up_tenant_id :: tenant_id
  up_granted_at :: instant

text \<open>
  \<^verbatim>\<open>PasswordResetToken\<close> and \<^verbatim>\<open>EmailVerificationToken\<close> have the same fields; the database keeps the
  hash of the token that was mailed.
\<close>

record link_token =
  lt_token_hash :: string
  lt_user_id :: uuid
  lt_expires_at :: instant
  lt_used_at :: "instant option"
  lt_created_at :: instant

type_synonym password_reset_token = link_token
type_synonym email_verification_token = link_token

record system_setting =
  set_key :: string
  set_value :: string
  set_is_secret :: bool

record webauthn_credential =
  wc_id :: uuid
  wc_user_id :: uuid
  wc_credential_id :: string
  wc_passkey_json :: string
  wc_name :: string
  wc_created_at :: instant
  wc_last_used_at :: "instant option"

datatype passkey_challenge_type = Register | Authenticate

record passkey_challenge =
  pc_id :: uuid
  pc_user_id :: "uuid option"
  pc_challenge_type :: passkey_challenge_type
  pc_state_json :: string
  pc_auth_session_id :: "string option"
  pc_expires_at :: instant
  pc_created_at :: instant

record saml_service_provider =
  sp_id :: uuid
  sp_tenant_id :: tenant_id
  sp_display_name :: string
  sp_entity_id :: string
  sp_acs_url :: string
  sp_name_id_format :: string
  sp_x509_certificate :: "string option"
  sp_enabled :: bool
  sp_created_at :: instant
  sp_updated_at :: instant

text \<open>\<^verbatim>\<open>domain/mailer.rs\<close>\<close>

record smtp_server_config =
  smtp_host :: string
  smtp_port :: "nat option"
  smtp_username :: string
  smtp_password :: string
  smtp_from_address :: string
  smtp_use_tls :: bool

record outgoing_email =
  mail_to :: string
  mail_subject :: string
  mail_body_text :: string

section \<open>What the predicates mean\<close>

lemma allows_redirect_uri_iff [simp]: "allows_redirect_uri c uri \<longleftrightarrow> uri \<in> set (c_redirect_uris c)"
  by (auto simp: allows_redirect_uri_def list_ex_iff)

lemma allows_post_logout_redirect_uri_iff [simp]:
  "allows_post_logout_redirect_uri c uri \<longleftrightarrow> uri \<in> set (c_post_logout_redirect_uris c)"
  by (auto simp: allows_post_logout_redirect_uri_def list_ex_iff)

lemma allows_scopes_iff [simp]: "allows_scopes c ss \<longleftrightarrow> set ss \<subseteq> set (c_scopes c)"
  by (auto simp: allows_scopes_def list_all_iff)

lemma consent_covers_iff [simp]: "consent_covers c ss \<longleftrightarrow> set ss \<subseteq> set (cc_scopes c)"
  by (auto simp: consent_covers_def list_all_iff)

lemmas entity_predicates =
  user_is_active_def client_is_active_def auth_session_is_expired_at_def sso_is_valid_at_def
  code_is_used_def code_is_expired_at_def refresh_is_revoked_def refresh_is_expired_at_def
  refresh_is_valid_at_def totp_is_confirmed_def membership_is_active_def

end
