(* ===== verification/World.thy ===== *)
theory World
  imports Entities
begin

text \<open>
  The state the services work on and the primitive effects they have. A \<open>world\<close> holds the
  database (one list of rows per table), what the process keeps in memory (rate limiters, caches),
  the mail that was sent, and what the environment will supply: the readings of the clocks, the
  random numbers, and the faults of the database connection and of mail delivery, each as a
  sequence that is consumed from the front. Nothing is assumed of these
  sequences, so a theorem that quantifies over worlds holds for every behaviour of the
  environment.

  The third-party crates and MariaDB's collation are the record \<open>libs\<close>; every definition that
  calls one of them takes it as its first argument. The service configuration is the record
  \<open>config\<close>.
\<close>

section \<open>Token claims\<close>

record id_token_claims =
  id_iss :: string
  id_sub :: string
  id_aud :: string
  id_exp :: int
  id_iat :: int
  id_auth_time :: int
  id_nonce :: string
  id_jti :: string
  id_email :: "string option"
  id_email_verified :: "bool option"
  id_preferred_username :: "string option"
  id_name :: "string option"

record access_token_claims =
  at_iss :: string
  at_sub :: string
  at_aud :: string
  at_client_id :: string
  at_scope :: string
  at_exp :: int
  at_iat :: int
  at_jti :: string

datatype jwt_claims = IdClaims id_token_claims | AccessClaims access_token_claims

section \<open>Third-party code\<close>

text \<open>
  \<^item> sha2, hmac, hex, base64: \<open>sha256\<close>, \<open>hmac_sha256\<close>, \<open>hex_encode\<close>, the base64 codecs
    (\<open>Inl\<close> is the decoding error's text);
  \<^item> aes-gcm: \<open>gcm_encrypt\<close> and \<open>gcm_decrypt\<close> of key, nonce and text;
  \<^item> argon2: \<open>argon2_hash\<close> of salt and password, \<open>argon2_parse_error\<close> (the error of reading a
    stored hash, if any), \<open>argon2_verify\<close>;
  \<^item> uuid: printing and parsing; url: \<open>url_append\<close> parses a URL (\<open>None\<close> when that fails) and appends
    query pairs; percent-encoding;
  \<^item> chrono: \<open>format_ymd\<close> and \<open>from_timestamp\<close>;
  \<^item> serde\_json: \<open>json_jti_exp\<close> reads the string member \<open>jti\<close> and the integer member \<open>exp\<close> of a JSON
    value, \<open>None\<close> when the text is not JSON;
  \<^item> totp-rs: \<open>totp_error\<close> (the error of \<open>TOTP::new\<close> on a secret, if any), \<open>totp_check\<close>,
    \<open>totp_url\<close>, \<open>base32\<close>;
  \<^item> jsonwebtoken: loading of PEM keys, \<open>jwt_encode\<close> of algorithm, typ, kid, claims and key,
    \<open>jwt_header\<close> (typ and kid of a token), \<open>jwt_decode\<close> of token, key and required algorithm,
    with expiry and audience checks switched off as the services do;
  \<^item> rsa, p256: key generation from random bytes, and the public components of a PEM;
  \<^item> url: \<open>url_parse\<close> gives scheme, host and fragment of a URL that parses;
  \<^item> lettre: \<open>mailbox_error\<close>, \<open>message_error\<close> and \<open>tls_error\<close>, the errors of reading an address, building
    a message and building the TLS parameters of a host; sending is part of the world;
  \<^item> webauthn-rs, whose values are their JSON texts (\<open>Inl\<close> when serde cannot write one): the begin
    functions take random bytes and give the options for the browser and the state to keep, the
    finish functions take the browser's response and the state, and \<open>wa_update_credential\<close> gives the
    changed passkey if the result of an authentication changes it; \<open>wa_cred_id\<close> is the id of a passkey,
    \<open>wa_response_id\<close> the id in a response (\<open>None\<close> when it does not parse), and the \<open>_error\<close> functions are
    the errors of reading the JSON of a value;
  \<^item> MariaDB: \<open>collate\<close> maps a string to its key under \<^verbatim>\<open>utf8mb4_unicode_ci\<close>, the collation of every
    string column; \<open>duplicate_entry\<close>, \<open>check_violation\<close> and \<open>foreign_key_violation\<close> are the texts of a
    duplicate-key error, of a violated CHECK constraint and of a violated foreign key.
\<close>

record libs =
  sha256 :: "string \<Rightarrow> string"
  hmac_sha256 :: "string \<Rightarrow> string \<Rightarrow> string"
  hex_encode :: "string \<Rightarrow> string"
  b64url_encode :: "string \<Rightarrow> string"
  b64url_decode :: "string \<Rightarrow> string option"
  b64std_encode :: "string \<Rightarrow> string"
  b64std_decode :: "string \<Rightarrow> string + string"
  gcm_encrypt :: "string \<Rightarrow> string \<Rightarrow> string \<Rightarrow> string option"
  gcm_decrypt :: "string \<Rightarrow> string \<Rightarrow> string \<Rightarrow> string option"
  argon2_hash :: "string \<Rightarrow> string \<Rightarrow> string + string"
  argon2_parse_error :: "string \<Rightarrow> string option"
  argon2_verify :: "string \<Rightarrow> string \<Rightarrow> bool"
  uuid_to_string :: "uuid \<Rightarrow> string"
  uuid_parse :: "string \<Rightarrow> uuid option"
  url_append :: "string \<Rightarrow> (string \<times> string) list \<Rightarrow> string option"
  percent_encode :: "string \<Rightarrow> string"
  format_ymd :: "instant \<Rightarrow> string"
  from_timestamp :: "int \<Rightarrow> instant option"
  json_jti_exp :: "string \<Rightarrow> (string option \<times> int option) option"
  totp_error :: "string \<Rightarrow> string option"
  totp_check :: "string \<Rightarrow> string \<Rightarrow> instant \<Rightarrow> string + bool"
  totp_url :: "string \<Rightarrow> string \<Rightarrow> string \<Rightarrow> string + string"
  base32 :: "string \<Rightarrow> string"
  rsa_encoding_key :: "string \<Rightarrow> string + string"
  ec_encoding_key :: "string \<Rightarrow> string + string"
  rsa_decoding_key :: "string \<Rightarrow> string + string"
  jwt_encode :: "signing_algorithm \<Rightarrow> string \<Rightarrow> string \<Rightarrow> jwt_claims \<Rightarrow> string \<Rightarrow> string + string"
  jwt_header :: "string \<Rightarrow> (string option \<times> string option) option"
  jwt_decode :: "string \<Rightarrow> string \<Rightarrow> signing_algorithm \<Rightarrow> access_token_claims option"
  rsa_keygen :: "string \<Rightarrow> string + (string \<times> string)"
  ec_keygen :: "string \<Rightarrow> string + (string \<times> string)"
  rsa_components :: "string \<Rightarrow> string + (string \<times> string)"
  ec_point :: "string \<Rightarrow> string + (string option \<times> string option)"
  hex_decode :: "string \<Rightarrow> string option"
  to_rfc3339 :: "instant \<Rightarrow> string"
  url_parse :: "string \<Rightarrow> (string \<times> string option \<times> string option) option"
  mailbox_error :: "string \<Rightarrow> string option"
  message_error :: "outgoing_email \<Rightarrow> string option"
  tls_error :: "string \<Rightarrow> string option"
  wa_begin_registration ::
    "uuid \<Rightarrow> string \<Rightarrow> string \<Rightarrow> string list option \<Rightarrow> string \<Rightarrow> string + ((string + string) \<times> (string + string))"
  wa_finish_registration :: "string \<Rightarrow> string \<Rightarrow> string + (string + string)"
  wa_begin_authentication :: "string \<Rightarrow> string + ((string + string) \<times> (string + string))"
  wa_finish_authentication :: "string \<Rightarrow> string \<Rightarrow> string \<Rightarrow> string option"
  wa_update_credential :: "string \<Rightarrow> string \<Rightarrow> (string + string) option"
  wa_cred_id :: "string \<Rightarrow> string"
  wa_passkey_error :: "string \<Rightarrow> string option"
  wa_registration_error :: "string \<Rightarrow> string option"
  wa_authentication_error :: "string \<Rightarrow> string option"
  wa_register_response_error :: "string \<Rightarrow> string option"
  wa_response_id :: "string \<Rightarrow> string option"
  collate :: "string \<Rightarrow> string"
  duplicate_entry :: string
  check_violation :: string
  foreign_key_violation :: string

text \<open>Equality of string columns in MariaDB.\<close>

definition db_eq :: "libs \<Rightarrow> string \<Rightarrow> string \<Rightarrow> bool" where
  "db_eq E a b = (collate E a = collate E b)"

lemma db_eq_refl [simp]: "db_eq E a a"
  by (simp add: db_eq_def)

lemma db_eq_sym: "db_eq E a b \<Longrightarrow> db_eq E b a"
  by (simp add: db_eq_def)

lemma db_eq_trans: "db_eq E a b \<Longrightarrow> db_eq E b c \<Longrightarrow> db_eq E a c"
  by (simp add: db_eq_def)

text \<open>
  The time-to-live settings. The services convert all but the first two to \<open>chrono::Duration\<close>; a
  setting outside chrono's range makes that conversion panic, so the model holds the converted
  value.
\<close>

record config =
  access_token_ttl :: u64
  id_token_ttl :: u64
  refresh_token_ttl :: duration
  authorization_code_ttl :: duration
  auth_session_ttl :: duration
  sso_idle_ttl :: duration
  sso_absolute_ttl :: duration
  clock_skew :: duration
  base_issuer :: string
  csrf_secret :: string
  key_encryption_key :: string
  rate_max_attempts :: nat
  rate_window :: duration
  reset_ttl :: duration
  verification_ttl :: duration
  invitation_ttl :: duration
  tenant_cache_ttl :: duration
  permission_cache_ttl :: duration
  console_base_url :: string

section \<open>The world\<close>

record database =
  db_users :: "user list"
  db_clients :: "client list"
  db_memberships :: "tenant_membership list"
  db_auth_sessions :: "auth_session list"
  db_sso_sessions :: "sso_session list"
  db_codes :: "authorization_code list"
  db_refresh_tokens :: "refresh_token list"
  db_consents :: "client_consent list"
  db_revoked_tokens :: "revoked_access_token list"
  db_signing_keys :: "signing_key list"
  db_totp_secrets :: "totp_secret list"
  db_tenants :: "tenant list"
  db_permissions :: "string list"
  db_user_permissions :: "user_permission list"
  db_reset_tokens :: "password_reset_token list"
  db_verification_tokens :: "email_verification_token list"
  db_system_settings :: "system_setting list"
  db_credentials :: "webauthn_credential list"
  db_challenges :: "passkey_challenge list"
  db_service_providers :: "saml_service_provider list"
  db_audit_log :: "audit_event list"

text \<open>
  \<open>fault_src\<close> says for each call to the database whether it fails: a lost connection, a violated
  foreign key or check, a value too long for its column, a row that does not decode. \<open>True\<close> means
  that the statement had taken effect before the error was reported.
\<close>

datatype smtp_tls = TlsNone | TlsWrapper | TlsRequired

record smtp_transport =
  tr_host :: string
  tr_port :: "nat option"
  tr_tls :: smtp_tls
  tr_credentials :: "(string \<times> string) option"

text \<open>
  \<open>attempts\<close>, \<open>reset_attempts\<close> and \<open>register_attempts\<close> are the maps of the three rate limiters;
  \<open>tenant_cache\<close> and \<open>permission_cache\<close> the entries of the two TTL caches, a value with its expiry;
  \<open>outbox\<close> the messages the SMTP servers have accepted, and \<open>mail_src\<close> the errors of the deliveries.
\<close>

record world =
  db :: database
  attempts :: "string \<Rightarrow> instant list option"
  reset_attempts :: "string \<Rightarrow> instant list option"
  register_attempts :: "string \<Rightarrow> instant list option"
  tenant_cache :: "tenant_id \<Rightarrow> (tenant \<times> instant) option"
  permission_cache :: "tenant_id \<times> uuid \<times> string \<Rightarrow> (bool \<times> instant) option"
  outbox :: "(smtp_transport \<times> outgoing_email) list"
  mail_src :: "nat \<Rightarrow> string option"
  mails :: nat
  clock_src :: "nat \<Rightarrow> instant"
  ticks :: nat
  bytes_src :: "nat \<Rightarrow> nat \<Rightarrow> string"
  uuid_src :: "nat \<Rightarrow> uuid"
  draws :: nat
  fault_src :: "nat \<Rightarrow> (domain_error \<times> bool) option"
  db_calls :: nat

definition clock_now :: "(world, instant) state" where
  "clock_now = State (\<lambda>w. (clock_src w (ticks w), w\<lparr>ticks := Suc (ticks w)\<rparr>))"

definition random_bytes :: "nat \<Rightarrow> (world, string) state" where
  "random_bytes n = State (\<lambda>w. (bytes_src w (draws w) n, w\<lparr>draws := Suc (draws w)\<rparr>))"

definition new_v4 :: "(world, uuid) state" where
  "new_v4 = State (\<lambda>w. (uuid_src w (draws w), w\<lparr>draws := Suc (draws w)\<rparr>))"

text \<open>
  One SQL statement. It sees the database server's own clock and the tables, and gives a result
  and the tables after it.
\<close>

definition db_call ::
  "(instant \<Rightarrow> database \<Rightarrow> (domain_error + 'a) \<times> database) \<Rightarrow> (world, domain_error + 'a) state" where
  "db_call f = State (\<lambda>w.
     let (r, d) = f (clock_src w (ticks w)) (db w);
         w' = w\<lparr>ticks := Suc (ticks w), db_calls := Suc (db_calls w)\<rparr>
     in case fault_src w (db_calls w) of
          None \<Rightarrow> (r, w'\<lparr>db := d\<rparr>)
        | Some (e, applied) \<Rightarrow> (Inl e, if applied then w'\<lparr>db := d\<rparr> else w'))"

definition db_query :: "(instant \<Rightarrow> database \<Rightarrow> 'a) \<Rightarrow> (world, domain_error + 'a) state" where
  "db_query q = db_call (\<lambda>now d. (Inr (q now d), d))"

definition db_execute :: "(instant \<Rightarrow> database \<Rightarrow> database) \<Rightarrow> (world, domain_error + unit) state" where
  "db_execute u = db_call (\<lambda>now d. (Inr (), u now d))"

text \<open>A \<open>DATETIME(6)\<close> column and a bound time parameter keep microseconds.\<close>

definition micros :: "instant \<Rightarrow> instant" where
  "micros t = t div 1000 * 1000"

lemma micros_le: "micros t \<le> t"
  by (simp add: micros_def minus_mod_eq_div_mult [symmetric])

lemma micros_gt: "t < micros t + 1000"
proof -
  have "t = micros t + t mod 1000" by (simp add: micros_def)
  moreover have "t mod 1000 < 1000" by simp
  ultimately show ?thesis by linarith
qed

lemma micros_mono: "s \<le> t \<Longrightarrow> micros s \<le> micros t"
  by (simp add: micros_def zdiv_mono1)

lemma micros_micros [simp]: "micros (micros t) = micros t"
  by (simp add: micros_def)

lemma micros_less_imp: "micros s < micros t \<Longrightarrow> s < t"
  using micros_mono [of t s] by linarith

text \<open>An \<open>INSERT\<close> that fails when a row with the same key is there.\<close>

definition insert_row :: "libs \<Rightarrow> ('r \<Rightarrow> bool) \<Rightarrow> 'r \<Rightarrow> 'r list \<Rightarrow> (domain_error + unit) \<times> 'r list" where
  "insert_row E same row rows =
     (if list_ex same rows then (Inl (Repository (duplicate_entry E)), rows)
      else (Inr (), rows @ [row]))"

section \<open>Frames\<close>

text \<open>
  What an operation leaves alone. \<open>frame T\<close> says that the part \<open>T\<close> of the database is the same
  before and after; \<open>same_env\<close> that the environment's sequences are. Both are kept relations.
\<close>

definition frame :: "(database \<Rightarrow> 'b) \<Rightarrow> world \<Rightarrow> world \<Rightarrow> bool" where
  "frame T w w' \<longleftrightarrow> T (db w') = T (db w)"

definition same_env :: "world \<Rightarrow> world \<Rightarrow> bool" where
  "same_env w w' \<longleftrightarrow> clock_src w' = clock_src w \<and> bytes_src w' = bytes_src w \<and>
     uuid_src w' = uuid_src w \<and> fault_src w' = fault_src w \<and> mail_src w' = mail_src w \<and>
     ticks w \<le> ticks w' \<and> draws w \<le> draws w' \<and> db_calls w \<le> db_calls w'"

definition same_attempts :: "world \<Rightarrow> world \<Rightarrow> bool" where
  "same_attempts w w' \<longleftrightarrow> attempts w' = attempts w"

interpretation frame: kept "frame T" for T
  by unfold_locales (auto simp: frame_def)

interpretation env: kept same_env
  by unfold_locales (auto simp: same_env_def)

interpretation att: kept same_attempts
  by unfold_locales (auto simp: same_attempts_def)

lemma frame_db_call:
  "(\<And>now d. T (snd (f now d)) = T d) \<Longrightarrow> always (frame T) (db_call f)"
  by (rule alwaysI)
     (auto simp: db_call_def wp_State frame_def Let_def case_prod_beta split: option.splits)

lemma frame_db_query: "always (frame T) (db_query q)"
  unfolding db_query_def by (rule frame_db_call) simp

lemma frame_db_execute: "(\<And>now d. T (u now d) = T d) \<Longrightarrow> always (frame T) (db_execute u)"
  unfolding db_execute_def by (rule frame_db_call) simp

lemma frame_clock_now: "always (frame T) clock_now"
  by (rule alwaysI) (simp add: clock_now_def wp_State frame_def)

lemma frame_random_bytes: "always (frame T) (random_bytes n)"
  by (rule alwaysI) (simp add: random_bytes_def wp_State frame_def)

lemma frame_new_v4: "always (frame T) new_v4"
  by (rule alwaysI) (simp add: new_v4_def wp_State frame_def)

lemmas frame_prims = frame_db_query frame_clock_now frame_random_bytes frame_new_v4

lemma env_db_call: "always same_env (db_call f)"
  by (rule alwaysI)
     (auto simp: db_call_def wp_State same_env_def Let_def split: prod.splits option.splits)

lemma env_prims:
  "always same_env (db_query q)" "always same_env (db_execute u)" "always same_env clock_now"
  "always same_env (random_bytes n)" "always same_env new_v4"
  by (auto simp: db_query_def db_execute_def env_db_call,
      auto intro!: alwaysI simp: clock_now_def random_bytes_def new_v4_def wp_State same_env_def)

lemma att_db_call: "always same_attempts (db_call f)"
  by (rule alwaysI)
     (auto simp: db_call_def wp_State same_attempts_def Let_def split: prod.splits option.splits)

section \<open>Reading a run of a primitive\<close>

text \<open>The world after one reading of a clock, one random draw, one call to the database.\<close>

definition tick :: "world \<Rightarrow> world" where
  "tick w = w\<lparr>ticks := Suc (ticks w)\<rparr>"

definition draw :: "world \<Rightarrow> world" where
  "draw w = w\<lparr>draws := Suc (draws w)\<rparr>"

definition called :: "world \<Rightarrow> world" where
  "called w = w\<lparr>ticks := Suc (ticks w), db_calls := Suc (db_calls w)\<rparr>"

lemma db_counters [simp]:
  "db (tick w) = db w" "db (draw w) = db w" "db (called w) = db w"
  by (simp_all add: tick_def draw_def called_def)

lemma attempts_counters [simp]:
  "attempts (tick w) = attempts w" "attempts (draw w) = attempts w" "attempts (called w) = attempts w"
  by (simp_all add: tick_def draw_def called_def)

lemma src_counters [simp]:
  "clock_src (tick w) = clock_src w" "clock_src (draw w) = clock_src w" "clock_src (called w) = clock_src w"
  "bytes_src (tick w) = bytes_src w" "bytes_src (draw w) = bytes_src w" "bytes_src (called w) = bytes_src w"
  "uuid_src (tick w) = uuid_src w" "uuid_src (draw w) = uuid_src w" "uuid_src (called w) = uuid_src w"
  "fault_src (tick w) = fault_src w" "fault_src (draw w) = fault_src w" "fault_src (called w) = fault_src w"
  by (simp_all add: tick_def draw_def called_def)

lemma counters_counters [simp]:
  "ticks (tick w) = Suc (ticks w)" "ticks (draw w) = ticks w" "ticks (called w) = Suc (ticks w)"
  "draws (tick w) = draws w" "draws (draw w) = Suc (draws w)" "draws (called w) = draws w"
  "db_calls (tick w) = db_calls w" "db_calls (draw w) = db_calls w"
  "db_calls (called w) = Suc (db_calls w)"
  by (simp_all add: tick_def draw_def called_def)

lemma run_db_call_Inr:
  "run_state (db_call f) w = (Inr a, w') \<longleftrightarrow>
   fault_src w (db_calls w) = None \<and>
   (\<exists>d. f (clock_src w (ticks w)) (db w) = (Inr a, d) \<and> w' = (called w)\<lparr>db := d\<rparr>)"
  by (auto simp: db_call_def called_def Let_def split: prod.splits option.splits)

lemma run_db_query_Inr [run_rules]:
  "run_state (db_query q) w = (Inr a, w') \<longleftrightarrow>
   fault_src w (db_calls w) = None \<and> q (clock_src w (ticks w)) (db w) = a \<and> w' = called w"
  by (auto simp: db_query_def run_db_call_Inr called_def)

lemma run_db_query_Inl [run_rules]:
  "run_state (db_query q) w = (Inl e, w') \<longleftrightarrow>
   (\<exists>b. fault_src w (db_calls w) = Some (e, b)) \<and> w' = called w"
  by (auto simp: db_query_def db_call_def called_def Let_def split: option.splits)

lemma run_db_execute_Inr [run_rules]:
  "run_state (db_execute u) w = (Inr a, w') \<longleftrightarrow>
   fault_src w (db_calls w) = None \<and> w' = (called w)\<lparr>db := u (clock_src w (ticks w)) (db w)\<rparr>"
  by (auto simp: db_execute_def run_db_call_Inr)

lemma run_db_execute_Inl [run_rules]:
  "run_state (db_execute u) w = (Inl e, w') \<longleftrightarrow>
   (\<exists>b. fault_src w (db_calls w) = Some (e, b) \<and>
        w' = (called w)\<lparr>db := if b then u (clock_src w (ticks w)) (db w) else db w\<rparr>)"
  by (auto simp: db_execute_def db_call_def called_def Let_def split: option.splits)

lemma run_clock_now [run_rules]:
  "run_state clock_now w = (t, w') \<longleftrightarrow> t = clock_src w (ticks w) \<and> w' = tick w"
  by (auto simp: clock_now_def tick_def)

lemma run_random_bytes [run_rules]:
  "run_state (random_bytes n) w = (b, w') \<longleftrightarrow> b = bytes_src w (draws w) n \<and> w' = draw w"
  by (auto simp: random_bytes_def draw_def)

lemma run_new_v4 [run_rules]:
  "run_state new_v4 w = (u, w') \<longleftrightarrow> u = uuid_src w (draws w) \<and> w' = draw w"
  by (auto simp: new_v4_def draw_def)

section \<open>The audit service\<close>

record request_context =
  correlation_id :: string
  ip_address :: "string option"
  user_agent :: "string option"

text \<open>
  \<open>AuditService::record\<close> writes one row and ignores the outcome; \<open>audit_sink_record\<close> is the INSERT of
  \<^verbatim>\<open>SqlxAuditLogSink\<close>.
\<close>

definition audit_sink_record :: "audit_event \<Rightarrow> (world, domain_error + unit) state" where
  "audit_sink_record e = db_execute (\<lambda>_ d.
     d\<lparr>db_audit_log := db_audit_log d @ [e\<lparr>ae_occurred_at := micros (ae_occurred_at e)\<rparr>]\<rparr>)"

definition audit_record ::
  "audit_event_type \<Rightarrow> audit_result \<Rightarrow> tenant_id option \<Rightarrow> uuid option \<Rightarrow> string option \<Rightarrow>
   string option \<Rightarrow> request_context \<Rightarrow> (world, unit) state" where
  "audit_record event_type result tenant_id user_id client_id reason ctx = do {
     occurred_at \<leftarrow> clock_now;
     _ \<leftarrow> audit_sink_record
       \<lparr>ae_event_type = event_type, ae_occurred_at = occurred_at, ae_tenant_id = tenant_id,
        ae_user_id = user_id, ae_client_id = client_id, ae_ip_address = ip_address ctx,
        ae_user_agent = user_agent ctx, ae_result = result, ae_reason = reason,
        ae_correlation_id = correlation_id ctx\<rparr>;
     State_Monad.return ()
   }"

lemma frame_audit:
  "(\<And>d l. T (d\<lparr>db_audit_log := l\<rparr>) = T d) \<Longrightarrow> always (frame T) (audit_record t r i u c m ctx)"
  unfolding audit_record_def audit_sink_record_def
  by (intro frame.always_rules frame_db_execute frame_clock_now) simp

text \<open>The tables other than the audit log, as one value.\<close>

definition tables :: "database \<Rightarrow> database" where
  "tables d = d\<lparr>db_audit_log := []\<rparr>"

lemma run_audit:
  "run_state (audit_record t r i u c m ctx) w = (x, w') \<Longrightarrow>
   tables (db w') = tables (db w) \<and> attempts w' = attempts w"
  by (auto simp: audit_record_def audit_sink_record_def run_bindE run_returnE run_clock_now
        db_execute_def db_call_def tables_def tick_def Let_def split: option.splits if_splits)

lemma run_audit_clock:
  "run_state (audit_record t r i u c m ctx) w = (x, w') \<Longrightarrow>
   ticks w' = ticks w + 2 \<and> clock_src w' = clock_src w"
  by (auto simp: audit_record_def audit_sink_record_def run_bindE run_returnE run_clock_now
        db_execute_def db_call_def tick_def Let_def split: option.splits if_splits)

text \<open>
  A reading of the clock in the course of a run: what the statements on liveness and expiry are about is
  always one of them.
\<close>

definition clock_reading :: "world \<Rightarrow> world \<Rightarrow> instant \<Rightarrow> bool" where
  "clock_reading w w' t \<longleftrightarrow> (\<exists>n. ticks w \<le> n \<and> n < ticks w' \<and> t = clock_src w n)"

lemma clock_readingI: "ticks w \<le> n \<Longrightarrow> n < ticks w' \<Longrightarrow> clock_reading w w' (clock_src w n)"
  by (auto simp: clock_reading_def)

lemma clock_reading_earlier:
  assumes "clock_reading u v t" and "clock_src u = clock_src w" and "ticks w \<le> ticks u"
  shows "clock_reading w v t"
  using assms unfolding clock_reading_def by (metis order_trans)

lemma clock_reading_within:
  assumes "clock_reading u v t" and "same_env w u" and "same_env v w'"
  shows "clock_reading w w' t"
  using assms clock_reading_earlier [of u v t w]
  by (auto simp: clock_reading_def same_env_def intro: order_less_le_trans)

lemma tables_eq_iff [sql_simps]:
  "tables d = tables d' \<longleftrightarrow>
     db_users d = db_users d' \<and> db_clients d = db_clients d' \<and>
     db_memberships d = db_memberships d' \<and> db_auth_sessions d = db_auth_sessions d' \<and>
     db_sso_sessions d = db_sso_sessions d' \<and> db_codes d = db_codes d' \<and>
     db_refresh_tokens d = db_refresh_tokens d' \<and> db_consents d = db_consents d' \<and>
     db_revoked_tokens d = db_revoked_tokens d' \<and> db_signing_keys d = db_signing_keys d' \<and>
     db_totp_secrets d = db_totp_secrets d' \<and> db_tenants d = db_tenants d' \<and>
     db_permissions d = db_permissions d' \<and> db_user_permissions d = db_user_permissions d' \<and>
     db_reset_tokens d = db_reset_tokens d' \<and> db_verification_tokens d = db_verification_tokens d' \<and>
     db_system_settings d = db_system_settings d' \<and> db_credentials d = db_credentials d' \<and>
     db_challenges d = db_challenges d' \<and> db_service_providers d = db_service_providers d'"
  by (cases d; cases d') (auto simp: tables_def)

end
