(* ===== verification/Repositories.thy ===== *)
theory Repositories
  imports World
begin

text \<open>
  The sqlx repositories of \<^verbatim>\<open>infrastructure/repositories/\<close>. A method is the sequence of the SQL
  statements it sends; each statement is one \<open>db_call\<close>, so that two requests interleave between
  the statements of one method as they do in the program. String columns are compared with
  \<open>db_eq\<close>, UUID columns with equality, times with the precision of the column. Rows have the
  creation time the database gives them; \<open>updated_at\<close> is modelled only where a statement sets it.
\<close>

section \<open>Users\<close>

definition users_find_by_id :: "uuid \<Rightarrow> (world, domain_error + user option) state" where
  "users_find_by_id i = db_query (\<lambda>_ d. find (\<lambda>u. u_id u = i) (db_users d))"

definition users_find_by_sub :: "uuid \<Rightarrow> (world, domain_error + user option) state" where
  "users_find_by_sub sub = db_query (\<lambda>_ d. find (\<lambda>u. u_sub u = sub) (db_users d))"

definition users_find_by_email ::
  "libs \<Rightarrow> tenant_id \<Rightarrow> string \<Rightarrow> (world, domain_error + user option) state" where
  "users_find_by_email E tenant_id email =
     db_query (\<lambda>_ d. find (\<lambda>u. u_tenant_id u = tenant_id \<and> db_eq E (u_email u) email) (db_users d))"

definition has_username :: "libs \<Rightarrow> string \<Rightarrow> user \<Rightarrow> bool" where
  "has_username E name u =
     (case u_preferred_username u of Some n \<Rightarrow> db_eq E n name | None \<Rightarrow> False)"

definition users_find_by_username ::
  "libs \<Rightarrow> tenant_id \<Rightarrow> string \<Rightarrow> (world, domain_error + user option) state" where
  "users_find_by_username E tenant_id username =
     db_query (\<lambda>_ d. find (\<lambda>u. u_tenant_id u = tenant_id \<and> has_username E username u) (db_users d))"

definition update_user :: "uuid \<Rightarrow> (user \<Rightarrow> user) \<Rightarrow> (world, domain_error + unit) state" where
  "update_user i f =
     db_execute (\<lambda>_ d. d\<lparr>db_users := update_where (\<lambda>u. u_id u = i) f (db_users d)\<rparr>)"

definition users_update_login_state ::
  "uuid \<Rightarrow> int \<Rightarrow> instant option \<Rightarrow> (world, domain_error + unit) state" where
  "users_update_login_state i failed_login_count locked_until =
     update_user i (\<lambda>u. u\<lparr>u_failed_login_count := failed_login_count,
                          u_locked_until := map_option micros locked_until\<rparr>)"

definition users_update_password :: "uuid \<Rightarrow> string \<Rightarrow> (world, domain_error + unit) state" where
  "users_update_password i password_hash =
     update_user i (\<lambda>u. u\<lparr>u_password_hash := password_hash, u_must_change_password := False\<rparr>)"

definition users_reset_password_forced :: "uuid \<Rightarrow> string \<Rightarrow> (world, domain_error + unit) state" where
  "users_reset_password_forced i password_hash =
     update_user i (\<lambda>u. u\<lparr>u_password_hash := password_hash, u_must_change_password := True\<rparr>)"

definition users_update_status :: "uuid \<Rightarrow> user_status \<Rightarrow> (world, domain_error + unit) state" where
  "users_update_status i status = update_user i (\<lambda>u. u\<lparr>u_status := status\<rparr>)"

definition users_mark_email_verified :: "uuid \<Rightarrow> (world, domain_error + unit) state" where
  "users_mark_email_verified i = update_user i (\<lambda>u. u\<lparr>u_email_verified := True\<rparr>)"

definition users_update_language :: "uuid \<Rightarrow> string option \<Rightarrow> (world, domain_error + unit) state" where
  "users_update_language i language = update_user i (\<lambda>u. u\<lparr>u_language := language\<rparr>)"

definition users_update_name :: "uuid \<Rightarrow> string option \<Rightarrow> (world, domain_error + unit) state" where
  "users_update_name i name = update_user i (\<lambda>u. u\<lparr>u_name := name\<rparr>)"

section \<open>Clients\<close>

definition clients_find_by_client_id ::
  "libs \<Rightarrow> tenant_id \<Rightarrow> string \<Rightarrow> (world, domain_error + client option) state" where
  "clients_find_by_client_id E tenant_id client_id =
     db_query (\<lambda>_ d. find (\<lambda>c. c_tenant_id c = tenant_id \<and> db_eq E (c_client_id c) client_id)
                          (db_clients d))"

definition clients_list :: "tenant_id \<Rightarrow> (world, domain_error + client list) state" where
  "clients_list tenant_id =
     db_query (\<lambda>_ d. sort_key (\<lambda>c. - c_created_at c)
                       (filter (\<lambda>c. c_tenant_id c = tenant_id) (db_clients d)))"

section \<open>Tenant memberships\<close>

definition memberships_is_active_member ::
  "tenant_id \<Rightarrow> uuid \<Rightarrow> (world, domain_error + bool) state" where
  "memberships_is_active_member tenant_id user_id =
     db_query (\<lambda>_ d. list_ex (\<lambda>m. tm_tenant_id m = tenant_id \<and> tm_user_id m = user_id \<and>
                                  tm_status m = MemberActive) (db_memberships d))"

section \<open>Authorization sessions\<close>

definition auth_sessions_create :: "libs \<Rightarrow> auth_session \<Rightarrow> (world, domain_error + unit) state" where
  "auth_sessions_create E s = db_call (\<lambda>now d.
     let (r, rows) = insert_row E (\<lambda>x. db_eq E (as_id x) (as_id s))
           (s\<lparr>as_auth_time := map_option micros (as_auth_time s), as_password_verified_at := None,
              as_expires_at := micros (as_expires_at s), as_created_at := micros now,
              as_updated_at := micros now\<rparr>) (db_auth_sessions d)
     in (r, d\<lparr>db_auth_sessions := rows\<rparr>))"

definition auth_sessions_find_by_id ::
  "libs \<Rightarrow> tenant_id \<Rightarrow> string \<Rightarrow> (world, domain_error + auth_session option) state" where
  "auth_sessions_find_by_id E tenant_id i =
     db_query (\<lambda>_ d. find (\<lambda>s. db_eq E (as_id s) i \<and> as_tenant_id s = tenant_id) (db_auth_sessions d))"

definition update_auth_session ::
  "libs \<Rightarrow> string \<Rightarrow> (auth_session \<Rightarrow> auth_session) \<Rightarrow> (world, domain_error + unit) state" where
  "update_auth_session E i f = db_execute (\<lambda>_ d.
     d\<lparr>db_auth_sessions := update_where (\<lambda>s. db_eq E (as_id s) i) f (db_auth_sessions d)\<rparr>)"

definition auth_sessions_set_authenticated_user ::
  "libs \<Rightarrow> string \<Rightarrow> uuid \<Rightarrow> instant \<Rightarrow> (world, domain_error + unit) state" where
  "auth_sessions_set_authenticated_user E i user_id auth_time =
     update_auth_session E i (\<lambda>s. s\<lparr>as_authenticated_user_id := Some user_id,
                                    as_auth_time := Some (micros auth_time)\<rparr>)"

definition auth_sessions_set_password_verified ::
  "libs \<Rightarrow> string \<Rightarrow> uuid \<Rightarrow> instant \<Rightarrow> (world, domain_error + unit) state" where
  "auth_sessions_set_password_verified E i user_id verified_at =
     update_auth_session E i (\<lambda>s. s\<lparr>as_authenticated_user_id := Some user_id,
                                    as_password_verified_at := Some (micros verified_at)\<rparr>)"

definition auth_sessions_delete :: "libs \<Rightarrow> string \<Rightarrow> (world, domain_error + unit) state" where
  "auth_sessions_delete E i = db_execute (\<lambda>_ d.
     d\<lparr>db_auth_sessions := delete_where (\<lambda>s. db_eq E (as_id s) i) (db_auth_sessions d)\<rparr>)"

section \<open>SSO sessions\<close>

definition sso_sessions_create :: "libs \<Rightarrow> sso_session \<Rightarrow> (world, domain_error + unit) state" where
  "sso_sessions_create E s = db_call (\<lambda>now d.
     let (r, rows) = insert_row E (\<lambda>x. db_eq E (ss_session_hash x) (ss_session_hash s))
           (s\<lparr>ss_auth_time := micros (ss_auth_time s),
              ss_idle_expires_at := micros (ss_idle_expires_at s),
              ss_absolute_expires_at := micros (ss_absolute_expires_at s),
              ss_created_at := micros now, ss_updated_at := micros now\<rparr>) (db_sso_sessions d)
     in (r, d\<lparr>db_sso_sessions := rows\<rparr>))"

definition sso_sessions_find_by_hash ::
  "libs \<Rightarrow> string \<Rightarrow> (world, domain_error + sso_session option) state" where
  "sso_sessions_find_by_hash E session_hash =
     db_query (\<lambda>_ d. find (\<lambda>s. db_eq E (ss_session_hash s) session_hash) (db_sso_sessions d))"

definition sso_sessions_extend_idle ::
  "libs \<Rightarrow> string \<Rightarrow> instant \<Rightarrow> (world, domain_error + unit) state" where
  "sso_sessions_extend_idle E session_hash idle_expires_at = db_execute (\<lambda>_ d.
     d\<lparr>db_sso_sessions := update_where (\<lambda>s. db_eq E (ss_session_hash s) session_hash)
         (\<lambda>s. s\<lparr>ss_idle_expires_at := micros idle_expires_at\<rparr>) (db_sso_sessions d)\<rparr>)"

definition sso_sessions_delete :: "libs \<Rightarrow> string \<Rightarrow> (world, domain_error + unit) state" where
  "sso_sessions_delete E session_hash = db_execute (\<lambda>_ d.
     d\<lparr>db_sso_sessions := delete_where (\<lambda>s. db_eq E (ss_session_hash s) session_hash)
         (db_sso_sessions d)\<rparr>)"

definition sso_sessions_delete_all_for_user :: "uuid \<Rightarrow> (world, domain_error + unit) state" where
  "sso_sessions_delete_all_for_user user_id = db_execute (\<lambda>_ d.
     d\<lparr>db_sso_sessions := delete_where (\<lambda>s. ss_user_id s = user_id) (db_sso_sessions d)\<rparr>)"

section \<open>Authorization codes\<close>

definition insert_code :: "libs \<Rightarrow> authorization_code \<Rightarrow> instant \<Rightarrow> authorization_code list \<Rightarrow>
    (domain_error + unit) \<times> authorization_code list" where
  "insert_code E c now rows = insert_row E (\<lambda>x. db_eq E (ac_code_hash x) (ac_code_hash c))
     (c\<lparr>ac_auth_time := micros (ac_auth_time c), ac_expires_at := micros (ac_expires_at c),
        ac_used_at := map_option micros (ac_used_at c), ac_created_at := micros now,
        ac_updated_at := micros now\<rparr>) rows"

definition codes_create :: "libs \<Rightarrow> authorization_code \<Rightarrow> (world, domain_error + unit) state" where
  "codes_create E c = db_call (\<lambda>now d.
     let (r, rows) = insert_code E c now (db_codes d) in (r, d\<lparr>db_codes := rows\<rparr>))"

text \<open>The condition of the one-time UPDATE, and what it sets.\<close>

definition consumable :: "libs \<Rightarrow> tenant_id \<Rightarrow> string \<Rightarrow> instant \<Rightarrow> authorization_code \<Rightarrow> bool" where
  "consumable E tenant_id code_hash used_at c \<longleftrightarrow>
     db_eq E (ac_code_hash c) code_hash \<and> ac_tenant_id c = tenant_id \<and> ac_used_at c = None \<and>
     ac_expires_at c > micros used_at"

definition mark_used :: "instant \<Rightarrow> authorization_code \<Rightarrow> authorization_code" where
  "mark_used used_at c = c\<lparr>ac_used_at := Some (micros used_at)\<rparr>"

lemma mark_used_simps [simp]:
  "ac_code_hash (mark_used t c) = ac_code_hash c" "ac_tenant_id (mark_used t c) = ac_tenant_id c"
  "ac_user_id (mark_used t c) = ac_user_id c" "ac_client_id (mark_used t c) = ac_client_id c"
  "ac_redirect_uri (mark_used t c) = ac_redirect_uri c" "ac_scope (mark_used t c) = ac_scope c"
  "ac_nonce (mark_used t c) = ac_nonce c" "ac_auth_time (mark_used t c) = ac_auth_time c"
  "ac_code_challenge (mark_used t c) = ac_code_challenge c"
  "ac_expires_at (mark_used t c) = ac_expires_at c" "ac_used_at (mark_used t c) = Some (micros t)"
  by (simp_all add: mark_used_def)

definition consume_update :: "libs \<Rightarrow> tenant_id \<Rightarrow> string \<Rightarrow> instant \<Rightarrow> authorization_code list \<Rightarrow>
    nat \<times> authorization_code list" where
  "consume_update E tenant_id code_hash used_at rows =
     (rows_affected (consumable E tenant_id code_hash used_at) rows,
      update_where (consumable E tenant_id code_hash used_at) (mark_used used_at) rows)"

definition codes_consume ::
  "libs \<Rightarrow> tenant_id \<Rightarrow> string \<Rightarrow> instant \<Rightarrow> (world, domain_error + authorization_code option) state" where
  "codes_consume E tenant_id code_hash used_at =
     and_then (db_call (\<lambda>_ d.
       let (n, rows) = consume_update E tenant_id code_hash used_at (db_codes d)
       in (Inr n, d\<lparr>db_codes := rows\<rparr>))) (\<lambda>n.
     if n = 0 then State_Monad.return (Inr None)
     else db_query (\<lambda>_ d. find (\<lambda>c. db_eq E (ac_code_hash c) code_hash) (db_codes d)))"

definition revoke_codes :: "uuid \<Rightarrow> instant \<Rightarrow> authorization_code list \<Rightarrow> authorization_code list" where
  "revoke_codes user_id now rows =
     update_where (\<lambda>c. ac_user_id c = user_id \<and> ac_used_at c = None \<and> ac_expires_at c > micros now)
       (mark_used now) rows"

definition codes_revoke_all_active_for_user ::
  "uuid \<Rightarrow> instant \<Rightarrow> (world, domain_error + unit) state" where
  "codes_revoke_all_active_for_user user_id now =
     db_execute (\<lambda>_ d. d\<lparr>db_codes := revoke_codes user_id now (db_codes d)\<rparr>)"

section \<open>Refresh tokens\<close>

definition insert_refresh_token :: "libs \<Rightarrow> refresh_token \<Rightarrow> instant \<Rightarrow> refresh_token list \<Rightarrow>
    (domain_error + unit) \<times> refresh_token list" where
  "insert_refresh_token E t now rows =
     insert_row E (\<lambda>x. db_eq E (rt_token_hash x) (rt_token_hash t))
       (t\<lparr>rt_expires_at := micros (rt_expires_at t),
          rt_revoked_at := map_option micros (rt_revoked_at t), rt_created_at := micros now\<rparr>) rows"

definition refresh_tokens_create :: "libs \<Rightarrow> refresh_token \<Rightarrow> (world, domain_error + unit) state" where
  "refresh_tokens_create E t = db_call (\<lambda>now d.
     let (r, rows) = insert_refresh_token E t now (db_refresh_tokens d)
     in (r, d\<lparr>db_refresh_tokens := rows\<rparr>))"

definition refresh_tokens_find_by_hash ::
  "libs \<Rightarrow> tenant_id \<Rightarrow> string \<Rightarrow> (world, domain_error + refresh_token option) state" where
  "refresh_tokens_find_by_hash E tenant_id token_hash =
     db_query (\<lambda>_ d. find (\<lambda>t. db_eq E (rt_token_hash t) token_hash \<and> rt_tenant_id t = tenant_id)
                          (db_refresh_tokens d))"

definition revoke_refresh_token :: "libs \<Rightarrow> string \<Rightarrow> instant \<Rightarrow> refresh_token list \<Rightarrow> refresh_token list" where
  "revoke_refresh_token E token_hash revoked_at rows =
     update_where (\<lambda>t. db_eq E (rt_token_hash t) token_hash \<and> rt_revoked_at t = None)
       (\<lambda>t. t\<lparr>rt_revoked_at := Some (micros revoked_at)\<rparr>) rows"

definition refresh_tokens_revoke :: "libs \<Rightarrow> string \<Rightarrow> instant \<Rightarrow> (world, domain_error + unit) state" where
  "refresh_tokens_revoke E token_hash revoked_at = db_execute (\<lambda>_ d.
     d\<lparr>db_refresh_tokens := revoke_refresh_token E token_hash revoked_at (db_refresh_tokens d)\<rparr>)"

definition has_parent :: "libs \<Rightarrow> string \<Rightarrow> refresh_token \<Rightarrow> bool" where
  "has_parent E parent_hash t = (case rt_parent_hash t of Some p \<Rightarrow> db_eq E p parent_hash | None \<Rightarrow> False)"

definition refresh_tokens_exists_by_parent_hash ::
  "libs \<Rightarrow> string \<Rightarrow> (world, domain_error + bool) state" where
  "refresh_tokens_exists_by_parent_hash E parent_hash =
     db_query (\<lambda>_ d. 0 < length (filter (has_parent E parent_hash) (db_refresh_tokens d)))"

definition refresh_tokens_revoke_all_for_user ::
  "uuid \<Rightarrow> instant \<Rightarrow> (world, domain_error + unit) state" where
  "refresh_tokens_revoke_all_for_user user_id revoked_at = db_execute (\<lambda>_ d.
     d\<lparr>db_refresh_tokens := update_where (\<lambda>t. rt_user_id t = user_id \<and> rt_revoked_at t = None)
         (\<lambda>t. t\<lparr>rt_revoked_at := Some (micros revoked_at)\<rparr>) (db_refresh_tokens d)\<rparr>)"

section \<open>Consents\<close>

definition consent_key :: "libs \<Rightarrow> tenant_id \<Rightarrow> uuid \<Rightarrow> string \<Rightarrow> client_consent \<Rightarrow> bool" where
  "consent_key E tenant_id user_id client_id c \<longleftrightarrow>
     cc_user_id c = user_id \<and> cc_tenant_id c = tenant_id \<and> db_eq E (cc_client_id c) client_id"

definition consents_find ::
  "libs \<Rightarrow> tenant_id \<Rightarrow> uuid \<Rightarrow> string \<Rightarrow> (world, domain_error + client_consent option) state" where
  "consents_find E tenant_id user_id client_id =
     db_query (\<lambda>_ d. find (consent_key E tenant_id user_id client_id) (db_consents d))"

definition upsert_consent :: "libs \<Rightarrow> client_consent \<Rightarrow> client_consent list \<Rightarrow> client_consent list" where
  "upsert_consent E c rows =
     (let key = consent_key E (cc_tenant_id c) (cc_user_id c) (cc_client_id c)
      in if list_ex key rows
         then update_where key (\<lambda>r. r\<lparr>cc_scopes := cc_scopes c, cc_updated_at := micros (cc_updated_at c)\<rparr>) rows
         else rows @ [c\<lparr>cc_granted_at := micros (cc_granted_at c),
                        cc_updated_at := micros (cc_updated_at c)\<rparr>])"

definition consents_upsert :: "libs \<Rightarrow> client_consent \<Rightarrow> (world, domain_error + unit) state" where
  "consents_upsert E c = db_execute (\<lambda>_ d. d\<lparr>db_consents := upsert_consent E c (db_consents d)\<rparr>)"

definition consents_revoke ::
  "libs \<Rightarrow> tenant_id \<Rightarrow> uuid \<Rightarrow> string \<Rightarrow> (world, domain_error + unit) state" where
  "consents_revoke E tenant_id user_id client_id = db_execute (\<lambda>_ d.
     d\<lparr>db_consents := delete_where (consent_key E tenant_id user_id client_id) (db_consents d)\<rparr>)"

definition consents_list_for_user ::
  "tenant_id \<Rightarrow> uuid \<Rightarrow> (world, domain_error + client_consent list) state" where
  "consents_list_for_user tenant_id user_id =
     db_query (\<lambda>_ d. sort_key (\<lambda>c. - cc_updated_at c)
       (filter (\<lambda>c. cc_user_id c = user_id \<and> cc_tenant_id c = tenant_id) (db_consents d)))"

section \<open>Revoked access tokens\<close>

definition insert_revoked :: "libs \<Rightarrow> revoked_access_token \<Rightarrow> revoked_access_token list \<Rightarrow> revoked_access_token list" where
  "insert_revoked E t rows =
     (if list_ex (\<lambda>r. db_eq E (ra_jti r) (ra_jti t)) rows then rows
      else rows @ [t\<lparr>ra_revoked_at := micros (ra_revoked_at t), ra_expires_at := micros (ra_expires_at t)\<rparr>])"

definition revoked_tokens_revoke :: "libs \<Rightarrow> revoked_access_token \<Rightarrow> (world, domain_error + unit) state" where
  "revoked_tokens_revoke E t =
     db_execute (\<lambda>_ d. d\<lparr>db_revoked_tokens := insert_revoked E t (db_revoked_tokens d)\<rparr>)"

definition jti_revoked :: "libs \<Rightarrow> string \<Rightarrow> database \<Rightarrow> bool" where
  "jti_revoked E jti d = list_ex (\<lambda>r. db_eq E (ra_jti r) jti) (db_revoked_tokens d)"

definition revoked_tokens_is_revoked :: "libs \<Rightarrow> string \<Rightarrow> (world, domain_error + bool) state" where
  "revoked_tokens_is_revoked E jti = db_query (\<lambda>_ d. jti_revoked E jti d)"

section \<open>Signing keys\<close>

definition insert_signing_key :: "libs \<Rightarrow> signing_key \<Rightarrow> instant \<Rightarrow> database \<Rightarrow> (domain_error + unit) \<times> database" where
  "insert_signing_key E k now d =
     (let (r, rows) = insert_row E (\<lambda>x. db_eq E (sk_kid x) (sk_kid k))
            (k\<lparr>sk_not_before := micros (sk_not_before k), sk_not_after := micros (sk_not_after k),
               sk_created_at := micros now, sk_updated_at := micros now\<rparr>) (db_signing_keys d)
      in (r, d\<lparr>db_signing_keys := rows\<rparr>))"

definition signing_keys_insert :: "libs \<Rightarrow> signing_key \<Rightarrow> (world, domain_error + unit) state" where
  "signing_keys_insert E k = db_call (insert_signing_key E k)"

text \<open>
  The advisory lock serialises this method with itself; \<open>locked\<close> is what \<open>GET_LOCK\<close> answers. The
  result of \<open>RELEASE_LOCK\<close> is only logged.
\<close>

definition signing_keys_insert_if_no_active ::
  "libs \<Rightarrow> bool \<Rightarrow> signing_key \<Rightarrow> (world, domain_error + bool) state" where
  "signing_keys_insert_if_no_active E locked k =
     and_then (db_query (\<lambda>_ _. locked)) (\<lambda>locked.
     if \<not> locked then
       State_Monad.return (Inl (Repository ''failed to acquire signing key bootstrap lock''))
     else do {
       result \<leftarrow>
         and_then (db_query (\<lambda>_ d. list_ex (\<lambda>x. sk_status x = KeyActive) (db_signing_keys d))) (\<lambda>active.
         if active then State_Monad.return (Inr False)
         else and_then (db_call (insert_signing_key E k)) (\<lambda>_. State_Monad.return (Inr True)));
       _ \<leftarrow> db_query (\<lambda>_ _. ());
       State_Monad.return result
     })"

definition select_active_key :: "instant \<Rightarrow> signing_key list \<Rightarrow> signing_key option" where
  "select_active_key now rows =
     (case sort_key (\<lambda>k. - sk_not_before k)
             (filter (\<lambda>k. sk_status k = KeyActive \<and> sk_not_before k \<le> micros now \<and>
                          sk_not_after k > micros now) rows) of
        [] \<Rightarrow> None
      | k # _ \<Rightarrow> Some k)"

definition signing_keys_find_active :: "(world, domain_error + signing_key option) state" where
  "signing_keys_find_active = db_query (\<lambda>now d. select_active_key now (db_signing_keys d))"

definition signing_keys_list_published :: "(world, domain_error + signing_key list) state" where
  "signing_keys_list_published = db_query (\<lambda>now d. sort_key (\<lambda>k. - sk_created_at k)
     (filter (\<lambda>k. sk_status k \<in> {KeyActive, KeyRetired} \<and> sk_not_after k > micros now)
             (db_signing_keys d)))"

definition signing_keys_find_by_kid :: "libs \<Rightarrow> string \<Rightarrow> (world, domain_error + signing_key option) state" where
  "signing_keys_find_by_kid E kid =
     db_query (\<lambda>_ d. find (\<lambda>k. db_eq E (sk_kid k) kid) (db_signing_keys d))"

definition signing_keys_list_all :: "(world, domain_error + signing_key list) state" where
  "signing_keys_list_all = db_query (\<lambda>_ d. sort_key (\<lambda>k. - sk_created_at k) (db_signing_keys d))"

definition signing_keys_update_status ::
  "libs \<Rightarrow> string \<Rightarrow> signing_key_status \<Rightarrow> (world, domain_error + unit) state" where
  "signing_keys_update_status E kid status =
     and_then (db_call (\<lambda>now d.
       let P = (\<lambda>k. db_eq E (sk_kid k) kid)
       in (Inr (rows_affected P (db_signing_keys d)),
           d\<lparr>db_signing_keys := update_where P
               (\<lambda>k. k\<lparr>sk_status := status, sk_updated_at := micros now\<rparr>) (db_signing_keys d)\<rparr>))) (\<lambda>n.
     if n = 0 then State_Monad.return (Inl NotFound) else State_Monad.return (Inr ()))"

definition signing_keys_delete :: "libs \<Rightarrow> string \<Rightarrow> (world, domain_error + unit) state" where
  "signing_keys_delete E kid = db_execute (\<lambda>_ d.
     d\<lparr>db_signing_keys := delete_where (\<lambda>k. db_eq E (sk_kid k) kid) (db_signing_keys d)\<rparr>)"

section \<open>TOTP secrets\<close>

definition upsert_totp :: "totp_secret \<Rightarrow> instant \<Rightarrow> totp_secret list \<Rightarrow> totp_secret list" where
  "upsert_totp t now rows =
     (if list_ex (\<lambda>r. ts_user_id r = ts_user_id t) rows
      then update_where (\<lambda>r. ts_user_id r = ts_user_id t)
             (\<lambda>r. r\<lparr>ts_secret_encrypted := ts_secret_encrypted t,
                    ts_confirmed_at := map_option micros (ts_confirmed_at t)\<rparr>) rows
      else rows @ [t\<lparr>ts_confirmed_at := map_option micros (ts_confirmed_at t),
                     ts_created_at := micros now, ts_updated_at := micros now\<rparr>])"

definition totp_secrets_upsert :: "totp_secret \<Rightarrow> (world, domain_error + unit) state" where
  "totp_secrets_upsert t =
     db_execute (\<lambda>now d. d\<lparr>db_totp_secrets := upsert_totp t now (db_totp_secrets d)\<rparr>)"

definition totp_secrets_find_by_user_id :: "uuid \<Rightarrow> (world, domain_error + totp_secret option) state" where
  "totp_secrets_find_by_user_id user_id =
     db_query (\<lambda>_ d. find (\<lambda>t. ts_user_id t = user_id) (db_totp_secrets d))"

definition totp_secrets_confirm :: "uuid \<Rightarrow> instant \<Rightarrow> (world, domain_error + unit) state" where
  "totp_secrets_confirm user_id confirmed_at = db_execute (\<lambda>_ d.
     d\<lparr>db_totp_secrets := update_where (\<lambda>t. ts_user_id t = user_id \<and> ts_confirmed_at t = None)
         (\<lambda>t. t\<lparr>ts_confirmed_at := Some (micros confirmed_at)\<rparr>) (db_totp_secrets d)\<rparr>)"

definition totp_secrets_delete :: "uuid \<Rightarrow> (world, domain_error + unit) state" where
  "totp_secrets_delete user_id = db_execute (\<lambda>_ d.
     d\<lparr>db_totp_secrets := delete_where (\<lambda>t. ts_user_id t = user_id) (db_totp_secrets d)\<rparr>)"

section \<open>Primary keys\<close>

text \<open>
  The keys the migrations declare on the tables of one-time and bearer credentials. Two rows never
  agree on them up to the collation.
\<close>

definition codes_pk :: "libs \<Rightarrow> database \<Rightarrow> bool" where
  "codes_pk E d = distinct (map (\<lambda>c. collate E (ac_code_hash c)) (db_codes d))"

definition refresh_pk :: "libs \<Rightarrow> database \<Rightarrow> bool" where
  "refresh_pk E d = distinct (map (\<lambda>t. collate E (rt_token_hash t)) (db_refresh_tokens d))"

lemma insert_row_pk:
  assumes "distinct (map k rows)" and "k row = k key" and "\<And>x. same x \<longleftrightarrow> k x = k key"
  shows "distinct (map k (snd (insert_row E same row rows)))"
  using assms by (auto simp: insert_row_def list_ex_iff image_iff)

lemma insert_code_pk:
  assumes "distinct (map (\<lambda>c. collate E (ac_code_hash c)) rows)"
  shows "distinct (map (\<lambda>c. collate E (ac_code_hash c)) (snd (insert_code E c now rows)))"
  unfolding insert_code_def by (rule insert_row_pk [where key = c, OF assms]) (auto simp: db_eq_def)

lemma insert_refresh_token_pk:
  assumes "distinct (map (\<lambda>t. collate E (rt_token_hash t)) rows)"
  shows "distinct (map (\<lambda>t. collate E (rt_token_hash t)) (snd (insert_refresh_token E t now rows)))"
  unfolding insert_refresh_token_def
  by (rule insert_row_pk [where key = t, OF assms]) (auto simp: db_eq_def)

section \<open>Consuming a code\<close>

lemma codes_consume_Some:
  assumes "codes_pk E (db w)"
    and "run_state (codes_consume E tenant h now) w = (Inr (Some c), w')"
  shows "\<exists>row \<in> set (db_codes (db w)). consumable E tenant h now row \<and> c = mark_used now row \<and>
     db w' = (db w)\<lparr>db_codes := update_where (consumable E tenant h now) (mark_used now) (db_codes (db w))\<rparr> \<and>
     attempts w' = attempts w"
proof -
  let ?P = "consumable E tenant h now" and ?rows = "db_codes (db w)"
  from assms(2) have n: "rows_affected ?P ?rows \<noteq> 0"
    and c: "find (\<lambda>c. db_eq E (ac_code_hash c) h) (update_where ?P (mark_used now) ?rows) = Some c"
    and db: "db w' = (db w)\<lparr>db_codes := update_where ?P (mark_used now) ?rows\<rparr>"
      "attempts w' = attempts w"
    by (auto simp: codes_consume_def run_rules run_db_call_Inr consume_update_def split: if_splits)
  from n obtain row where row: "row \<in> set ?rows" "?P row" by (auto simp: rows_affected_0)
  from row(2) have "collate E (ac_code_hash row) = collate E h"
    by (simp add: consumable_def db_eq_def)
  with row(1) assms(1) have "find (\<lambda>c. db_eq E (ac_code_hash c) h) ?rows = Some row"
    using find_unique [of "\<lambda>c. collate E (ac_code_hash c)" ?rows row]
    by (simp add: codes_pk_def db_eq_def)
  then have "c = mark_used now row"
    using c row(2) by (simp add: find_update_where mark_used_def)
  with row db show ?thesis by blast
qed

end
