(* ===== verification/Crypto.thy ===== *)
theory Crypto
  imports World
begin

text \<open>
  \<^verbatim>\<open>domain/crypto.rs\<close>, \<^verbatim>\<open>domain/pkce.rs\<close>, \<^verbatim>\<open>domain/issuer.rs\<close>, \<^verbatim>\<open>domain/jwt.rs\<close>,
  \<^verbatim>\<open>infrastructure/password.rs\<close> and \<^verbatim>\<open>contracts/src/csrf.rs\<close>: what the program itself computes around
  the cryptographic crates. An \<open>anyhow\<close> error is its text.
\<close>

section \<open>Random tokens and digests\<close>

definition random_token :: "libs \<Rightarrow> nat \<Rightarrow> (world, string) state" where
  "random_token E n = do { buf \<leftarrow> random_bytes n; State_Monad.return (b64url_encode E buf) }"

definition random_hex :: "libs \<Rightarrow> nat \<Rightarrow> (world, string) state" where
  "random_hex E n = do { buf \<leftarrow> random_bytes n; State_Monad.return (hex_encode E buf) }"

definition sha256_hex :: "libs \<Rightarrow> string \<Rightarrow> string" where
  "sha256_hex E input = hex_encode E (sha256 E input)"

definition base64url :: "libs \<Rightarrow> string \<Rightarrow> string" where
  "base64url E bytes = b64url_encode E bytes"

lemma run_random_token [run_rules]:
  "run_state (random_token E n) w = (t, w') \<longleftrightarrow>
   t = b64url_encode E (bytes_src w (draws w) n) \<and> w' = draw w"
  by (auto simp: random_token_def run_rules)

lemma run_random_hex [run_rules]:
  "run_state (random_hex E n) w = (t, w') \<longleftrightarrow>
   t = hex_encode E (bytes_src w (draws w) n) \<and> w' = draw w"
  by (auto simp: random_hex_def run_rules)

section \<open>Encryption of stored secrets\<close>

definition gcm_nonce_len :: nat where
  "gcm_nonce_len = 12"

definition encrypt_text :: "libs \<Rightarrow> string \<Rightarrow> string \<Rightarrow> (world, string + string) state" where
  "encrypt_text E plaintext key = do {
     nonce_bytes \<leftarrow> random_bytes gcm_nonce_len;
     case gcm_encrypt E key nonce_bytes plaintext of
       None \<Rightarrow> State_Monad.return (Inl ''AES-GCM encryption failed'')
     | Some ciphertext \<Rightarrow> State_Monad.return (Inr (b64std_encode E (nonce_bytes @ ciphertext)))
   }"

definition decrypt_text :: "libs \<Rightarrow> string \<Rightarrow> string \<Rightarrow> string + string" where
  "decrypt_text E encoded key =
     (case b64std_decode E encoded of
        Inl e \<Rightarrow> Inl (''invalid base64 ciphertext: '' @ e)
      | Inr combined \<Rightarrow>
          if length combined < gcm_nonce_len then Inl ''ciphertext too short''
          else case gcm_decrypt E key (take gcm_nonce_len combined) (drop gcm_nonce_len combined) of
                 None \<Rightarrow> Inl ''AES-GCM decryption failed''
               | Some plaintext \<Rightarrow> Inr plaintext)"

text \<open>
  What the crates promise: base64 decoding inverts encoding, and opening a box with the key and
  nonce it was sealed with gives the text back.
\<close>

definition codec_ok :: "libs \<Rightarrow> bool" where
  "codec_ok E \<longleftrightarrow> (\<forall>b. b64std_decode E (b64std_encode E b) = Inr b) \<and>
     (\<forall>k n p c. gcm_encrypt E k n p = Some c \<longrightarrow> gcm_decrypt E k n c = Some p)"

lemma decrypt_encrypt:
  assumes "codec_ok E" and "length (bytes_src w (draws w) gcm_nonce_len) = gcm_nonce_len"
    and "run_state (encrypt_text E p key) w = (Inr c, w')"
  shows "decrypt_text E c key = Inr p"
  using assms
  by (auto simp: encrypt_text_def decrypt_text_def codec_ok_def run_rules split: option.splits)

section \<open>PKCE, issuers, CSRF tokens\<close>

definition verify_s256 :: "libs \<Rightarrow> string \<Rightarrow> string \<Rightarrow> bool" where
  "verify_s256 E code_verifier code_challenge =
     (b64url_encode E (sha256 E code_verifier) = code_challenge)"

definition tenant_issuer :: "libs \<Rightarrow> string \<Rightarrow> tenant_id \<Rightarrow> string" where
  "tenant_issuer E base tenant_id = base @ ''/'' @ uuid_to_string E tenant_id"

text \<open>Two tenants never share an issuer, given that UUIDs print differently.\<close>

lemma tenant_issuer_inject:
  "inj (uuid_to_string E) \<Longrightarrow> tenant_issuer E b t = tenant_issuer E b t' \<longleftrightarrow> t = t'"
  by (auto simp: tenant_issuer_def dest: injD)

definition hmac_sha256_hex :: "libs \<Rightarrow> string \<Rightarrow> string \<Rightarrow> string" where
  "hmac_sha256_hex E key message = hex_encode E (hmac_sha256 E key message)"

definition login_csrf_token :: "libs \<Rightarrow> string \<Rightarrow> string \<Rightarrow> string" where
  "login_csrf_token E auth_session_id key = hmac_sha256_hex E key (''csrf:'' @ auth_session_id)"

definition consent_csrf_token :: "libs \<Rightarrow> string \<Rightarrow> string \<Rightarrow> string" where
  "consent_csrf_token E auth_session_id key =
     hmac_sha256_hex E key (''consent-csrf:'' @ auth_session_id)"

section \<open>Password hashing\<close>

definition hasher_hash :: "libs \<Rightarrow> string \<Rightarrow> (world, domain_error + string) state" where
  "hasher_hash E password = do {
     salt \<leftarrow> random_bytes 16;
     State_Monad.return (case argon2_hash E salt password of
         Inl e \<Rightarrow> Inl (Repository (''password hashing failed: '' @ e))
       | Inr h \<Rightarrow> Inr h)
   }"

definition hasher_verify :: "libs \<Rightarrow> string \<Rightarrow> string \<Rightarrow> domain_error + bool" where
  "hasher_verify E password hash =
     (case argon2_parse_error E hash of
        Some e \<Rightarrow> Inl (Repository (''invalid password hash: '' @ e))
      | None \<Rightarrow> Inr (argon2_verify E password hash))"

section \<open>UTF-8\<close>

text \<open>
  \<open>String::from_utf8\<close>. \<open>utf8_error\<close> scans like the standard library's validator and gives the index
  of the first bad sequence and its length (\<open>None\<close> when the input ends inside a sequence).
\<close>

definition continuation :: "nat \<Rightarrow> bool" where
  "continuation b \<longleftrightarrow> 128 \<le> b \<and> b < 192"

definition second_ok :: "nat \<Rightarrow> nat \<Rightarrow> bool" where
  "second_ok a b \<longleftrightarrow>
     (if a = 224 then 160 \<le> b \<and> b < 192
      else if a = 237 then 128 \<le> b \<and> b < 160
      else if a = 240 then 144 \<le> b \<and> b < 192
      else if a = 244 then 128 \<le> b \<and> b < 144
      else continuation b)"

definition utf8_width :: "nat \<Rightarrow> nat" where
  "utf8_width a =
     (if a < 128 then 1 else if 194 \<le> a \<and> a \<le> 223 then 2
      else if 224 \<le> a \<and> a \<le> 239 then 3 else if 240 \<le> a \<and> a \<le> 244 then 4 else 0)"

definition utf8_bad :: "nat list \<Rightarrow> nat option option" where
  "utf8_bad bs =
     (case bs of [] \<Rightarrow> None | a # rest \<Rightarrow>
       (let n = utf8_width a in
        if n = 0 then Some (Some 1)
        else if n = 1 then None
        else case rest of [] \<Rightarrow> Some None | b # rest \<Rightarrow>
          if \<not> second_ok a b then Some (Some 1)
          else if n = 2 then None
          else case rest of [] \<Rightarrow> Some None | c # rest \<Rightarrow>
            if \<not> continuation c then Some (Some 2)
            else if n = 3 then None
            else case rest of [] \<Rightarrow> Some None | d # _ \<Rightarrow>
              if continuation d then None else Some (Some 3)))"

function utf8_error :: "nat \<Rightarrow> nat list \<Rightarrow> (nat \<times> nat option) option" where
  "utf8_error i [] = None"
| "utf8_error i (b # bs) =
     (case utf8_bad (b # bs) of
        Some len \<Rightarrow> Some (i, len)
      | None \<Rightarrow> utf8_error (i + max 1 (utf8_width b)) (drop (max 1 (utf8_width b)) (b # bs)))"
  by pat_completeness auto
termination by (relation "measure (\<lambda>(i, bs). length bs)") auto

fun show_nat :: "nat \<Rightarrow> string" where
  "show_nat n = (if n < 10 then [char_of (48 + n)] else show_nat (n div 10) @ [char_of (48 + n mod 10)])"

declare show_nat.simps [simp del]

definition from_utf8 :: "string \<Rightarrow> string + string" where
  "from_utf8 bytes =
     (case utf8_error 0 (map of_char bytes) of
        None \<Rightarrow> Inr bytes
      | Some (i, Some n) \<Rightarrow>
          Inl (''invalid utf-8 sequence of '' @ show_nat n @ '' bytes from index '' @ show_nat i)
      | Some (i, None) \<Rightarrow> Inl (''incomplete utf-8 byte sequence from index '' @ show_nat i))"

lemma utf8_error_ascii: "\<forall>b \<in> set bs. b < 128 \<Longrightarrow> utf8_error i bs = None"
  by (induction bs arbitrary: i) (auto simp: utf8_bad_def utf8_width_def)

lemma from_utf8_ascii: "\<forall>c \<in> set s. of_char c < (128::nat) \<Longrightarrow> from_utf8 s = Inr s"
  by (simp add: from_utf8_def utf8_error_ascii)

lemma from_utf8_Inr: "from_utf8 s = Inr t \<Longrightarrow> t = s"
  by (auto simp: from_utf8_def split: option.splits)

section \<open>JSON web tokens\<close>

definition sign_jwt ::
  "libs \<Rightarrow> string \<Rightarrow> string \<Rightarrow> string \<Rightarrow> string \<Rightarrow> jwt_claims \<Rightarrow> string + string" where
  "sign_jwt E private_pem kid typ algorithm claims =
     (let encode = (\<lambda>alg key. case jwt_encode E alg typ kid claims key of
                                Inl e \<Rightarrow> Inl (''jwt encode: '' @ e) | Inr t \<Rightarrow> Inr t)
      in if algorithm = ''RS256'' then
           (case rsa_encoding_key E private_pem of
              Inl e \<Rightarrow> Inl (''load RSA encoding key: '' @ e) | Inr key \<Rightarrow> encode Rs256 key)
         else if algorithm = ''ES256'' then
           (case ec_encoding_key E private_pem of
              Inl e \<Rightarrow> Inl (''load EC encoding key: '' @ e) | Inr key \<Rightarrow> encode Es256 key)
         else Inl (''unsupported signing algorithm: '' @ algorithm))"

definition decoding_key_from_public_pem :: "libs \<Rightarrow> string \<Rightarrow> string + string" where
  "decoding_key_from_public_pem E public_pem =
     (case rsa_decoding_key E public_pem of
        Inl e \<Rightarrow> Inl (''build decoding key from PEM: '' @ e) | Inr k \<Rightarrow> Inr k)"

record jwk =
  jwk_kty :: string
  jwk_use :: string
  jwk_kid :: string
  jwk_alg :: string
  jwk_n :: "string option"
  jwk_e :: "string option"
  jwk_crv :: "string option"
  jwk_x :: "string option"
  jwk_y :: "string option"

definition rsa_public_jwk :: "libs \<Rightarrow> string \<Rightarrow> string \<Rightarrow> string + jwk" where
  "rsa_public_jwk E kid public_pem =
     (case rsa_components E public_pem of
        Inl e \<Rightarrow> Inl (''parse RSA public PEM: '' @ e)
      | Inr (n, e) \<Rightarrow> Inr \<lparr>jwk_kty = ''RSA'', jwk_use = ''sig'', jwk_kid = kid, jwk_alg = ''RS256'',
          jwk_n = Some (base64url E n), jwk_e = Some (base64url E e), jwk_crv = None,
          jwk_x = None, jwk_y = None\<rparr>)"

definition ec_public_jwk :: "libs \<Rightarrow> string \<Rightarrow> string \<Rightarrow> string + jwk" where
  "ec_public_jwk E kid public_pem =
     (case ec_point E public_pem of
        Inl e \<Rightarrow> Inl (''parse EC public PEM: '' @ e)
      | Inr (None, y) \<Rightarrow> Inl ''EC point has no x coordinate''
      | Inr (Some x, None) \<Rightarrow> Inl ''EC point has no y coordinate''
      | Inr (Some x, Some y) \<Rightarrow> Inr \<lparr>jwk_kty = ''EC'', jwk_use = ''sig'', jwk_kid = kid,
          jwk_alg = ''ES256'', jwk_n = None, jwk_e = None, jwk_crv = Some ''P-256'',
          jwk_x = Some (base64url E x), jwk_y = Some (base64url E y)\<rparr>)"

definition public_jwk :: "libs \<Rightarrow> string \<Rightarrow> string \<Rightarrow> string \<Rightarrow> string + jwk" where
  "public_jwk E kid algorithm public_pem =
     (if algorithm = ''RS256'' then rsa_public_jwk E kid public_pem
      else if algorithm = ''ES256'' then ec_public_jwk E kid public_pem
      else Inl (''unsupported algorithm for JWK: '' @ algorithm))"

end
