(* ===== verification/KeyService.thy ===== *)
theory KeyService
  imports Repositories Crypto
begin

text \<open>
  \<^verbatim>\<open>application/key_service.rs\<close>: the signing keys. A key is generated ACTIVE, used while its
  validity covers the present, retired by rotation or by an administrator, and can be deleted only
  after that.
\<close>

section \<open>Operations\<close>

record active_key =
  ask_kid :: string
  ask_algorithm :: string
  ask_private_pem :: string

datatype key_management_error =
  KeyNotFound string | KeyValidation string | KeyInternal string

definition key_validity_days :: int where
  "key_validity_days = 365"

definition find_active_key :: "(world, string + signing_key option) state" where
  "find_active_key =
     map_err (\<lambda>e. ''find active key: '' @ domain_error_to_string e) signing_keys_find_active"

definition decode_private_key :: "libs \<Rightarrow> config \<Rightarrow> signing_key \<Rightarrow> string + active_key" where
  "decode_private_key E C key =
     (case decrypt_text E (sk_private_key_encrypted key) (key_encryption_key C) of
        Inl e \<Rightarrow> Inl e
      | Inr private_bytes \<Rightarrow>
          (case from_utf8 private_bytes of
             Inl e \<Rightarrow> Inl (''decrypted private key is not valid UTF-8: '' @ e)
           | Inr private_pem \<Rightarrow> Inr \<lparr>ask_kid = sk_kid key, ask_algorithm = sk_algorithm key,
                                     ask_private_pem = private_pem\<rparr>))"

definition active_signing_key :: "libs \<Rightarrow> config \<Rightarrow> (world, string + active_key) state" where
  "active_signing_key E C =
     and_then find_active_key (\<lambda>k.
     case k of
       None \<Rightarrow> State_Monad.return (Inl ''no active signing key'')
     | Some key \<Rightarrow> State_Monad.return (decode_private_key E C key))"

fun jwk_list :: "libs \<Rightarrow> signing_key list \<Rightarrow> string + jwk list" where
  "jwk_list E [] = Inr []"
| "jwk_list E (key # keys) =
     (case public_jwk E (sk_kid key) (sk_algorithm key) (sk_public_key key) of
        Inl e \<Rightarrow> Inl e
      | Inr j \<Rightarrow> (case jwk_list E keys of Inl e \<Rightarrow> Inl e | Inr js \<Rightarrow> Inr (j # js)))"

definition jwks :: "libs \<Rightarrow> (world, string + jwk list) state" where
  "jwks E =
     and_then (map_err (\<lambda>e. ''list published keys: '' @ domain_error_to_string e)
                 signing_keys_list_published) (\<lambda>keys.
     State_Monad.return (jwk_list E keys))"

text \<open>\<open>str::replace("256", "")\<close>\<close>

function remove_256 :: "string \<Rightarrow> string" where
  "remove_256 s =
     (if starts_with s ''256'' then remove_256 (drop 3 s)
      else case s of [] \<Rightarrow> [] | c # cs \<Rightarrow> c # remove_256 cs)"
  by pat_completeness auto
termination
proof (relation "measure length")
  fix s :: string assume "starts_with s ''256''"
  then show "(drop 3 s, s) \<in> measure length" by (cases s) auto
qed auto

declare remove_256.simps [simp del]

definition new_key_material :: "libs \<Rightarrow> config \<Rightarrow> signing_algorithm \<Rightarrow> (world, string + signing_key) state" where
  "new_key_material E C algorithm = do {
     seed \<leftarrow> random_bytes 32;
     case (case algorithm of Rs256 \<Rightarrow> rsa_keygen E seed | Es256 \<Rightarrow> ec_keygen E seed) of
       Inl e \<Rightarrow> State_Monad.return (Inl e)
     | Inr (private_pem, public_pem) \<Rightarrow> do {
         now \<leftarrow> clock_now;
         suffix \<leftarrow> random_token E 6;
         let alg_tag = remove_256 (map ascii_lower (signing_algorithm_as_str algorithm));
         let kid = format_ymd E now @ ''-'' @ alg_tag @ ''-'' @ suffix;
         and_then (encrypt_text E private_pem (key_encryption_key C)) (\<lambda>private_key_encrypted.
         State_Monad.return (Inr
           \<lparr>sk_kid = kid, sk_algorithm = signing_algorithm_as_str algorithm,
            sk_public_key = public_pem, sk_private_key_encrypted = private_key_encrypted,
            sk_status = KeyActive, sk_not_before = now,
            sk_not_after = now + days key_validity_days,
            sk_created_at = now, sk_updated_at = now\<rparr>))
       }
   }"

definition generate_key_internal ::
  "libs \<Rightarrow> config \<Rightarrow> signing_algorithm \<Rightarrow> (world, string + signing_key) state" where
  "generate_key_internal E C algorithm =
     and_then (new_key_material E C algorithm) (\<lambda>key.
     and_then (map_err (\<lambda>e. ''insert signing key: '' @ domain_error_to_string e)
                 (signing_keys_insert E key)) (\<lambda>_.
     State_Monad.return (Inr key)))"

text \<open>\<open>locked\<close> is the answer of the advisory lock, which the bootstrap passes through.\<close>

definition ensure_active_key :: "libs \<Rightarrow> config \<Rightarrow> bool \<Rightarrow> (world, string + unit) state" where
  "ensure_active_key E C locked =
     and_then find_active_key (\<lambda>k.
     if k \<noteq> None then State_Monad.return (Inr ())
     else
       and_then (new_key_material E C Rs256) (\<lambda>key.
       and_then (map_err (\<lambda>e. ''bootstrap signing key: '' @ domain_error_to_string e)
                   (signing_keys_insert_if_no_active E locked key)) (\<lambda>_.
       State_Monad.return (Inr ()))))"

definition rotate_if_needed :: "libs \<Rightarrow> config \<Rightarrow> nat \<Rightarrow> (world, string + unit) state" where
  "rotate_if_needed E C lead_days = do {
     now \<leftarrow> clock_now;
     and_then find_active_key (\<lambda>k.
     case k of
       None \<Rightarrow> and_then (generate_key_internal E C Rs256) (\<lambda>_. State_Monad.return (Inr ()))
     | Some active \<Rightarrow>
         if sk_not_after active - now > days (int lead_days) then State_Monad.return (Inr ())
         else case parse_signing_algorithm (sk_algorithm active) of
           Inl e \<Rightarrow> State_Monad.return
             (Inl (''unknown algorithm on active key: '' @ domain_error_to_string e))
         | Inr algorithm \<Rightarrow>
             and_then (generate_key_internal E C algorithm) (\<lambda>_.
             map_err (\<lambda>e. ''retire old key '' @ sk_kid active @ '': '' @ domain_error_to_string e)
               (signing_keys_update_status E (sk_kid active) KeyRetired)))
   }"

definition list_keys :: "(world, key_management_error + signing_key list) state" where
  "list_keys = map_err (\<lambda>e. KeyInternal (domain_error_to_string e)) signing_keys_list_all"

definition generate_key ::
  "libs \<Rightarrow> config \<Rightarrow> signing_algorithm \<Rightarrow> (world, key_management_error + signing_key) state" where
  "generate_key E C algorithm = map_err KeyInternal (generate_key_internal E C algorithm)"

definition retire_key :: "libs \<Rightarrow> string \<Rightarrow> (world, key_management_error + unit) state" where
  "retire_key E kid =
     and_then (map_err (\<lambda>e. KeyInternal (domain_error_to_string e)) (signing_keys_find_by_kid E kid)) (\<lambda>k.
     case k of
       None \<Rightarrow> State_Monad.return (Inl (KeyNotFound kid))
     | Some key \<Rightarrow>
         if sk_status key = KeyRetired
         then State_Monad.return (Inl (KeyValidation (''key '' @ kid @ '' is already RETIRED'')))
         else map_err (\<lambda>e. case e of NotFound \<Rightarrow> KeyNotFound kid
                                   | other \<Rightarrow> KeyInternal (domain_error_to_string other))
                (signing_keys_update_status E kid KeyRetired))"

definition delete_key :: "libs \<Rightarrow> string \<Rightarrow> (world, key_management_error + unit) state" where
  "delete_key E kid =
     and_then (map_err (\<lambda>e. KeyInternal (domain_error_to_string e)) (signing_keys_find_by_kid E kid)) (\<lambda>k.
     case k of
       None \<Rightarrow> State_Monad.return (Inl (KeyNotFound kid))
     | Some key \<Rightarrow>
         if sk_status key = KeyActive
         then State_Monad.return
           (Inl (KeyValidation ''cannot delete an ACTIVE key; retire it first''))
         else map_err (\<lambda>e. KeyInternal (domain_error_to_string e)) (signing_keys_delete E kid))"

section \<open>Selection of the active key\<close>

lemma select_active_key_Some:
  assumes "select_active_key now rows = Some k"
  shows "k \<in> set rows" "sk_status k = KeyActive" "sk_not_before k \<le> micros now"
    "micros now < sk_not_after k"
    "\<And>k'. k' \<in> set rows \<Longrightarrow> sk_status k' = KeyActive \<Longrightarrow> sk_not_before k' \<le> micros now \<Longrightarrow>
       micros now < sk_not_after k' \<Longrightarrow> sk_not_before k' \<le> sk_not_before k"
proof -
  let ?P = "\<lambda>k. sk_status k = KeyActive \<and> sk_not_before k \<le> micros now \<and> sk_not_after k > micros now"
  let ?f = "\<lambda>k. - sk_not_before k"
  from assms obtain ks where ks: "sort_key ?f (filter ?P rows) = k # ks"
    by (auto simp: select_active_key_def split: list.splits)
  have set: "set (k # ks) = {x \<in> set rows. ?P x}" by (simp flip: ks)
  then have "k \<in> {x \<in> set rows. ?P x}" by auto
  then show "k \<in> set rows" "sk_status k = KeyActive" "sk_not_before k \<le> micros now"
    "micros now < sk_not_after k" by auto
  have "sorted (map ?f (k # ks))" by (simp only: sorted_sort_key flip: ks)
  then have le: "\<forall>x \<in> set (k # ks). ?f k \<le> ?f x" by auto
  fix k' assume "k' \<in> set rows" "sk_status k' = KeyActive" "sk_not_before k' \<le> micros now"
    "micros now < sk_not_after k'"
  then have "k' \<in> set (k # ks)" unfolding set by simp
  with le show "sk_not_before k' \<le> sk_not_before k" by force
qed

lemma select_active_key_None:
  "select_active_key now rows = None \<longleftrightarrow>
   (\<forall>k \<in> set rows. \<not> (sk_status k = KeyActive \<and> sk_not_before k \<le> micros now \<and> micros now < sk_not_after k))"
proof -
  let ?P = "\<lambda>k. sk_status k = KeyActive \<and> sk_not_before k \<le> micros now \<and> sk_not_after k > micros now"
  let ?f = "\<lambda>k. - sk_not_before k"
  have "select_active_key now rows = None \<longleftrightarrow> sort_key ?f (filter ?P rows) = []"
    by (auto simp: select_active_key_def split: list.splits)
  also have "\<dots> \<longleftrightarrow> filter ?P rows = []" by (simp only: length_0_conv [symmetric] length_sort)
  also have "\<dots> \<longleftrightarrow> (\<forall>k \<in> set rows. \<not> ?P k)" by (simp add: filter_empty_conv)
  finally show ?thesis .
qed

end
