(* ===== verification/Evolution.thy ===== *)
theory Evolution
  imports Repositories Crypto
begin

text \<open>
  How the tables of credentials change. For each such table there is a relation with one rule per
  SQL statement that writes it; its closure is a kept relation, so a service keeps it when all its
  calls do, and what holds after every statement holds after every run of every service. This is
  where the interleaving of requests is accounted for: the closure does not say which request sent
  which statement.
\<close>

section \<open>What the write operations leave alone\<close>

text \<open>\<open>T\<close> is any part of the database that does not include the written table.\<close>

lemma frame_users:
  "(\<And>d x. T (d\<lparr>db_users := x\<rparr>) = T d) \<Longrightarrow> always (frame T) (update_user i f)"
  unfolding update_user_def by (rule frame_db_execute) simp

lemma frame_auth_sessions:
  assumes "\<And>d x. T (d\<lparr>db_auth_sessions := x\<rparr>) = T d"
  shows "always (frame T) (auth_sessions_create E s)" "always (frame T) (update_auth_session E i f)"
    "always (frame T) (auth_sessions_delete E i)"
  unfolding auth_sessions_create_def update_auth_session_def auth_sessions_delete_def
  using assms by (auto intro!: frame_db_execute frame_db_call simp: case_prod_beta)

lemma frame_sso_sessions:
  assumes "\<And>d x. T (d\<lparr>db_sso_sessions := x\<rparr>) = T d"
  shows "always (frame T) (sso_sessions_create E s)" "always (frame T) (sso_sessions_extend_idle E h t)"
    "always (frame T) (sso_sessions_delete E h)" "always (frame T) (sso_sessions_delete_all_for_user u)"
  unfolding sso_sessions_create_def sso_sessions_extend_idle_def sso_sessions_delete_def
    sso_sessions_delete_all_for_user_def
  using assms by (auto intro!: frame_db_execute frame_db_call simp: case_prod_beta)

lemma frame_codes:
  assumes "\<And>d x. T (d\<lparr>db_codes := x\<rparr>) = T d"
  shows "always (frame T) (codes_create E c)" "always (frame T) (codes_consume E t h now)"
    "always (frame T) (codes_revoke_all_active_for_user u now)"
  unfolding codes_create_def codes_consume_def codes_revoke_all_active_for_user_def
  using assms
  by (auto intro!: frame_db_execute frame_db_call frame.always_rules frame_db_query simp: case_prod_beta)

lemma frame_refresh_tokens:
  assumes "\<And>d x. T (d\<lparr>db_refresh_tokens := x\<rparr>) = T d"
  shows "always (frame T) (refresh_tokens_create E r)" "always (frame T) (refresh_tokens_revoke E h now)"
    "always (frame T) (refresh_tokens_revoke_all_for_user u now)"
  unfolding refresh_tokens_create_def refresh_tokens_revoke_def refresh_tokens_revoke_all_for_user_def
  using assms by (auto intro!: frame_db_execute frame_db_call simp: case_prod_beta)

lemma frame_consents:
  assumes "\<And>d x. T (d\<lparr>db_consents := x\<rparr>) = T d"
  shows "always (frame T) (consents_upsert E c)" "always (frame T) (consents_revoke E t u i)"
  unfolding consents_upsert_def consents_revoke_def using assms by (auto intro!: frame_db_execute)

lemma frame_revoked_tokens:
  "(\<And>d x. T (d\<lparr>db_revoked_tokens := x\<rparr>) = T d) \<Longrightarrow> always (frame T) (revoked_tokens_revoke E r)"
  unfolding revoked_tokens_revoke_def by (rule frame_db_execute) simp

lemma frame_signing_keys:
  assumes "\<And>d x. T (d\<lparr>db_signing_keys := x\<rparr>) = T d"
  shows "always (frame T) (signing_keys_insert E k)" "always (frame T) (signing_keys_update_status E i s)"
    "always (frame T) (signing_keys_delete E i)"
    "always (frame T) (signing_keys_insert_if_no_active E l k)"
  unfolding signing_keys_insert_def signing_keys_update_status_def signing_keys_delete_def
    signing_keys_insert_if_no_active_def insert_signing_key_def
  using assms
  by (auto intro!: frame_db_execute frame_db_call frame.always_rules frame_db_query
        simp: case_prod_beta Let_def)

lemma frame_totp_secrets:
  assumes "\<And>d x. T (d\<lparr>db_totp_secrets := x\<rparr>) = T d"
  shows "always (frame T) (totp_secrets_upsert t)" "always (frame T) (totp_secrets_confirm u now)"
    "always (frame T) (totp_secrets_delete u)"
  unfolding totp_secrets_upsert_def totp_secrets_confirm_def totp_secrets_delete_def
  using assms by (auto intro!: frame_db_execute)

lemma frame_queries:
  "always (frame T) (users_find_by_id i)" "always (frame T) (users_find_by_sub i)"
  "always (frame T) (users_find_by_email E t e)" "always (frame T) (users_find_by_username E t n)"
  "always (frame T) (clients_find_by_client_id E t c)" "always (frame T) (clients_list t)"
  "always (frame T) (memberships_is_active_member t i)"
  "always (frame T) (auth_sessions_find_by_id E t s)"
  "always (frame T) (sso_sessions_find_by_hash E h)"
  "always (frame T) (refresh_tokens_find_by_hash E t h)"
  "always (frame T) (refresh_tokens_exists_by_parent_hash E h)"
  "always (frame T) (consents_find E t i c)" "always (frame T) (consents_list_for_user t i)"
  "always (frame T) (revoked_tokens_is_revoked E j)"
  "always (frame T) signing_keys_find_active" "always (frame T) signing_keys_list_published"
  "always (frame T) (signing_keys_find_by_kid E k)" "always (frame T) signing_keys_list_all"
  "always (frame T) (totp_secrets_find_by_user_id i)"
  unfolding users_find_by_id_def users_find_by_sub_def users_find_by_email_def
    users_find_by_username_def clients_find_by_client_id_def clients_list_def
    memberships_is_active_member_def auth_sessions_find_by_id_def sso_sessions_find_by_hash_def
    refresh_tokens_find_by_hash_def refresh_tokens_exists_by_parent_hash_def consents_find_def
    consents_list_for_user_def revoked_tokens_is_revoked_def signing_keys_find_active_def
    signing_keys_list_published_def signing_keys_find_by_kid_def signing_keys_list_all_def
    totp_secrets_find_by_user_id_def
  by (rule frame_db_query)+

lemma frame_random: "always (frame T) (random_token E n)" "always (frame T) (random_hex E n)"
  "always (frame T) (encrypt_text E p k)" "always (frame T) (hasher_hash E p)"
  unfolding random_token_def random_hex_def encrypt_text_def hasher_hash_def
  by (intro frame.always_rules frame_random_bytes)+

lemmas update_wrappers =
  users_update_login_state_def users_update_password_def users_reset_password_forced_def
  users_update_status_def users_mark_email_verified_def users_update_language_def
  users_update_name_def auth_sessions_set_authenticated_user_def
  auth_sessions_set_password_verified_def

lemmas frame_ops = frame_queries frame_random frame_prims

section \<open>Evolution of a table\<close>

text \<open>\<open>evolves T R\<close>: the table \<open>T\<close> changes by zero or more \<open>R\<close> steps.\<close>

definition evolves :: "(database \<Rightarrow> 'a) \<Rightarrow> ('a \<Rightarrow> 'a \<Rightarrow> bool) \<Rightarrow> world \<Rightarrow> world \<Rightarrow> bool" where
  "evolves T R w w' \<longleftrightarrow> R\<^sup>*\<^sup>* (T (db w)) (T (db w'))"

interpretation evo: kept "evolves T R" for T R
  by unfold_locales (auto simp: evolves_def)

lemma evolves_frame: "always (frame T) m \<Longrightarrow> always (evolves T R) m"
  unfolding always_def wp_def frame_def evolves_def by (auto split: prod.splits)

lemma evolves_db_call:
  "(\<And>now d. R\<^sup>*\<^sup>* (T d) (T (snd (f now d)))) \<Longrightarrow> always (evolves T R) (db_call f)"
  by (rule alwaysI)
     (auto simp: db_call_def wp_State evolves_def Let_def case_prod_beta split: option.splits)

lemma evolves_db_execute:
  "(\<And>now d. R\<^sup>*\<^sup>* (T d) (T (u now d))) \<Longrightarrow> always (evolves T R) (db_execute u)"
  unfolding db_execute_def by (rule evolves_db_call) simp

lemma evolves_db_query: "always (evolves T R) (db_query q)"
  by (rule evolves_frame) (rule frame_db_query)

text \<open>The frames of the operations, as evolutions in no steps.\<close>

lemmas evolves_ops =
  frame_queries [THEN evolves_frame] frame_random [THEN evolves_frame] frame_prims [THEN evolves_frame]
  frame_audit [THEN evolves_frame]

lemmas evolves_writes =
  frame_users [THEN evolves_frame] frame_auth_sessions [THEN evolves_frame]
  frame_sso_sessions [THEN evolves_frame] frame_codes [THEN evolves_frame]
  frame_refresh_tokens [THEN evolves_frame] frame_consents [THEN evolves_frame]
  frame_revoked_tokens [THEN evolves_frame] frame_signing_keys [THEN evolves_frame]
  frame_totp_secrets [THEN evolves_frame]

section \<open>One-time credentials\<close>

text \<open>
  A statement that does not bring a row with the key \<open>K\<close> back once there is none. Deleting a user
  deletes the user's credentials with it, and only a new credential with the same random value could
  then have the same key.
\<close>

definition no_reissue :: "('d \<Rightarrow> bool) \<Rightarrow> ('d \<Rightarrow> 'd \<Rightarrow> bool) \<Rightarrow> 'd \<Rightarrow> 'd \<Rightarrow> bool" where
  "no_reissue K R d d' \<longleftrightarrow> R d d' \<and> (K d' \<longrightarrow> K d)"

lemma evolves_no_reissueD: "evolves T (no_reissue K R) w w' \<Longrightarrow> evolves T R w w'"
  unfolding evolves_def
  by (erule rtranclp_mono [THEN predicate2D, rotated]) (auto simp: no_reissue_def)

text \<open>
  The interface of a table of one-time credentials: \<open>redeem\<close> is the UPDATE that spends the credential
  with key \<open>k\<close> and tells how many rows it found, \<open>stmt\<close> relates the table before and after any
  statement of the program on it, \<open>wf\<close> is the key constraint, \<open>held\<close> says that there is a row with the
  key and \<open>gone\<close> that none can be redeemed.
\<close>

locale one_time_store =
  fixes redeem :: "'k \<Rightarrow> instant \<Rightarrow> 'd \<Rightarrow> nat \<times> 'd"
    and stmt :: "'d \<Rightarrow> 'd \<Rightarrow> bool"
    and wf :: "'d \<Rightarrow> bool"
    and held :: "'k \<Rightarrow> 'd \<Rightarrow> bool"
    and gone :: "'k \<Rightarrow> 'd \<Rightarrow> bool"
  assumes stmt_wf: "stmt d d' \<Longrightarrow> wf d \<Longrightarrow> wf d'"
    and redeem_stmt: "stmt d (snd (redeem k t d))"
    and redeem_gone: "wf d \<Longrightarrow> fst (redeem k t d) \<noteq> 0 \<Longrightarrow> gone k (snd (redeem k t d))"
    and stmt_gone: "no_reissue (held k) stmt d d' \<Longrightarrow> gone k d \<Longrightarrow> gone k d'"
    and gone_redeem: "gone k d \<Longrightarrow> fst (redeem k t d) = 0"
begin

lemma stmts_wf: "stmt\<^sup>*\<^sup>* d d' \<Longrightarrow> wf d \<Longrightarrow> wf d'"
  by (induction rule: rtranclp_induct) (auto intro: stmt_wf)

lemma stmts_gone: "(no_reissue (held k) stmt)\<^sup>*\<^sup>* d d' \<Longrightarrow> gone k d \<Longrightarrow> gone k d'"
  by (induction rule: rtranclp_induct) (auto intro: stmt_gone)

text \<open>Once a redemption has found its row, no later one does, whatever happens in between.\<close>

lemma redeemed_once:
  assumes "wf d" and "stmt\<^sup>*\<^sup>* d d1" and "fst (redeem k t d1) \<noteq> 0"
    and "(no_reissue (held k) stmt)\<^sup>*\<^sup>* (snd (redeem k t d1)) d2"
  shows "fst (redeem k t' d2) = 0"
  using assms by (intro gone_redeem stmts_gone [OF assms(4)] redeem_gone stmts_wf [OF assms(2)])

end

section \<open>Authorization codes\<close>

inductive codes_stmt :: "libs \<Rightarrow> authorization_code list \<Rightarrow> authorization_code list \<Rightarrow> bool" for E where
  create: "ac_used_at c = None \<Longrightarrow> codes_stmt E rows (snd (insert_code E c now rows))"
| consume: "codes_stmt E rows (snd (consume_update E tenant_id code_hash used_at rows))"
| revoke: "codes_stmt E rows (revoke_codes user_id now rows)"
| cascade: "codes_stmt E rows (delete_where (\<lambda>c. ac_user_id c = user_id) rows)"

inductive_cases codes_stmtE: "codes_stmt E rows rows'"

lemma evolves_codes:
  "ac_used_at c = None \<Longrightarrow> always (evolves db_codes (codes_stmt E)) (codes_create E c)"
  "always (evolves db_codes (codes_stmt E)) (codes_consume E t h now)"
  "always (evolves db_codes (codes_stmt E)) (codes_revoke_all_active_for_user u now)"
  unfolding codes_create_def codes_consume_def codes_revoke_all_active_for_user_def
  by (auto intro!: evolves_db_call evolves_db_execute evo.always_rules evolves_db_query
        r_into_rtranclp codes_stmt.intros simp: case_prod_beta)

definition code_held :: "libs \<Rightarrow> string \<Rightarrow> authorization_code list \<Rightarrow> bool" where
  "code_held E h rows \<longleftrightarrow> (\<exists>c \<in> set rows. db_eq E (ac_code_hash c) h)"

text \<open>A code is spent when every row with its hash is used; then no UPDATE finds it again.\<close>

definition spent :: "libs \<Rightarrow> string \<Rightarrow> authorization_code list \<Rightarrow> bool" where
  "spent E h rows \<longleftrightarrow> (\<forall>c \<in> set rows. db_eq E (ac_code_hash c) h \<longrightarrow> ac_used_at c \<noteq> None)"

lemma spent_not_consumable: "spent E h rows \<Longrightarrow> rows_affected (consumable E t h now) rows = 0"
  by (auto simp: spent_def rows_affected_0 consumable_def)

lemma spent_update_where:
  "spent E h rows \<Longrightarrow> spent E h (update_where P (mark_used t) rows)"
  by (auto simp: spent_def update_where_def)

lemma spent_insert_code:
  assumes "spent E h rows" and "code_held E h (snd (insert_code E c now rows)) \<longrightarrow> code_held E h rows"
  shows "spent E h (snd (insert_code E c now rows))"
  using assms by (auto simp: spent_def code_held_def insert_code_def insert_row_def list_ex_iff db_eq_def)

lemma spent_stmt:
  "no_reissue (code_held E h) (codes_stmt E) rows rows' \<Longrightarrow> spent E h rows \<Longrightarrow> spent E h rows'"
  unfolding no_reissue_def
  by (elim conjE codes_stmtE)
     (auto simp: spent_insert_code spent_update_where consume_update_def revoke_codes_def,
      auto simp: spent_def set_delete_where)

lemma spent_evolves:
  "(no_reissue (code_held E h) (codes_stmt E))\<^sup>*\<^sup>* rows rows' \<Longrightarrow> spent E h rows \<Longrightarrow> spent E h rows'"
  by (induction rule: rtranclp_induct) (auto intro: spent_stmt)

lemma consume_spends:
  assumes "distinct (map (\<lambda>c. collate E (ac_code_hash c)) rows)"
    and "fst (consume_update E t h now rows) \<noteq> 0"
  shows "spent E h (snd (consume_update E t h now rows))"
proof -
  from assms(2) obtain row where row: "row \<in> set rows" "consumable E t h now row"
    by (auto simp: consume_update_def rows_affected_0)
  from assms(1) have inj: "inj_on (\<lambda>c. collate E (ac_code_hash c)) (set rows)"
    by (simp add: distinct_map)
  have only: "c = row" if "c \<in> set rows" "db_eq E (ac_code_hash c) h" for c
    using row that by (intro inj_onD [OF inj]) (simp_all add: consumable_def db_eq_def)
  have "ac_used_at c \<noteq> None"
    if "c \<in> set (snd (consume_update E t h now rows))" "db_eq E (ac_code_hash c) h" for c
  proof -
    from that(1) obtain r0 where r0: "r0 \<in> set rows" "c = (if consumable E t h now r0 then mark_used now r0 else r0)"
      by (auto simp: consume_update_def set_update_where)
    with that(2) have "r0 = row" by (intro only) (auto split: if_splits)
    with r0(2) row(2) show ?thesis by simp
  qed
  then show ?thesis unfolding spent_def by blast
qed

lemma codes_pk_stmt:
  "codes_stmt E rows rows' \<Longrightarrow> distinct (map (\<lambda>c. collate E (ac_code_hash c)) rows) \<Longrightarrow>
   distinct (map (\<lambda>c. collate E (ac_code_hash c)) rows')"
  by (erule codes_stmtE)
     (auto simp: consume_update_def revoke_codes_def distinct_map_update_where insert_code_pk
        distinct_map_delete_where)

lemma codes_pk_evolves: "evolves db_codes (codes_stmt E) w w' \<Longrightarrow> codes_pk E (db w) \<Longrightarrow> codes_pk E (db w')"
  unfolding evolves_def codes_pk_def by (induction rule: rtranclp_induct) (auto intro: codes_pk_stmt)

text \<open>The code table is such a store; the key of a code is its tenant and hash.\<close>

interpretation code_store: one_time_store
  "\<lambda>(tenant, h). consume_update E tenant h" "codes_stmt E"
  "\<lambda>rows. distinct (map (\<lambda>c. collate E (ac_code_hash c)) rows)" "\<lambda>(tenant, h). code_held E h"
  "\<lambda>(tenant, h). spent E h" for E
  by unfold_locales
     (auto simp: consume_update_def spent_not_consumable
        intro: codes_pk_stmt codes_stmt.consume [unfolded consume_update_def, simplified] spent_stmt
          consume_spends [unfolded consume_update_def, simplified])

section \<open>Refresh tokens\<close>

inductive refresh_stmt :: "libs \<Rightarrow> refresh_token list \<Rightarrow> refresh_token list \<Rightarrow> bool" for E where
  create: "rt_revoked_at t = None \<Longrightarrow> refresh_stmt E rows (snd (insert_refresh_token E t now rows))"
| revoke: "refresh_stmt E rows (update_where (\<lambda>t. P t \<and> rt_revoked_at t = None)
    (\<lambda>t. t\<lparr>rt_revoked_at := Some at\<rparr>) rows)"
| cascade: "refresh_stmt E rows (delete_where (\<lambda>t. rt_user_id t = user_id) rows)"

inductive_cases refresh_stmtE: "refresh_stmt E rows rows'"

lemma evolves_refresh:
  "rt_revoked_at t = None \<Longrightarrow> always (evolves db_refresh_tokens (refresh_stmt E)) (refresh_tokens_create E t)"
  "always (evolves db_refresh_tokens (refresh_stmt E)) (refresh_tokens_revoke E h now)"
  "always (evolves db_refresh_tokens (refresh_stmt E)) (refresh_tokens_revoke_all_for_user u now)"
  unfolding refresh_tokens_create_def refresh_tokens_revoke_def refresh_tokens_revoke_all_for_user_def
    revoke_refresh_token_def
  by (auto intro!: evolves_db_call evolves_db_execute r_into_rtranclp refresh_stmt.intros
        simp: case_prod_beta)

definition refresh_held :: "libs \<Rightarrow> string \<Rightarrow> refresh_token list \<Rightarrow> bool" where
  "refresh_held E h rows \<longleftrightarrow> (\<exists>t \<in> set rows. db_eq E (rt_token_hash t) h)"

text \<open>A refresh token is dead when every row with its hash is revoked; then it stays so.\<close>

definition dead :: "libs \<Rightarrow> string \<Rightarrow> refresh_token list \<Rightarrow> bool" where
  "dead E h rows \<longleftrightarrow> (\<forall>t \<in> set rows. db_eq E (rt_token_hash t) h \<longrightarrow> rt_revoked_at t \<noteq> None)"

lemma dead_update_where:
  "dead E h rows \<Longrightarrow> dead E h (update_where P (\<lambda>t. t\<lparr>rt_revoked_at := Some at\<rparr>) rows)"
  by (auto simp: dead_def update_where_def)

lemma dead_insert:
  assumes "dead E h rows"
    and "refresh_held E h (snd (insert_refresh_token E t now rows)) \<longrightarrow> refresh_held E h rows"
  shows "dead E h (snd (insert_refresh_token E t now rows))"
  using assms
  by (auto simp: dead_def refresh_held_def insert_refresh_token_def insert_row_def list_ex_iff db_eq_def)

lemma dead_stmt:
  "no_reissue (refresh_held E h) (refresh_stmt E) rows rows' \<Longrightarrow> dead E h rows \<Longrightarrow> dead E h rows'"
  unfolding no_reissue_def
  by (elim conjE refresh_stmtE)
     (auto simp: dead_update_where dead_insert, auto simp: dead_def set_delete_where)

lemma dead_evolves:
  "(no_reissue (refresh_held E h) (refresh_stmt E))\<^sup>*\<^sup>* rows rows' \<Longrightarrow> dead E h rows \<Longrightarrow> dead E h rows'"
  by (induction rule: rtranclp_induct) (auto intro: dead_stmt)

lemma dead_find:
  "dead E h rows \<Longrightarrow> find (\<lambda>t. db_eq E (rt_token_hash t) h \<and> rt_tenant_id t = tid) rows = Some t \<Longrightarrow>
   refresh_is_revoked t"
  by (drule find_SomeD) (auto simp: dead_def refresh_is_revoked_def)

end
