(* ===== verification/Samples.thy ===== *)
theory Samples
  imports Crypto Repositories
begin

text \<open>
  A small concrete environment, in which the witnesses evaluate the model: crates replaced by simple
  functions that satisfy the laws the properties rely on, a configuration with the default settings,
  and a database with a root and one tenant below it, one user, who administers it, and two clients.
\<close>

definition sample_claims :: access_token_claims where
  "sample_claims =
     \<lparr>at_iss = ''https://idp/u'', at_sub = ''uuu'', at_aud = ''https://idp/u/userinfo'',
      at_client_id = ''spa'', at_scope = ''openid email'', at_exp = 2000, at_iat = 1100,
      at_jti = ''uuuuu''\<rparr>"

definition sample_libs :: libs where
  "sample_libs =
     \<lparr>sha256 = (\<lambda>s. CHR ''h'' # s), hmac_sha256 = (\<lambda>k m. k @ m), hex_encode = (\<lambda>s. s),
      b64url_encode = (\<lambda>s. s), b64url_decode = Some, b64std_encode = (\<lambda>s. s), b64std_decode = Inr,
      gcm_encrypt = (\<lambda>k n p. Some p), gcm_decrypt = (\<lambda>k n c. Some c),
      argon2_hash = (\<lambda>salt p. Inr (CHR ''$'' # p)),
      argon2_parse_error = (\<lambda>h. if starts_with h ''$'' then None else Some ''invalid''),
      argon2_verify = (\<lambda>p h. h = CHR ''$'' # p),
      uuid_to_string = (\<lambda>u. replicate (unat u) CHR ''u''),
      uuid_parse = (\<lambda>s. if list_all (\<lambda>c. c = CHR ''u'') s then Some (of_nat (length s)) else None),
      url_append = (\<lambda>u ps. if starts_with u ''https://''
         then Some (u @ ''?'' @ join ''&'' (map (\<lambda>(k, v). k @ ''='' @ v) ps)) else None),
      percent_encode = (\<lambda>s. s), format_ymd = (\<lambda>t. ''20260101''),
      from_timestamp = (\<lambda>t. Some (seconds t)), json_jti_exp = (\<lambda>s. Some (Some s, Some 2000)),
      totp_error = (\<lambda>s. if length s < 16 then Some ''secret too short'' else None),
      totp_check = (\<lambda>s c now. Inr (c = ''123456'')), totp_url = (\<lambda>s a i. Inr (i @ a)),
      base32 = (\<lambda>s. s), rsa_encoding_key = Inr, ec_encoding_key = Inr, rsa_decoding_key = Inr,
      jwt_encode = (\<lambda>alg typ kid claims key. Inr (typ @ ''.'' @
         (case claims of IdClaims c \<Rightarrow> id_jti c | AccessClaims c \<Rightarrow> at_jti c) @ ''.'' @ kid)),
      jwt_header = (\<lambda>t. case split_on CHR ''.'' t of
         [typ, body, kid] \<Rightarrow> Some (Some typ, Some kid) | _ \<Rightarrow> None),
      jwt_decode = (\<lambda>t key alg. Some sample_claims),
      rsa_keygen = (\<lambda>seed. Inr (''rsa-private'', ''rsa-public'')),
      ec_keygen = (\<lambda>seed. Inr (''ec-private'', ''ec-public'')),
      rsa_components = (\<lambda>p. Inr (''n'', ''e'')), ec_point = (\<lambda>p. Inr (Some ''x'', Some ''y'')),
      hex_decode = Some, to_rfc3339 = (\<lambda>t. ''2026-01-01T00:00:00+00:00''),
      url_parse = (\<lambda>u. if starts_with u ''https://'' then Some (''https'', Some (drop 8 u), None) else None),
      mailbox_error = (\<lambda>a. if CHR ''@'' \<in> set a then None else Some ''missing @''),
      message_error = (\<lambda>m. None), tls_error = (\<lambda>h. None),
      wa_begin_registration = (\<lambda>u n d ex r. Inr (Inr ''options'', Inr ''state'')),
      wa_finish_registration = (\<lambda>c s. Inr (Inr c)),
      wa_begin_authentication = (\<lambda>r. Inr (Inr ''options'', Inr ''state'')),
      wa_finish_authentication = (\<lambda>c s p. if c = p then Some ''ok'' else None),
      wa_update_credential = (\<lambda>p r. None), wa_cred_id = (\<lambda>p. p), wa_passkey_error = (\<lambda>p. None),
      wa_registration_error = (\<lambda>s. None), wa_authentication_error = (\<lambda>s. None),
      wa_register_response_error = (\<lambda>c. None), wa_response_id = Some,
      collate = map ascii_lower, duplicate_entry = ''Duplicate entry'',
      check_violation = ''CONSTRAINT failed'', foreign_key_violation = ''FOREIGN KEY''\<rparr>"

definition sample_config :: config where
  "sample_config =
     \<lparr>access_token_ttl = 900, id_token_ttl = 3600, refresh_token_ttl = seconds 2592000,
      authorization_code_ttl = seconds 60, auth_session_ttl = seconds 600,
      sso_idle_ttl = seconds 28800, sso_absolute_ttl = seconds 86400, clock_skew = seconds 60,
      base_issuer = ''https://idp'', csrf_secret = ''k'', key_encryption_key = ''e'',
      rate_max_attempts = 3, rate_window = minutes 5, reset_ttl = seconds 3600,
      verification_ttl = seconds 86400, invitation_ttl = seconds 604800, tenant_cache_ttl = seconds 60,
      permission_cache_ttl = seconds 60, console_base_url = ''https://idp''\<rparr>"

definition sample_user :: user where
  "sample_user =
     \<lparr>u_id = 2, u_tenant_id = 1, u_sub = 3, u_email = ''a@b.c'', u_email_verified = True,
      u_preferred_username = Some ''alice'', u_name = None, u_language = None,
      u_password_hash = ''$secret'', u_must_change_password = False, u_status = UserActive,
      u_failed_login_count = 0, u_locked_until = None, u_created_at = 0, u_updated_at = 0\<rparr>"

definition sample_client :: client where
  "sample_client =
     \<lparr>c_id = 4, c_tenant_id = 1, c_client_id = ''spa'', c_client_secret_hash = None,
      c_client_type = Public, c_client_status = ClientActive, c_app_name = ''App'',
      c_redirect_uris = [''https://app/cb''], c_grant_types = [''authorization_code'', ''refresh_token''],
      c_response_types = [''code''], c_scopes = [''openid'', ''email'', ''offline_access''],
      c_token_endpoint_auth_method = AuthNone, c_require_pkce = True,
      c_post_logout_redirect_uris = [''https://app/bye''], c_frontchannel_logout_uri = None,
      c_backchannel_logout_uri = None, c_created_at = 0, c_updated_at = 0\<rparr>"

definition sample_backend :: client where
  "sample_backend = sample_client\<lparr>c_id := 5, c_client_id := ''backend'',
     c_client_secret_hash := Some ''$topsecret'', c_client_type := Confidential,
     c_token_endpoint_auth_method := ClientSecretBasic\<rparr>"

definition sample_membership :: tenant_membership where
  "sample_membership = new_home 1 2 0"

definition sample_key :: signing_key where
  "sample_key =
     \<lparr>sk_kid = ''k1'', sk_algorithm = ''RS256'', sk_public_key = ''rsa-public'',
      sk_private_key_encrypted = ''123456789012rsa-private'', sk_status = KeyActive,
      sk_not_before = 0, sk_not_after = days 365, sk_created_at = 0, sk_updated_at = 0\<rparr>"

definition sample_verifier :: string where
  "sample_verifier = replicate 43 CHR ''v''"

definition sample_code :: authorization_code where
  "sample_code =
     \<lparr>ac_code_hash = ''hcode'', ac_tenant_id = 1, ac_user_id = 2, ac_client_id = ''spa'',
      ac_redirect_uri = ''https://app/cb'', ac_scope = [''openid'', ''offline_access''],
      ac_nonce = ''n'', ac_auth_time = seconds 990, ac_code_challenge = CHR ''h'' # sample_verifier,
      ac_code_challenge_method = S256, ac_expires_at = seconds 1060, ac_used_at = None,
      ac_created_at = 0, ac_updated_at = 0\<rparr>"

definition sample_refresh_token :: refresh_token where
  "sample_refresh_token =
     \<lparr>rt_token_hash = ''hrt'', rt_parent_hash = None, rt_tenant_id = 1, rt_user_id = 2,
      rt_client_id = ''spa'', rt_scope = [''openid'', ''offline_access''],
      rt_expires_at = seconds 5000, rt_revoked_at = None, rt_created_at = 0\<rparr>"

definition sample_sso :: sso_session where
  "sample_sso =
     \<lparr>ss_session_hash = ''hsso'', ss_user_id = 2, ss_auth_time = seconds 990,
      ss_idle_expires_at = seconds 2000, ss_absolute_expires_at = seconds 9000,
      ss_user_agent = None, ss_ip_address = None, ss_created_at = 0, ss_updated_at = 0\<rparr>"

definition sample_auth_session :: auth_session where
  "sample_auth_session =
     \<lparr>as_id = ''sess'', as_tenant_id = 1, as_client_id = ''spa'', as_redirect_uri = ''https://app/cb'',
      as_scope = [''openid''], as_state = ''st'', as_nonce = ''n'',
      as_code_challenge = CHR ''h'' # sample_verifier, as_code_challenge_method = S256,
      as_authenticated_user_id = None, as_auth_time = None, as_password_verified_at = None,
      as_expires_at = seconds 1600, as_created_at = 0, as_updated_at = 0\<rparr>"

definition sample_root :: tenant where
  "sample_root =
     \<lparr>t_id = 9, t_parent_tenant_id = None, t_name = ''Root'', t_status = TenantActive,
      t_self_registration_enabled = False, t_created_at = 0, t_updated_at = 0\<rparr>"

definition sample_tenant :: tenant where
  "sample_tenant = sample_root\<lparr>t_id := 1, t_parent_tenant_id := Some 9, t_name := ''Acme''\<rparr>"

definition sample_permission :: user_permission where
  "sample_permission =
     \<lparr>up_user_id = 2, up_permission_code = ''idp.tenant.admin'', up_tenant_id = 1, up_granted_at = 0\<rparr>"

definition sample_link :: link_token where
  "sample_link =
     \<lparr>lt_token_hash = ''hlink'', lt_user_id = 2, lt_expires_at = seconds 1500, lt_used_at = None,
      lt_created_at = 0\<rparr>"

definition sample_settings :: "system_setting list" where
  "sample_settings =
     [\<lparr>set_key = ''smtp.host'', set_value = ''mail'', set_is_secret = False\<rparr>,
      \<lparr>set_key = ''smtp.from_address'', set_value = ''idp@mail'', set_is_secret = False\<rparr>]"

definition sample_db :: database where
  "sample_db =
     \<lparr>db_users = [sample_user], db_clients = [sample_client, sample_backend],
      db_memberships = [sample_membership], db_auth_sessions = [sample_auth_session],
      db_sso_sessions = [sample_sso], db_codes = [sample_code],
      db_refresh_tokens = [sample_refresh_token], db_consents = [], db_revoked_tokens = [],
      db_signing_keys = [sample_key], db_totp_secrets = [],
      db_tenants = [sample_root, sample_tenant], db_permissions = [''idp.system.admin'', ''idp.tenant.admin''],
      db_user_permissions = [sample_permission], db_reset_tokens = [sample_link],
      db_verification_tokens = [sample_link], db_system_settings = sample_settings, db_credentials = [],
      db_challenges = [], db_service_providers = [], db_audit_log = []\<rparr>"

text \<open>The clock stands at 1000 seconds, the random source counts, and no call fails.\<close>

definition sample_world :: world where
  "sample_world =
     \<lparr>db = sample_db, attempts = (\<lambda>_. None), reset_attempts = (\<lambda>_. None), register_attempts = (\<lambda>_. None),
      tenant_cache = (\<lambda>_. None), permission_cache = (\<lambda>_. None), outbox = [], mail_src = (\<lambda>_. None), mails = 0, clock_src = (\<lambda>_. seconds 1000), ticks = 0,
      bytes_src = (\<lambda>i n. show_nat i @ replicate n CHR ''r''), uuid_src = (\<lambda>i. of_nat (i + 10)),
      draws = 0, fault_src = (\<lambda>_. None), db_calls = 0\<rparr>"

definition sample_ctx :: request_context where
  "sample_ctx = \<lparr>correlation_id = ''c'', ip_address = Some ''192.0.2.1'', user_agent = None\<rparr>"

lemmas sample_defs =
  sample_libs_def sample_config_def sample_user_def sample_client_def sample_backend_def
  sample_membership_def sample_key_def sample_verifier_def sample_code_def
  sample_refresh_token_def sample_sso_def sample_auth_session_def sample_db_def sample_world_def
  sample_ctx_def sample_claims_def sample_root_def sample_tenant_def sample_permission_def
  sample_link_def sample_settings_def

end
