(* ===== verification/Token.thy ===== *)
theory Token
  imports KeyService Evolution Samples
begin

text \<open>
  \<^verbatim>\<open>application/code_issuance.rs\<close> and \<^verbatim>\<open>application/token.rs\<close>: issuing an authorization code, and
  the token endpoint with its two grants. The steps are in the order of the source; every early
  return is a branch.
\<close>

section \<open>Issuing an authorization code\<close>

record issue_code_command =
  ic_tenant :: tenant_id
  ic_user_id :: uuid
  ic_client_id :: string
  ic_redirect_uri :: string
  ic_scope :: "string list"
  ic_nonce :: string
  ic_auth_time :: instant
  ic_code_challenge :: string
  ic_code_challenge_method :: code_challenge_method

definition issue_code ::
  "libs \<Rightarrow> config \<Rightarrow> issue_code_command \<Rightarrow> request_context \<Rightarrow> (world, domain_error + string) state" where
  "issue_code E C cmd ctx = do {
     code \<leftarrow> random_token E 32;
     now \<leftarrow> clock_now;
     and_then (codes_create E
       \<lparr>ac_code_hash = sha256_hex E code, ac_tenant_id = ic_tenant cmd, ac_user_id = ic_user_id cmd,
        ac_client_id = ic_client_id cmd, ac_redirect_uri = ic_redirect_uri cmd,
        ac_scope = ic_scope cmd, ac_nonce = ic_nonce cmd, ac_auth_time = ic_auth_time cmd,
        ac_code_challenge = ic_code_challenge cmd,
        ac_code_challenge_method = ic_code_challenge_method cmd,
        ac_expires_at = now + authorization_code_ttl C, ac_used_at = None,
        ac_created_at = now, ac_updated_at = now\<rparr>) (\<lambda>_. do {
     audit_record AuthorizationCodeIssued AuditSuccess (Some (ic_tenant cmd))
       (Some (ic_user_id cmd)) (Some (ic_client_id cmd)) None ctx;
     State_Monad.return (Inr code) })
   }"

section \<open>The token endpoint's data\<close>

definition userinfo_audience :: "string \<Rightarrow> string" where
  "userinfo_audience issuer = issuer @ ''/userinfo''"

record token_command =
  tc_grant_type :: "string option"
  tc_code :: "string option"
  tc_redirect_uri :: "string option"
  tc_code_verifier :: "string option"
  tc_client_id :: "string option"
  tc_basic_credentials :: "(string \<times> string) option"
  tc_refresh_token :: "string option"

record token_error =
  te_code :: oauth_error_code
  te_description :: string

definition new_token_error :: "oauth_error_code \<Rightarrow> string \<Rightarrow> token_error" where
  "new_token_error c m = \<lparr>te_code = c, te_description = m\<rparr>"

record issued_tokens =
  it_access_token :: string
  it_id_token :: string
  it_expires_in :: u64
  it_scope :: string
  it_refresh_token :: "string option"

text \<open>\<open>internal\<close> logs the error and hides it.\<close>

definition internal_error :: token_error where
  "internal_error = new_token_error ServerError ''internal server error''"

definition resolve_client_id :: "token_command \<Rightarrow> token_error + string" where
  "resolve_client_id cmd =
     (case (tc_basic_credentials cmd, tc_client_id cmd) of
        (Some (basic_id, _), Some body_id) \<Rightarrow>
          if basic_id \<noteq> body_id
          then Inl (new_token_error InvalidRequest
                 ''client_id mismatch between Authorization header and body'')
          else Inr basic_id
      | (Some (basic_id, _), None) \<Rightarrow> Inr basic_id
      | (None, Some body_id) \<Rightarrow>
          if body_id \<noteq> [] then Inr body_id
          else Inl (new_token_error InvalidClient ''client authentication is required'')
      | (None, None) \<Rightarrow> Inl (new_token_error InvalidClient ''client authentication is required''))"

section \<open>Client and user checks\<close>

definition client_auth_failed ::
  "tenant_id \<Rightarrow> string \<Rightarrow> string \<Rightarrow> request_context \<Rightarrow> (world, token_error) state" where
  "client_auth_failed tenant client_id reason ctx = do {
     audit_record ClientAuthenticationFailed AuditFailure (Some tenant) None (Some client_id)
       (Some reason) ctx;
     State_Monad.return (new_token_error InvalidClient ''client authentication failed'')
   }"

definition load_active_client ::
  "libs \<Rightarrow> tenant_id \<Rightarrow> string \<Rightarrow> request_context \<Rightarrow> (world, token_error + client) state" where
  "load_active_client E tenant client_id ctx = do {
     r \<leftarrow> clients_find_by_client_id E tenant client_id;
     case r of
       Inr (Some c) \<Rightarrow>
         if client_is_active c then State_Monad.return (Inr c)
         else do { e \<leftarrow> client_auth_failed tenant client_id ''client_not_active'' ctx;
                   State_Monad.return (Inl e) }
     | Inr None \<Rightarrow> do { e \<leftarrow> client_auth_failed tenant client_id ''unknown_client'' ctx;
                        State_Monad.return (Inl e) }
     | Inl _ \<Rightarrow> State_Monad.return (Inl internal_error)
   }"

definition load_active_user :: "uuid \<Rightarrow> (world, token_error + user) state" where
  "load_active_user user_id = do {
     r \<leftarrow> users_find_by_id user_id;
     State_Monad.return (case r of
       Inr (Some u) \<Rightarrow> if user_is_active u then Inr u
                        else Inl (new_token_error InvalidGrant ''user is not active'')
     | Inr None \<Rightarrow> Inl (new_token_error InvalidGrant ''user no longer exists'')
     | Inl _ \<Rightarrow> Inl internal_error)
   }"

definition authenticate_client ::
  "libs \<Rightarrow> tenant_id \<Rightarrow> client \<Rightarrow> token_command \<Rightarrow> request_context \<Rightarrow> (world, token_error + unit) state" where
  "authenticate_client E tenant client cmd ctx =
     (let failed = (\<lambda>reason. do {
            e \<leftarrow> client_auth_failed tenant (c_client_id client) reason ctx;
            State_Monad.return (Inl e) })
      in case c_client_type client of
           Public \<Rightarrow> State_Monad.return (Inr ())
         | Confidential \<Rightarrow>
             (case tc_basic_credentials cmd of
                None \<Rightarrow> failed ''missing_basic_credentials''
              | Some (_, secret) \<Rightarrow>
                  if c_token_endpoint_auth_method client \<noteq> ClientSecretBasic
                  then failed ''unsupported_auth_method''
                  else case c_client_secret_hash client of
                    None \<Rightarrow> failed ''client_has_no_secret''
                  | Some secret_hash \<Rightarrow>
                      (case hasher_verify E secret secret_hash of
                         Inl _ \<Rightarrow> State_Monad.return (Inl internal_error)
                       | Inr ok \<Rightarrow> if \<not> ok then failed ''invalid_client_secret''
                                   else State_Monad.return (Inr ()))))"

section \<open>Signing\<close>

definition sign_id_token ::
  "libs \<Rightarrow> config \<Rightarrow> id_token_claims \<Rightarrow> (world, token_error + string) state" where
  "sign_id_token E C claims =
     and_then (map_err (\<lambda>_. internal_error) (active_signing_key E C)) (\<lambda>key.
     State_Monad.return (case sign_jwt E (ask_private_pem key) (ask_kid key) ''JWT''
                                (ask_algorithm key) (IdClaims claims) of
         Inl _ \<Rightarrow> Inl internal_error | Inr t \<Rightarrow> Inr t))"

definition sign_access_token ::
  "libs \<Rightarrow> config \<Rightarrow> access_token_claims \<Rightarrow> (world, token_error + string) state" where
  "sign_access_token E C claims =
     and_then (map_err (\<lambda>_. internal_error) (active_signing_key E C)) (\<lambda>key.
     State_Monad.return (case sign_jwt E (ask_private_pem key) (ask_kid key) ''at+jwt''
                                (ask_algorithm key) (AccessClaims claims) of
         Inl _ \<Rightarrow> Inl internal_error | Inr t \<Rightarrow> Inr t))"

definition has_scope :: "string list \<Rightarrow> scope \<Rightarrow> bool" where
  "has_scope ss s = list_ex (\<lambda>v. v = scope_as_str s) ss"

definition id_claims_for ::
  "libs \<Rightarrow> config \<Rightarrow> tenant_id \<Rightarrow> user \<Rightarrow> string \<Rightarrow> string list \<Rightarrow> int \<Rightarrow> int \<Rightarrow> string \<Rightarrow> uuid \<Rightarrow> id_token_claims" where
  "id_claims_for E C tenant_id user client_id scope iat auth_time nonce jti =
     \<lparr>id_iss = tenant_issuer E (base_issuer C) tenant_id, id_sub = uuid_to_string E (u_sub user),
      id_aud = client_id, id_exp = i64 (iat + sint (id_token_ttl C)), id_iat = iat,
      id_auth_time = auth_time, id_nonce = nonce, id_jti = uuid_to_string E jti,
      id_email = then_some (has_scope scope Email) (u_email user),
      id_email_verified = then_some (has_scope scope Email) (u_email_verified user),
      id_preferred_username = (if has_scope scope Profile then u_preferred_username user else None),
      id_name = (if has_scope scope Profile then u_name user else None)\<rparr>"

definition access_claims_for ::
  "libs \<Rightarrow> config \<Rightarrow> tenant_id \<Rightarrow> user \<Rightarrow> string \<Rightarrow> string list \<Rightarrow> int \<Rightarrow> uuid \<Rightarrow> access_token_claims" where
  "access_claims_for E C tenant_id user client_id scope iat jti =
     (let issuer = tenant_issuer E (base_issuer C) tenant_id in
      \<lparr>at_iss = issuer, at_sub = uuid_to_string E (u_sub user), at_aud = userinfo_audience issuer,
       at_client_id = client_id, at_scope = join '' '' scope,
       at_exp = i64 (iat + sint (access_token_ttl C)), at_iat = iat,
       at_jti = uuid_to_string E jti\<rparr>)"

section \<open>The authorization-code grant\<close>

definition check_code ::
  "libs \<Rightarrow> authorization_code \<Rightarrow> string \<Rightarrow> token_command \<Rightarrow> string \<Rightarrow> token_error + unit" where
  "check_code E auth_code client_id cmd code_verifier =
     (if ac_client_id auth_code \<noteq> client_id then
        Inl (new_token_error InvalidGrant ''authorization code was issued to another client'')
      else if tc_redirect_uri cmd \<noteq> Some (ac_redirect_uri auth_code) then
        Inl (new_token_error InvalidGrant ''redirect_uri does not match the authorization request'')
      else if \<not> verify_s256 E code_verifier (ac_code_challenge auth_code) then
        Inl (new_token_error InvalidGrant ''PKCE verification failed'')
      else Inr ())"

definition issue_first_refresh_token ::
  "libs \<Rightarrow> config \<Rightarrow> tenant_id \<Rightarrow> authorization_code \<Rightarrow> string \<Rightarrow> instant \<Rightarrow> request_context \<Rightarrow>
   (world, token_error + string option) state" where
  "issue_first_refresh_token E C tenant_id auth_code client_id now ctx =
     (if has_scope (ac_scope auth_code) OfflineAccess then do {
        plain \<leftarrow> random_token E 32;
        and_then (map_err (\<lambda>_. internal_error) (refresh_tokens_create E
          \<lparr>rt_token_hash = sha256_hex E plain, rt_parent_hash = None, rt_tenant_id = tenant_id,
           rt_user_id = ac_user_id auth_code, rt_client_id = client_id,
           rt_scope = ac_scope auth_code, rt_expires_at = now + refresh_token_ttl C,
           rt_revoked_at = None, rt_created_at = now\<rparr>)) (\<lambda>_. do {
        audit_record RefreshTokenIssued AuditSuccess (Some tenant_id) (Some (ac_user_id auth_code))
          (Some client_id) None ctx;
        State_Monad.return (Inr (Some plain)) })
      } else State_Monad.return (Inr None))"

definition exchange_code ::
  "libs \<Rightarrow> config \<Rightarrow> tenant_id \<Rightarrow> token_command \<Rightarrow> request_context \<Rightarrow>
   (world, token_error + issued_tokens) state" where
  "exchange_code E C tenant_id cmd ctx =
     and_then (State_Monad.return (resolve_client_id cmd)) (\<lambda>client_id.
     and_then (load_active_client E tenant_id client_id ctx) (\<lambda>client.
     and_then (authenticate_client E tenant_id client cmd ctx) (\<lambda>_.
     case non_empty (tc_code_verifier cmd) of
       None \<Rightarrow> State_Monad.return (Inl (new_token_error InvalidRequest ''code_verifier is required''))
     | Some code_verifier \<Rightarrow>
     and_then (require (is_valid_code_verifier code_verifier) (new_token_error InvalidRequest
       ''code_verifier must be 43-128 characters of [A-Za-z0-9-._~]'')) (\<lambda>_.
     case non_empty (tc_code cmd) of
       None \<Rightarrow> State_Monad.return (Inl (new_token_error InvalidRequest ''code is required''))
     | Some code \<Rightarrow> do {
     now \<leftarrow> clock_now;
     and_then (map_err (\<lambda>_. internal_error) (codes_consume E tenant_id (sha256_hex E code) now)) (\<lambda>consumed.
     case consumed of
       None \<Rightarrow> do {
         audit_record AuthorizationCodeReuseDetected AuditFailure (Some tenant_id) None
           (Some client_id) (Some ''code not found, expired, or already used'') ctx;
         State_Monad.return (Inl (new_token_error InvalidGrant
           ''authorization code is invalid, expired, or already used'')) }
     | Some auth_code \<Rightarrow> do {
     audit_record AuthorizationCodeUsed AuditSuccess (Some tenant_id) (Some (ac_user_id auth_code))
       (Some client_id) None ctx;
     and_then (State_Monad.return (check_code E auth_code client_id cmd code_verifier)) (\<lambda>_.
     and_then (load_active_user (ac_user_id auth_code)) (\<lambda>user. do {
     let iat = timestamp now;
     jti_id \<leftarrow> new_v4;
     jti_at \<leftarrow> new_v4;
     and_then (sign_id_token E C (id_claims_for E C tenant_id user client_id (ac_scope auth_code) iat
       (timestamp (ac_auth_time auth_code)) (ac_nonce auth_code) jti_id)) (\<lambda>id_token.
     and_then (sign_access_token E C (access_claims_for E C tenant_id user client_id
       (ac_scope auth_code) iat jti_at)) (\<lambda>access_token.
     and_then (issue_first_refresh_token E C tenant_id auth_code client_id now ctx) (\<lambda>refresh_token. do {
     audit_record TokenIssued AuditSuccess (Some tenant_id) (Some (ac_user_id auth_code))
       (Some client_id) None ctx;
     State_Monad.return (Inr
       \<lparr>it_access_token = access_token, it_id_token = id_token,
        it_expires_in = access_token_ttl C, it_scope = join '' '' (ac_scope auth_code),
        it_refresh_token = refresh_token\<rparr>) }))) })) }) }))))"

section \<open>The refresh-token grant\<close>

definition exchange_refresh_token ::
  "libs \<Rightarrow> config \<Rightarrow> tenant_id \<Rightarrow> token_command \<Rightarrow> request_context \<Rightarrow>
   (world, token_error + issued_tokens) state" where
  "exchange_refresh_token E C tenant_id cmd ctx =
     and_then (State_Monad.return (resolve_client_id cmd)) (\<lambda>client_id.
     and_then (load_active_client E tenant_id client_id ctx) (\<lambda>client.
     and_then (authenticate_client E tenant_id client cmd ctx) (\<lambda>_.
     case non_empty (tc_refresh_token cmd) of
       None \<Rightarrow> State_Monad.return (Inl (new_token_error InvalidRequest ''refresh_token is required''))
     | Some rt_plain \<Rightarrow> do {
     let rt_hash = sha256_hex E rt_plain;
     now \<leftarrow> clock_now;
     and_then (map_err (\<lambda>_. internal_error) (refresh_tokens_find_by_hash E tenant_id rt_hash)) (\<lambda>found.
     case found of
       None \<Rightarrow> State_Monad.return (Inl (new_token_error InvalidGrant ''refresh_token not found''))
     | Some stored \<Rightarrow>
     and_then (require (rt_client_id stored = client_id) (new_token_error InvalidGrant
       ''refresh_token was issued to another client'')) (\<lambda>_.
     and_then (map_err (\<lambda>_. internal_error) (refresh_tokens_exists_by_parent_hash E rt_hash)) (\<lambda>already_rotated.
     if already_rotated then do {
       _ \<leftarrow> refresh_tokens_revoke E rt_hash now;
       audit_record RefreshTokenReuseDetected AuditFailure (Some tenant_id) (Some (rt_user_id stored))
         (Some client_id) (Some ''refresh token already rotated'') ctx;
       State_Monad.return (Inl (new_token_error InvalidGrant ''refresh_token has already been used''))
     } else
     and_then (require (refresh_is_valid_at stored now) (new_token_error InvalidGrant
       ''refresh_token is revoked or expired'')) (\<lambda>_.
     and_then (load_active_user (rt_user_id stored)) (\<lambda>user.
     and_then (map_err (\<lambda>_. internal_error) (refresh_tokens_revoke E rt_hash now)) (\<lambda>_. do {
     let iat = timestamp now;
     jti_id \<leftarrow> new_v4;
     jti_at \<leftarrow> new_v4;
     and_then (sign_id_token E C (id_claims_for E C tenant_id user client_id (rt_scope stored) iat
       iat [] jti_id)) (\<lambda>id_token.
     and_then (sign_access_token E C (access_claims_for E C tenant_id user client_id
       (rt_scope stored) iat jti_at)) (\<lambda>access_token. do {
     new_rt_plain \<leftarrow> random_token E 32;
     and_then (map_err (\<lambda>_. internal_error) (refresh_tokens_create E
       \<lparr>rt_token_hash = sha256_hex E new_rt_plain, rt_parent_hash = Some rt_hash,
        rt_tenant_id = tenant_id, rt_user_id = rt_user_id stored, rt_client_id = client_id,
        rt_scope = rt_scope stored, rt_expires_at = rt_expires_at stored, rt_revoked_at = None,
        rt_created_at = now\<rparr>)) (\<lambda>_. do {
     audit_record RefreshTokenUsed AuditSuccess (Some tenant_id) (Some (rt_user_id stored))
       (Some client_id) None ctx;
     audit_record RefreshTokenIssued AuditSuccess (Some tenant_id) (Some (rt_user_id stored))
       (Some client_id) None ctx;
     audit_record TokenIssued AuditSuccess (Some tenant_id) (Some (rt_user_id stored))
       (Some client_id) None ctx;
     State_Monad.return (Inr
       \<lparr>it_access_token = access_token, it_id_token = id_token,
        it_expires_in = access_token_ttl C, it_scope = join '' '' (rt_scope stored),
        it_refresh_token = Some new_rt_plain\<rparr>) }) })) })))))) })))"

definition exchange ::
  "libs \<Rightarrow> config \<Rightarrow> tenant_id \<Rightarrow> token_command \<Rightarrow> request_context \<Rightarrow>
   (world, token_error + issued_tokens) state" where
  "exchange E C tenant cmd ctx =
     (if tc_grant_type cmd = Some ''authorization_code'' then exchange_code E C tenant cmd ctx
      else if tc_grant_type cmd = Some ''refresh_token'' then exchange_refresh_token E C tenant cmd ctx
      else State_Monad.return (Inl (new_token_error UnsupportedGrantType
             ''grant_type must be `authorization_code` or `refresh_token`'')))"

section \<open>What the checks guarantee\<close>

lemma load_active_client_Inr:
  "run_state (load_active_client E t cid ctx) w = (Inr c, w') \<Longrightarrow>
   find (\<lambda>c. c_tenant_id c = t \<and> db_eq E (c_client_id c) cid) (db_clients (db w)) = Some c \<and>
   client_is_active c \<and> w' = called w"
  by (auto simp: load_active_client_def clients_find_by_client_id_def run_rules)

definition client_authenticated :: "libs \<Rightarrow> client \<Rightarrow> token_command \<Rightarrow> bool" where
  "client_authenticated E client cmd \<longleftrightarrow>
     (c_client_type client = Public \<or>
      (\<exists>i secret hash. tc_basic_credentials cmd = Some (i, secret) \<and>
         c_token_endpoint_auth_method client = ClientSecretBasic \<and>
         c_client_secret_hash client = Some hash \<and> hasher_verify E secret hash = Inr True))"

lemma authenticate_client_Inr:
  "run_state (authenticate_client E t c cmd ctx) w = (Inr x, w') \<Longrightarrow>
   client_authenticated E c cmd \<and> w' = w"
  by (auto simp: authenticate_client_def client_authenticated_def Let_def run_rules split: client_type.splits)

lemma load_active_user_Inr:
  "run_state (load_active_user i) w = (Inr u, w') \<Longrightarrow>
   find (\<lambda>u. u_id u = i) (db_users (db w)) = Some u \<and> user_is_active u \<and> w' = called w"
  by (auto simp: load_active_user_def users_find_by_id_def run_rules)

definition signed_by_active :: "libs \<Rightarrow> config \<Rightarrow> signing_key list \<Rightarrow> string \<Rightarrow> jwt_claims \<Rightarrow> string \<Rightarrow> bool" where
  "signed_by_active E C keys typ claims t \<longleftrightarrow>
     (\<exists>now key k. select_active_key now keys = Some key \<and>
        decode_private_key E C key = Inr k \<and>
        sign_jwt E (ask_private_pem k) (ask_kid k) typ (ask_algorithm k) claims = Inr t)"

lemma active_signing_key_Inr:
  "run_state (active_signing_key E C) w = (Inr k, w') \<Longrightarrow>
   \<exists>now key. select_active_key now (db_signing_keys (db w)) = Some key \<and>
     decode_private_key E C key = Inr k \<and> w' = called w"
  by (auto simp: active_signing_key_def find_active_key_def signing_keys_find_active_def run_rules)

lemma sign_id_token_Inr:
  "run_state (sign_id_token E C claims) w = (Inr t, w') \<Longrightarrow>
   signed_by_active E C (db_signing_keys (db w)) ''JWT'' (IdClaims claims) t \<and> w' = called w"
  by (auto simp: sign_id_token_def signed_by_active_def run_rules dest!: active_signing_key_Inr)

lemma sign_access_token_Inr:
  "run_state (sign_access_token E C claims) w = (Inr t, w') \<Longrightarrow>
   signed_by_active E C (db_signing_keys (db w)) ''at+jwt'' (AccessClaims claims) t \<and> w' = called w"
  by (auto simp: sign_access_token_def signed_by_active_def run_rules dest!: active_signing_key_Inr)

lemma check_code_Inr:
  "check_code E c cid cmd v = Inr x \<longleftrightarrow> ac_client_id c = cid \<and>
     tc_redirect_uri cmd = Some (ac_redirect_uri c) \<and> verify_s256 E v (ac_code_challenge c)"
  by (auto simp: check_code_def)

lemma refresh_tokens_create_Inr:
  "run_state (refresh_tokens_create E t) w = (Inr x, w') \<Longrightarrow>
   \<exists>now. db w' = (db w)\<lparr>db_refresh_tokens := db_refresh_tokens (db w) @
      [t\<lparr>rt_expires_at := micros (rt_expires_at t), rt_revoked_at := map_option micros (rt_revoked_at t),
         rt_created_at := micros now\<rparr>]\<rparr> \<and> attempts w' = attempts w \<and>
     (\<forall>r \<in> set (db_refresh_tokens (db w)). \<not> db_eq E (rt_token_hash r) (rt_token_hash t))"
  by (force simp: refresh_tokens_create_def run_db_call_Inr insert_refresh_token_def insert_row_def list_ex_iff
      split: if_splits prod.splits)

lemma issue_first_refresh_token_Inr:
  assumes "run_state (issue_first_refresh_token E C tenant c cid now ctx) w = (Inr r, w')"
  shows "if has_scope (ac_scope c) OfflineAccess
    then \<exists>plain created. r = Some plain \<and> tables (db w') = tables ((db w)\<lparr>db_refresh_tokens := db_refresh_tokens (db w) @
       [\<lparr>rt_token_hash = sha256_hex E plain, rt_parent_hash = None, rt_tenant_id = tenant,
           rt_user_id = ac_user_id c, rt_client_id = cid, rt_scope = ac_scope c,
           rt_expires_at = micros (now + refresh_token_ttl C),
           rt_revoked_at = None, rt_created_at = created\<rparr>]\<rparr>)
    else r = None \<and> w' = w"
proof (cases "has_scope (ac_scope c) OfflineAccess")
  case True
  with assms show ?thesis
    by (fastforce simp: issue_first_refresh_token_def run_rules tables_def dest!: run_audit refresh_tokens_create_Inr)
next
  case False
  with assms show ?thesis by (simp add: issue_first_refresh_token_def run_rules)
qed

definition code_grant ::
  "libs \<Rightarrow> tenant_id \<Rightarrow> token_command \<Rightarrow> database \<Rightarrow> instant \<Rightarrow> client \<Rightarrow> authorization_code \<Rightarrow> user \<Rightarrow> bool" where
  "code_grant E tenant cmd d now client row user \<longleftrightarrow>
     client \<in> set (db_clients d) \<and> c_tenant_id client = tenant \<and>
     db_eq E (c_client_id client) (ac_client_id row) \<and> client_is_active client \<and>
     client_authenticated E client cmd \<and>
     row \<in> set (db_codes d) \<and> resolve_client_id cmd = Inr (ac_client_id row) \<and>
     tc_redirect_uri cmd = Some (ac_redirect_uri row) \<and>
     (\<exists>code. tc_code cmd = Some code \<and> consumable E tenant (sha256_hex E code) now row) \<and>
     (\<exists>verifier. tc_code_verifier cmd = Some verifier \<and> is_valid_code_verifier verifier \<and>
        verify_s256 E verifier (ac_code_challenge row)) \<and>
     user \<in> set (db_users d) \<and> u_id user = ac_user_id row \<and> user_is_active user"

lemma exchange_code_Inr:
  assumes "codes_pk E (db w)"
    and "run_state (exchange_code E C tenant cmd ctx) w = (Inr toks, w')"
  shows "\<exists>now client row user jti1 jti2.
    code_grant E tenant cmd (db w) now client row user \<and>
    signed_by_active E C (db_signing_keys (db w)) ''JWT'' (IdClaims (id_claims_for E C tenant user
       (ac_client_id row) (ac_scope row) (timestamp now) (timestamp (ac_auth_time row)) (ac_nonce row) jti1))
       (it_id_token toks) \<and>
    signed_by_active E C (db_signing_keys (db w)) ''at+jwt'' (AccessClaims (access_claims_for E C tenant user
       (ac_client_id row) (ac_scope row) (timestamp now) jti2)) (it_access_token toks) \<and>
    it_scope toks = join '' '' (ac_scope row) \<and>
    (it_refresh_token toks \<noteq> None \<longleftrightarrow> has_scope (ac_scope row) OfflineAccess) \<and>
    db_codes (db w') = update_where (consumable E tenant (ac_code_hash row) now) (mark_used now) (db_codes (db w))"
proof -
  have consume: "\<exists>row \<in> set (db_codes (db w)). consumable E t h now row \<and> c = mark_used now row \<and>
     db w'' = (db w)\<lparr>db_codes := update_where (consumable E t h now) (mark_used now) (db_codes (db w))\<rparr>"
    if "run_state (codes_consume E t h now) (tick (called w)) = (Inr (Some c), w'')" for t h now c w''
    using codes_consume_Some [OF _ that] assms(1) by auto
  have same: "consumable E t (ac_code_hash row) now = consumable E t h now"
    if "consumable E t h now row" for t h now row
    using that by (auto simp: consumable_def db_eq_def)
  from assms(2) show ?thesis
    unfolding exchange_code_def
    apply (clarsimp simp: run_rules check_code_Inr tables_eq_iff dest!: load_active_client_Inr authenticate_client_Inr
      load_active_user_Inr consume sign_id_token_Inr sign_access_token_Inr run_audit
      issue_first_refresh_token_Inr find_SomeD)
    subgoal for client verifier code w2 row w3 user idt act rt w4
    apply (rule exI [of _ "clock_src w (ticks (called w))"])
    apply (rule exI [of _ client], rule exI [of _ row], rule exI [of _ user])
    apply (auto simp: code_grant_def tables_eq_iff same split: if_splits)
      done
    done
qed
definition refresh_grant ::
  "libs \<Rightarrow> tenant_id \<Rightarrow> token_command \<Rightarrow> database \<Rightarrow> instant \<Rightarrow> client \<Rightarrow> refresh_token \<Rightarrow> user \<Rightarrow> bool" where
  "refresh_grant E tenant cmd d now client stored user \<longleftrightarrow>
     client \<in> set (db_clients d) \<and> c_tenant_id client = tenant \<and>
     db_eq E (c_client_id client) (rt_client_id stored) \<and> client_is_active client \<and>
     client_authenticated E client cmd \<and>
     stored \<in> set (db_refresh_tokens d) \<and> resolve_client_id cmd = Inr (rt_client_id stored) \<and>
     rt_tenant_id stored = tenant \<and>
     (\<exists>plain. tc_refresh_token cmd = Some plain \<and> db_eq E (rt_token_hash stored) (sha256_hex E plain) \<and>
        (\<forall>t \<in> set (db_refresh_tokens d). \<not> has_parent E (sha256_hex E plain) t)) \<and>
     refresh_is_valid_at stored now \<and>
     user \<in> set (db_users d) \<and> u_id user = rt_user_id stored \<and> user_is_active user"

lemma exchange_refresh_token_Inr:
  assumes "run_state (exchange_refresh_token E C tenant cmd ctx) w = (Inr toks, w')"
  shows "\<exists>now client stored user jti1 jti2 plain new_plain created.
    refresh_grant E tenant cmd (db w) now client stored user \<and>
    signed_by_active E C (db_signing_keys (db w)) ''JWT'' (IdClaims (id_claims_for E C tenant user
       (rt_client_id stored) (rt_scope stored) (timestamp now) (timestamp now) [] jti1))
       (it_id_token toks) \<and>
    signed_by_active E C (db_signing_keys (db w)) ''at+jwt'' (AccessClaims (access_claims_for E C tenant user
       (rt_client_id stored) (rt_scope stored) (timestamp now) jti2)) (it_access_token toks) \<and>
    it_scope toks = join '' '' (rt_scope stored) \<and>
    tc_refresh_token cmd = Some plain \<and> it_refresh_token toks = Some new_plain \<and>
    db_refresh_tokens (db w') =
      revoke_refresh_token E (sha256_hex E plain) now (db_refresh_tokens (db w)) @
      [\<lparr>rt_token_hash = sha256_hex E new_plain, rt_parent_hash = Some (sha256_hex E plain),
        rt_tenant_id = tenant, rt_user_id = rt_user_id stored, rt_client_id = rt_client_id stored,
        rt_scope = rt_scope stored, rt_expires_at = micros (rt_expires_at stored),
        rt_revoked_at = None, rt_created_at = created\<rparr>] \<and>
    (\<forall>r \<in> set (revoke_refresh_token E (sha256_hex E plain) now (db_refresh_tokens (db w))).
       \<not> db_eq E (rt_token_hash r) (sha256_hex E new_plain))"
  using assms
    unfolding exchange_refresh_token_def
    apply (clarsimp simp: run_rules tables_eq_iff refresh_tokens_find_by_hash_def
        refresh_tokens_exists_by_parent_hash_def refresh_tokens_revoke_def filter_empty_conv
      dest!: load_active_client_Inr authenticate_client_Inr
      load_active_user_Inr sign_id_token_Inr sign_access_token_Inr refresh_tokens_create_Inr
      find_SomeD run_audit)
    subgoal for client plain stored user idt act
    apply (rule exI [of _ "clock_src w (ticks (called w))"])
    apply (rule exI [of _ client], rule exI [of _ stored], rule exI [of _ user])
    apply (auto simp: refresh_grant_def tables_eq_iff split: if_splits)
    done
  done
section \<open>Effects on the tables\<close>

lemma frame_key_service:
  "always (frame T) find_active_key" "always (frame T) (active_signing_key E C)"
  unfolding find_active_key_def active_signing_key_def
  by (intro frame.always_rules frame_ops)+

lemma frame_token_checks:
  assumes "\<And>d l. T (d\<lparr>db_audit_log := l\<rparr>) = T d"
  shows "always (frame T) (client_auth_failed t c r ctx)"
    "always (frame T) (load_active_client E t c ctx)"
    "always (frame T) (authenticate_client E t cl cmd ctx)"
proof -
  show 1: "always (frame T) (client_auth_failed t c r ctx)" for c r
    unfolding client_auth_failed_def by (intro frame.always_rules frame_audit assms)
  show "always (frame T) (load_active_client E t c ctx)"
    unfolding load_active_client_def by (intro frame.always_rules frame_ops 1)
  show "always (frame T) (authenticate_client E t cl cmd ctx)"
    unfolding authenticate_client_def
    by (auto split: client_type.splits intro!: frame.always_rules 1)
qed

lemma frame_signing:
  "always (frame T) (load_active_user i)" "always (frame T) (sign_id_token E C ic)"
  "always (frame T) (sign_access_token E C ac)"
  unfolding load_active_user_def sign_id_token_def sign_access_token_def
  by (intro frame.always_rules frame_ops frame_key_service)+

lemma codes_evolve_issue_code: "always (evolves db_codes (codes_stmt E)) (issue_code E C cmd ctx)"
  unfolding issue_code_def by (intro evo.always_rules evolves_ops evolves_codes) simp_all

lemma codes_evolve_exchange_code:
  "always (evolves db_codes (codes_stmt E)) (exchange_code E C t cmd ctx)"
  unfolding exchange_code_def issue_first_refresh_token_def
  by (intro evo.always_rules evolves_ops evolves_codes frame_token_checks [THEN evolves_frame]
       frame_signing [THEN evolves_frame] evolves_writes) simp_all

lemma codes_evolve_exchange_refresh_token:
  "always (evolves db_codes (codes_stmt E)) (exchange_refresh_token E C t cmd ctx)"
  unfolding exchange_refresh_token_def
  by (intro evo.always_rules evolves_ops frame_token_checks [THEN evolves_frame]
       frame_signing [THEN evolves_frame] evolves_writes) simp_all

lemma codes_evolve_exchange: "always (evolves db_codes (codes_stmt E)) (exchange E C t cmd ctx)"
  unfolding exchange_def
  by (intro evo.always_rules codes_evolve_exchange_code codes_evolve_exchange_refresh_token)

lemma refresh_evolve_exchange: "always (evolves db_refresh_tokens (refresh_stmt E)) (exchange E C t cmd ctx)"
  unfolding exchange_def exchange_code_def exchange_refresh_token_def issue_first_refresh_token_def
  by (intro evo.always_rules evolves_ops frame_token_checks [THEN evolves_frame]
       frame_signing [THEN evolves_frame] evolves_refresh frame_codes [THEN evolves_frame]) simp_all

section \<open>Rotation\<close>

lemma revoke_kills: "dead E h (revoke_refresh_token E h now rows)"
  by (auto simp: dead_def revoke_refresh_token_def update_where_def)

lemma revoke_held: "refresh_held E h rows \<Longrightarrow> refresh_held E h (revoke_refresh_token E h now rows)"
  unfolding refresh_held_def revoke_refresh_token_def
  by (erule bexE) (rule bexI [OF _ in_update_where], auto)

lemma exchange_refresh_kills:
  assumes "run_state (exchange_refresh_token E C tenant cmd ctx) w = (Inr toks, w')"
    and "tc_refresh_token cmd = Some plain"
  shows "dead E (sha256_hex E plain) (db_refresh_tokens (db w'))"
proof -
  let ?h = "sha256_hex E plain"
  from exchange_refresh_token_Inr [OF assms(1)] assms(2) obtain now client stored user new where
      g: "refresh_grant E tenant cmd (db w) now client stored user"
    and rows: "db_refresh_tokens (db w') = revoke_refresh_token E ?h now (db_refresh_tokens (db w)) @ [new]"
    and fresh: "\<forall>r \<in> set (revoke_refresh_token E ?h now (db_refresh_tokens (db w))).
       \<not> db_eq E (rt_token_hash r) (rt_token_hash new)"
    by fastforce
  from g assms(2) have "refresh_held E ?h (db_refresh_tokens (db w))"
    by (auto simp: refresh_grant_def refresh_held_def)
  then have "refresh_held E ?h (revoke_refresh_token E ?h now (db_refresh_tokens (db w)))"
    by (rule revoke_held)
  with fresh have "\<not> db_eq E (rt_token_hash new) ?h" by (auto simp: refresh_held_def db_eq_def)
  then show ?thesis using revoke_kills [of E ?h now "db_refresh_tokens (db w)"] by (auto simp: rows dead_def)
qed

lemma dead_exchange_refresh:
  assumes "dead E (sha256_hex E plain) (db_refresh_tokens (db w))" and "tc_refresh_token cmd = Some plain"
    and "run_state (exchange_refresh_token E C t cmd ctx) w = (Inr toks, w')"
  shows False
proof -
  from exchange_refresh_token_Inr [OF assms(3)] obtain now client stored user where
    "refresh_grant E t cmd (db w) now client stored user" by blast
  with assms(1,2) show False
    by (auto simp: refresh_grant_def dead_def refresh_is_valid_at_def refresh_is_revoked_def)
qed

section \<open>Spent codes and early errors\<close>

lemma exchange_code_spends:
  assumes "codes_pk E (db w)" and "run_state (exchange_code E C t cmd ctx) w = (Inr toks, w')"
    and "tc_code cmd = Some code"
  shows "spent E (sha256_hex E code) (db_codes (db w'))"
proof -
  obtain now client row user where g: "code_grant E t cmd (db w) now client row user"
    and rows: "db_codes (db w') = update_where (consumable E t (ac_code_hash row) now) (mark_used now) (db_codes (db w))"
    using exchange_code_Inr [OF assms(1,2)] by blast
  from g assms(3) have c: "consumable E t (sha256_hex E code) now row" "row \<in> set (db_codes (db w))"
    by (auto simp: code_grant_def)
  then have "consumable E t (ac_code_hash row) now = consumable E t (sha256_hex E code) now"
    by (auto simp: consumable_def db_eq_def fun_eq_iff)
  with rows have "db_codes (db w') = snd (consume_update E t (sha256_hex E code) now (db_codes (db w)))"
    by (simp add: consume_update_def)
  moreover have "fst (consume_update E t (sha256_hex E code) now (db_codes (db w))) \<noteq> 0"
    using c by (auto simp: consume_update_def rows_affected_0)
  ultimately show ?thesis using consume_spends assms(1) by (simp add: codes_pk_def)
qed

lemma spent_exchange_code:
  assumes "spent E (sha256_hex E code) (db_codes (db w))" and "tc_code cmd = Some code"
    and "codes_pk E (db w)"
    and "run_state (exchange_code E C t cmd ctx) w = (Inr toks, w')"
  shows False
proof -
  obtain now client row user where g: "code_grant E t cmd (db w) now client row user"
    using exchange_code_Inr [OF assms(3,4)] by blast
  with assms(1,2) show False
    by (auto simp: code_grant_def spent_def consumable_def)
qed

lemma token_error_codes:
  "run_state (client_auth_failed t c r ctx) w = (e, w') \<Longrightarrow> te_code e = InvalidClient"
  "run_state (load_active_client E t c ctx) w = (Inl e, w') \<Longrightarrow> te_code e \<in> {InvalidClient, ServerError}"
  "run_state (load_active_user i) w = (Inl e, w') \<Longrightarrow> te_code e \<in> {InvalidGrant, ServerError}"
  "run_state (sign_id_token E C ic) w = (Inl e, w') \<Longrightarrow> te_code e = ServerError"
  "run_state (sign_access_token E C tc) w = (Inl e, w') \<Longrightarrow> te_code e = ServerError"
  "check_code E ac c cmd v = Inl e \<Longrightarrow> te_code e = InvalidGrant"
  "run_state (issue_first_refresh_token E C t ac c now ctx) w = (Inl e, w') \<Longrightarrow> te_code e = ServerError"
  by (auto simp: client_auth_failed_def load_active_client_def load_active_user_def sign_id_token_def
      sign_access_token_def check_code_def issue_first_refresh_token_def internal_error_def new_token_error_def run_rules
      split: if_splits)

lemma exchange_code_early_error:
  assumes "run_state (exchange_code E C t cmd ctx) w = (Inl e, w')"
    and "te_code e = InvalidClient \<or> te_code e = InvalidRequest"
  shows "tables (db w') = tables (db w)"
proof -
  have fr: "always (frame tables) (load_active_client E t c ctx)" 
    "always (frame tables) (authenticate_client E t cl cmd ctx)" for c cl
    by (intro frame_token_checks; simp add: tables_def)+
  note d = fr [THEN alwaysD, unfolded frame_def]
  from assms show ?thesis
  unfolding exchange_code_def
  by (auto simp: run_rules internal_error_def new_token_error_def dest: token_error_codes) (metis d)+
qed
section \<open>Properties\<close>

definition sample_code_command :: token_command where
  "sample_code_command =
     \<lparr>tc_grant_type = Some ''authorization_code'', tc_code = Some ''code'',
      tc_redirect_uri = Some ''https://app/cb'', tc_code_verifier = Some sample_verifier,
      tc_client_id = Some ''spa'', tc_basic_credentials = None, tc_refresh_token = None\<rparr>"

definition sample_refresh_command :: token_command where
  "sample_refresh_command =
     \<lparr>tc_grant_type = Some ''refresh_token'', tc_code = None, tc_redirect_uri = None,
      tc_code_verifier = None, tc_client_id = Some ''spa'', tc_basic_credentials = None,
      tc_refresh_token = Some ''rt''\<rparr>"

text \<open>
  C1. The authorization-code grant is sound. Tokens are issued only when, in the database the request
  found, the client exists in the tenant, is active and has authenticated; the code has a row of that
  tenant that is unused and unexpired, was issued to that client and for the redirect URI of the
  request; the verifier is well-formed and matches the code's challenge; and the user is active. Both
  tokens are signed with the active key over claims for that tenant, user, client and scope, a refresh
  token comes with them exactly when the scope has \<open>offline_access\<close>, and the code's row is marked used.
\<close>

theorem exchange_code_sound:
  assumes "codes_pk E (db w)"
    and "run_state (exchange_code E C tenant cmd ctx) w = (Inr toks, w')"
  shows "\<exists>now client row user jti1 jti2.
    code_grant E tenant cmd (db w) now client row user \<and>
    signed_by_active E C (db_signing_keys (db w)) ''JWT'' (IdClaims (id_claims_for E C tenant user
       (ac_client_id row) (ac_scope row) (timestamp now) (timestamp (ac_auth_time row)) (ac_nonce row) jti1))
       (it_id_token toks) \<and>
    signed_by_active E C (db_signing_keys (db w)) ''at+jwt'' (AccessClaims (access_claims_for E C tenant user
       (ac_client_id row) (ac_scope row) (timestamp now) jti2)) (it_access_token toks) \<and>
    it_scope toks = join '' '' (ac_scope row) \<and>
    (it_refresh_token toks \<noteq> None \<longleftrightarrow> has_scope (ac_scope row) OfflineAccess) \<and>
    db_codes (db w') = update_where (consumable E tenant (ac_code_hash row) now) (mark_used now) (db_codes (db w))"
  by (rule exchange_code_Inr [OF assms])

lemma sample_codes_pk: "codes_pk sample_libs (db sample_world)"
  by code_simp

lemma sample_code_run:
  "\<exists>toks w'. run_state (exchange_code sample_libs sample_config 1 sample_code_command sample_ctx)
     sample_world = (Inr toks, w')"
  by (rule run_InrI) code_simp

theorem exchange_code_sound_witness:
  "\<exists>toks w' now client row user.
     run_state (exchange_code sample_libs sample_config 1 sample_code_command sample_ctx)
       sample_world = (Inr toks, w') \<and>
     code_grant sample_libs 1 sample_code_command (db sample_world) now client row user"
proof -
  obtain toks w' where run: "run_state (exchange_code sample_libs sample_config 1 sample_code_command
    sample_ctx) sample_world = (Inr toks, w')" using sample_code_run by blast
  from exchange_code_sound [OF sample_codes_pk run] run show ?thesis by blast
qed

text \<open>
  C2. A code is exchanged at most once. After one request has been given tokens for a code, no request
  to any tenant, by any client, gets tokens for the same code, whatever statements of whatever
  requests change the code table in between. (When the user is deleted the row goes too; it is then
  assumed that no newly drawn code has the hash of the old one. While the row is there, the primary
  key sees to that.)
\<close>

theorem code_single_use:
  assumes "codes_pk E (db w)"
    and "run_state (exchange_code E C t cmd ctx) w = (Inr toks, w1)"
    and "tc_code cmd = Some code"
    and "evolves db_codes (no_reissue (code_held E (sha256_hex E code)) (codes_stmt E)) w1 w2"
    and "tc_code cmd' = Some code"
  shows "\<exists>e w3. run_state (exchange_code E C t' cmd' ctx') w2 = (Inl e, w3)"
proof (rule ccontr)
  assume "\<not> ?thesis"
  then obtain toks' w3 where run: "run_state (exchange_code E C t' cmd' ctx') w2 = (Inr toks', w3)"
    by (cases "run_state (exchange_code E C t' cmd' ctx') w2"; cases "fst (run_state (exchange_code E C t' cmd' ctx') w2)") auto
  have pk1: "codes_pk E (db w1)"
    using alwaysD [OF codes_evolve_exchange_code assms(2)] assms(1) by (rule codes_pk_evolves)
  with evolves_no_reissueD [OF assms(4)] have pk2: "codes_pk E (db w2)" by (rule codes_pk_evolves)
  have "spent E (sha256_hex E code) (db_codes (db w1))"
    using assms(1-3) by (rule exchange_code_spends)
  with assms(4) have "spent E (sha256_hex E code) (db_codes (db w2))"
    unfolding evolves_def by (rule spent_evolves)
  then show False using assms(5) pk2 run by (rule spent_exchange_code)
qed

theorem code_single_use_witness:
  "\<exists>toks w1 e w3.
     run_state (exchange_code sample_libs sample_config 1 sample_code_command sample_ctx)
       sample_world = (Inr toks, w1) \<and>
     run_state (exchange_code sample_libs sample_config 1 sample_code_command sample_ctx) w1 = (Inl e, w3)"
proof -
  obtain toks w1 where run: "run_state (exchange_code sample_libs sample_config 1 sample_code_command
    sample_ctx) sample_world = (Inr toks, w1)" using sample_code_run by blast
  have code: "tc_code sample_code_command = Some ''code''" by code_simp
  have "evolves db_codes (no_reissue K (codes_stmt sample_libs)) w1 w1" for K by (simp add: evolves_def)
  from code_single_use [OF sample_codes_pk run code this code] run show ?thesis by blast
qed

text \<open>
  C7. The refresh-token grant is sound. Tokens are issued only for a stored token of the same tenant and
  client that is neither revoked nor expired and from which no token has been derived, to an active
  and authenticated client, for an active user. The presented token is revoked, its successor
  names it as parent, carries the same user, client and scope, and does not expire later.
\<close>

theorem exchange_refresh_sound:
  assumes "run_state (exchange_refresh_token E C tenant cmd ctx) w = (Inr toks, w')"
  shows "\<exists>now client stored user plain new_plain created.
    refresh_grant E tenant cmd (db w) now client stored user \<and>
    it_scope toks = join '' '' (rt_scope stored) \<and>
    tc_refresh_token cmd = Some plain \<and> it_refresh_token toks = Some new_plain \<and>
    db_refresh_tokens (db w') =
      revoke_refresh_token E (sha256_hex E plain) now (db_refresh_tokens (db w)) @
      [\<lparr>rt_token_hash = sha256_hex E new_plain, rt_parent_hash = Some (sha256_hex E plain),
        rt_tenant_id = tenant, rt_user_id = rt_user_id stored, rt_client_id = rt_client_id stored,
        rt_scope = rt_scope stored, rt_expires_at = micros (rt_expires_at stored),
        rt_revoked_at = None, rt_created_at = created\<rparr>] \<and>
    micros (rt_expires_at stored) \<le> rt_expires_at stored"
  using exchange_refresh_token_Inr [OF assms] micros_le by blast

lemma sample_refresh_run:
  "\<exists>toks w'. run_state (exchange_refresh_token sample_libs sample_config 1 sample_refresh_command
     sample_ctx) sample_world = (Inr toks, w')"
  by (rule run_InrI) code_simp

theorem exchange_refresh_sound_witness:
  "\<exists>toks w' now client stored user.
     run_state (exchange_refresh_token sample_libs sample_config 1 sample_refresh_command sample_ctx)
       sample_world = (Inr toks, w') \<and>
     refresh_grant sample_libs 1 sample_refresh_command (db sample_world) now client stored user"
proof -
  obtain toks w' where run: "run_state (exchange_refresh_token sample_libs sample_config 1
    sample_refresh_command sample_ctx) sample_world = (Inr toks, w')" using sample_refresh_run by blast
  from exchange_refresh_sound [OF run] run show ?thesis by blast
qed

text \<open>
  C6. A refresh token is rotated at most once: after it has been exchanged, no later request with it
  succeeds, whatever statements of other requests change the table in between (with the same proviso
  for tokens of a deleted user as for codes). (Two requests whose
  statements interleave are another matter: the check and the revocation are separate statements.)
\<close>

theorem refresh_token_single_use:
  assumes "run_state (exchange_refresh_token E C t cmd ctx) w = (Inr toks, w1)"
    and "tc_refresh_token cmd = Some plain"
    and "evolves db_refresh_tokens (no_reissue (refresh_held E (sha256_hex E plain)) (refresh_stmt E)) w1 w2"
    and "tc_refresh_token cmd' = Some plain"
  shows "\<exists>e w3. run_state (exchange_refresh_token E C t' cmd' ctx') w2 = (Inl e, w3)"
proof (rule ccontr)
  assume "\<not> ?thesis"
  then obtain toks' w3 where run: "run_state (exchange_refresh_token E C t' cmd' ctx') w2 = (Inr toks', w3)"
    by (cases "run_state (exchange_refresh_token E C t' cmd' ctx') w2";
        cases "fst (run_state (exchange_refresh_token E C t' cmd' ctx') w2)") auto
  have "dead E (sha256_hex E plain) (db_refresh_tokens (db w1))"
    using assms(1,2) by (rule exchange_refresh_kills)
  with assms(3) have "dead E (sha256_hex E plain) (db_refresh_tokens (db w2))"
    unfolding evolves_def by (rule dead_evolves)
  then show False using assms(4) run by (rule dead_exchange_refresh)
qed

theorem refresh_token_single_use_witness:
  "\<exists>toks w1 e w3.
     run_state (exchange_refresh_token sample_libs sample_config 1 sample_refresh_command sample_ctx)
       sample_world = (Inr toks, w1) \<and>
     run_state (exchange_refresh_token sample_libs sample_config 1 sample_refresh_command sample_ctx)
       w1 = (Inl e, w3)"
proof -
  obtain toks w1 where run: "run_state (exchange_refresh_token sample_libs sample_config 1
    sample_refresh_command sample_ctx) sample_world = (Inr toks, w1)" using sample_refresh_run by blast
  have plain: "tc_refresh_token sample_refresh_command = Some ''rt''" by code_simp
  have "evolves db_refresh_tokens (no_reissue K (refresh_stmt sample_libs)) w1 w1" for K
    by (simp add: evolves_def)
  from refresh_token_single_use [OF run plain this plain] run show ?thesis by blast
qed

text \<open>
  A request that fails client authentication or lacks a parameter spends nothing: when the code grant
  answers \<open>invalid_client\<close> or \<open>invalid_request\<close>, every table but the audit log is as before.
\<close>

theorem exchange_code_rejects_without_effect:
  assumes "run_state (exchange_code E C t cmd ctx) w = (Inl e, w')"
    and "te_code e = InvalidClient \<or> te_code e = InvalidRequest"
  shows "tables (db w') = tables (db w)"
  using assms by (rule exchange_code_early_error)

theorem exchange_code_rejects_without_effect_witness:
  "\<exists>e w'. run_state (exchange_code sample_libs sample_config 1
       (sample_code_command\<lparr>tc_client_id := Some ''nobody''\<rparr>) sample_ctx) sample_world = (Inl e, w') \<and>
     te_code e = InvalidClient \<and> tables (db w') = tables (db sample_world)"
proof -
  let ?run = "run_state (exchange_code sample_libs sample_config 1
       (sample_code_command\<lparr>tc_client_id := Some ''nobody''\<rparr>) sample_ctx) sample_world"
  have "fst ?run = Inl (new_token_error InvalidClient ''client authentication failed'')" by code_simp
  then have run: "?run = (Inl (new_token_error InvalidClient ''client authentication failed''), snd ?run)"
    by (rule run_fstI)
  then have "tables (db (snd ?run)) = tables (db sample_world)"
    by (rule exchange_code_rejects_without_effect) (simp add: new_token_error_def)
  with run show ?thesis by (intro exI conjI) (assumption, simp add: new_token_error_def)
qed

end
