(* ===== verification/Authorize.thy ===== *)
theory Authorize
  imports Token
begin

text \<open>
  \<^verbatim>\<open>application/authorize.rs\<close>: the authorization endpoint. A request is checked, a valid SSO session
  is resumed if there is one, and the outcome is a redirect with a code, a login, a consent page, or
  an error. Building a redirect parses the redirect URI and panics when that fails; an outcome is
  therefore \<open>Return\<close> or \<open>Panic\<close>.
\<close>

section \<open>Requests and outcomes\<close>

record authorize_request =
  ar_response_type :: "string option"
  ar_client_id :: "string option"
  ar_redirect_uri :: "string option"
  ar_scope :: "string option"
  ar_state :: "string option"
  ar_nonce :: "string option"
  ar_code_challenge :: "string option"
  ar_code_challenge_method :: "string option"
  ar_sso_session_id :: "string option"
  ar_prompt :: "string option"
  ar_max_age :: "u64 option"

datatype authorize_outcome =
    Redirect string
  | LoginRequired string
  | ConsentRequired string
  | ErrorRedirect string
  | FatalError oauth_error_code string

section \<open>Redirects\<close>

definition code_redirect :: "libs \<Rightarrow> string \<Rightarrow> string \<Rightarrow> string \<Rightarrow> string outcome" where
  "code_redirect E redirect_uri code state =
     (case url_append E redirect_uri [(''code'', code), (''state'', state)] of
        None \<Rightarrow> Panic | Some location \<Rightarrow> Return location)"

definition error_redirect_with_state ::
  "libs \<Rightarrow> string \<Rightarrow> oauth_error_code \<Rightarrow> string \<Rightarrow> string option \<Rightarrow> string outcome" where
  "error_redirect_with_state E redirect_uri error description state =
     (case url_append E redirect_uri
            ([(''error'', oauth_error_as_str error), (''error_description'', description)] @
             (case state of Some s \<Rightarrow> [(''state'', s)] | None \<Rightarrow> [])) of
        None \<Rightarrow> Panic | Some location \<Rightarrow> Return location)"

definition validate_request ::
  "authorize_request \<Rightarrow> client \<Rightarrow> (oauth_error_code \<times> string) + unit" where
  "validate_request req client =
     (let scope = split_whitespace (unwrap_or_default (ar_scope req)) in
      if ar_response_type req \<noteq> Some ''code'' then
        Inl (UnsupportedResponseType, ''response_type must be `code`'')
      else if \<not> list_ex (\<lambda>t. t = ''code'') (c_response_types client) \<or>
              \<not> list_ex (\<lambda>t. t = ''authorization_code'') (c_grant_types client) then
        Inl (UnauthorizedClient, ''client is not allowed to use the authorization code flow'')
      else if \<not> list_ex (\<lambda>s. s = scope_as_str OpenId) scope then
        Inl (InvalidScope, ''scope must include `openid`'')
      else if \<not> allows_scopes client scope then
        Inl (InvalidScope, ''requested scope exceeds the client'' @ CHR 0x27 # ''s registered scopes'')
      else if non_empty (ar_state req) = None then
        Inl (InvalidRequest, ''state is required'')
      else if non_empty (ar_nonce req) = None then
        Inl (InvalidRequest, ''nonce is required'')
      else if ar_code_challenge_method req \<noteq> Some (code_challenge_method_as_str S256) then
        Inl (InvalidRequest, ''code_challenge_method must be `S256`'')
      else if non_empty (ar_code_challenge req) = None then
        Inl (InvalidRequest, ''code_challenge is required'')
      else Inr ())"

section \<open>Consent and single sign-on\<close>

definition without_openid :: "string list \<Rightarrow> string list" where
  "without_openid scope = filter (\<lambda>s. s \<noteq> ''openid'') scope"

definition check_consent ::
  "libs \<Rightarrow> tenant_id \<Rightarrow> uuid \<Rightarrow> string \<Rightarrow> string list \<Rightarrow> (world, bool) state" where
  "check_consent E tenant user_id client_id scope =
     (if without_openid scope = [] then State_Monad.return True
      else do {
        r \<leftarrow> consents_find E tenant user_id client_id;
        State_Monad.return (case r of
          Inr (Some consent) \<Rightarrow> consent_covers consent (without_openid scope)
        | Inr None \<Rightarrow> False
        | Inl _ \<Rightarrow> False)
      })"

definition try_resume_sso ::
  "libs \<Rightarrow> config \<Rightarrow> tenant_id \<Rightarrow> string \<Rightarrow> request_context \<Rightarrow>
   (world, domain_error + (uuid \<times> instant) option) state" where
  "try_resume_sso E C tenant session_id ctx =
     (let session_hash = sha256_hex E session_id in
      and_then (sso_sessions_find_by_hash E session_hash) (\<lambda>found.
      case found of
        None \<Rightarrow> State_Monad.return (Inr None)
      | Some session \<Rightarrow> do {
          now \<leftarrow> clock_now;
          if \<not> sso_is_valid_at session now then
            and_then (sso_sessions_delete E session_hash) (\<lambda>_. do {
              audit_record SsoSessionExpired AuditFailure (Some tenant) (Some (ss_user_id session))
                None (Some ''idle or absolute timeout'') ctx;
              State_Monad.return (Inr None) })
          else
            and_then (users_find_by_id (ss_user_id session)) (\<lambda>u.
            if \<not> (case u of Some user \<Rightarrow> user_is_active user \<and> \<not> user_is_locked_at user now
                            | None \<Rightarrow> False)
            then State_Monad.return (Inr None)
            else
              and_then (memberships_is_active_member tenant (ss_user_id session)) (\<lambda>member.
              if \<not> member then State_Monad.return (Inr None)
              else
                and_then (sso_sessions_extend_idle E session_hash (now + sso_idle_ttl C)) (\<lambda>_. do {
                  audit_record SsoSessionResumed AuditSuccess (Some tenant) (Some (ss_user_id session))
                    None None ctx;
                  State_Monad.return (Inr (Some (ss_user_id session, ss_auth_time session))) })))
        }))"

section \<open>The endpoint\<close>

text \<open>What a request has after its checks.\<close>

record checked_request =
  cr_client :: client
  cr_redirect_uri :: string
  cr_scope :: "string list"
  cr_state :: string
  cr_nonce :: string
  cr_code_challenge :: string
  cr_prompt_none :: bool

definition new_auth_session ::
  "config \<Rightarrow> tenant_id \<Rightarrow> checked_request \<Rightarrow> string \<Rightarrow> (uuid \<times> instant) option \<Rightarrow> instant \<Rightarrow> auth_session" where
  "new_auth_session C tenant cr i who now =
     \<lparr>as_id = i, as_tenant_id = tenant, as_client_id = c_client_id (cr_client cr),
      as_redirect_uri = cr_redirect_uri cr, as_scope = cr_scope cr, as_state = cr_state cr,
      as_nonce = cr_nonce cr, as_code_challenge = cr_code_challenge cr,
      as_code_challenge_method = S256, as_authenticated_user_id = map_option fst who,
      as_auth_time = map_option snd who, as_password_verified_at = None,
      as_expires_at = now + auth_session_ttl C, as_created_at = now, as_updated_at = now\<rparr>"

definition error_to_client ::
  "libs \<Rightarrow> checked_request \<Rightarrow> oauth_error_code \<Rightarrow> string \<Rightarrow> authorize_outcome outcome" where
  "error_to_client E cr error description =
     map_outcome ErrorRedirect
       (error_redirect_with_state E (cr_redirect_uri cr) error description (Some (cr_state cr)))"

text \<open>Step 4: no usable SSO session.\<close>

definition authorize_login ::
  "libs \<Rightarrow> config \<Rightarrow> tenant_id \<Rightarrow> checked_request \<Rightarrow> (world, authorize_outcome outcome) state" where
  "authorize_login E C tenant cr =
     (if cr_prompt_none cr then
        State_Monad.return (error_to_client E cr LoginRequiredCode ''login required'')
      else do {
        now \<leftarrow> clock_now;
        i \<leftarrow> random_hex E 32;
        r \<leftarrow> auth_sessions_create E (new_auth_session C tenant cr i None now);
        State_Monad.return (case r of
          Inl _ \<Rightarrow> error_to_client E cr ServerError ''failed to start authorization''
        | Inr _ \<Rightarrow> Return (LoginRequired i))
      })"

text \<open>Step 3 with a resumed SSO session whose age is acceptable.\<close>

definition authorize_sso ::
  "libs \<Rightarrow> config \<Rightarrow> tenant_id \<Rightarrow> checked_request \<Rightarrow> bool \<Rightarrow> uuid \<Rightarrow> instant \<Rightarrow> request_context \<Rightarrow>
   (world, authorize_outcome outcome) state" where
  "authorize_sso E C tenant cr force_consent user_id auth_time ctx = do {
     consented \<leftarrow> (if force_consent then State_Monad.return False
                   else check_consent E tenant user_id (c_client_id (cr_client cr)) (cr_scope cr));
     if consented then do {
       r \<leftarrow> issue_code E C
         \<lparr>ic_tenant = tenant, ic_user_id = user_id, ic_client_id = c_client_id (cr_client cr),
          ic_redirect_uri = cr_redirect_uri cr, ic_scope = cr_scope cr, ic_nonce = cr_nonce cr,
          ic_auth_time = auth_time, ic_code_challenge = cr_code_challenge cr,
          ic_code_challenge_method = S256\<rparr> ctx;
       State_Monad.return (case r of
         Inr code \<Rightarrow> map_outcome Redirect (code_redirect E (cr_redirect_uri cr) code (cr_state cr))
       | Inl _ \<Rightarrow> error_to_client E cr ServerError ''failed to issue authorization code'')
     }
     else if cr_prompt_none cr then
       State_Monad.return (error_to_client E cr ConsentRequiredCode ''consent required'')
     else do {
       now \<leftarrow> clock_now;
       i \<leftarrow> random_hex E 32;
       r \<leftarrow> auth_sessions_create E (new_auth_session C tenant cr i (Some (user_id, auth_time)) now);
       State_Monad.return (case r of
         Inl _ \<Rightarrow> error_to_client E cr ServerError ''failed to start consent''
       | Inr _ \<Rightarrow> Return (ConsentRequired i))
     }
   }"

text \<open>\<open>elapsed.num_seconds() > max_age as i64\<close>\<close>

definition max_age_exceeded :: "u64 option \<Rightarrow> instant \<Rightarrow> (world, bool) state" where
  "max_age_exceeded max_age auth_time =
     (case max_age of
        None \<Rightarrow> State_Monad.return False
      | Some max_age \<Rightarrow> do {
          now \<leftarrow> clock_now;
          State_Monad.return (num_seconds (now - auth_time) > sint max_age)
        })"

definition authorize_checked ::
  "libs \<Rightarrow> config \<Rightarrow> tenant_id \<Rightarrow> authorize_request \<Rightarrow> checked_request \<Rightarrow> request_context \<Rightarrow>
   (world, authorize_outcome outcome) state" where
  "authorize_checked E C tenant req cr ctx =
     (let force_login = (ar_prompt req = Some ''login'');
          force_consent = (ar_prompt req = Some ''consent'')
      in do {
        resumed \<leftarrow> (if force_login then State_Monad.return (Inr None)
                    else case non_empty (ar_sso_session_id req) of
                      None \<Rightarrow> State_Monad.return (Inr None)
                    | Some session_id \<Rightarrow> try_resume_sso E C tenant session_id ctx);
        case resumed of
          Inl _ \<Rightarrow> authorize_login E C tenant cr
        | Inr None \<Rightarrow> authorize_login E C tenant cr
        | Inr (Some (user_id, auth_time)) \<Rightarrow> do {
            exceeded \<leftarrow> max_age_exceeded (ar_max_age req) auth_time;
            if exceeded then
              if cr_prompt_none cr then
                State_Monad.return (error_to_client E cr LoginRequiredCode
                  ''max_age exceeded, re-authentication required'')
              else authorize_login E C tenant cr
            else authorize_sso E C tenant cr force_consent user_id auth_time ctx
          }
      })"

text \<open>Step 2 on: the client is active and the redirect URI is one of its own.\<close>

definition authorize_registered ::
  "libs \<Rightarrow> config \<Rightarrow> tenant_id \<Rightarrow> authorize_request \<Rightarrow> client \<Rightarrow> string \<Rightarrow> request_context \<Rightarrow>
   (world, authorize_outcome outcome) state" where
  "authorize_registered E C tenant req client redirect_uri ctx =
     (case validate_request req client of
        Inl (error, description) \<Rightarrow>
          State_Monad.return (map_outcome ErrorRedirect
            (error_redirect_with_state E redirect_uri error description (non_empty (ar_state req))))
      | Inr _ \<Rightarrow>
          (case (non_empty (ar_state req), ar_nonce req, ar_code_challenge req) of
             (Some state, Some nonce, Some code_challenge) \<Rightarrow>
               authorize_checked E C tenant req
                 \<lparr>cr_client = client, cr_redirect_uri = redirect_uri,
                  cr_scope = split_whitespace (unwrap_or_default (ar_scope req)),
                  cr_state = state, cr_nonce = nonce, cr_code_challenge = code_challenge,
                  cr_prompt_none = (ar_prompt req = Some ''none'')\<rparr> ctx
           | _ \<Rightarrow> State_Monad.return Panic))"

definition authorize ::
  "libs \<Rightarrow> config \<Rightarrow> tenant_id \<Rightarrow> authorize_request \<Rightarrow> request_context \<Rightarrow>
   (world, authorize_outcome outcome) state" where
  "authorize E C tenant req ctx =
     (let fatal = (\<lambda>error description. State_Monad.return (Return (FatalError error description)))
      in case non_empty (ar_client_id req) of
           None \<Rightarrow> fatal InvalidRequest ''client_id is required''
         | Some client_id \<Rightarrow> do {
      found \<leftarrow> clients_find_by_client_id E tenant client_id;
      case found of
        Inl _ \<Rightarrow> fatal ServerError ''internal error''
      | Inr None \<Rightarrow> fatal InvalidClient ''unknown client_id''
      | Inr (Some client) \<Rightarrow>
          if \<not> client_is_active client then fatal InvalidClient ''client is not active''
          else case non_empty (ar_redirect_uri req) of
            None \<Rightarrow> fatal InvalidRequest ''redirect_uri is required''
          | Some redirect_uri \<Rightarrow>
              if \<not> allows_redirect_uri client redirect_uri
              then fatal InvalidRequest ''redirect_uri is not registered''
              else authorize_registered E C tenant req client redirect_uri ctx })"

section \<open>Reading a run of the endpoint\<close>

lemma codes_create_Inr:
  "run_state (codes_create E c) w = (Inr x, w') \<Longrightarrow>
   \<exists>created. db w' = (db w)\<lparr>db_codes := db_codes (db w) @
      [c\<lparr>ac_auth_time := micros (ac_auth_time c), ac_expires_at := micros (ac_expires_at c),
        ac_used_at := map_option micros (ac_used_at c), ac_created_at := created, ac_updated_at := created\<rparr>]\<rparr> \<and>
     attempts w' = attempts w \<and>
     (\<forall>r \<in> set (db_codes (db w)). \<not> db_eq E (ac_code_hash r) (ac_code_hash c))"
  by (force simp: codes_create_def run_db_call_Inr insert_code_def insert_row_def list_ex_iff
      split: if_splits prod.splits)

definition issued_code ::
  "libs \<Rightarrow> config \<Rightarrow> issue_code_command \<Rightarrow> string \<Rightarrow> instant \<Rightarrow> authorization_code \<Rightarrow> bool" where
  "issued_code E C cmd code now row \<longleftrightarrow>
     ac_code_hash row = sha256_hex E code \<and> ac_tenant_id row = ic_tenant cmd \<and>
     ac_user_id row = ic_user_id cmd \<and> ac_client_id row = ic_client_id cmd \<and>
     ac_redirect_uri row = ic_redirect_uri cmd \<and> ac_scope row = ic_scope cmd \<and>
     ac_nonce row = ic_nonce cmd \<and> ac_auth_time row = micros (ic_auth_time cmd) \<and>
     ac_code_challenge row = ic_code_challenge cmd \<and>
     ac_expires_at row = micros (now + authorization_code_ttl C) \<and> ac_used_at row = None"

lemma issue_code_Inr:
  assumes "run_state (issue_code E C cmd ctx) w = (Inr code, w')"
  shows "\<exists>now row. issued_code E C cmd code now row \<and> clock_reading w w' now \<and>
     tables (db w') = tables ((db w)\<lparr>db_codes := db_codes (db w) @ [row]\<rparr>) \<and> attempts w' = attempts w"
proof -
  have "clock_reading w w' (clock_src w (ticks w))"
    using assms unfolding issue_code_def
    by (auto simp: run_rules codes_create_def run_db_call_Inr clock_reading_def dest!: run_audit_clock)
  then show ?thesis using assms unfolding issue_code_def
    by (intro exI [of _ "clock_src w (ticks w)"] exI [of _ "last (db_codes (db w'))"])
       (auto simp: issued_code_def run_rules tables_eq_iff dest!: codes_create_Inr run_audit)
qed

definition sso_usable ::
  "libs \<Rightarrow> database \<Rightarrow> tenant_id \<Rightarrow> string \<Rightarrow> instant \<Rightarrow> sso_session \<Rightarrow> user \<Rightarrow> bool" where
  "sso_usable E d tenant session_id now sso user \<longleftrightarrow>
     sso \<in> set (db_sso_sessions d) \<and> db_eq E (ss_session_hash sso) (sha256_hex E session_id) \<and>
     sso_is_valid_at sso now \<and>
     user \<in> set (db_users d) \<and> u_id user = ss_user_id sso \<and> user_is_active user \<and>
     \<not> user_is_locked_at user now \<and>
     (\<exists>m \<in> set (db_memberships d). tm_tenant_id m = tenant \<and> tm_user_id m = ss_user_id sso \<and>
        membership_is_active m)"

definition extend_sso :: "libs \<Rightarrow> config \<Rightarrow> string \<Rightarrow> instant \<Rightarrow> database \<Rightarrow> database" where
  "extend_sso E C session_id now d = d\<lparr>db_sso_sessions := update_where
     (\<lambda>s. db_eq E (ss_session_hash s) (sha256_hex E session_id))
     (\<lambda>s. s\<lparr>ss_idle_expires_at := micros (now + sso_idle_ttl C)\<rparr>) (db_sso_sessions d)\<rparr>"

lemma try_resume_sso_Some:
  assumes "run_state (try_resume_sso E C tenant sid ctx) w = (Inr (Some (uid, auth_time)), w')"
  shows "\<exists>sso user. sso_usable E (db w) tenant sid (clock_src w (ticks w + 1)) sso user \<and>
     uid = ss_user_id sso \<and> auth_time = ss_auth_time sso \<and>
     tables (db w') = tables (extend_sso E C sid (clock_src w (ticks w + 1)) (db w)) \<and>
     attempts w' = attempts w" (is ?resumed)
    and "ticks w' = ticks w + 7" and "clock_src w' = clock_src w"
proof -
  show ?resumed
    using assms unfolding try_resume_sso_def
    apply (clarsimp simp: Let_def run_rules sso_sessions_find_by_hash_def users_find_by_id_def
       memberships_is_active_member_def sso_sessions_extend_idle_def tables_eq_iff list_ex_iff
       dest!: run_audit find_SomeD)
    subgoal for sso user m
      by (auto intro!: exI [of _ sso] exI [of _ user]
          bexI [of _ m] simp: sso_usable_def extend_sso_def membership_is_active_def)
    done
  show "ticks w' = ticks w + 7" "clock_src w' = clock_src w"
    using assms unfolding try_resume_sso_def
    by (clarsimp simp: Let_def run_rules sso_sessions_find_by_hash_def users_find_by_id_def
       memberships_is_active_member_def sso_sessions_extend_idle_def dest!: run_audit_clock)+
qed

definition consent_given :: "libs \<Rightarrow> database \<Rightarrow> tenant_id \<Rightarrow> uuid \<Rightarrow> string \<Rightarrow> string list \<Rightarrow> bool" where
  "consent_given E d tenant user_id client_id scope \<longleftrightarrow>
     set (without_openid scope) = {} \<or>
     (\<exists>c \<in> set (db_consents d). consent_key E tenant user_id client_id c \<and>
        set (without_openid scope) \<subseteq> set (cc_scopes c))"

lemma check_consent_True:
  assumes "run_state (check_consent E t u c scope) w = (True, w')"
  shows "consent_given E (db w) t u c scope \<and> db w' = db w \<and> same_env w w'"
  using assms
  by (auto simp: check_consent_def consents_find_def consent_given_def run_rules same_env_def called_def
        dest!: find_SomeD)

lemma check_consent_db: "run_state (check_consent E t u c scope) w = (b, w') \<Longrightarrow> db w' = db w"
  using alwaysD [of "frame (\<lambda>d. d)"] 
  by (auto simp: check_consent_def consents_find_def run_rules db_query_def db_call_def Let_def split: option.splits)

lemma max_age_exceeded_False:
  "run_state (max_age_exceeded m t) w = (False, w') \<Longrightarrow>
   (\<forall>a. m = Some a \<longrightarrow> num_seconds (clock_src w (ticks w) - t) \<le> sint a) \<and> db w' = db w \<and> same_env w w'"
  by (auto simp: max_age_exceeded_def run_rules same_env_def tick_def)

lemma map_outcome_Return:
  "map_outcome f x = Return y \<longleftrightarrow> (\<exists>z. x = Return z \<and> f z = y)"
  "Return y = map_outcome f x \<longleftrightarrow> (\<exists>z. x = Return z \<and> f z = y)"
  by (cases x; auto)+

lemma code_redirect_Return: "code_redirect E u c s = Return l \<longleftrightarrow> url_append E u [(''code'', c), (''state'', s)] = Some l"
  by (auto simp: code_redirect_def split: option.splits)

lemma error_redirect_Return: "error_redirect_with_state E u e d s = Return l \<Longrightarrow> \<exists>ps. url_append E u ps = Some l"
  by (auto simp: error_redirect_with_state_def split: option.splits)

lemma error_to_client_Return:
  "error_to_client E cr e d = Return out \<Longrightarrow>
   \<exists>l ps. out = ErrorRedirect l \<and> url_append E (cr_redirect_uri cr) ps = Some l"
  by (auto simp: error_to_client_def map_outcome_Return dest: error_redirect_Return)

lemma error_to_client_not [simp]:
  "error_to_client E cr e d \<noteq> Return (Redirect l)"
  "error_to_client E cr e d \<noteq> Return (LoginRequired i)"
  "error_to_client E cr e d \<noteq> Return (ConsentRequired i)"
  "error_to_client E cr e d \<noteq> Return (FatalError c m)"
  by (auto dest!: error_to_client_Return)

lemma authorize_sso_Redirect:
  assumes "run_state (authorize_sso E C tenant cr force uid at ctx) w = (Return (Redirect l), w')"
  shows "\<not> force \<and> consent_given E (db w) tenant uid (c_client_id (cr_client cr)) (cr_scope cr) \<and>
    (\<exists>code now row. url_append E (cr_redirect_uri cr) [(''code'', code), (''state'', cr_state cr)] = Some l \<and>
       issued_code E C
         \<lparr>ic_tenant = tenant, ic_user_id = uid, ic_client_id = c_client_id (cr_client cr),
          ic_redirect_uri = cr_redirect_uri cr, ic_scope = cr_scope cr, ic_nonce = cr_nonce cr,
          ic_auth_time = at, ic_code_challenge = cr_code_challenge cr,
          ic_code_challenge_method = S256\<rparr> code now row \<and>
       clock_reading w w' now \<and> db_codes (db w') = db_codes (db w) @ [row])"
  using assms unfolding authorize_sso_def
  by (clarsimp simp: run_rules map_outcome_Return code_redirect_Return dest!: check_consent_True issue_code_Inr)
     (auto simp: tables_eq_iff dest: clock_reading_within [OF _ _ env.kept_refl])

lemma authorize_login_not_Redirect:
  "run_state (authorize_login E C tenant cr) w = (Return (Redirect l), w') \<Longrightarrow> False"
  by (auto simp: authorize_login_def run_rules)

lemma authorize_checked_Redirect:
  assumes "run_state (authorize_checked E C tenant req cr ctx) w = (Return (Redirect l), w')"
  shows "\<exists>sid sso user code now row.
     ar_prompt req \<noteq> Some ''login'' \<and> ar_prompt req \<noteq> Some ''consent'' \<and>
     ar_sso_session_id req = Some sid \<and> sso_usable E (db w) tenant sid (clock_src w (ticks w + 1)) sso user \<and>
     (\<forall>a. ar_max_age req = Some a \<longrightarrow>
        num_seconds (clock_src w (ticks w + 7) - ss_auth_time sso) \<le> sint a) \<and>
     consent_given E (db w) tenant (u_id user) (c_client_id (cr_client cr)) (cr_scope cr) \<and>
     url_append E (cr_redirect_uri cr) [(''code'', code), (''state'', cr_state cr)] = Some l \<and>
     issued_code E C
         \<lparr>ic_tenant = tenant, ic_user_id = u_id user, ic_client_id = c_client_id (cr_client cr),
          ic_redirect_uri = cr_redirect_uri cr, ic_scope = cr_scope cr, ic_nonce = cr_nonce cr,
          ic_auth_time = ss_auth_time sso, ic_code_challenge = cr_code_challenge cr,
          ic_code_challenge_method = S256\<rparr> code now row \<and>
     clock_reading w w' now \<and> db_codes (db w') = db_codes (db w) @ [row]"
proof -
  from assms obtain sid uid at w1 w2 where
      p: "ar_prompt req \<noteq> Some ''login''" "ar_sso_session_id req = Some sid"
    and r: "run_state (try_resume_sso E C tenant sid ctx) w = (Inr (Some (uid, at)), w1)"
    and m: "run_state (max_age_exceeded (ar_max_age req) at) w1 = (False, w2)"
    and s: "run_state (authorize_sso E C tenant cr (ar_prompt req = Some ''consent'') uid at ctx) w2 = (Return (Redirect l), w')"
    by (auto simp: authorize_checked_def Let_def run_rules dest: authorize_login_not_Redirect)
  from try_resume_sso_Some (1) [OF r] obtain sso user where
      u: "sso_usable E (db w) tenant sid (clock_src w (ticks w + 1)) sso user" "uid = ss_user_id sso" "at = ss_auth_time sso"
      "tables (db w1) = tables (extend_sso E C sid (clock_src w (ticks w + 1)) (db w))" by blast
  then have uid: "uid = u_id user" by (simp add: sso_usable_def)
  note clock = try_resume_sso_Some (2,3) [OF r]
  note age = max_age_exceeded_False [OF m]
  have same: "db_codes (db w2) = db_codes (db w)" "consent_given E (db w2) = consent_given E (db w)"
    using age u(4) by (auto simp: tables_eq_iff extend_sso_def consent_given_def fun_eq_iff)
  have reading: "clock_reading w2 w' t \<Longrightarrow> clock_reading w w' t" for t
    using clock age by (auto simp: same_env_def elim!: clock_reading_earlier)
  have young: "\<forall>a. ar_max_age req = Some a \<longrightarrow>
      num_seconds (clock_src w (ticks w + 7) - ss_auth_time sso) \<le> sint a"
    using age unfolding clock u(3) by blast
  from authorize_sso_Redirect [OF s, unfolded uid u(3) same] p u(1) young show ?thesis
    by (blast intro: reading)
qed

text \<open>An active client of the tenant and one of its registered redirect URIs, as the request names them.\<close>

definition registered :: "libs \<Rightarrow> database \<Rightarrow> tenant_id \<Rightarrow> authorize_request \<Rightarrow> client \<Rightarrow> string \<Rightarrow> bool" where
  "registered E d tenant req client uri \<longleftrightarrow>
     client \<in> set (db_clients d) \<and> c_tenant_id client = tenant \<and> client_is_active client \<and>
     (\<exists>cid. ar_client_id req = Some cid \<and> db_eq E (c_client_id client) cid) \<and>
     ar_redirect_uri req = Some uri \<and> uri \<in> set (c_redirect_uris client)"

definition checked_of :: "authorize_request \<Rightarrow> client \<Rightarrow> string \<Rightarrow> checked_request \<Rightarrow> bool" where
  "checked_of req client uri cr \<longleftrightarrow>
     cr_client cr = client \<and> cr_redirect_uri cr = uri \<and>
     cr_scope cr = split_whitespace (unwrap_or_default (ar_scope req)) \<and>
     ar_state req = Some (cr_state cr) \<and> ar_nonce req = Some (cr_nonce cr) \<and>
     ar_code_challenge req = Some (cr_code_challenge cr) \<and>
     cr_prompt_none cr = (ar_prompt req = Some ''none'')"

lemma validate_request_Inr:
  assumes "validate_request req client = Inr x"
  shows "ar_response_type req = Some ''code''"
    "\<exists>s. ar_state req = Some s \<and> s \<noteq> []" "\<exists>n. ar_nonce req = Some n \<and> n \<noteq> []"
    "\<exists>c. ar_code_challenge req = Some c \<and> c \<noteq> []" "ar_code_challenge_method req = Some ''S256''"
    "''openid'' \<in> set (split_whitespace (unwrap_or_default (ar_scope req)))"
    "set (split_whitespace (unwrap_or_default (ar_scope req))) \<subseteq> set (c_scopes client)"
    "''code'' \<in> set (c_response_types client)" "''authorization_code'' \<in> set (c_grant_types client)"
  using assms
  by (auto simp: validate_request_def Let_def non_empty_None list_ex_iff split: if_splits option.splits)

lemma authorize_registered_run:
  assumes "run_state (authorize_registered E C tenant req client uri ctx) w = (out, w')"
  shows "(\<exists>e m. validate_request req client = Inl (e, m) \<and>
        out = map_outcome ErrorRedirect (error_redirect_with_state E uri e m (non_empty (ar_state req)))) \<or>
     (\<exists>cr. validate_request req client = Inr () \<and> checked_of req client uri cr \<and>
        run_state (authorize_checked E C tenant req cr ctx) w = (out, w'))"
proof (cases "validate_request req client")
  case (Inl x)
  with assms show ?thesis by (cases x) (auto simp: authorize_registered_def run_rules)
next
  case (Inr x)
  from validate_request_Inr (2-4) [OF Inr] obtain s n c where
    v: "ar_state req = Some s" "s \<noteq> []" "ar_nonce req = Some n" "ar_code_challenge req = Some c" by blast
  let ?cr = "\<lparr>cr_client = client, cr_redirect_uri = uri,
     cr_scope = split_whitespace (unwrap_or_default (ar_scope req)), cr_state = s, cr_nonce = n,
     cr_code_challenge = c, cr_prompt_none = (ar_prompt req = Some ''none'')\<rparr>"
  have "run_state (authorize_checked E C tenant req ?cr ctx) w = (out, w')"
    using assms v Inr by (simp add: authorize_registered_def non_empty_def)
  moreover have "checked_of req client uri ?cr" using v by (simp add: checked_of_def)
  ultimately show ?thesis using Inr by (intro disjI2 exI [of _ ?cr]) simp
qed

lemma authorize_run:
  assumes "run_state (authorize E C tenant req ctx) w = (out, w')"
  shows "(\<exists>e m. out = Return (FatalError e m)) \<or>
    (\<exists>client uri. registered E (db w) tenant req client uri \<and>
       run_state (authorize_registered E C tenant req client uri ctx) (called w) = (out, w'))"
  using assms unfolding authorize_def registered_def
  by (auto simp: Let_def clients_find_by_client_id_def run_rules dest!: find_SomeD)

lemma authorize_Redirect:
  assumes "run_state (authorize E C tenant req ctx) w = (Return (Redirect l), w')"
  shows "\<exists>client uri cr. registered E (db w) tenant req client uri \<and>
    validate_request req client = Inr () \<and> checked_of req client uri cr \<and>
    run_state (authorize_checked E C tenant req cr ctx) (called w) = (Return (Redirect l), w')"
  using authorize_run [OF assms]
  by (auto dest!: authorize_registered_run simp: map_outcome_Return)

text \<open>An outcome that sends the browser only to the given redirect URI.\<close>

definition stays_at :: "libs \<Rightarrow> string \<Rightarrow> authorize_outcome outcome \<Rightarrow> bool" where
  "stays_at E uri out \<longleftrightarrow>
     (\<forall>l. out = Return (Redirect l) \<or> out = Return (ErrorRedirect l) \<longrightarrow>
        (\<exists>ps. url_append E uri ps = Some l))"

lemma stays_at_simps [simp]:
  "stays_at E uri (map_outcome ErrorRedirect (error_redirect_with_state E uri e d s))"
  "stays_at E uri (map_outcome Redirect (code_redirect E uri c s'))"
  "stays_at E uri (Return (LoginRequired i))" "stays_at E uri (Return (ConsentRequired i))"
  "stays_at E (cr_redirect_uri cr) (error_to_client E cr e d)"
  by (auto simp: stays_at_def map_outcome_Return code_redirect_Return error_to_client_def
      dest!: error_redirect_Return)

lemma authorize_login_stays:
  "run_state (authorize_login E C tenant cr) w = (out, w') \<Longrightarrow> stays_at E (cr_redirect_uri cr) out"
  by (auto simp: authorize_login_def run_rules)

lemma authorize_sso_stays:
  "run_state (authorize_sso E C tenant cr force uid at ctx) w = (out, w') \<Longrightarrow>
   stays_at E (cr_redirect_uri cr) out"
  by (auto simp: authorize_sso_def run_rules)

lemma authorize_checked_stays:
  "run_state (authorize_checked E C tenant req cr ctx) w = (out, w') \<Longrightarrow>
   stays_at E (cr_redirect_uri cr) out"
  by (auto simp: authorize_checked_def Let_def run_rules dest: authorize_login_stays authorize_sso_stays)

lemma authorize_registered_stays:
  "run_state (authorize_registered E C tenant req client uri ctx) w = (out, w') \<Longrightarrow> stays_at E uri out"
  by (drule authorize_registered_run) (auto simp: checked_of_def dest: authorize_checked_stays)

lemma authorize_login_none:
  "run_state (authorize_login E C tenant cr) w = (out, w') \<Longrightarrow> cr_prompt_none cr \<Longrightarrow>
   out \<noteq> Return (LoginRequired i) \<and> out \<noteq> Return (ConsentRequired i)"
  by (auto simp: authorize_login_def run_rules)

lemma authorize_sso_none:
  "run_state (authorize_sso E C tenant cr force uid at ctx) w = (out, w') \<Longrightarrow> cr_prompt_none cr \<Longrightarrow>
   out \<noteq> Return (LoginRequired i) \<and> out \<noteq> Return (ConsentRequired i)"
  by (auto simp: authorize_sso_def run_rules map_outcome_Return)

lemma authorize_checked_none:
  "run_state (authorize_checked E C tenant req cr ctx) w = (out, w') \<Longrightarrow> cr_prompt_none cr \<Longrightarrow>
   out \<noteq> Return (LoginRequired i) \<and> out \<noteq> Return (ConsentRequired i)"
  by (auto simp: authorize_checked_def Let_def run_rules dest: authorize_login_none authorize_sso_none)

lemma map_outcome_Panic: "map_outcome f x = Panic \<longleftrightarrow> x = Panic"  "Panic = map_outcome f x \<longleftrightarrow> x = Panic"
  by (cases x; simp)+

text \<open>A URL that parses never makes a redirect panic.\<close>

lemma redirect_Panic:
  assumes "\<And>ps. url_append E u ps \<noteq> None"
  shows "code_redirect E u c s \<noteq> Panic" "error_redirect_with_state E u e d st \<noteq> Panic"
  using assms by (auto simp: code_redirect_def error_redirect_with_state_def split: option.splits)

lemma authorize_login_Panic:
  assumes "\<And>ps. url_append E (cr_redirect_uri cr) ps \<noteq> None"
  shows "run_state (authorize_login E C tenant cr) w \<noteq> (Panic, w')"
  using redirect_Panic [OF assms]
  by (auto simp: authorize_login_def run_rules error_to_client_def map_outcome_Panic)

lemma authorize_sso_Panic:
  assumes "\<And>ps. url_append E (cr_redirect_uri cr) ps \<noteq> None"
  shows "run_state (authorize_sso E C tenant cr force uid at ctx) w \<noteq> (Panic, w')"
  using redirect_Panic [OF assms]
  by (auto simp: authorize_sso_def run_rules error_to_client_def map_outcome_Panic)

lemma authorize_checked_Panic:
  assumes "\<And>ps. url_append E (cr_redirect_uri cr) ps \<noteq> None"
  shows "run_state (authorize_checked E C tenant req cr ctx) w \<noteq> (Panic, w')"
  using redirect_Panic [OF assms] authorize_login_Panic [OF assms] authorize_sso_Panic [OF assms]
  by (auto simp: authorize_checked_def Let_def run_rules error_to_client_def map_outcome_Panic)

section \<open>Effects on the tables\<close>

lemma frame_check_consent: "always (frame T) (check_consent E t u c scope)"
  unfolding check_consent_def by (intro frame.always_rules frame_ops)

lemma codes_evolve_try_resume: "always (evolves db_codes (codes_stmt E)) (try_resume_sso E C t sid ctx)"
  unfolding try_resume_sso_def
  by (intro evo.always_rules evolves_ops frame_sso_sessions [THEN evolves_frame]) simp_all

lemma frame_max_age: "always (frame T) (max_age_exceeded m t)"
  unfolding max_age_exceeded_def by (intro frame.always_rules frame_ops)

lemma codes_evolve_authorize: "always (evolves db_codes (codes_stmt E)) (authorize E C t req ctx)"
  unfolding authorize_def authorize_registered_def authorize_checked_def authorize_sso_def
    authorize_login_def Let_def
  by (intro evo.always_rules evolves_ops codes_evolve_try_resume codes_evolve_issue_code
       frame_check_consent [THEN evolves_frame] frame_max_age [THEN evolves_frame]
       frame_auth_sessions [THEN evolves_frame]) simp_all

text \<open>
  SSO sessions: an operation that only moves the idle deadline of existing sessions, or removes
  sessions.
\<close>

definition only_idle :: "world \<Rightarrow> world \<Rightarrow> bool" where
  "only_idle w w' \<longleftrightarrow> (\<forall>s' \<in> set (db_sso_sessions (db w')). \<exists>s \<in> set (db_sso_sessions (db w)).
     s' = s\<lparr>ss_idle_expires_at := ss_idle_expires_at s'\<rparr>)"

lemma only_idle_trans:
  assumes uv: "only_idle u v" and vw: "only_idle v w"
  shows "only_idle u w"
  unfolding only_idle_def
proof
  fix s'' assume "s'' \<in> set (db_sso_sessions (db w))"
  with vw obtain s' where s': "s' \<in> set (db_sso_sessions (db v))"
    "s'' = s'\<lparr>ss_idle_expires_at := ss_idle_expires_at s''\<rparr>" unfolding only_idle_def by blast
  with uv obtain s where s: "s \<in> set (db_sso_sessions (db u))"
    "s' = s\<lparr>ss_idle_expires_at := ss_idle_expires_at s'\<rparr>" unfolding only_idle_def by blast
  have "s'' = s\<lparr>ss_idle_expires_at := ss_idle_expires_at s''\<rparr>"
    by (subst s'(2), subst s(2)) simp
  with s(1) show "\<exists>s \<in> set (db_sso_sessions (db u)). s'' = s\<lparr>ss_idle_expires_at := ss_idle_expires_at s''\<rparr>"
    by blast
qed

interpretation idle: kept only_idle
  by unfold_locales (force simp: only_idle_def, rule only_idle_trans)

lemma idle_frame: "always (frame db_sso_sessions) m \<Longrightarrow> always only_idle m"
  unfolding always_def wp_def frame_def only_idle_def by (force split: prod.splits)

lemma idle_db_execute:
  assumes "\<And>now d s'. s' \<in> set (db_sso_sessions (u now d)) \<Longrightarrow>
    \<exists>s \<in> set (db_sso_sessions d). s' = s\<lparr>ss_idle_expires_at := ss_idle_expires_at s'\<rparr>"
  shows "always only_idle (db_execute u)"
  unfolding db_execute_def db_call_def
  by (rule alwaysI) (use assms in \<open>force simp: wp_State only_idle_def Let_def split: option.splits\<close>)

lemma idle_sso: "always only_idle (sso_sessions_extend_idle E h t)" "always only_idle (sso_sessions_delete E h)"
  unfolding sso_sessions_extend_idle_def sso_sessions_delete_def
  by (rule idle_db_execute; force simp: set_update_where set_delete_where split: if_splits)+

lemma idle_authorize: "always only_idle (authorize E C t req ctx)"
  unfolding authorize_def authorize_registered_def authorize_checked_def authorize_sso_def
    authorize_login_def try_resume_sso_def issue_code_def Let_def
  by (intro idle.always_rules idle_sso frame_ops [THEN idle_frame] frame_audit [THEN idle_frame]
       frame_check_consent [THEN idle_frame] frame_max_age [THEN idle_frame]
       frame_auth_sessions [THEN idle_frame] frame_codes [THEN idle_frame]) simp_all

section \<open>Properties\<close>

definition sample_request :: authorize_request where
  "sample_request =
     \<lparr>ar_response_type = Some ''code'', ar_client_id = Some ''spa'',
      ar_redirect_uri = Some ''https://app/cb'', ar_scope = Some ''openid'', ar_state = Some ''st'',
      ar_nonce = Some ''n'', ar_code_challenge = Some ''ch'', ar_code_challenge_method = Some ''S256'',
      ar_sso_session_id = Some ''sso'', ar_prompt = None, ar_max_age = Some 3600\<rparr>"

text \<open>
  C3. The authorization endpoint issues a code only to an active client of the tenant, at a redirect URI
  registered for it, on a request that passes every check, for the user of an SSO session that
  neither timeout has ended at the moment the endpoint reads the clock to resume it (its third reading,
  after the two lookups), who is active, not locked at that moment and an active member of the tenant,
  whose authentication is not older than \<open>max_age\<close> at the moment the endpoint compares them, who has consented to every scope but \<open>openid\<close>, and
  when the request did not ask for a fresh login or consent. The stored code is bound to that
  tenant, user, client, redirect URI, scope, nonce and challenge and expires its time to live after a
  reading of the clock within the run, and the redirect carries the code and the request's state.
\<close>

theorem authorize_code_sound:
  assumes "run_state (authorize E C tenant req ctx) w = (Return (Redirect location), w')"
  shows "\<exists>client uri scope state sid sso user issued_at code row.
     registered E (db w) tenant req client uri \<and> validate_request req client = Inr () \<and>
     scope = split_whitespace (unwrap_or_default (ar_scope req)) \<and> ar_state req = Some state \<and>
     ar_prompt req \<noteq> Some ''login'' \<and> ar_prompt req \<noteq> Some ''consent'' \<and>
     ar_sso_session_id req = Some sid \<and> sso_usable E (db w) tenant sid (clock_src w (ticks w + 2)) sso user \<and>
     (\<forall>a. ar_max_age req = Some a \<longrightarrow>
        num_seconds (clock_src w (ticks w + 8) - ss_auth_time sso) \<le> sint a) \<and>
     consent_given E (db w) tenant (u_id user) (c_client_id client) scope \<and>
     url_append E uri [(''code'', code), (''state'', state)] = Some location \<and>
     db_codes (db w') = db_codes (db w) @ [row] \<and>
     ac_code_hash row = sha256_hex E code \<and> ac_tenant_id row = tenant \<and> ac_user_id row = u_id user \<and>
     ac_client_id row = c_client_id client \<and> ac_redirect_uri row = uri \<and> ac_scope row = scope \<and>
     Some (ac_nonce row) = ar_nonce req \<and> Some (ac_code_challenge row) = ar_code_challenge req \<and>
     ac_auth_time row = micros (ss_auth_time sso) \<and> ac_used_at row = None \<and>
     clock_reading w w' issued_at \<and> ac_expires_at row = micros (issued_at + authorization_code_ttl C)"
proof -
  from authorize_Redirect [OF assms] obtain client uri cr where
      r: "registered E (db w) tenant req client uri" "validate_request req client = Inr ()"
    and cr: "checked_of req client uri cr"
    and k: "run_state (authorize_checked E C tenant req cr ctx) (called w) = (Return (Redirect location), w')"
    by blast
  from authorize_checked_Redirect [OF k] obtain sid sso user code issued_at row where
    "ar_prompt req \<noteq> Some ''login''" "ar_prompt req \<noteq> Some ''consent''"
    "ar_sso_session_id req = Some sid" "sso_usable E (db w) tenant sid (clock_src w (ticks w + 2)) sso user"
    "\<forall>a. ar_max_age req = Some a \<longrightarrow> num_seconds (clock_src w (ticks w + 8) - ss_auth_time sso) \<le> sint a"
    "consent_given E (db w) tenant (u_id user) (c_client_id (cr_client cr)) (cr_scope cr)"
    "url_append E (cr_redirect_uri cr) [(''code'', code), (''state'', cr_state cr)] = Some location"
    "issued_code E C
         \<lparr>ic_tenant = tenant, ic_user_id = u_id user, ic_client_id = c_client_id (cr_client cr),
          ic_redirect_uri = cr_redirect_uri cr, ic_scope = cr_scope cr, ic_nonce = cr_nonce cr,
          ic_auth_time = ss_auth_time sso, ic_code_challenge = cr_code_challenge cr,
          ic_code_challenge_method = S256\<rparr> code issued_at row"
    "clock_reading (called w) w' issued_at" "db_codes (db w') = db_codes (db w) @ [row]"
    by (auto simp: add.commute)
  moreover from this have "clock_reading w w' issued_at" by (auto elim: clock_reading_earlier)
  moreover from cr have "cr_client cr = client" "cr_redirect_uri cr = uri"
    "cr_scope cr = split_whitespace (unwrap_or_default (ar_scope req))" "ar_state req = Some (cr_state cr)"
    "ar_nonce req = Some (cr_nonce cr)" "ar_code_challenge req = Some (cr_code_challenge cr)"
    by (simp_all add: checked_of_def)
  ultimately show ?thesis using r
    by (intro exI [of _ client] exI [of _ uri] exI [of _ "cr_scope cr"] exI [of _ "cr_state cr"]
         exI [of _ sid] exI [of _ sso] exI [of _ user]
         exI [of _ issued_at] exI [of _ code] exI [of _ row])
       (simp add: issued_code_def)
qed

lemma sample_authorize_run:
  "fst (run_state (authorize sample_libs sample_config 1 sample_request sample_ctx) sample_world) =
   Return (Redirect ''https://app/cb?code=0rrrrrrrrrrrrrrrrrrrrrrrrrrrrrrrr&state=st'')"
  by code_simp

theorem authorize_code_sound_witness:
  "\<exists>client uri sid sso user.
     fst (run_state (authorize sample_libs sample_config 1 sample_request sample_ctx) sample_world) =
       Return (Redirect ''https://app/cb?code=0rrrrrrrrrrrrrrrrrrrrrrrrrrrrrrrr&state=st'') \<and>
     registered sample_libs (db sample_world) 1 sample_request client uri \<and>
     sso_usable sample_libs (db sample_world) 1 sid (clock_src sample_world (ticks sample_world + 2)) sso user"
  using authorize_code_sound [OF run_fstI [OF sample_authorize_run]] sample_authorize_run by blast

text \<open>
  C25. The endpoint never sends the browser anywhere but to a redirect URI that is registered for an
  active client of the tenant and named by the request, neither with a code nor with an error.
\<close>

theorem authorize_redirects_registered:
  assumes "run_state (authorize E C tenant req ctx) w = (Return out, w')"
    and "out = Redirect location \<or> out = ErrorRedirect location"
  shows "\<exists>client uri ps. registered E (db w) tenant req client uri \<and> url_append E uri ps = Some location"
proof -
  from authorize_run [OF assms(1)] assms(2) obtain client uri where r: "registered E (db w) tenant req client uri"
    and k: "run_state (authorize_registered E C tenant req client uri ctx) (called w) = (Return out, w')"
    by auto
  from authorize_registered_stays [OF k] assms(2) have "\<exists>ps. url_append E uri ps = Some location"
    by (auto simp: stays_at_def)
  with r show ?thesis by blast
qed

theorem authorize_redirects_registered_witness:
  "\<exists>client uri ps. registered sample_libs (db sample_world) 1 sample_request client uri \<and>
     url_append sample_libs uri ps = Some ''https://app/cb?code=0rrrrrrrrrrrrrrrrrrrrrrrrrrrrrrrr&state=st''"
  using authorize_redirects_registered [OF run_fstI [OF sample_authorize_run]] by blast

text \<open>With \<open>prompt=none\<close> the endpoint never shows a page: neither login nor consent.\<close>

theorem authorize_prompt_none:
  assumes "ar_prompt req = Some ''none''"
    and "run_state (authorize E C tenant req ctx) w = (Return out, w')"
  shows "out \<noteq> LoginRequired i \<and> out \<noteq> ConsentRequired i"
  using authorize_run [OF assms(2)] assms(1)
  by (auto simp: checked_of_def map_outcome_Return dest!: authorize_registered_run authorize_checked_none)

theorem authorize_prompt_none_witness:
  "\<exists>out w'. run_state (authorize sample_libs sample_config 1
       (sample_request\<lparr>ar_prompt := Some ''none'', ar_sso_session_id := None\<rparr>) sample_ctx) sample_world =
       (Return out, w') \<and>
     out = ErrorRedirect ''https://app/cb?error=login_required&error_description=login required&state=st'' \<and>
     out \<noteq> LoginRequired []"
proof -
  let ?req = "sample_request\<lparr>ar_prompt := Some ''none'', ar_sso_session_id := None\<rparr>"
  let ?run = "run_state (authorize sample_libs sample_config 1 ?req sample_ctx) sample_world"
  have run: "fst ?run = Return (ErrorRedirect
      ''https://app/cb?error=login_required&error_description=login required&state=st'')" by code_simp
  have "ar_prompt ?req = Some ''none''" by simp
  from authorize_prompt_none [OF this run_fstI [OF run]] run_fstI [OF run] show ?thesis by blast
qed

text \<open>
  C40. When every registered redirect URI parses as a URL, the endpoint never panics, whatever the
  request, the cookies and the state of the database.
\<close>

theorem authorize_no_panic:
  assumes "\<And>c u ps. c \<in> set (db_clients (db w)) \<Longrightarrow> u \<in> set (c_redirect_uris c) \<Longrightarrow> url_append E u ps \<noteq> None"
  shows "fst (run_state (authorize E C tenant req ctx) w) \<noteq> Panic"
proof
  assume "fst (run_state (authorize E C tenant req ctx) w) = Panic"
  then obtain w' where run: "run_state (authorize E C tenant req ctx) w = (Panic, w')"
    by (metis run_fstI)
  from authorize_run [OF run] obtain client uri where r: "registered E (db w) tenant req client uri"
    and k: "run_state (authorize_registered E C tenant req client uri ctx) (called w) = (Panic, w')"
    by auto
  from r have ok: "url_append E uri ps \<noteq> None" for ps using assms by (auto simp: registered_def)
  from authorize_registered_run [OF k] redirect_Panic [OF ok] authorize_checked_Panic ok show False
    by (auto simp: map_outcome_Panic checked_of_def)
qed

theorem authorize_no_panic_witness:
  "list_all (\<lambda>c. list_all (\<lambda>u. starts_with u ''https://'') (c_redirect_uris c)) (db_clients (db sample_world)) \<and>
   fst (run_state (authorize sample_libs sample_config 1 sample_request sample_ctx) sample_world) \<noteq> Panic"
proof -
  have ok: "list_all (\<lambda>c. list_all (\<lambda>u. starts_with u ''https://'') (c_redirect_uris c)) (db_clients (db sample_world))"
    by code_simp
  have "fst (run_state (authorize sample_libs sample_config 1 sample_request sample_ctx) sample_world) \<noteq> Panic"
    by (rule authorize_no_panic) (use ok in \<open>auto simp: sample_libs_def list_all_iff\<close>)
  with ok show ?thesis by blast
qed

text \<open>
  Resuming never makes an SSO session live longer than its absolute deadline, and the endpoint
  creates no SSO session: every session after it is one from before it, with the same user,
  authentication time and absolute deadline, and at most another idle deadline.
\<close>

theorem authorize_keeps_absolute_deadline:
  assumes "run_state (authorize E C tenant req ctx) w = (out, w')"
    and "s' \<in> set (db_sso_sessions (db w'))"
  shows "\<exists>s \<in> set (db_sso_sessions (db w)). s' = s\<lparr>ss_idle_expires_at := ss_idle_expires_at s'\<rparr>"
  using alwaysD [OF idle_authorize assms(1)] assms(2) by (simp add: only_idle_def)

theorem authorize_keeps_absolute_deadline_witness:
  "\<exists>s \<in> set (db_sso_sessions (db sample_world)).
     sample_sso\<lparr>ss_idle_expires_at := seconds 29800\<rparr> = s\<lparr>ss_idle_expires_at := seconds 29800\<rparr>"
proof -
  let ?run = "run_state (authorize sample_libs sample_config 1 sample_request sample_ctx) sample_world"
  have "sample_sso\<lparr>ss_idle_expires_at := seconds 29800\<rparr> \<in> set (db_sso_sessions (db (snd ?run)))"
    by code_simp
  from authorize_keeps_absolute_deadline [OF prod.collapse [symmetric] this] show ?thesis by simp
qed

end
