(* ===== verification/RateLimit.thy ===== *)
theory RateLimit
  imports World
begin

text \<open>
  The in-memory login rate limiter of \<^verbatim>\<open>infrastructure/rate_limit.rs\<close>: a map from keys (IP
  addresses) to the ts of the admitted attempts, cleaned on every call. The mutex makes one call
  atomic. The specification is the log of admitted attempts, which the code does not keep: a call
  is admitted exactly when the log has fewer than the maximum of the key's attempts inside the
  window, and so no window of that length ever holds more.
\<close>

section \<open>Model\<close>

text \<open>\<open>map.retain\<close>: attempts outside the window go, and keys that are left with none.\<close>

definition retain_attempts :: "instant \<Rightarrow> (string \<Rightarrow> instant list option) \<Rightarrow> string \<Rightarrow> instant list option" where
  "retain_attempts cutoff m k =
     (case m k of
        None \<Rightarrow> None
      | Some ts \<Rightarrow>
          let kept_ts = filter (\<lambda>t. t > cutoff) ts in if kept_ts = [] then None else Some kept_ts)"

definition limiter_step ::
  "nat \<Rightarrow> duration \<Rightarrow> string \<Rightarrow> instant \<Rightarrow> (string \<Rightarrow> instant list option) \<Rightarrow>
   bool \<times> (string \<Rightarrow> instant list option)" where
  "limiter_step max_attempts window key now m =
     (let m = retain_attempts (now - window) m;
          ts = (case m key of Some ts \<Rightarrow> ts | None \<Rightarrow> [])
      in if length ts \<ge> max_attempts then (False, m(key := Some ts))
         else (True, m(key := Some (ts @ [now]))))"

definition check_and_record :: "config \<Rightarrow> string \<Rightarrow> instant \<Rightarrow> (world, bool) state" where
  "check_and_record C key now = State (\<lambda>w.
     let (ok, m) = limiter_step (rate_max_attempts C) (rate_window C) key now (attempts w)
     in (ok, w\<lparr>attempts := m\<rparr>))"

lemma run_check_and_record [run_rules]:
  "run_state (check_and_record C key now) w = (ok, w') \<longleftrightarrow>
   (\<exists>m. limiter_step (rate_max_attempts C) (rate_window C) key now (attempts w) = (ok, m) \<and>
        w' = w\<lparr>attempts := m\<rparr>)"
  by (auto simp: check_and_record_def split: prod.splits)

lemma frame_check_and_record: "always (frame T) (check_and_record C key now)"
  by (rule alwaysI) (simp add: check_and_record_def wp_State frame_def split: prod.splits)

lemma env_check_and_record: "always same_env (check_and_record C key now)"
  by (rule alwaysI) (simp add: check_and_record_def wp_State same_env_def split: prod.splits)

section \<open>A sequence of calls\<close>

text \<open>The map and the log of the admitted attempts after a sequence of calls, oldest first.\<close>

definition limiter_next ::
  "nat \<Rightarrow> duration \<Rightarrow> (string \<Rightarrow> instant list option) \<times> (string \<times> instant) list \<Rightarrow> string \<times> instant \<Rightarrow>
   (string \<Rightarrow> instant list option) \<times> (string \<times> instant) list" where
  "limiter_next n W s c =
     (case limiter_step n W (fst c) (snd c) (fst s) of
        (ok, m) \<Rightarrow> (m, if ok then snd s @ [c] else snd s))"

definition limiter_run ::
  "nat \<Rightarrow> duration \<Rightarrow> (string \<times> instant) list \<Rightarrow>
   (string \<Rightarrow> instant list option) \<times> (string \<times> instant) list" where
  "limiter_run n W calls = foldl (limiter_next n W) ((\<lambda>_. None), []) calls"

text \<open>The ts of the key's admitted attempts.\<close>

definition admitted :: "nat \<Rightarrow> duration \<Rightarrow> (string \<times> instant) list \<Rightarrow> string \<Rightarrow> instant list" where
  "admitted n W calls k = map snd (filter (\<lambda>c. fst c = k) (snd (limiter_run n W calls)))"

definition recorded :: "(string \<Rightarrow> instant list option) \<Rightarrow> string \<Rightarrow> instant list" where
  "recorded m k = (case m k of Some ts \<Rightarrow> ts | None \<Rightarrow> [])"

lemma recorded_retain: "recorded (retain_attempts cutoff m) k = filter (\<lambda>t. t > cutoff) (recorded m k)"
  by (auto simp: recorded_def retain_attempts_def Let_def split: option.splits)

lemma limiter_step_ok:
  "fst (limiter_step n W key now m) \<longleftrightarrow> length (filter (\<lambda>t. t > now - W) (recorded m key)) < n"
  using recorded_retain [of "now - W" m key]
  by (auto simp: limiter_step_def recorded_def Let_def)

lemma limiter_step_recorded:
  "recorded (snd (limiter_step n W key now m)) k =
     filter (\<lambda>t. t > now - W) (recorded m k) @
     (if k = key \<and> fst (limiter_step n W key now m) then [now] else [])"
  using recorded_retain [of "now - W" m k]
  by (auto simp: limiter_step_def recorded_def Let_def)

lemma limiter_run_snoc:
  "limiter_run n W (calls @ [c]) = limiter_next n W (limiter_run n W calls) c"
  by (simp add: limiter_run_def)

lemma admitted_snoc:
  "admitted n W (calls @ [(key, now)]) k =
     admitted n W calls k @
     (if k = key \<and> fst (limiter_step n W key now (fst (limiter_run n W calls))) then [now] else [])"
  by (simp add: admitted_def limiter_run_snoc limiter_next_def split: prod.splits)

text \<open>The map agrees with the log on every window that reaches back from a time not passed yet.\<close>

lemma recorded_admitted:
  fixes calls :: "(string \<times> instant) list" and W :: duration
  assumes "sorted (map snd calls)" and "\<forall>c \<in> set calls. snd c - W \<le> lo"
  shows "filter (\<lambda>t. t > lo) (recorded (fst (limiter_run n W calls)) k) =
         filter (\<lambda>t. t > lo) (admitted n W calls k)"
  using assms
proof (induction calls rule: rev_induct)
  case Nil
  then show ?case by (simp add: limiter_run_def recorded_def admitted_def)
next
  case (snoc c calls)
  obtain key now where c: "c = (key, now)" by (cases c)
  let ?m = "fst (limiter_run n W calls)"
  have "now - W \<le> lo" using snoc.prems c by simp
  then have trim: "filter (\<lambda>t. t > lo) (filter (\<lambda>t. t > now - W) ts) = filter (\<lambda>t. t > lo) ts" for ts
    by (auto intro: filter_cong)
  have "filter (\<lambda>t. t > lo) (recorded ?m k) = filter (\<lambda>t. t > lo) (admitted n W calls k)"
    using snoc by (auto simp: sorted_append)
  moreover have "fst (limiter_run n W (calls @ [c])) = snd (limiter_step n W key now ?m)"
    by (simp add: limiter_run_snoc limiter_next_def c split: prod.splits)
  ultimately show ?case
    by (simp only: c limiter_step_recorded admitted_snoc filter_append trim)
qed

lemma limiter_decision:
  assumes "sorted (map snd (calls @ [(key, now)]))"
  shows "fst (limiter_step n W key now (fst (limiter_run n W calls))) \<longleftrightarrow>
         length (filter (\<lambda>t. t > now - W) (admitted n W calls key)) < n"
proof -
  have "filter (\<lambda>t. t > now - W) (recorded (fst (limiter_run n W calls)) key) =
        filter (\<lambda>t. t > now - W) (admitted n W calls key)"
    using assms by (intro recorded_admitted) (auto simp: sorted_append)
  then show ?thesis by (simp add: limiter_step_ok)
qed

lemma length_filter_mono: "(\<And>x. P x \<Longrightarrow> Q x) \<Longrightarrow> length (filter P xs) \<le> length (filter Q xs)"
  by (induction xs) auto

lemma limiter_bound:
  assumes "sorted (map snd calls)"
  shows "length (filter (\<lambda>t. a < t \<and> t \<le> a + W) (admitted n W calls k)) \<le> n"
  using assms
proof (induction calls rule: rev_induct)
  case Nil
  then show ?case by (simp add: admitted_def limiter_run_def)
next
  case (snoc c calls)
  obtain key now where c: "c = (key, now)" by (cases c)
  have IH: "length (filter (\<lambda>t. a < t \<and> t \<le> a + W) (admitted n W calls k)) \<le> n"
    using snoc by (simp add: sorted_append)
  show ?case
  proof (cases "k = key \<and> fst (limiter_step n W key now (fst (limiter_run n W calls))) \<and> now \<le> a + W")
    case True
    then have "length (filter (\<lambda>t. t > now - W) (admitted n W calls k)) < n"
      using limiter_decision [of calls key now n W] snoc.prems c by simp
    moreover have "length (filter (\<lambda>t. a < t \<and> t \<le> a + W) (admitted n W calls k)) \<le>
        length (filter (\<lambda>t. t > now - W) (admitted n W calls k))"
      by (rule length_filter_mono) (use True in linarith)
    ultimately show ?thesis by (auto simp: c admitted_snoc)
  next
    case False
    with IH show ?thesis by (auto simp: c admitted_snoc)
  qed
qed

section \<open>Properties\<close>

text \<open>
  C28. On calls whose ts do not go back, the limiter's answer for a key is the sliding-window rule:
  yes exactly when fewer than \<open>max_attempts\<close> earlier attempts of that key were admitted less than a
  window ago. Attempts of other keys and rejected attempts never count.
\<close>

theorem rate_limiter_decision:
  assumes "sorted (map snd (calls @ [(key, now)]))"
  shows "fst (limiter_step n W key now (fst (limiter_run n W calls))) =
         (length (filter (\<lambda>t. now - t < W) (admitted n W calls key)) < n)"
  using limiter_decision [OF assms, of n W] by (simp add: diff_less_eq add.commute)

theorem rate_limiter_decision_witness:
  "fst (limiter_step 1 10 ''a'' 15 (fst (limiter_run 1 10 [(''a'', 1), (''b'', 3), (''a'', 4)]))) =
     (length (filter (\<lambda>t. 15 - t < 10) (admitted 1 10 [(''a'', 1), (''b'', 3), (''a'', 4)] ''a'')) < 1)"
  by (rule rate_limiter_decision) simp

text \<open>
  Over any sequence of calls whose ts do not go back, no interval as long as the window ever holds
  more than \<open>max_attempts\<close> admitted attempts of one key.
\<close>

theorem rate_limiter_window_bound:
  assumes "sorted (map snd calls)"
  shows "length (filter (\<lambda>t. a < t \<and> t \<le> a + W) (admitted n W calls key)) \<le> n"
  by (rule limiter_bound [OF assms])

theorem rate_limiter_window_bound_witness:
  "admitted 2 10 [(''a'', 1), (''a'', 2), (''a'', 3), (''a'', 12)] ''a'' = [1, 2, 12] \<and>
   length (filter (\<lambda>t. 1 < t \<and> t \<le> 1 + 10) (admitted 2 10 [(''a'', 1), (''a'', 2), (''a'', 3), (''a'', 12)] ''a'')) \<le> 2"
  using rate_limiter_window_bound [of "[(''a'', 1), (''a'', 2), (''a'', 3), (''a'', 12)]" 1 10 2 "''a''"]
  by (simp add: admitted_def limiter_run_def limiter_next_def limiter_step_def retain_attempts_def Let_def)

end
