(* ===== verification/Login.thy ===== *)
theory Login
  imports Authorize RateLimit Samples
begin

text \<open>
  The login service of \<^verbatim>\<open>application/login.rs\<close>, and the parts it shares with the second-factor, the
  password-change and the consent services: finding the authorization session, starting an SSO
  session, the consent check and the final issue of the code. An early return of the Rust code is
  the \<open>Inl\<close> of a step; the last step gives the outcome of the whole.
\<close>

section \<open>Steps the interactive services share\<close>

datatype flow_stop = FlowExpired | FlowFailed domain_error

text \<open>The session of the tenant with this id, if it has not expired; an expired one is deleted.\<close>

definition live_session ::
  "libs \<Rightarrow> tenant_id \<Rightarrow> string \<Rightarrow> instant \<Rightarrow> (world, flow_stop + auth_session) state" where
  "live_session E tenant session_id now =
     and_then (map_err FlowFailed (auth_sessions_find_by_id E tenant session_id)) (\<lambda>found.
     case found of
       None \<Rightarrow> State_Monad.return (Inl FlowExpired)
     | Some session \<Rightarrow>
         if auth_session_is_expired_at session now then do {
           _ \<leftarrow> auth_sessions_delete E (as_id session);
           State_Monad.return (Inl FlowExpired)
         }
         else State_Monad.return (Inr session))"

definition cookie_session ::
  "libs \<Rightarrow> tenant_id \<Rightarrow> string option \<Rightarrow> instant \<Rightarrow> (world, flow_stop + (string \<times> auth_session)) state" where
  "cookie_session E tenant auth_session_id now =
     (case non_empty auth_session_id of
        None \<Rightarrow> State_Monad.return (Inl FlowExpired)
      | Some session_id \<Rightarrow>
          and_then (live_session E tenant session_id now) (\<lambda>session.
          State_Monad.return (Inr (session_id, session))))"

text \<open>The cookie gets the session id, the table its hash.\<close>

definition start_sso ::
  "libs \<Rightarrow> config \<Rightarrow> tenant_id \<Rightarrow> uuid \<Rightarrow> string \<Rightarrow> instant \<Rightarrow> request_context \<Rightarrow>
   (world, domain_error + string) state" where
  "start_sso E C tenant user_id client_id now ctx = do {
     sso_session_id \<leftarrow> random_hex E 32;
     and_then (sso_sessions_create E
       \<lparr>ss_session_hash = sha256_hex E sso_session_id, ss_user_id = user_id, ss_auth_time = now,
        ss_idle_expires_at = now + sso_idle_ttl C,
        ss_absolute_expires_at = now + sso_absolute_ttl C, ss_user_agent = user_agent ctx,
        ss_ip_address = ip_address ctx, ss_created_at = now, ss_updated_at = now\<rparr>) (\<lambda>_. do {
     audit_record SsoSessionCreated AuditSuccess (Some tenant) (Some user_id) (Some client_id) None ctx;
     audit_record LoginSucceeded AuditSuccess (Some tenant) (Some user_id) (Some client_id) None ctx;
     State_Monad.return (Inr sso_session_id) })
   }"

definition session_consented ::
  "libs \<Rightarrow> tenant_id \<Rightarrow> uuid \<Rightarrow> auth_session \<Rightarrow> (world, domain_error + bool) state" where
  "session_consented E tenant user_id session =
     (if without_openid (as_scope session) = [] then State_Monad.return (Inr True)
      else and_then (consents_find E tenant user_id (as_client_id session)) (\<lambda>found.
        State_Monad.return (Inr (case found of
          Some consent \<Rightarrow> consent_covers consent (without_openid (as_scope session))
        | None \<Rightarrow> False))))"

definition session_code_command :: "tenant_id \<Rightarrow> uuid \<Rightarrow> auth_session \<Rightarrow> instant \<Rightarrow> issue_code_command" where
  "session_code_command tenant user_id session auth_time =
     \<lparr>ic_tenant = tenant, ic_user_id = user_id, ic_client_id = as_client_id session,
      ic_redirect_uri = as_redirect_uri session, ic_scope = as_scope session,
      ic_nonce = as_nonce session, ic_auth_time = auth_time,
      ic_code_challenge = as_code_challenge session,
      ic_code_challenge_method = as_code_challenge_method session\<rparr>"

text \<open>Issue the code, delete the session (a failure is only logged), and build the redirect.\<close>

definition issue_and_close ::
  "libs \<Rightarrow> config \<Rightarrow> tenant_id \<Rightarrow> uuid \<Rightarrow> auth_session \<Rightarrow> instant \<Rightarrow> request_context \<Rightarrow>
   (world, domain_error + string outcome) state" where
  "issue_and_close E C tenant user_id session auth_time ctx =
     and_then (issue_code E C (session_code_command tenant user_id session auth_time) ctx) (\<lambda>code. do {
     _ \<leftarrow> auth_sessions_delete E (as_id session);
     State_Monad.return (Inr (code_redirect E (as_redirect_uri session) code (as_state session))) })"

text \<open>\<open>None\<close> when the user still has to consent.\<close>

definition finish_flow ::
  "libs \<Rightarrow> config \<Rightarrow> tenant_id \<Rightarrow> uuid \<Rightarrow> auth_session \<Rightarrow> instant \<Rightarrow> request_context \<Rightarrow>
   (world, domain_error + string outcome option) state" where
  "finish_flow E C tenant user_id session now ctx =
     and_then (session_consented E tenant user_id session) (\<lambda>consented.
     if \<not> consented then State_Monad.return (Inr None)
     else and_then (issue_and_close E C tenant user_id session now ctx) (\<lambda>location.
       State_Monad.return (Inr (Some location))))"

definition user_has_confirmed_totp :: "uuid \<Rightarrow> (world, domain_error + bool) state" where
  "user_has_confirmed_totp user_id =
     and_then (totp_secrets_find_by_user_id user_id) (\<lambda>found.
     State_Monad.return (Inr (case found of Some s \<Rightarrow> totp_is_confirmed s | None \<Rightarrow> False)))"

section \<open>The login service\<close>

definition max_failed_logins :: int where
  "max_failed_logins = 10"

definition lock_duration_minutes :: int where
  "lock_duration_minutes = 15"

record login_command =
  lc_auth_session_id :: "string option"
  lc_username :: string
  lc_password :: string
  lc_csrf_token :: string

datatype login_outcome =
    LoginSuccess string string "string option"
  | LoginConsentRequired string string
  | MfaRequired string
  | PasswordChangeRequired string
  | EmailVerificationRequired
  | LoginSessionExpired
  | LoginCsrfMismatch
  | LoginRateLimited
  | InvalidCredentials
  | LoginLockedOut
  | LoginInternal string

definition login_failed :: "domain_error \<Rightarrow> login_outcome" where
  "login_failed e = LoginInternal (domain_error_to_string e)"

definition login_stop :: "flow_stop \<Rightarrow> login_outcome" where
  "login_stop s = (case s of FlowExpired \<Rightarrow> LoginSessionExpired | FlowFailed e \<Rightarrow> login_failed e)"

text \<open>Step 3: the rate limit, for requests whose address is known.\<close>

definition login_rate ::
  "config \<Rightarrow> tenant_id \<Rightarrow> auth_session \<Rightarrow> instant \<Rightarrow> request_context \<Rightarrow> (world, login_outcome + unit) state" where
  "login_rate C tenant session now ctx =
     (case ip_address ctx of
        None \<Rightarrow> State_Monad.return (Inr ())
      | Some ip \<Rightarrow> do {
          ok \<leftarrow> check_and_record C ip now;
          if \<not> ok then do {
            audit_record LoginFailed AuditFailure (Some tenant) None (Some (as_client_id session))
              (Some ''ip_rate_limited'') ctx;
            State_Monad.return (Inl LoginRateLimited)
          }
          else State_Monad.return (Inr ())
        })"

text \<open>Steps 4 to 6: the user, and whether the account may log in.\<close>

definition login_user ::
  "libs \<Rightarrow> tenant_id \<Rightarrow> auth_session \<Rightarrow> login_command \<Rightarrow> instant \<Rightarrow> request_context \<Rightarrow>
   (world, login_outcome + user) state" where
  "login_user E tenant session cmd now ctx =
     and_then (map_err login_failed (users_find_by_username E tenant (lc_username cmd))) (\<lambda>found.
     case found of
       None \<Rightarrow> do {
         audit_record LoginFailed AuditFailure (Some tenant) None (Some (as_client_id session))
           (Some ''unknown_user'') ctx;
         State_Monad.return (Inl InvalidCredentials)
       }
     | Some user \<Rightarrow>
         if user_is_locked_at user now then do {
           audit_record LoginLocked AuditFailure (Some tenant) (Some (u_id user))
             (Some (as_client_id session)) (Some ''account_locked'') ctx;
           State_Monad.return (Inl LoginLockedOut)
         }
         else if \<not> user_is_active user then do {
           audit_record LoginFailed AuditFailure (Some tenant) (Some (u_id user))
             (Some (as_client_id session)) (Some ''account_not_active'') ctx;
           State_Monad.return (Inl InvalidCredentials)
         }
         else State_Monad.return (Inr user))"

definition handle_password_failure ::
  "tenant_id \<Rightarrow> user \<Rightarrow> string \<Rightarrow> request_context \<Rightarrow> (world, login_outcome) state" where
  "handle_password_failure tenant user client_id ctx = do {
     now \<leftarrow> clock_now;
     let failed = i32 (u_failed_login_count user + 1);
     let locked_until = (if failed \<ge> max_failed_logins
                         then Some (now + minutes lock_duration_minutes) else None);
     r \<leftarrow> users_update_login_state (u_id user) failed locked_until;
     case r of
       Inl e \<Rightarrow> State_Monad.return (login_failed e)
     | Inr _ \<Rightarrow> do {
         audit_record LoginFailed AuditFailure (Some tenant) (Some (u_id user)) (Some client_id)
           (Some ''invalid_password'') ctx;
         if locked_until \<noteq> None then do {
           audit_record LoginLocked AuditFailure (Some tenant) (Some (u_id user)) (Some client_id)
             (Some ''too_many_failures'') ctx;
           State_Monad.return LoginLockedOut
         }
         else State_Monad.return InvalidCredentials
       }
   }"

text \<open>Steps 7 and 8: the password; success resets the failure counter and the lock.\<close>

definition login_password ::
  "libs \<Rightarrow> tenant_id \<Rightarrow> user \<Rightarrow> auth_session \<Rightarrow> login_command \<Rightarrow> request_context \<Rightarrow>
   (world, login_outcome + unit) state" where
  "login_password E tenant user session cmd ctx =
     (case hasher_verify E (lc_password cmd) (u_password_hash user) of
        Inl e \<Rightarrow> State_Monad.return (Inl (login_failed e))
      | Inr verified \<Rightarrow>
          if \<not> verified then do {
            out \<leftarrow> handle_password_failure tenant user (as_client_id session) ctx;
            State_Monad.return (Inl out)
          }
          else if u_failed_login_count user > 0 \<or> u_locked_until user \<noteq> None then
            map_err login_failed (users_update_login_state (u_id user) 0 None)
          else State_Monad.return (Inr ()))"

text \<open>Steps 8.1 to 9: email verification, forced password change, second factor.\<close>

definition login_gates ::
  "libs \<Rightarrow> tenant_id \<Rightarrow> user \<Rightarrow> auth_session \<Rightarrow> instant \<Rightarrow> request_context \<Rightarrow>
   (world, login_outcome + unit) state" where
  "login_gates E tenant user session now ctx =
     (if \<not> u_email_verified user then do {
        audit_record LoginFailed AuditFailure (Some tenant) (Some (u_id user))
          (Some (as_client_id session)) (Some ''email_not_verified'') ctx;
        State_Monad.return (Inl EmailVerificationRequired)
      }
      else if u_must_change_password user then
        and_then (map_err login_failed
          (auth_sessions_set_password_verified E (as_id session) (u_id user) now)) (\<lambda>_.
        State_Monad.return (Inl (PasswordChangeRequired (as_id session))))
      else
        and_then (map_err login_failed (user_has_confirmed_totp (u_id user))) (\<lambda>has_totp.
        if has_totp then
          and_then (map_err login_failed
            (auth_sessions_set_password_verified E (as_id session) (u_id user) now)) (\<lambda>_.
          State_Monad.return (Inl (MfaRequired (as_id session))))
        else State_Monad.return (Inr ())))"

text \<open>Steps 10 to 13.\<close>

definition login_complete ::
  "libs \<Rightarrow> config \<Rightarrow> tenant_id \<Rightarrow> user \<Rightarrow> auth_session \<Rightarrow> instant \<Rightarrow> request_context \<Rightarrow>
   (world, login_outcome + login_outcome outcome) state" where
  "login_complete E C tenant user session now ctx =
     map_err login_failed
       (and_then (start_sso E C tenant (u_id user) (as_client_id session) now ctx) (\<lambda>sso_session_id.
        and_then (auth_sessions_set_authenticated_user E (as_id session) (u_id user) now) (\<lambda>_.
        and_then (finish_flow E C tenant (u_id user) session now ctx) (\<lambda>finished.
        State_Monad.return (Inr (case finished of
          None \<Rightarrow> Return (LoginConsentRequired (as_id session) sso_session_id)
        | Some location \<Rightarrow>
            map_outcome (\<lambda>l. LoginSuccess l sso_session_id (u_language user)) location))))))"

text \<open>Steps 1 to 9: who is logging in, or the outcome that ends the request.\<close>

definition login_authenticate ::
  "libs \<Rightarrow> config \<Rightarrow> tenant_id \<Rightarrow> login_command \<Rightarrow> request_context \<Rightarrow>
   (world, login_outcome + (instant \<times> auth_session \<times> user)) state" where
  "login_authenticate E C tenant cmd ctx = do {
     now \<leftarrow> clock_now;
     and_then (map_err login_stop (cookie_session E tenant (lc_auth_session_id cmd) now)) (\<lambda>(_, session).
     and_then (require (login_csrf_token E (as_id session) (csrf_secret C) = lc_csrf_token cmd)
                 LoginCsrfMismatch) (\<lambda>_.
     and_then (login_rate C tenant session now ctx) (\<lambda>_.
     and_then (login_user E tenant session cmd now ctx) (\<lambda>user.
     and_then (login_password E tenant user session cmd ctx) (\<lambda>_.
     and_then (login_gates E tenant user session now ctx) (\<lambda>_.
     State_Monad.return (Inr (now, session, user))))))))
   }"

definition login ::
  "libs \<Rightarrow> config \<Rightarrow> tenant_id \<Rightarrow> login_command \<Rightarrow> request_context \<Rightarrow>
   (world, login_outcome outcome) state" where
  "login E C tenant cmd ctx = do {
     r \<leftarrow> and_then (login_authenticate E C tenant cmd ctx) (\<lambda>(now, session, user).
            login_complete E C tenant user session now ctx);
     State_Monad.return (case r of Inl out \<Rightarrow> Return out | Inr out \<Rightarrow> out)
   }"

section \<open>Reading a run\<close>

lemma live_session_Inr:
  assumes "run_state (live_session E tenant sid now) w = (Inr session, w')"
  shows "session \<in> set (db_auth_sessions (db w)) \<and> as_tenant_id session = tenant \<and>
     db_eq E (as_id session) sid \<and> \<not> auth_session_is_expired_at session now \<and> w' = called w"
  using assms
  by (auto simp: live_session_def auth_sessions_find_by_id_def run_rules dest!: find_SomeD)

lemma cookie_session_Inr:
  assumes "run_state (cookie_session E tenant c now) w = (Inr (sid, session), w')"
  shows "c = Some sid \<and> session \<in> set (db_auth_sessions (db w)) \<and> as_tenant_id session = tenant \<and>
     db_eq E (as_id session) sid \<and> \<not> auth_session_is_expired_at session now \<and> w' = called w"
  using assms by (auto simp: cookie_session_def run_rules dest!: live_session_Inr)

definition started_sso ::
  "libs \<Rightarrow> config \<Rightarrow> uuid \<Rightarrow> string \<Rightarrow> instant \<Rightarrow> sso_session \<Rightarrow> bool" where
  "started_sso E C user_id sso_id now row \<longleftrightarrow>
     ss_session_hash row = sha256_hex E sso_id \<and> ss_user_id row = user_id \<and>
     ss_auth_time row = micros now \<and> ss_idle_expires_at row = micros (now + sso_idle_ttl C) \<and>
     ss_absolute_expires_at row = micros (now + sso_absolute_ttl C)"

lemma sso_sessions_create_Inr:
  assumes "run_state (sso_sessions_create E s) w = (Inr x, w')"
  shows "\<exists>created. db w' = (db w)\<lparr>db_sso_sessions := db_sso_sessions (db w) @
     [s\<lparr>ss_auth_time := micros (ss_auth_time s), ss_idle_expires_at := micros (ss_idle_expires_at s),
        ss_absolute_expires_at := micros (ss_absolute_expires_at s), ss_created_at := created,
        ss_updated_at := created\<rparr>]\<rparr> \<and> attempts w' = attempts w"
  using assms
  by (force simp: sso_sessions_create_def run_db_call_Inr insert_row_def split: if_splits prod.splits)

lemma start_sso_Inr:
  assumes "run_state (start_sso E C tenant uid cid now ctx) w = (Inr sso_id, w')"
  shows "\<exists>row. started_sso E C uid sso_id now row \<and>
     tables (db w') = tables ((db w)\<lparr>db_sso_sessions := db_sso_sessions (db w) @ [row]\<rparr>)"
  using assms unfolding start_sso_def
  by (intro exI [of _ "last (db_sso_sessions (db w'))"])
     (auto simp: started_sso_def run_rules tables_eq_iff dest!: sso_sessions_create_Inr run_audit)

lemma session_consented_Inr:
  assumes "run_state (session_consented E tenant uid session) w = (Inr b, w')"
  shows "db w' = db w \<and> (b \<longrightarrow> consent_given E (db w) tenant uid (as_client_id session) (as_scope session))"
  using assms
  by (auto simp: session_consented_def consents_find_def consent_given_def run_rules dest!: find_SomeD)

lemma delete_auth_session_run:
  assumes "run_state (auth_sessions_delete E i) w = (r, w')"
  shows "\<exists>rows. db w' = (db w)\<lparr>db_auth_sessions := rows\<rparr> \<and> set rows \<subseteq> set (db_auth_sessions (db w)) \<and>
     (r = Inr () \<longrightarrow> (\<forall>s \<in> set rows. \<not> db_eq E (as_id s) i)) \<and> same_env w w'"
  using assms
  by (intro exI [of _ "db_auth_sessions (db w')"], cases r)
     (auto simp: auth_sessions_delete_def run_rules set_delete_where same_env_def called_def split: if_splits)

lemma issue_and_close_Inr:
  assumes "run_state (issue_and_close E C tenant uid session t ctx) w = (Inr out, w')"
  shows "\<exists>now code row. issued_code E C (session_code_command tenant uid session t) code now row \<and>
     clock_reading w w' now \<and> out = code_redirect E (as_redirect_uri session) code (as_state session) \<and>
     (\<exists>rows. tables (db w') = tables ((db w)\<lparr>db_codes := db_codes (db w) @ [row], db_auth_sessions := rows\<rparr>))"
  using assms unfolding issue_and_close_def
  by (clarsimp simp: run_rules dest!: issue_code_Inr delete_auth_session_run)
     (auto simp: tables_eq_iff dest: clock_reading_within [OF _ env.kept_refl])

lemma finish_flow_None:
  "run_state (finish_flow E C tenant uid session now ctx) w = (Inr None, w') \<Longrightarrow> db w' = db w"
  by (auto simp: finish_flow_def run_rules dest!: session_consented_Inr)

lemma finish_flow_Some:
  assumes "run_state (finish_flow E C tenant uid session now ctx) w = (Inr (Some out), w')"
  shows "consent_given E (db w) tenant uid (as_client_id session) (as_scope session) \<and>
     (\<exists>now' code row rows. issued_code E C (session_code_command tenant uid session now) code now' row \<and>
       out = code_redirect E (as_redirect_uri session) code (as_state session) \<and>
       tables (db w') = tables ((db w)\<lparr>db_codes := db_codes (db w) @ [row], db_auth_sessions := rows\<rparr>))"
  using assms
  by (clarsimp simp: finish_flow_def run_rules dest!: session_consented_Inr issue_and_close_Inr) fastforce

definition confirmed_totp :: "database \<Rightarrow> uuid \<Rightarrow> bool" where
  "confirmed_totp d uid =
     (case find (\<lambda>t. ts_user_id t = uid) (db_totp_secrets d) of
        Some s \<Rightarrow> totp_is_confirmed s | None \<Rightarrow> False)"

lemma user_has_confirmed_totp_Inr:
  "run_state (user_has_confirmed_totp uid) w = (Inr b, w') \<Longrightarrow> b = confirmed_totp (db w) uid \<and> w' = called w"
  by (auto simp: user_has_confirmed_totp_def totp_secrets_find_by_user_id_def confirmed_totp_def run_rules)

text \<open>The user has passed every check up to and including the password.\<close>

definition password_ok ::
  "libs \<Rightarrow> config \<Rightarrow> world \<Rightarrow> tenant_id \<Rightarrow> login_command \<Rightarrow> request_context \<Rightarrow> instant \<Rightarrow> auth_session \<Rightarrow> user \<Rightarrow> bool" where
  "password_ok E C w tenant cmd ctx now session user \<longleftrightarrow>
     session \<in> set (db_auth_sessions (db w)) \<and> as_tenant_id session = tenant \<and>
     (\<exists>sid. lc_auth_session_id cmd = Some sid \<and> db_eq E (as_id session) sid) \<and>
     \<not> auth_session_is_expired_at session now \<and>
     lc_csrf_token cmd = login_csrf_token E (as_id session) (csrf_secret C) \<and>
     (\<forall>ip. ip_address ctx = Some ip \<longrightarrow>
        fst (limiter_step (rate_max_attempts C) (rate_window C) ip now (attempts w))) \<and>
     find (\<lambda>u. u_tenant_id u = tenant \<and> has_username E (lc_username cmd) u) (db_users (db w)) = Some user \<and>
     user_is_active user \<and> \<not> user_is_locked_at user now \<and>
     hasher_verify E (lc_password cmd) (u_password_hash user) = Inr True"

definition gates_open :: "database \<Rightarrow> user \<Rightarrow> bool" where
  "gates_open d user \<longleftrightarrow> u_email_verified user \<and> \<not> u_must_change_password user \<and> \<not> confirmed_totp d (u_id user)"

lemma login_rate_Inr:
  assumes "run_state (login_rate C tenant session now ctx) w = (Inr x, w')"
  shows "db w' = db w \<and> (\<forall>ip. ip_address ctx = Some ip \<longrightarrow>
     fst (limiter_step (rate_max_attempts C) (rate_window C) ip now (attempts w)))"
  using assms by (auto simp: login_rate_def run_rules)

lemma login_user_Inr:
  assumes "run_state (login_user E tenant session cmd now ctx) w = (Inr user, w')"
  shows "find (\<lambda>u. u_tenant_id u = tenant \<and> has_username E (lc_username cmd) u) (db_users (db w)) = Some user \<and>
     user_is_active user \<and> \<not> user_is_locked_at user now \<and> w' = called w"
  using assms by (auto simp: login_user_def users_find_by_username_def run_rules)

definition clear_failures :: "user \<Rightarrow> user \<Rightarrow> user" where
  "clear_failures user u =
     (if u_id u = u_id user then u\<lparr>u_failed_login_count := 0, u_locked_until := None\<rparr> else u)"

lemma login_password_Inr:
  assumes "run_state (login_password E tenant user session cmd ctx) w = (Inr x, w')"
  shows "hasher_verify E (lc_password cmd) (u_password_hash user) = Inr True \<and>
     db w' = (db w)\<lparr>db_users := (if u_failed_login_count user > 0 \<or> u_locked_until user \<noteq> None
        then map (clear_failures user) (db_users (db w)) else db_users (db w))\<rparr>"
  using assms
  by (auto simp: login_password_def users_update_login_state_def update_user_def update_where_def
      clear_failures_def run_rules)

lemma login_gates_Inr:
  assumes "run_state (login_gates E tenant user session now ctx) w = (Inr x, w')"
  shows "gates_open (db w) user \<and> w' = called w"
  using assms by (auto simp: login_gates_def gates_open_def run_rules dest!: user_has_confirmed_totp_Inr)

text \<open>A run up to the password check, and what follows it.\<close>

definition refused :: "login_outcome \<Rightarrow> bool" where
  "refused out \<longleftrightarrow> out \<in> {LoginSessionExpired, LoginCsrfMismatch, LoginRateLimited, InvalidCredentials,
     LoginLockedOut} \<or> (\<exists>m. out = LoginInternal m)"

lemma refused_simps [simp]:
  "refused LoginSessionExpired" "refused LoginCsrfMismatch" "refused LoginRateLimited"
  "refused InvalidCredentials" "refused LoginLockedOut" "refused (LoginInternal m)"
  "refused (login_failed e)" "refused (login_stop s)"
  "\<not> refused (LoginSuccess l i g)" "\<not> refused (LoginConsentRequired a i)" "\<not> refused (MfaRequired a)"
  "\<not> refused (PasswordChangeRequired a)" "\<not> refused EmailVerificationRequired"
  by (auto simp: refused_def login_failed_def login_stop_def split: flow_stop.splits)

lemma login_refusals:
  "run_state (login_rate C tenant session now ctx) w = (Inl out, w') \<Longrightarrow> refused out"
  "run_state (login_user E tenant session cmd now ctx) w = (Inl out, w') \<Longrightarrow> refused out"
  "run_state (handle_password_failure tenant user cid ctx) w = (out, w') \<Longrightarrow> refused out"
  by (auto simp: login_rate_def login_user_def handle_password_failure_def Let_def run_rules)

lemma login_password_Inl:
  "run_state (login_password E tenant user session cmd ctx) w = (Inl out, w') \<Longrightarrow> refused out"
  by (auto simp: login_password_def run_rules dest: login_refusals)

definition after_password :: "user \<Rightarrow> database \<Rightarrow> database" where
  "after_password user d =
     d\<lparr>db_users := (if u_failed_login_count user > 0 \<or> u_locked_until user \<noteq> None
        then map (clear_failures user) (db_users d) else db_users d)\<rparr>"

lemma login_gates_Inl:
  assumes "run_state (login_gates E tenant user session now ctx) w = (Inl out, w')"
  shows "(out = EmailVerificationRequired \<and> \<not> u_email_verified user \<or>
      out = PasswordChangeRequired (as_id session) \<and> u_must_change_password user \<or>
      out = MfaRequired (as_id session) \<and> confirmed_totp (db w) (u_id user) \<or>
      refused out)"
  using assms
  by (auto simp: login_gates_def run_rules dest!: user_has_confirmed_totp_Inr)

lemma login_authenticate_Inr:
  assumes "run_state (login_authenticate E C tenant cmd ctx) w = (Inr (now, session, user), w')"
  shows "now = clock_src w (ticks w) \<and> password_ok E C w tenant cmd ctx now session user \<and>
     gates_open (db w) user \<and> db w' = after_password user (db w)"
  using assms unfolding login_authenticate_def
  by (clarsimp simp: run_rules dest!: cookie_session_Inr login_rate_Inr login_user_Inr login_password_Inr
        login_gates_Inr)
     (auto simp: password_ok_def after_password_def gates_open_def confirmed_totp_def)

text \<open>A gate that stops the login, and when.\<close>

definition gate_stop :: "database \<Rightarrow> auth_session \<Rightarrow> user \<Rightarrow> login_outcome \<Rightarrow> bool" where
  "gate_stop d session user out \<longleftrightarrow>
     out = EmailVerificationRequired \<and> \<not> u_email_verified user \<or>
     out = PasswordChangeRequired (as_id session) \<and> u_must_change_password user \<or>
     out = MfaRequired (as_id session) \<and> confirmed_totp d (u_id user)"

lemma login_authenticate_Inl:
  assumes "run_state (login_authenticate E C tenant cmd ctx) w = (Inl out, w')"
  shows "refused out \<or> (\<exists>session user. gate_stop (db w) session user out \<and>
     password_ok E C w tenant cmd ctx (clock_src w (ticks w)) session user)"
proof -
  let ?now = "clock_src w (ticks w)"
  have "refused out \<or> (\<exists>sid session user w1 w2 w3 w4.
      run_state (cookie_session E tenant (lc_auth_session_id cmd) ?now) (tick w) = (Inr (sid, session), w1) \<and>
      lc_csrf_token cmd = login_csrf_token E (as_id session) (csrf_secret C) \<and>
      run_state (login_rate C tenant session ?now ctx) w1 = (Inr (), w2) \<and>
      run_state (login_user E tenant session cmd ?now ctx) w2 = (Inr user, w3) \<and>
      run_state (login_password E tenant user session cmd ctx) w3 = (Inr (), w4) \<and>
      run_state (login_gates E tenant user session ?now ctx) w4 = (Inl out, w'))"
    using assms unfolding login_authenticate_def
    by (clarsimp simp: run_rules) (fastforce dest: login_refusals login_password_Inl)
  then show ?thesis
    by (clarsimp dest!: cookie_session_Inr login_rate_Inr login_user_Inr login_password_Inr login_gates_Inl)
       (fastforce simp: password_ok_def gate_stop_def confirmed_totp_def)
qed

lemma frame_cookie_session:
  assumes "\<And>d x. T (d\<lparr>db_auth_sessions := x\<rparr>) = T d"
  shows "always (frame T) (live_session E tenant i now)" "always (frame T) (cookie_session E tenant c now)"
  unfolding cookie_session_def live_session_def
  by (intro frame.always_rules frame_ops frame_auth_sessions assms)+

lemma frame_login_authenticate:
  assumes "\<And>d x. T (d\<lparr>db_auth_sessions := x\<rparr>) = T d" "\<And>d x. T (d\<lparr>db_users := x\<rparr>) = T d"
    "\<And>d x. T (d\<lparr>db_audit_log := x\<rparr>) = T d"
  shows "always (frame T) (login_authenticate E C tenant cmd ctx)"
  unfolding login_authenticate_def login_rate_def login_user_def login_password_def login_gates_def
    handle_password_failure_def user_has_confirmed_totp_def update_wrappers
  by (intro frame.always_rules frame_ops frame_auth_sessions frame_users frame_audit
       frame_cookie_session frame_check_and_record assms)

lemma run_login:
  assumes "run_state (login E C tenant cmd ctx) w = (out, w')"
  obtains (stopped) o' where "out = Return o'"
      "run_state (login_authenticate E C tenant cmd ctx) w = (Inl o', w')"
  | (failed) now session user w1 o' where "out = Return o'"
      "run_state (login_authenticate E C tenant cmd ctx) w = (Inr (now, session, user), w1)"
      "run_state (login_complete E C tenant user session now ctx) w1 = (Inl o', w')"
  | (completed) now session user w1 where
      "run_state (login_authenticate E C tenant cmd ctx) w = (Inr (now, session, user), w1)"
      "run_state (login_complete E C tenant user session now ctx) w1 = (Inr out, w')"
proof -
  from assms obtain r where r: "run_state (and_then (login_authenticate E C tenant cmd ctx)
      (\<lambda>(now, session, user). login_complete E C tenant user session now ctx)) w = (r, w')"
    "out = (case r of Inl o' \<Rightarrow> Return o' | Inr o' \<Rightarrow> o')" by (auto simp: login_def run_bindE)
  then show thesis
    by (cases r) (auto simp: run_and_then_Inl run_and_then_Inr run_case_prodE intro: stopped failed completed)
qed

lemma login_complete_Inl:
  "run_state (login_complete E C tenant user session now ctx) w = (Inl o', w') \<Longrightarrow> \<exists>m. o' = LoginInternal m"
  by (auto simp: login_complete_def login_failed_def run_map_err_Inl)

lemma login_complete_Inr:
  assumes "run_state (login_complete E C tenant user session now ctx) w = (Inr (Return out), w')"
  obtains (consent) sso_id row where "out = LoginConsentRequired (as_id session) sso_id"
      "started_sso E C (u_id user) sso_id now row"
      "db_sso_sessions (db w') = db_sso_sessions (db w) @ [row]" "db_codes (db w') = db_codes (db w)"
  | (code) l sso_id row code now' crow where "out = LoginSuccess l sso_id (u_language user)"
      "started_sso E C (u_id user) sso_id now row"
      "db_sso_sessions (db w') = db_sso_sessions (db w) @ [row]"
      "consent_given E (db w) tenant (u_id user) (as_client_id session) (as_scope session)"
      "issued_code E C (session_code_command tenant (u_id user) session now) code now' crow"
      "url_append E (as_redirect_uri session) [(''code'', code), (''state'', as_state session)] = Some l"
      "db_codes (db w') = db_codes (db w) @ [crow]"
proof -
  from assms obtain sso_id w1 w2 fin where
      s: "run_state (start_sso E C tenant (u_id user) (as_client_id session) now ctx) w = (Inr sso_id, w1)"
    and a: "run_state (auth_sessions_set_authenticated_user E (as_id session) (u_id user) now) w1 = (Inr (), w2)"
    and f: "run_state (finish_flow E C tenant (u_id user) session now ctx) w2 = (Inr fin, w')"
    and out: "(case fin of None \<Rightarrow> Return (LoginConsentRequired (as_id session) sso_id)
        | Some location \<Rightarrow> map_outcome (\<lambda>l. LoginSuccess l sso_id (u_language user)) location) = Return out"
    by (auto simp: login_complete_def run_map_err_Inr run_and_then_Inr run_returnE)
  from start_sso_Inr [OF s] obtain row where row: "started_sso E C (u_id user) sso_id now row"
    "tables (db w1) = tables ((db w)\<lparr>db_sso_sessions := db_sso_sessions (db w) @ [row]\<rparr>)" by blast
  from a have w2: "db_sso_sessions (db w2) = db_sso_sessions (db w1)" "db_codes (db w2) = db_codes (db w1)"
    "db_consents (db w2) = db_consents (db w1)"
    by (auto simp: auth_sessions_set_authenticated_user_def update_auth_session_def run_rules)
  show thesis
  proof (cases fin)
    case None
    with f row w2 out finish_flow_None show thesis
      by (intro consent [of sso_id row]) (auto simp: tables_eq_iff)
  next
    case (Some loc)
    with finish_flow_Some [of E C tenant "u_id user" session now ctx w2 loc w'] f obtain now' code crow rows where
      c: "consent_given E (db w2) tenant (u_id user) (as_client_id session) (as_scope session)"
      "issued_code E C (session_code_command tenant (u_id user) session now) code now' crow"
      "loc = code_redirect E (as_redirect_uri session) code (as_state session)"
      "tables (db w') = tables ((db w2)\<lparr>db_codes := db_codes (db w2) @ [crow], db_auth_sessions := rows\<rparr>)"
      by auto
    with out Some row w2 show thesis
      by (auto intro!: code [of _ sso_id row code now' crow]
          simp: tables_eq_iff map_outcome_Return code_redirect_Return consent_given_def)
  qed
qed

section \<open>Wrong passwords\<close>

definition login_name :: "libs \<Rightarrow> database \<Rightarrow> tenant_id \<Rightarrow> string \<Rightarrow> user option" where
  "login_name E d tenant name = find (\<lambda>u. u_tenant_id u = tenant \<and> has_username E name u) (db_users d)"

lemma handle_password_failure_Invalid:
  assumes "run_state (handle_password_failure tenant user cid ctx) w = (InvalidCredentials, w')"
  shows "i32 (u_failed_login_count user + 1) < max_failed_logins \<and>
     db_users (db w') = update_where (\<lambda>u. u_id u = u_id user)
       (\<lambda>u. u\<lparr>u_failed_login_count := i32 (u_failed_login_count user + 1), u_locked_until := None\<rparr>)
       (db_users (db w))"
  using assms
  by (auto simp: handle_password_failure_def users_update_login_state_def update_user_def Let_def run_rules
      login_failed_def tables_eq_iff dest!: run_audit split: if_splits)

lemma login_user_Invalid:
  assumes "run_state (login_user E tenant session cmd now ctx) w = (Inl InvalidCredentials, w')"
  shows "\<forall>u. login_name E (db w) tenant (lc_username cmd) = Some u \<longrightarrow> \<not> user_is_active u"
  using assms
  by (auto simp: login_user_def users_find_by_username_def login_name_def run_rules login_failed_def)

lemma login_authenticate_Invalid:
  assumes "run_state (login_authenticate E C tenant cmd ctx) w = (Inl InvalidCredentials, w')"
    and "login_name E (db w) tenant (lc_username cmd) = Some user" and "user_is_active user"
  shows "\<exists>cid w1. db w1 = db w \<and>
     run_state (handle_password_failure tenant user cid ctx) w1 = (InvalidCredentials, w')"
proof -
  have stop: "login_stop x \<noteq> InvalidCredentials" for x
    by (cases x) (simp_all add: login_stop_def login_failed_def)
  have gates: "run_state (login_gates E t u s n c) v \<noteq> (Inl InvalidCredentials, v')" for t u s n c v v'
    by (auto simp: login_gates_def run_rules login_failed_def)
  have rate: "run_state (login_rate C t s n c) v \<noteq> (Inl InvalidCredentials, v')" for t s n c v v'
    by (auto simp: login_rate_def run_rules)
  from assms(1) obtain sid session w1 w2 u where
      c: "run_state (cookie_session E tenant (lc_auth_session_id cmd) (clock_src w (ticks w))) (tick w) =
        (Inr (sid, session), w1)"
    and r: "run_state (login_rate C tenant session (clock_src w (ticks w)) ctx) w1 = (Inr (), w2)"
    and u: "run_state (login_user E tenant session cmd (clock_src w (ticks w)) ctx) w2 = (Inl InvalidCredentials, w') \<or>
      (\<exists>w3. run_state (login_user E tenant session cmd (clock_src w (ticks w)) ctx) w2 = (Inr u, w3) \<and>
         run_state (login_password E tenant u session cmd ctx) w3 = (Inl InvalidCredentials, w'))"
    unfolding login_authenticate_def by (auto simp: run_rules stop stop [symmetric] gates rate)
  have w2: "db w2 = db w" using cookie_session_Inr [OF c] login_rate_Inr [OF r] by simp
  from u assms(2,3) w2 obtain w3 where
      "run_state (login_user E tenant session cmd (clock_src w (ticks w)) ctx) w2 = (Inr u, w3)"
    and p: "run_state (login_password E tenant u session cmd ctx) w3 = (Inl InvalidCredentials, w')"
    by (auto dest!: login_user_Invalid)
  then have "u = user" "db w3 = db w"
    using assms(2) w2 by (auto dest!: login_user_Inr simp: login_name_def)
  moreover have "run_state (handle_password_failure tenant u (as_client_id session) ctx) w3 = (InvalidCredentials, w')"
    using p by (auto simp: login_password_def run_rules login_failed_def)
  ultimately show ?thesis by blast
qed

lemma login_InvalidD:
  assumes "run_state (login E C tenant cmd ctx) w = (Return InvalidCredentials, w')"
  shows "run_state (login_authenticate E C tenant cmd ctx) w = (Inl InvalidCredentials, w')"
  using assms
proof (cases rule: run_login)
  case completed
  from completed(2) show ?thesis by (cases rule: login_complete_Inr) simp_all
qed (auto dest: login_complete_Inl)

lemma frame_login_user:
  assumes "\<And>d x. T (d\<lparr>db_audit_log := x\<rparr>) = T d"
  shows "always (frame T) (login_rate C tenant session now ctx)"
    "always (frame T) (login_user E tenant session cmd now ctx)"
  unfolding login_rate_def login_user_def
  by (intro frame.always_rules frame_ops frame_audit frame_check_and_record assms)+

lemma login_authenticate_locked:
  assumes "run_state (login_authenticate E C tenant cmd ctx) w = (Inl out, w')"
    and "login_name E (db w) tenant (lc_username cmd) = Some user"
    and "user_is_locked_at user (clock_src w (ticks w))"
  shows "out \<noteq> InvalidCredentials \<and> db_users (db w') = db_users (db w)"
proof -
  let ?now = "clock_src w (ticks w)"
  note F = frame_cookie_session [of db_users, THEN alwaysD] frame_login_user [of db_users, THEN alwaysD]
  have stop: "login_stop e \<noteq> InvalidCredentials" for e
    by (cases e) (simp_all add: login_stop_def login_failed_def)
  have rate: "run_state (login_rate C t s n c) v \<noteq> (Inl InvalidCredentials, v')" for t s n c v v'
    by (auto simp: login_rate_def run_rules)
  have user: "out \<noteq> InvalidCredentials"
    if "run_state (login_user E tenant s cmd ?now ctx) v = (Inl out, v')" and "db v = db w" for s v v'
    using that assms(2,3)
    by (auto simp: login_user_def users_find_by_username_def login_name_def run_rules login_failed_def)
  have user': "run_state (login_user E tenant s cmd ?now ctx) v \<noteq> (Inr u, v')" if "db v = db w" for s v v' u
    using that assms(2,3) by (auto simp: login_name_def dest!: login_user_Inr)
  have "(\<exists>e. run_state (cookie_session E tenant (lc_auth_session_id cmd) ?now) (tick w) = (Inl e, w') \<and> out = login_stop e) \<or>
    (\<exists>sid s w1. run_state (cookie_session E tenant (lc_auth_session_id cmd) ?now) (tick w) = (Inr (sid, s), w1) \<and>
      (out = LoginCsrfMismatch \<and> w' = w1 \<or> run_state (login_rate C tenant s ?now ctx) w1 = (Inl out, w') \<or>
       (\<exists>w2. run_state (login_rate C tenant s ?now ctx) w1 = (Inr (), w2) \<and>
          (run_state (login_user E tenant s cmd ?now ctx) w2 = (Inl out, w') \<or>
           (\<exists>u w3. run_state (login_user E tenant s cmd ?now ctx) w2 = (Inr u, w3))))))"
    using assms(1) unfolding login_authenticate_def
    by (clarsimp simp: run_bindE run_clock_now run_and_then_Inl run_map_err_Inl run_map_err_Inr run_require_Inl
        run_require_Inr run_case_prodE) blast
  then show ?thesis
  proof (elim disjE exE conjE)
    fix e assume "run_state (cookie_session E tenant (lc_auth_session_id cmd) ?now) (tick w) = (Inl e, w')" "out = login_stop e"
    then show ?thesis using stop F(2) by (fastforce simp: frame_def)
  next
    fix sid s w1 assume c: "run_state (cookie_session E tenant (lc_auth_session_id cmd) ?now) (tick w) = (Inr (sid, s), w1)"
    then have w1: "db w1 = db w" by (auto dest: cookie_session_Inr)
    { assume "out = LoginCsrfMismatch" "w' = w1" then show ?thesis using w1 by simp }
    { assume "run_state (login_rate C tenant s ?now ctx) w1 = (Inl out, w')"
      then show ?thesis using w1 rate F(3) by (fastforce simp: frame_def) }
    fix w2 assume "run_state (login_rate C tenant s ?now ctx) w1 = (Inr (), w2)"
    then have w2: "db w2 = db w" using w1 by (auto dest: login_rate_Inr)
    { assume "run_state (login_user E tenant s cmd ?now ctx) w2 = (Inl out, w')"
      then show ?thesis using w2 user F(4) by (fastforce simp: frame_def) }
    { fix u w3 assume "run_state (login_user E tenant s cmd ?now ctx) w2 = (Inr u, w3)"
      then show ?thesis using user' [OF w2] by blast }
  qed
qed

text \<open>One login under a name that is answered with \<open>InvalidCredentials\<close>.\<close>

definition wrong_login :: "libs \<Rightarrow> config \<Rightarrow> tenant_id \<Rightarrow> string \<Rightarrow> world \<Rightarrow> world \<Rightarrow> bool" where
  "wrong_login E C tenant name w w' \<longleftrightarrow> (\<exists>cmd ctx. lc_username cmd = name \<and>
     run_state (login E C tenant cmd ctx) w = (Return InvalidCredentials, w'))"

lemma wrong_login_counts:
  assumes "wrong_login E C tenant name w w'"
    and "login_name E (db w) tenant name = Some user" and "user_is_active user"
    and "0 \<le> u_failed_login_count user" and "u_failed_login_count user < 2 ^ 31 - 1"
  shows "u_failed_login_count user + 1 < max_failed_logins \<and>
     login_name E (db w') tenant name =
       Some (user\<lparr>u_failed_login_count := u_failed_login_count user + 1, u_locked_until := None\<rparr>)"
proof -
  from assms(1) obtain cmd ctx where c: "lc_username cmd = name"
    "run_state (login E C tenant cmd ctx) w = (Return InvalidCredentials, w')"
    by (auto simp: wrong_login_def)
  from login_authenticate_Invalid [OF login_InvalidD [OF c(2)]] assms(2,3) c(1) obtain cid w1 where
    w1: "db w1 = db w"
    "run_state (handle_password_failure tenant user cid ctx) w1 = (InvalidCredentials, w')"
    by blast
  have "i32 (u_failed_login_count user + 1) = u_failed_login_count user + 1"
    using assms(4,5) by (intro i32_id) auto
  with handle_password_failure_Invalid [OF w1(2)] w1(1) assms(2) show ?thesis
    by (simp add: login_name_def find_update_where has_username_def)
qed

lemma wrong_logins_bounded:
  assumes "(wrong_login E C tenant name ^^ n) w w'"
    and "login_name E (db w) tenant name = Some user" and "user_is_active user"
    and "0 \<le> u_failed_login_count user" and "u_failed_login_count user < 2 ^ 31 - 1"
  shows "n = 0 \<or> u_failed_login_count user + int n < max_failed_logins"
  using assms
proof (induction n arbitrary: w user)
  case (Suc n)
  from Suc.prems(1) obtain w1 where w1: "wrong_login E C tenant name w w1"
    "(wrong_login E C tenant name ^^ n) w1 w'" by (blast dest: relpowp_Suc_D2)
  from wrong_login_counts [OF w1(1) Suc.prems(2-5)] Suc.IH [OF w1(2)] Suc.prems(3,4)
  show ?case by (fastforce simp: max_failed_logins_def user_is_active_def)
qed simp

section \<open>Properties\<close>

text \<open>
  C5. A login that ends with an SSO cookie, with or without a code, had a live authorization session of the
  tenant, the right CSRF token, an attempt left in the rate-limit window, and named by its user name
  an active, unlocked user of that tenant whose password it gave, whose email is verified, who need
  not change the password and who has no second factor. The one SSO session it adds is that user's,
  with the deadlines of the configuration. A code is issued only with consent to the session's
  scopes, is bound to the session's client, redirect URI, scope, nonce and challenge, and goes to
  the session's redirect URI.
\<close>

theorem login_success_sound:
  assumes "run_state (login E C tenant cmd ctx) w = (Return out, w')"
    and "out = LoginSuccess location sso_id lang \<or> out = LoginConsentRequired sid sso_id"
  shows "\<exists>session user now row.
     password_ok E C w tenant cmd ctx now session user \<and> gates_open (db w) user \<and>
     db_sso_sessions (db w') = db_sso_sessions (db w) @ [row] \<and>
     ss_session_hash row = sha256_hex E sso_id \<and> ss_user_id row = u_id user \<and>
     ss_auth_time row = micros now \<and> ss_idle_expires_at row = micros (now + sso_idle_ttl C) \<and>
     ss_absolute_expires_at row = micros (now + sso_absolute_ttl C) \<and>
     (out = LoginConsentRequired sid sso_id \<longrightarrow> sid = as_id session \<and> db_codes (db w') = db_codes (db w)) \<and>
     (out = LoginSuccess location sso_id lang \<longrightarrow> lang = u_language user \<and>
        consent_given E (db w) tenant (u_id user) (as_client_id session) (as_scope session) \<and>
        (\<exists>code now' crow. db_codes (db w') = db_codes (db w) @ [crow] \<and>
           issued_code E C (session_code_command tenant (u_id user) session now) code now' crow \<and>
           url_append E (as_redirect_uri session) [(''code'', code), (''state'', as_state session)] = Some location))"
proof -
  have no_auth: "run_state (login_authenticate E C tenant cmd ctx) w \<noteq> (Inl out, w')"
    using assms(2) by (auto dest!: login_authenticate_Inl simp: gate_stop_def)
  have no_fail: "run_state (login_complete E C tenant user session now ctx) v \<noteq> (Inl out, w')" for user session now v
    using assms(2) by (auto simp: login_complete_def run_map_err_Inl login_failed_def)
  from assms(1) no_auth no_fail obtain now session user w1 where
      a: "run_state (login_authenticate E C tenant cmd ctx) w = (Inr (now, session, user), w1)"
    and c: "run_state (login_complete E C tenant user session now ctx) w1 = (Inr (Return out), w')"
    by (cases rule: run_login) auto
  from login_authenticate_Inr [OF a]
  have ok: "password_ok E C w tenant cmd ctx now session user" "gates_open (db w) user"
      "db_sso_sessions (db w1) = db_sso_sessions (db w)" "db_codes (db w1) = db_codes (db w)"
      "consent_given E (db w1) = consent_given E (db w)"
    by (auto simp: after_password_def consent_given_def fun_eq_iff)
  show ?thesis
    using c
  proof (cases rule: login_complete_Inr)
    case (consent sso_id' row)
    with assms(2) ok show ?thesis
      by (intro exI [of _ session] exI [of _ user] exI [of _ now] exI [of _ row])
         (auto simp: started_sso_def)
  next
    case (code l sso_id' row c now' crow)
    with assms(2) ok show ?thesis
      by (intro exI [of _ session] exI [of _ user] exI [of _ now] exI [of _ row])
         (auto simp: started_sso_def)
  qed
qed

definition sample_login :: login_command where
  "sample_login =
     \<lparr>lc_auth_session_id = Some ''sess'', lc_username = ''alice'', lc_password = ''secret'',
      lc_csrf_token = login_csrf_token sample_libs ''sess'' (csrf_secret sample_config)\<rparr>"

lemma sample_login_run:
  "fst (run_state (login sample_libs sample_config 1 sample_login sample_ctx) sample_world) =
   Return (LoginSuccess ''https://app/cb?code=1rrrrrrrrrrrrrrrrrrrrrrrrrrrrrrrr&state=st''
     ''0rrrrrrrrrrrrrrrrrrrrrrrrrrrrrrrr'' None)"
  by code_simp

theorem login_success_sound_witness:
  "\<exists>session user now.
     password_ok sample_libs sample_config sample_world 1 sample_login sample_ctx now session user \<and>
     gates_open (db sample_world) user"
  using login_success_sound [OF run_fstI [OF sample_login_run]] by blast

text \<open>
  C4. A user whose email is not verified, who must change the password, or who has a confirmed second
  factor never gets an SSO session or a code from the login service, whatever password is given and
  whatever fails; only the answer to the right password says which of the three it is.
\<close>

theorem login_gated:
  assumes "run_state (login E C tenant cmd ctx) w = (out, w')"
    and "login_name E (db w) tenant (lc_username cmd) = Some user"
    and "\<not> gates_open (db w) user"
  shows "db_sso_sessions (db w') = db_sso_sessions (db w) \<and> db_codes (db w') = db_codes (db w) \<and>
    (out \<in> {Return EmailVerificationRequired, Return (PasswordChangeRequired i), Return (MfaRequired i)} \<longrightarrow>
       hasher_verify E (lc_password cmd) (u_password_hash user) = Inr True)"
proof -
  have "\<not> run_state (login_authenticate E C tenant cmd ctx) w = (Inr (now, session, u), v)" for now session u v
    using assms(2,3) by (auto dest!: login_authenticate_Inr simp: password_ok_def login_name_def)
  with assms(1) obtain o' where o: "out = Return o'"
    "run_state (login_authenticate E C tenant cmd ctx) w = (Inl o', w')" by (cases rule: run_login) auto
  have "frame (\<lambda>d. (db_sso_sessions d, db_codes d)) w w'"
    by (rule alwaysD [OF frame_login_authenticate o(2)]) simp_all
  moreover have "hasher_verify E (lc_password cmd) (u_password_hash user) = Inr True"
    if "out \<in> {Return EmailVerificationRequired, Return (PasswordChangeRequired i), Return (MfaRequired i)}"
    using login_authenticate_Inl [OF o(2)] that o(1) assms(2) by (auto simp: password_ok_def login_name_def)
  ultimately show ?thesis by (simp add: frame_def)
qed

definition sample_mfa_world :: world where
  "sample_mfa_world = sample_world\<lparr>db := sample_db\<lparr>db_totp_secrets :=
     [\<lparr>ts_user_id = 2, ts_secret_encrypted = ''12345678901201234567890123456789'',
       ts_confirmed_at = Some 5, ts_created_at = 0, ts_updated_at = 0\<rparr>]\<rparr>\<rparr>"

theorem login_gated_witness:
  "fst (run_state (login sample_libs sample_config 1 sample_login sample_ctx) sample_mfa_world) =
     Return (MfaRequired ''sess'') \<and>
   db_codes (db (snd (run_state (login sample_libs sample_config 1 sample_login sample_ctx) sample_mfa_world))) =
     db_codes (db sample_mfa_world)"
proof -
  let ?run = "run_state (login sample_libs sample_config 1 sample_login sample_ctx) sample_mfa_world"
  have "fst ?run = Return (MfaRequired ''sess'')" by code_simp
  moreover have "login_name sample_libs (db sample_mfa_world) 1 (lc_username sample_login) = Some sample_user"
    by code_simp
  moreover have "\<not> gates_open (db sample_mfa_world) sample_user" by code_simp
  ultimately show ?thesis using login_gated [OF prod.collapse [symmetric]] by blast
qed

text \<open>
  C27. Lockout: of logins in a row under the name of an active user, fewer than \<open>MAX_FAILED_LOGINS\<close> counted
  from the stored failure count are answered with \<open>InvalidCredentials\<close>; the next wrong password locks
  the account. (The count is a 32-bit integer; the bound on it excludes its overflow.)
\<close>

theorem login_lockout_bound:
  assumes "(wrong_login E C tenant name ^^ n) w w'"
    and "login_name E (db w) tenant name = Some user" and "user_is_active user"
    and "0 \<le> u_failed_login_count user" and "u_failed_login_count user < 2 ^ 31 - 1"
  shows "int n \<le> max 0 (max_failed_logins - 1 - u_failed_login_count user)"
  using wrong_logins_bounded [OF assms] by auto

theorem login_lockout_bound_witness:
  "\<exists>w'. (wrong_login sample_libs sample_config 1 ''alice'' ^^ 1) sample_world w' \<and>
     int 1 \<le> max 0 (max_failed_logins - 1 - u_failed_login_count sample_user)"
proof -
  let ?cmd = "sample_login\<lparr>lc_password := ''x''\<rparr>"
  have run: "fst (run_state (login sample_libs sample_config 1 ?cmd sample_ctx) sample_world) =
    Return InvalidCredentials" by code_simp
  have "lc_username ?cmd = ''alice''" by (simp add: sample_login_def)
  then obtain w' where "wrong_login sample_libs sample_config 1 ''alice'' sample_world w'"
    unfolding wrong_login_def using run_fstI [OF run] by blast
  then have w': "(wrong_login sample_libs sample_config 1 ''alice'' ^^ 1) sample_world w'" by (simp add: eq_OO)
  have "login_name sample_libs (db sample_world) 1 ''alice'' = Some sample_user" "user_is_active sample_user"
    by code_simp+
  from login_lockout_bound [OF w' this] w' show ?thesis by (auto simp: sample_user_def)
qed

text \<open>
  While an account is locked, no login under its name succeeds, with the right password or without: the
  answer is a refusal, and the accounts, the SSO sessions and the codes stay as they are.
\<close>

theorem login_locked_out:
  assumes "run_state (login E C tenant cmd ctx) w = (out, w')"
    and "login_name E (db w) tenant (lc_username cmd) = Some user"
    and "user_is_locked_at user (clock_src w (ticks w))"
  shows "(\<exists>o'. out = Return o' \<and> refused o' \<and> o' \<noteq> InvalidCredentials) \<and> db_users (db w') = db_users (db w) \<and>
     db_sso_sessions (db w') = db_sso_sessions (db w) \<and> db_codes (db w') = db_codes (db w)"
proof -
  have "\<not> run_state (login_authenticate E C tenant cmd ctx) w = (Inr (now, session, u), v)" for now session u v
    using assms(2,3) by (auto dest!: login_authenticate_Inr simp: password_ok_def login_name_def)
  with assms(1) obtain o' where o: "out = Return o'"
    "run_state (login_authenticate E C tenant cmd ctx) w = (Inl o', w')" by (cases rule: run_login) auto
  have "frame (\<lambda>d. (db_sso_sessions d, db_codes d)) w w'"
    by (rule alwaysD [OF frame_login_authenticate o(2)]) simp_all
  moreover have "refused o'"
    using login_authenticate_Inl [OF o(2)] assms(2,3) by (auto simp: password_ok_def login_name_def)
  ultimately show ?thesis
    using login_authenticate_locked [OF o(2) assms(2,3)] o(1) by (simp add: frame_def)
qed

definition sample_locked_world :: world where
  "sample_locked_world = sample_world\<lparr>db := sample_db\<lparr>db_users :=
     [sample_user\<lparr>u_failed_login_count := 10, u_locked_until := Some (seconds 1500)\<rparr>]\<rparr>\<rparr>"

theorem login_locked_out_witness:
  "fst (run_state (login sample_libs sample_config 1 sample_login sample_ctx) sample_locked_world) =
     Return LoginLockedOut \<and>
   db_codes (db (snd (run_state (login sample_libs sample_config 1 sample_login sample_ctx) sample_locked_world))) =
     db_codes (db sample_locked_world)"
proof -
  let ?run = "run_state (login sample_libs sample_config 1 sample_login sample_ctx) sample_locked_world"
  have "fst ?run = Return LoginLockedOut" by code_simp
  moreover have "login_name sample_libs (db sample_locked_world) 1 (lc_username sample_login) =
      Some (sample_user\<lparr>u_failed_login_count := 10, u_locked_until := Some (seconds 1500)\<rparr>)"
    by code_simp
  moreover have "user_is_locked_at (sample_user\<lparr>u_failed_login_count := 10, u_locked_until := Some (seconds 1500)\<rparr>)
      (clock_src sample_locked_world (ticks sample_locked_world))" by code_simp
  ultimately show ?thesis using login_locked_out [OF prod.collapse [symmetric]] by blast
qed

end
