(* ===== verification/Totp.thy ===== *)
theory Totp
  imports Login
begin

text \<open>
  Self-service registration of a second factor, \<^verbatim>\<open>application/totp_registration.rs\<close>: \<open>setup\<close> stores a new
  secret that is not active yet, \<open>confirm\<close> activates it on proof of a code, \<open>delete\<close> switches the second
  factor off. Each works for the user of the SSO session the cookie names.
\<close>

section \<open>Model\<close>

datatype totp_registration_error =
    TotpAlreadyConfigured
  | TotpInvalidCode
  | TotpNotFound
  | TotpSessionExpired
  | TotpInternal string

fun totp_error_to_string :: "totp_registration_error \<Rightarrow> string" where
  "totp_error_to_string TotpAlreadyConfigured = ''totp already configured and confirmed''"
| "totp_error_to_string TotpInvalidCode = ''invalid totp code''"
| "totp_error_to_string TotpNotFound = ''no pending totp setup found''"
| "totp_error_to_string TotpSessionExpired = ''sso session expired or not found''"
| "totp_error_to_string (TotpInternal m) = ''internal error: '' @ m"

definition totp_from_domain :: "domain_error \<Rightarrow> totp_registration_error" where
  "totp_from_domain e = TotpInternal (domain_error_to_string e)"

definition secret_bytes_len :: nat where
  "secret_bytes_len = 20"

definition generate_secret :: "(world, string) state" where
  "generate_secret = random_bytes secret_bytes_len"

text \<open>The crate reads the system clock to check the code.\<close>

definition verify_totp_code ::
  "libs \<Rightarrow> string \<Rightarrow> string \<Rightarrow> (world, totp_registration_error + bool) state" where
  "verify_totp_code E secret_bytes code =
     (case totp_error E secret_bytes of
        Some e \<Rightarrow> State_Monad.return (Inl (TotpInternal (''failed to build TOTP: '' @ e)))
      | None \<Rightarrow> do {
          now \<leftarrow> clock_now;
          State_Monad.return (case totp_check E secret_bytes code now of
            Inl e \<Rightarrow> Inl (TotpInternal (''TOTP check failed: '' @ e))
          | Inr v \<Rightarrow> Inr v)
        })"

definition build_totp_uri ::
  "libs \<Rightarrow> string \<Rightarrow> string \<Rightarrow> string \<Rightarrow> totp_registration_error + string" where
  "build_totp_uri E secret_bytes account_name issuer =
     (case totp_url E secret_bytes account_name issuer of
        Inl e \<Rightarrow> Inl (TotpInternal (''failed to build TOTP: '' @ e))
      | Inr url \<Rightarrow> Inr url)"

record totp_setup_data =
  tsd_totp_uri :: string
  tsd_secret_base32 :: string

definition totp_resolve_user ::
  "libs \<Rightarrow> string \<Rightarrow> (world, totp_registration_error + uuid) state" where
  "totp_resolve_user E sso_session_id =
     and_then (map_err totp_from_domain (sso_sessions_find_by_hash E (sha256_hex E sso_session_id))) (\<lambda>found.
     case found of
       None \<Rightarrow> State_Monad.return (Inl TotpSessionExpired)
     | Some session \<Rightarrow> do {
         now \<leftarrow> clock_now;
         if ss_idle_expires_at session \<le> now \<or> ss_absolute_expires_at session \<le> now
         then State_Monad.return (Inl TotpSessionExpired)
         else State_Monad.return (Inr (ss_user_id session))
       })"

definition totp_setup ::
  "libs \<Rightarrow> config \<Rightarrow> string \<Rightarrow> string \<Rightarrow> string \<Rightarrow>
   (world, totp_registration_error + totp_setup_data) state" where
  "totp_setup E C issuer sso_session_id account_name =
     and_then (totp_resolve_user E sso_session_id) (\<lambda>user_id.
     and_then (map_err totp_from_domain (totp_secrets_find_by_user_id user_id)) (\<lambda>existing.
     and_then (require (\<not> (case existing of Some s \<Rightarrow> totp_is_confirmed s | None \<Rightarrow> False))
                 TotpAlreadyConfigured) (\<lambda>_. do {
     secret_bytes \<leftarrow> generate_secret;
     and_then (State_Monad.return (build_totp_uri E secret_bytes account_name issuer)) (\<lambda>totp_uri.
     and_then (map_err TotpInternal (encrypt_text E secret_bytes (key_encryption_key C))) (\<lambda>secret_encrypted. do {
     now \<leftarrow> clock_now;
     and_then (map_err totp_from_domain (totp_secrets_upsert
       \<lparr>ts_user_id = user_id, ts_secret_encrypted = secret_encrypted, ts_confirmed_at = None,
        ts_created_at = now, ts_updated_at = now\<rparr>)) (\<lambda>_.
     State_Monad.return (Inr \<lparr>tsd_totp_uri = totp_uri, tsd_secret_base32 = base32 E secret_bytes\<rparr>)) })) })))"

definition totp_confirm ::
  "libs \<Rightarrow> config \<Rightarrow> string \<Rightarrow> string \<Rightarrow> (world, totp_registration_error + unit) state" where
  "totp_confirm E C sso_session_id code =
     and_then (totp_resolve_user E sso_session_id) (\<lambda>user_id.
     and_then (map_err totp_from_domain (totp_secrets_find_by_user_id user_id)) (\<lambda>found.
     case found of
       None \<Rightarrow> State_Monad.return (Inl TotpNotFound)
     | Some record \<Rightarrow>
         and_then (require (\<not> totp_is_confirmed record) TotpAlreadyConfigured) (\<lambda>_.
         case decrypt_text E (ts_secret_encrypted record) (key_encryption_key C) of
           Inl e \<Rightarrow> State_Monad.return (Inl (TotpInternal e))
         | Inr secret_bytes \<Rightarrow>
             and_then (verify_totp_code E secret_bytes code) (\<lambda>valid.
             and_then (require valid TotpInvalidCode) (\<lambda>_. do {
             now \<leftarrow> clock_now;
             map_err totp_from_domain (totp_secrets_confirm user_id now) })))))"

definition totp_delete :: "libs \<Rightarrow> string \<Rightarrow> (world, totp_registration_error + unit) state" where
  "totp_delete E sso_session_id =
     and_then (totp_resolve_user E sso_session_id) (\<lambda>user_id.
     map_err totp_from_domain (totp_secrets_delete user_id))"

section \<open>Reading a run\<close>

text \<open>The code is the user's current one, at the time the crate read.\<close>

definition totp_code_ok :: "libs \<Rightarrow> config \<Rightarrow> totp_secret \<Rightarrow> string \<Rightarrow> instant \<Rightarrow> bool" where
  "totp_code_ok E C s code now \<longleftrightarrow> (\<exists>bytes.
     decrypt_text E (ts_secret_encrypted s) (key_encryption_key C) = Inr bytes \<and>
     totp_error E bytes = None \<and> totp_check E bytes code now = Inr True)"

lemma verify_totp_code_True:
  "run_state (verify_totp_code E b code) w = (Inr True, w') \<Longrightarrow>
   totp_error E b = None \<and> totp_check E b code (clock_src w (ticks w)) = Inr True \<and> w' = tick w"
  by (auto simp: verify_totp_code_def run_rules)

text \<open>The user of a live SSO session.\<close>

definition sso_user :: "libs \<Rightarrow> database \<Rightarrow> string \<Rightarrow> instant \<Rightarrow> uuid \<Rightarrow> bool" where
  "sso_user E d sid now uid \<longleftrightarrow> (\<exists>sso \<in> set (db_sso_sessions d).
     db_eq E (ss_session_hash sso) (sha256_hex E sid) \<and> sso_is_valid_at sso now \<and> uid = ss_user_id sso)"

lemma totp_resolve_user_Inr:
  assumes "run_state (totp_resolve_user E sid) w = (Inr uid, w')"
  shows "sso_user E (db w) sid (clock_src w (Suc (ticks w))) uid \<and> w' = tick (called w)"
  using assms
  by (clarsimp simp: totp_resolve_user_def sso_sessions_find_by_hash_def run_rules dest!: find_SomeD)
     (force simp: sso_user_def sso_is_valid_at_def)

lemma frame_verify_totp_code: "always (frame T) (verify_totp_code E b code)"
  unfolding verify_totp_code_def by (intro frame.always_rules frame_ops)

lemma frame_totp_resolve_user: "always (frame T) (totp_resolve_user E sid)"
  unfolding totp_resolve_user_def by (intro frame.always_rules frame_ops)

lemma frame_totp:
  assumes "\<And>d x. T (d\<lparr>db_totp_secrets := x\<rparr>) = T d"
  shows "always (frame T) (totp_setup E C iss sid a)" "always (frame T) (totp_confirm E C sid code)"
    "always (frame T) (totp_delete E sid)"
  unfolding totp_setup_def totp_confirm_def totp_delete_def generate_secret_def
  by (intro frame.always_rules frame_ops frame_totp_secrets frame_verify_totp_code
       frame_totp_resolve_user assms)+

section \<open>Setup\<close>

lemma find_upsert_totp:
  "find (\<lambda>t. ts_user_id t = uid) (upsert_totp s now rows) =
   (if uid = ts_user_id s
    then Some (case find (\<lambda>t. ts_user_id t = uid) rows of
        Some r \<Rightarrow> r\<lparr>ts_secret_encrypted := ts_secret_encrypted s, ts_confirmed_at := map_option micros (ts_confirmed_at s)\<rparr>
      | None \<Rightarrow> s\<lparr>ts_confirmed_at := map_option micros (ts_confirmed_at s), ts_created_at := micros now, ts_updated_at := micros now\<rparr>)
    else find (\<lambda>t. ts_user_id t = uid) rows)"
proof (cases "list_ex (\<lambda>r. ts_user_id r = ts_user_id s) rows")
  case True
  then obtain r where r: "find (\<lambda>t. ts_user_id t = ts_user_id s) rows = Some r"
    by (cases "find (\<lambda>t. ts_user_id t = ts_user_id s) rows") (auto simp: find_None_iff list_ex_iff)
  have "ts_user_id x \<noteq> ts_user_id s" if "find (\<lambda>t. ts_user_id t = uid) rows = Some x" "uid \<noteq> ts_user_id s" for x
    using find_SomeD [OF that(1)] that(2) by simp
  then show ?thesis
    using True r find_SomeD [OF r]
    by (cases "find (\<lambda>t. ts_user_id t = uid) rows") (auto simp: upsert_totp_def find_update_where)
next
  case False
  then have "find (\<lambda>t. ts_user_id t = ts_user_id s) rows = None" by (auto simp: find_None_iff list_ex_iff)
  with False show ?thesis by (auto simp: upsert_totp_def find_append split: option.splits)
qed

text \<open>The lookup that guards the write found no confirmed secret of that user.\<close>

definition totp_written :: "database \<Rightarrow> totp_secret list \<Rightarrow> bool" where
  "totp_written d rows \<longleftrightarrow> rows = db_totp_secrets d \<or>
     (\<exists>s now. \<not> confirmed_totp d (ts_user_id s) \<and> rows = upsert_totp s now (db_totp_secrets d))"

lemma totp_writtenI:
  "totp_written d (db_totp_secrets d)"
  "\<not> confirmed_totp d (ts_user_id s) \<Longrightarrow> totp_written d (upsert_totp s now (db_totp_secrets d))"
  by (auto simp: totp_written_def)

lemma totp_setup_writes:
  assumes "run_state (totp_setup E C iss sid a) w = (r, w')"
  shows "totp_written (db w) (db_totp_secrets (db w'))"
proof -
  have resolve: "db_totp_secrets (db v') = db_totp_secrets (db v)"
    if "run_state (totp_resolve_user E sid) v = (q, v')" for v v' q
    using alwaysD [OF frame_totp_resolve_user that, of db_totp_secrets] by (simp add: frame_def)
  show ?thesis
    using assms unfolding totp_setup_def generate_secret_def
    by (cases r)
       (auto simp: run_rules totp_secrets_find_by_user_id_def totp_secrets_upsert_def encrypt_text_def
          confirmed_totp_def totp_writtenI(1) dest!: resolve
          intro!: totp_writtenI(2) [unfolded confirmed_totp_def])
qed

section \<open>Properties\<close>

text \<open>
  Setting up a second factor never takes an active one away: after \<open>setup\<close>, whatever it answers, a user
  who had a confirmed secret still has exactly that one.
\<close>

theorem totp_setup_keeps_confirmed:
  assumes "run_state (totp_setup E C issuer sid account) w = (r, w')"
    and "confirmed_totp (db w) uid"
  shows "find (\<lambda>t. ts_user_id t = uid) (db_totp_secrets (db w')) =
         find (\<lambda>t. ts_user_id t = uid) (db_totp_secrets (db w))"
  using totp_setup_writes [OF assms(1)] assms(2) by (auto simp: totp_written_def find_upsert_totp)

theorem totp_setup_keeps_confirmed_witness:
  "fst (run_state (totp_setup sample_libs sample_config ''idp'' ''sso'' ''a'') sample_mfa_world) = Inl TotpAlreadyConfigured \<and>
   find (\<lambda>t. ts_user_id t = 2) (db_totp_secrets (db (snd (run_state
     (totp_setup sample_libs sample_config ''idp'' ''sso'' ''a'') sample_mfa_world)))) =
   find (\<lambda>t. ts_user_id t = 2) (db_totp_secrets (db sample_mfa_world))"
proof -
  have "confirmed_totp (db sample_mfa_world) 2" by code_simp
  from totp_setup_keeps_confirmed [OF prod.collapse [symmetric] this] show ?thesis
    by (intro conjI) (code_simp, blast)
qed

text \<open>
  What \<open>setup\<close> shows the user is what later codes are checked against: the stored row of the session's
  user decrypts to the secret whose base32 form and URI were returned, and is not active yet.
\<close>

theorem totp_setup_stores_secret:
  assumes "codec_ok E" and "\<And>i n. length (bytes_src w i n) = n"
    and "run_state (totp_setup E C issuer sid account) w = (Inr data, w')"
  shows "\<exists>uid now s bytes. sso_user E (db w) sid now uid \<and>
     find (\<lambda>t. ts_user_id t = uid) (db_totp_secrets (db w')) = Some s \<and> \<not> totp_is_confirmed s \<and>
     decrypt_text E (ts_secret_encrypted s) (key_encryption_key C) = Inr bytes \<and>
     tsd_secret_base32 data = base32 E bytes \<and> totp_url E bytes account issuer = Inr (tsd_totp_uri data)"
proof -
  let ?w1 = "called (tick (called w))"
  let ?bytes = "bytes_src ?w1 (draws ?w1) secret_bytes_len"
  from assms(3) obtain uid enc w2 where
      r: "sso_user E (db w) sid (clock_src w (Suc (ticks w))) uid"
    and e: "run_state (encrypt_text E ?bytes (key_encryption_key C)) (draw ?w1) = (Inr enc, w2)"
    and u: "run_state (totp_secrets_upsert \<lparr>ts_user_id = uid, ts_secret_encrypted = enc, ts_confirmed_at = None,
        ts_created_at = clock_src w2 (ticks w2), ts_updated_at = clock_src w2 (ticks w2)\<rparr>) (tick w2) = (Inr (), w')"
    and d: "tsd_secret_base32 data = base32 E ?bytes" "totp_url E ?bytes account issuer = Inr (tsd_totp_uri data)"
    unfolding totp_setup_def generate_secret_def
    by (auto simp: run_rules totp_secrets_find_by_user_id_def build_totp_uri_def dest!: totp_resolve_user_Inr)
  have dec: "decrypt_text E enc (key_encryption_key C) = Inr ?bytes"
    by (rule decrypt_encrypt [OF assms(1) _ e]) (simp add: assms(2))
  from u have "db_totp_secrets (db w') = upsert_totp \<lparr>ts_user_id = uid, ts_secret_encrypted = enc, ts_confirmed_at = None,
      ts_created_at = clock_src w2 (ticks w2), ts_updated_at = clock_src w2 (ticks w2)\<rparr> (clock_src w2 (Suc (ticks w2)))
      (db_totp_secrets (db w2))" by (simp add: totp_secrets_upsert_def run_rules)
  then obtain s where "find (\<lambda>t. ts_user_id t = uid) (db_totp_secrets (db w')) = Some s"
    "ts_secret_encrypted s = enc" "ts_confirmed_at s = None"
    by (auto simp: find_upsert_totp split: option.splits)
  with dec d r show ?thesis
    by (intro exI [of _ uid] exI [of _ "clock_src w (Suc (ticks w))"] exI [of _ s] exI [of _ ?bytes])
       (simp add: totp_is_confirmed_def)
qed

theorem totp_setup_stores_secret_witness:
  "\<exists>data uid now (s :: totp_secret) bytes.
     fst (run_state (totp_setup sample_libs sample_config ''idp'' ''sso'' ''a'') (sample_world\<lparr>bytes_src := \<lambda>i n. replicate n CHR ''r''\<rparr>)) = Inr data \<and>
     sso_user sample_libs (db sample_world) ''sso'' now uid \<and>
     decrypt_text sample_libs (ts_secret_encrypted s) (key_encryption_key sample_config) = Inr bytes \<and>
     tsd_secret_base32 data = base32 sample_libs bytes"
proof -
  let ?w = "sample_world\<lparr>bytes_src := \<lambda>i n. replicate n CHR ''r''\<rparr>"
  have "\<not> isl (fst (run_state (totp_setup sample_libs sample_config ''idp'' ''sso'' ''a'') ?w))" by code_simp
  then obtain data w' where run: "run_state (totp_setup sample_libs sample_config ''idp'' ''sso'' ''a'') ?w = (Inr data, w')"
    by (blast dest: run_InrI)
  have codec: "codec_ok sample_libs" by (simp add: codec_ok_def sample_libs_def)
  have len: "length (bytes_src ?w i n) = n" for i n by simp
  from totp_setup_stores_secret [OF codec len run] obtain uid now bytes and s :: totp_secret where "sso_user sample_libs (db ?w) ''sso'' now uid"
    "decrypt_text sample_libs (ts_secret_encrypted s) (key_encryption_key sample_config) = Inr bytes"
    "tsd_secret_base32 data = base32 sample_libs bytes"
    by blast
  with run show ?thesis
    by (intro exI [of _ data] exI [of _ uid] exI [of _ now] exI [of _ s] exI [of _ bytes]) simp
qed

text \<open>
  A second factor becomes active only when the user of a live SSO session gives a code that is valid for
  the secret set up before, and then it is that secret that is active.
\<close>

theorem totp_confirm_sound:
  assumes "run_state (totp_confirm E C sid code) w = (Inr (), w')"
  shows "\<exists>uid now s now' now''. sso_user E (db w) sid now uid \<and>
     find (\<lambda>t. ts_user_id t = uid) (db_totp_secrets (db w)) = Some s \<and> \<not> totp_is_confirmed s \<and>
     totp_code_ok E C s code now' \<and>
     find (\<lambda>t. ts_user_id t = uid) (db_totp_secrets (db w')) = Some (s\<lparr>ts_confirmed_at := Some (micros now'')\<rparr>)"
proof -
  let ?w1 = "called (tick (called w))"
  from assms obtain uid s bytes where
      r: "sso_user E (db w) sid (clock_src w (Suc (ticks w))) uid"
    and s: "find (\<lambda>t. ts_user_id t = uid) (db_totp_secrets (db w)) = Some s" "\<not> totp_is_confirmed s"
    and d: "decrypt_text E (ts_secret_encrypted s) (key_encryption_key C) = Inr bytes"
      "totp_error E bytes = None" "totp_check E bytes code (clock_src ?w1 (ticks ?w1)) = Inr True"
    and c: "run_state (totp_secrets_confirm uid (clock_src w (Suc (ticks ?w1)))) (tick (tick ?w1)) = (Inr (), w')"
    unfolding totp_confirm_def
    by (auto simp: run_rules totp_secrets_find_by_user_id_def dest!: totp_resolve_user_Inr verify_totp_code_True)
  from c s have "find (\<lambda>t. ts_user_id t = uid) (db_totp_secrets (db w')) =
      Some (s\<lparr>ts_confirmed_at := Some (micros (clock_src w (Suc (ticks ?w1))))\<rparr>)"
    by (auto simp: totp_secrets_confirm_def run_rules find_update_where totp_is_confirmed_def dest: find_SomeD)
  with r s d show ?thesis
    by (intro exI [of _ uid] exI [of _ "clock_src w (Suc (ticks w))"] exI [of _ s]
         exI [of _ "clock_src ?w1 (ticks ?w1)"] exI [of _ "clock_src w (Suc (ticks ?w1))"])
       (simp add: totp_code_ok_def)
qed

definition sample_pending_world :: world where
  "sample_pending_world = sample_world\<lparr>db := sample_db\<lparr>db_totp_secrets :=
     [\<lparr>ts_user_id = 2, ts_secret_encrypted = ''12345678901201234567890123456789'',
       ts_confirmed_at = None, ts_created_at = 0, ts_updated_at = 0\<rparr>]\<rparr>\<rparr>"

theorem totp_confirm_sound_witness:
  "\<exists>uid now s now'. sso_user sample_libs (db sample_pending_world) ''sso'' now uid \<and>
     totp_code_ok sample_libs sample_config s ''123456'' now'"
proof -
  have "fst (run_state (totp_confirm sample_libs sample_config ''sso'' ''123456'') sample_pending_world) = Inr ()"
    by code_simp
  from totp_confirm_sound [OF run_fstI [OF this]] show ?thesis by blast
qed

end
