(* ===== verification/MfaLogin.thy ===== *)
theory MfaLogin
  imports Totp
begin

text \<open>
  The second step of a login: \<^verbatim>\<open>application/mfa_login.rs\<close> checks a one-time code,
  \<^verbatim>\<open>application/change_password.rs\<close> replaces a password that must be changed. Both work on an
  authorization session in which the login service has recorded a verified password, and both end
  like the login service does.
\<close>

section \<open>What both share\<close>

text \<open>Record the user, start the SSO session, check the consent and issue the code.\<close>

definition complete_second_step ::
  "libs \<Rightarrow> config \<Rightarrow> tenant_id \<Rightarrow> uuid \<Rightarrow> auth_session \<Rightarrow> instant \<Rightarrow> request_context \<Rightarrow>
   (world, domain_error + (string \<times> string outcome option)) state" where
  "complete_second_step E C tenant user_id session now ctx =
     and_then (auth_sessions_set_authenticated_user E (as_id session) user_id now) (\<lambda>_.
     and_then (start_sso E C tenant user_id (as_client_id session) now ctx) (\<lambda>sso_session_id.
     and_then (finish_flow E C tenant user_id session now ctx) (\<lambda>finished.
     State_Monad.return (Inr (sso_session_id, finished)))))"

text \<open>The session is live and its user has given the password.\<close>

definition pending_session ::
  "libs \<Rightarrow> config \<Rightarrow> tenant_id \<Rightarrow> string option \<Rightarrow> string \<Rightarrow> instant \<Rightarrow>
   (flow_stop \<Rightarrow> 'o) \<Rightarrow> 'o \<Rightarrow> (world, 'o + (auth_session \<times> uuid)) state" where
  "pending_session E C tenant cookie csrf_token now stop mismatch =
     and_then (map_err stop (cookie_session E tenant cookie now)) (\<lambda>(session_id, session).
     case as_authenticated_user_id session of
       None \<Rightarrow> State_Monad.return (Inl (stop FlowExpired))
     | Some user_id \<Rightarrow>
         and_then (require (as_password_verified_at session \<noteq> None) (stop FlowExpired)) (\<lambda>_.
         and_then (require (login_csrf_token E session_id (csrf_secret C) = csrf_token) mismatch) (\<lambda>_.
         State_Monad.return (Inr (session, user_id)))))"

section \<open>The second factor\<close>

datatype mfa_login_outcome =
    MfaSuccess string string "string option"
  | MfaConsentRequired string string
  | MfaSessionExpired
  | MfaCsrfMismatch
  | MfaInvalidCode
  | MfaInternal string

record mfa_login_command =
  mc_auth_session_id :: "string option"
  mc_totp_code :: string
  mc_csrf_token :: string

definition mfa_failed :: "domain_error \<Rightarrow> mfa_login_outcome" where
  "mfa_failed e = MfaInternal (domain_error_to_string e)"

definition mfa_stop :: "flow_stop \<Rightarrow> mfa_login_outcome" where
  "mfa_stop s = (case s of FlowExpired \<Rightarrow> MfaSessionExpired | FlowFailed e \<Rightarrow> mfa_failed e)"

text \<open>Steps 1 to 5.\<close>

definition mfa_authenticate ::
  "libs \<Rightarrow> config \<Rightarrow> tenant_id \<Rightarrow> mfa_login_command \<Rightarrow> request_context \<Rightarrow>
   (world, mfa_login_outcome + (instant \<times> auth_session \<times> user)) state" where
  "mfa_authenticate E C tenant cmd ctx = do {
     now \<leftarrow> clock_now;
     and_then (pending_session E C tenant (mc_auth_session_id cmd) (mc_csrf_token cmd) now mfa_stop
                 MfaCsrfMismatch) (\<lambda>(session, user_id).
     and_then (map_err mfa_failed (users_find_by_id user_id)) (\<lambda>found.
     case found of
       None \<Rightarrow> State_Monad.return (Inl MfaSessionExpired)
     | Some user \<Rightarrow>
         and_then (require (user_is_active user) (MfaInternal ''user not active'')) (\<lambda>_.
         and_then (map_err mfa_failed (totp_secrets_find_by_user_id user_id)) (\<lambda>secret.
         case secret of
           None \<Rightarrow> State_Monad.return (Inl MfaSessionExpired)
         | Some totp_record \<Rightarrow>
             and_then (require (totp_is_confirmed totp_record) MfaSessionExpired) (\<lambda>_.
             case decrypt_text E (ts_secret_encrypted totp_record) (key_encryption_key C) of
               Inl e \<Rightarrow> State_Monad.return (Inl (MfaInternal e))
             | Inr secret_bytes \<Rightarrow>
                 and_then (map_err (\<lambda>e. MfaInternal (totp_error_to_string e))
                   (verify_totp_code E secret_bytes (mc_totp_code cmd))) (\<lambda>valid.
                 if \<not> valid then do {
                   audit_record LoginFailed AuditFailure (Some tenant) (Some user_id)
                     (Some (as_client_id session)) (Some ''invalid_totp'') ctx;
                   State_Monad.return (Inl MfaInvalidCode)
                 }
                 else State_Monad.return (Inr (now, session, user))))))))
   }"

text \<open>Steps 6 to 10.\<close>

definition mfa_complete ::
  "libs \<Rightarrow> config \<Rightarrow> tenant_id \<Rightarrow> user \<Rightarrow> auth_session \<Rightarrow> instant \<Rightarrow> request_context \<Rightarrow>
   (world, mfa_login_outcome + mfa_login_outcome outcome) state" where
  "mfa_complete E C tenant user session now ctx =
     map_err mfa_failed
       (and_then (complete_second_step E C tenant (u_id user) session now ctx) (\<lambda>(sso_session_id, finished).
        State_Monad.return (Inr (case finished of
          None \<Rightarrow> Return (MfaConsentRequired (as_id session) sso_session_id)
        | Some location \<Rightarrow>
            map_outcome (\<lambda>l. MfaSuccess l sso_session_id (u_language user)) location))))"

definition mfa_verify ::
  "libs \<Rightarrow> config \<Rightarrow> tenant_id \<Rightarrow> mfa_login_command \<Rightarrow> request_context \<Rightarrow>
   (world, mfa_login_outcome outcome) state" where
  "mfa_verify E C tenant cmd ctx = do {
     r \<leftarrow> and_then (mfa_authenticate E C tenant cmd ctx) (\<lambda>(now, session, user).
            mfa_complete E C tenant user session now ctx);
     State_Monad.return (case r of Inl out \<Rightarrow> Return out | Inr out \<Rightarrow> out)
   }"

definition has_mfa_pending :: "libs \<Rightarrow> tenant_id \<Rightarrow> string \<Rightarrow> (world, bool) state" where
  "has_mfa_pending E tenant auth_session_id = do {
     r \<leftarrow> auth_sessions_find_by_id E tenant auth_session_id;
     State_Monad.return (case r of
       Inr (Some session) \<Rightarrow> as_password_verified_at session \<noteq> None \<and> as_authenticated_user_id session \<noteq> None
     | _ \<Rightarrow> False)
   }"

section \<open>The forced password change\<close>

datatype change_password_outcome =
    ChangeSuccess string string
  | ChangeConsentRequired string string
  | ChangeSessionExpired
  | ChangeCsrfMismatch
  | InvalidCurrentPassword
  | WeakPassword
  | ChangeInternal string

record change_password_command =
  cp_auth_session_id :: "string option"
  cp_current_password :: string
  cp_new_password :: string
  cp_csrf_token :: string

definition change_failed :: "domain_error \<Rightarrow> change_password_outcome" where
  "change_failed e = ChangeInternal (domain_error_to_string e)"

definition change_stop :: "flow_stop \<Rightarrow> change_password_outcome" where
  "change_stop s = (case s of FlowExpired \<Rightarrow> ChangeSessionExpired | FlowFailed e \<Rightarrow> change_failed e)"

text \<open>Steps 1 to 5.\<close>

definition change_authenticate ::
  "libs \<Rightarrow> config \<Rightarrow> tenant_id \<Rightarrow> change_password_command \<Rightarrow>
   (world, change_password_outcome + (instant \<times> auth_session \<times> user)) state" where
  "change_authenticate E C tenant cmd = do {
     now \<leftarrow> clock_now;
     and_then (pending_session E C tenant (cp_auth_session_id cmd) (cp_csrf_token cmd) now change_stop
                 ChangeCsrfMismatch) (\<lambda>(session, user_id).
     and_then (map_err change_failed (users_find_by_id user_id)) (\<lambda>found.
     case found of
       None \<Rightarrow> State_Monad.return (Inl ChangeSessionExpired)
     | Some user \<Rightarrow>
         and_then (require (user_is_active user \<and> u_must_change_password user) ChangeSessionExpired) (\<lambda>_.
         case hasher_verify E (cp_current_password cmd) (u_password_hash user) of
           Inl e \<Rightarrow> State_Monad.return (Inl (change_failed e))
         | Inr verified \<Rightarrow>
             and_then (require verified InvalidCurrentPassword) (\<lambda>_.
             State_Monad.return (Inr (now, session, user))))))
   }"

text \<open>Step 6.\<close>

definition change_store ::
  "libs \<Rightarrow> tenant_id \<Rightarrow> change_password_command \<Rightarrow> auth_session \<Rightarrow> user \<Rightarrow> request_context \<Rightarrow>
   (world, change_password_outcome + unit) state" where
  "change_store E tenant cmd session user ctx =
     and_then (require (\<not> isl (validate_password_strength (cp_new_password cmd))) WeakPassword) (\<lambda>_.
     and_then (map_err change_failed (hasher_hash E (cp_new_password cmd))) (\<lambda>new_hash.
     and_then (map_err change_failed (users_update_password (u_id user) new_hash)) (\<lambda>_. do {
     audit_record PasswordChanged AuditSuccess (Some tenant) (Some (u_id user))
       (Some (as_client_id session)) None ctx;
     State_Monad.return (Inr ()) })))"

text \<open>Steps 7 to 11.\<close>

definition change_complete ::
  "libs \<Rightarrow> config \<Rightarrow> tenant_id \<Rightarrow> user \<Rightarrow> auth_session \<Rightarrow> instant \<Rightarrow> request_context \<Rightarrow>
   (world, change_password_outcome + change_password_outcome outcome) state" where
  "change_complete E C tenant user session now ctx =
     map_err change_failed
       (and_then (complete_second_step E C tenant (u_id user) session now ctx) (\<lambda>(sso_session_id, finished).
        State_Monad.return (Inr (case finished of
          None \<Rightarrow> Return (ChangeConsentRequired (as_id session) sso_session_id)
        | Some location \<Rightarrow> map_outcome (\<lambda>l. ChangeSuccess l sso_session_id) location))))"

definition change_password ::
  "libs \<Rightarrow> config \<Rightarrow> tenant_id \<Rightarrow> change_password_command \<Rightarrow> request_context \<Rightarrow>
   (world, change_password_outcome outcome) state" where
  "change_password E C tenant cmd ctx = do {
     r \<leftarrow> and_then (change_authenticate E C tenant cmd) (\<lambda>(now, session, user).
          and_then (change_store E tenant cmd session user ctx) (\<lambda>_.
          change_complete E C tenant user session now ctx));
     State_Monad.return (case r of Inl out \<Rightarrow> Return out | Inr out \<Rightarrow> out)
   }"

section \<open>Reading a run\<close>

lemma users_find_by_id_Some:
  "run_state (users_find_by_id i) w = (Inr (Some u), w') \<Longrightarrow>
   i = u_id u \<and> u \<in> set (db_users (db w)) \<and> find (\<lambda>x. u_id x = u_id u) (db_users (db w)) = Some u \<and> w' = called w"
  by (auto simp: users_find_by_id_def run_rules dest: find_SomeD)

lemma pending_session_Inr:
  assumes "run_state (pending_session E C tenant cookie csrf now stop mm) w = (Inr (session, uid), w')"
  shows "\<exists>sid. cookie = Some sid \<and> csrf = login_csrf_token E sid (csrf_secret C) \<and>
     session \<in> set (db_auth_sessions (db w)) \<and> as_tenant_id session = tenant \<and>
     db_eq E (as_id session) sid \<and> \<not> auth_session_is_expired_at session now \<and>
     as_authenticated_user_id session = Some uid \<and> as_password_verified_at session \<noteq> None \<and> w' = called w"
  using assms by (auto simp: pending_session_def run_rules dest!: cookie_session_Inr)

lemma mfa_authenticate_Inr:
  assumes "run_state (mfa_authenticate E C tenant cmd ctx) w = (Inr (now, session, user), w')"
  shows "session \<in> set (db_auth_sessions (db w)) \<and> as_tenant_id session = tenant \<and>
     (\<exists>sid. mc_auth_session_id cmd = Some sid \<and> db_eq E (as_id session) sid \<and>
        mc_csrf_token cmd = login_csrf_token E sid (csrf_secret C)) \<and>
     \<not> auth_session_is_expired_at session now \<and>
     as_authenticated_user_id session = Some (u_id user) \<and> as_password_verified_at session \<noteq> None \<and>
     user \<in> set (db_users (db w)) \<and> user_is_active user \<and>
     (\<exists>s now'. find (\<lambda>t. ts_user_id t = u_id user) (db_totp_secrets (db w)) = Some s \<and>
        totp_is_confirmed s \<and> totp_code_ok E C s (mc_totp_code cmd) now') \<and> db w' = db w"
  using assms unfolding mfa_authenticate_def
  by (auto simp: run_rules totp_secrets_find_by_user_id_def totp_code_ok_def
      dest!: pending_session_Inr verify_totp_code_True users_find_by_id_Some)

text \<open>The end of a second step: what it adds to the tables.\<close>

definition flow_ended ::
  "libs \<Rightarrow> config \<Rightarrow> tenant_id \<Rightarrow> uuid \<Rightarrow> auth_session \<Rightarrow> instant \<Rightarrow> database \<Rightarrow> database \<Rightarrow> string \<Rightarrow>
   string outcome option \<Rightarrow> bool" where
  "flow_ended E C tenant uid session now d d' sso_id finished \<longleftrightarrow>
     (\<exists>row. started_sso E C uid sso_id now row \<and> db_sso_sessions d' = db_sso_sessions d @ [row]) \<and>
     (case finished of
        None \<Rightarrow> db_codes d' = db_codes d
      | Some location \<Rightarrow>
          consent_given E d tenant uid (as_client_id session) (as_scope session) \<and>
          (\<exists>code now' crow. issued_code E C (session_code_command tenant uid session now) code now' crow \<and>
             location = code_redirect E (as_redirect_uri session) code (as_state session) \<and>
             db_codes d' = db_codes d @ [crow]))"

lemma complete_second_step_Inr:
  assumes "run_state (complete_second_step E C tenant uid session now ctx) w = (Inr (sso_id, finished), w')"
  shows "flow_ended E C tenant uid session now (db w) (db w') sso_id finished \<and>
     db_users (db w') = db_users (db w)"
proof -
  from assms obtain w1 w2 where
      a: "run_state (auth_sessions_set_authenticated_user E (as_id session) uid now) w = (Inr (), w1)"
    and s: "run_state (start_sso E C tenant uid (as_client_id session) now ctx) w1 = (Inr sso_id, w2)"
    and f: "run_state (finish_flow E C tenant uid session now ctx) w2 = (Inr finished, w')"
    by (auto simp: complete_second_step_def run_rules)
  from a have w1: "tables (db w1) = tables ((db w)\<lparr>db_auth_sessions := db_auth_sessions (db w1)\<rparr>)"
    by (auto simp: auth_sessions_set_authenticated_user_def update_auth_session_def run_rules tables_eq_iff)
  from start_sso_Inr [OF s] obtain row where row: "started_sso E C uid sso_id now row"
    "tables (db w2) = tables ((db w1)\<lparr>db_sso_sessions := db_sso_sessions (db w1) @ [row]\<rparr>)" by blast
  show ?thesis
  proof (cases finished)
    case None
    with f row w1 show ?thesis by (auto simp: flow_ended_def tables_eq_iff dest!: finish_flow_None)
  next
    case (Some l)
    with f have "run_state (finish_flow E C tenant uid session now ctx) w2 = (Inr (Some l), w')" by simp
    from finish_flow_Some [OF this] row w1 Some show ?thesis
      by (auto simp: flow_ended_def tables_eq_iff consent_given_def)
  qed
qed

lemma mfa_verify_Return:
  assumes "run_state (mfa_verify E C tenant cmd ctx) w = (Return out, w')"
    and "out = MfaSuccess l sso_id lang \<or> out = MfaConsentRequired i sso_id"
  obtains now session user w1 finished where
    "run_state (mfa_authenticate E C tenant cmd ctx) w = (Inr (now, session, user), w1)"
    "run_state (complete_second_step E C tenant (u_id user) session now ctx) w1 = (Inr (sso_id, finished), w')"
    "out = MfaConsentRequired i sso_id \<longrightarrow> finished = None \<and> i = as_id session"
    "out = MfaSuccess l sso_id lang \<longrightarrow> finished = Some (Return l) \<and> lang = u_language user"
proof -
  have a: "run_state (mfa_authenticate E C tenant cmd ctx) w \<noteq> (Inl out, w')"
    using assms(2) unfolding mfa_authenticate_def pending_session_def
    by (auto simp: run_rules mfa_failed_def mfa_stop_def split: flow_stop.splits)
  have c: "run_state (mfa_complete E C tenant user session now ctx) v \<noteq> (Inl out, w')" for user session now v
    using assms(2) by (auto simp: mfa_complete_def mfa_failed_def run_map_err_Inl)
  from assms(1) obtain r where r: "run_state (and_then (mfa_authenticate E C tenant cmd ctx) (\<lambda>(now, session, user).
      mfa_complete E C tenant user session now ctx)) w = (r, w')" "Return out = (case r of Inl out \<Rightarrow> Return out | Inr out \<Rightarrow> out)"
    by (auto simp: mfa_verify_def run_bindE)
  with a c obtain now session user w1 where
      1: "run_state (mfa_authenticate E C tenant cmd ctx) w = (Inr (now, session, user), w1)"
    and 2: "run_state (mfa_complete E C tenant user session now ctx) w1 = (Inr (Return out), w')"
    by (cases r) (auto simp: run_and_then_Inl run_and_then_Inr run_case_prodE)
  from 2 assms(2) show thesis
    by (auto simp: mfa_complete_def run_map_err_Inr run_and_then_Inr run_case_prodE run_returnE case_option_eqE
        map_outcome_Return intro!: that [OF 1])
qed

lemma change_authenticate_Inr:
  assumes "run_state (change_authenticate E C tenant cmd) w = (Inr (now, session, user), w')"
  shows "session \<in> set (db_auth_sessions (db w)) \<and> as_tenant_id session = tenant \<and>
     (\<exists>sid. cp_auth_session_id cmd = Some sid \<and> db_eq E (as_id session) sid \<and>
        cp_csrf_token cmd = login_csrf_token E sid (csrf_secret C)) \<and>
     \<not> auth_session_is_expired_at session now \<and>
     as_authenticated_user_id session = Some (u_id user) \<and> as_password_verified_at session \<noteq> None \<and>
     find (\<lambda>x. u_id x = u_id user) (db_users (db w)) = Some user \<and>
     user_is_active user \<and> u_must_change_password user \<and>
     hasher_verify E (cp_current_password cmd) (u_password_hash user) = Inr True \<and> db w' = db w"
  using assms unfolding change_authenticate_def
  by (auto simp: run_rules dest!: pending_session_Inr users_find_by_id_Some)

text \<open>What argon2 promises: a hash it made parses and matches the password it was made from.\<close>

definition hasher_ok :: "libs \<Rightarrow> bool" where
  "hasher_ok E \<longleftrightarrow> (\<forall>salt p h. argon2_hash E salt p = Inr h \<longrightarrow>
     argon2_parse_error E h = None \<and> argon2_verify E p h)"

lemma hasher_hash_verify:
  "hasher_ok E \<Longrightarrow> run_state (hasher_hash E p) w = (Inr h, w') \<Longrightarrow> hasher_verify E p h = Inr True \<and> db w' = db w"
  by (auto simp: hasher_ok_def hasher_hash_def hasher_verify_def run_rules)

lemma change_store_Inr:
  assumes "run_state (change_store E tenant cmd session user ctx) w = (Inr x, w')"
  shows "\<exists>h v. MIN_PASSWORD_LEN \<le> length (cp_new_password cmd) \<and> length (cp_new_password cmd) \<le> MAX_PASSWORD_LEN \<and>
     fst (run_state (hasher_hash E (cp_new_password cmd)) v) = Inr h \<and>
     tables (db w') = tables ((db w)\<lparr>db_users := update_where (\<lambda>u. u_id u = u_id user)
        (\<lambda>u. u\<lparr>u_password_hash := h, u_must_change_password := False\<rparr>) (db_users (db w))\<rparr>)"
proof -
  from assms obtain h w1 w2 where v: "\<not> isl (validate_password_strength (cp_new_password cmd))"
    and h: "run_state (hasher_hash E (cp_new_password cmd)) w = (Inr h, w1)"
    and u: "run_state (users_update_password (u_id user) h) w1 = (Inr (), w2)"
    and a: "tables (db w') = tables (db w2)"
    by (auto simp: change_store_def run_rules dest!: run_audit)
  have "frame (\<lambda>d. d) w w1" by (rule alwaysD [OF frame_random(4) h])
  with u a have "tables (db w') = tables ((db w)\<lparr>db_users := update_where (\<lambda>u. u_id u = u_id user)
        (\<lambda>u. u\<lparr>u_password_hash := h, u_must_change_password := False\<rparr>) (db_users (db w))\<rparr>)"
    by (auto simp: users_update_password_def update_user_def run_rules frame_def)
  with v h show ?thesis
    by (intro exI [of _ h] exI [of _ w])
       (auto simp: validate_password_strength_def split: if_splits)
qed

lemma change_password_Return:
  assumes "run_state (change_password E C tenant cmd ctx) w = (Return out, w')"
    and "out = ChangeSuccess l sso_id \<or> out = ChangeConsentRequired i sso_id"
  obtains now session user w1 w2 finished where
    "run_state (change_authenticate E C tenant cmd) w = (Inr (now, session, user), w1)"
    "run_state (change_store E tenant cmd session user ctx) w1 = (Inr (), w2)"
    "run_state (complete_second_step E C tenant (u_id user) session now ctx) w2 = (Inr (sso_id, finished), w')"
    "out = ChangeConsentRequired i sso_id \<longrightarrow> finished = None \<and> i = as_id session"
    "out = ChangeSuccess l sso_id \<longrightarrow> finished = Some (Return l)"
proof -
  have a: "run_state (change_authenticate E C tenant cmd) w \<noteq> (Inl out, w')"
    using assms(2) unfolding change_authenticate_def pending_session_def
    by (auto simp: run_rules change_failed_def change_stop_def split: flow_stop.splits)
  have s: "run_state (change_store E tenant cmd session user ctx) v \<noteq> (Inl out, w')" for session user v
    using assms(2) by (auto simp: change_store_def change_failed_def run_rules)
  have c: "run_state (change_complete E C tenant user session now ctx) v \<noteq> (Inl out, w')" for user session now v
    using assms(2) by (auto simp: change_complete_def change_failed_def run_map_err_Inl)
  from assms(1) obtain r where r: "run_state (and_then (change_authenticate E C tenant cmd) (\<lambda>(now, session, user).
      and_then (change_store E tenant cmd session user ctx) (\<lambda>_.
      change_complete E C tenant user session now ctx))) w = (r, w')" "Return out = (case r of Inl out \<Rightarrow> Return out | Inr out \<Rightarrow> out)"
    by (auto simp: change_password_def run_bindE)
  with a s c obtain now session user w1 w2 where
      1: "run_state (change_authenticate E C tenant cmd) w = (Inr (now, session, user), w1)"
    and 2: "run_state (change_store E tenant cmd session user ctx) w1 = (Inr (), w2)"
    and 3: "run_state (change_complete E C tenant user session now ctx) w2 = (Inr (Return out), w')"
    by (cases r) (auto simp: run_and_then_Inl run_and_then_Inr run_case_prodE)
  from 3 assms(2) show thesis
    by (auto simp: change_complete_def run_map_err_Inr run_and_then_Inr run_case_prodE run_returnE case_option_eqE
        map_outcome_Return intro!: that [OF 1 2])
qed

section \<open>Properties\<close>

text \<open>
  C26. The second-factor service starts an SSO session only for the user whose password the login service has
  recorded in that live session of the tenant, who is active and has a confirmed secret, on a code
  that is valid for the secret; it issues a code only with consent, bound to the session's client,
  redirect URI, scope, nonce and challenge.
\<close>

theorem mfa_success_sound:
  assumes "run_state (mfa_verify E C tenant cmd ctx) w = (Return out, w')"
    and "out = MfaSuccess location sso_id lang \<or> out = MfaConsentRequired sid sso_id"
  shows "\<exists>session user now s now' finished.
     session \<in> set (db_auth_sessions (db w)) \<and> as_tenant_id session = tenant \<and>
     (\<exists>c. mc_auth_session_id cmd = Some c \<and> db_eq E (as_id session) c \<and>
        mc_csrf_token cmd = login_csrf_token E c (csrf_secret C)) \<and>
     \<not> auth_session_is_expired_at session now \<and>
     as_authenticated_user_id session = Some (u_id user) \<and> as_password_verified_at session \<noteq> None \<and>
     user \<in> set (db_users (db w)) \<and> user_is_active user \<and>
     find (\<lambda>t. ts_user_id t = u_id user) (db_totp_secrets (db w)) = Some s \<and>
     totp_is_confirmed s \<and> totp_code_ok E C s (mc_totp_code cmd) now' \<and>
     flow_ended E C tenant (u_id user) session now (db w) (db w') sso_id finished \<and>
     (out = MfaSuccess location sso_id lang \<longrightarrow> finished = Some (Return location)) \<and>
     (out = MfaConsentRequired sid sso_id \<longrightarrow> finished = None \<and> sid = as_id session)"
proof -
  from assms obtain now session user w1 finished where
      a: "run_state (mfa_authenticate E C tenant cmd ctx) w = (Inr (now, session, user), w1)"
    and c: "run_state (complete_second_step E C tenant (u_id user) session now ctx) w1 = (Inr (sso_id, finished), w')"
    and out: "out = MfaConsentRequired sid sso_id \<longrightarrow> finished = None \<and> sid = as_id session"
      "out = MfaSuccess location sso_id lang \<longrightarrow> finished = Some (Return location) \<and> lang = u_language user"
    by (rule mfa_verify_Return)
  from mfa_authenticate_Inr [OF a] complete_second_step_Inr [OF c] out show ?thesis
    by (elim conjE exE) (intro exI conjI; (assumption | simp))
qed

definition sample_second_world :: world where
  "sample_second_world = sample_mfa_world\<lparr>db := (db sample_mfa_world)\<lparr>db_auth_sessions :=
     [sample_auth_session\<lparr>as_authenticated_user_id := Some 2, as_password_verified_at := Some (seconds 995)\<rparr>]\<rparr>\<rparr>"

definition sample_mfa :: mfa_login_command where
  "sample_mfa =
     \<lparr>mc_auth_session_id = Some ''sess'', mc_totp_code = ''123456'',
      mc_csrf_token = login_csrf_token sample_libs ''sess'' (csrf_secret sample_config)\<rparr>"

theorem mfa_success_sound_witness:
  "\<exists>session user s now'. session \<in> set (db_auth_sessions (db sample_second_world)) \<and>
     as_authenticated_user_id session = Some (u_id user) \<and> user \<in> set (db_users (db sample_second_world)) \<and>
     totp_code_ok sample_libs sample_config s ''123456'' now'"
proof -
  have "fst (run_state (mfa_verify sample_libs sample_config 1 sample_mfa sample_ctx) sample_second_world) =
    Return (MfaSuccess ''https://app/cb?code=1rrrrrrrrrrrrrrrrrrrrrrrrrrrrrrrr&state=st''
      ''0rrrrrrrrrrrrrrrrrrrrrrrrrrrrrrrr'' None)" by code_simp
  from mfa_success_sound [OF run_fstI [OF this]] show ?thesis
    by (auto simp: sample_mfa_def)
qed

text \<open>
  The forced password change works only in a session that records a verified password of that user, for
  an active user who must change it, with the current password, and for a new password of an allowed
  length. After it the user is no longer forced, the stored hash matches the new password, no other
  user's row has changed, and the flow ends as in a login.
\<close>

theorem change_password_sound:
  assumes "hasher_ok E"
    and "run_state (change_password E C tenant cmd ctx) w = (Return out, w')"
    and "out = ChangeSuccess location sso_id \<or> out = ChangeConsentRequired sid sso_id"
  shows "\<exists>session user now h.
     session \<in> set (db_auth_sessions (db w)) \<and> as_tenant_id session = tenant \<and>
     \<not> auth_session_is_expired_at session now \<and>
     as_authenticated_user_id session = Some (u_id user) \<and> as_password_verified_at session \<noteq> None \<and>
     find (\<lambda>x. u_id x = u_id user) (db_users (db w)) = Some user \<and>
     user_is_active user \<and> u_must_change_password user \<and>
     hasher_verify E (cp_current_password cmd) (u_password_hash user) = Inr True \<and>
     MIN_PASSWORD_LEN \<le> length (cp_new_password cmd) \<and> length (cp_new_password cmd) \<le> MAX_PASSWORD_LEN \<and>
     hasher_verify E (cp_new_password cmd) h = Inr True \<and>
     db_users (db w') = update_where (\<lambda>u. u_id u = u_id user)
        (\<lambda>u. u\<lparr>u_password_hash := h, u_must_change_password := False\<rparr>) (db_users (db w)) \<and>
     (\<exists>finished. flow_ended E C tenant (u_id user) session now (db w) (db w') sso_id finished)"
proof -
  from assms(2,3) obtain now session user w1 w2 finished where
      a: "run_state (change_authenticate E C tenant cmd) w = (Inr (now, session, user), w1)"
    and s: "run_state (change_store E tenant cmd session user ctx) w1 = (Inr (), w2)"
    and c: "run_state (complete_second_step E C tenant (u_id user) session now ctx) w2 = (Inr (sso_id, finished), w')"
    by (rule change_password_Return)
  from change_store_Inr [OF s] obtain h v where
      len: "MIN_PASSWORD_LEN \<le> length (cp_new_password cmd)" "length (cp_new_password cmd) \<le> MAX_PASSWORD_LEN"
    and h: "fst (run_state (hasher_hash E (cp_new_password cmd)) v) = Inr h"
    and w2: "tables (db w2) = tables ((db w1)\<lparr>db_users := update_where (\<lambda>u. u_id u = u_id user)
        (\<lambda>u. u\<lparr>u_password_hash := h, u_must_change_password := False\<rparr>) (db_users (db w1))\<rparr>)" by blast
  have "hasher_verify E (cp_new_password cmd) h = Inr True"
    using hasher_hash_verify [OF assms(1) run_fstI [OF h]] by blast
  moreover have "flow_ended E C tenant (u_id user) session now (db w) (db w') sso_id finished"
    using complete_second_step_Inr [OF c] w2 change_authenticate_Inr [OF a]
    by (auto simp: flow_ended_def tables_eq_iff consent_given_def split: option.splits)
  moreover have "db_users (db w') = update_where (\<lambda>u. u_id u = u_id user)
        (\<lambda>u. u\<lparr>u_password_hash := h, u_must_change_password := False\<rparr>) (db_users (db w))"
    using complete_second_step_Inr [OF c] w2 change_authenticate_Inr [OF a] by (auto simp: tables_eq_iff)
  ultimately show ?thesis
    using change_authenticate_Inr [OF a] len
    by (intro exI [of _ session] exI [of _ user] exI [of _ now] exI [of _ h]) blast
qed

definition sample_change_world :: world where
  "sample_change_world = sample_world\<lparr>db := sample_db\<lparr>db_auth_sessions :=
     [sample_auth_session\<lparr>as_authenticated_user_id := Some 2, as_password_verified_at := Some (seconds 995)\<rparr>],
     db_users := [sample_user\<lparr>u_must_change_password := True\<rparr>]\<rparr>\<rparr>"

definition sample_change :: change_password_command where
  "sample_change =
     \<lparr>cp_auth_session_id = Some ''sess'', cp_current_password = ''secret'', cp_new_password = ''longer secret'',
      cp_csrf_token = login_csrf_token sample_libs ''sess'' (csrf_secret sample_config)\<rparr>"

theorem change_password_sound_witness:
  "\<exists>user h. find (\<lambda>x. u_id x = u_id user) (db_users (db sample_change_world)) = Some user \<and>
     hasher_verify sample_libs ''longer secret'' h = Inr True"
proof -
  have run: "fst (run_state (change_password sample_libs sample_config 1 sample_change sample_ctx) sample_change_world) =
    Return (ChangeSuccess ''https://app/cb?code=2rrrrrrrrrrrrrrrrrrrrrrrrrrrrrrrr&state=st''
      ''1rrrrrrrrrrrrrrrrrrrrrrrrrrrrrrrr'')" by code_simp
  have "hasher_ok sample_libs" by (simp add: hasher_ok_def sample_libs_def)
  from change_password_sound [OF this run_fstI [OF run]] show ?thesis
    by (auto simp: sample_change_def)
qed

end
