(* ===== verification/Consent.thy ===== *)
theory Consent
  imports MfaLogin
begin

text \<open>
  The consent service of \<^verbatim>\<open>application/consent.rs\<close>: what the consent page shows, granting the session's
  scopes to the client and issuing the code, and refusing.
\<close>

section \<open>Model\<close>

record consent_info =
  ci_auth_session_id :: string
  ci_client_name :: string
  ci_client_id :: string
  ci_requested_scopes :: "string list"

datatype consent_outcome =
    ConsentApproved string
  | ConsentRefused string
  | ConsentSessionExpired
  | ConsentInternal string

definition consent_failed :: "domain_error \<Rightarrow> consent_outcome" where
  "consent_failed e = ConsentInternal (domain_error_to_string e)"

definition consent_stop :: "flow_stop \<Rightarrow> consent_outcome" where
  "consent_stop s = (case s of FlowExpired \<Rightarrow> ConsentSessionExpired | FlowFailed e \<Rightarrow> consent_failed e)"

definition consent_page ::
  "libs \<Rightarrow> tenant_id \<Rightarrow> string \<Rightarrow> (world, domain_error + consent_info option) state" where
  "consent_page E tenant auth_session_id = do {
     now \<leftarrow> clock_now;
     r \<leftarrow> live_session E tenant auth_session_id now;
     case r of
       Inl (FlowFailed e) \<Rightarrow> State_Monad.return (Inl e)
     | Inl FlowExpired \<Rightarrow> State_Monad.return (Inr None)
     | Inr session \<Rightarrow>
         if as_authenticated_user_id session = None then State_Monad.return (Inr None)
         else
           and_then (clients_find_by_client_id E tenant (as_client_id session)) (\<lambda>client.
           State_Monad.return (Inr (Some
             \<lparr>ci_auth_session_id = as_id session,
              ci_client_name = (case client of Some c \<Rightarrow> c_app_name c | None \<Rightarrow> as_client_id session),
              ci_client_id = as_client_id session,
              ci_requested_scopes = without_openid (as_scope session)\<rparr>)))
   }"

definition consent_steps ::
  "libs \<Rightarrow> config \<Rightarrow> tenant_id \<Rightarrow> string \<Rightarrow> request_context \<Rightarrow>
   (world, consent_outcome + string outcome) state" where
  "consent_steps E C tenant auth_session_id ctx = do {
     now \<leftarrow> clock_now;
     and_then (map_err consent_stop (live_session E tenant auth_session_id now)) (\<lambda>session.
     case as_authenticated_user_id session of
       None \<Rightarrow> State_Monad.return (Inl ConsentSessionExpired)
     | Some user_id \<Rightarrow>
         (case as_auth_time session of
            None \<Rightarrow> State_Monad.return (Inl ConsentSessionExpired)
          | Some auth_time \<Rightarrow>
              and_then (map_err consent_failed (consents_upsert E
                \<lparr>cc_user_id = user_id, cc_tenant_id = tenant, cc_client_id = as_client_id session,
                 cc_scopes = as_scope session, cc_granted_at = now, cc_updated_at = now\<rparr>)) (\<lambda>_. do {
              audit_record ConsentGranted AuditSuccess (Some tenant) (Some user_id)
                (Some (as_client_id session)) None ctx;
              map_err consent_failed (issue_and_close E C tenant user_id session auth_time ctx) })))
   }"

definition consent_approve ::
  "libs \<Rightarrow> config \<Rightarrow> tenant_id \<Rightarrow> string \<Rightarrow> request_context \<Rightarrow> (world, consent_outcome outcome) state" where
  "consent_approve E C tenant auth_session_id ctx = do {
     r \<leftarrow> consent_steps E C tenant auth_session_id ctx;
     State_Monad.return (case r of
       Inl out \<Rightarrow> Return out
     | Inr location \<Rightarrow> map_outcome ConsentApproved location)
   }"

definition consent_deny ::
  "libs \<Rightarrow> tenant_id \<Rightarrow> string \<Rightarrow> request_context \<Rightarrow> (world, consent_outcome outcome) state" where
  "consent_deny E tenant auth_session_id ctx = do {
     now \<leftarrow> clock_now;
     r \<leftarrow> live_session E tenant auth_session_id now;
     case r of
       Inl stop \<Rightarrow> State_Monad.return (Return (consent_stop stop))
     | Inr session \<Rightarrow> do {
         audit_record ConsentDenied AuditFailure (Some tenant) (as_authenticated_user_id session)
           (Some (as_client_id session)) (Some ''user_denied'') ctx;
         _ \<leftarrow> auth_sessions_delete E (as_id session);
         State_Monad.return (map_outcome ConsentRefused
           (error_redirect_with_state E (as_redirect_uri session) AccessDenied ''user denied consent''
             (Some (as_state session))))
       }
   }"

section \<open>Reading a run\<close>

lemma consent_stop_not [simp]:
  "consent_stop s \<noteq> ConsentApproved l" "consent_stop s \<noteq> ConsentRefused l"
  "ConsentApproved l \<noteq> consent_stop s" "ConsentRefused l \<noteq> consent_stop s"
  by (cases s; simp add: consent_stop_def consent_failed_def)+

lemma upsert_consent_covers:
  "\<exists>r \<in> set (upsert_consent E c rows).
     consent_key E (cc_tenant_id c) (cc_user_id c) (cc_client_id c) r \<and> cc_scopes r = cc_scopes c"
proof (cases "list_ex (consent_key E (cc_tenant_id c) (cc_user_id c) (cc_client_id c)) rows")
  case True
  then obtain r where "r \<in> set rows" "consent_key E (cc_tenant_id c) (cc_user_id c) (cc_client_id c) r"
    by (auto simp: list_ex_iff)
  with True show ?thesis
    by (intro bexI [of _ "r\<lparr>cc_scopes := cc_scopes c, cc_updated_at := micros (cc_updated_at c)\<rparr>"])
       (force simp: upsert_consent_def consent_key_def set_update_where Let_def)+
qed (auto simp: upsert_consent_def Let_def consent_key_def)

lemma upsert_consent_replaces:
  "r \<in> set (upsert_consent E c rows) \<Longrightarrow>
   consent_key E (cc_tenant_id c) (cc_user_id c) (cc_client_id c) r \<Longrightarrow> cc_scopes r = cc_scopes c"
  by (auto simp: upsert_consent_def Let_def update_where_def consent_key_def list_ex_iff split: if_splits)

lemma upsert_consent_others:
  "\<not> consent_key E (cc_tenant_id c) (cc_user_id c) (cc_client_id c) r \<Longrightarrow>
   r \<in> set (upsert_consent E c rows) \<longleftrightarrow> r \<in> set rows"
  by (auto simp: upsert_consent_def Let_def set_update_where consent_key_def split: if_splits)

lemma consents_upsert_Inr:
  "run_state (consents_upsert E c) w = (Inr x, w') \<Longrightarrow>
   db w' = (db w)\<lparr>db_consents := upsert_consent E c (db_consents (db w))\<rparr>"
  by (auto simp: consents_upsert_def run_rules)

lemma consent_steps_Inr:
  assumes "run_state (consent_steps E C tenant sid ctx) w = (Inr out, w')"
  shows "\<exists>session uid auth_time issued_at code crow.
     session \<in> set (db_auth_sessions (db w)) \<and> as_tenant_id session = tenant \<and> db_eq E (as_id session) sid \<and>
     \<not> auth_session_is_expired_at session (clock_src w (ticks w)) \<and>
     as_authenticated_user_id session = Some uid \<and> as_auth_time session = Some auth_time \<and>
     db_consents (db w') = upsert_consent E
       \<lparr>cc_user_id = uid, cc_tenant_id = tenant, cc_client_id = as_client_id session,
        cc_scopes = as_scope session, cc_granted_at = clock_src w (ticks w),
        cc_updated_at = clock_src w (ticks w)\<rparr> (db_consents (db w)) \<and>
     issued_code E C (session_code_command tenant uid session auth_time) code issued_at crow \<and>
     clock_reading w w' issued_at \<and>
     out = code_redirect E (as_redirect_uri session) code (as_state session) \<and>
     db_codes (db w') = db_codes (db w) @ [crow]"
proof -
  from assms obtain session uid auth_time w2 w3 where
      s: "session \<in> set (db_auth_sessions (db w))" "as_tenant_id session = tenant" "db_eq E (as_id session) sid"
        "\<not> auth_session_is_expired_at session (clock_src w (ticks w))"
        "as_authenticated_user_id session = Some uid" "as_auth_time session = Some auth_time"
    and upsert: "run_state (consents_upsert E
        \<lparr>cc_user_id = uid, cc_tenant_id = tenant, cc_client_id = as_client_id session,
         cc_scopes = as_scope session, cc_granted_at = clock_src w (ticks w),
         cc_updated_at = clock_src w (ticks w)\<rparr>) (called (tick w)) = (Inr (), w2)"
    and audit: "run_state (audit_record ConsentGranted AuditSuccess (Some tenant) (Some uid)
        (Some (as_client_id session)) None ctx) w2 = ((), w3)"
    and issue: "run_state (issue_and_close E C tenant uid session auth_time ctx) w3 = (Inr out, w')"
    unfolding consent_steps_def by (auto simp: run_rules dest!: live_session_Inr)
  have w2: "db w2 = (db w)\<lparr>db_consents := upsert_consent E
        \<lparr>cc_user_id = uid, cc_tenant_id = tenant, cc_client_id = as_client_id session,
         cc_scopes = as_scope session, cc_granted_at = clock_src w (ticks w),
         cc_updated_at = clock_src w (ticks w)\<rparr> (db_consents (db w))\<rparr>"
      "clock_src w2 = clock_src w" "ticks w \<le> ticks w2"
    using upsert by (auto simp: consents_upsert_def run_rules)
  from issue_and_close_Inr [OF issue] obtain issued_at code crow rows where
      c: "issued_code E C (session_code_command tenant uid session auth_time) code issued_at crow"
        "clock_reading w3 w' issued_at" "out = code_redirect E (as_redirect_uri session) code (as_state session)"
        "tables (db w') = tables ((db w3)\<lparr>db_codes := db_codes (db w3) @ [crow], db_auth_sessions := rows\<rparr>)"
    by blast
  have "clock_reading w w' issued_at"
    using c(2) by (rule clock_reading_earlier) (use run_audit_clock [OF audit] w2 in simp_all)
  then show ?thesis using s c w2(1) run_audit [OF audit]
    by (intro exI [of _ session] exI [of _ uid] exI [of _ auth_time] exI [of _ issued_at] exI [of _ code]
          exI [of _ crow]) (simp add: tables_eq_iff)
qed

lemma consent_approve_Approved:
  assumes "run_state (consent_approve E C tenant sid ctx) w = (Return (ConsentApproved l), w')"
  shows "run_state (consent_steps E C tenant sid ctx) w = (Inr (Return l), w')"
proof -
  have "run_state (consent_steps E C tenant sid ctx) w \<noteq> (Inl (ConsentApproved l), w')"
    unfolding consent_steps_def
    by (auto simp: run_rules consent_failed_def)
  with assms show ?thesis
    by (auto simp: consent_approve_def run_bindE run_returnE case_sum_eqE map_outcome_Return)
qed

section \<open>Properties\<close>

text \<open>
  C29. Approval issues a code only in a session of the tenant that has not expired at the moment the service
  reads the clock (its first reading, before the session is looked up) and that has an authenticated user and the time
  of the authentication, for that user and that time and with the session's client, redirect URI,
  scope, nonce and challenge; the code expires its time to live after a reading of the clock within the
  run. Afterwards the user's consent to the client is exactly the session's
  scopes, so the same request is not asked again, and every other consent is as before.
\<close>

theorem consent_approve_sound:
  assumes "run_state (consent_approve E C tenant sid ctx) w = (Return (ConsentApproved location), w')"
  shows "\<exists>session uid auth_time issued_at code crow.
     session \<in> set (db_auth_sessions (db w)) \<and> as_tenant_id session = tenant \<and> db_eq E (as_id session) sid \<and>
     \<not> auth_session_is_expired_at session (clock_src w (ticks w)) \<and>
     as_authenticated_user_id session = Some uid \<and> as_auth_time session = Some auth_time \<and>
     issued_code E C (session_code_command tenant uid session auth_time) code issued_at crow \<and>
     clock_reading w w' issued_at \<and> db_codes (db w') = db_codes (db w) @ [crow] \<and>
     url_append E (as_redirect_uri session) [(''code'', code), (''state'', as_state session)] = Some location \<and>
     consent_given E (db w') tenant uid (as_client_id session) (as_scope session) \<and>
     (\<forall>r \<in> set (db_consents (db w')). consent_key E tenant uid (as_client_id session) r \<longrightarrow>
        cc_scopes r = as_scope session) \<and>
     (\<forall>r. \<not> consent_key E tenant uid (as_client_id session) r \<longrightarrow>
        (r \<in> set (db_consents (db w')) \<longleftrightarrow> r \<in> set (db_consents (db w))))"
proof -
  from consent_steps_Inr [OF consent_approve_Approved [OF assms]] obtain session uid auth_time issued_at code crow where
    s: "session \<in> set (db_auth_sessions (db w))" "as_tenant_id session = tenant" "db_eq E (as_id session) sid"
      "\<not> auth_session_is_expired_at session (clock_src w (ticks w))"
      "as_authenticated_user_id session = Some uid" "as_auth_time session = Some auth_time"
    and c: "db_consents (db w') = upsert_consent E
       \<lparr>cc_user_id = uid, cc_tenant_id = tenant, cc_client_id = as_client_id session,
        cc_scopes = as_scope session, cc_granted_at = clock_src w (ticks w),
        cc_updated_at = clock_src w (ticks w)\<rparr> (db_consents (db w))" (is "_ = upsert_consent E ?c _")
    and i: "issued_code E C (session_code_command tenant uid session auth_time) code issued_at crow"
      "clock_reading w w' issued_at" "Return location = code_redirect E (as_redirect_uri session) code (as_state session)"
      "db_codes (db w') = db_codes (db w) @ [crow]" by auto
  have "consent_given E (db w') tenant uid (as_client_id session) (as_scope session)"
    using upsert_consent_covers [of E ?c "db_consents (db w)"] c
    by (auto simp: consent_given_def without_openid_def)
  moreover have "\<forall>r \<in> set (db_consents (db w')). consent_key E tenant uid (as_client_id session) r \<longrightarrow>
        cc_scopes r = as_scope session"
    using upsert_consent_replaces [of _ E ?c "db_consents (db w)"] c by simp
  moreover have "\<forall>r. \<not> consent_key E tenant uid (as_client_id session) r \<longrightarrow>
        (r \<in> set (db_consents (db w')) \<longleftrightarrow> r \<in> set (db_consents (db w)))"
    using upsert_consent_others [of E ?c] c by simp
  moreover have "url_append E (as_redirect_uri session) [(''code'', code), (''state'', as_state session)] = Some location"
    using i(3) [symmetric] by (simp add: code_redirect_Return)
  ultimately show ?thesis using s i by blast
qed

definition sample_consent_world :: world where
  "sample_consent_world = sample_world\<lparr>db := sample_db\<lparr>db_auth_sessions :=
     [sample_auth_session\<lparr>as_authenticated_user_id := Some 2, as_auth_time := Some (seconds 990),
        as_scope := [''openid'', ''email'']\<rparr>]\<rparr>\<rparr>"

theorem consent_approve_sound_witness:
  "\<exists>session uid. session \<in> set (db_auth_sessions (db sample_consent_world)) \<and>
     \<not> auth_session_is_expired_at session (clock_src sample_consent_world (ticks sample_consent_world)) \<and>
     as_authenticated_user_id session = Some uid \<and>
     consent_given sample_libs
       (db (snd (run_state (consent_approve sample_libs sample_config 1 ''sess'' sample_ctx) sample_consent_world)))
       1 uid (as_client_id session) (as_scope session)"
proof -
  have "fst (run_state (consent_approve sample_libs sample_config 1 ''sess'' sample_ctx) sample_consent_world) =
    Return (ConsentApproved ''https://app/cb?code=0rrrrrrrrrrrrrrrrrrrrrrrrrrrrrrrr&state=st'')" by code_simp
  from consent_approve_sound [OF run_fstI [OF this]] show ?thesis by blast
qed

text \<open>
  Refusing tells the client \<open>access_denied\<close> with the request's state, at the session's redirect URI, and
  leaves codes, consents, tokens and SSO sessions as they are.
\<close>

theorem consent_deny_sound:
  assumes "run_state (consent_deny E tenant sid ctx) w = (Return out, w')"
  shows "db_codes (db w') = db_codes (db w) \<and> db_consents (db w') = db_consents (db w) \<and>
     db_refresh_tokens (db w') = db_refresh_tokens (db w) \<and> db_sso_sessions (db w') = db_sso_sessions (db w) \<and>
     (\<forall>l. out \<noteq> ConsentApproved l) \<and>
     (\<forall>location. out = ConsentRefused location \<longrightarrow> (\<exists>session \<in> set (db_auth_sessions (db w)).
        as_tenant_id session = tenant \<and> db_eq E (as_id session) sid \<and>
        url_append E (as_redirect_uri session)
          [(''error'', ''access_denied''), (''error_description'', ''user denied consent''),
           (''state'', as_state session)] = Some location))"
proof -
  have f: "frame (\<lambda>d. (db_codes d, db_consents d, db_refresh_tokens d, db_sso_sessions d)) w w'"
    by (rule alwaysD [OF _ assms], unfold consent_deny_def live_session_def)
       (intro frame.always_rules frame_ops frame_audit frame_auth_sessions; simp)
  have "(\<forall>l. out \<noteq> ConsentApproved l) \<and> (\<forall>location. out = ConsentRefused location \<longrightarrow> (\<exists>session \<in> set (db_auth_sessions (db w)).
        as_tenant_id session = tenant \<and> db_eq E (as_id session) sid \<and>
        error_redirect_with_state E (as_redirect_uri session) AccessDenied ''user denied consent''
             (Some (as_state session)) = Return location))"
    using assms unfolding consent_deny_def
    by (auto simp: run_rules map_outcome_Return dest!: live_session_Inr)
  with f show ?thesis
    by (fastforce simp: frame_def error_redirect_with_state_def split: option.splits)
qed

theorem consent_deny_sound_witness:
  "fst (run_state (consent_deny sample_libs 1 ''sess'' sample_ctx) sample_consent_world) =
     Return (ConsentRefused ''https://app/cb?error=access_denied&error_description=user denied consent&state=st'') \<and>
   db_codes (db (snd (run_state (consent_deny sample_libs 1 ''sess'' sample_ctx) sample_consent_world))) =
     db_codes (db sample_consent_world)"
proof -
  have run: "fst (run_state (consent_deny sample_libs 1 ''sess'' sample_ctx) sample_consent_world) =
     Return (ConsentRefused ''https://app/cb?error=access_denied&error_description=user denied consent&state=st'')"
    by code_simp
  from consent_deny_sound [OF run_fstI [OF this]] run show ?thesis by blast
qed

section \<open>A session that changes hands\<close>

text \<open>
  \<open>set_password_verified\<close> replaces the user of a session and leaves the authentication time. When the
  session had one, from the single sign-on of another user at the authorization endpoint, the consent
  service takes the new user as fully authenticated: the second factor that the login service has
  just asked for is never checked.
\<close>

definition shared_session_world :: world where
  "shared_session_world = sample_mfa_world\<lparr>db := (db sample_mfa_world)\<lparr>
     db_users := [sample_user, sample_user\<lparr>u_id := 6, u_sub := 7, u_preferred_username := Some ''bob''\<rparr>],
     db_auth_sessions := [sample_auth_session\<lparr>as_authenticated_user_id := Some 6,
        as_auth_time := Some (seconds 990), as_scope := [''openid'', ''email'']\<rparr>]\<rparr>\<rparr>"

lemma second_factor_bypassed:
  "let (out1, w1) = run_state (login sample_libs sample_config 1 sample_login sample_ctx) shared_session_world;
       (out2, w2) = run_state (consent_approve sample_libs sample_config 1 ''sess'' sample_ctx) w1
   in confirmed_totp (db shared_session_world) 2 \<and> out1 = Return (MfaRequired ''sess'') \<and>
      out2 = Return (ConsentApproved ''https://app/cb?code=0rrrrrrrrrrrrrrrrrrrrrrrrrrrrrrrr&state=st'') \<and>
      ac_user_id (last (db_codes (db w2))) = 2"
  by code_simp

end
