(* ===== verification/TokenStatus.thy ===== *)
theory TokenStatus
  imports Token Evolution Samples
begin

text \<open>
  What happens to tokens after they are issued: the userinfo endpoint (\<^verbatim>\<open>application/userinfo.rs\<close>),
  introspection (\<^verbatim>\<open>application/introspection.rs\<close>) and revocation (\<^verbatim>\<open>application/revocation.rs\<close>).
\<close>

section \<open>Userinfo\<close>

record user_info_claims =
  ui_sub :: string
  ui_email :: "string option"
  ui_email_verified :: "bool option"
  ui_preferred_username :: "string option"
  ui_name :: "string option"

datatype user_info_error = InvalidToken string | InsufficientScope | UserInfoInternal string

definition userinfo_failed :: "domain_error \<Rightarrow> user_info_error" where
  "userinfo_failed e = UserInfoInternal (domain_error_to_string e)"

definition token_expired :: "config \<Rightarrow> access_token_claims \<Rightarrow> instant \<Rightarrow> bool" where
  "token_expired C claims now \<longleftrightarrow> i64 (at_exp claims + num_seconds (clock_skew C)) \<le> timestamp now"

definition verify_access_token ::
  "libs \<Rightarrow> config \<Rightarrow> tenant_id \<Rightarrow> string \<Rightarrow> (world, user_info_error + access_token_claims) state" where
  "verify_access_token E C tenant token =
     (case jwt_header E token of
        None \<Rightarrow> State_Monad.return (Inl (InvalidToken ''malformed token''))
      | Some (typ, kid) \<Rightarrow>
          and_then (require (typ = Some ''at+jwt'') (InvalidToken ''token typ must be `at+jwt`'')) (\<lambda>_.
          case kid of
            None \<Rightarrow> State_Monad.return (Inl (InvalidToken ''token has no kid''))
          | Some kid \<Rightarrow>
              and_then (map_err userinfo_failed (signing_keys_find_by_kid E kid)) (\<lambda>found.
              case found of
                None \<Rightarrow> State_Monad.return (Inl (InvalidToken ''unknown signing key''))
              | Some key \<Rightarrow>
                  (case decoding_key_from_public_pem E (sk_public_key key) of
                     Inl e \<Rightarrow> State_Monad.return (Inl (UserInfoInternal e))
                   | Inr decoding_key \<Rightarrow>
                       (case jwt_decode E token decoding_key Rs256 of
                          None \<Rightarrow> State_Monad.return (Inl (InvalidToken ''signature verification failed''))
                        | Some claims \<Rightarrow>
                            let expected_issuer = tenant_issuer E (base_issuer C) tenant in
                            and_then (require (at_iss claims = expected_issuer) (InvalidToken ''issuer mismatch'')) (\<lambda>_.
                            and_then (require (at_aud claims = userinfo_audience expected_issuer)
                                        (InvalidToken ''audience mismatch'')) (\<lambda>_. do {
                            now \<leftarrow> clock_now;
                            and_then (require (\<not> token_expired C claims now) (InvalidToken ''token expired'')) (\<lambda>_.
                            if at_jti claims = [] then State_Monad.return (Inr claims)
                            else
                              and_then (map_err userinfo_failed (revoked_tokens_is_revoked E (at_jti claims))) (\<lambda>revoked.
                              and_then (require (\<not> revoked) (InvalidToken ''token has been revoked'')) (\<lambda>_.
                              State_Monad.return (Inr claims)))) })))))))"

definition userinfo ::
  "libs \<Rightarrow> config \<Rightarrow> tenant_id \<Rightarrow> string \<Rightarrow> (world, user_info_error + user_info_claims) state" where
  "userinfo E C tenant bearer_token =
     and_then (verify_access_token E C tenant bearer_token) (\<lambda>claims.
     let scopes = split_whitespace (at_scope claims) in
     and_then (require (has_scope scopes OpenId) InsufficientScope) (\<lambda>_.
     case uuid_parse E (at_sub claims) of
       None \<Rightarrow> State_Monad.return (Inl (InvalidToken ''invalid subject''))
     | Some sub \<Rightarrow>
         and_then (map_err userinfo_failed (users_find_by_sub sub)) (\<lambda>found.
         case found of
           None \<Rightarrow> State_Monad.return (Inl (InvalidToken ''unknown subject''))
         | Some user \<Rightarrow>
             and_then (require (user_is_active user) (InvalidToken ''user is not active'')) (\<lambda>_.
             State_Monad.return (Inr
               \<lparr>ui_sub = uuid_to_string E (u_sub user),
                ui_email = then_some (has_scope scopes Email) (u_email user),
                ui_email_verified = then_some (has_scope scopes Email) (u_email_verified user),
                ui_preferred_username = (if has_scope scopes Profile then u_preferred_username user else None),
                ui_name = (if has_scope scopes Profile then u_name user else None)\<rparr>)))))"

section \<open>Introspection\<close>

record introspection_response =
  ir_active :: bool
  ir_scope :: "string option"
  ir_client_id :: "string option"
  ir_username :: "string option"
  ir_token_type :: "string option"
  ir_exp :: "int option"
  ir_iat :: "int option"
  ir_sub :: "string option"
  ir_iss :: "string option"
  ir_jti :: "string option"

definition inactive :: introspection_response where
  "inactive =
     \<lparr>ir_active = False, ir_scope = None, ir_client_id = None, ir_username = None,
      ir_token_type = None, ir_exp = None, ir_iat = None, ir_sub = None, ir_iss = None, ir_jti = None\<rparr>"

record introspection_error =
  ie_code :: oauth_error_code
  ie_description :: string

definition introspection_error_new :: "oauth_error_code \<Rightarrow> string \<Rightarrow> introspection_error" where
  "introspection_error_new code description = \<lparr>ie_code = code, ie_description = description\<rparr>"

definition authenticate_confidential_client ::
  "libs \<Rightarrow> tenant_id \<Rightarrow> string \<Rightarrow> (string \<times> string) option \<Rightarrow>
   (world, introspection_error + client) state" where
  "authenticate_confidential_client E tenant client_id basic_credentials =
     (let err = introspection_error_new InvalidClient in
      and_then (map_err (\<lambda>e. err (domain_error_to_string e)) (clients_find_by_client_id E tenant client_id)) (\<lambda>found.
      case found of
        None \<Rightarrow> State_Monad.return (Inl (err ''unknown client''))
      | Some client \<Rightarrow>
          and_then (require (client_is_active client) (err ''client is disabled'')) (\<lambda>_.
          and_then (require (c_token_endpoint_auth_method client = ClientSecretBasic)
            (err ''introspection requires confidential client (client_secret_basic)'')) (\<lambda>_.
          case basic_credentials of
            None \<Rightarrow> State_Monad.return (Inl (err ''client_secret_basic authentication required''))
          | Some (cid, secret) \<Rightarrow>
              and_then (require (cid = client_id) (err ''client_id mismatch'')) (\<lambda>_.
              case c_client_secret_hash client of
                None \<Rightarrow> State_Monad.return (Inl (err ''client has no secret''))
              | Some hash \<Rightarrow>
                  (case hasher_verify E secret hash of
                     Inl e \<Rightarrow> State_Monad.return (Inl (introspection_error_new ServerError (domain_error_to_string e)))
                   | Inr ok \<Rightarrow>
                       and_then (require ok (err ''client authentication failed'')) (\<lambda>_.
                       State_Monad.return (Inr client))))))))"

definition subject_is_active :: "libs \<Rightarrow> string \<Rightarrow> (world, bool) state" where
  "subject_is_active E sub =
     (case uuid_parse E sub of
        None \<Rightarrow> State_Monad.return False
      | Some sub \<Rightarrow> do {
          r \<leftarrow> users_find_by_sub sub;
          State_Monad.return (case r of Inr (Some user) \<Rightarrow> user_is_active user | _ \<Rightarrow> False)
        })"

definition introspect_access_token ::
  "libs \<Rightarrow> config \<Rightarrow> string \<Rightarrow> string \<Rightarrow> (world, introspection_response) state" where
  "introspect_access_token E C token issuer =
     (case jwt_header E token of
        None \<Rightarrow> State_Monad.return inactive
      | Some (typ, kid) \<Rightarrow>
          if typ \<noteq> Some ''at+jwt'' then State_Monad.return inactive
          else case kid of
            None \<Rightarrow> State_Monad.return inactive
          | Some kid \<Rightarrow> do {
              found \<leftarrow> signing_keys_find_by_kid E kid;
              case found of
                Inl _ \<Rightarrow> State_Monad.return inactive
              | Inr None \<Rightarrow> State_Monad.return inactive
              | Inr (Some key) \<Rightarrow>
                  (case decoding_key_from_public_pem E (sk_public_key key) of
                     Inl _ \<Rightarrow> State_Monad.return inactive
                   | Inr decoding_key \<Rightarrow>
                       (case jwt_decode E token decoding_key Rs256 of
                          None \<Rightarrow> State_Monad.return inactive
                        | Some claims \<Rightarrow>
                            if at_iss claims \<noteq> issuer \<or> at_aud claims \<noteq> userinfo_audience issuer
                            then State_Monad.return inactive
                            else do {
                              now \<leftarrow> clock_now;
                              if token_expired C claims now then State_Monad.return inactive
                              else do {
                                revoked \<leftarrow> (if at_jti claims = [] then State_Monad.return (Inr False)
                                            else revoked_tokens_is_revoked E (at_jti claims));
                                case revoked of
                                  Inl _ \<Rightarrow> State_Monad.return inactive
                                | Inr listed \<Rightarrow> if listed then State_Monad.return inactive else do {
                                    active \<leftarrow> subject_is_active E (at_sub claims);
                                    State_Monad.return (if \<not> active then inactive else
                                      \<lparr>ir_active = True, ir_scope = Some (at_scope claims),
                                       ir_client_id = Some (at_client_id claims), ir_username = None,
                                       ir_token_type = Some ''Bearer'', ir_exp = Some (at_exp claims),
                                       ir_iat = Some (at_iat claims), ir_sub = Some (at_sub claims),
                                       ir_iss = Some (at_iss claims), ir_jti = Some (at_jti claims)\<rparr>)
                                  }
                              }
                            }))
            })"

definition introspect_refresh_token ::
  "libs \<Rightarrow> tenant_id \<Rightarrow> string \<Rightarrow> string \<Rightarrow> (world, introspection_response) state" where
  "introspect_refresh_token E tenant token issuer = do {
     found \<leftarrow> refresh_tokens_find_by_hash E tenant (sha256_hex E token);
     case found of
       Inl _ \<Rightarrow> State_Monad.return inactive
     | Inr None \<Rightarrow> State_Monad.return inactive
     | Inr (Some rt) \<Rightarrow> do {
         now \<leftarrow> clock_now;
         if \<not> refresh_is_valid_at rt now then State_Monad.return inactive
         else do {
           r \<leftarrow> users_find_by_id (rt_user_id rt);
           State_Monad.return (
             if \<not> (case r of Inr (Some user) \<Rightarrow> user_is_active user | _ \<Rightarrow> False) then inactive else
             \<lparr>ir_active = True, ir_scope = Some (join '' '' (rt_scope rt)), ir_client_id = Some (rt_client_id rt),
              ir_username = None, ir_token_type = Some ''refresh_token'',
              ir_exp = Some (timestamp (rt_expires_at rt)), ir_iat = None,
              ir_sub = Some (uuid_to_string E (rt_user_id rt)), ir_iss = Some issuer, ir_jti = None\<rparr>)
         }
       }
   }"

definition introspect ::
  "libs \<Rightarrow> config \<Rightarrow> tenant_id \<Rightarrow> string \<Rightarrow> string option \<Rightarrow> string \<Rightarrow> (string \<times> string) option \<Rightarrow>
   (world, introspection_error + introspection_response) state" where
  "introspect E C tenant token token_type_hint client_id basic_credentials =
     (if token = [] then State_Monad.return (Inr inactive)
      else and_then (authenticate_confidential_client E tenant client_id basic_credentials) (\<lambda>_.
        let issuer = tenant_issuer E (base_issuer C) tenant in
        if token_type_hint = Some ''refresh_token'' then do {
          resp \<leftarrow> introspect_refresh_token E tenant token issuer;
          if ir_active resp then State_Monad.return (Inr resp)
          else do { resp \<leftarrow> introspect_access_token E C token issuer; State_Monad.return (Inr resp) }
        }
        else do {
          resp \<leftarrow> introspect_access_token E C token issuer;
          if ir_active resp then State_Monad.return (Inr resp)
          else do { resp \<leftarrow> introspect_refresh_token E tenant token issuer; State_Monad.return (Inr resp) }
        }))"

section \<open>Revocation\<close>

record revocation_error =
  re_code :: oauth_error_code
  re_description :: string

definition revocation_error_new :: "oauth_error_code \<Rightarrow> string \<Rightarrow> revocation_error" where
  "revocation_error_new code description = \<lparr>re_code = code, re_description = description\<rparr>"

definition record_auth_failure :: "tenant_id \<Rightarrow> string \<Rightarrow> request_context \<Rightarrow> (world, unit) state" where
  "record_auth_failure tenant client_id ctx =
     audit_record ClientAuthenticationFailed AuditFailure (Some tenant) None (Some client_id)
       (Some ''revocation'') ctx"

definition load_client ::
  "libs \<Rightarrow> tenant_id \<Rightarrow> string \<Rightarrow> (string \<times> string) option \<Rightarrow> request_context \<Rightarrow>
   (world, revocation_error + client) state" where
  "load_client E tenant client_id basic_credentials ctx =
     (let err = revocation_error_new InvalidClient;
          refuse = (\<lambda>client description. do {
            record_auth_failure tenant (c_client_id client) ctx;
            State_Monad.return (Inl (err description)) })
      in
      and_then (map_err (\<lambda>e. revocation_error_new ServerError (domain_error_to_string e))
                  (clients_find_by_client_id E tenant client_id)) (\<lambda>found.
      case found of
        None \<Rightarrow> State_Monad.return (Inl (err ''unknown client''))
      | Some client \<Rightarrow>
          and_then (require (client_is_active client) (err ''client is disabled'')) (\<lambda>_.
          if c_token_endpoint_auth_method client = ClientSecretBasic then
            case basic_credentials of
              None \<Rightarrow> refuse client ''client_secret_basic authentication required''
            | Some (cid, secret) \<Rightarrow>
                if cid \<noteq> client_id then refuse client ''client_id mismatch''
                else case c_client_secret_hash client of
                  None \<Rightarrow> State_Monad.return (Inl (err ''client has no secret''))
                | Some hash \<Rightarrow>
                    (case hasher_verify E secret hash of
                       Inl e \<Rightarrow> State_Monad.return (Inl (revocation_error_new ServerError (domain_error_to_string e)))
                     | Inr ok \<Rightarrow> if \<not> ok then refuse client ''client authentication failed''
                                 else State_Monad.return (Inr client))
          else State_Monad.return (Inr client))))"

text \<open>The method answers yes whenever the statement was executed, whether or not it found a row.\<close>

definition try_revoke_refresh_token :: "libs \<Rightarrow> string \<Rightarrow> instant \<Rightarrow> (world, bool) state" where
  "try_revoke_refresh_token E token now = do {
     r \<leftarrow> refresh_tokens_revoke E (sha256_hex E token) now;
     State_Monad.return (case r of Inl _ \<Rightarrow> False | Inr _ \<Rightarrow> True)
   }"

definition token_jti_exp :: "libs \<Rightarrow> string \<Rightarrow> (string \<times> int) option" where
  "token_jti_exp E token =
     (case split_on CHR ''.'' token of
        _ # part # _ \<Rightarrow>
          (case b64url_decode E part of
             None \<Rightarrow> None
           | Some payload \<Rightarrow>
               (case json_jti_exp E payload of
                  None \<Rightarrow> None
                | Some (jti, exp) \<Rightarrow>
                    (case jti of
                       None \<Rightarrow> None
                     | Some j \<Rightarrow> if j = [] then None else Some (j, case exp of Some e \<Rightarrow> e | None \<Rightarrow> 0))))
      | _ \<Rightarrow> None)"

definition try_revoke_access_token :: "libs \<Rightarrow> string \<Rightarrow> instant \<Rightarrow> (world, bool) state" where
  "try_revoke_access_token E token now =
     (case token_jti_exp E token of
        None \<Rightarrow> State_Monad.return False
      | Some (jti, exp) \<Rightarrow> do {
          r \<leftarrow> revoked_tokens_revoke E
            \<lparr>ra_jti = jti, ra_revoked_at = now,
             ra_expires_at = (case from_timestamp E exp of Some t \<Rightarrow> t | None \<Rightarrow> now)\<rparr>;
          State_Monad.return (case r of Inl _ \<Rightarrow> False | Inr _ \<Rightarrow> True)
        })"

definition revoke_token ::
  "libs \<Rightarrow> tenant_id \<Rightarrow> string \<Rightarrow> string option \<Rightarrow> string \<Rightarrow> (string \<times> string) option \<Rightarrow> request_context \<Rightarrow>
   (world, revocation_error + unit) state" where
  "revoke_token E tenant token token_type_hint client_id basic_credentials ctx =
     (if token = [] then State_Monad.return (Inr ())
      else and_then (load_client E tenant client_id basic_credentials ctx) (\<lambda>client. do {
        now \<leftarrow> clock_now;
        _ \<leftarrow> (if token_type_hint = Some ''access_token'' then do {
          ok \<leftarrow> try_revoke_access_token E token now;
          if \<not> ok then try_revoke_refresh_token E token now else State_Monad.return True
        }
        else do {
          ok \<leftarrow> try_revoke_refresh_token E token now;
          if \<not> ok then try_revoke_access_token E token now else State_Monad.return True
        });
        audit_record RefreshTokenUsed AuditSuccess (Some tenant) None (Some (c_client_id client))
          (Some ''revocation'') ctx;
        State_Monad.return (Inr ())
      }))"

section \<open>When an access token is good\<close>

text \<open>
  The specification both endpoints implement: the token is signed by a known key, was issued by and for
  this tenant, has not expired beyond the tolerated skew, and is not on the revocation list.
\<close>

definition access_token_good ::
  "libs \<Rightarrow> config \<Rightarrow> database \<Rightarrow> tenant_id \<Rightarrow> string \<Rightarrow> instant \<Rightarrow> access_token_claims \<Rightarrow> bool" where
  "access_token_good E C d tenant token now claims \<longleftrightarrow>
     (\<exists>kid key k. jwt_header E token = Some (Some ''at+jwt'', Some kid) \<and>
        find (\<lambda>x. db_eq E (sk_kid x) kid) (db_signing_keys d) = Some key \<and>
        rsa_decoding_key E (sk_public_key key) = Inr k \<and> jwt_decode E token k Rs256 = Some claims) \<and>
     at_iss claims = tenant_issuer E (base_issuer C) tenant \<and>
     at_aud claims = userinfo_audience (tenant_issuer E (base_issuer C) tenant) \<and>
     \<not> token_expired C claims now \<and> (at_jti claims \<noteq> [] \<longrightarrow> \<not> jti_revoked E (at_jti claims) d)"

definition active_subject :: "libs \<Rightarrow> database \<Rightarrow> string \<Rightarrow> user \<Rightarrow> bool" where
  "active_subject E d sub user \<longleftrightarrow> (\<exists>i. uuid_parse E sub = Some i \<and>
     find (\<lambda>u. u_sub u = i) (db_users d) = Some user) \<and> user_is_active user"

lemma decoding_key_Inr [simp]:
  "decoding_key_from_public_pem E p = Inr k \<longleftrightarrow> rsa_decoding_key E p = Inr k"
  by (auto simp: decoding_key_from_public_pem_def split: sum.splits)

lemma verify_access_token_Inr:
  assumes "run_state (verify_access_token E C tenant token) w = (Inr claims, w')"
  shows "access_token_good E C (db w) tenant token (clock_src w (Suc (ticks w))) claims \<and> db w' = db w"
  using assms unfolding verify_access_token_def
  by (auto simp: run_rules Let_def signing_keys_find_by_kid_def revoked_tokens_is_revoked_def access_token_good_def)

lemma subject_is_active_True:
  "run_state (subject_is_active E sub) w = (True, w') \<Longrightarrow> (\<exists>user. active_subject E (db w) sub user) \<and> db w' = db w"
  by (auto simp: subject_is_active_def active_subject_def users_find_by_sub_def run_rules)

lemma introspect_access_token_active:
  assumes "run_state (introspect_access_token E C token issuer) w = (resp, w')" and "ir_active resp"
    and "issuer = tenant_issuer E (base_issuer C) tenant"
  shows "\<exists>claims user. access_token_good E C (db w) tenant token (clock_src w (Suc (ticks w))) claims \<and>
     active_subject E (db w) (at_sub claims) user \<and>
     resp = \<lparr>ir_active = True, ir_scope = Some (at_scope claims), ir_client_id = Some (at_client_id claims),
       ir_username = None, ir_token_type = Some ''Bearer'', ir_exp = Some (at_exp claims),
       ir_iat = Some (at_iat claims), ir_sub = Some (at_sub claims), ir_iss = Some (at_iss claims),
       ir_jti = Some (at_jti claims)\<rparr>"
  using assms unfolding introspect_access_token_def
  by (auto simp: run_rules inactive_def signing_keys_find_by_kid_def revoked_tokens_is_revoked_def
      access_token_good_def split: if_splits dest!: subject_is_active_True) blast+

text \<open>With a database that answers, the good tokens are accepted.\<close>

lemma verify_access_token_good:
  assumes "\<forall>n. fault_src w n = None"
    and "access_token_good E C (db w) tenant token (clock_src w (Suc (ticks w))) claims"
  shows "\<exists>w'. run_state (verify_access_token E C tenant token) w = (Inr claims, w') \<and> db w' = db w \<and>
     fault_src w' = fault_src w"
  using assms unfolding verify_access_token_def access_token_good_def
  by (cases "at_jti claims = []")
     (auto simp: run_rules Let_def signing_keys_find_by_kid_def revoked_tokens_is_revoked_def)

definition info_of :: "libs \<Rightarrow> access_token_claims \<Rightarrow> user \<Rightarrow> user_info_claims" where
  "info_of E claims user =
     (let scopes = split_whitespace (at_scope claims) in
      \<lparr>ui_sub = uuid_to_string E (u_sub user),
       ui_email = (if ''email'' \<in> set scopes then Some (u_email user) else None),
       ui_email_verified = (if ''email'' \<in> set scopes then Some (u_email_verified user) else None),
       ui_preferred_username = (if ''profile'' \<in> set scopes then u_preferred_username user else None),
       ui_name = (if ''profile'' \<in> set scopes then u_name user else None)\<rparr>)"

lemma has_scope_iff [simp]:
  "has_scope ss OpenId \<longleftrightarrow> ''openid'' \<in> set ss" "has_scope ss Email \<longleftrightarrow> ''email'' \<in> set ss"
  "has_scope ss Profile \<longleftrightarrow> ''profile'' \<in> set ss"
  by (auto simp: has_scope_def list_ex_iff)

lemma userinfo_Inr:
  assumes "run_state (userinfo E C tenant token) w = (Inr info, w')"
  shows "\<exists>claims user. access_token_good E C (db w) tenant token (clock_src w (Suc (ticks w))) claims \<and>
     ''openid'' \<in> set (split_whitespace (at_scope claims)) \<and>
     active_subject E (db w) (at_sub claims) user \<and> info = info_of E claims user \<and> db w' = db w"
  using assms unfolding userinfo_def
  apply (clarsimp simp: run_rules Let_def users_find_by_sub_def then_some_def dest!: verify_access_token_Inr
      split del: if_split)
  subgoal for claims v sub user
    by (intro exI [of _ claims] exI [of _ user]) (simp add: active_subject_def info_of_def Let_def)
  done

lemma userinfo_good:
  assumes "\<forall>n. fault_src w n = None"
    and "access_token_good E C (db w) tenant token (clock_src w (Suc (ticks w))) claims"
    and "''openid'' \<in> set (split_whitespace (at_scope claims))"
    and "active_subject E (db w) (at_sub claims) user"
  shows "fst (run_state (userinfo E C tenant token) w) = Inr (info_of E claims user)"
proof -
  from verify_access_token_good [OF assms(1,2)] obtain w1 where
    v: "run_state (verify_access_token E C tenant token) w = (Inr claims, w1)" "db w1 = db w" "fault_src w1 = fault_src w"
    by blast
  have "\<exists>w'. run_state (userinfo E C tenant token) w = (Inr (info_of E claims user), w')"
    using assms(1,3,4) v unfolding userinfo_def
    by (auto simp: run_rules Let_def users_find_by_sub_def active_subject_def info_of_def then_some_def)
  then show ?thesis by auto
qed

section \<open>Revocation lists only grow\<close>

inductive revoked_stmt :: "libs \<Rightarrow> revoked_access_token list \<Rightarrow> revoked_access_token list \<Rightarrow> bool" for E where
  insert: "revoked_stmt E rows (insert_revoked E t rows)"

lemma revoked_stmt_keeps:
  "revoked_stmt E rows rows' \<Longrightarrow> list_ex (\<lambda>r. db_eq E (ra_jti r) j) rows \<Longrightarrow> list_ex (\<lambda>r. db_eq E (ra_jti r) j) rows'"
  by (erule revoked_stmt.cases) (auto simp: insert_revoked_def)

lemma revoked_evolves:
  assumes "evolves db_revoked_tokens (revoked_stmt E) w w'" and "jti_revoked E j (db w)"
  shows "jti_revoked E j (db w')"
proof -
  have "(revoked_stmt E)\<^sup>*\<^sup>* (db_revoked_tokens (db w)) (db_revoked_tokens (db w'))"
    using assms(1) by (simp add: evolves_def)
  then show ?thesis
    using assms(2) unfolding jti_revoked_def
    by (induction rule: rtranclp_induct) (auto intro: revoked_stmt_keeps)
qed

lemma revoked_insert: "list_ex (\<lambda>r. db_eq E (ra_jti r) (ra_jti t)) (insert_revoked E t rows)"
  by (simp add: insert_revoked_def)

lemma evolves_revoked: "always (evolves db_revoked_tokens (revoked_stmt E)) (revoked_tokens_revoke E t)"
  unfolding revoked_tokens_revoke_def
  by (rule evolves_db_execute) (auto intro: r_into_rtranclp revoked_stmt.intros)

text \<open>
  What jsonwebtoken promises of a token it accepts: it has three parts, and the claims are those of the
  JSON in the second.
\<close>

definition jwt_payload_ok :: "libs \<Rightarrow> bool" where
  "jwt_payload_ok E \<longleftrightarrow> (\<forall>token key alg claims. jwt_decode E token key alg = Some claims \<longrightarrow>
     (\<exists>h p s payload exp. split_on CHR ''.'' token = [h, p, s] \<and> b64url_decode E p = Some payload \<and>
        json_jti_exp E payload = Some (Some (at_jti claims), exp)))"

lemma token_jti_exp_decode:
  "jwt_payload_ok E \<Longrightarrow> jwt_decode E token key alg = Some claims \<Longrightarrow> at_jti claims \<noteq> [] \<Longrightarrow>
   \<exists>exp. token_jti_exp E token = Some (at_jti claims, exp)"
  unfolding jwt_payload_ok_def by (fastforce simp: token_jti_exp_def)

lemma load_client_db:
  "run_state (load_client E tenant cid creds ctx) w = (Inr client, w') \<Longrightarrow> db w' = db w \<and> fault_src w' = fault_src w"
  by (auto simp: load_client_def Let_def run_rules clients_find_by_client_id_def record_auth_failure_def)

lemma run_db_execute_ok:
  "fault_src w (db_calls w) = None \<Longrightarrow>
   run_state (db_execute u) w = (Inr (), (called w)\<lparr>db := u (clock_src w (ticks w)) (db w)\<rparr>)"
  by (simp add: db_execute_def db_call_def called_def Let_def)

lemma revoke_access_token_listed:
  assumes "\<forall>n. fault_src w n = None" and "token_jti_exp E token = Some (jti, exp)" and "token \<noteq> []"
    and "run_state (revoke_token E tenant token (Some ''access_token'') cid creds ctx) w = (Inr (), w')"
  shows "jti_revoked E jti (db w')"
proof -
  from assms(3,4) obtain client w1 w2 w3 now ok where
      l: "run_state (load_client E tenant cid creds ctx) w = (Inr client, w1)"
    and a: "run_state (try_revoke_access_token E token now) (tick w1) = (ok, w2)"
    and r: "w3 = w2 \<or> (\<exists>b. run_state (try_revoke_refresh_token E token now) w2 = (b, w3))"
    and t: "tables (db w') = tables (db w3)"
    unfolding revoke_token_def by (auto simp: run_rules dest!: run_audit) blast+
  from a assms(1,2) load_client_db [OF l] have "jti_revoked E jti (db w2)"
    by (auto simp: try_revoke_access_token_def revoked_tokens_revoke_def jti_revoked_def run_bindE run_returnE
        run_db_execute_ok revoked_insert [where t = "\<lparr>ra_jti = jti, ra_revoked_at = x, ra_expires_at = y\<rparr>" for x y, simplified])
  moreover have "db_revoked_tokens (db w3) = db_revoked_tokens (db w2)"
    using r by (auto simp: try_revoke_refresh_token_def refresh_tokens_revoke_def run_bindE run_returnE
        db_execute_def db_call_def Let_def split: option.splits if_splits)
  ultimately show ?thesis using t by (simp add: jti_revoked_def tables_eq_iff)
qed

lemma introspect_refresh_active:
  assumes "run_state (introspect_refresh_token E tenant token issuer) w = (resp, w')" and "ir_active resp"
  shows "\<exists>rt user. rt \<in> set (db_refresh_tokens (db w)) \<and> rt_tenant_id rt = tenant \<and>
     db_eq E (rt_token_hash rt) (sha256_hex E token) \<and> refresh_is_valid_at rt (clock_src w (Suc (ticks w))) \<and>
     user \<in> set (db_users (db w)) \<and> u_id user = rt_user_id rt \<and> user_is_active user \<and>
     ir_client_id resp = Some (rt_client_id rt) \<and> ir_scope resp = Some (join '' '' (rt_scope rt)) \<and> ir_jti resp = None"
  using assms unfolding introspect_refresh_token_def
  by (auto simp: run_rules inactive_def refresh_tokens_find_by_hash_def users_find_by_id_def
      split: if_splits dest!: find_SomeD) blast

lemma introspect_inactive:
  "run_state (introspect_access_token E C token issuer) w = (resp, w') \<Longrightarrow> \<not> ir_active resp \<Longrightarrow> resp = inactive"
  "run_state (introspect_refresh_token E tenant token issuer) w = (resp, w') \<Longrightarrow> \<not> ir_active resp \<Longrightarrow> resp = inactive"
  unfolding introspect_access_token_def introspect_refresh_token_def
  by (auto simp: run_rules split: if_splits)

lemma frame_introspect: "always (frame T) (introspect E C tenant token hint cid creds)"
  "always (frame T) (introspect_access_token E C token iss)"
  "always (frame T) (introspect_refresh_token E tenant token iss)"
  unfolding introspect_def authenticate_confidential_client_def introspect_access_token_def
    introspect_refresh_token_def subject_is_active_def Let_def
  by (intro frame.always_rules frame_ops conjI; simp)+

lemma introspect_Inr:
  assumes "run_state (introspect E C tenant token hint cid creds) w = (Inr resp, w')" and "token \<noteq> []"
  shows "\<exists>client w1. run_state (authenticate_confidential_client E tenant cid creds) w = (Inr client, w1) \<and>
    (\<exists>w2 w3. db w2 = db w \<and>
      (run_state (introspect_access_token E C token (tenant_issuer E (base_issuer C) tenant)) w2 = (resp, w3) \<or>
       run_state (introspect_refresh_token E tenant token (tenant_issuer E (base_issuer C) tenant)) w2 = (resp, w3)))"
proof -
  have auth: "db v' = db v" if "run_state (authenticate_confidential_client E tenant cid creds) v = (r, v')" for v v' r
  proof -
    have "always (frame (\<lambda>d. d)) (authenticate_confidential_client E tenant cid creds)"
      unfolding authenticate_confidential_client_def Let_def by (intro frame.always_rules frame_ops)
    from alwaysD [OF this that] show ?thesis by (simp add: frame_def)
  qed
  note F = frame_introspect(2,3) [of "\<lambda>d. d", THEN alwaysD, unfolded frame_def]
  show ?thesis
    using assms unfolding introspect_def
    by (auto simp: run_rules Let_def dest: auth F) (metis auth F)+
qed

lemma authenticate_confidential_Inr:
  assumes "run_state (authenticate_confidential_client E tenant cid creds) w = (Inr client, w')"
  shows "client \<in> set (db_clients (db w)) \<and> c_tenant_id client = tenant \<and> client_is_active client \<and>
     db_eq E (c_client_id client) cid \<and> c_token_endpoint_auth_method client = ClientSecretBasic \<and>
     (\<exists>secret hash. creds = Some (cid, secret) \<and> c_client_secret_hash client = Some hash \<and>
        hasher_verify E secret hash = Inr True)"
  using assms
  by (auto simp: authenticate_confidential_client_def Let_def clients_find_by_client_id_def run_rules dest!: find_SomeD)

section \<open>Properties\<close>

text \<open>
  C30. When the database answers, the userinfo endpoint returns claims exactly for good access tokens with the
  scope \<open>openid\<close> and an active subject: signed by a known key, issued by and for the tenant asked, not
  expired beyond the skew and not revoked. What it returns of the user is what the scopes allow.
\<close>

theorem userinfo_exact:
  assumes "\<forall>n. fault_src w n = None"
  shows "fst (run_state (userinfo E C tenant token) w) = Inr info \<longleftrightarrow>
    (\<exists>claims user. access_token_good E C (db w) tenant token (clock_src w (Suc (ticks w))) claims \<and>
       ''openid'' \<in> set (split_whitespace (at_scope claims)) \<and>
       active_subject E (db w) (at_sub claims) user \<and> info = info_of E claims user)"
proof
  assume "fst (run_state (userinfo E C tenant token) w) = Inr info"
  from userinfo_Inr [OF run_fstI [OF this]] show "\<exists>claims user.
      access_token_good E C (db w) tenant token (clock_src w (Suc (ticks w))) claims \<and>
       ''openid'' \<in> set (split_whitespace (at_scope claims)) \<and>
       active_subject E (db w) (at_sub claims) user \<and> info = info_of E claims user" by blast
next
  assume "\<exists>claims user. access_token_good E C (db w) tenant token (clock_src w (Suc (ticks w))) claims \<and>
       ''openid'' \<in> set (split_whitespace (at_scope claims)) \<and>
       active_subject E (db w) (at_sub claims) user \<and> info = info_of E claims user"
  then show "fst (run_state (userinfo E C tenant token) w) = Inr info"
    using userinfo_good [OF assms] by blast
qed

theorem userinfo_exact_witness:
  "fst (run_state (userinfo sample_libs sample_config 1 ''at+jwt.x.k1'') sample_world) =
     Inr \<lparr>ui_sub = ''uuu'', ui_email = Some ''a@b.c'', ui_email_verified = Some True,
          ui_preferred_username = None, ui_name = None\<rparr> \<and>
   (\<exists>claims user. access_token_good sample_libs sample_config (db sample_world) 1 ''at+jwt.x.k1'' (seconds 1000) claims \<and>
      active_subject sample_libs (db sample_world) (at_sub claims) user)"
proof -
  have run: "fst (run_state (userinfo sample_libs sample_config 1 ''at+jwt.x.k1'') sample_world) =
     Inr \<lparr>ui_sub = ''uuu'', ui_email = Some ''a@b.c'', ui_email_verified = Some True,
          ui_preferred_username = None, ui_name = None\<rparr>" by code_simp
  have ok: "\<forall>n. fault_src sample_world n = None" by (simp add: sample_world_def)
  have "clock_src sample_world (Suc (ticks sample_world)) = seconds 1000" by (simp add: sample_world_def)
  with run run [unfolded userinfo_exact [OF ok]] show ?thesis by auto
qed

text \<open>
  Introspection of a token that is not empty answers only an active confidential client of the tenant
  that gave its secret, and changes nothing. It says \<open>active\<close> only of a good access token with an active
  subject or of a valid refresh token of the tenant with an active user, and when it says \<open>inactive\<close> it
  says nothing else.
\<close>

theorem introspect_sound:
  assumes "run_state (introspect E C tenant token hint cid creds) w = (Inr resp, w')" and "token \<noteq> []"
  shows "db w' = db w \<and>
    (\<exists>client secret hash. client \<in> set (db_clients (db w)) \<and> c_tenant_id client = tenant \<and> client_is_active client \<and>
       c_token_endpoint_auth_method client = ClientSecretBasic \<and> creds = Some (cid, secret) \<and>
       c_client_secret_hash client = Some hash \<and> hasher_verify E secret hash = Inr True) \<and>
    (\<not> ir_active resp \<longrightarrow> resp = inactive) \<and>
    (ir_active resp \<longrightarrow>
       (\<exists>claims user now. access_token_good E C (db w) tenant token now claims \<and>
          active_subject E (db w) (at_sub claims) user \<and> ir_sub resp = Some (at_sub claims) \<and>
          ir_client_id resp = Some (at_client_id claims) \<and> ir_scope resp = Some (at_scope claims)) \<or>
       (\<exists>rt user now. rt \<in> set (db_refresh_tokens (db w)) \<and> rt_tenant_id rt = tenant \<and>
          db_eq E (rt_token_hash rt) (sha256_hex E token) \<and> refresh_is_valid_at rt now \<and>
          user \<in> set (db_users (db w)) \<and> u_id user = rt_user_id rt \<and> user_is_active user \<and>
          ir_client_id resp = Some (rt_client_id rt) \<and> ir_scope resp = Some (join '' '' (rt_scope rt))))"
proof -
  have "db w' = db w"
    using alwaysD [OF frame_introspect(1) assms(1), of "\<lambda>d. d"] by (simp add: frame_def)
  moreover from introspect_Inr [OF assms] obtain client w1 w2 w3 where
      a: "run_state (authenticate_confidential_client E tenant cid creds) w = (Inr client, w1)" "db w2 = db w"
    and r: "run_state (introspect_access_token E C token (tenant_issuer E (base_issuer C) tenant)) w2 = (resp, w3) \<or>
       run_state (introspect_refresh_token E tenant token (tenant_issuer E (base_issuer C) tenant)) w2 = (resp, w3)"
    by blast
  moreover have "\<not> ir_active resp \<longrightarrow> resp = inactive" using r introspect_inactive by blast
  moreover have "ir_active resp \<longrightarrow>
       (\<exists>claims user now. access_token_good E C (db w) tenant token now claims \<and>
          active_subject E (db w) (at_sub claims) user \<and> ir_sub resp = Some (at_sub claims) \<and>
          ir_client_id resp = Some (at_client_id claims) \<and> ir_scope resp = Some (at_scope claims)) \<or>
       (\<exists>rt user now. rt \<in> set (db_refresh_tokens (db w)) \<and> rt_tenant_id rt = tenant \<and>
          db_eq E (rt_token_hash rt) (sha256_hex E token) \<and> refresh_is_valid_at rt now \<and>
          user \<in> set (db_users (db w)) \<and> u_id user = rt_user_id rt \<and> user_is_active user \<and>
          ir_client_id resp = Some (rt_client_id rt) \<and> ir_scope resp = Some (join '' '' (rt_scope rt)))"
    using r
  proof
    assume "run_state (introspect_access_token E C token (tenant_issuer E (base_issuer C) tenant)) w2 = (resp, w3)"
    from introspect_access_token_active [OF this _ refl] a(2) show ?thesis by fastforce
  next
    assume "run_state (introspect_refresh_token E tenant token (tenant_issuer E (base_issuer C) tenant)) w2 = (resp, w3)"
    from introspect_refresh_active [OF this] a(2) show ?thesis by fastforce
  qed
  ultimately show ?thesis using authenticate_confidential_Inr [OF a(1)] by blast
qed

theorem introspect_sound_witness:
  "\<exists>resp. fst (run_state (introspect sample_libs sample_config 1 ''rt'' None ''backend'' (Some (''backend'', ''topsecret'')))
       sample_world) = Inr resp \<and> ir_active resp \<and>
     (\<exists>rt user. rt \<in> set (db_refresh_tokens (db sample_world)) \<and> user \<in> set (db_users (db sample_world)))"
proof -
  let ?m = "introspect sample_libs sample_config 1 ''rt'' None ''backend'' (Some (''backend'', ''topsecret''))"
  have "\<not> isl (fst (run_state ?m sample_world))" by code_simp
  then obtain resp w' where run: "run_state ?m sample_world = (Inr resp, w')" by (blast dest: run_InrI)
  have "ir_active (projr (fst (run_state ?m sample_world)))" by code_simp
  moreover have "\<not> (\<exists>claims user now. access_token_good sample_libs sample_config (db sample_world) 1 ''rt'' now claims \<and>
          active_subject sample_libs (db sample_world) (at_sub claims) user)"
    by (simp add: access_token_good_def sample_libs_def)
  ultimately show ?thesis using introspect_sound [OF run] run by fastforce
qed

text \<open>
  C31. An access token revoked with the type hint \<open>access_token\<close> is dead at the userinfo endpoint of every
  tenant from then on, whatever other requests add to the revocation list in between.
\<close>

theorem revoked_access_token_rejected:
  assumes "jwt_payload_ok E" and "\<And>key claims. jwt_decode E token key Rs256 = Some claims \<Longrightarrow> at_jti claims \<noteq> []"
    and "\<forall>n. fault_src w n = None" and "token \<noteq> []"
    and "run_state (revoke_token E tenant token (Some ''access_token'') cid creds ctx) w = (Inr (), w1)"
    and "evolves db_revoked_tokens (revoked_stmt E) w1 w2"
  shows "\<exists>e w3. run_state (userinfo E C tenant' token) w2 = (Inl e, w3)"
proof (rule ccontr)
  assume "\<not> ?thesis"
  then obtain info w3 where "run_state (userinfo E C tenant' token) w2 = (Inr info, w3)"
    by (metis old.sum.exhaust surj_pair)
  from userinfo_Inr [OF this] obtain claims key where
      d: "jwt_decode E token key Rs256 = Some claims"
    and n: "at_jti claims \<noteq> [] \<longrightarrow> \<not> jti_revoked E (at_jti claims) (db w2)"
    by (auto simp: access_token_good_def)
  from token_jti_exp_decode [OF assms(1) d] assms(2) [OF d] obtain exp where
    "token_jti_exp E token = Some (at_jti claims, exp)" by blast
  from revoke_access_token_listed [OF assms(3) this assms(4,5)] have "jti_revoked E (at_jti claims) (db w1)" .
  with assms(6) have "jti_revoked E (at_jti claims) (db w2)" by (rule revoked_evolves)
  with n assms(2) [OF d] show False by blast
qed

definition strict_libs :: libs where
  "strict_libs = sample_libs\<lparr>jwt_decode := (\<lambda>t key alg. case split_on CHR ''.'' t of
     [h, p, s] \<Rightarrow> if p = at_jti sample_claims then Some sample_claims else None | _ \<Rightarrow> None)\<rparr>"

theorem revoked_access_token_rejected_witness:
  "fst (run_state (userinfo strict_libs sample_config 1 ''at+jwt.uuuuu.k1'') sample_world) \<noteq> Inl InsufficientScope \<and>
   (\<exists>e w3. run_state (userinfo strict_libs sample_config 1 ''at+jwt.uuuuu.k1'')
     (snd (run_state (revoke_token strict_libs 1 ''at+jwt.uuuuu.k1'' (Some ''access_token'') ''spa'' None sample_ctx)
        sample_world)) = (Inl e, w3))"
proof -
  let ?m = "revoke_token strict_libs 1 ''at+jwt.uuuuu.k1'' (Some ''access_token'') ''spa'' None sample_ctx"
  have run: "fst (run_state ?m sample_world) = Inr ()" by code_simp
  have fields: "b64url_decode strict_libs = Some" "json_jti_exp strict_libs = (\<lambda>s. Some (Some s, Some 2000))"
    "jwt_decode strict_libs = (\<lambda>t key alg. case split_on CHR ''.'' t of
       [h, p, s] \<Rightarrow> if p = at_jti sample_claims then Some sample_claims else None | _ \<Rightarrow> None)"
    by (simp_all add: strict_libs_def sample_libs_def)
  have payload: "jwt_payload_ok strict_libs"
    unfolding jwt_payload_ok_def fields by (auto split: list.splits if_splits)
  have jti: "at_jti claims \<noteq> []" if "jwt_decode strict_libs t key Rs256 = Some claims" for t key claims
    using that unfolding fields by (auto simp: sample_claims_def split: list.splits if_splits)
  have ok: "\<forall>n. fault_src sample_world n = None" by (simp add: sample_world_def)
  have ev: "evolves db_revoked_tokens (revoked_stmt strict_libs) w w" for w by (simp add: evolves_def)
  have "fst (run_state (userinfo strict_libs sample_config 1 ''at+jwt.uuuuu.k1'') sample_world) \<noteq> Inl InsufficientScope"
    by code_simp
  with revoked_access_token_rejected [OF payload jti ok _ run_fstI [OF run] ev] show ?thesis by simp
qed

section \<open>Without the hint\<close>

text \<open>
  The comment in the code says that both kinds are tried whatever the hint. But the first attempt, at a
  refresh token, reports success whenever its UPDATE ran, also when it matched no row; so without the
  hint an access token is never put on the revocation list.
\<close>

lemma revoke_without_hint_lists_nothing:
  assumes "\<forall>n. fault_src w n = None" and "hint \<noteq> Some ''access_token''"
    and "run_state (revoke_token E tenant token hint cid creds ctx) w = (Inr (), w')"
  shows "db_revoked_tokens (db w') = db_revoked_tokens (db w)"
proof (cases "token = []")
  case False
  with assms(2,3) obtain client w1 w2 now ok where
      l: "run_state (load_client E tenant cid creds ctx) w = (Inr client, w1)"
    and r: "run_state (try_revoke_refresh_token E token now) (tick w1) = (ok, w2)"
    and t: "ok \<Longrightarrow> tables (db w') = tables (db w2)"
    unfolding revoke_token_def by (auto simp: run_rules dest!: run_audit)
  from r assms(1) load_client_db [OF l] have "ok" "db_revoked_tokens (db w2) = db_revoked_tokens (db w)"
    by (auto simp: try_revoke_refresh_token_def refresh_tokens_revoke_def run_bindE run_returnE run_db_execute_ok)
  with t show ?thesis by (simp add: tables_eq_iff)
qed (use assms(3) in \<open>auto simp: revoke_token_def run_rules\<close>)

section \<open>Revoked refresh tokens\<close>

text \<open>
  A refresh token that was revoked without a hint, or as a refresh token, is never exchanged again, at any
  tenant and by any client, whatever other requests do to the table in between (short of deleting its row
  and drawing the same token again).
\<close>

theorem revoked_refresh_token_rejected:
  assumes "\<forall>n. fault_src w n = None" and "token \<noteq> []" and "hint \<noteq> Some ''access_token''"
    and "run_state (revoke_token E tenant token hint cid creds ctx) w = (Inr (), w1)"
    and "evolves db_refresh_tokens (no_reissue (refresh_held E (sha256_hex E token)) (refresh_stmt E)) w1 w2"
    and "tc_refresh_token cmd = Some token"
  shows "\<exists>e w3. run_state (exchange_refresh_token E C tenant' cmd ctx') w2 = (Inl e, w3)"
proof (rule ccontr)
  assume "\<not> ?thesis"
  then obtain toks w3 where x: "run_state (exchange_refresh_token E C tenant' cmd ctx') w2 = (Inr toks, w3)"
    by (metis old.sum.exhaust surj_pair)
  from assms(2,3,4) obtain client v1 v2 now ok where
      l: "run_state (load_client E tenant cid creds ctx) w = (Inr client, v1)"
    and r: "run_state (try_revoke_refresh_token E token now) (tick v1) = (ok, v2)"
    and t: "ok \<Longrightarrow> tables (db w1) = tables (db v2)"
    unfolding revoke_token_def by (auto simp: run_rules dest!: run_audit)
  from r assms(1) load_client_db [OF l] have "ok"
    "db_refresh_tokens (db v2) = revoke_refresh_token E (sha256_hex E token) now (db_refresh_tokens (db w))"
    by (auto simp: try_revoke_refresh_token_def refresh_tokens_revoke_def run_bindE run_returnE run_db_execute_ok)
  with t revoke_kills have "dead E (sha256_hex E token) (db_refresh_tokens (db w1))"
    by (simp add: tables_eq_iff)
  with assms(5) have "dead E (sha256_hex E token) (db_refresh_tokens (db w2))"
    unfolding evolves_def by (rule dead_evolves)
  then show False using assms(6) x by (rule dead_exchange_refresh)
qed

theorem revoked_refresh_token_rejected_witness:
  "\<exists>e w3. run_state (exchange_refresh_token sample_libs sample_config 1 sample_refresh_command sample_ctx)
     (snd (run_state (revoke_token sample_libs 1 ''rt'' None ''spa'' None sample_ctx) sample_world)) = (Inl e, w3)"
proof -
  let ?m = "revoke_token sample_libs 1 ''rt'' None ''spa'' None sample_ctx"
  have run: "fst (run_state ?m sample_world) = Inr ()" by code_simp
  have ok: "\<forall>n. fault_src sample_world n = None" by (simp add: sample_world_def)
  have ev: "evolves db_refresh_tokens (no_reissue K (refresh_stmt sample_libs)) w w" for K w
    by (simp add: evolves_def)
  have cmd: "tc_refresh_token sample_refresh_command = Some ''rt''" by code_simp
  from revoked_refresh_token_rejected [OF ok _ _ run_fstI [OF run] ev cmd] show ?thesis by simp
qed

end
