(* ===== verification/Logout.thy ===== *)
theory Logout
  imports Authorize Samples
begin

text \<open>
  Logout started by a client, \<^verbatim>\<open>application/logout.rs\<close>: the SSO session ends, the codes the user has not
  redeemed are spent, and the result names the clients to notify and the checked return address.
  Failures of the database are logged and passed over.
\<close>

section \<open>Model\<close>

record backchannel_target =
  bt_client_id :: string
  bt_backchannel_logout_uri :: string

record logout_result =
  lr_user_sub :: "string option"
  lr_user_id :: "uuid option"
  lr_backchannel_targets :: "backchannel_target list"
  lr_frontchannel_uris :: "string list"
  lr_post_logout_redirect_uri :: "string option"

definition end_session ::
  "libs \<Rightarrow> tenant_id \<Rightarrow> string \<Rightarrow> sso_session \<Rightarrow> instant \<Rightarrow> request_context \<Rightarrow> (world, string option) state" where
  "end_session E tenant hash session now ctx = do {
     _ \<leftarrow> sso_sessions_delete E hash;
     _ \<leftarrow> codes_revoke_all_active_for_user (ss_user_id session) now;
     r \<leftarrow> users_find_by_id (ss_user_id session);
     audit_record SsoSessionTerminated AuditSuccess (Some tenant) (Some (ss_user_id session)) None
       (Some ''rp_initiated_logout'') ctx;
     State_Monad.return (case r of Inr (Some u) \<Rightarrow> Some (uuid_to_string E (u_sub u)) | _ \<Rightarrow> None)
   }"

definition backchannel_targets :: "client list \<Rightarrow> backchannel_target list" where
  "backchannel_targets clients = List.map_filter (\<lambda>c. map_option
     (\<lambda>uri. \<lparr>bt_client_id = c_client_id c, bt_backchannel_logout_uri = uri\<rparr>) (c_backchannel_logout_uri c)) clients"

definition frontchannel_uris :: "libs \<Rightarrow> string \<Rightarrow> client list \<Rightarrow> string list" where
  "frontchannel_uris E issuer clients = List.map_filter (\<lambda>c. map_option
     (\<lambda>uri. uri @ (if CHR ''?'' \<in> set uri then ''&'' else ''?'') @ ''iss='' @ percent_encode E issuer)
     (c_frontchannel_logout_uri c)) clients"

definition checked_post_logout ::
  "client list \<Rightarrow> string option \<Rightarrow> string option \<Rightarrow> string option" where
  "checked_post_logout clients client_id_hint post_logout_redirect_uri =
     (case post_logout_redirect_uri of
        None \<Rightarrow> None
      | Some uri \<Rightarrow>
          if uri = [] then None
          else case client_id_hint of
            Some cid \<Rightarrow>
              (case find (\<lambda>c. c_client_id c = cid) clients of
                 Some c \<Rightarrow> if allows_post_logout_redirect_uri c uri then Some uri else None
               | None \<Rightarrow> None)
          | None \<Rightarrow> if list_ex (\<lambda>c. allows_post_logout_redirect_uri c uri) clients then Some uri else None)"

text \<open>Step 1. \<open>None\<close> when a cookie was sent that names no session.\<close>

definition logout_session ::
  "libs \<Rightarrow> tenant_id \<Rightarrow> string option \<Rightarrow> instant \<Rightarrow> request_context \<Rightarrow>
   (world, (uuid option \<times> string option) option) state" where
  "logout_session E tenant sso_session_id now ctx =
     (case non_empty sso_session_id of
        None \<Rightarrow> State_Monad.return (Some (None, None))
      | Some sid \<Rightarrow> do {
          found \<leftarrow> sso_sessions_find_by_hash E (sha256_hex E sid);
          case found of
            Inl _ \<Rightarrow> State_Monad.return None
          | Inr None \<Rightarrow> State_Monad.return None
          | Inr (Some session) \<Rightarrow> do {
              sub \<leftarrow> end_session E tenant (sha256_hex E sid) session now ctx;
              State_Monad.return (Some (Some (ss_user_id session), sub))
            }
        })"

text \<open>Steps 2 and 3.\<close>

definition logout_notices ::
  "libs \<Rightarrow> config \<Rightarrow> tenant_id \<Rightarrow> string option \<Rightarrow> string option \<Rightarrow> uuid option \<Rightarrow> string option \<Rightarrow>
   (world, logout_result) state" where
  "logout_notices E C tenant client_id_hint post_logout_redirect_uri user_id user_sub = do {
     r \<leftarrow> clients_list tenant;
     let clients = (case r of Inr c \<Rightarrow> c | Inl _ \<Rightarrow> []);
     State_Monad.return
       \<lparr>lr_user_sub = user_sub, lr_user_id = user_id,
        lr_backchannel_targets = backchannel_targets clients,
        lr_frontchannel_uris = frontchannel_uris E (tenant_issuer E (base_issuer C) tenant) clients,
        lr_post_logout_redirect_uri =
          checked_post_logout clients client_id_hint post_logout_redirect_uri\<rparr>
   }"

definition logout ::
  "libs \<Rightarrow> config \<Rightarrow> tenant_id \<Rightarrow> string option \<Rightarrow> string option \<Rightarrow> string option \<Rightarrow> request_context \<Rightarrow>
   (world, logout_result) state" where
  "logout E C tenant sso_session_id client_id_hint post_logout_redirect_uri ctx = do {
     now \<leftarrow> clock_now;
     user \<leftarrow> logout_session E tenant sso_session_id now ctx;
     case user of
       None \<Rightarrow> State_Monad.return
         \<lparr>lr_user_sub = None, lr_user_id = None, lr_backchannel_targets = [], lr_frontchannel_uris = [],
          lr_post_logout_redirect_uri = None\<rparr>
     | Some (user_id, user_sub) \<Rightarrow>
         logout_notices E C tenant client_id_hint post_logout_redirect_uri user_id user_sub
   }"

section \<open>Reading a run\<close>

lemma checked_post_logout_Some:
  assumes "checked_post_logout clients hint uri = Some u"
  shows "uri = Some u \<and> u \<noteq> [] \<and> (\<exists>c \<in> set clients. u \<in> set (c_post_logout_redirect_uris c) \<and>
     (\<forall>cid. hint = Some cid \<longrightarrow> c_client_id c = cid))"
  using assms
  by (auto simp: checked_post_logout_def list_ex_iff split: option.splits if_splits dest!: find_SomeD)

lemma backchannel_targets_in:
  "t \<in> set (backchannel_targets cs) \<Longrightarrow> \<exists>c \<in> set cs. c_client_id c = bt_client_id t \<and>
     c_backchannel_logout_uri c = Some (bt_backchannel_logout_uri t)"
  by (induction cs) (auto simp: backchannel_targets_def List.map_filter_simps split: option.splits)

lemma clients_list_run:
  "run_state (clients_list tenant) w = (Inr cs, w') \<Longrightarrow>
   set cs = {c \<in> set (db_clients (db w)). c_tenant_id c = tenant}"
  by (auto simp: clients_list_def run_rules)

lemma run_delete_sso:
  assumes "fault_src w (db_calls w) = None"
  shows "run_state (sso_sessions_delete E h) w = (Inr (), (called w)\<lparr>db := (db w)\<lparr>db_sso_sessions :=
     delete_where (\<lambda>s. db_eq E (ss_session_hash s) h) (db_sso_sessions (db w))\<rparr>\<rparr>)"
  using assms by (simp add: sso_sessions_delete_def db_execute_def db_call_def called_def Let_def)

lemma run_revoke_codes:
  assumes "fault_src w (db_calls w) = None"
  shows "run_state (codes_revoke_all_active_for_user u now) w =
     (Inr (), (called w)\<lparr>db := (db w)\<lparr>db_codes := revoke_codes u now (db_codes (db w))\<rparr>\<rparr>)"
  using assms by (simp add: codes_revoke_all_active_for_user_def db_execute_def db_call_def called_def Let_def)

lemma end_session_run:
  assumes "\<forall>n. fault_src w n = None" and "run_state (end_session E tenant h session now ctx) w = (sub, w')"
  shows "tables (db w') = tables ((db w)\<lparr>
     db_sso_sessions := delete_where (\<lambda>s. db_eq E (ss_session_hash s) h) (db_sso_sessions (db w)),
     db_codes := revoke_codes (ss_user_id session) now (db_codes (db w))\<rparr>)"
proof -
  from assms(2) obtain w1 r1 w2 r2 w3 r3 where
      1: "run_state (sso_sessions_delete E h) w = (r1, w1)"
    and 2: "run_state (codes_revoke_all_active_for_user (ss_user_id session) now) w1 = (r2, w2)"
    and 3: "run_state (users_find_by_id (ss_user_id session)) w2 = (r3, w3)"
    and 4: "tables (db w') = tables (db w3)"
    by (auto simp: end_session_def run_bindE run_returnE dest!: run_audit)
  from 1 assms(1) have w1: "w1 = (called w)\<lparr>db := (db w)\<lparr>db_sso_sessions :=
     delete_where (\<lambda>s. db_eq E (ss_session_hash s) h) (db_sso_sessions (db w))\<rparr>\<rparr>"
    by (simp add: run_delete_sso)
  with 2 assms(1) have "db w2 = (db w1)\<lparr>db_codes := revoke_codes (ss_user_id session) now (db_codes (db w1))\<rparr>"
    by (auto simp: run_revoke_codes)
  moreover have "db w3 = db w2"
    using alwaysD [OF frame_queries(1) 3, of "\<lambda>d. d"] by (simp add: frame_def)
  ultimately show ?thesis using 4 w1 by simp
qed

lemma revoke_codes_spent:
  assumes "c \<in> set (revoke_codes u now rows)" and "ac_user_id c = u"
  shows "ac_used_at c \<noteq> None \<or> ac_expires_at c \<le> micros now"
proof -
  let ?P = "\<lambda>c. ac_user_id c = u \<and> ac_used_at c = None \<and> ac_expires_at c > micros now"
  from assms(1) obtain r where "c = (if ?P r then mark_used now r else r)"
    by (auto simp: revoke_codes_def set_update_where)
  with assms(2) show ?thesis by (cases "?P r") (simp_all add: mark_used_def not_less)
qed

lemma frame_logout_session:
  assumes "\<And>d x. T (d\<lparr>db_sso_sessions := x\<rparr>) = T d" "\<And>d x. T (d\<lparr>db_codes := x\<rparr>) = T d"
    "\<And>d x. T (d\<lparr>db_audit_log := x\<rparr>) = T d"
  shows "always (frame T) (logout_session E tenant sid now ctx)"
  unfolding logout_session_def end_session_def
  by (intro frame.always_rules frame_ops frame_audit frame_sso_sessions frame_codes) (simp_all add: assms)

text \<open>The registered return addresses and notification targets of a tenant.\<close>

definition notices_ok :: "database \<Rightarrow> tenant_id \<Rightarrow> string option \<Rightarrow> string option \<Rightarrow> logout_result \<Rightarrow> bool" where
  "notices_ok d tenant hint uri res \<longleftrightarrow>
     (\<forall>u. lr_post_logout_redirect_uri res = Some u \<longrightarrow> uri = Some u \<and>
       (\<exists>c \<in> set (db_clients d). c_tenant_id c = tenant \<and> u \<in> set (c_post_logout_redirect_uris c) \<and>
          (\<forall>cid. hint = Some cid \<longrightarrow> c_client_id c = cid))) \<and>
     (\<forall>t \<in> set (lr_backchannel_targets res). \<exists>c \<in> set (db_clients d). c_tenant_id c = tenant \<and>
        c_client_id c = bt_client_id t \<and> c_backchannel_logout_uri c = Some (bt_backchannel_logout_uri t))"

lemma logout_notices_ok:
  assumes "run_state (logout_notices E C tenant hint uri uid sub) w = (res, w')"
  shows "notices_ok (db w) tenant hint uri res \<and> db w' = db w"
proof -
  from assms obtain r where r: "run_state (clients_list tenant) w = (r, w')"
      "lr_post_logout_redirect_uri res = checked_post_logout (case r of Inr c \<Rightarrow> c | Inl _ \<Rightarrow> []) hint uri"
      "lr_backchannel_targets res = backchannel_targets (case r of Inr c \<Rightarrow> c | Inl _ \<Rightarrow> [])"
    by (auto simp: logout_notices_def run_bindE run_returnE Let_def)
  from alwaysD [OF frame_queries(6) r(1), of "\<lambda>d. d"] have "db w' = db w" by (simp add: frame_def)
  moreover have "notices_ok (db w) tenant hint uri res"
  proof (cases r)
    case (Inl e)
    with r show ?thesis
      by (auto simp: notices_ok_def dest!: checked_post_logout_Some backchannel_targets_in)
  next
    case (Inr cs)
    with r clients_list_run have "set cs = {c \<in> set (db_clients (db w)). c_tenant_id c = tenant}" by simp
    with r Inr show ?thesis
      by (auto simp: notices_ok_def dest!: checked_post_logout_Some backchannel_targets_in)
  qed
  ultimately show ?thesis by simp
qed

section \<open>Properties\<close>

text \<open>
  The browser is sent back only to an address that is registered as a post-logout address of a client of
  the tenant, and of the client the request names when it names one; logout notifications go only to
  clients of the tenant, at their registered addresses.
\<close>

theorem logout_redirect_registered:
  assumes "run_state (logout E C tenant sid hint uri ctx) w = (res, w')"
  shows "(\<forall>u. lr_post_logout_redirect_uri res = Some u \<longrightarrow> uri = Some u \<and>
       (\<exists>c \<in> set (db_clients (db w)). c_tenant_id c = tenant \<and> u \<in> set (c_post_logout_redirect_uris c) \<and>
          (\<forall>cid. hint = Some cid \<longrightarrow> c_client_id c = cid))) \<and>
     (\<forall>t \<in> set (lr_backchannel_targets res). \<exists>c \<in> set (db_clients (db w)). c_tenant_id c = tenant \<and>
        c_client_id c = bt_client_id t \<and> c_backchannel_logout_uri c = Some (bt_backchannel_logout_uri t))"
proof -
  from assms obtain user w1 where s: "run_state (logout_session E tenant sid (clock_src w (ticks w)) ctx) (tick w) = (user, w1)"
    and n: "(user = None \<and> lr_post_logout_redirect_uri res = None \<and> lr_backchannel_targets res = []) \<or>
      (\<exists>uid sub. run_state (logout_notices E C tenant hint uri uid sub) w1 = (res, w'))"
    unfolding logout_def by (auto simp: run_rules)
  have "frame db_clients (tick w) w1"
    by (rule alwaysD [OF frame_logout_session s]) simp_all
  then have "db_clients (db w1) = db_clients (db w)" by (simp add: frame_def)
  with n show ?thesis by (auto simp: notices_ok_def dest!: logout_notices_ok)
qed

theorem logout_redirect_registered_witness:
  "\<exists>u c. lr_post_logout_redirect_uri (fst (run_state (logout sample_libs sample_config 1 (Some ''sso'') (Some ''spa'')
       (Some ''https://app/bye'') sample_ctx) sample_world)) = Some u \<and>
     c \<in> set (db_clients (db sample_world)) \<and> u \<in> set (c_post_logout_redirect_uris c)"
proof -
  let ?run = "run_state (logout sample_libs sample_config 1 (Some ''sso'') (Some ''spa'')
       (Some ''https://app/bye'') sample_ctx) sample_world"
  have "lr_post_logout_redirect_uri (fst ?run) = Some ''https://app/bye''" by code_simp
  with logout_redirect_registered [OF prod.collapse [symmetric], of sample_libs sample_config 1 "Some ''sso''"
    "Some ''spa''" "Some ''https://app/bye''" sample_ctx sample_world] show ?thesis by blast
qed

text \<open>
  When the database answers, logging out ends the SSO session of the cookie (no session with its hash is
  left) and no code of that user is left that could still be redeemed: each is spent or expired.
\<close>

theorem logout_ends_session:
  assumes "\<forall>n. fault_src w n = None"
    and "run_state (logout E C tenant (Some sid) hint uri ctx) w = (res, w')" and "sid \<noteq> []"
    and "find (\<lambda>s. db_eq E (ss_session_hash s) (sha256_hex E sid)) (db_sso_sessions (db w)) = Some session"
  shows "(\<forall>s \<in> set (db_sso_sessions (db w')). \<not> db_eq E (ss_session_hash s) (sha256_hex E sid)) \<and>
    (\<forall>c \<in> set (db_codes (db w')). ac_user_id c = ss_user_id session \<longrightarrow>
       code_is_used c \<or> code_is_expired_at c (clock_src w (ticks w)))"
proof -
  let ?now = "clock_src w (ticks w)"
  from assms obtain sub w1 where
      e: "run_state (end_session E tenant (sha256_hex E sid) session ?now ctx) (called (tick w)) = (sub, w1)"
    and n: "run_state (logout_notices E C tenant hint uri (Some (ss_user_id session)) sub) w1 = (res, w')"
    unfolding logout_def logout_session_def
    by (auto simp: run_rules sso_sessions_find_by_hash_def non_empty_None)
  have "tables (db w1) = tables ((db w)\<lparr>
     db_sso_sessions := delete_where (\<lambda>s. db_eq E (ss_session_hash s) (sha256_hex E sid)) (db_sso_sessions (db w)),
     db_codes := revoke_codes (ss_user_id session) ?now (db_codes (db w))\<rparr>)"
    using end_session_run [OF _ e] assms(1) by simp
  with logout_notices_ok [OF n] show ?thesis
    using micros_le [of ?now]
    by (auto simp: tables_eq_iff set_delete_where code_is_used_def code_is_expired_at_def
        dest!: revoke_codes_spent intro: order_trans)
qed

theorem logout_ends_session_witness:
  "find (\<lambda>s. db_eq sample_libs (ss_session_hash s) ''hsso'') (db_sso_sessions (db sample_world)) = Some sample_sso \<and>
   find (\<lambda>s. db_eq sample_libs (ss_session_hash s) ''hsso'') (db_sso_sessions (db (snd (run_state
     (logout sample_libs sample_config 1 (Some ''sso'') None None sample_ctx) sample_world)))) = None"
proof -
  have ok: "\<forall>n. fault_src sample_world n = None" by (simp add: sample_world_def)
  have h: "sha256_hex sample_libs ''sso'' = ''hsso''" by code_simp
  have f: "find (\<lambda>s. db_eq sample_libs (ss_session_hash s) (sha256_hex sample_libs ''sso'')) (db_sso_sessions (db sample_world)) =
    Some sample_sso" by code_simp
  from logout_ends_session [OF ok prod.collapse [symmetric] _ f] f show ?thesis
    by (simp add: find_None_iff h)
qed

end
