(* ===== verification/Text.thy ===== *)
theory Text
  imports Crypto
begin

text \<open>
  More of the string functions of the Rust standard library: \<open>str::trim\<close>, and reading and printing
  of integers (\<open>str::parse\<close>, \<open>to_string\<close>).
\<close>

section \<open>Trimming\<close>

lemma starts_with_take: "starts_with s p \<Longrightarrow> take (length p) s = p \<and> length p \<le> length s"
  by (induction s p rule: starts_with.induct) auto

lemma starts_with_append: "starts_with s p \<Longrightarrow> starts_with (s @ t) p"
  by (induction s p rule: starts_with.induct) auto

lemma whitespace_nonempty: "p \<in> set whitespace \<Longrightarrow> p \<noteq> []"
  by (auto simp: whitespace_def byte_string_def)

lemma whitespace_prefix_Some: "whitespace_prefix s = Some p \<Longrightarrow> p \<noteq> [] \<and> starts_with s p"
  by (auto simp: whitespace_prefix_def dest!: find_SomeD whitespace_nonempty)

function trim_start :: "string \<Rightarrow> string" where
  "trim_start s = (case whitespace_prefix s of Some p \<Rightarrow> trim_start (drop (length p) s) | None \<Rightarrow> s)"
  by pat_completeness auto
termination
proof (relation "measure length")
  fix s p assume "whitespace_prefix s = Some p"
  from whitespace_prefix_Some [OF this] have "p \<noteq> []" "length p \<le> length s" by (auto dest: starts_with_take)
  then show "(drop (length p) s, s) \<in> measure length" by (cases p) auto
qed simp

declare trim_start.simps [simp del]

definition ends_with :: "string \<Rightarrow> string \<Rightarrow> bool" where
  "ends_with s p \<longleftrightarrow> length p \<le> length s \<and> drop (length s - length p) s = p"

definition whitespace_suffix :: "string \<Rightarrow> string option" where
  "whitespace_suffix s = find (ends_with s) whitespace"

lemma whitespace_suffix_Some: "whitespace_suffix s = Some p \<Longrightarrow> p \<noteq> [] \<and> ends_with s p"
  by (auto simp: whitespace_suffix_def dest!: find_SomeD whitespace_nonempty)

function trim_end :: "string \<Rightarrow> string" where
  "trim_end s =
     (case whitespace_suffix s of Some p \<Rightarrow> trim_end (take (length s - length p) s) | None \<Rightarrow> s)"
  by pat_completeness auto
termination
proof (relation "measure length")
  fix s p assume "whitespace_suffix s = Some p"
  from whitespace_suffix_Some [OF this] have "p \<noteq> []" "length p \<le> length s" by (auto simp: ends_with_def)
  then show "(take (length s - length p) s, s) \<in> measure length" by (cases p) auto
qed simp

declare trim_end.simps [simp del]

definition trim :: "string \<Rightarrow> string" where
  "trim s = trim_end (trim_start s)"

lemma trim_start_prefix: "whitespace_prefix (trim_start s) = None"
  by (induction s rule: trim_start.induct)
     (subst trim_start.simps, auto split: option.splits)

lemma trim_end_suffix: "whitespace_suffix (trim_end s) = None"
  by (induction s rule: trim_end.induct) (subst trim_end.simps, auto split: option.splits)

lemma trim_end_append: "\<exists>t. s = trim_end s @ t"
proof (induction s rule: trim_end.induct)
  case (1 s)
  show ?case
  proof (cases "whitespace_suffix s")
    case None
    then show ?thesis by (subst trim_end.simps) simp
  next
    case (Some p)
    with 1 obtain t where "take (length s - length p) s = trim_end (take (length s - length p) s) @ t"
      by blast
    moreover have "s = take (length s - length p) s @ drop (length s - length p) s" by simp
    ultimately have "s = trim_end (take (length s - length p) s) @ t @ drop (length s - length p) s"
      by (metis append_assoc)
    with Some show ?thesis by (subst trim_end.simps) auto
  qed
qed

lemma whitespace_prefix_None_append: "whitespace_prefix (s @ t) = None \<Longrightarrow> whitespace_prefix s = None"
  by (auto simp: whitespace_prefix_def find_None_iff dest: starts_with_append)

text \<open>A trimmed string has no white space at either end, so trimming it again changes nothing.\<close>

lemma trim_ends: "whitespace_prefix (trim s) = None \<and> whitespace_suffix (trim s) = None"
proof -
  obtain t where "trim_start s = trim s @ t" unfolding trim_def using trim_end_append by blast
  with trim_start_prefix [of s] have "whitespace_prefix (trim s) = None"
    by (metis whitespace_prefix_None_append)
  then show ?thesis by (simp add: trim_def trim_end_suffix)
qed

lemma trim_trim [simp]: "trim (trim s) = trim s"
proof -
  have "trim_start (trim s) = trim s" using trim_ends by (subst trim_start.simps) simp
  moreover have "trim_end (trim s) = trim s" using trim_ends by (subst trim_end.simps) simp
  ultimately show ?thesis by (simp add: trim_def)
qed

text \<open>\<open>value.map(|v| v.trim().to_string()).filter(|v| !v.is_empty())\<close>\<close>

definition normalize_optional :: "string option \<Rightarrow> string option" where
  "normalize_optional v = non_empty (map_option trim v)"

section \<open>Integers\<close>

definition digit_value :: "char \<Rightarrow> nat option" where
  "digit_value c = (let n = of_char c :: nat in if 48 \<le> n \<and> n \<le> 57 then Some (n - 48) else None)"

fun parse_digits :: "nat \<Rightarrow> string \<Rightarrow> nat option" where
  "parse_digits acc [] = Some acc"
| "parse_digits acc (c # cs) =
     (case digit_value c of None \<Rightarrow> None | Some d \<Rightarrow> parse_digits (10 * acc + d) cs)"

text \<open>\<open>parse::<u16>\<close>, \<open>parse::<u32>\<close>: an optional plus sign, at least one digit, no overflow.\<close>

definition unsigned_digits :: "string \<Rightarrow> nat option" where
  "unsigned_digits ds = (if ds = [] then None else parse_digits 0 ds)"

definition parse_uint :: "nat \<Rightarrow> string \<Rightarrow> nat option" where
  "parse_uint max_value s =
     (case unsigned_digits (case s of c # cs \<Rightarrow> if c = CHR ''+'' then cs else s | [] \<Rightarrow> []) of
        Some n \<Rightarrow> if n \<le> max_value then Some n else None
      | None \<Rightarrow> None)"

definition parse_u16 :: "string \<Rightarrow> nat option" where
  "parse_u16 = parse_uint 65535"

definition parse_u32 :: "string \<Rightarrow> nat option" where
  "parse_u32 = parse_uint 4294967295"

definition parse_i64 :: "string \<Rightarrow> int option" where
  "parse_i64 s =
     (case s of
        c # cs \<Rightarrow>
          if c = CHR ''-'' then
            (case unsigned_digits cs of
               Some n \<Rightarrow> if n \<le> 9223372036854775808 then Some (- int n) else None | None \<Rightarrow> None)
          else map_option int (parse_uint 9223372036854775807 s)
      | [] \<Rightarrow> None)"

definition show_int :: "int \<Rightarrow> string" where
  "show_int n = (if n < 0 then CHR ''-'' # show_nat (nat (- n)) else show_nat (nat n))"

lemma digit_value_char: "d < 10 \<Longrightarrow> digit_value (char_of (48 + d)) = Some d"
  by (simp add: digit_value_def of_char_of take_bit_eq_mod)

lemma parse_digits_append:
  "parse_digits acc (xs @ ys) =
   (case parse_digits acc xs of None \<Rightarrow> None | Some n \<Rightarrow> parse_digits n ys)"
  by (induction acc xs rule: parse_digits.induct) (auto split: option.splits)

lemma parse_digits_show_nat: "parse_digits 0 (show_nat n) = Some n"
proof (induction n rule: show_nat.induct)
  case (1 n)
  show ?case
  proof (cases "n < 10")
    case True
    then show ?thesis by (subst show_nat.simps) (simp add: digit_value_char)
  next
    case False
    with 1 have "parse_digits 0 (show_nat (n div 10)) = Some (n div 10)" by simp
    moreover have "10 * (n div 10) + n mod 10 = n" by simp
    ultimately show ?thesis using False
      by (subst show_nat.simps) (simp add: parse_digits_append digit_value_char del: mult_div_mod_eq)
  qed
qed

lemma show_nat_digits: "c \<in> set (show_nat n) \<Longrightarrow> digit_value c \<noteq> None"
proof (induction n rule: show_nat.induct)
  case (1 n)
  then show ?case
    by (cases "n < 10") (subst (asm) show_nat.simps, auto simp: digit_value_char)+
qed

lemma show_nat_not_Nil [simp]: "show_nat n \<noteq> []"
  by (subst show_nat.simps) simp

lemma show_nat_no_sign: "show_nat n = c # cs \<Longrightarrow> c \<noteq> CHR ''-'' \<and> c \<noteq> CHR ''+''"
  using show_nat_digits [of c n] by (auto simp: digit_value_def)

lemma parse_uint_show_nat: "parse_uint m (show_nat n) = (if n \<le> m then Some n else None)"
proof -
  obtain c cs where s: "show_nat n = c # cs" by (cases "show_nat n") auto
  with show_nat_no_sign [OF s] parse_digits_show_nat [of n] show ?thesis
    by (simp add: parse_uint_def unsigned_digits_def)
qed

text \<open>For evaluation, the bounds are compared as integers, which have binary numerals.\<close>

definition within :: "int \<Rightarrow> nat option \<Rightarrow> nat option" where
  "within m r = (case r of Some n \<Rightarrow> if int n \<le> m then Some n else None | None \<Rightarrow> None)"

lemma parse_code [code]:
  "parse_u16 s = within 65535 (unsigned_digits (case s of c # cs \<Rightarrow> if c = CHR ''+'' then cs else s | [] \<Rightarrow> []))"
  "parse_u32 s = within 4294967295 (unsigned_digits (case s of c # cs \<Rightarrow> if c = CHR ''+'' then cs else s | [] \<Rightarrow> []))"
  by (auto simp: parse_u16_def parse_u32_def parse_uint_def within_def split: option.splits)

lemma parse_i64_code [code]:
  "parse_i64 s =
     (case s of
        c # cs \<Rightarrow>
          if c = CHR ''-'' then map_option (\<lambda>n. - int n) (within 9223372036854775808 (unsigned_digits cs))
          else map_option int (within 9223372036854775807 (unsigned_digits (if c = CHR ''+'' then cs else s)))
      | [] \<Rightarrow> None)"
  by (auto simp: parse_i64_def parse_uint_def within_def split: list.splits option.splits)

text \<open>Reading a printed 64-bit integer gives it back.\<close>

lemma parse_i64_show_int:
  assumes "- (2 ^ 63) \<le> n" and "n < 2 ^ 63"
  shows "parse_i64 (show_int n) = Some n"
proof (cases "n < 0")
  case True
  then have "nat (- n) \<le> 9223372036854775808" using assms by simp
  with True show ?thesis
    by (simp add: show_int_def parse_i64_def unsigned_digits_def parse_digits_show_nat)
next
  case False
  obtain c cs where s: "show_nat (nat n) = c # cs" by (cases "show_nat (nat n)") auto
  have "nat n \<le> 9223372036854775807" using assms(2) False by simp
  with False s show_nat_no_sign [OF s] show ?thesis
    using parse_uint_show_nat [of 9223372036854775807 "nat n"]
    by (simp add: show_int_def parse_i64_def)
qed

lemma show_int_no_dot: "CHR ''.'' \<notin> set (show_int n)"
  using show_nat_digits [of "CHR ''.''"] by (auto simp: show_int_def digit_value_def)

end
