(* ===== verification/Cache.thy ===== *)
theory Cache
  imports World
begin

text \<open>
  The TTL cache of \<^verbatim>\<open>infrastructure/cache.rs\<close>: a map from keys to a value and its expiry, with the
  expired entry removed when it is read. Each operation holds the mutex and is one atomic step.
  The interface (\<^verbatim>\<open>domain/cache.rs\<close>) is the locale \<open>cache_interface\<close>; its specification is the history of the
  operations: a read gives the value that was inserted last, unless it was invalidated since or is
  older than the time to live.
\<close>

section \<open>Model\<close>

type_synonym ('k, 'v) ttl_cache = "'k \<Rightarrow> ('v \<times> instant) option"

definition cache_get :: "'k \<Rightarrow> instant \<Rightarrow> ('k, 'v) ttl_cache \<Rightarrow> 'v option \<times> ('k, 'v) ttl_cache" where
  "cache_get key now m =
     (case m key of
        Some (value, expires_at) \<Rightarrow>
          if expires_at > now then (Some value, m) else (None, m(key := None))
      | None \<Rightarrow> (None, m))"

definition cache_insert ::
  "duration \<Rightarrow> 'k \<Rightarrow> 'v \<Rightarrow> instant \<Rightarrow> ('k, 'v) ttl_cache \<Rightarrow> ('k, 'v) ttl_cache" where
  "cache_insert ttl key value now m = m(key := Some (value, now + ttl))"

definition cache_invalidate :: "'k \<Rightarrow> ('k, 'v) ttl_cache \<Rightarrow> ('k, 'v) ttl_cache" where
  "cache_invalidate key m = m(key := None)"

section \<open>The interface\<close>

text \<open>An operation on a cache, with the reading of the clock it takes.\<close>

datatype ('k, 'v) cache_op = OpGet 'k instant | OpInsert 'k 'v instant | OpInvalidate 'k

text \<open>
  What a history, newest operation first, has to say about a key: the last inserted value with its
  expiry, unless it was invalidated.
\<close>

fun last_insert :: "duration \<Rightarrow> 'k \<Rightarrow> ('k, 'v) cache_op list \<Rightarrow> ('v \<times> instant) option" where
  "last_insert ttl k [] = None"
| "last_insert ttl k (OpGet k' t # ops) = last_insert ttl k ops"
| "last_insert ttl k (OpInsert k' v t # ops) = (if k' = k then Some (v, t + ttl) else last_insert ttl k ops)"
| "last_insert ttl k (OpInvalidate k' # ops) = (if k' = k then None else last_insert ttl k ops)"

definition cache_answer :: "duration \<Rightarrow> 'k \<Rightarrow> instant \<Rightarrow> ('k, 'v) cache_op list \<Rightarrow> 'v option" where
  "cache_answer ttl k now ops =
     (case last_insert ttl k ops of
        Some (v, expires_at) \<Rightarrow> if expires_at > now then Some v else None
      | None \<Rightarrow> None)"

fun op_time :: "('k, 'v) cache_op \<Rightarrow> instant option" where
  "op_time (OpGet k t) = Some t"
| "op_time (OpInsert k v t) = Some t"
| "op_time (OpInvalidate k) = None"

text \<open>No operation of the history read a later time than \<open>now\<close>.\<close>

definition not_after :: "instant \<Rightarrow> ('k, 'v) cache_op list \<Rightarrow> bool" where
  "not_after now ops = list_all (\<lambda>op. case op_time op of Some t \<Rightarrow> t \<le> now | None \<Rightarrow> True) ops"

lemma not_after_Cons [simp]:
  "not_after now (OpGet k t # ops) \<longleftrightarrow> t \<le> now \<and> not_after now ops"
  "not_after now (OpInsert k v t # ops) \<longleftrightarrow> t \<le> now \<and> not_after now ops"
  "not_after now (OpInvalidate k # ops) \<longleftrightarrow> not_after now ops"
  by (simp_all add: not_after_def)

lemma not_after_mono: "not_after t ops \<Longrightarrow> t \<le> now \<Longrightarrow> not_after now ops"
  by (auto simp: not_after_def list_all_iff split: option.splits)

text \<open>The laws of a cache.\<close>

locale cache_interface =
  fixes ttl :: duration
    and empty :: "'c"
    and get :: "'k \<Rightarrow> instant \<Rightarrow> 'c \<Rightarrow> 'v option \<times> 'c"
    and insert :: "'k \<Rightarrow> 'v \<Rightarrow> instant \<Rightarrow> 'c \<Rightarrow> 'c"
    and invalidate :: "'k \<Rightarrow> 'c \<Rightarrow> 'c"
  assumes get_empty: "fst (get k now empty) = None"
    and get_get: "t \<le> now \<Longrightarrow> fst (get k now (snd (get k' t c))) = fst (get k now c)"
    and get_insert:
      "fst (get k now (insert k' v t c)) =
         (if k = k' then if t + ttl > now then Some v else None else fst (get k now c))"
    and get_invalidate: "fst (get k now (invalidate k' c)) = (if k = k' then None else fst (get k now c))"
begin

fun after_ops :: "('k, 'v) cache_op list \<Rightarrow> 'c" where
  "after_ops [] = empty"
| "after_ops (OpGet k t # ops) = snd (get k t (after_ops ops))"
| "after_ops (OpInsert k v t # ops) = insert k v t (after_ops ops)"
| "after_ops (OpInvalidate k # ops) = invalidate k (after_ops ops)"

lemma get_after_ops:
  "not_after now ops \<Longrightarrow> fst (get k now (after_ops ops)) = cache_answer ttl k now ops"
  by (induction ops rule: after_ops.induct)
     (auto simp: get_empty get_get get_insert get_invalidate cache_answer_def)

end

interpretation ttlc: cache_interface ttl "\<lambda>_. None" cache_get "cache_insert ttl" cache_invalidate for ttl
  by unfold_locales
     (auto simp: cache_get_def cache_insert_def cache_invalidate_def split: option.splits)

section \<open>Runs of operations\<close>

fun run_cache :: "duration \<Rightarrow> ('k, 'v) cache_op list \<Rightarrow> ('k, 'v) ttl_cache" where
  "run_cache ttl [] = (\<lambda>_. None)"
| "run_cache ttl (OpGet k t # ops) = snd (cache_get k t (run_cache ttl ops))"
| "run_cache ttl (OpInsert k v t # ops) = cache_insert ttl k v t (run_cache ttl ops)"
| "run_cache ttl (OpInvalidate k # ops) = cache_invalidate k (run_cache ttl ops)"

lemma run_cache_after_ops: "run_cache ttl ops = ttlc.after_ops ttl ops"
  by (induction ops rule: run_cache.induct) simp_all

text \<open>
  C37. The cache refines its history. However the operations of the requests interleave, a read whose
  clock reading is not before the earlier ones gives exactly the value inserted last for the key,
  if it was not invalidated since and its time to live has not passed.
\<close>

theorem cache_refines_history:
  assumes "not_after now ops"
  shows "fst (cache_get k now (run_cache ttl ops)) = cache_answer ttl k now ops"
  using ttlc.get_after_ops [OF assms] by (simp add: run_cache_after_ops)

theorem cache_refines_history_witness:
  "not_after 9 [OpGet CHR ''b'' 6, OpInsert CHR ''a'' (7 :: nat) (4 :: int), OpInsert CHR ''a'' 5 2] \<and>
   fst (cache_get CHR ''a'' 9 (run_cache 10
     [OpGet CHR ''b'' 6, OpInsert CHR ''a'' (7 :: nat) 4, OpInsert CHR ''a'' 5 2])) = Some 7"
proof -
  have ok: "not_after 9 [OpGet CHR ''b'' 6, OpInsert CHR ''a'' (7 :: nat) (4 :: int), OpInsert CHR ''a'' 5 2]"
    by (simp add: not_after_def)
  with cache_refines_history [OF ok] show ?thesis by (simp add: cache_answer_def)
qed

end
