(* ===== verification/Directory.thy ===== *)
theory Directory
  imports Evolution Text "HOL-Library.Char_ord" "HOL-Library.List_Lexorder"
begin

text \<open>
  The repositories of the directory: tenants, memberships, permissions, and the creation, change and
  deletion of users and clients. A statement that the code maps to an error of its own (a duplicate
  key, a row that is still referenced) has that error as a branch; other failures of a statement are
  faults of the connection. A transaction is one call: it takes effect as a whole or not at all.
  Deleting a user or a tenant deletes the rows that reference it, as the foreign keys of the
  migrations say.
\<close>

section \<open>Users\<close>

definition same_username :: "libs \<Rightarrow> user \<Rightarrow> user \<Rightarrow> bool" where
  "same_username E u x = (case u_preferred_username u of Some n \<Rightarrow> has_username E n x | None \<Rightarrow> False)"

definition user_clash :: "libs \<Rightarrow> user \<Rightarrow> user \<Rightarrow> bool" where
  "user_clash E u x \<longleftrightarrow> u_id x = u_id u \<or> u_sub x = u_sub u \<or>
     u_tenant_id x = u_tenant_id u \<and> (db_eq E (u_email x) (u_email u) \<or> same_username E u x)"

definition insert_user :: "libs \<Rightarrow> user \<Rightarrow> instant \<Rightarrow> database \<Rightarrow> (domain_error + unit) \<times> database" where
  "insert_user E user now d =
     (if list_ex (user_clash E user) (db_users d)
      then (Inl (Conflict ''email or preferred_username already exists''), d)
      else (Inr (), d\<lparr>db_users := db_users d @
              [user\<lparr>u_locked_until := map_option micros (u_locked_until user),
                    u_created_at := micros now, u_updated_at := micros now\<rparr>]\<rparr>))"

definition users_create :: "libs \<Rightarrow> user \<Rightarrow> (world, domain_error + unit) state" where
  "users_create E user = db_call (insert_user E user)"

definition users_find_by_ids :: "uuid list \<Rightarrow> (world, domain_error + user list) state" where
  "users_find_by_ids ids =
     (if ids = [] then State_Monad.return (Inr [])
      else db_query (\<lambda>_ d. filter (\<lambda>u. u_id u \<in> set ids) (db_users d)))"

text \<open>\<^verbatim>\<open>ON DELETE CASCADE\<close> and, for authorization sessions, \<^verbatim>\<open>ON DELETE SET NULL\<close>.\<close>

definition delete_user_rows :: "uuid \<Rightarrow> database \<Rightarrow> database" where
  "delete_user_rows i d =
     d\<lparr>db_users := delete_where (\<lambda>u. u_id u = i) (db_users d),
       db_memberships := delete_where (\<lambda>m. tm_user_id m = i) (db_memberships d),
       db_user_permissions := delete_where (\<lambda>p. up_user_id p = i) (db_user_permissions d),
       db_auth_sessions := update_where (\<lambda>s. as_authenticated_user_id s = Some i)
         (\<lambda>s. s\<lparr>as_authenticated_user_id := None\<rparr>) (db_auth_sessions d),
       db_sso_sessions := delete_where (\<lambda>s. ss_user_id s = i) (db_sso_sessions d),
       db_codes := delete_where (\<lambda>c. ac_user_id c = i) (db_codes d),
       db_refresh_tokens := delete_where (\<lambda>t. rt_user_id t = i) (db_refresh_tokens d),
       db_consents := delete_where (\<lambda>c. cc_user_id c = i) (db_consents d),
       db_totp_secrets := delete_where (\<lambda>t. ts_user_id t = i) (db_totp_secrets d),
       db_credentials := delete_where (\<lambda>c. wc_user_id c = i) (db_credentials d),
       db_reset_tokens := delete_where (\<lambda>t. lt_user_id t = i) (db_reset_tokens d),
       db_verification_tokens := delete_where (\<lambda>t. lt_user_id t = i) (db_verification_tokens d)\<rparr>"

definition users_delete :: "uuid \<Rightarrow> (world, domain_error + unit) state" where
  "users_delete i = db_execute (\<lambda>_. delete_user_rows i)"

section \<open>Clients\<close>

definition clients_create :: "libs \<Rightarrow> client \<Rightarrow> (world, domain_error + unit) state" where
  "clients_create E client = db_call (\<lambda>now d.
     if list_ex (\<lambda>c. c_id c = c_id client \<or>
          c_tenant_id c = c_tenant_id client \<and> db_eq E (c_client_id c) (c_client_id client)) (db_clients d)
     then (Inl (Conflict ''client_id already exists in this tenant''), d)
     else (Inr (), d\<lparr>db_clients := db_clients d @
             [client\<lparr>c_created_at := micros now, c_updated_at := micros now\<rparr>]\<rparr>))"

text \<open>The columns the UPDATE sets; identifiers and creation time stay.\<close>

definition client_columns :: "client \<Rightarrow> client \<Rightarrow> client" where
  "client_columns client c =
     client\<lparr>c_id := c_id c, c_tenant_id := c_tenant_id c, c_client_id := c_client_id c,
            c_created_at := c_created_at c, c_updated_at := c_updated_at c\<rparr>"

definition clients_update :: "client \<Rightarrow> (world, domain_error + unit) state" where
  "clients_update client = db_execute (\<lambda>_ d.
     d\<lparr>db_clients := update_where (\<lambda>c. c_id c = c_id client \<and> c_tenant_id c = c_tenant_id client)
         (client_columns client) (db_clients d)\<rparr>)"

section \<open>Memberships\<close>

definition membership_key :: "tenant_id \<Rightarrow> uuid \<Rightarrow> tenant_membership \<Rightarrow> bool" where
  "membership_key tenant_id user_id m \<longleftrightarrow> tm_tenant_id m = tenant_id \<and> tm_user_id m = user_id"

definition insert_membership ::
  "tenant_membership \<Rightarrow> instant \<Rightarrow> database \<Rightarrow> (domain_error + unit) \<times> database" where
  "insert_membership m now d =
     (if list_ex (membership_key (tm_tenant_id m) (tm_user_id m)) (db_memberships d)
      then (Inl (Conflict ''membership already exists''), d)
      else (Inr (), d\<lparr>db_memberships := db_memberships d @
              [m\<lparr>tm_invitation_expires_at := map_option micros (tm_invitation_expires_at m),
                 tm_created_at := micros now, tm_updated_at := micros now\<rparr>]\<rparr>))"

definition memberships_create :: "tenant_membership \<Rightarrow> (world, domain_error + unit) state" where
  "memberships_create m = db_call (insert_membership m)"

definition memberships_find ::
  "tenant_id \<Rightarrow> uuid \<Rightarrow> (world, domain_error + tenant_membership option) state" where
  "memberships_find tenant_id user_id =
     db_query (\<lambda>_ d. find (membership_key tenant_id user_id) (db_memberships d))"

definition memberships_list_for_tenant ::
  "tenant_id \<Rightarrow> (world, domain_error + tenant_membership list) state" where
  "memberships_list_for_tenant tenant_id =
     db_query (\<lambda>_ d. sort_key tm_created_at (filter (\<lambda>m. tm_tenant_id m = tenant_id) (db_memberships d)))"

text \<open>Sorting is stable, so the second key goes first; \<^verbatim>\<open>GUEST\<close> sorts before \<^verbatim>\<open>HOME\<close>.\<close>

definition memberships_list_active_for_user ::
  "uuid \<Rightarrow> (world, domain_error + tenant_membership list) state" where
  "memberships_list_active_for_user user_id =
     db_query (\<lambda>_ d. sort_key (\<lambda>m. case tm_membership_type m of Guest \<Rightarrow> 0 | Home \<Rightarrow> (1 :: nat))
       (sort_key tm_created_at
         (filter (\<lambda>m. tm_user_id m = user_id \<and> tm_status m = MemberActive) (db_memberships d))))"

definition has_invitation :: "libs \<Rightarrow> string \<Rightarrow> tenant_membership \<Rightarrow> bool" where
  "has_invitation E token_hash m \<longleftrightarrow> tm_status m = MemberInvited \<and>
     (case tm_invitation_token_hash m of Some h \<Rightarrow> db_eq E h token_hash | None \<Rightarrow> False)"

definition memberships_find_by_invitation_token_hash ::
  "libs \<Rightarrow> string \<Rightarrow> (world, domain_error + tenant_membership option) state" where
  "memberships_find_by_invitation_token_hash E token_hash =
     db_query (\<lambda>_ d. find (has_invitation E token_hash) (db_memberships d))"

definition activate_membership :: "tenant_membership \<Rightarrow> tenant_membership" where
  "activate_membership m =
     m\<lparr>tm_status := MemberActive, tm_invitation_token_hash := None, tm_invitation_expires_at := None\<rparr>"

definition memberships_activate :: "tenant_id \<Rightarrow> uuid \<Rightarrow> (world, domain_error + unit) state" where
  "memberships_activate tenant_id user_id = db_execute (\<lambda>_ d.
     d\<lparr>db_memberships := update_where (membership_key tenant_id user_id) activate_membership
         (db_memberships d)\<rparr>)"

definition memberships_delete :: "tenant_id \<Rightarrow> uuid \<Rightarrow> (world, domain_error + unit) state" where
  "memberships_delete tenant_id user_id = db_execute (\<lambda>_ d.
     d\<lparr>db_memberships := delete_where (membership_key tenant_id user_id) (db_memberships d)\<rparr>)"

section \<open>Tenants\<close>

text \<open>The primary key, the unique sentinel of the root, and the foreign key to the parent.\<close>

definition parent_exists :: "tenant \<Rightarrow> database \<Rightarrow> bool" where
  "parent_exists t d =
     (case t_parent_tenant_id t of Some p \<Rightarrow> list_ex (\<lambda>x. t_id x = p) (db_tenants d) | None \<Rightarrow> True)"

definition insert_tenant ::
  "libs \<Rightarrow> tenant \<Rightarrow> instant \<Rightarrow> database \<Rightarrow> (domain_error + unit) \<times> database" where
  "insert_tenant E t now d =
     (if list_ex (\<lambda>x. t_id x = t_id t \<or> tenant_is_root t \<and> tenant_is_root x) (db_tenants d)
      then (Inl (Conflict ''a root tenant already exists''), d)
      else if \<not> parent_exists t d then (Inl (Repository (foreign_key_violation E)), d)
      else (Inr (), d\<lparr>db_tenants := db_tenants d @
              [t\<lparr>t_created_at := micros now, t_updated_at := micros now\<rparr>]\<rparr>))"

definition tenants_create :: "libs \<Rightarrow> tenant \<Rightarrow> (world, domain_error + unit) state" where
  "tenants_create E t = db_call (insert_tenant E t)"

definition tenants_find_by_id :: "tenant_id \<Rightarrow> (world, domain_error + tenant option) state" where
  "tenants_find_by_id i = db_query (\<lambda>_ d. find (\<lambda>t. t_id t = i) (db_tenants d))"

definition tenants_find_root :: "(world, domain_error + tenant option) state" where
  "tenants_find_root = db_query (\<lambda>_ d. find tenant_is_root (db_tenants d))"

definition tenants_list_children :: "tenant_id \<Rightarrow> (world, domain_error + tenant list) state" where
  "tenants_list_children parent_id =
     db_query (\<lambda>_ d. sort_key t_created_at (filter (\<lambda>t. t_parent_tenant_id t = Some parent_id) (db_tenants d)))"

definition tenants_update :: "tenant \<Rightarrow> (world, domain_error + unit) state" where
  "tenants_update t = db_execute (\<lambda>_ d.
     d\<lparr>db_tenants := update_where (\<lambda>x. t_id x = t_id t)
         (\<lambda>x. x\<lparr>t_name := t_name t, t_status := t_status t,
                t_self_registration_enabled := t_self_registration_enabled t\<rparr>) (db_tenants d)\<rparr>)"

text \<open>Child tenants, users and clients restrict the deletion.\<close>

definition tenant_referenced :: "tenant_id \<Rightarrow> database \<Rightarrow> bool" where
  "tenant_referenced i d \<longleftrightarrow> list_ex (\<lambda>t. t_parent_tenant_id t = Some i) (db_tenants d) \<or>
     list_ex (\<lambda>u. u_tenant_id u = i) (db_users d) \<or> list_ex (\<lambda>c. c_tenant_id c = i) (db_clients d)"

definition delete_tenant_rows :: "tenant_id \<Rightarrow> database \<Rightarrow> database" where
  "delete_tenant_rows i d =
     d\<lparr>db_tenants := delete_where (\<lambda>t. t_id t = i) (db_tenants d),
       db_memberships := delete_where (\<lambda>m. tm_tenant_id m = i) (db_memberships d),
       db_user_permissions := delete_where (\<lambda>p. up_tenant_id p = i) (db_user_permissions d),
       db_service_providers := delete_where (\<lambda>s. sp_tenant_id s = i) (db_service_providers d)\<rparr>"

definition tenants_delete :: "tenant_id \<Rightarrow> (world, domain_error + unit) state" where
  "tenants_delete i = db_call (\<lambda>_ d.
     if tenant_referenced i d \<and> list_ex (\<lambda>t. t_id t = i) (db_tenants d)
     then (Inl (Conflict ''tenant has child tenants, users, or clients''), d)
     else (Inr (), delete_tenant_rows i d))"

section \<open>Permissions\<close>

definition system_admin :: string where
  "system_admin = ''idp.system.admin''"

definition tenant_admin :: string where
  "tenant_admin = ''idp.tenant.admin''"

definition permission_key :: "libs \<Rightarrow> tenant_id \<Rightarrow> uuid \<Rightarrow> string \<Rightarrow> user_permission \<Rightarrow> bool" where
  "permission_key E tenant_id user_id code p \<longleftrightarrow>
     up_user_id p = user_id \<and> db_eq E (up_permission_code p) code \<and> up_tenant_id p = tenant_id"

text \<open>
  The INSERT of a grant. An existing grant is kept. The CHECK constraint allows the system permission
  in the scope of the root only; the foreign keys want the code in the master table and the user and
  the tenant to exist.
\<close>

definition root_scope_only :: "libs \<Rightarrow> tenant_id \<Rightarrow> string \<Rightarrow> database \<Rightarrow> bool" where
  "root_scope_only E tenant_id code d \<longleftrightarrow>
     \<not> db_eq E code system_admin \<or> list_ex (\<lambda>t. t_id t = tenant_id \<and> tenant_is_root t) (db_tenants d)"

definition grant_references :: "libs \<Rightarrow> tenant_id \<Rightarrow> uuid \<Rightarrow> string \<Rightarrow> database \<Rightarrow> bool" where
  "grant_references E tenant_id user_id code d \<longleftrightarrow> list_ex (db_eq E code) (db_permissions d) \<and>
     list_ex (\<lambda>u. u_id u = user_id) (db_users d) \<and> list_ex (\<lambda>t. t_id t = tenant_id) (db_tenants d)"

definition insert_grant ::
  "libs \<Rightarrow> tenant_id \<Rightarrow> uuid \<Rightarrow> string \<Rightarrow> instant \<Rightarrow> instant \<Rightarrow> database \<Rightarrow> (domain_error + unit) \<times> database" where
  "insert_grant E tenant_id user_id code granted_at now d =
     (if list_ex (permission_key E tenant_id user_id code) (db_user_permissions d) then (Inr (), d)
      else if \<not> root_scope_only E tenant_id code d then (Inl (Repository (check_violation E)), d)
      else if \<not> grant_references E tenant_id user_id code d
      then (Inl (InvalidValue (''unknown permission code or user: '' @ code)), d)
      else (Inr (), d\<lparr>db_user_permissions := db_user_permissions d @
              [\<lparr>up_user_id = user_id, up_permission_code = code, up_tenant_id = tenant_id,
                up_granted_at = micros granted_at\<rparr>]\<rparr>))"

definition permissions_list_available_codes :: "libs \<Rightarrow> (world, domain_error + string list) state" where
  "permissions_list_available_codes E = db_query (\<lambda>_ d. sort_key (collate E) (db_permissions d))"

definition permissions_list_codes_for_user ::
  "tenant_id \<Rightarrow> uuid \<Rightarrow> (world, domain_error + string list) state" where
  "permissions_list_codes_for_user tenant_id user_id =
     db_query (\<lambda>_ d. map up_permission_code
       (filter (\<lambda>p. up_user_id p = user_id \<and> up_tenant_id p = tenant_id) (db_user_permissions d)))"

definition holds_permission :: "libs \<Rightarrow> database \<Rightarrow> tenant_id \<Rightarrow> uuid \<Rightarrow> string \<Rightarrow> bool" where
  "holds_permission E d tenant_id user_id code =
     list_ex (permission_key E tenant_id user_id code) (db_user_permissions d)"

definition permissions_has_permission ::
  "libs \<Rightarrow> tenant_id \<Rightarrow> uuid \<Rightarrow> string \<Rightarrow> (world, domain_error + bool) state" where
  "permissions_has_permission E tenant_id user_id code =
     db_query (\<lambda>_ d. holds_permission E d tenant_id user_id code)"

definition permissions_has_any_permission ::
  "libs \<Rightarrow> tenant_id \<Rightarrow> uuid \<Rightarrow> string list \<Rightarrow> (world, domain_error + bool) state" where
  "permissions_has_any_permission E tenant_id user_id codes =
     (if codes = [] then State_Monad.return (Inr False)
      else db_query (\<lambda>_ d. list_ex (\<lambda>p. up_user_id p = user_id \<and> up_tenant_id p = tenant_id \<and>
             list_ex (db_eq E (up_permission_code p)) codes) (db_user_permissions d)))"

definition permissions_grant ::
  "libs \<Rightarrow> tenant_id \<Rightarrow> uuid \<Rightarrow> string \<Rightarrow> instant \<Rightarrow> (world, domain_error + unit) state" where
  "permissions_grant E tenant_id user_id code granted_at =
     db_call (insert_grant E tenant_id user_id code granted_at)"

definition delete_grants :: "(user_permission \<Rightarrow> bool) \<Rightarrow> database \<Rightarrow> database" where
  "delete_grants P d = d\<lparr>db_user_permissions := delete_where P (db_user_permissions d)\<rparr>"

definition permissions_revoke ::
  "libs \<Rightarrow> tenant_id \<Rightarrow> uuid \<Rightarrow> string \<Rightarrow> (world, domain_error + unit) state" where
  "permissions_revoke E tenant_id user_id code =
     db_execute (\<lambda>_. delete_grants (permission_key E tenant_id user_id code))"

definition in_scope :: "tenant_id \<Rightarrow> uuid \<Rightarrow> user_permission \<Rightarrow> bool" where
  "in_scope tenant_id user_id p \<longleftrightarrow> up_user_id p = user_id \<and> up_tenant_id p = tenant_id"

text \<open>The rows are read and deleted in one transaction.\<close>

definition permissions_revoke_all_for_user_in_tenant ::
  "tenant_id \<Rightarrow> uuid \<Rightarrow> (world, domain_error + string list) state" where
  "permissions_revoke_all_for_user_in_tenant tenant_id user_id = db_call (\<lambda>_ d.
     (Inr (map up_permission_code (filter (in_scope tenant_id user_id) (db_user_permissions d))),
      delete_grants (in_scope tenant_id user_id) d))"

section \<open>Provisioning a tenant\<close>

text \<open>One statement of a transaction after another; an error rolls everything back.\<close>

definition tx_then ::
  "(instant \<Rightarrow> database \<Rightarrow> (domain_error + unit) \<times> database) \<Rightarrow>
   (instant \<Rightarrow> database \<Rightarrow> (domain_error + unit) \<times> database) \<Rightarrow>
   instant \<Rightarrow> database \<Rightarrow> (domain_error + unit) \<times> database" where
  "tx_then f g now d =
     (case f now d of
        (Inl e, _) \<Rightarrow> (Inl e, d)
      | (Inr _, d') \<Rightarrow> (case g now d' of (Inl e, _) \<Rightarrow> (Inl e, d) | (Inr x, d'') \<Rightarrow> (Inr x, d'')))"

definition provision ::
  "libs \<Rightarrow> tenant \<Rightarrow> tenant_membership \<Rightarrow> string \<Rightarrow> instant \<Rightarrow> (world, domain_error + unit) state" where
  "provision E t admin_membership admin_permission_code granted_at =
     db_call (tx_then (tx_then (insert_tenant E t) (insert_membership admin_membership))
       (insert_grant E (tm_tenant_id admin_membership) (tm_user_id admin_membership)
          admin_permission_code granted_at))"

section \<open>What the operations leave alone\<close>

lemma frame_users_create:
  "(\<And>d x. T (d\<lparr>db_users := x\<rparr>) = T d) \<Longrightarrow> always (frame T) (users_create E u)"
  unfolding users_create_def insert_user_def by (rule frame_db_call) simp

lemma frame_clients:
  assumes "\<And>d x. T (d\<lparr>db_clients := x\<rparr>) = T d"
  shows "always (frame T) (clients_create E c)" "always (frame T) (clients_update c)"
  unfolding clients_create_def clients_update_def
  using assms by (auto intro!: frame_db_execute frame_db_call)

lemma frame_memberships:
  assumes "\<And>d x. T (d\<lparr>db_memberships := x\<rparr>) = T d"
  shows "always (frame T) (memberships_create m)" "always (frame T) (memberships_activate t u)"
    "always (frame T) (memberships_delete t u)"
  unfolding memberships_create_def memberships_activate_def memberships_delete_def insert_membership_def
  using assms by (auto intro!: frame_db_execute frame_db_call)

lemma frame_tenants:
  assumes "\<And>d x. T (d\<lparr>db_tenants := x\<rparr>) = T d"
  shows "always (frame T) (tenants_create E t)" "always (frame T) (tenants_update t)"
  unfolding tenants_create_def tenants_update_def insert_tenant_def
  using assms by (auto intro!: frame_db_execute frame_db_call)

lemma frame_permissions:
  assumes "\<And>d x. T (d\<lparr>db_user_permissions := x\<rparr>) = T d"
  shows "always (frame T) (permissions_grant E t u c at)" "always (frame T) (permissions_revoke E t u c)"
    "always (frame T) (permissions_revoke_all_for_user_in_tenant t u)"
  unfolding permissions_grant_def permissions_revoke_def permissions_revoke_all_for_user_in_tenant_def
    insert_grant_def delete_grants_def
  using assms by (auto intro!: frame_db_execute frame_db_call)

lemma frame_directory_queries:
  "always (frame T) (users_find_by_ids ids)" "always (frame T) (memberships_find t u)"
  "always (frame T) (memberships_list_for_tenant t)" "always (frame T) (memberships_list_active_for_user u)"
  "always (frame T) (memberships_find_by_invitation_token_hash E h)"
  "always (frame T) (tenants_find_by_id t)" "always (frame T) tenants_find_root"
  "always (frame T) (tenants_list_children t)" "always (frame T) (permissions_list_available_codes E)"
  "always (frame T) (permissions_list_codes_for_user t u)"
  "always (frame T) (permissions_has_permission E t u c)"
  "always (frame T) (permissions_has_any_permission E t u cs)"
  unfolding users_find_by_ids_def memberships_find_def memberships_list_for_tenant_def
    memberships_list_active_for_user_def memberships_find_by_invitation_token_hash_def
    tenants_find_by_id_def tenants_find_root_def tenants_list_children_def
    permissions_list_available_codes_def permissions_list_codes_for_user_def
    permissions_has_permission_def permissions_has_any_permission_def
  by (intro frame.always_rules frame_db_query)+

section \<open>Deleting a user\<close>

text \<open>The statement is one of those the evolutions of the credential tables allow.\<close>

lemma evolves_users_delete:
  "always (evolves db_codes (codes_stmt E)) (users_delete i)"
  "always (evolves db_refresh_tokens (refresh_stmt E)) (users_delete i)"
  unfolding users_delete_def delete_user_rows_def
  by (auto intro!: evolves_db_execute r_into_rtranclp codes_stmt.cascade refresh_stmt.cascade)

text \<open>After it no row of any table names the user.\<close>

definition mentions_user :: "uuid \<Rightarrow> database \<Rightarrow> bool" where
  "mentions_user i d \<longleftrightarrow>
     (\<exists>u \<in> set (db_users d). u_id u = i) \<or> (\<exists>m \<in> set (db_memberships d). tm_user_id m = i) \<or>
     (\<exists>p \<in> set (db_user_permissions d). up_user_id p = i) \<or>
     (\<exists>s \<in> set (db_auth_sessions d). as_authenticated_user_id s = Some i) \<or>
     (\<exists>s \<in> set (db_sso_sessions d). ss_user_id s = i) \<or> (\<exists>c \<in> set (db_codes d). ac_user_id c = i) \<or>
     (\<exists>t \<in> set (db_refresh_tokens d). rt_user_id t = i) \<or> (\<exists>c \<in> set (db_consents d). cc_user_id c = i) \<or>
     (\<exists>t \<in> set (db_totp_secrets d). ts_user_id t = i) \<or> (\<exists>c \<in> set (db_credentials d). wc_user_id c = i) \<or>
     (\<exists>t \<in> set (db_reset_tokens d). lt_user_id t = i) \<or> (\<exists>t \<in> set (db_verification_tokens d). lt_user_id t = i)"

lemma cleared_user:
  "s \<in> set (update_where (\<lambda>s. as_authenticated_user_id s = Some i)
     (\<lambda>s. s\<lparr>as_authenticated_user_id := None\<rparr>) rows) \<Longrightarrow> as_authenticated_user_id s \<noteq> Some i"
  by (auto simp: update_where_def)

lemma delete_user_rows_mentions: "\<not> mentions_user i (delete_user_rows i d)"
  by (auto simp: mentions_user_def delete_user_rows_def set_delete_where dest: cleared_user)

section \<open>Invariants of the tables\<close>

text \<open>\<open>keeps I\<close>: if the tables satisfy \<open>I\<close> before, they do after.\<close>

definition keeps :: "(database \<Rightarrow> bool) \<Rightarrow> world \<Rightarrow> world \<Rightarrow> bool" where
  "keeps I w w' \<longleftrightarrow> (I (db w) \<longrightarrow> I (db w'))"

interpretation keep: kept "keeps I" for I
  by unfold_locales (auto simp: keeps_def)

lemma keeps_db_call: "(\<And>now d. I d \<Longrightarrow> I (snd (f now d))) \<Longrightarrow> always (keeps I) (db_call f)"
  by (rule alwaysI)
     (auto simp: db_call_def wp_State keeps_def Let_def case_prod_beta split: option.splits)

lemma keeps_db_execute: "(\<And>now d. I d \<Longrightarrow> I (u now d)) \<Longrightarrow> always (keeps I) (db_execute u)"
  unfolding db_execute_def by (rule keeps_db_call) simp

lemma keeps_frame:
  assumes "always (frame T) m" and "\<And>d d'. T d = T d' \<Longrightarrow> I d = I d'"
  shows "always (keeps I) m"
proof (rule alwaysI)
  fix s
  obtain a s' where run: "run_state m s = (a, s')" by (cases "run_state m s")
  with assms(1) have "T (db s') = T (db s)" unfolding frame_def [symmetric] by (rule alwaysD)
  from assms(2) [OF this] run show "wp m (\<lambda>_ s'. keeps I s s') s" by (simp add: wp_def keeps_def)
qed

end
