(* ===== verification/Permissions.thy ===== *)
theory Permissions
  imports Cache Directory Samples
begin

text \<open>
  Permissions: the caching decorator of the repository
  (\<^verbatim>\<open>infrastructure/repositories/cached_user_permission.rs\<close>), the service that grants and revokes
  permissions (\<^verbatim>\<open>application/permission_management.rs\<close>) and the access check of the administration
  interface (\<^verbatim>\<open>application/admin_access.rs\<close>).
\<close>

section \<open>The cached repository\<close>

definition permission_cache_get :: "tenant_id \<times> uuid \<times> string \<Rightarrow> (world, bool option) state" where
  "permission_cache_get key = State (\<lambda>w.
     let (r, m) = cache_get key (clock_src w (ticks w)) (permission_cache w)
     in (r, w\<lparr>ticks := Suc (ticks w), permission_cache := m\<rparr>))"

definition permission_cache_insert ::
  "config \<Rightarrow> tenant_id \<times> uuid \<times> string \<Rightarrow> bool \<Rightarrow> (world, unit) state" where
  "permission_cache_insert C key held = State (\<lambda>w.
     ((), w\<lparr>ticks := Suc (ticks w),
            permission_cache := cache_insert (permission_cache_ttl C) key held
              (clock_src w (ticks w)) (permission_cache w)\<rparr>))"

definition permission_cache_invalidate :: "tenant_id \<times> uuid \<times> string \<Rightarrow> (world, unit) state" where
  "permission_cache_invalidate key = State (\<lambda>w.
     ((), w\<lparr>permission_cache := cache_invalidate key (permission_cache w)\<rparr>))"

definition cached_has_permission ::
  "libs \<Rightarrow> config \<Rightarrow> tenant_id \<Rightarrow> uuid \<Rightarrow> string \<Rightarrow> (world, domain_error + bool) state" where
  "cached_has_permission E C tenant_id user_id code = do {
     hit \<leftarrow> permission_cache_get (tenant_id, user_id, code);
     case hit of
       Some held \<Rightarrow> State_Monad.return (Inr held)
     | None \<Rightarrow>
         and_then (permissions_has_permission E tenant_id user_id code) (\<lambda>held. do {
         permission_cache_insert C (tenant_id, user_id, code) held;
         State_Monad.return (Inr held) })
   }"

text \<open>The decorator inherits the default method of the trait: one lookup per code.\<close>

fun cached_has_any_permission ::
  "libs \<Rightarrow> config \<Rightarrow> tenant_id \<Rightarrow> uuid \<Rightarrow> string list \<Rightarrow> (world, domain_error + bool) state" where
  "cached_has_any_permission E C tenant_id user_id [] = State_Monad.return (Inr False)"
| "cached_has_any_permission E C tenant_id user_id (code # codes) =
     and_then (cached_has_permission E C tenant_id user_id code) (\<lambda>held.
     if held then State_Monad.return (Inr True)
     else cached_has_any_permission E C tenant_id user_id codes)"

definition cached_grant ::
  "libs \<Rightarrow> tenant_id \<Rightarrow> uuid \<Rightarrow> string \<Rightarrow> instant \<Rightarrow> (world, domain_error + unit) state" where
  "cached_grant E tenant_id user_id code granted_at =
     and_then (permissions_grant E tenant_id user_id code granted_at) (\<lambda>_. do {
     permission_cache_invalidate (tenant_id, user_id, code);
     State_Monad.return (Inr ()) })"

definition cached_revoke ::
  "libs \<Rightarrow> tenant_id \<Rightarrow> uuid \<Rightarrow> string \<Rightarrow> (world, domain_error + unit) state" where
  "cached_revoke E tenant_id user_id code =
     and_then (permissions_revoke E tenant_id user_id code) (\<lambda>_. do {
     permission_cache_invalidate (tenant_id, user_id, code);
     State_Monad.return (Inr ()) })"

fun invalidate_all :: "tenant_id \<Rightarrow> uuid \<Rightarrow> string list \<Rightarrow> (world, unit) state" where
  "invalidate_all tenant_id user_id [] = State_Monad.return ()"
| "invalidate_all tenant_id user_id (code # codes) = do {
     permission_cache_invalidate (tenant_id, user_id, code);
     invalidate_all tenant_id user_id codes }"

definition cached_revoke_all_for_user_in_tenant ::
  "tenant_id \<Rightarrow> uuid \<Rightarrow> (world, domain_error + string list) state" where
  "cached_revoke_all_for_user_in_tenant tenant_id user_id =
     and_then (permissions_revoke_all_for_user_in_tenant tenant_id user_id) (\<lambda>revoked. do {
     invalidate_all tenant_id user_id revoked;
     State_Monad.return (Inr revoked) })"

section \<open>Permission management\<close>

datatype permission_management_error =
    PermValidation string
  | PermNotFound
  | PermForbidden string
  | PermInternal string

definition perm_internal :: "domain_error \<Rightarrow> permission_management_error" where
  "perm_internal e = PermInternal (domain_error_to_string e)"

definition perm_map_repo_error :: "domain_error \<Rightarrow> permission_management_error" where
  "perm_map_repo_error e =
     (case e of InvalidValue m \<Rightarrow> PermValidation m | other \<Rightarrow> PermInternal (domain_error_to_string other))"

definition parse_permission_code :: "string \<Rightarrow> domain_error + string" where
  "parse_permission_code s =
     (if trim s = [] then Inl (InvalidValue ''permission code must not be empty'') else Inr s)"

definition permission_audit_reason :: "libs \<Rightarrow> string \<Rightarrow> uuid \<Rightarrow> string" where
  "permission_audit_reason E code target =
     ''permission='' @ code @ '' target='' @ uuid_to_string E target"

definition available_codes :: "libs \<Rightarrow> (world, permission_management_error + string list) state" where
  "available_codes E = map_err perm_internal (permissions_list_available_codes E)"

definition get_user :: "tenant_id \<Rightarrow> uuid \<Rightarrow> (world, permission_management_error + user) state" where
  "get_user tenant target =
     and_then (map_err perm_internal (users_find_by_id target)) (\<lambda>found.
     State_Monad.return (case found of
       Some user \<Rightarrow> if u_tenant_id user = tenant then Inr user else Inl PermNotFound
     | None \<Rightarrow> Inl PermNotFound))"

definition find_user_by_identifier ::
  "libs \<Rightarrow> tenant_id \<Rightarrow> string \<Rightarrow> (world, permission_management_error + user option) state" where
  "find_user_by_identifier E tenant identifier =
     (let identifier = trim identifier in
      if identifier = [] then State_Monad.return (Inr None)
      else map_err perm_internal
        (if CHR ''@'' \<in> set identifier then users_find_by_email E tenant identifier
         else users_find_by_username E tenant identifier))"

definition ensure_user_in_tenant ::
  "tenant_id \<Rightarrow> uuid \<Rightarrow> (world, permission_management_error + unit) state" where
  "ensure_user_in_tenant tenant target =
     and_then (map_err perm_internal (users_find_by_id target)) (\<lambda>found.
     and_then (if found \<noteq> None
               then map_err perm_internal (memberships_is_active_member tenant target)
               else State_Monad.return (Inr False)) (\<lambda>active_member.
     State_Monad.return (if active_member then Inr () else Inl PermNotFound)))"

definition ensure_system_admin_change_allowed ::
  "libs \<Rightarrow> config \<Rightarrow> tenant_id \<Rightarrow> string \<Rightarrow> uuid \<Rightarrow> (world, permission_management_error + unit) state" where
  "ensure_system_admin_change_allowed E C tenant code actor =
     (if code \<noteq> system_admin then State_Monad.return (Inr ())
      else
        and_then (map_err perm_internal (cached_has_permission E C tenant actor system_admin)) (\<lambda>held.
        State_Monad.return (if held then Inr ()
          else Inl (PermForbidden ''only idp.system.admin holders may grant or revoke idp.system.admin''))))"

definition list_permissions ::
  "tenant_id \<Rightarrow> uuid \<Rightarrow> (world, permission_management_error + string list) state" where
  "list_permissions tenant target =
     and_then (ensure_user_in_tenant tenant target) (\<lambda>_.
     map_err perm_internal (permissions_list_codes_for_user tenant target))"

text \<open>The checks \<open>grant\<close> and \<open>revoke\<close> make before they change anything.\<close>

definition permission_change_checks ::
  "libs \<Rightarrow> config \<Rightarrow> tenant_id \<Rightarrow> uuid \<Rightarrow> string \<Rightarrow> uuid \<Rightarrow> (world, permission_management_error + string) state" where
  "permission_change_checks E C tenant target code actor =
     (case parse_permission_code code of
        Inl e \<Rightarrow> State_Monad.return (Inl (PermValidation (domain_error_to_string e)))
      | Inr code \<Rightarrow>
          and_then (ensure_user_in_tenant tenant target) (\<lambda>_.
          and_then (ensure_system_admin_change_allowed E C tenant code actor) (\<lambda>_.
          State_Monad.return (Inr code))))"

definition grant_permission ::
  "libs \<Rightarrow> config \<Rightarrow> tenant_id \<Rightarrow> uuid \<Rightarrow> string \<Rightarrow> uuid \<Rightarrow> request_context \<Rightarrow>
   (world, permission_management_error + string list) state" where
  "grant_permission E C tenant target code actor ctx =
     and_then (permission_change_checks E C tenant target code actor) (\<lambda>code. do {
     now \<leftarrow> clock_now;
     and_then (map_err perm_map_repo_error (cached_grant E tenant target code now)) (\<lambda>_. do {
     audit_record UserPermissionGranted AuditSuccess (Some tenant) (Some actor) None
       (Some (permission_audit_reason E code target)) ctx;
     list_permissions tenant target }) })"

definition revoke_permission ::
  "libs \<Rightarrow> config \<Rightarrow> tenant_id \<Rightarrow> uuid \<Rightarrow> string \<Rightarrow> uuid \<Rightarrow> request_context \<Rightarrow>
   (world, permission_management_error + string list) state" where
  "revoke_permission E C tenant target code actor ctx =
     and_then (permission_change_checks E C tenant target code actor) (\<lambda>code.
     and_then (map_err perm_map_repo_error (cached_revoke E tenant target code)) (\<lambda>_. do {
     audit_record UserPermissionRevoked AuditSuccess (Some tenant) (Some actor) None
       (Some (permission_audit_reason E code target)) ctx;
     list_permissions tenant target }))"

section \<open>Access to the administration interface\<close>

record authorized_admin =
  aa_user_id :: uuid
  aa_name :: "string option"
  aa_preferred_username :: "string option"

datatype admin_access = AdminGranted authorized_admin | AdminUnauthenticated | AdminForbidden

definition resolve_session_user :: "libs \<Rightarrow> string option \<Rightarrow> (world, user option) state" where
  "resolve_session_user E sso_session_id =
     (case non_empty sso_session_id of
        None \<Rightarrow> State_Monad.return None
      | Some session_id \<Rightarrow> do {
          r \<leftarrow> sso_sessions_find_by_hash E (sha256_hex E session_id);
          case r of
            Inl _ \<Rightarrow> State_Monad.return None
          | Inr None \<Rightarrow> State_Monad.return None
          | Inr (Some session) \<Rightarrow> do {
              now \<leftarrow> clock_now;
              if \<not> sso_is_valid_at session now then State_Monad.return None
              else do {
                u \<leftarrow> users_find_by_id (ss_user_id session);
                State_Monad.return (case u of
                  Inr (Some user) \<Rightarrow> if user_is_active user then Some user else None
                | _ \<Rightarrow> None)
              }
            }
        })"

definition access_codes :: "string \<Rightarrow> string list" where
  "access_codes required =
     (if required = system_admin then [system_admin] else [required, system_admin])"

definition authorize_admin ::
  "libs \<Rightarrow> config \<Rightarrow> tenant_id \<Rightarrow> string option \<Rightarrow> string \<Rightarrow> (world, admin_access) state" where
  "authorize_admin E C tenant sso_session_id required_permission = do {
     u \<leftarrow> resolve_session_user E sso_session_id;
     case u of
       None \<Rightarrow> State_Monad.return AdminUnauthenticated
     | Some user \<Rightarrow> do {
         r \<leftarrow> cached_has_any_permission E C tenant (u_id user) (access_codes required_permission);
         State_Monad.return (case r of
           Inr True \<Rightarrow> AdminGranted \<lparr>aa_user_id = u_id user, aa_name = u_name user,
                                      aa_preferred_username = u_preferred_username user\<rparr>
         | Inr False \<Rightarrow> AdminForbidden
         | Inl _ \<Rightarrow> AdminForbidden)
       }
   }"

definition authenticated_user :: "libs \<Rightarrow> string option \<Rightarrow> (world, uuid option) state" where
  "authenticated_user E sso_session_id = do {
     u \<leftarrow> resolve_session_user E sso_session_id;
     State_Monad.return (map_option u_id u)
   }"

section \<open>Reading a run\<close>

text \<open>A grant the cache remembers: an entry that some later reading of the clock finds unexpired.\<close>

definition recently_held :: "world \<Rightarrow> tenant_id \<times> uuid \<times> string \<Rightarrow> bool" where
  "recently_held w key \<longleftrightarrow>
     (\<exists>e n. permission_cache w key = Some (True, e) \<and> ticks w \<le> n \<and> clock_src w n < e)"

lemma run_permission_cache_get [run_rules]:
  "run_state (permission_cache_get k) w = (r, w') \<longleftrightarrow>
   r = fst (cache_get k (clock_src w (ticks w)) (permission_cache w)) \<and>
   w' = (tick w)\<lparr>permission_cache := snd (cache_get k (clock_src w (ticks w)) (permission_cache w))\<rparr>"
  by (auto simp: permission_cache_get_def tick_def case_prod_beta)

lemma run_permission_cache_insert [run_rules]:
  "run_state (permission_cache_insert C k b) w = (x, w') \<longleftrightarrow>
   w' = (tick w)\<lparr>permission_cache :=
           cache_insert (permission_cache_ttl C) k b (clock_src w (ticks w)) (permission_cache w)\<rparr>"
  by (auto simp: permission_cache_insert_def tick_def)

lemma run_permission_cache_invalidate [run_rules]:
  "run_state (permission_cache_invalidate k) w = (x, w') \<longleftrightarrow>
   w' = w\<lparr>permission_cache := cache_invalidate k (permission_cache w)\<rparr>"
  by (auto simp: permission_cache_invalidate_def)

lemma cache_on_counters [simp]:
  "permission_cache (tick w) = permission_cache w" "permission_cache (draw w) = permission_cache w"
  "permission_cache (called w) = permission_cache w"
  by (simp_all add: tick_def draw_def called_def)

text \<open>What a lookup answers is cached and not expired, or read from the table; others' entries stay.\<close>

lemma cached_has_permission_Inr:
  assumes "run_state (cached_has_permission E C t u c) w = (Inr b, w')"
  shows "db w' = db w" "clock_src w' = clock_src w" "ticks w \<le> ticks w'"
    "(\<exists>e. permission_cache w (t, u, c) = Some (b, e) \<and> clock_src w (ticks w) < e) \<or>
     b = holds_permission E (db w) t u c"
    "k \<noteq> (t, u, c) \<Longrightarrow> permission_cache w' k = permission_cache w k"
  using assms
  by (auto simp: cached_has_permission_def run_rules cache_get_def cache_insert_def
        permissions_has_permission_def split: option.splits if_splits prod.splits)

lemma cached_has_permission_True:
  "run_state (cached_has_permission E C t u c) w = (Inr True, w') \<Longrightarrow>
   db w' = db w \<and> (holds_permission E (db w) t u c \<or> recently_held w (t, u, c))"
  using cached_has_permission_Inr [of E C t u c w True w'] by (auto simp: recently_held_def)

lemma cached_has_any_permission_True:
  assumes "run_state (cached_has_any_permission E C t u codes) w = (Inr True, w')" and "distinct codes"
  shows "db w' = db w \<and>
     (\<exists>code \<in> set codes. holds_permission E (db w) t u code \<or> recently_held w (t, u, code))"
  using assms
proof (induction codes arbitrary: w)
  case Nil
  then show ?case by (simp add: run_rules)
next
  case (Cons c cs)
  from Cons.prems(1) obtain b w1 where first: "run_state (cached_has_permission E C t u c) w = (Inr b, w1)"
    and rest: "run_state (if b then State_Monad.return (Inr True)
                          else cached_has_any_permission E C t u cs) w1 = (Inr True, w')"
    by (auto simp: run_rules)
  note first = cached_has_permission_Inr [OF first]
  show ?case
  proof (cases b)
    case True
    with first rest show ?thesis by (force simp: run_rules recently_held_def)
  next
    case False
    with Cons.IH [of w1] Cons.prems(2) rest obtain code where code: "code \<in> set cs" "db w' = db w1"
      "holds_permission E (db w1) t u code \<or> recently_held w1 (t, u, code)" by auto
    moreover from code(1) Cons.prems(2) have "code \<noteq> c" by auto
    ultimately show ?thesis using first by (force simp: recently_held_def)
  qed
qed

lemma resolve_session_user_Some:
  assumes "run_state (resolve_session_user E cookie) w = (Some u, w')"
  shows "\<exists>sid s. cookie = Some sid \<and> sid \<noteq> [] \<and> s \<in> set (db_sso_sessions (db w)) \<and>
     db_eq E (ss_session_hash s) (sha256_hex E sid) \<and> sso_is_valid_at s (clock_src w (ticks w + 1)) \<and>
     u \<in> set (db_users (db w)) \<and> u_id u = ss_user_id s \<and> user_is_active u"
    "db w' = db w" "permission_cache w' = permission_cache w" "clock_src w' = clock_src w" "ticks w \<le> ticks w'"
  using assms
  by (auto simp: resolve_session_user_def run_rules sso_sessions_find_by_hash_def users_find_by_id_def
        split: if_splits dest!: find_SomeD)

text \<open>
  Who passed the access check: someone with a session that is live at the \<open>n\<close>-th reading of the clock, who may
  use one of the accepted codes. The check itself reads the clock right after it has looked up the session,
  which is the reading \<open>ticks w + 1\<close>.
\<close>

definition admin_entitled ::
  "libs \<Rightarrow> world \<Rightarrow> nat \<Rightarrow> tenant_id \<Rightarrow> string option \<Rightarrow> string \<Rightarrow> uuid \<Rightarrow> bool" where
  "admin_entitled E w n t cookie required i \<longleftrightarrow>
     (\<exists>sid s u. cookie = Some sid \<and> sid \<noteq> [] \<and> s \<in> set (db_sso_sessions (db w)) \<and>
        db_eq E (ss_session_hash s) (sha256_hex E sid) \<and> sso_is_valid_at s (clock_src w n) \<and>
        u \<in> set (db_users (db w)) \<and> u_id u = ss_user_id s \<and> user_is_active u \<and> i = u_id u) \<and>
     (\<exists>code \<in> {required, system_admin}.
        holds_permission E (db w) t i code \<or> recently_held w (t, i, code))"

lemma set_access_codes [simp]: "set (access_codes r) = {r, system_admin}" "distinct (access_codes r)"
  by (auto simp: access_codes_def)

lemma authorize_admin_Granted:
  assumes "run_state (authorize_admin E C t cookie required) w = (AdminGranted a, w')"
  shows "admin_entitled E w (ticks w + 1) t cookie required (aa_user_id a) \<and> db w' = db w"
proof -
  from assms obtain u w1 where u: "run_state (resolve_session_user E cookie) w = (Some u, w1)"
    and any: "run_state (cached_has_any_permission E C t (u_id u) (access_codes required)) w1 = (Inr True, w')"
    and a: "aa_user_id a = u_id u"
    by (auto simp: authorize_admin_def run_rules split: bool.splits)
  note u = resolve_session_user_Some [OF u]
  from cached_has_any_permission_True [OF any] have "db w' = db w1 \<and>
     (\<exists>code \<in> {required, system_admin}. holds_permission E (db w1) t (u_id u) code \<or> recently_held w1 (t, u_id u, code))"
    by simp
  moreover have "recently_held w1 k \<Longrightarrow> recently_held w k" for k
    using u(3,4,5) unfolding recently_held_def by (metis order_trans)
  ultimately show ?thesis using u(1,2) unfolding a admin_entitled_def by (auto 0 3)
qed


section \<open>What a change of permissions does\<close>

lemma list_permissions_Inr:
  "run_state (list_permissions t target) w = (Inr codes, w') \<Longrightarrow>
   db w' = db w \<and> permission_cache w' = permission_cache w \<and>
   codes = map up_permission_code (filter (in_scope t target) (db_user_permissions (db w)))"
  by (auto simp: list_permissions_def ensure_user_in_tenant_def run_rules users_find_by_id_def
        memberships_is_active_member_def permissions_list_codes_for_user_def in_scope_def [abs_def] split: if_splits)

lemma audit_keeps_cache: "run_state (audit_record t r i u c m ctx) w = (x, w') \<Longrightarrow> permission_cache w' = permission_cache w"
  by (auto simp: audit_record_def audit_sink_record_def run_bindE run_returnE run_clock_now
        db_execute_def db_call_def tick_def Let_def split: option.splits if_splits)

definition active_member :: "tenant_id \<Rightarrow> uuid \<Rightarrow> database \<Rightarrow> bool" where
  "active_member t u d \<longleftrightarrow> (\<exists>x \<in> set (db_users d). u_id x = u) \<and>
     (\<exists>m \<in> set (db_memberships d). tm_tenant_id m = t \<and> tm_user_id m = u \<and> tm_status m = MemberActive)"

lemma permission_change_checks_Inr:
  assumes "run_state (permission_change_checks E C t target code actor) w = (Inr c, w')"
  shows "c = code" "db w' = db w" "active_member t target (db w)"
    "code = system_admin \<Longrightarrow>
       holds_permission E (db w) t actor system_admin \<or> recently_held w (t, actor, system_admin)"
proof -
  from assms obtain w1 where parts: "c = code" "run_state (ensure_user_in_tenant t target) w = (Inr (), w1)"
    "run_state (ensure_system_admin_change_allowed E C t code actor) w1 = (Inr (), w')"
    by (auto simp: permission_change_checks_def parse_permission_code_def run_rules split: if_splits)
  have w1: "db w1 = db w" "permission_cache w1 = permission_cache w" "clock_src w1 = clock_src w" "ticks w \<le> ticks w1"
    "active_member t target (db w)"
    using parts(2)
    by (auto simp: ensure_user_in_tenant_def run_rules users_find_by_id_def memberships_is_active_member_def
          active_member_def list_ex_iff split: if_splits dest!: find_SomeD)
  have w': "db w' = db w1" "code = system_admin \<Longrightarrow>
      holds_permission E (db w1) t actor system_admin \<or> recently_held w1 (t, actor, system_admin)"
    using parts(3)
    by (auto simp: ensure_system_admin_change_allowed_def run_rules split: if_splits
        dest!: cached_has_permission_True)
  show "c = code" "db w' = db w" "active_member t target (db w)" using parts(1) w1 w' by simp_all
  show "holds_permission E (db w) t actor system_admin \<or> recently_held w (t, actor, system_admin)"
    if "code = system_admin"
    using w'(2) [OF that] w1 unfolding recently_held_def by (metis order_trans)
qed

lemma permission_key_in_scope: "permission_key E t u c p \<longleftrightarrow> in_scope t u p \<and> db_eq E (up_permission_code p) c"
  by (auto simp: permission_key_def in_scope_def)


text \<open>The row a grant adds, unless the permission is held already.\<close>

definition granted_row :: "tenant_id \<Rightarrow> uuid \<Rightarrow> string \<Rightarrow> user_permission \<Rightarrow> bool" where
  "granted_row t u c p \<longleftrightarrow> up_user_id p = u \<and> up_permission_code p = c \<and> up_tenant_id p = t"

lemma insert_grant_Inr:
  assumes "insert_grant E t u c at now d = (Inr (), d')"
  shows "if holds_permission E d t u c then d' = d
         else root_scope_only E t c d \<and> list_ex (db_eq E c) (db_permissions d) \<and>
              (\<exists>p. granted_row t u c p \<and> d' = d\<lparr>db_user_permissions := db_user_permissions d @ [p]\<rparr>)"
  using assms
  by (auto simp: insert_grant_def holds_permission_def granted_row_def grant_references_def split: if_splits
      intro!: exI [where x = "\<lparr>up_user_id = u, up_permission_code = c, up_tenant_id = t, up_granted_at = micros at\<rparr>"])

lemma grant_permission_Inr:
  assumes "run_state (grant_permission E C t target code actor ctx) w = (Inr codes, w')"
  shows "active_member t target (db w)"
    "code = system_admin \<Longrightarrow>
       holds_permission E (db w) t actor system_admin \<or> recently_held w (t, actor, system_admin)"
    "if holds_permission E (db w) t target code then db_user_permissions (db w') = db_user_permissions (db w)
     else root_scope_only E t code (db w) \<and>
       (\<exists>p. granted_row t target code p \<and> db_user_permissions (db w') = db_user_permissions (db w) @ [p])"
    "permission_cache w' (t, target, code) = None"
    "codes = map up_permission_code (filter (in_scope t target) (db_user_permissions (db w')))"
proof -
  from assms obtain c now w1 w2 w3 where parts:
    "run_state (permission_change_checks E C t target code actor) w = (Inr c, w1)"
    "run_state (cached_grant E t target c now) (tick w1) = (Inr (), w2)"
    "run_state (audit_record UserPermissionGranted AuditSuccess (Some t) (Some actor) None
       (Some (permission_audit_reason E c target)) ctx) w2 = ((), w3)"
    "run_state (list_permissions t target) w3 = (Inr codes, w')"
    by (auto simp: grant_permission_def run_rules)
  note checks = permission_change_checks_Inr [OF parts(1)]
  obtain d n where ins: "insert_grant E t target code now n (db w) = (Inr (), d)" and w2: "db w2 = d"
    "permission_cache w2 (t, target, code) = None"
    using parts(2) checks(1,2)
    by (auto simp: cached_grant_def permissions_grant_def run_rules run_db_call_Inr cache_invalidate_def)
  have w3: "db_user_permissions (db w3) = db_user_permissions d" "permission_cache w3 = permission_cache w2"
    using run_audit [OF parts(3)] audit_keeps_cache [OF parts(3)] w2 by (auto simp: tables_eq_iff)
  show "active_member t target (db w)" by (rule checks)
  show "holds_permission E (db w) t actor system_admin \<or> recently_held w (t, actor, system_admin)"
    if "code = system_admin" using that by (rule checks)
  show "if holds_permission E (db w) t target code then db_user_permissions (db w') = db_user_permissions (db w)
     else root_scope_only E t code (db w) \<and>
       (\<exists>p. granted_row t target code p \<and> db_user_permissions (db w') = db_user_permissions (db w) @ [p])"
    using insert_grant_Inr [OF ins] list_permissions_Inr [OF parts(4)] w3 by auto
  show "permission_cache w' (t, target, code) = None"
    "codes = map up_permission_code (filter (in_scope t target) (db_user_permissions (db w')))"
    using list_permissions_Inr [OF parts(4)] w2 w3 by simp_all
qed


text \<open>
  The system permission exists in the scope of the root only. The CHECK constraint of the table keeps
  this, whichever way a grant is made.
\<close>

definition system_scope :: "libs \<Rightarrow> database \<Rightarrow> bool" where
  "system_scope E d \<longleftrightarrow> list_all (\<lambda>p. root_scope_only E (up_tenant_id p) (up_permission_code p) d) (db_user_permissions d)"

lemma root_scope_only_cong: "db_tenants d' = db_tenants d \<Longrightarrow> root_scope_only E t c d' = root_scope_only E t c d"
  by (simp add: root_scope_only_def)

lemma system_scope_cong:
  "(db_user_permissions d, db_tenants d) = (db_user_permissions d', db_tenants d') \<Longrightarrow>
   system_scope E d = system_scope E d'"
  by (simp add: system_scope_def root_scope_only_def)

lemma system_scope_insert_grant:
  assumes "system_scope E d"
  shows "system_scope E (snd (insert_grant E t u c at now d))"
proof -
  have "root_scope_only E t c d" if "\<not> holds_permission E d t u c" "isl (fst (insert_grant E t u c at now d)) = False"
    using that by (auto simp: insert_grant_def holds_permission_def split: if_splits)
  with assms show ?thesis
    by (auto simp: insert_grant_def system_scope_def holds_permission_def root_scope_only_def)
qed

lemma system_scope_delete_grants: "system_scope E d \<Longrightarrow> system_scope E (delete_grants P d)"
  by (auto simp: system_scope_def delete_grants_def delete_where_def list_all_iff root_scope_only_def)

lemma frame_permission_cache:
  "always (frame T) (permission_cache_get k)" "always (frame T) (permission_cache_insert C k b)"
  "always (frame T) (permission_cache_invalidate k)"
  by (rule alwaysI;
      simp add: permission_cache_get_def permission_cache_insert_def permission_cache_invalidate_def
        wp_State frame_def case_prod_beta)+

lemma frame_cached_has_permission: "always (frame T) (cached_has_permission E C t u c)"
  unfolding cached_has_permission_def
  by (intro frame.always_rules frame_permission_cache frame_directory_queries)

lemma frame_cached_has_any_permission: "always (frame T) (cached_has_any_permission E C t u cs)"
  by (induction cs) (auto intro!: frame.always_rules frame_cached_has_permission)

lemma frame_permission_change_checks: "always (frame T) (permission_change_checks E C t target code actor)"
  unfolding permission_change_checks_def ensure_user_in_tenant_def ensure_system_admin_change_allowed_def
  by (intro frame.always_rules frame_queries frame_cached_has_permission)

lemma frame_list_permissions: "always (frame T) (list_permissions t target)"
  unfolding list_permissions_def ensure_user_in_tenant_def
  by (intro frame.always_rules frame_queries frame_directory_queries)

lemma frame_resolve_session_user: "always (frame T) (resolve_session_user E cookie)"
  unfolding resolve_session_user_def by (intro frame.always_rules frame_ops)

lemma frame_authorize_admin: "always (frame T) (authorize_admin E C t cookie required)"
  unfolding authorize_admin_def
  by (intro frame.always_rules frame_resolve_session_user frame_cached_has_any_permission)

lemmas keeps_scope_frame = keeps_frame [where T = "\<lambda>d. (db_user_permissions d, db_tenants d)", OF _ system_scope_cong]

lemma keeps_system_scope:
  "always (keeps (system_scope E)) (permissions_grant E t u c at)"
  "always (keeps (system_scope E)) (permissions_revoke E t u c)"
  "always (keeps (system_scope E)) (permissions_revoke_all_for_user_in_tenant t u)"
  unfolding permissions_grant_def permissions_revoke_def permissions_revoke_all_for_user_in_tenant_def
  by (auto intro!: keeps_db_call keeps_db_execute system_scope_insert_grant system_scope_delete_grants)

section \<open>Properties\<close>

text \<open>
  Access to the administration interface is granted only to the user of a live SSO session whose
  account is active and who holds the required permission, or the system permission, in the scope of
  the very tenant of the request: in the table, or as an entry of the permission cache that has not
  expired. The check changes no table.
\<close>

theorem admin_access_sound:
  assumes "run_state (authorize_admin E C tenant cookie required) w = (AdminGranted a, w')"
  shows "admin_entitled E w (ticks w + 1) tenant cookie required (aa_user_id a) \<and> db w' = db w"
  using assms by (rule authorize_admin_Granted)

theorem admin_access_sound_witness:
  "\<exists>a w'. run_state (authorize_admin sample_libs sample_config 1 (Some ''sso'') tenant_admin) sample_world
            = (AdminGranted a, w') \<and>
     admin_entitled sample_libs sample_world (ticks sample_world + 1) 1 (Some ''sso'') tenant_admin (aa_user_id a)"
proof -
  have "fst (run_state (authorize_admin sample_libs sample_config 1 (Some ''sso'') tenant_admin) sample_world)
     = AdminGranted \<lparr>aa_user_id = 2, aa_name = None, aa_preferred_username = Some ''alice''\<rparr>"
    by code_simp
  then have run: "run_state (authorize_admin sample_libs sample_config 1 (Some ''sso'') tenant_admin) sample_world
     = (AdminGranted \<lparr>aa_user_id = 2, aa_name = None, aa_preferred_username = Some ''alice''\<rparr>,
        snd (run_state (authorize_admin sample_libs sample_config 1 (Some ''sso'') tenant_admin) sample_world))"
    by (rule run_fstI)
  from admin_access_sound [OF run] run show ?thesis by blast
qed






text \<open>
  A successful grant is one row. The target is an existing user with an active membership of the
  tenant; the system permission, by its exact name, is granted only by an actor who holds it, and under
  any spelling only in the scope of the root; a permission that is held already changes nothing, and
  otherwise exactly the row for target, code and tenant is added. The answer lists what the target
  then holds there.
\<close>

theorem grant_sound:
  assumes "run_state (grant_permission E C tenant target code actor ctx) w = (Inr codes, w')"
  shows "active_member tenant target (db w) \<and>
    (code = system_admin \<longrightarrow>
       holds_permission E (db w) tenant actor system_admin \<or> recently_held w (tenant, actor, system_admin)) \<and>
    (if holds_permission E (db w) tenant target code
     then db_user_permissions (db w') = db_user_permissions (db w)
     else root_scope_only E tenant code (db w) \<and>
       (\<exists>p. granted_row tenant target code p \<and> db_user_permissions (db w') = db_user_permissions (db w) @ [p])) \<and>
    codes = map up_permission_code (filter (in_scope tenant target) (db_user_permissions (db w')))"
  using grant_permission_Inr [OF assms] by blast

theorem grant_sound_witness:
  "\<exists>codes w'. run_state (grant_permission sample_libs sample_config 1 2 tenant_admin 2 sample_ctx)
       (sample_world\<lparr>db := sample_db\<lparr>db_user_permissions := []\<rparr>\<rparr>) = (Inr codes, w') \<and>
     (\<exists>p. granted_row 1 2 tenant_admin p \<and> db_user_permissions (db w') = [p]) \<and>
     codes = map up_permission_code (filter (in_scope 1 2) (db_user_permissions (db w')))"
proof -
  let ?w = "sample_world\<lparr>db := sample_db\<lparr>db_user_permissions := []\<rparr>\<rparr>"
  let ?m = "grant_permission sample_libs sample_config 1 2 tenant_admin 2 sample_ctx"
  have run: "run_state ?m ?w = (Inr [tenant_admin], snd (run_state ?m ?w))"
    by (rule run_fstI) code_simp
  from grant_sound [OF run] have "\<exists>p. granted_row 1 2 tenant_admin p \<and>
      db_user_permissions (db (snd (run_state ?m ?w))) = [p]"
    "[tenant_admin] = map up_permission_code (filter (in_scope 1 2)
       (db_user_permissions (db (snd (run_state ?m ?w)))))"
    by (auto simp: holds_permission_def)
  with run show ?thesis by - (rule exI [of _ "[tenant_admin]"], rule exI, intro conjI)
qed

text \<open>
  The comparison that guards the system permission is exact, but the collation of the column is not:
  an administrator of the root who writes its name in capitals grants it without holding it, and then
  passes the check for it.
\<close>

definition sample_tenant_root_world :: world where
  "sample_tenant_root_world = sample_world\<lparr>db := sample_db
     \<lparr>db_memberships := [sample_membership, new_home 9 2 0],
      db_user_permissions := [sample_permission\<lparr>up_tenant_id := 9\<rparr>]\<rparr>\<rparr>"

definition escalation :: "(permission_management_error + string list) \<times> world" where
  "escalation = run_state
     (grant_permission sample_libs sample_config 9 2 ''IDP.SYSTEM.ADMIN'' 2 sample_ctx) sample_tenant_root_world"

lemma system_admin_guard_bypassed:
  "fst (run_state (authorize_admin sample_libs sample_config 9 (Some ''sso'') system_admin)
     sample_tenant_root_world) = AdminForbidden"
  "fst escalation = Inr [tenant_admin, ''IDP.SYSTEM.ADMIN'']"
  "fst (run_state (authorize_admin sample_libs sample_config 9 (Some ''sso'') system_admin)
     (snd escalation)) =
   AdminGranted \<lparr>aa_user_id = 2, aa_name = None, aa_preferred_username = Some ''alice''\<rparr>"
  by code_simp+

text \<open>
  For the same reason a revocation under another spelling deletes the row but leaves the cached answer
  for the usual one in force until it expires.
\<close>

definition stale_run :: "admin_access \<times> world" where
  "stale_run = run_state (do {
     _ \<leftarrow> authorize_admin sample_libs sample_config 1 (Some ''sso'') tenant_admin;
     _ \<leftarrow> revoke_permission sample_libs sample_config 1 2 ''IDP.TENANT.ADMIN'' 2 sample_ctx;
     authorize_admin sample_libs sample_config 1 (Some ''sso'') tenant_admin }) sample_world"

lemma stale_allow_after_revoke:
  "db_user_permissions (db (snd stale_run)) = []"
  "fst stale_run = AdminGranted \<lparr>aa_user_id = 2, aa_name = None, aa_preferred_username = Some ''alice''\<rparr>"
  by code_simp+

end
