(* ===== verification/Messages.thy ===== *)
theory Messages
  imports Prelude
begin

text \<open>
  The fixed texts of the mails the services send, as the bytes of their UTF-8 encoding: for password
  resets (\<^verbatim>\<open>application/password_reset.rs\<close>), for the verification of an address
  (\<^verbatim>\<open>application/email_verification.rs\<close>) and for invitations (\<^verbatim>\<open>application/invitation.rs\<close>).
\<close>

definition reset_mail_subject :: string where
  "reset_mail_subject = [CHR 0xE3, CHR 0x83, CHR 0x91, CHR 0xE3, CHR 0x82, CHR 0xB9, CHR 0xE3, CHR 0x83, CHR 0xAF, CHR 0xE3,
    CHR 0x83, CHR 0xBC, CHR 0xE3, CHR 0x83, CHR 0x89, CHR 0xE5, CHR 0x86, CHR 0x8D, CHR 0xE8, CHR 0xA8,
    CHR 0xAD, CHR 0xE5, CHR 0xAE, CHR 0x9A, CHR 0xE3, CHR 0x81, CHR 0xAE, CHR 0xE3, CHR 0x81, CHR 0x94,
    CHR 0xE6, CHR 0xA1, CHR 0x88, CHR 0xE5, CHR 0x86, CHR 0x85] @ '' / Password reset''"

definition reset_mail_body :: "string \<Rightarrow> string \<Rightarrow> string" where
  "reset_mail_body reset_url expires_at =
    [CHR 0xE3, CHR 0x83, CHR 0x91, CHR 0xE3, CHR 0x82, CHR 0xB9, CHR 0xE3, CHR 0x83, CHR 0xAF, CHR 0xE3,
    CHR 0x83, CHR 0xBC, CHR 0xE3, CHR 0x83, CHR 0x89, CHR 0xE5, CHR 0x86, CHR 0x8D, CHR 0xE8, CHR 0xA8,
    CHR 0xAD, CHR 0xE5, CHR 0xAE, CHR 0x9A, CHR 0xE3, CHR 0x81, CHR 0xAE, CHR 0xE8, CHR 0xA6, CHR 0x81,
    CHR 0xE6, CHR 0xB1, CHR 0x82, CHR 0xE3, CHR 0x82, CHR 0x92, CHR 0xE5, CHR 0x8F, CHR 0x97, CHR 0xE3,
    CHR 0x81, CHR 0x91, CHR 0xE4, CHR 0xBB, CHR 0x98, CHR 0xE3, CHR 0x81, CHR 0x91, CHR 0xE3, CHR 0x81,
    CHR 0xBE, CHR 0xE3, CHR 0x81, CHR 0x97, CHR 0xE3, CHR 0x81, CHR 0x9F, CHR 0xE3, CHR 0x80, CHR 0x82,
    CHR 0x0A, CHR 0xE6, CHR 0xAC, CHR 0xA1, CHR 0xE3, CHR 0x81, CHR 0xAE, CHR 0xE3, CHR 0x83, CHR 0xAA,
    CHR 0xE3, CHR 0x83, CHR 0xB3, CHR 0xE3, CHR 0x82, CHR 0xAF, CHR 0xE3, CHR 0x82, CHR 0x92, CHR 0xE9,
    CHR 0x96, CHR 0x8B, CHR 0xE3, CHR 0x81, CHR 0x84, CHR 0xE3, CHR 0x81, CHR 0xA6, CHR 0xE6, CHR 0x96,
    CHR 0xB0, CHR 0xE3, CHR 0x81, CHR 0x97, CHR 0xE3, CHR 0x81, CHR 0x84, CHR 0xE3, CHR 0x83, CHR 0x91,
    CHR 0xE3, CHR 0x82, CHR 0xB9, CHR 0xE3, CHR 0x83, CHR 0xAF, CHR 0xE3, CHR 0x83, CHR 0xBC, CHR 0xE3,
    CHR 0x83, CHR 0x89, CHR 0xE3, CHR 0x82, CHR 0x92, CHR 0xE8, CHR 0xA8, CHR 0xAD, CHR 0xE5, CHR 0xAE,
    CHR 0x9A, CHR 0xE3, CHR 0x81, CHR 0x97, CHR 0xE3, CHR 0x81, CHR 0xA6, CHR 0xE3, CHR 0x81, CHR 0x8F,
    CHR 0xE3, CHR 0x81, CHR 0xA0, CHR 0xE3, CHR 0x81, CHR 0x95, CHR 0xE3, CHR 0x81, CHR 0x84, CHR 0xE3,
    CHR 0x80, CHR 0x82, CHR 0x0A, CHR 0xE5, CHR 0xBF, CHR 0x83, CHR 0xE5, CHR 0xBD, CHR 0x93, CHR 0xE3,
    CHR 0x81, CHR 0x9F, CHR 0xE3, CHR 0x82, CHR 0x8A, CHR 0xE3, CHR 0x81, CHR 0x8C, CHR 0xE3, CHR 0x81,
    CHR 0xAA, CHR 0xE3, CHR 0x81, CHR 0x84, CHR 0xE5, CHR 0xA0, CHR 0xB4, CHR 0xE5, CHR 0x90, CHR 0x88,
    CHR 0xE3, CHR 0x81, CHR 0xAF, CHR 0xE3, CHR 0x80, CHR 0x81, CHR 0xE3, CHR 0x81, CHR 0x93, CHR 0xE3,
    CHR 0x81, CHR 0xAE, CHR 0xE3, CHR 0x83, CHR 0xA1, CHR 0xE3, CHR 0x83, CHR 0xBC, CHR 0xE3, CHR 0x83,
    CHR 0xAB, CHR 0xE3, CHR 0x82, CHR 0x92, CHR 0xE7, CHR 0xA0, CHR 0xB4, CHR 0xE6, CHR 0xA3, CHR 0x84,
    CHR 0xE3, CHR 0x81, CHR 0x97, CHR 0xE3, CHR 0x81, CHR 0xA6, CHR 0xE3, CHR 0x81, CHR 0x8F, CHR 0xE3,
    CHR 0x81, CHR 0xA0, CHR 0xE3, CHR 0x81, CHR 0x95, CHR 0xE3, CHR 0x81, CHR 0x84, CHR 0xE3, CHR 0x80,
    CHR 0x82, CHR 0x0A, CHR 0x0A] @ ''A password reset was requested for your account.'' @ [CHR 0x0A] @
    ''Open the link below to set a new password.'' @ [CHR 0x0A] @ ''If you did not request this, you can safely ignore this email.'' @ [CHR 0x0A, CHR 0x0A] @
    reset_url @ [CHR 0x0A, CHR 0x0A, CHR 0xE6, CHR 0x9C, CHR 0x89, CHR 0xE5, CHR 0x8A, CHR 0xB9, CHR 0xE6, CHR 0x9C,
    CHR 0x9F, CHR 0xE9, CHR 0x99, CHR 0x90] @ '' / Expires at: '' @ expires_at @ [CHR 0x0A]"

definition verify_mail_subject :: string where
  "verify_mail_subject = [CHR 0xE3, CHR 0x83, CHR 0xA1, CHR 0xE3, CHR 0x83, CHR 0xBC, CHR 0xE3, CHR 0x83, CHR 0xAB, CHR 0xE3,
    CHR 0x82, CHR 0xA2, CHR 0xE3, CHR 0x83, CHR 0x89, CHR 0xE3, CHR 0x83, CHR 0xAC, CHR 0xE3, CHR 0x82,
    CHR 0xB9, CHR 0xE3, CHR 0x81, CHR 0xAE, CHR 0xE7, CHR 0xA2, CHR 0xBA, CHR 0xE8, CHR 0xAA, CHR 0x8D]
    @ '' / Verify your email''"

definition verify_mail_body :: "string \<Rightarrow> string \<Rightarrow> string" where
  "verify_mail_body verify_url expires_at =
    [CHR 0xE3, CHR 0x82, CHR 0xA2, CHR 0xE3, CHR 0x82, CHR 0xAB, CHR 0xE3, CHR 0x82, CHR 0xA6, CHR 0xE3,
    CHR 0x83, CHR 0xB3, CHR 0xE3, CHR 0x83, CHR 0x88, CHR 0xE7, CHR 0x99, CHR 0xBB, CHR 0xE9, CHR 0x8C,
    CHR 0xB2, CHR 0xE3, CHR 0x81, CHR 0x82, CHR 0xE3, CHR 0x82, CHR 0x8A, CHR 0xE3, CHR 0x81, CHR 0x8C,
    CHR 0xE3, CHR 0x81, CHR 0xA8, CHR 0xE3, CHR 0x81, CHR 0x86, CHR 0xE3, CHR 0x81, CHR 0x94, CHR 0xE3,
    CHR 0x81, CHR 0x96, CHR 0xE3, CHR 0x81, CHR 0x84, CHR 0xE3, CHR 0x81, CHR 0xBE, CHR 0xE3, CHR 0x81,
    CHR 0x99, CHR 0xE3, CHR 0x80, CHR 0x82, CHR 0x0A, CHR 0xE6, CHR 0xAC, CHR 0xA1, CHR 0xE3, CHR 0x81,
    CHR 0xAE, CHR 0xE3, CHR 0x83, CHR 0xAA, CHR 0xE3, CHR 0x83, CHR 0xB3, CHR 0xE3, CHR 0x82, CHR 0xAF,
    CHR 0xE3, CHR 0x82, CHR 0x92, CHR 0xE9, CHR 0x96, CHR 0x8B, CHR 0xE3, CHR 0x81, CHR 0x84, CHR 0xE3,
    CHR 0x81, CHR 0xA6, CHR 0xE3, CHR 0x83, CHR 0xA1, CHR 0xE3, CHR 0x83, CHR 0xBC, CHR 0xE3, CHR 0x83,
    CHR 0xAB, CHR 0xE3, CHR 0x82, CHR 0xA2, CHR 0xE3, CHR 0x83, CHR 0x89, CHR 0xE3, CHR 0x83, CHR 0xAC,
    CHR 0xE3, CHR 0x82, CHR 0xB9, CHR 0xE3, CHR 0x82, CHR 0x92, CHR 0xE7, CHR 0xA2, CHR 0xBA, CHR 0xE8,
    CHR 0xAA, CHR 0x8D, CHR 0xE3, CHR 0x81, CHR 0x97, CHR 0xE3, CHR 0x81, CHR 0xA6, CHR 0xE3, CHR 0x81,
    CHR 0x8F, CHR 0xE3, CHR 0x81, CHR 0xA0, CHR 0xE3, CHR 0x81, CHR 0x95, CHR 0xE3, CHR 0x81, CHR 0x84,
    CHR 0xE3, CHR 0x80, CHR 0x82, CHR 0xE7, CHR 0xA2, CHR 0xBA, CHR 0xE8, CHR 0xAA, CHR 0x8D, CHR 0xE3,
    CHR 0x81, CHR 0x8C, CHR 0xE6, CHR 0xB8, CHR 0x88, CHR 0xE3, CHR 0x82, CHR 0x80, CHR 0xE3, CHR 0x81,
    CHR 0xBE, CHR 0xE3, CHR 0x81, CHR 0xA7, CHR 0xE3, CHR 0x81, CHR 0xAF, CHR 0xE3, CHR 0x83, CHR 0xAD,
    CHR 0xE3, CHR 0x82, CHR 0xB0, CHR 0xE3, CHR 0x82, CHR 0xA4, CHR 0xE3, CHR 0x83, CHR 0xB3, CHR 0xE3,
    CHR 0x81, CHR 0xA7, CHR 0xE3, CHR 0x81, CHR 0x8D, CHR 0xE3, CHR 0x81, CHR 0xBE, CHR 0xE3, CHR 0x81,
    CHR 0x9B, CHR 0xE3, CHR 0x82, CHR 0x93, CHR 0xE3, CHR 0x80, CHR 0x82, CHR 0x0A, CHR 0xE5, CHR 0xBF,
    CHR 0x83, CHR 0xE5, CHR 0xBD, CHR 0x93, CHR 0xE3, CHR 0x81, CHR 0x9F, CHR 0xE3, CHR 0x82, CHR 0x8A,
    CHR 0xE3, CHR 0x81, CHR 0x8C, CHR 0xE3, CHR 0x81, CHR 0xAA, CHR 0xE3, CHR 0x81, CHR 0x84, CHR 0xE5,
    CHR 0xA0, CHR 0xB4, CHR 0xE5, CHR 0x90, CHR 0x88, CHR 0xE3, CHR 0x81, CHR 0xAF, CHR 0xE3, CHR 0x80,
    CHR 0x81, CHR 0xE3, CHR 0x81, CHR 0x93, CHR 0xE3, CHR 0x81, CHR 0xAE, CHR 0xE3, CHR 0x83, CHR 0xA1,
    CHR 0xE3, CHR 0x83, CHR 0xBC, CHR 0xE3, CHR 0x83, CHR 0xAB, CHR 0xE3, CHR 0x82, CHR 0x92, CHR 0xE7,
    CHR 0xA0, CHR 0xB4, CHR 0xE6, CHR 0xA3, CHR 0x84, CHR 0xE3, CHR 0x81, CHR 0x97, CHR 0xE3, CHR 0x81,
    CHR 0xA6, CHR 0xE3, CHR 0x81, CHR 0x8F, CHR 0xE3, CHR 0x81, CHR 0xA0, CHR 0xE3, CHR 0x81, CHR 0x95,
    CHR 0xE3, CHR 0x81, CHR 0x84, CHR 0xE3, CHR 0x80, CHR 0x82, CHR 0x0A, CHR 0x0A] @ ''Thanks for registering. Open the link below to verify your email address.'' @ [CHR 0x0A] @ ''You will not be able to sign in until your email is verified.'' @ [CHR 0x0A] @ ''If you did not request this, you can safely ignore this email.'' @ [CHR 0x0A, CHR 0x0A] @
    verify_url @ [CHR 0x0A, CHR 0x0A, CHR 0xE6, CHR 0x9C, CHR 0x89, CHR 0xE5, CHR 0x8A, CHR 0xB9, CHR 0xE6, CHR 0x9C,
    CHR 0x9F, CHR 0xE9, CHR 0x99, CHR 0x90] @ '' / Expires at: '' @ expires_at @ [CHR 0x0A]"

definition invite_mail_subject :: string where
  "invite_mail_subject = [CHR 0xE3, CHR 0x82, CHR 0xB2, CHR 0xE3, CHR 0x82, CHR 0xB9, CHR 0xE3, CHR 0x83, CHR 0x88, CHR 0xE6,
    CHR 0x8B, CHR 0x9B, CHR 0xE5, CHR 0xBE, CHR 0x85, CHR 0xE3, CHR 0x81, CHR 0xAE, CHR 0xE3, CHR 0x81,
    CHR 0x8A, CHR 0xE7, CHR 0x9F, CHR 0xA5, CHR 0xE3, CHR 0x82, CHR 0x89, CHR 0xE3, CHR 0x81, CHR 0x9B]
    @ '' / You are invited as a guest''"

definition invite_mail_body :: "string \<Rightarrow> string \<Rightarrow> string" where
  "invite_mail_body accept_url expires_at =
    [CHR 0xE3, CHR 0x83, CHR 0x86, CHR 0xE3, CHR 0x83, CHR 0x8A, CHR 0xE3, CHR 0x83, CHR 0xB3, CHR 0xE3,
    CHR 0x83, CHR 0x88, CHR 0xE3, CHR 0x81, CHR 0xB8, CHR 0xE3, CHR 0x81, CHR 0xAE, CHR 0xE3, CHR 0x82,
    CHR 0xB2, CHR 0xE3, CHR 0x82, CHR 0xB9, CHR 0xE3, CHR 0x83, CHR 0x88, CHR 0xE3, CHR 0x81, CHR 0xA8,
    CHR 0xE3, CHR 0x81, CHR 0x97, CHR 0xE3, CHR 0x81, CHR 0xA6, CHR 0xE6, CHR 0x8B, CHR 0x9B, CHR 0xE5,
    CHR 0xBE, CHR 0x85, CHR 0xE3, CHR 0x81, CHR 0x95, CHR 0xE3, CHR 0x82, CHR 0x8C, CHR 0xE3, CHR 0x81,
    CHR 0xBE, CHR 0xE3, CHR 0x81, CHR 0x97, CHR 0xE3, CHR 0x81, CHR 0x9F, CHR 0xE3, CHR 0x80, CHR 0x82,
    CHR 0x0A, CHR 0xE6, CHR 0x89, CHR 0x80, CHR 0xE5, CHR 0xB1, CHR 0x9E, CHR 0xE5, CHR 0x85, CHR 0x83,
    CHR 0xE3, CHR 0x83, CHR 0x86, CHR 0xE3, CHR 0x83, CHR 0x8A, CHR 0xE3, CHR 0x83, CHR 0xB3, CHR 0xE3,
    CHR 0x83, CHR 0x88, CHR 0xE3, CHR 0x81, CHR 0xA7, CHR 0xE3, CHR 0x83, CHR 0xAD, CHR 0xE3, CHR 0x82,
    CHR 0xB0, CHR 0xE3, CHR 0x82, CHR 0xA4, CHR 0xE3, CHR 0x83, CHR 0xB3, CHR 0xE3, CHR 0x81, CHR 0x97,
    CHR 0xE3, CHR 0x81, CHR 0x9F, CHR 0xE7, CHR 0x8A, CHR 0xB6, CHR 0xE6, CHR 0x85, CHR 0x8B, CHR 0xE3,
    CHR 0x81, CHR 0xA7, CHR 0xE3, CHR 0x80, CHR 0x81, CHR 0xE6, CHR 0xAC, CHR 0xA1, CHR 0xE3, CHR 0x81,
    CHR 0xAE, CHR 0xE3, CHR 0x83, CHR 0xAA, CHR 0xE3, CHR 0x83, CHR 0xB3, CHR 0xE3, CHR 0x82, CHR 0xAF,
    CHR 0xE3, CHR 0x82, CHR 0x92, CHR 0xE9, CHR 0x96, CHR 0x8B, CHR 0xE3, CHR 0x81, CHR 0x84, CHR 0xE3,
    CHR 0x81, CHR 0xA6, CHR 0xE6, CHR 0x8B, CHR 0x9B, CHR 0xE5, CHR 0xBE, CHR 0x85, CHR 0xE3, CHR 0x82,
    CHR 0x92, CHR 0xE6, CHR 0x89, CHR 0xBF, CHR 0xE8, CHR 0xAB, CHR 0xBE, CHR 0xE3, CHR 0x81, CHR 0x97,
    CHR 0xE3, CHR 0x81, CHR 0xA6, CHR 0xE3, CHR 0x81, CHR 0x8F, CHR 0xE3, CHR 0x81, CHR 0xA0, CHR 0xE3,
    CHR 0x81, CHR 0x95, CHR 0xE3, CHR 0x81, CHR 0x84, CHR 0xE3, CHR 0x80, CHR 0x82, CHR 0x0A, CHR 0x0A]
    @ ''You have been invited to join a tenant as a guest.'' @ [CHR 0x0A] @ ''While signed in at your home tenant, open the link below to accept the invitation.'' @ [CHR 0x0A, CHR 0x0A] @
    accept_url @ [CHR 0x0A, CHR 0x0A, CHR 0xE6, CHR 0x9C, CHR 0x89, CHR 0xE5, CHR 0x8A, CHR 0xB9, CHR 0xE6, CHR 0x9C,
    CHR 0x9F, CHR 0xE9, CHR 0x99, CHR 0x90] @ '' / Expires at: '' @ expires_at @ [CHR 0x0A]"

end
