(* ===== verification/LinkTokens.thy ===== *)
theory LinkTokens
  imports SystemSettings RateLimit
begin

text \<open>
  The tables of mailed one-time links: \<^verbatim>\<open>password_reset_tokens\<close> and \<^verbatim>\<open>email_verification_tokens\<close>,
  whose repositories have the same statements. A link is a one-time credential like an authorization
  code: the interface \<open>one_time_store\<close> is interpreted for it.
\<close>

section \<open>Rows\<close>

definition insert_link :: "libs \<Rightarrow> link_token \<Rightarrow> instant \<Rightarrow> link_token list \<Rightarrow> (domain_error + unit) \<times> link_token list" where
  "insert_link E t now rows =
     insert_row E (\<lambda>x. db_eq E (lt_token_hash x) (lt_token_hash t))
       (t\<lparr>lt_expires_at := micros (lt_expires_at t), lt_used_at := map_option micros (lt_used_at t),
          lt_created_at := micros now\<rparr>) rows"

definition link_consumable :: "libs \<Rightarrow> string \<Rightarrow> instant \<Rightarrow> link_token \<Rightarrow> bool" where
  "link_consumable E token_hash used_at t \<longleftrightarrow>
     db_eq E (lt_token_hash t) token_hash \<and> lt_used_at t = None \<and> lt_expires_at t > micros used_at"

definition link_used :: "instant \<Rightarrow> link_token \<Rightarrow> link_token" where
  "link_used used_at t = t\<lparr>lt_used_at := Some (micros used_at)\<rparr>"

definition consume_link :: "libs \<Rightarrow> string \<Rightarrow> instant \<Rightarrow> link_token list \<Rightarrow> nat \<times> link_token list" where
  "consume_link E token_hash used_at rows =
     (rows_affected (link_consumable E token_hash used_at) rows,
      update_where (link_consumable E token_hash used_at) (link_used used_at) rows)"

definition invalidate_links :: "uuid \<Rightarrow> instant \<Rightarrow> link_token list \<Rightarrow> link_token list" where
  "invalidate_links user_id now rows =
     update_where (\<lambda>t. lt_user_id t = user_id \<and> lt_used_at t = None) (link_used now) rows"

section \<open>Password reset tokens\<close>

definition reset_tokens_create :: "libs \<Rightarrow> password_reset_token \<Rightarrow> (world, domain_error + unit) state" where
  "reset_tokens_create E t = db_call (\<lambda>now d.
     let (r, rows) = insert_link E t now (db_reset_tokens d) in (r, d\<lparr>db_reset_tokens := rows\<rparr>))"

definition reset_tokens_consume ::
  "libs \<Rightarrow> string \<Rightarrow> instant \<Rightarrow> (world, domain_error + password_reset_token option) state" where
  "reset_tokens_consume E token_hash used_at =
     and_then (db_call (\<lambda>_ d.
       let (n, rows) = consume_link E token_hash used_at (db_reset_tokens d)
       in (Inr n, d\<lparr>db_reset_tokens := rows\<rparr>))) (\<lambda>n.
     if n = 0 then State_Monad.return (Inr None)
     else db_query (\<lambda>_ d. find (\<lambda>t. db_eq E (lt_token_hash t) token_hash) (db_reset_tokens d)))"

definition reset_tokens_invalidate_all_for_user :: "uuid \<Rightarrow> instant \<Rightarrow> (world, domain_error + unit) state" where
  "reset_tokens_invalidate_all_for_user user_id now = db_execute (\<lambda>_ d.
     d\<lparr>db_reset_tokens := invalidate_links user_id now (db_reset_tokens d)\<rparr>)"

section \<open>E-mail verification tokens\<close>

definition verification_tokens_create ::
  "libs \<Rightarrow> email_verification_token \<Rightarrow> (world, domain_error + unit) state" where
  "verification_tokens_create E t = db_call (\<lambda>now d.
     let (r, rows) = insert_link E t now (db_verification_tokens d)
     in (r, d\<lparr>db_verification_tokens := rows\<rparr>))"

definition verification_tokens_consume ::
  "libs \<Rightarrow> string \<Rightarrow> instant \<Rightarrow> (world, domain_error + email_verification_token option) state" where
  "verification_tokens_consume E token_hash used_at =
     and_then (db_call (\<lambda>_ d.
       let (n, rows) = consume_link E token_hash used_at (db_verification_tokens d)
       in (Inr n, d\<lparr>db_verification_tokens := rows\<rparr>))) (\<lambda>n.
     if n = 0 then State_Monad.return (Inr None)
     else db_query (\<lambda>_ d. find (\<lambda>t. db_eq E (lt_token_hash t) token_hash) (db_verification_tokens d)))"

definition verification_tokens_invalidate_all_for_user ::
  "uuid \<Rightarrow> instant \<Rightarrow> (world, domain_error + unit) state" where
  "verification_tokens_invalidate_all_for_user user_id now = db_execute (\<lambda>_ d.
     d\<lparr>db_verification_tokens := invalidate_links user_id now (db_verification_tokens d)\<rparr>)"

section \<open>What the operations leave alone\<close>

lemma frame_reset_tokens:
  assumes "\<And>d x. T (d\<lparr>db_reset_tokens := x\<rparr>) = T d"
  shows "always (frame T) (reset_tokens_create E t)" "always (frame T) (reset_tokens_consume E h now)"
    "always (frame T) (reset_tokens_invalidate_all_for_user u now)"
  unfolding reset_tokens_create_def reset_tokens_consume_def reset_tokens_invalidate_all_for_user_def
  using assms
  by (auto intro!: frame_db_execute frame_db_call frame.always_rules frame_db_query simp: case_prod_beta)

lemma frame_verification_tokens:
  assumes "\<And>d x. T (d\<lparr>db_verification_tokens := x\<rparr>) = T d"
  shows "always (frame T) (verification_tokens_create E t)"
    "always (frame T) (verification_tokens_consume E h now)"
    "always (frame T) (verification_tokens_invalidate_all_for_user u now)"
  unfolding verification_tokens_create_def verification_tokens_consume_def
    verification_tokens_invalidate_all_for_user_def
  using assms
  by (auto intro!: frame_db_execute frame_db_call frame.always_rules frame_db_query simp: case_prod_beta)

section \<open>The statements on a table of links\<close>

inductive link_stmt :: "libs \<Rightarrow> link_token list \<Rightarrow> link_token list \<Rightarrow> bool" for E where
  create: "lt_used_at t = None \<Longrightarrow> link_stmt E rows (snd (insert_link E t now rows))"
| consume: "link_stmt E rows (snd (consume_link E token_hash used_at rows))"
| invalidate: "link_stmt E rows (invalidate_links user_id now rows)"
| cascade: "link_stmt E rows (delete_where (\<lambda>t. lt_user_id t = user_id) rows)"

inductive_cases link_stmtE: "link_stmt E rows rows'"

definition links_pk :: "libs \<Rightarrow> link_token list \<Rightarrow> bool" where
  "links_pk E rows = distinct (map (\<lambda>t. collate E (lt_token_hash t)) rows)"

definition link_held :: "libs \<Rightarrow> string \<Rightarrow> link_token list \<Rightarrow> bool" where
  "link_held E h rows \<longleftrightarrow> (\<exists>t \<in> set rows. db_eq E (lt_token_hash t) h)"

definition link_spent :: "libs \<Rightarrow> string \<Rightarrow> link_token list \<Rightarrow> bool" where
  "link_spent E h rows \<longleftrightarrow> (\<forall>t \<in> set rows. db_eq E (lt_token_hash t) h \<longrightarrow> lt_used_at t \<noteq> None)"

lemma link_used_simps [simp]:
  "lt_token_hash (link_used now t) = lt_token_hash t" "lt_user_id (link_used now t) = lt_user_id t"
  "lt_expires_at (link_used now t) = lt_expires_at t" "lt_used_at (link_used now t) = Some (micros now)"
  by (simp_all add: link_used_def)

lemma link_spent_update_where: "link_spent E h rows \<Longrightarrow> link_spent E h (update_where P (link_used now) rows)"
  by (auto simp: link_spent_def update_where_def)

lemma link_spent_stmt:
  "no_reissue (link_held E h) (link_stmt E) rows rows' \<Longrightarrow> link_spent E h rows \<Longrightarrow> link_spent E h rows'"
  unfolding no_reissue_def
  by (elim conjE link_stmtE)
     (auto simp: link_spent_update_where consume_link_def invalidate_links_def,
      auto simp: link_spent_def link_held_def set_delete_where insert_link_def insert_row_def list_ex_iff db_eq_def
        split: if_splits)

lemma links_pk_stmt: "link_stmt E rows rows' \<Longrightarrow> links_pk E rows \<Longrightarrow> links_pk E rows'"
proof (erule link_stmtE)
  fix t now
  assume pk: "links_pk E rows" and rows': "rows' = snd (insert_link E t now rows)"
  show "links_pk E rows'" unfolding rows' links_pk_def insert_link_def
    by (rule insert_row_pk [where key = t, OF pk [unfolded links_pk_def]]) (auto simp: db_eq_def)
qed (auto simp: links_pk_def consume_link_def invalidate_links_def distinct_map_update_where distinct_map_delete_where)

text \<open>The UPDATE touches the one row with the hash.\<close>

lemma consume_link_row:
  assumes "links_pk E rows" and "fst (consume_link E h now rows) \<noteq> 0"
  shows "\<exists>row \<in> set rows. link_consumable E h now row \<and>
     find (\<lambda>t. db_eq E (lt_token_hash t) h) rows = Some row \<and>
     (\<forall>t \<in> set rows. db_eq E (lt_token_hash t) h \<longrightarrow> t = row)"
proof -
  from assms(2) obtain row where row: "row \<in> set rows" "link_consumable E h now row"
    by (auto simp: consume_link_def rows_affected_0)
  then have hash: "collate E (lt_token_hash row) = collate E h" by (simp add: link_consumable_def db_eq_def)
  with row(1) assms(1) have "find (\<lambda>t. db_eq E (lt_token_hash t) h) rows = Some row"
    using find_unique [of "\<lambda>t. collate E (lt_token_hash t)" rows row] by (simp add: links_pk_def db_eq_def)
  moreover have "t = row" if "t \<in> set rows" "db_eq E (lt_token_hash t) h" for t
    using that row(1) hash assms(1) unfolding links_pk_def distinct_map db_eq_def
    by (metis (no_types, lifting) inj_onD)
  ultimately show ?thesis using row by blast
qed

lemma consume_link_spends:
  assumes "links_pk E rows" and "fst (consume_link E h now rows) \<noteq> 0"
  shows "link_spent E h (snd (consume_link E h now rows))"
proof -
  obtain row where row: "link_consumable E h now row" "\<forall>t \<in> set rows. db_eq E (lt_token_hash t) h \<longrightarrow> t = row"
    using consume_link_row [OF assms] by blast
  then show ?thesis by (auto simp: link_spent_def consume_link_def update_where_def)
qed

interpretation link_store: one_time_store "consume_link E" "link_stmt E" "links_pk E" "link_held E" "link_spent E" for E
proof unfold_locales
  show "link_stmt E d d' \<Longrightarrow> links_pk E d \<Longrightarrow> links_pk E d'" for d d' by (rule links_pk_stmt)
  show "link_stmt E d (snd (consume_link E k t d))" for d k t by (rule link_stmt.consume)
  show "links_pk E d \<Longrightarrow> fst (consume_link E k t d) \<noteq> 0 \<Longrightarrow> link_spent E k (snd (consume_link E k t d))" for d k t
    by (rule consume_link_spends)
  show "no_reissue (link_held E k) (link_stmt E) d d' \<Longrightarrow> link_spent E k d \<Longrightarrow> link_spent E k d'" for k d d'
    by (rule link_spent_stmt)
  show "link_spent E k d \<Longrightarrow> fst (consume_link E k t d) = 0" for k d t
    by (auto simp: link_spent_def consume_link_def rows_affected_0 link_consumable_def)
qed

lemma evolves_reset_tokens:
  "lt_used_at t = None \<Longrightarrow> always (evolves db_reset_tokens (link_stmt E)) (reset_tokens_create E t)"
  "always (evolves db_reset_tokens (link_stmt E)) (reset_tokens_consume E h now)"
  "always (evolves db_reset_tokens (link_stmt E)) (reset_tokens_invalidate_all_for_user u now)"
  "always (evolves db_reset_tokens (link_stmt E)) (users_delete u)"
  unfolding reset_tokens_create_def reset_tokens_consume_def reset_tokens_invalidate_all_for_user_def
    users_delete_def delete_user_rows_def
  by (auto intro!: evolves_db_call evolves_db_execute evo.always_rules evolves_db_query
        r_into_rtranclp link_stmt.intros simp: case_prod_beta)

lemma evolves_verification_tokens:
  "lt_used_at t = None \<Longrightarrow> always (evolves db_verification_tokens (link_stmt E)) (verification_tokens_create E t)"
  "always (evolves db_verification_tokens (link_stmt E)) (verification_tokens_consume E h now)"
  "always (evolves db_verification_tokens (link_stmt E)) (verification_tokens_invalidate_all_for_user u now)"
  "always (evolves db_verification_tokens (link_stmt E)) (users_delete u)"
  unfolding verification_tokens_create_def verification_tokens_consume_def
    verification_tokens_invalidate_all_for_user_def users_delete_def delete_user_rows_def
  by (auto intro!: evolves_db_call evolves_db_execute evo.always_rules evolves_db_query
        r_into_rtranclp link_stmt.intros simp: case_prod_beta)

section \<open>Reading a run\<close>

lemma reset_tokens_consume_Some:
  assumes "links_pk E (db_reset_tokens (db w))"
    and "run_state (reset_tokens_consume E h now) w = (Inr (Some t), w')"
  shows "\<exists>row \<in> set (db_reset_tokens (db w)). link_consumable E h now row \<and> t = link_used now row \<and>
     db w' = (db w)\<lparr>db_reset_tokens := snd (consume_link E h now (db_reset_tokens (db w)))\<rparr> \<and>
     link_spent E h (db_reset_tokens (db w'))"
proof -
  let ?rows = "db_reset_tokens (db w)"
  from assms(2) have n: "fst (consume_link E h now ?rows) \<noteq> 0"
    and t: "find (\<lambda>t. db_eq E (lt_token_hash t) h) (snd (consume_link E h now ?rows)) = Some t"
    and db: "db w' = (db w)\<lparr>db_reset_tokens := snd (consume_link E h now ?rows)\<rparr>"
    by (auto simp: reset_tokens_consume_def run_rules run_db_call_Inr case_prod_beta split: if_splits)
  from consume_link_row [OF assms(1) n] obtain row where row: "row \<in> set ?rows" "link_consumable E h now row"
    "find (\<lambda>t. db_eq E (lt_token_hash t) h) ?rows = Some row" by blast
  from t row(2,3) have "t = link_used now row" by (simp add: consume_link_def find_update_where)
  with row db consume_link_spends [OF assms(1) n] show ?thesis by auto
qed

lemma verification_tokens_consume_Some:
  assumes "links_pk E (db_verification_tokens (db w))"
    and "run_state (verification_tokens_consume E h now) w = (Inr (Some t), w')"
  shows "\<exists>row \<in> set (db_verification_tokens (db w)). link_consumable E h now row \<and> t = link_used now row \<and>
     db w' = (db w)\<lparr>db_verification_tokens := snd (consume_link E h now (db_verification_tokens (db w)))\<rparr> \<and>
     link_spent E h (db_verification_tokens (db w'))"
proof -
  let ?rows = "db_verification_tokens (db w)"
  from assms(2) have n: "fst (consume_link E h now ?rows) \<noteq> 0"
    and t: "find (\<lambda>t. db_eq E (lt_token_hash t) h) (snd (consume_link E h now ?rows)) = Some t"
    and db: "db w' = (db w)\<lparr>db_verification_tokens := snd (consume_link E h now ?rows)\<rparr>"
    by (auto simp: verification_tokens_consume_def run_rules run_db_call_Inr case_prod_beta split: if_splits)
  from consume_link_row [OF assms(1) n] obtain row where row: "row \<in> set ?rows" "link_consumable E h now row"
    "find (\<lambda>t. db_eq E (lt_token_hash t) h) ?rows = Some row" by blast
  from t row(2,3) have "t = link_used now row" by (simp add: consume_link_def find_update_where)
  with row db consume_link_spends [OF assms(1) n] show ?thesis by auto
qed

end
