(* ===== verification/PasswordReset.thy ===== *)
theory PasswordReset
  imports LinkTokens Messages MfaLogin
begin

text \<open>
  The self-service password reset of \<^verbatim>\<open>application/password_reset.rs\<close>: asking for a link, which answers
  the same whether or not there is such an account, and setting a new password with the mailed token,
  which also ends every session and revokes every token of the user.
\<close>

section \<open>Model\<close>

datatype request_reset_outcome = ResetAccepted | ResetUnavailable | ResetRateLimited

datatype reset_password_outcome =
  ResetOk | ResetInvalidOrExpired | ResetWeakPassword | ResetInternal string

definition reset_failed :: "domain_error \<Rightarrow> reset_password_outcome" where
  "reset_failed e = ResetInternal (domain_error_to_string e)"

definition RESET_TOKEN_BYTES :: nat where
  "RESET_TOKEN_BYTES = 32"

definition PASSWORD_RESET_RATE_LIMIT_MAX_ATTEMPTS :: nat where
  "PASSWORD_RESET_RATE_LIMIT_MAX_ATTEMPTS = 5"

definition PASSWORD_RESET_RATE_LIMIT_WINDOW_MINUTES :: int where
  "PASSWORD_RESET_RATE_LIMIT_WINDOW_MINUTES = 15"

text \<open>The service has a rate limiter of its own.\<close>

definition reset_check_and_record :: "string \<Rightarrow> instant \<Rightarrow> (world, bool) state" where
  "reset_check_and_record key now = State (\<lambda>w.
     let (ok, m) = limiter_step PASSWORD_RESET_RATE_LIMIT_MAX_ATTEMPTS
                     (minutes PASSWORD_RESET_RATE_LIMIT_WINDOW_MINUTES) key now (reset_attempts w)
     in (ok, w\<lparr>reset_attempts := m\<rparr>))"

text \<open>\<open>trim_end_matches('/')\<close>, done when the services are built.\<close>

definition trim_end_slashes :: "string \<Rightarrow> string" where
  "trim_end_slashes s = rev (dropWhile (\<lambda>c. c = CHR ''/'') (rev s))"

definition rate_key :: "request_context \<Rightarrow> string" where
  "rate_key ctx = (case ip_address ctx of Some ip \<Rightarrow> ip | None \<Rightarrow> ''unknown'')"

definition reset_mail :: "libs \<Rightarrow> config \<Rightarrow> tenant_id \<Rightarrow> user \<Rightarrow> string \<Rightarrow> instant \<Rightarrow> outgoing_email" where
  "reset_mail E C tenant user token expires_at =
     (let reset_url = trim_end_slashes (console_base_url C) @ ''/'' @ uuid_to_string E tenant @
                      ''/password-reset?token='' @ token
      in \<lparr>mail_to = u_email user, mail_subject = reset_mail_subject,
          mail_body_text = reset_mail_body reset_url (to_rfc3339 E expires_at)\<rparr>)"

text \<open>The part of \<open>request_reset\<close> from the lookup of the account on.\<close>

definition reset_for_account ::
  "libs \<Rightarrow> config \<Rightarrow> tenant_id \<Rightarrow> string \<Rightarrow> request_context \<Rightarrow> smtp_server_config \<Rightarrow>
   (world, request_reset_outcome) state" where
  "reset_for_account E C tenant email ctx server = do {
     found \<leftarrow> users_find_by_email E tenant (trim email);
     case found of
       Inl _ \<Rightarrow> State_Monad.return ResetAccepted
     | Inr None \<Rightarrow> State_Monad.return ResetAccepted
     | Inr (Some user) \<Rightarrow>
         if \<not> user_is_active user then State_Monad.return ResetAccepted
         else do {
           now \<leftarrow> clock_now;
           invalidated \<leftarrow> reset_tokens_invalidate_all_for_user (u_id user) now;
           case invalidated of
             Inl _ \<Rightarrow> State_Monad.return ResetAccepted
           | Inr _ \<Rightarrow> do {
               token \<leftarrow> random_token E RESET_TOKEN_BYTES;
               created \<leftarrow> reset_tokens_create E
                 \<lparr>lt_token_hash = sha256_hex E token, lt_user_id = u_id user,
                  lt_expires_at = now + reset_ttl C, lt_used_at = None, lt_created_at = now\<rparr>;
               case created of
                 Inl _ \<Rightarrow> State_Monad.return ResetAccepted
               | Inr _ \<Rightarrow> do {
                   audit_record PasswordResetRequested AuditSuccess (Some (u_tenant_id user))
                     (Some (u_id user)) None None ctx;
                   _ \<leftarrow> mailer_send E server (reset_mail E C tenant user token (now + reset_ttl C));
                   State_Monad.return ResetAccepted
                 }
             }
         }
   }"

definition request_reset ::
  "libs \<Rightarrow> config \<Rightarrow> tenant_id \<Rightarrow> string \<Rightarrow> request_context \<Rightarrow> (world, request_reset_outcome) state" where
  "request_reset E C tenant email ctx = do {
     now \<leftarrow> clock_now;
     ok \<leftarrow> reset_check_and_record (rate_key ctx) now;
     if \<not> ok then State_Monad.return ResetRateLimited
     else do {
       server \<leftarrow> smtp_server E C;
       case server of
         Inl _ \<Rightarrow> State_Monad.return ResetUnavailable
       | Inr None \<Rightarrow> State_Monad.return ResetUnavailable
       | Inr (Some server) \<Rightarrow> reset_for_account E C tenant email ctx server
     }
   }"

text \<open>The owner of the token, who must be active and of the tenant of the page.\<close>

definition reset_owner ::
  "tenant_id \<Rightarrow> password_reset_token \<Rightarrow> (world, reset_password_outcome + user) state" where
  "reset_owner tenant record =
     and_then (map_err reset_failed (users_find_by_id (lt_user_id record))) (\<lambda>found.
     State_Monad.return (case found of
       Some user \<Rightarrow> if user_is_active user \<and> u_tenant_id user = tenant then Inr user else Inl ResetInvalidOrExpired
     | None \<Rightarrow> Inl ResetInvalidOrExpired))"

definition reset_steps ::
  "libs \<Rightarrow> tenant_id \<Rightarrow> string \<Rightarrow> string \<Rightarrow> request_context \<Rightarrow> (world, reset_password_outcome + unit) state" where
  "reset_steps E tenant token new_password ctx =
     and_then (require (token \<noteq> []) ResetInvalidOrExpired) (\<lambda>_.
     and_then (require (\<not> isl (validate_password_strength new_password)) ResetWeakPassword) (\<lambda>_. do {
     now \<leftarrow> clock_now;
     and_then (map_err reset_failed (reset_tokens_consume E (sha256_hex E token) now)) (\<lambda>consumed.
     case consumed of
       None \<Rightarrow> State_Monad.return (Inl ResetInvalidOrExpired)
     | Some record \<Rightarrow>
         and_then (reset_owner tenant record) (\<lambda>user.
         and_then (map_err reset_failed (hasher_hash E new_password)) (\<lambda>new_hash.
         and_then (map_err reset_failed (users_update_password (u_id user) new_hash)) (\<lambda>_. do {
         _ \<leftarrow> sso_sessions_delete_all_for_user (u_id user);
         _ \<leftarrow> refresh_tokens_revoke_all_for_user (u_id user) now;
         _ \<leftarrow> codes_revoke_all_active_for_user (u_id user) now;
         audit_record PasswordResetCompleted AuditSuccess (Some (u_tenant_id user)) (Some (u_id user)) None None ctx;
         State_Monad.return (Inr ()) })))) }))"

definition reset_password ::
  "libs \<Rightarrow> tenant_id \<Rightarrow> string \<Rightarrow> string \<Rightarrow> request_context \<Rightarrow> (world, reset_password_outcome) state" where
  "reset_password E tenant token new_password ctx = do {
     r \<leftarrow> reset_steps E tenant token new_password ctx;
     State_Monad.return (case r of Inl out \<Rightarrow> out | Inr _ \<Rightarrow> ResetOk)
   }"

section \<open>Asking for a link\<close>

lemma run_reset_check [run_rules]:
  "run_state (reset_check_and_record key now) w = (ok, w') \<longleftrightarrow>
   (\<exists>m. limiter_step PASSWORD_RESET_RATE_LIMIT_MAX_ATTEMPTS
          (minutes PASSWORD_RESET_RATE_LIMIT_WINDOW_MINUTES) key now (reset_attempts w) = (ok, m) \<and>
        w' = w\<lparr>reset_attempts := m\<rparr>)"
  by (auto simp: reset_check_and_record_def split: prod.splits)

lemma run_smtp_server:
  "run_state (smtp_server E C) w = (r, w') \<longleftrightarrow> w' = called w \<and>
   r = (case fault_src w (db_calls w) of Some (e, _) \<Rightarrow> Inl e
        | None \<Rightarrow> smtp_config E C (settings_map (db_system_settings (db w))))"
  by (cases r) (auto simp: smtp_server_def load_map_def settings_load_all_def run_rules split: option.splits)

lemma reset_for_account_Accepted:
  "run_state (reset_for_account E C t email ctx server) w = (r, w') \<Longrightarrow> r = ResetAccepted"
  by (auto simp: reset_for_account_def run_rules)

text \<open>What the answer depends on.\<close>

definition reset_admitted :: "request_context \<Rightarrow> world \<Rightarrow> bool" where
  "reset_admitted ctx w = fst (limiter_step PASSWORD_RESET_RATE_LIMIT_MAX_ATTEMPTS
     (minutes PASSWORD_RESET_RATE_LIMIT_WINDOW_MINUTES) (rate_key ctx) (clock_src w (ticks w)) (reset_attempts w))"

lemma request_reset_answer:
  assumes "run_state (request_reset E C t email ctx) w = (r, w')"
  shows "r =
   (if \<not> reset_admitted ctx w then ResetRateLimited
    else if fault_src w (db_calls w) \<noteq> None then ResetUnavailable
    else case smtp_config E C (settings_map (db_system_settings (db w))) of
           Inr (Some _) \<Rightarrow> ResetAccepted | _ \<Rightarrow> ResetUnavailable)"
  using assms
  by (auto simp: request_reset_def reset_admitted_def run_rules run_smtp_server
      dest!: reset_for_account_Accepted split: option.splits sum.splits)

text \<open>The account, the earlier tokens and the new one, when a mail went out.\<close>

definition reset_sent :: "libs \<Rightarrow> config \<Rightarrow> tenant_id \<Rightarrow> string \<Rightarrow> smtp_server_config \<Rightarrow> world \<Rightarrow> world \<Rightarrow> bool" where
  "reset_sent E C t email server w w' \<longleftrightarrow> (\<exists>user now at token transport.
     user \<in> set (db_users (db w)) \<and> u_tenant_id user = t \<and> db_eq E (u_email user) (trim email) \<and> user_is_active user \<and>
     mail_transport E server = Inr transport \<and>
     outbox w' = outbox w @ [(transport, reset_mail E C t user token (now + reset_ttl C))] \<and>
     db_reset_tokens (db w') = invalidate_links (u_id user) now (db_reset_tokens (db w)) @
       [\<lparr>lt_token_hash = sha256_hex E token, lt_user_id = u_id user, lt_expires_at = micros (now + reset_ttl C),
         lt_used_at = None, lt_created_at = at\<rparr>])"

lemma reset_tokens_create_outbox: "run_state (reset_tokens_create E l) w = (r, w') \<Longrightarrow> outbox w' = outbox w"
  unfolding reset_tokens_create_def by (drule alwaysD [OF outbox_db_call]) (simp add: same_outbox_def)

lemma reset_tokens_create_Inr:
  "run_state (reset_tokens_create E l) w = (Inr x, w') \<Longrightarrow> \<exists>now.
   db w' = (db w)\<lparr>db_reset_tokens := db_reset_tokens (db w) @
     [l\<lparr>lt_expires_at := micros (lt_expires_at l), lt_used_at := map_option micros (lt_used_at l), lt_created_at := now\<rparr>]\<rparr>"
  by (auto simp: reset_tokens_create_def run_db_call_Inr insert_link_def insert_row_def split: if_splits)

lemma reset_for_account_sent:
  assumes "run_state (reset_for_account E C t email ctx server) w = (r, w')" and "outbox w' \<noteq> outbox w"
  shows "reset_sent E C t email server w w'"
proof -
  from assms obtain user now w1 w2 token w3 w4 x where
    user: "user \<in> set (db_users (db w))" "u_tenant_id user = t" "db_eq E (u_email user) (trim email)" "user_is_active user"
    and inv: "run_state (reset_tokens_invalidate_all_for_user (u_id user) now) (tick (called w)) = (Inr (), w1)"
    and create: "run_state (reset_tokens_create E
        \<lparr>lt_token_hash = sha256_hex E token, lt_user_id = u_id user, lt_expires_at = now + reset_ttl C,
         lt_used_at = None, lt_created_at = now\<rparr>) (draw w1) = (Inr (), w2)"
    and audit: "run_state (audit_record PasswordResetRequested AuditSuccess (Some (u_tenant_id user))
        (Some (u_id user)) None None ctx) w2 = ((), w3)"
    and mail: "run_state (mailer_send E server (reset_mail E C t user token (now + reset_ttl C))) w3 = (x, w')"
    by (auto simp: reset_for_account_def run_rules users_find_by_email_def
        reset_tokens_invalidate_all_for_user_def dest!: find_SomeD dest: reset_tokens_create_outbox)
  from inv have w1: "outbox w1 = outbox w"
    "db_reset_tokens (db w1) = invalidate_links (u_id user) now (db_reset_tokens (db w))"
    by (auto simp: reset_tokens_invalidate_all_for_user_def run_rules)
  from reset_tokens_create_Inr [OF create] obtain at where w2: "db_reset_tokens (db w2) =
      invalidate_links (u_id user) now (db_reset_tokens (db w)) @
       [\<lparr>lt_token_hash = sha256_hex E token, lt_user_id = u_id user, lt_expires_at = micros (now + reset_ttl C),
         lt_used_at = None, lt_created_at = at\<rparr>]" using w1 by auto
  have w3: "outbox w3 = outbox w" "db_reset_tokens (db w3) = db_reset_tokens (db w2)"
    using run_audit_outbox [OF audit] run_audit [OF audit] reset_tokens_create_outbox [OF create] w1(1)
    by (simp_all add: tables_eq_iff)
  from run_mailer_send [OF mail] w3 assms(2) obtain transport where "mail_transport E server = Inr transport"
    "outbox w' = outbox w @ [(transport, reset_mail E C t user token (now + reset_ttl C))]" "db w' = db w3"
    by (cases x) auto
  with user w2 w3 show ?thesis unfolding reset_sent_def by metis
qed

section \<open>Setting a new password\<close>

lemma all_update_where:
  "(\<And>r. P r \<Longrightarrow> Q (f r)) \<Longrightarrow> (\<And>r. \<not> P r \<Longrightarrow> Q r) \<Longrightarrow> r \<in> set (update_where P f rows) \<Longrightarrow> Q r"
  by (auto simp: update_where_def)

text \<open>Nothing the user was given before is good any more.\<close>

definition credentials_ended :: "uuid \<Rightarrow> instant \<Rightarrow> database \<Rightarrow> bool" where
  "credentials_ended u now d \<longleftrightarrow>
     (\<forall>s \<in> set (db_sso_sessions d). ss_user_id s \<noteq> u) \<and>
     (\<forall>t \<in> set (db_refresh_tokens d). rt_user_id t = u \<longrightarrow> rt_revoked_at t \<noteq> None) \<and>
     (\<forall>c \<in> set (db_codes d). ac_user_id c = u \<longrightarrow> ac_used_at c \<noteq> None \<or> ac_expires_at c \<le> micros now)"

lemma credentials_ended_cong:
  "db_sso_sessions d' = db_sso_sessions d \<Longrightarrow> db_refresh_tokens d' = db_refresh_tokens d \<Longrightarrow>
   db_codes d' = db_codes d \<Longrightarrow> credentials_ended u now d' = credentials_ended u now d"
  by (simp add: credentials_ended_def)

definition faultless :: "world \<Rightarrow> bool" where
  "faultless w \<longleftrightarrow> (\<forall>i. fault_src w i = None)"

lemma faultless_execute:
  assumes "faultless w" and "run_state (db_execute u) w = (r, w')"
  shows "r = Inr () \<and> faultless w' \<and> db w' = u (clock_src w (ticks w)) (db w)"
  using assms by (cases r) (auto simp: faultless_def run_rules)

text \<open>The three statements one after the other, when none of them fails.\<close>

lemma credentials_end:
  assumes "faultless w" and "run_state (sso_sessions_delete_all_for_user u) w = (r1, w1)"
    and "run_state (refresh_tokens_revoke_all_for_user u now) w1 = (r2, w2)"
    and "run_state (codes_revoke_all_active_for_user u now) w2 = (r3, w3)"
  shows "credentials_ended u now (db w3)"
proof -
  note w1 = faultless_execute [OF assms(1,2) [unfolded sso_sessions_delete_all_for_user_def]]
  note w2 = faultless_execute [OF conjunct1 [OF conjunct2 [OF w1]] assms(3) [unfolded refresh_tokens_revoke_all_for_user_def]]
  note w3 = faultless_execute [OF conjunct1 [OF conjunct2 [OF w2]] assms(4) [unfolded codes_revoke_all_active_for_user_def]]
  have tabs: "db_sso_sessions (db w3) = delete_where (\<lambda>s. ss_user_id s = u) (db_sso_sessions (db w))"
    "db_refresh_tokens (db w3) = update_where (\<lambda>t. rt_user_id t = u \<and> rt_revoked_at t = None)
       (\<lambda>t. t\<lparr>rt_revoked_at := Some (micros now)\<rparr>) (db_refresh_tokens (db w))"
    "db_codes (db w3) = revoke_codes u now (db_codes (db w))"
    using w1 w2 w3 by simp_all
  have codes: "ac_user_id c = u \<longrightarrow> ac_used_at c \<noteq> None \<or> ac_expires_at c \<le> micros now"
    if "c \<in> set (revoke_codes u now rows)" for c rows
    using that unfolding revoke_codes_def by (rule all_update_where [rotated 2]) auto
  have refresh: "rt_user_id t = u \<longrightarrow> rt_revoked_at t \<noteq> None" if "t \<in> set (update_where
       (\<lambda>t. rt_user_id t = u \<and> rt_revoked_at t = None) (\<lambda>t. t\<lparr>rt_revoked_at := Some (micros now)\<rparr>) rows)" for t rows
    using that by (rule all_update_where [rotated 2]) auto
  show ?thesis unfolding credentials_ended_def tabs
    by (intro conjI ballI codes refresh) (simp add: set_delete_where)
qed

text \<open>What the statements of the reset do to the other tables.\<close>

definition reset_done ::
  "libs \<Rightarrow> tenant_id \<Rightarrow> string \<Rightarrow> string \<Rightarrow> world \<Rightarrow> world \<Rightarrow> bool" where
  "reset_done E tenant token new_password w w' \<longleftrightarrow> (\<exists>row user h.
     row \<in> set (db_reset_tokens (db w)) \<and> link_consumable E (sha256_hex E token) (clock_src w (ticks w)) row \<and>
     link_spent E (sha256_hex E token) (db_reset_tokens (db w')) \<and>
     find (\<lambda>x. u_id x = lt_user_id row) (db_users (db w)) = Some user \<and>
     user_is_active user \<and> u_tenant_id user = tenant \<and>
     MIN_PASSWORD_LEN \<le> length new_password \<and> length new_password \<le> MAX_PASSWORD_LEN \<and>
     hasher_verify E new_password h = Inr True \<and>
     db_users (db w') = update_where (\<lambda>u. u_id u = u_id user)
       (\<lambda>u. u\<lparr>u_password_hash := h, u_must_change_password := False\<rparr>) (db_users (db w)) \<and>
     (faultless w \<longrightarrow> credentials_ended (u_id user) (clock_src w (ticks w)) (db w')))"

lemma env_reset_parts:
  "always same_env (reset_tokens_consume E h now)" "always same_env (reset_owner t r)"
  "always same_env (hasher_hash E p)" "always same_env (users_update_password i h)"
  unfolding reset_tokens_consume_def reset_owner_def hasher_hash_def users_update_password_def update_user_def
    users_find_by_id_def
  by (intro env.always_rules env_prims env_db_call)+

lemma reset_steps_Inr:
  assumes "hasher_ok E" and "links_pk E (db_reset_tokens (db w))"
    and "run_state (reset_steps E tenant token new_password ctx) w = (Inr x, w')"
  shows "reset_done E tenant token new_password w w'"
proof -
  let ?now = "clock_src w (ticks w)"
  from assms(3) obtain link user h w1 w2 w3 w4 w5 w6 w7 r1 r2 r3 y where
    len: "\<not> isl (validate_password_strength new_password)"
    and consume: "run_state (reset_tokens_consume E (sha256_hex E token) ?now) (tick w) = (Inr (Some link), w1)"
    and owner: "run_state (reset_owner tenant link) w1 = (Inr user, w2)"
    and hash: "run_state (hasher_hash E new_password) w2 = (Inr h, w3)"
    and upd: "run_state (users_update_password (u_id user) h) w3 = (Inr (), w4)"
    and sso: "run_state (sso_sessions_delete_all_for_user (u_id user)) w4 = (r1, w5)"
    and refresh: "run_state (refresh_tokens_revoke_all_for_user (u_id user) ?now) w5 = (r2, w6)"
    and codes: "run_state (codes_revoke_all_active_for_user (u_id user) ?now) w6 = (r3, w7)"
    and audit: "run_state (audit_record PasswordResetCompleted AuditSuccess (Some (u_tenant_id user))
       (Some (u_id user)) None None ctx) w7 = (y, w')"
    unfolding reset_steps_def by (auto simp: run_rules)
  from reset_tokens_consume_Some [OF _ consume] assms(2) obtain row where
    row: "row \<in> set (db_reset_tokens (db w))" "link_consumable E (sha256_hex E token) ?now row" "link = link_used ?now row"
    and w1: "db w1 = (db w)\<lparr>db_reset_tokens := snd (consume_link E (sha256_hex E token) ?now (db_reset_tokens (db w)))\<rparr>"
      "link_spent E (sha256_hex E token) (db_reset_tokens (db w1))" by auto
  have user: "find (\<lambda>x. u_id x = lt_user_id row) (db_users (db w)) = Some user" "user_is_active user"
      "u_tenant_id user = tenant" and w2: "db w2 = db w1"
    using owner row(3) w1(1) by (auto simp: reset_owner_def run_rules users_find_by_id_def split: if_splits)
  note hashed = hasher_hash_verify [OF assms(1) hash]
  have w4: "db w4 = (db w3)\<lparr>db_users := update_where (\<lambda>u. u_id u = u_id user)
       (\<lambda>u. u\<lparr>u_password_hash := h, u_must_change_password := False\<rparr>) (db_users (db w3))\<rparr>"
    using upd by (auto simp: users_update_password_def update_user_def run_rules)
  have keep: "frame (\<lambda>d. (db_users d, db_reset_tokens d)) w4 w5" "frame (\<lambda>d. (db_users d, db_reset_tokens d)) w5 w6"
    "frame (\<lambda>d. (db_users d, db_reset_tokens d)) w6 w7"
    by (rule alwaysD [OF _ sso] alwaysD [OF _ refresh] alwaysD [OF _ codes];
        simp add: frame_sso_sessions frame_refresh_tokens frame_codes)+
  have tables: "db_users (db w') = db_users (db w4)" "db_reset_tokens (db w') = db_reset_tokens (db w4)"
    using keep run_audit [OF audit] by (simp_all add: frame_def tables_eq_iff)
  have ended: "credentials_ended (u_id user) ?now (db w')" if "faultless w"
  proof -
    have "same_env (tick w) w1" "same_env w1 w2" "same_env w2 w3" "same_env w3 w4"
      by (rule alwaysD [OF env_reset_parts(1) consume] alwaysD [OF env_reset_parts(2) owner]
          alwaysD [OF env_reset_parts(3) hash] alwaysD [OF env_reset_parts(4) upd])+
    with that have "faultless w4" by (simp add: faultless_def same_env_def)
    then have "credentials_ended (u_id user) ?now (db w7)" using sso refresh codes by (rule credentials_end)
    with run_audit [OF audit] show ?thesis
      by (subst credentials_ended_cong [of _ "db w7"]) (simp_all add: tables_eq_iff)
  qed
  show ?thesis unfolding reset_done_def
    using row user hashed w1 w2 w4 tables ended len
    by (intro exI [of _ row] exI [of _ user] exI [of _ h])
       (auto simp: validate_password_strength_def split: if_splits)
qed

lemma reset_tokens_evolve:
  "always (evolves db_reset_tokens (link_stmt E)) (reset_password E t token pw ctx)"
  unfolding reset_password_def reset_steps_def reset_owner_def users_update_password_def
  by (intro evo.always_rules evolves_reset_tokens evolves_ops evolves_writes) simp_all

lemma links_pk_evolves:
  "evolves T (link_stmt E) w w' \<Longrightarrow> links_pk E (T (db w)) \<Longrightarrow> links_pk E (T (db w'))"
  unfolding evolves_def by (rule link_store.stmts_wf)

lemma reset_password_ResetOk:
  assumes "hasher_ok E" and "links_pk E (db_reset_tokens (db w))"
    and "run_state (reset_password E tenant token new_password ctx) w = (ResetOk, w')"
  shows "reset_done E tenant token new_password w w'"
proof -
  have not_ok: "run_state (reset_steps E tenant token new_password ctx) w \<noteq> (Inl ResetOk, w')"
    unfolding reset_steps_def reset_owner_def by (clarsimp simp: run_rules reset_failed_def)
  with assms(3) obtain x where "run_state (reset_steps E tenant token new_password ctx) w = (Inr x, w')"
    by (auto simp: reset_password_def run_rules)
  with assms(1,2) show ?thesis by (rule reset_steps_Inr)
qed

section \<open>Properties\<close>

text \<open>
  C33. Asking for a reset does not tell accounts apart. The answer is the same for two requests that
  differ only in the address they name and in the users and reset tokens the tables hold: it depends
  on the rate limiter, the mail settings and the first call to the database alone.
\<close>

theorem request_reset_uniform:
  "fst (run_state (request_reset E C tenant email ctx) w) =
   fst (run_state (request_reset E C tenant email' ctx)
     (w\<lparr>db := (db w)\<lparr>db_users := users, db_reset_tokens := tokens\<rparr>\<rparr>))"
proof -
  let ?w = "w\<lparr>db := (db w)\<lparr>db_users := users, db_reset_tokens := tokens\<rparr>\<rparr>"
  obtain r u where 1: "run_state (request_reset E C tenant email ctx) w = (r, u)"
    by (cases "run_state (request_reset E C tenant email ctx) w")
  obtain r' u' where 2: "run_state (request_reset E C tenant email' ctx) ?w = (r', u')"
    by (cases "run_state (request_reset E C tenant email' ctx) ?w")
  from request_reset_answer [OF 1] request_reset_answer [OF 2] 1 2 show ?thesis
    by (simp add: reset_admitted_def)
qed

text \<open>
  At most one reset link is live. When a request sends a mail, it goes to the address of an active
  account of that tenant, its link carries a fresh token, and of all reset tokens of that user only the
  row with the hash of this token is still unused.
\<close>

theorem reset_link_latest_only:
  assumes "run_state (request_reset E C tenant email ctx) w = (r, w')" and "outbox w' \<noteq> outbox w"
  shows "\<exists>user token now transport link.
     user \<in> set (db_users (db w)) \<and> u_tenant_id user = tenant \<and> user_is_active user \<and>
     outbox w' = outbox w @ [(transport, reset_mail E C tenant user token (now + reset_ttl C))] \<and>
     lt_token_hash link = sha256_hex E token \<and>
     filter (\<lambda>t. lt_user_id t = u_id user \<and> lt_used_at t = None) (db_reset_tokens (db w')) = [link]"
proof -
  from assms obtain server m where "run_state (reset_for_account E C tenant email ctx server)
      (called ((tick w)\<lparr>reset_attempts := m\<rparr>)) = (r, w')"
    by (auto simp: request_reset_def run_rules run_smtp_server)
  from reset_for_account_sent [OF this] assms(2) have "reset_sent E C tenant email server
      (called ((tick w)\<lparr>reset_attempts := m\<rparr>)) w'" by simp
  then obtain user now at token transport where sent:
    "user \<in> set (db_users (db w))" "u_tenant_id user = tenant" "user_is_active user"
    "outbox w' = outbox w @ [(transport, reset_mail E C tenant user token (now + reset_ttl C))]"
    "db_reset_tokens (db w') = invalidate_links (u_id user) now (db_reset_tokens (db w)) @
       [\<lparr>lt_token_hash = sha256_hex E token, lt_user_id = u_id user, lt_expires_at = micros (now + reset_ttl C),
         lt_used_at = None, lt_created_at = at\<rparr>]"
    by (auto simp: reset_sent_def)
  have "filter (\<lambda>t. lt_user_id t = u_id user \<and> lt_used_at t = None)
      (invalidate_links (u_id user) now (db_reset_tokens (db w))) = []"
    by (auto simp: filter_empty_conv invalidate_links_def update_where_def)
  with sent(5) have "filter (\<lambda>t. lt_user_id t = u_id user \<and> lt_used_at t = None) (db_reset_tokens (db w')) =
     [\<lparr>lt_token_hash = sha256_hex E token, lt_user_id = u_id user, lt_expires_at = micros (now + reset_ttl C),
         lt_used_at = None, lt_created_at = at\<rparr>]" by simp
  with sent(1-4) show ?thesis
    by (intro exI [of _ user] exI [of _ token] exI [of _ now] exI [of _ transport] exI conjI) auto
qed

theorem reset_link_latest_only_witness:
  "\<exists>r w' link. run_state (request_reset sample_libs sample_config 1 ''a@b.c'' sample_ctx) sample_world = (r, w') \<and>
     length (outbox w') = 1 \<and>
     filter (\<lambda>t. lt_user_id t = 2 \<and> lt_used_at t = None) (db_reset_tokens (db w')) = [link]"
proof -
  let ?run = "run_state (request_reset sample_libs sample_config 1 ''a@b.c'' sample_ctx) sample_world"
  have sent: "length (outbox (snd ?run)) = 1" by code_simp
  moreover have "outbox sample_world = []" by (simp add: sample_world_def)
  ultimately have "outbox (snd ?run) \<noteq> outbox sample_world" by auto
  from reset_link_latest_only [OF prod.collapse [symmetric] this] obtain user link where
    "user \<in> set (db_users (db sample_world))"
    "filter (\<lambda>t. lt_user_id t = u_id user \<and> lt_used_at t = None) (db_reset_tokens (db (snd ?run))) = [link]" by blast
  moreover from this(1) have "u_id user = 2" by (simp add: sample_world_def sample_db_def sample_user_def)
  ultimately have "filter (\<lambda>t. lt_user_id t = 2 \<and> lt_used_at t = None) (db_reset_tokens (db (snd ?run))) = [link]"
    by simp
  with sent show ?thesis by (intro exI conjI) (rule prod.collapse [symmetric])
qed

text \<open>
  C11. A password reset needs a live link. It succeeds only with the token of a row that is unused and, at the
  moment the service reads the clock (its first reading), unexpired, and
  whose owner is an active user of the tenant, and with a password of an allowed length; afterwards
  the link is spent, the stored hash matches the new password, no other user has changed, and, when
  the database reports no fault, the user has no SSO session left, every refresh token is revoked and every
  authorization code is used or had expired by that same reading.
\<close>

theorem reset_password_sound:
  assumes "hasher_ok E" and "links_pk E (db_reset_tokens (db w))"
    and "run_state (reset_password E tenant token new_password ctx) w = (ResetOk, w')"
  shows "reset_done E tenant token new_password w w'"
  using assms by (rule reset_password_ResetOk)

theorem reset_password_sound_witness:
  "\<exists>w'. run_state (reset_password sample_libs 1 ''link'' ''new password'' sample_ctx) sample_world = (ResetOk, w') \<and>
     reset_done sample_libs 1 ''link'' ''new password'' sample_world w'"
proof -
  have "fst (run_state (reset_password sample_libs 1 ''link'' ''new password'' sample_ctx) sample_world) = ResetOk"
    by code_simp
  note run = run_fstI [OF this]
  have pk: "links_pk sample_libs (db_reset_tokens (db sample_world))" by code_simp
  have "hasher_ok sample_libs" by (simp add: hasher_ok_def sample_libs_def)
  from reset_password_sound [OF this pk run] run show ?thesis by blast
qed

text \<open>
  C10. A reset link works once. After it has set a password, no reset with the same token succeeds in
  any tenant, whatever statements change the table in between (with the proviso on deleted users
  that no new token gets the hash of the old one).
\<close>

theorem reset_link_single_use:
  assumes "hasher_ok E" and "links_pk E (db_reset_tokens (db w))"
    and "run_state (reset_password E tenant token pw ctx) w = (ResetOk, w1)"
    and "evolves db_reset_tokens (no_reissue (link_held E (sha256_hex E token)) (link_stmt E)) w1 w2"
  shows "fst (run_state (reset_password E tenant' token pw' ctx') w2) \<noteq> ResetOk"
proof
  assume "fst (run_state (reset_password E tenant' token pw' ctx') w2) = ResetOk"
  note run = run_fstI [OF this]
  have "links_pk E (db_reset_tokens (db w1))"
    using alwaysD [OF reset_tokens_evolve assms(3)] assms(2) by (rule links_pk_evolves)
  then have pk: "links_pk E (db_reset_tokens (db w2))"
    by (rule links_pk_evolves [OF evolves_no_reissueD [OF assms(4)]])
  obtain row where row: "row \<in> set (db_reset_tokens (db w2))"
      "link_consumable E (sha256_hex E token) (clock_src w2 (ticks w2)) row"
    using reset_password_ResetOk [OF assms(1) pk run] unfolding reset_done_def by blast
  have "link_spent E (sha256_hex E token) (db_reset_tokens (db w1))"
    using reset_password_ResetOk [OF assms(1-3)] unfolding reset_done_def by blast
  with assms(4) have "link_spent E (sha256_hex E token) (db_reset_tokens (db w2))"
    unfolding evolves_def by (rule link_store.stmts_gone)
  with row show False by (auto simp: link_spent_def link_consumable_def)
qed

theorem reset_link_single_use_witness:
  "\<exists>w1. run_state (reset_password sample_libs 1 ''link'' ''new password'' sample_ctx) sample_world = (ResetOk, w1) \<and>
     fst (run_state (reset_password sample_libs 1 ''link'' ''newer password'' sample_ctx) w1) \<noteq> ResetOk"
proof -
  have "fst (run_state (reset_password sample_libs 1 ''link'' ''new password'' sample_ctx) sample_world) = ResetOk"
    by code_simp
  note run = run_fstI [OF this]
  have pk: "links_pk sample_libs (db_reset_tokens (db sample_world))" by code_simp
  have ok: "hasher_ok sample_libs" by (simp add: hasher_ok_def sample_libs_def)
  have "evolves db_reset_tokens (no_reissue K (link_stmt sample_libs)) w w" for K w by (simp add: evolves_def)
  from reset_link_single_use [OF ok pk run this] run show ?thesis by blast
qed

end
