(* ===== verification/EmailVerification.thy ===== *)
theory EmailVerification
  imports PasswordReset Login
begin

text \<open>
  The verification of mail addresses of \<^verbatim>\<open>application/email_verification.rs\<close>: sending the link, and
  using it to mark the address as verified, which is what lets a self-registered user log in.
\<close>

section \<open>Model\<close>

definition VERIFICATION_TOKEN_BYTES :: nat where
  "VERIFICATION_TOKEN_BYTES = 32"

datatype verify_email_outcome = VerifyOk | VerifyInvalidOrExpired | VerifyInternal string

definition verify_failed :: "domain_error \<Rightarrow> verify_email_outcome" where
  "verify_failed e = VerifyInternal (domain_error_to_string e)"

definition verification_mail :: "libs \<Rightarrow> config \<Rightarrow> tenant_id \<Rightarrow> string \<Rightarrow> string \<Rightarrow> instant \<Rightarrow> outgoing_email" where
  "verification_mail E C tenant_id user_email token expires_at =
     (let verify_url = trim_end_slashes (console_base_url C) @ ''/'' @ uuid_to_string E tenant_id @
                       ''/verify-email?token='' @ token
      in \<lparr>mail_to = user_email, mail_subject = verify_mail_subject,
          mail_body_text = verify_mail_body verify_url (to_rfc3339 E expires_at)\<rparr>)"

definition send_verification ::
  "libs \<Rightarrow> config \<Rightarrow> tenant_id \<Rightarrow> uuid \<Rightarrow> string \<Rightarrow> request_context \<Rightarrow> (world, bool) state" where
  "send_verification E C tenant_id user_id user_email ctx = do {
     server \<leftarrow> smtp_server E C;
     case server of
       Inl _ \<Rightarrow> State_Monad.return False
     | Inr None \<Rightarrow> State_Monad.return False
     | Inr (Some server) \<Rightarrow> do {
         now \<leftarrow> clock_now;
         invalidated \<leftarrow> verification_tokens_invalidate_all_for_user user_id now;
         case invalidated of
           Inl _ \<Rightarrow> State_Monad.return False
         | Inr _ \<Rightarrow> do {
             token \<leftarrow> random_token E VERIFICATION_TOKEN_BYTES;
             created \<leftarrow> verification_tokens_create E
               \<lparr>lt_token_hash = sha256_hex E token, lt_user_id = user_id,
                lt_expires_at = now + verification_ttl C, lt_used_at = None, lt_created_at = now\<rparr>;
             case created of
               Inl _ \<Rightarrow> State_Monad.return False
             | Inr _ \<Rightarrow> do {
                 audit_record EmailVerificationRequested AuditSuccess (Some tenant_id) (Some user_id)
                   None None ctx;
                 sent \<leftarrow> mailer_send E server
                   (verification_mail E C tenant_id user_email token (now + verification_ttl C));
                 State_Monad.return (\<not> isl sent)
               }
           }
       }
   }"

definition verify_steps ::
  "libs \<Rightarrow> tenant_id \<Rightarrow> string \<Rightarrow> request_context \<Rightarrow> (world, verify_email_outcome + unit) state" where
  "verify_steps E tenant token ctx =
     and_then (require (token \<noteq> []) VerifyInvalidOrExpired) (\<lambda>_. do {
     now \<leftarrow> clock_now;
     and_then (map_err verify_failed (verification_tokens_consume E (sha256_hex E token) now)) (\<lambda>consumed.
     case consumed of
       None \<Rightarrow> State_Monad.return (Inl VerifyInvalidOrExpired)
     | Some link \<Rightarrow>
         and_then (map_err verify_failed (users_find_by_id (lt_user_id link))) (\<lambda>found.
         case found of
           None \<Rightarrow> State_Monad.return (Inl VerifyInvalidOrExpired)
         | Some user \<Rightarrow>
             if u_tenant_id user \<noteq> tenant then State_Monad.return (Inl VerifyInvalidOrExpired)
             else
               and_then (map_err verify_failed (users_mark_email_verified (u_id user))) (\<lambda>_. do {
               audit_record EmailVerified AuditSuccess (Some (u_tenant_id user)) (Some (u_id user)) None None ctx;
               State_Monad.return (Inr ()) }))) })"

definition verify_email ::
  "libs \<Rightarrow> tenant_id \<Rightarrow> string \<Rightarrow> request_context \<Rightarrow> (world, verify_email_outcome) state" where
  "verify_email E tenant token ctx = do {
     r \<leftarrow> verify_steps E tenant token ctx;
     State_Monad.return (case r of Inl out \<Rightarrow> out | Inr _ \<Rightarrow> VerifyOk)
   }"

section \<open>Using the link\<close>

definition verified_by_link :: "libs \<Rightarrow> tenant_id \<Rightarrow> string \<Rightarrow> world \<Rightarrow> world \<Rightarrow> bool" where
  "verified_by_link E tenant token w w' \<longleftrightarrow> (\<exists>row user now.
     row \<in> set (db_verification_tokens (db w)) \<and> link_consumable E (sha256_hex E token) now row \<and>
     link_spent E (sha256_hex E token) (db_verification_tokens (db w')) \<and>
     find (\<lambda>x. u_id x = lt_user_id row) (db_users (db w)) = Some user \<and> u_tenant_id user = tenant \<and>
     db_users (db w') = update_where (\<lambda>u. u_id u = u_id user) (\<lambda>u. u\<lparr>u_email_verified := True\<rparr>) (db_users (db w)))"

lemma verify_steps_Inr:
  assumes "links_pk E (db_verification_tokens (db w))"
    and "run_state (verify_steps E tenant token ctx) w = (Inr x, w')"
  shows "verified_by_link E tenant token w w'"
proof -
  from assms(2) obtain now link user w1 w2 w3 y where
    consume: "run_state (verification_tokens_consume E (sha256_hex E token) now) (tick w) = (Inr (Some link), w1)"
    and found: "run_state (users_find_by_id (lt_user_id link)) w1 = (Inr (Some user), w2)" "u_tenant_id user = tenant"
    and mark: "run_state (users_mark_email_verified (u_id user)) w2 = (Inr (), w3)"
    and audit: "run_state (audit_record EmailVerified AuditSuccess (Some (u_tenant_id user)) (Some (u_id user)) None None ctx) w3 = (y, w')"
    unfolding verify_steps_def by (auto simp: run_rules)
  from verification_tokens_consume_Some [OF _ consume] assms(1) obtain row where
    row: "row \<in> set (db_verification_tokens (db w))" "link_consumable E (sha256_hex E token) now row" "link = link_used now row"
    and w1: "db w1 = (db w)\<lparr>db_verification_tokens := snd (consume_link E (sha256_hex E token) now (db_verification_tokens (db w)))\<rparr>"
      "link_spent E (sha256_hex E token) (db_verification_tokens (db w1))" by auto
  have w2: "find (\<lambda>x. u_id x = lt_user_id row) (db_users (db w)) = Some user" "db w2 = db w1"
    using found(1) row(3) w1(1) by (auto simp: users_find_by_id_def run_rules)
  have "db_users (db w') = update_where (\<lambda>u. u_id u = u_id user) (\<lambda>u. u\<lparr>u_email_verified := True\<rparr>) (db_users (db w))"
    "db_verification_tokens (db w') = db_verification_tokens (db w1)"
    using mark run_audit [OF audit] w1 w2
    by (auto simp: users_mark_email_verified_def update_user_def run_rules tables_eq_iff)
  with row w1 w2 found(2) show ?thesis unfolding verified_by_link_def by auto
qed

lemma verify_steps_not_ok: "run_state (verify_steps E tenant token ctx) w \<noteq> (Inl VerifyOk, w')"
  unfolding verify_steps_def by (clarsimp simp: run_rules verify_failed_def)

lemma verify_email_VerifyOk:
  assumes "links_pk E (db_verification_tokens (db w))"
    and "run_state (verify_email E tenant token ctx) w = (VerifyOk, w')"
  shows "verified_by_link E tenant token w w'"
proof -
  from assms(2) obtain x where "run_state (verify_steps E tenant token ctx) w = (Inr x, w')"
    using verify_steps_not_ok by (auto simp: verify_email_def run_rules)
  with assms(1) show ?thesis by (rule verify_steps_Inr)
qed

text \<open>
  An address is verified only by its link. Verification succeeds only with the token of an unused,
  unexpired row whose owner belongs to the tenant of the page; it spends the link, sets the mark of
  exactly this user and changes nothing else of any user.
\<close>

theorem verify_email_sound:
  assumes "links_pk E (db_verification_tokens (db w))"
    and "run_state (verify_email E tenant token ctx) w = (VerifyOk, w')"
  shows "verified_by_link E tenant token w w'"
  using assms by (rule verify_email_VerifyOk)

theorem verify_email_sound_witness:
  "\<exists>w'. run_state (verify_email sample_libs 1 ''link'' sample_ctx) sample_world = (VerifyOk, w') \<and>
     verified_by_link sample_libs 1 ''link'' sample_world w'"
proof -
  have "fst (run_state (verify_email sample_libs 1 ''link'' sample_ctx) sample_world) = VerifyOk" by code_simp
  note run = run_fstI [OF this]
  have pk: "links_pk sample_libs (db_verification_tokens (db sample_world))" by code_simp
  from verify_email_sound [OF pk run] run show ?thesis by blast
qed

end
