(* ===== verification/UserLifecycle.thy ===== *)
theory UserLifecycle
  imports PasswordReset Permissions
begin

text \<open>
  The administrators' operations on accounts of \<^verbatim>\<open>application/user_lifecycle.rs\<close>: issuing a new password,
  enabling and disabling, deleting. They reach only users whose home is the tenant of the request, and
  never the administrator's own account.
\<close>

section \<open>Model\<close>

definition GENERATED_PASSWORD_BYTES :: nat where
  "GENERATED_PASSWORD_BYTES = 32"

datatype user_lifecycle_error =
    LifecycleNotFound
  | LifecycleForbidden string
  | LifecycleValidation string
  | LifecycleInternal string

record reset_user_password =
  ru_user_id :: uuid
  ru_generated_password :: string

definition lifecycle_internal :: "domain_error \<Rightarrow> user_lifecycle_error" where
  "lifecycle_internal e = LifecycleInternal (domain_error_to_string e)"

definition find_home_user :: "tenant_id \<Rightarrow> uuid \<Rightarrow> (world, user_lifecycle_error + user) state" where
  "find_home_user tenant target =
     and_then (map_err lifecycle_internal (users_find_by_id target)) (\<lambda>found.
     State_Monad.return (case found of
       Some user \<Rightarrow> if u_tenant_id user = tenant then Inr user else Inl LifecycleNotFound
     | None \<Rightarrow> Inl LifecycleNotFound))"

definition ensure_not_self :: "uuid \<Rightarrow> uuid \<Rightarrow> (world, user_lifecycle_error + unit) state" where
  "ensure_not_self target actor =
     require (target \<noteq> actor) (LifecycleForbidden ''cannot operate on your own account'')"

definition revoke_credentials :: "uuid \<Rightarrow> (world, unit) state" where
  "revoke_credentials user_id = do {
     now \<leftarrow> clock_now;
     _ \<leftarrow> sso_sessions_delete_all_for_user user_id;
     _ \<leftarrow> refresh_tokens_revoke_all_for_user user_id now;
     _ \<leftarrow> codes_revoke_all_active_for_user user_id now;
     State_Monad.return ()
   }"

definition user_reason :: "libs \<Rightarrow> user \<Rightarrow> string" where
  "user_reason E user = ''user='' @ uuid_to_string E (u_id user)"

definition reset_password_for ::
  "libs \<Rightarrow> tenant_id \<Rightarrow> user \<Rightarrow> uuid \<Rightarrow> request_context \<Rightarrow>
   (world, user_lifecycle_error + reset_user_password) state" where
  "reset_password_for E tenant user actor ctx = do {
     generated_password \<leftarrow> random_token E GENERATED_PASSWORD_BYTES;
     and_then (map_err lifecycle_internal (hasher_hash E generated_password)) (\<lambda>password_hash.
     and_then (map_err lifecycle_internal (users_reset_password_forced (u_id user) password_hash)) (\<lambda>_. do {
     revoke_credentials (u_id user);
     audit_record UserPasswordReset AuditSuccess (Some tenant) (Some actor) None (Some (user_reason E user)) ctx;
     State_Monad.return (Inr
       \<lparr>ru_user_id = u_id user, ru_generated_password = generated_password\<rparr>) }))
   }"

definition lifecycle_reset_password ::
  "libs \<Rightarrow> tenant_id \<Rightarrow> uuid \<Rightarrow> uuid \<Rightarrow> request_context \<Rightarrow>
   (world, user_lifecycle_error + reset_user_password) state" where
  "lifecycle_reset_password E tenant target actor ctx =
     and_then (find_home_user tenant target) (\<lambda>user.
     and_then (ensure_not_self (u_id user) actor) (\<lambda>_.
     reset_password_for E tenant user actor ctx))"

definition reset_password_by_email ::
  "libs \<Rightarrow> tenant_id \<Rightarrow> string \<Rightarrow> uuid \<Rightarrow> request_context \<Rightarrow>
   (world, user_lifecycle_error + reset_user_password) state" where
  "reset_password_by_email E tenant email actor ctx =
     (let email = trim email in
      and_then (require (email \<noteq> []) (LifecycleValidation ''email is required'')) (\<lambda>_.
      and_then (map_err lifecycle_internal (users_find_by_email E tenant email)) (\<lambda>found.
      case found of
        None \<Rightarrow> State_Monad.return (Inl LifecycleNotFound)
      | Some user \<Rightarrow>
          and_then (ensure_not_self (u_id user) actor) (\<lambda>_.
          reset_password_for E tenant user actor ctx))))"

definition set_status ::
  "libs \<Rightarrow> tenant_id \<Rightarrow> uuid \<Rightarrow> user_status \<Rightarrow> uuid \<Rightarrow> request_context \<Rightarrow>
   (world, user_lifecycle_error + unit) state" where
  "set_status E tenant target status actor ctx =
     and_then (require (status \<noteq> UserLocked) (LifecycleValidation ''LOCKED cannot be set by administrators'')) (\<lambda>_.
     and_then (find_home_user tenant target) (\<lambda>user.
     and_then (ensure_not_self (u_id user) actor) (\<lambda>_.
     and_then (map_err lifecycle_internal (users_update_status (u_id user) status)) (\<lambda>_. do {
     (if status = UserDisabled then revoke_credentials (u_id user) else State_Monad.return ());
     audit_record UserStatusChanged AuditSuccess (Some tenant) (Some actor) None
       (Some (user_reason E user @ '' status='' @ user_status_as_str status)) ctx;
     State_Monad.return (Inr ()) }))))"

definition delete_user ::
  "libs \<Rightarrow> tenant_id \<Rightarrow> uuid \<Rightarrow> uuid \<Rightarrow> request_context \<Rightarrow> (world, user_lifecycle_error + unit) state" where
  "delete_user E tenant target actor ctx =
     and_then (find_home_user tenant target) (\<lambda>user.
     and_then (ensure_not_self (u_id user) actor) (\<lambda>_.
     and_then (map_err lifecycle_internal (users_delete (u_id user))) (\<lambda>_. do {
     audit_record UserDeleted AuditSuccess (Some tenant) (Some actor) None (Some (user_reason E user)) ctx;
     State_Monad.return (Inr ()) })))"

section \<open>Reading a run\<close>

lemma find_home_user_Inr:
  "run_state (find_home_user tenant target) w = (Inr user, w') \<Longrightarrow>
   find (\<lambda>u. u_id u = target) (db_users (db w)) = Some user \<and> u_tenant_id user = tenant \<and> u_id user = target \<and> w' = called w"
  by (auto simp: find_home_user_def users_find_by_id_def run_rules split: if_splits dest: find_SomeD)

lemma find_home_user_not_found:
  assumes "\<forall>u \<in> set (db_users (db w)). u_id u = target \<longrightarrow> u_tenant_id u \<noteq> tenant"
  shows "\<exists>e. fst (run_state (find_home_user tenant target) w) = Inl e"
  using assms
  by (cases "run_state (find_home_user tenant target) w"; cases "fst (run_state (find_home_user tenant target) w)")
     (auto dest!: find_home_user_Inr dest: find_SomeD)

lemma ensure_not_self_Inr:
  "run_state (ensure_not_self target actor) w = (Inr x, w') \<Longrightarrow> target \<noteq> actor \<and> w' = w"
  by (auto simp: ensure_not_self_def run_rules)

lemma revoke_credentials_keeps:
  assumes "run_state (revoke_credentials u) w = (x, w')"
  shows "db_users (db w') = db_users (db w)" "permission_cache w' = permission_cache w"
    "faultless w \<Longrightarrow> credentials_ended u (clock_src w (ticks w)) (db w')"
proof -
  have f: "always (frame db_users) (revoke_credentials u)"
    unfolding revoke_credentials_def
    by (intro frame.always_rules frame_ops frame_sso_sessions frame_refresh_tokens frame_codes) simp_all
  from alwaysD [OF f assms] show "db_users (db w') = db_users (db w)" by (simp add: frame_def)
  from assms obtain w1 w2 r1 r2 r3 where parts:
    "run_state (sso_sessions_delete_all_for_user u) (tick w) = (r1, w1)"
    "run_state (refresh_tokens_revoke_all_for_user u (clock_src w (ticks w))) w1 = (r2, w2)"
    "run_state (codes_revoke_all_active_for_user u (clock_src w (ticks w))) w2 = (r3, w')"
    unfolding revoke_credentials_def by (auto simp: run_rules)
  have cache: "run_state (db_execute g) v = (r, v') \<Longrightarrow> permission_cache v' = permission_cache v" for g v r v'
    by (cases r) (auto simp: run_rules)
  show "permission_cache w' = permission_cache w"
    using cache [OF parts(1) [unfolded sso_sessions_delete_all_for_user_def]]
      cache [OF parts(2) [unfolded refresh_tokens_revoke_all_for_user_def]]
      cache [OF parts(3) [unfolded codes_revoke_all_active_for_user_def]] by simp
  show "credentials_ended u (clock_src w (ticks w)) (db w')" if "faultless w"
    using credentials_end [OF _ parts] that by (auto simp: faultless_def)
qed

lemma set_status_Inr:
  assumes "run_state (set_status E tenant target status actor ctx) w = (Inr x, w')"
  shows "\<exists>user. find (\<lambda>u. u_id u = target) (db_users (db w)) = Some user \<and> u_tenant_id user = tenant"
    "target \<noteq> actor" "status \<noteq> UserLocked"
    "db_users (db w') = update_where (\<lambda>u. u_id u = target) (\<lambda>u. u\<lparr>u_status := status\<rparr>) (db_users (db w))"
    "status = UserDisabled \<Longrightarrow> faultless w \<Longrightarrow> credentials_ended target (clock_src w (ticks w + 2)) (db w')"
proof -
  from assms obtain user w1 w2 w3 x1 x2 y where parts:
    "status \<noteq> UserLocked" "run_state (find_home_user tenant target) w = (Inr user, w1)"
    "u_id user \<noteq> actor" "run_state (users_update_status (u_id user) status) w1 = (Inr x1, w2)"
    "run_state (if status = UserDisabled then revoke_credentials (u_id user) else State_Monad.return ()) w2 = (x2, w3)"
    "run_state (audit_record UserStatusChanged AuditSuccess (Some tenant) (Some actor) None
       (Some (user_reason E user @ '' status='' @ user_status_as_str status)) ctx) w3 = (y, w')"
    unfolding set_status_def ensure_not_self_def by (auto simp: run_and_then_Inr run_map_err_Inr run_require_Inr run_bindE run_returnE)
  note user = find_home_user_Inr [OF parts(2)]
  have w2: "db_users (db w2) = update_where (\<lambda>u. u_id u = target) (\<lambda>u. u\<lparr>u_status := status\<rparr>) (db_users (db w))"
    "faultless w \<Longrightarrow> faultless w2" "clock_src w2 = clock_src w" "ticks w2 = ticks w + 2"
    using parts(4) user by (auto simp: users_update_status_def update_user_def run_rules faultless_def)
  note tables = run_audit [OF parts(6), unfolded tables_eq_iff]
  have w3: "db_users (db w3) = db_users (db w2)"
    "status = UserDisabled \<Longrightarrow> faultless w2 \<Longrightarrow>
       credentials_ended target (clock_src w (ticks w + 2)) (db w3)"
    using parts(5) revoke_credentials_keeps [of "u_id user" w2 x2 w3] user w2(3,4) by (auto simp: run_returnE split: if_splits)
  show "\<exists>user. find (\<lambda>u. u_id u = target) (db_users (db w)) = Some user \<and> u_tenant_id user = tenant"
    "target \<noteq> actor" "status \<noteq> UserLocked" using user parts(1,3) by auto
  show "db_users (db w') = update_where (\<lambda>u. u_id u = target) (\<lambda>u. u\<lparr>u_status := status\<rparr>) (db_users (db w))"
    using w2(1) w3(1) tables by simp
  show "credentials_ended target (clock_src w (ticks w + 2)) (db w')" if "status = UserDisabled" "faultless w"
    using w3(2) [OF that(1) w2(2) [OF that(2)]] tables credentials_ended_cong [of "db w'" "db w3"] by auto
qed

lemma delete_user_Inr:
  assumes "run_state (delete_user E tenant target actor ctx) w = (Inr x, w')"
  shows "(\<exists>user. find (\<lambda>u. u_id u = target) (db_users (db w)) = Some user \<and> u_tenant_id user = tenant) \<and>
     target \<noteq> actor \<and> tables (db w') = tables (delete_user_rows target (db w))"
proof -
  from assms obtain user w1 w2 x1 y where parts:
    "run_state (find_home_user tenant target) w = (Inr user, w1)" "u_id user \<noteq> actor"
    "run_state (users_delete (u_id user)) w1 = (Inr x1, w2)"
    "run_state (audit_record UserDeleted AuditSuccess (Some tenant) (Some actor) None (Some (user_reason E user)) ctx) w2 = (y, w')"
    unfolding delete_user_def ensure_not_self_def by (auto simp: run_and_then_Inr run_map_err_Inr run_require_Inr run_bindE run_returnE)
  note user = find_home_user_Inr [OF parts(1)]
  moreover have "db w2 = delete_user_rows target (db w)" using parts(3) user by (auto simp: users_delete_def run_rules)
  ultimately show ?thesis using run_audit [OF parts(4)] parts(2) by auto
qed

lemma reset_password_for_Inr:
  assumes "hasher_ok E" and "run_state (reset_password_for E tenant user actor ctx) w = (Inr r, w')"
  shows "ru_user_id r = u_id user"
    "\<exists>h. hasher_verify E (ru_generated_password r) h = Inr True \<and>
       db_users (db w') = update_where (\<lambda>u. u_id u = u_id user)
         (\<lambda>u. u\<lparr>u_password_hash := h, u_must_change_password := True\<rparr>) (db_users (db w))"
proof -
  from assms(2) obtain g h w1 w2 w3 x1 x2 y where parts:
    "run_state (hasher_hash E g) (draw w) = (Inr h, w1)"
    "run_state (users_reset_password_forced (u_id user) h) w1 = (Inr x1, w2)"
    "run_state (revoke_credentials (u_id user)) w2 = (x2, w3)"
    "run_state (audit_record UserPasswordReset AuditSuccess (Some tenant) (Some actor) None (Some (user_reason E user)) ctx) w3 = (y, w')"
    and r: "r = \<lparr>ru_user_id = u_id user, ru_generated_password = g\<rparr>"
    unfolding reset_password_for_def
    by (auto simp only: run_and_then_Inr run_map_err_Inr run_bindE run_returnE run_random_token sum.inject)
  show "ru_user_id r = u_id user" by (simp add: r)
  note h = hasher_hash_verify [OF assms(1) parts(1)]
  have "db_users (db w') = update_where (\<lambda>u. u_id u = u_id user)
      (\<lambda>u. u\<lparr>u_password_hash := h, u_must_change_password := True\<rparr>) (db_users (db w))"
    using run_audit [OF parts(4), unfolded tables_eq_iff] revoke_credentials_keeps(1) [OF parts(3)] parts(2) h
    by (auto simp: users_reset_password_forced_def update_user_def run_rules)
  with h r show "\<exists>h. hasher_verify E (ru_generated_password r) h = Inr True \<and>
       db_users (db w') = update_where (\<lambda>u. u_id u = u_id user)
         (\<lambda>u. u\<lparr>u_password_hash := h, u_must_change_password := True\<rparr>) (db_users (db w))" by auto
qed

section \<open>Properties\<close>

text \<open>
  C32. Disabling locks out. After an administrator has disabled an account, which is of that tenant and
  not the administrator's own, no access check of the administration interface is passed by that
  user with any cookie, cached permissions notwithstanding. If the database reports no fault, which
  ending the credentials depends on because the service ignores those errors, the user has no SSO session
  left, every refresh token is revoked and every authorization code is used or had expired at the moment the
  service read the clock (after it had looked up the account and stored the status).
\<close>

theorem disabled_user_locked_out:
  assumes "run_state (set_status E tenant target UserDisabled actor ctx) w = (Inr x, w1)"
  shows "target \<noteq> actor \<and>
     (\<exists>user. find (\<lambda>u. u_id u = target) (db_users (db w)) = Some user \<and> u_tenant_id user = tenant) \<and>
     (\<forall>E' C t cookie required a. fst (run_state (authorize_admin E' C t cookie required) w1) = AdminGranted a \<longrightarrow>
        aa_user_id a \<noteq> target) \<and>
     (faultless w \<longrightarrow> credentials_ended target (clock_src w (ticks w + 2)) (db w1))"
proof -
  note status = set_status_Inr [OF assms]
  have disabled: "u_id u = target \<longrightarrow> \<not> user_is_active u" if "u \<in> set (db_users (db w1))" for u
    using that unfolding status(4) by (rule all_update_where [rotated 2]) (simp_all add: user_is_active_def)
  have "aa_user_id a \<noteq> target" if "fst (run_state (authorize_admin E' C t cookie required) w1) = AdminGranted a"
    for E' C t cookie required a
    using authorize_admin_Granted [OF run_fstI [OF that]] disabled by (auto simp: admin_entitled_def)
  with status show ?thesis by blast
qed

theorem disabled_user_locked_out_witness:
  "\<exists>w1. run_state (set_status sample_libs 1 2 UserDisabled 7 sample_ctx) sample_world = (Inr (), w1) \<and>
     credentials_ended 2 (clock_src sample_world (ticks sample_world + 2)) (db w1)"
proof -
  have "fst (run_state (set_status sample_libs 1 2 UserDisabled 7 sample_ctx) sample_world) = Inr ()" by code_simp
  note run = run_fstI [OF this]
  have "faultless sample_world" by (simp add: faultless_def sample_world_def)
  with disabled_user_locked_out [OF run] run show ?thesis by blast
qed

text \<open>
  Deleting an account is complete. After a deletion, which is of an account of that tenant and not
  the administrator's own, no user, membership, permission, session, code, token, consent or factor
  names the user, and the other users' rows are as before.
\<close>

theorem delete_user_complete:
  assumes "run_state (delete_user E tenant target actor ctx) w = (Inr x, w')"
  shows "target \<noteq> actor \<and>
     (\<exists>user. find (\<lambda>u. u_id u = target) (db_users (db w)) = Some user \<and> u_tenant_id user = tenant) \<and>
     \<not> mentions_user target (db w') \<and>
     db_users (db w') = filter (\<lambda>u. u_id u \<noteq> target) (db_users (db w))"
proof -
  have same: "mentions_user i d = mentions_user i d'" if "tables d = tables d'" for i d d'
    using that by (simp add: mentions_user_def tables_eq_iff)
  note deleted = delete_user_Inr [OF assms]
  with same [of "db w'" "delete_user_rows target (db w)" target] delete_user_rows_mentions [of target "db w"]
  show ?thesis by (auto simp: tables_eq_iff delete_user_rows_def delete_where_def)
qed

theorem delete_user_complete_witness:
  "\<exists>w'. run_state (delete_user sample_libs 1 2 7 sample_ctx) sample_world = (Inr (), w') \<and> \<not> mentions_user 2 (db w')"
proof -
  have "fst (run_state (delete_user sample_libs 1 2 7 sample_ctx) sample_world) = Inr ()" by code_simp
  note run = run_fstI [OF this]
  from delete_user_complete [OF run] run show ?thesis by blast
qed

end
