(* ===== verification/Invitation.thy ===== *)
theory Invitation
  imports Permissions PasswordReset
begin

text \<open>
  Guests of \<^verbatim>\<open>application/invitation.rs\<close>: inviting a user of another tenant, accepting the invitation,
  listing the members of a tenant and ending a guest's membership.
\<close>

section \<open>Model\<close>

datatype invitation_error =
    InviteNotFound
  | AlreadyMember
  | InviteForbidden string
  | InviteInvalidOrExpired
  | InviteInternal string

record created_invitation =
  inv_token :: string
  inv_expires_at :: instant
  inv_email_sent :: bool
  inv_invitee_email :: string

record tenant_member =
  mem_user_id :: uuid
  mem_email :: "string option"
  mem_name :: "string option"
  mem_membership_type :: membership_type
  mem_status :: membership_status
  mem_user_status :: "user_status option"

definition INVITATION_TOKEN_BYTES :: nat where
  "INVITATION_TOKEN_BYTES = 32"

definition invite_internal :: "domain_error \<Rightarrow> invitation_error" where
  "invite_internal e = InviteInternal (domain_error_to_string e)"

definition invitation_mail :: "libs \<Rightarrow> config \<Rightarrow> string \<Rightarrow> tenant_id \<Rightarrow> string \<Rightarrow> instant \<Rightarrow> outgoing_email" where
  "invitation_mail E C to host_id token expires_at =
     (let accept_url = trim_end_slashes (console_base_url C) @ ''/'' @ uuid_to_string E host_id @
                       ''/invitations/accept?token='' @ token
      in \<lparr>mail_to = to, mail_subject = invite_mail_subject,
          mail_body_text = invite_mail_body accept_url (to_rfc3339 E expires_at)\<rparr>)"

definition deliver_invitation_email ::
  "libs \<Rightarrow> config \<Rightarrow> string \<Rightarrow> tenant_id \<Rightarrow> string \<Rightarrow> instant \<Rightarrow> (world, bool) state" where
  "deliver_invitation_email E C to host_id token expires_at = do {
     server \<leftarrow> smtp_server E C;
     case server of
       Inl _ \<Rightarrow> State_Monad.return False
     | Inr None \<Rightarrow> State_Monad.return False
     | Inr (Some server) \<Rightarrow> do {
         sent \<leftarrow> mailer_send E server (invitation_mail E C to host_id token expires_at);
         State_Monad.return (\<not> isl sent)
       }
   }"

definition invited_membership ::
  "tenant_id \<Rightarrow> uuid \<Rightarrow> uuid \<Rightarrow> string \<Rightarrow> instant \<Rightarrow> instant \<Rightarrow> tenant_membership" where
  "invited_membership host_id target_user_id invited_by token_hash expires_at now =
     \<lparr>tm_tenant_id = host_id, tm_user_id = target_user_id, tm_membership_type = Guest,
      tm_status = MemberInvited, tm_invited_by = Some invited_by,
      tm_invitation_token_hash = Some token_hash, tm_invitation_expires_at = Some expires_at,
      tm_created_at = now, tm_updated_at = now\<rparr>"

definition create_invitation ::
  "libs \<Rightarrow> config \<Rightarrow> tenant_id \<Rightarrow> uuid \<Rightarrow> uuid \<Rightarrow> request_context \<Rightarrow>
   (world, invitation_error + created_invitation) state" where
  "create_invitation E C host_id target_user_id invited_by ctx =
     and_then (map_err invite_internal (users_find_by_id target_user_id)) (\<lambda>found.
     case found of
       None \<Rightarrow> State_Monad.return (Inl InviteNotFound)
     | Some invitee \<Rightarrow>
         and_then (map_err invite_internal (memberships_find host_id target_user_id)) (\<lambda>existing.
         case existing of
           Some _ \<Rightarrow> State_Monad.return (Inl AlreadyMember)
         | None \<Rightarrow> do {
             now \<leftarrow> clock_now;
             token \<leftarrow> random_token E INVITATION_TOKEN_BYTES;
             let expires_at = now + invitation_ttl C in
             and_then (map_err invite_internal (memberships_create
               (invited_membership host_id target_user_id invited_by (sha256_hex E token) expires_at now))) (\<lambda>_. do {
             audit_record TenantInvitationCreated AuditSuccess (Some host_id) (Some invited_by) None
               (Some (''invitee='' @ uuid_to_string E target_user_id)) ctx;
             email_sent \<leftarrow> deliver_invitation_email E C (u_email invitee) host_id token expires_at;
             State_Monad.return (Inr
               \<lparr>inv_token = token, inv_expires_at = expires_at, inv_email_sent = email_sent,
                inv_invitee_email = u_email invitee\<rparr>) })
           }))"

text \<open>Collecting the users into a hash map: a later row replaces an earlier one with the same id.\<close>

definition user_map :: "user list \<Rightarrow> uuid \<Rightarrow> user option" where
  "user_map users = map_of (rev (map (\<lambda>u. (u_id u, u)) users))"

definition list_members :: "tenant_id \<Rightarrow> (world, invitation_error + tenant_member list) state" where
  "list_members host_id =
     and_then (map_err invite_internal (memberships_list_for_tenant host_id)) (\<lambda>memberships.
     and_then (map_err invite_internal (users_find_by_ids (map tm_user_id memberships))) (\<lambda>users.
     State_Monad.return (Inr (map (\<lambda>m.
       let user = user_map users (tm_user_id m)
       in \<lparr>mem_user_id = tm_user_id m, mem_email = map_option u_email user,
           mem_name = Option.bind user u_name, mem_membership_type = tm_membership_type m,
           mem_status = tm_status m, mem_user_status = map_option u_status user\<rparr>) memberships))))"

definition accept_invitation ::
  "libs \<Rightarrow> tenant_id \<Rightarrow> uuid \<Rightarrow> string \<Rightarrow> request_context \<Rightarrow> (world, invitation_error + unit) state" where
  "accept_invitation E tenant session_user_id token ctx =
     and_then (require (token \<noteq> []) InviteInvalidOrExpired) (\<lambda>_.
     and_then (map_err invite_internal
       (memberships_find_by_invitation_token_hash E (sha256_hex E token))) (\<lambda>found.
     case found of
       None \<Rightarrow> State_Monad.return (Inl InviteInvalidOrExpired)
     | Some membership \<Rightarrow>
         and_then (require (tm_tenant_id membership = tenant) InviteInvalidOrExpired) (\<lambda>_.
         and_then (require (tm_user_id membership = session_user_id)
           (InviteForbidden ''only the invited user may accept this invitation'')) (\<lambda>_. do {
         now \<leftarrow> clock_now;
         and_then (require (case tm_invitation_expires_at membership of Some e \<Rightarrow> e > now | None \<Rightarrow> False)
           InviteInvalidOrExpired) (\<lambda>_.
         and_then (map_err invite_internal (memberships_activate tenant session_user_id)) (\<lambda>_. do {
         audit_record TenantInvitationAccepted AuditSuccess (Some tenant) (Some session_user_id) None None ctx;
         State_Monad.return (Inr ()) })) }))))"

definition revoke_membership ::
  "libs \<Rightarrow> tenant_id \<Rightarrow> uuid \<Rightarrow> uuid \<Rightarrow> request_context \<Rightarrow> (world, invitation_error + unit) state" where
  "revoke_membership E host_id target_user_id actor ctx =
     and_then (map_err invite_internal (memberships_find host_id target_user_id)) (\<lambda>found.
     case found of
       None \<Rightarrow> State_Monad.return (Inl InviteNotFound)
     | Some membership \<Rightarrow>
         and_then (require (\<not> membership_is_home membership)
           (InviteForbidden ''home membership cannot be revoked'')) (\<lambda>_.
         and_then (map_err invite_internal
           (cached_revoke_all_for_user_in_tenant host_id target_user_id)) (\<lambda>_.
         and_then (map_err invite_internal (memberships_delete host_id target_user_id)) (\<lambda>_. do {
         audit_record TenantMembershipRevoked AuditSuccess (Some host_id) (Some actor) None
           (Some (''member='' @ uuid_to_string E target_user_id)) ctx;
         State_Monad.return (Inr ()) }))))"

section \<open>Reading a run\<close>

text \<open>A guest's traces in a tenant.\<close>

definition is_member :: "tenant_id \<Rightarrow> uuid \<Rightarrow> database \<Rightarrow> bool" where
  "is_member t u d \<longleftrightarrow> (\<exists>m \<in> set (db_memberships d). membership_key t u m)"

definition has_grants :: "tenant_id \<Rightarrow> uuid \<Rightarrow> database \<Rightarrow> bool" where
  "has_grants t u d \<longleftrightarrow> (\<exists>p \<in> set (db_user_permissions d). in_scope t u p)"

lemma frame_invalidate_all: "always (frame T) (invalidate_all t u codes)"
  by (induction codes) (auto intro!: frame.always_rules frame_permission_cache)

lemma invalidate_all_cache:
  "run_state (invalidate_all t u codes) w = (x, w') \<Longrightarrow>
   permission_cache w' k = (if k \<in> (\<lambda>c. (t, u, c)) ` set codes then None else permission_cache w k)"
  by (induction codes arbitrary: w) (auto simp: run_rules cache_invalidate_def)

lemma cached_revoke_all_Inr:
  assumes "run_state (cached_revoke_all_for_user_in_tenant t u) w = (Inr codes, w')"
  shows "\<not> has_grants t u (db w')"
    "codes = map up_permission_code (filter (in_scope t u) (db_user_permissions (db w)))"
    "c \<in> set codes \<Longrightarrow> permission_cache w' (t, u, c) = None"
proof -
  from assms obtain w1 x where call: "run_state (permissions_revoke_all_for_user_in_tenant t u) w = (Inr codes, w1)"
    and inv: "run_state (invalidate_all t u codes) w1 = (x, w')"
    by (auto simp: cached_revoke_all_for_user_in_tenant_def run_rules)
  have db: "db w' = db w1" using alwaysD [OF frame_invalidate_all [where T = "\<lambda>d. d"] inv] by (simp add: frame_def)
  from call db show "\<not> has_grants t u (db w')"
    "codes = map up_permission_code (filter (in_scope t u) (db_user_permissions (db w)))"
    by (auto simp: permissions_revoke_all_for_user_in_tenant_def run_db_call_Inr delete_grants_def has_grants_def
        set_delete_where)
  show "c \<in> set codes \<Longrightarrow> permission_cache w' (t, u, c) = None"
    using invalidate_all_cache [OF inv] by auto
qed

lemma frame_cached_revoke_all:
  "(\<And>d x. T (d\<lparr>db_user_permissions := x\<rparr>) = T d) \<Longrightarrow> always (frame T) (cached_revoke_all_for_user_in_tenant t u)"
  unfolding cached_revoke_all_for_user_in_tenant_def
  by (intro frame.always_rules frame_permissions frame_invalidate_all)

lemma cached_revoke_all_effect:
  assumes "run_state (cached_revoke_all_for_user_in_tenant t u) w = (r, w')"
  shows "db_memberships (db w') = db_memberships (db w) \<and> (\<not> isl r \<longrightarrow> \<not> has_grants t u (db w'))"
  using assms alwaysD [OF frame_cached_revoke_all [where T = db_memberships] assms]
  by (cases r) (auto simp: frame_def dest: cached_revoke_all_Inr(1))

lemma memberships_delete_effect:
  assumes "run_state (memberships_delete t u) w = (r, w')"
  shows "db_user_permissions (db w') = db_user_permissions (db w) \<and> (\<not> isl r \<longrightarrow> \<not> is_member t u (db w'))"
  using assms alwaysD [OF frame_memberships(3) [where T = db_user_permissions] assms]
  by (cases r) (auto simp: frame_def memberships_delete_def run_rules is_member_def set_delete_where)

lemma memberships_find_effect:
  "run_state (memberships_find t u) w = (r, w') \<Longrightarrow>
   db w' = db w \<and> (\<forall>m. r = Inr (Some m) \<longrightarrow> m \<in> set (db_memberships (db w)) \<and> membership_key t u m)"
  by (cases r) (auto simp: memberships_find_def run_rules dest: find_SomeD)

text \<open>Whatever the outcome: the membership goes only when no permission is left.\<close>

lemma revoke_membership_order:
  assumes "run_state (revoke_membership E t u actor ctx) w = (r, w')"
  shows "db_memberships (db w') = db_memberships (db w) \<or> \<not> has_grants t u (db w')"
  using assms
  by (cases r)
     (auto simp: revoke_membership_def run_rules has_grants_def tables_eq_iff
      dest!: memberships_find_effect cached_revoke_all_effect memberships_delete_effect run_audit)

lemma revoke_membership_Inr:
  assumes "run_state (revoke_membership E t u actor ctx) w = (Inr x, w')"
  shows "(\<exists>m \<in> set (db_memberships (db w)). membership_key t u m \<and> \<not> membership_is_home m) \<and>
     \<not> is_member t u (db w') \<and> \<not> has_grants t u (db w')"
  using assms
  by (auto simp: revoke_membership_def run_rules has_grants_def is_member_def tables_eq_iff
      dest!: memberships_find_effect cached_revoke_all_effect memberships_delete_effect run_audit)

lemma has_grants_holds: "\<not> has_grants t u d \<Longrightarrow> \<not> holds_permission E d t u c"
  by (auto simp: has_grants_def holds_permission_def list_ex_iff permission_key_in_scope)

section \<open>Accepting\<close>

definition accepted ::
  "libs \<Rightarrow> tenant_id \<Rightarrow> uuid \<Rightarrow> string \<Rightarrow> database \<Rightarrow> database \<Rightarrow> bool" where
  "accepted E tenant u token d d' \<longleftrightarrow> (\<exists>m now e. m \<in> set (db_memberships d) \<and>
     has_invitation E (sha256_hex E token) m \<and> membership_key tenant u m \<and>
     tm_invitation_expires_at m = Some e \<and> now < e \<and>
     db_memberships d' = update_where (membership_key tenant u) activate_membership (db_memberships d))"

lemma accept_invitation_Inr:
  assumes "run_state (accept_invitation E tenant u token ctx) w = (Inr x, w')"
  shows "accepted E tenant u token (db w) (db w')"
proof -
  from assms obtain m e w1 y where m: "m \<in> set (db_memberships (db w))" "has_invitation E (sha256_hex E token) m"
    "tm_tenant_id m = tenant" "tm_user_id m = u" "tm_invitation_expires_at m = Some e" "clock_src w (Suc (ticks w)) < e"
    and act: "run_state (memberships_activate tenant u) (tick (called w)) = (Inr y, w1)"
    and last: "tables (db w') = tables (db w1)"
    by (auto simp: accept_invitation_def memberships_find_by_invitation_token_hash_def run_rules
        dest!: find_SomeD run_audit)
  from act last have "db_memberships (db w') = update_where (membership_key tenant u) activate_membership (db_memberships (db w))"
    by (auto simp: memberships_activate_def run_rules tables_eq_iff)
  with m show ?thesis unfolding accepted_def membership_key_def by blast
qed

lemma revoke_membership_cache:
  assumes "run_state (revoke_membership E t u actor ctx) w = (Inr x, w')"
    and "p \<in> set (db_user_permissions (db w))" and "in_scope t u p"
  shows "permission_cache w' (t, u, up_permission_code p) = None"
proof -
  have delete: "permission_cache v' = permission_cache v" if "run_state (memberships_delete t u) v = (y, v')" for v y v'
    using that by (cases y) (auto simp: memberships_delete_def run_rules)
  from assms(1) obtain v1 v2 v3 codes y z where steps: "db v1 = db w"
    "run_state (cached_revoke_all_for_user_in_tenant t u) v1 = (Inr codes, v2)"
    "run_state (memberships_delete t u) v2 = (y, v3)"
    "run_state (audit_record TenantMembershipRevoked AuditSuccess (Some t) (Some actor) None
           (Some (''member='' @ uuid_to_string E u)) ctx) v3 = (z, w')"
    by (auto simp: revoke_membership_def run_rules dest!: memberships_find_effect)
  from assms(2,3) steps(1) have "up_permission_code p \<in> set codes"
    unfolding cached_revoke_all_Inr(2) [OF steps(2)] by auto
  from cached_revoke_all_Inr(3) [OF steps(2) this] delete [OF steps(3)] audit_keeps_cache [OF steps(4)]
  show ?thesis by simp
qed

section \<open>Properties\<close>

text \<open>
  C12. Removing a guest fails closed. Whatever the outcome and whichever statements fail, if the
  membership is gone afterwards, so is every permission the user had in the tenant. When the removal
  succeeds, the membership was not the user's home, membership and permissions are gone, and no
  permission that was held answers from the cache under the code it was stored with.
\<close>

theorem guest_removal_fail_closed:
  assumes "run_state (revoke_membership E tenant target actor ctx) w = (r, w')"
  shows "(is_member tenant target (db w) \<and> \<not> is_member tenant target (db w') \<longrightarrow> \<not> has_grants tenant target (db w')) \<and>
     (\<not> isl r \<longrightarrow> (\<exists>m \<in> set (db_memberships (db w)). membership_key tenant target m \<and> \<not> membership_is_home m) \<and>
        \<not> is_member tenant target (db w') \<and> \<not> has_grants tenant target (db w') \<and>
        (\<forall>p \<in> set (db_user_permissions (db w)). in_scope tenant target p \<longrightarrow>
           permission_cache w' (tenant, target, up_permission_code p) = None))"
proof (intro conjI impI)
  assume "is_member tenant target (db w) \<and> \<not> is_member tenant target (db w')"
  then have "db_memberships (db w') \<noteq> db_memberships (db w)" by (auto simp: is_member_def)
  with revoke_membership_order [OF assms] show "\<not> has_grants tenant target (db w')" by blast
next
  assume "\<not> isl r"
  then obtain x where r: "r = Inr x" by (cases r) auto
  note revoked = revoke_membership_Inr [OF assms [unfolded r]]
  from revoked show "\<exists>m \<in> set (db_memberships (db w)). membership_key tenant target m \<and> \<not> membership_is_home m"
    "\<not> is_member tenant target (db w')" "\<not> has_grants tenant target (db w')" by blast+
  show "\<forall>p \<in> set (db_user_permissions (db w)). in_scope tenant target p \<longrightarrow>
      permission_cache w' (tenant, target, up_permission_code p) = None"
    using revoke_membership_cache [OF assms [unfolded r]] by blast
qed

definition sample_guest_world :: world where
  "sample_guest_world = sample_world\<lparr>db := sample_db
     \<lparr>db_memberships := [sample_membership, new_active_guest 9 2 0],
      db_user_permissions := [sample_permission, sample_permission\<lparr>up_tenant_id := 9\<rparr>]\<rparr>\<rparr>"

theorem guest_removal_fail_closed_witness:
  "\<exists>w'. run_state (revoke_membership sample_libs 9 2 7 sample_ctx) sample_guest_world = (Inr (), w') \<and>
     \<not> is_member 9 2 (db w') \<and> \<not> has_grants 9 2 (db w')"
proof -
  have "fst (run_state (revoke_membership sample_libs 9 2 7 sample_ctx) sample_guest_world) = Inr ()" by code_simp
  note run = run_fstI [OF this]
  from guest_removal_fail_closed [OF run] run show ?thesis by auto
qed

text \<open>
  An invitation is accepted only by the invited user, in the tenant it is for, with its token and
  before it expires. It makes exactly this membership active and forgets the token, so that the
  invitation cannot be used again.
\<close>

theorem accept_invitation_sound:
  assumes "run_state (accept_invitation E tenant session_user token ctx) w = (Inr x, w')"
  shows "accepted E tenant session_user token (db w) (db w') \<and>
     list_all (\<lambda>m. membership_key tenant session_user m \<longrightarrow> \<not> has_invitation E (sha256_hex E token) m) (db_memberships (db w'))"
proof -
  note acc = accept_invitation_Inr [OF assms]
  have "\<not> has_invitation E (sha256_hex E token) (activate_membership m)" for m
    by (simp add: has_invitation_def activate_membership_def)
  moreover have "membership_key tenant session_user (activate_membership m) = membership_key tenant session_user m" for m
    by (simp add: membership_key_def activate_membership_def)
  ultimately show ?thesis using acc
    by (auto simp: accepted_def list_all_iff update_where_def)
qed

definition sample_invited_world :: world where
  "sample_invited_world = sample_world\<lparr>db := sample_db
     \<lparr>db_memberships := [sample_membership, invited_membership 9 2 7 ''htok'' (seconds 2000) 0]\<rparr>\<rparr>"

theorem accept_invitation_sound_witness:
  "\<exists>w'. run_state (accept_invitation sample_libs 9 2 ''tok'' sample_ctx) sample_invited_world = (Inr (), w') \<and>
     accepted sample_libs 9 2 ''tok'' (db sample_invited_world) (db w')"
proof -
  have "fst (run_state (accept_invitation sample_libs 9 2 ''tok'' sample_ctx) sample_invited_world) = Inr ()" by code_simp
  note run = run_fstI [OF this]
  from accept_invitation_sound [OF run] run show ?thesis by blast
qed

end
