(* ===== verification/DirectLogin.thy ===== *)
theory DirectLogin
  imports Permissions MfaLogin
begin

text \<open>
  Logging in without an authorization request: the portal (\<^verbatim>\<open>application/portal_login.rs\<close>) and the
  administration interface (\<^verbatim>\<open>application/admin_login.rs\<close>). Both check the rate limit, the account
  and the password in the same way, with the same audit events; what they share is written once, with
  the early returns they have in common in \<open>direct_stop\<close>.
\<close>

section \<open>Steps both services have\<close>

datatype direct_stop = DirectRateLimited | DirectInvalid | DirectLocked | DirectInternal string

definition direct_failed :: "domain_error \<Rightarrow> direct_stop" where
  "direct_failed e = DirectInternal (domain_error_to_string e)"

definition record_failure :: "tenant_id \<Rightarrow> uuid option \<Rightarrow> string \<Rightarrow> request_context \<Rightarrow> (world, unit) state" where
  "record_failure tenant_id user_id reason ctx =
     audit_record LoginFailed AuditFailure (Some tenant_id) user_id None (Some reason) ctx"

text \<open>Some of the operations record a refused request, some do not (\<open>audited\<close>).\<close>

definition direct_rate ::
  "config \<Rightarrow> tenant_id \<Rightarrow> bool \<Rightarrow> instant \<Rightarrow> request_context \<Rightarrow> (world, direct_stop + unit) state" where
  "direct_rate C tenant audited now ctx =
     (case ip_address ctx of
        None \<Rightarrow> State_Monad.return (Inr ())
      | Some ip \<Rightarrow> do {
          ok \<leftarrow> check_and_record C ip now;
          if \<not> ok then do {
            (if audited then record_failure tenant None ''ip_rate_limited'' ctx
             else State_Monad.return ());
            State_Monad.return (Inl DirectRateLimited)
          }
          else State_Monad.return (Inr ())
        })"

definition direct_user ::
  "libs \<Rightarrow> tenant_id \<Rightarrow> string \<Rightarrow> instant \<Rightarrow> request_context \<Rightarrow> (world, direct_stop + user) state" where
  "direct_user E tenant username now ctx =
     and_then (map_err direct_failed (users_find_by_username E tenant username)) (\<lambda>found.
     case found of
       None \<Rightarrow> do {
         record_failure tenant None ''unknown_user'' ctx;
         State_Monad.return (Inl DirectInvalid)
       }
     | Some user \<Rightarrow>
         if user_is_locked_at user now then do {
           audit_record LoginLocked AuditFailure (Some tenant) (Some (u_id user)) None
             (Some ''account_locked'') ctx;
           State_Monad.return (Inl DirectLocked)
         }
         else if \<not> user_is_active user then do {
           record_failure tenant (Some (u_id user)) ''account_not_active'' ctx;
           State_Monad.return (Inl DirectInvalid)
         }
         else State_Monad.return (Inr user))"

text \<open>The password change finds the user without audit events, and only one who must change it.\<close>

definition changing_user ::
  "libs \<Rightarrow> tenant_id \<Rightarrow> string \<Rightarrow> instant \<Rightarrow> (world, direct_stop + user) state" where
  "changing_user E tenant username now =
     and_then (map_err direct_failed (users_find_by_username E tenant username)) (\<lambda>found.
     State_Monad.return (case found of
       None \<Rightarrow> Inl DirectInvalid
     | Some user \<Rightarrow>
         if user_is_locked_at user now then Inl DirectLocked
         else if \<not> user_is_active user then Inl DirectInvalid
         else if \<not> u_must_change_password user then Inl DirectInvalid
         else Inr user))"

definition direct_password_failure ::
  "tenant_id \<Rightarrow> user \<Rightarrow> request_context \<Rightarrow> (world, direct_stop) state" where
  "direct_password_failure tenant_id user ctx = do {
     now \<leftarrow> clock_now;
     let failed = i32 (u_failed_login_count user + 1);
     let locked_until = (if failed \<ge> max_failed_logins
                         then Some (now + minutes lock_duration_minutes) else None);
     r \<leftarrow> users_update_login_state (u_id user) failed locked_until;
     case r of
       Inl e \<Rightarrow> State_Monad.return (direct_failed e)
     | Inr _ \<Rightarrow> do {
         record_failure tenant_id (Some (u_id user)) ''invalid_password'' ctx;
         if locked_until \<noteq> None then do {
           audit_record LoginLocked AuditFailure (Some tenant_id) (Some (u_id user)) None
             (Some ''too_many_failures'') ctx;
           State_Monad.return DirectLocked
         }
         else State_Monad.return DirectInvalid
       }
   }"

definition direct_password ::
  "libs \<Rightarrow> tenant_id \<Rightarrow> user \<Rightarrow> string \<Rightarrow> request_context \<Rightarrow> (world, direct_stop + unit) state" where
  "direct_password E tenant user password ctx =
     (case hasher_verify E password (u_password_hash user) of
        Inl e \<Rightarrow> State_Monad.return (Inl (direct_failed e))
      | Inr verified \<Rightarrow>
          if \<not> verified then do {
            out \<leftarrow> direct_password_failure tenant user ctx;
            State_Monad.return (Inl out)
          }
          else State_Monad.return (Inr ()))"

definition clear_login_state :: "user \<Rightarrow> (world, direct_stop + unit) state" where
  "clear_login_state user =
     (if u_failed_login_count user > 0 \<or> u_locked_until user \<noteq> None
      then map_err direct_failed (users_update_login_state (u_id user) 0 None)
      else State_Monad.return (Inr ()))"

definition issue_sso ::
  "libs \<Rightarrow> config \<Rightarrow> tenant_id \<Rightarrow> user \<Rightarrow> request_context \<Rightarrow> instant \<Rightarrow> (world, domain_error + string) state" where
  "issue_sso E C tenant_id user ctx now = do {
     sso_session_id \<leftarrow> random_hex E 32;
     and_then (sso_sessions_create E
       \<lparr>ss_session_hash = sha256_hex E sso_session_id, ss_user_id = u_id user, ss_auth_time = now,
        ss_idle_expires_at = now + sso_idle_ttl C,
        ss_absolute_expires_at = now + sso_absolute_ttl C, ss_user_agent = user_agent ctx,
        ss_ip_address = ip_address ctx, ss_created_at = now, ss_updated_at = now\<rparr>) (\<lambda>_. do {
     audit_record SsoSessionCreated AuditSuccess (Some tenant_id) (Some (u_id user)) None None ctx;
     audit_record LoginSucceeded AuditSuccess (Some tenant_id) (Some (u_id user)) None None ctx;
     State_Monad.return (Inr sso_session_id) })
   }"

text \<open>
  Every one of the operations that log in ends in the same way: whoever has been authenticated gets an
  SSO session.
\<close>

definition direct_finish ::
  "libs \<Rightarrow> config \<Rightarrow> tenant_id \<Rightarrow> (domain_error \<Rightarrow> 'o) \<Rightarrow> (string \<Rightarrow> user \<Rightarrow> 'o) \<Rightarrow>
   (world, 'o + (instant \<times> user)) state \<Rightarrow> request_context \<Rightarrow> (world, 'o) state" where
  "direct_finish E C tenant_id failed success authenticated ctx = do {
     r \<leftarrow> and_then authenticated (\<lambda>(now, user).
          and_then (map_err failed (issue_sso E C tenant_id user ctx now)) (\<lambda>sso_session_id.
          State_Monad.return (Inr (success sso_session_id user))));
     State_Monad.return (case r of Inl out \<Rightarrow> out | Inr out \<Rightarrow> out)
   }"

text \<open>The new password, once it is known to be strong enough.\<close>

definition store_password ::
  "libs \<Rightarrow> tenant_id \<Rightarrow> user \<Rightarrow> string \<Rightarrow> request_context \<Rightarrow> (world, direct_stop + unit) state" where
  "store_password E tenant_id user new_password ctx =
     and_then (map_err direct_failed (hasher_hash E new_password)) (\<lambda>new_hash.
     and_then (map_err direct_failed (users_update_password (u_id user) new_hash)) (\<lambda>_. do {
     audit_record PasswordChanged AuditSuccess (Some tenant_id) (Some (u_id user)) None None ctx;
     clear_login_state user }))"

section \<open>Second-factor tickets of the portal\<close>

definition MFA_TICKET_TTL_SECS :: int where
  "MFA_TICKET_TTL_SECS = 300"

text \<open>\<open>str::splitn\<close>\<close>

fun splitn :: "nat \<Rightarrow> char \<Rightarrow> string \<Rightarrow> string list" where
  "splitn 0 c s = []"
| "splitn (Suc 0) c s = [s]"
| "splitn (Suc (Suc n)) c s =
     (case dropWhile (\<lambda>x. x \<noteq> c) s of
        [] \<Rightarrow> [s]
      | _ # rest \<Rightarrow> takeWhile (\<lambda>x. x \<noteq> c) s # splitn (Suc n) c rest)"

definition ticket_message :: "string \<Rightarrow> string \<Rightarrow> int \<Rightarrow> string" where
  "ticket_message tenant user exp = ''portal-mfa:'' @ tenant @ '':'' @ user @ '':'' @ show_int exp"

definition ticket_signature :: "libs \<Rightarrow> string \<Rightarrow> string \<Rightarrow> string \<Rightarrow> int \<Rightarrow> string" where
  "ticket_signature E secret tenant user exp =
     hex_encode E (hmac_sha256 E secret (ticket_message tenant user exp))"

definition sign_ticket :: "libs \<Rightarrow> string \<Rightarrow> uuid \<Rightarrow> uuid \<Rightarrow> int \<Rightarrow> string" where
  "sign_ticket E secret tenant user exp =
     uuid_to_string E tenant @ ''.'' @ uuid_to_string E user @ ''.'' @ show_int exp @ ''.'' @
     ticket_signature E secret (uuid_to_string E tenant) (uuid_to_string E user) exp"

definition verify_ticket :: "libs \<Rightarrow> string \<Rightarrow> uuid \<Rightarrow> string \<Rightarrow> int \<Rightarrow> uuid option" where
  "verify_ticket E secret tenant ticket now_ts =
     (case splitn 4 CHR ''.'' ticket of
        [tenant_str, user_str, exp_str, sig] \<Rightarrow>
          if tenant_str \<noteq> uuid_to_string E tenant then None
          else (case parse_i64 exp_str of
            None \<Rightarrow> None
          | Some exp \<Rightarrow>
              if now_ts > exp then None
              else (case hex_decode E sig of
                None \<Rightarrow> None
              | Some sig_bytes \<Rightarrow>
                  if hmac_sha256 E secret (ticket_message tenant_str user_str exp) \<noteq> sig_bytes then None
                  else uuid_parse E user_str))
      | _ \<Rightarrow> None)"

text \<open>The tickets are signed with the CSRF secret.\<close>

definition issue_ticket :: "libs \<Rightarrow> config \<Rightarrow> tenant_id \<Rightarrow> uuid \<Rightarrow> instant \<Rightarrow> string" where
  "issue_ticket E C tenant_id user_id now =
     sign_ticket E (csrf_secret C) tenant_id user_id (timestamp now + MFA_TICKET_TTL_SECS)"

section \<open>The portal\<close>

record portal_login_command =
  pl_username :: string
  pl_password :: string

record portal_mfa_command =
  pm_mfa_ticket :: string
  pm_totp_code :: string

record portal_change_password_command =
  pc_username :: string
  pc_current_password :: string
  pc_new_password :: string

datatype portal_login_outcome =
    PortalSuccess string "string option"
  | PortalMfaRequired string
  | PortalEmailVerificationRequired
  | PortalPasswordChangeRequired string
  | PortalRateLimited
  | PortalInvalidCredentials
  | PortalLocked
  | PortalInternal string

datatype portal_change_password_outcome =
    PortalChangeSuccess string "string option"
  | PortalChangeMfaRequired string
  | PortalChangeEmailVerificationRequired
  | PortalChangeRateLimited
  | PortalChangeInvalidCredentials
  | PortalChangeLocked
  | PortalChangeWeakPassword
  | PortalChangeInternal string

datatype portal_mfa_outcome =
    PortalMfaSuccess string "string option"
  | PortalInvalidCode
  | PortalTicketExpired
  | PortalMfaRateLimited
  | PortalMfaInternal string

definition portal_stop :: "direct_stop \<Rightarrow> portal_login_outcome" where
  "portal_stop s = (case s of
     DirectRateLimited \<Rightarrow> PortalRateLimited | DirectInvalid \<Rightarrow> PortalInvalidCredentials
   | DirectLocked \<Rightarrow> PortalLocked | DirectInternal m \<Rightarrow> PortalInternal m)"

definition portal_change_stop :: "direct_stop \<Rightarrow> portal_change_password_outcome" where
  "portal_change_stop s = (case s of
     DirectRateLimited \<Rightarrow> PortalChangeRateLimited | DirectInvalid \<Rightarrow> PortalChangeInvalidCredentials
   | DirectLocked \<Rightarrow> PortalChangeLocked | DirectInternal m \<Rightarrow> PortalChangeInternal m)"

definition portal_mfa_stop :: "domain_error \<Rightarrow> portal_mfa_outcome" where
  "portal_mfa_stop e = PortalMfaInternal (domain_error_to_string e)"

definition portal_authenticate ::
  "libs \<Rightarrow> config \<Rightarrow> tenant_id \<Rightarrow> portal_login_command \<Rightarrow> request_context \<Rightarrow>
   (world, portal_login_outcome + (instant \<times> user)) state" where
  "portal_authenticate E C tenant_id cmd ctx = do {
     now \<leftarrow> clock_now;
     and_then (map_err portal_stop (direct_rate C tenant_id True now ctx)) (\<lambda>_.
     and_then (map_err portal_stop (direct_user E tenant_id (pl_username cmd) now ctx)) (\<lambda>user.
     and_then (map_err portal_stop (direct_password E tenant_id user (pl_password cmd) ctx)) (\<lambda>_.
     and_then (map_err portal_stop (clear_login_state user)) (\<lambda>_.
     if \<not> u_email_verified user then do {
       record_failure tenant_id (Some (u_id user)) ''email_not_verified'' ctx;
       State_Monad.return (Inl PortalEmailVerificationRequired)
     }
     else
     and_then (require (\<not> u_must_change_password user)
       (PortalPasswordChangeRequired (pl_username cmd))) (\<lambda>_.
     and_then (map_err (portal_stop \<circ> direct_failed) (user_has_confirmed_totp (u_id user))) (\<lambda>has_totp.
     and_then (require (\<not> has_totp)
       (PortalMfaRequired (issue_ticket E C tenant_id (u_id user) now))) (\<lambda>_.
     State_Monad.return (Inr (now, user)))))))))
   }"

definition portal_login ::
  "libs \<Rightarrow> config \<Rightarrow> tenant_id \<Rightarrow> portal_login_command \<Rightarrow> request_context \<Rightarrow>
   (world, portal_login_outcome) state" where
  "portal_login E C tenant_id cmd ctx =
     direct_finish E C tenant_id (portal_stop \<circ> direct_failed)
       (\<lambda>i user. PortalSuccess i (u_language user)) (portal_authenticate E C tenant_id cmd ctx) ctx"

definition portal_change_authenticate ::
  "libs \<Rightarrow> config \<Rightarrow> tenant_id \<Rightarrow> portal_change_password_command \<Rightarrow> request_context \<Rightarrow>
   (world, portal_change_password_outcome + (instant \<times> user)) state" where
  "portal_change_authenticate E C tenant_id cmd ctx = do {
     now \<leftarrow> clock_now;
     and_then (map_err portal_change_stop (direct_rate C tenant_id True now ctx)) (\<lambda>_.
     and_then (map_err portal_change_stop (changing_user E tenant_id (pc_username cmd) now)) (\<lambda>user.
     and_then (map_err portal_change_stop (direct_password E tenant_id user (pc_current_password cmd) ctx)) (\<lambda>_.
     if \<not> u_email_verified user then do {
       record_failure tenant_id (Some (u_id user)) ''email_not_verified'' ctx;
       State_Monad.return (Inl PortalChangeEmailVerificationRequired)
     }
     else
     and_then (require (\<not> isl (validate_password_strength (pc_new_password cmd)))
       PortalChangeWeakPassword) (\<lambda>_.
     and_then (map_err portal_change_stop (store_password E tenant_id user (pc_new_password cmd) ctx)) (\<lambda>_.
     and_then (map_err (portal_change_stop \<circ> direct_failed) (user_has_confirmed_totp (u_id user))) (\<lambda>has_totp.
     and_then (require (\<not> has_totp)
       (PortalChangeMfaRequired (issue_ticket E C tenant_id (u_id user) now))) (\<lambda>_.
     State_Monad.return (Inr (now, user)))))))))
   }"

definition portal_change_password ::
  "libs \<Rightarrow> config \<Rightarrow> tenant_id \<Rightarrow> portal_change_password_command \<Rightarrow> request_context \<Rightarrow>
   (world, portal_change_password_outcome) state" where
  "portal_change_password E C tenant_id cmd ctx =
     direct_finish E C tenant_id (portal_change_stop \<circ> direct_failed)
       (\<lambda>i user. PortalChangeSuccess i (u_language user)) (portal_change_authenticate E C tenant_id cmd ctx) ctx"

definition portal_mfa_authenticate ::
  "libs \<Rightarrow> config \<Rightarrow> tenant_id \<Rightarrow> portal_mfa_command \<Rightarrow> request_context \<Rightarrow>
   (world, portal_mfa_outcome + (instant \<times> user)) state" where
  "portal_mfa_authenticate E C tenant_id cmd ctx = do {
     now \<leftarrow> clock_now;
     and_then (map_err (\<lambda>_. PortalMfaRateLimited) (direct_rate C tenant_id False now ctx)) (\<lambda>_.
     case verify_ticket E (csrf_secret C) tenant_id (pm_mfa_ticket cmd) (timestamp now) of
       None \<Rightarrow> State_Monad.return (Inl PortalTicketExpired)
     | Some user_id \<Rightarrow>
     and_then (map_err portal_mfa_stop (users_find_by_id user_id)) (\<lambda>found.
     case found of
       None \<Rightarrow> State_Monad.return (Inl PortalTicketExpired)
     | Some user \<Rightarrow>
     and_then (require (\<not> user_is_locked_at user now \<and> user_is_active user) PortalTicketExpired) (\<lambda>_.
     and_then (map_err portal_mfa_stop (totp_secrets_find_by_user_id user_id)) (\<lambda>secret.
     case secret of
       None \<Rightarrow> State_Monad.return (Inl PortalTicketExpired)
     | Some totp_record \<Rightarrow>
     and_then (require (totp_is_confirmed totp_record) PortalTicketExpired) (\<lambda>_.
     case decrypt_text E (ts_secret_encrypted totp_record) (key_encryption_key C) of
       Inl e \<Rightarrow> State_Monad.return (Inl (PortalMfaInternal e))
     | Inr secret_bytes \<Rightarrow>
     and_then (map_err (\<lambda>e. PortalMfaInternal (totp_error_to_string e))
       (verify_totp_code E secret_bytes (pm_totp_code cmd))) (\<lambda>valid.
     if \<not> valid then do {
       record_failure tenant_id (Some user_id) ''invalid_totp'' ctx;
       State_Monad.return (Inl PortalInvalidCode)
     }
     else
     State_Monad.return (Inr (now, user))))))))
   }"

definition portal_verify_mfa ::
  "libs \<Rightarrow> config \<Rightarrow> tenant_id \<Rightarrow> portal_mfa_command \<Rightarrow> request_context \<Rightarrow> (world, portal_mfa_outcome) state" where
  "portal_verify_mfa E C tenant_id cmd ctx =
     direct_finish E C tenant_id portal_mfa_stop
       (\<lambda>i user. PortalMfaSuccess i (u_language user)) (portal_mfa_authenticate E C tenant_id cmd ctx) ctx"

section \<open>The administration interface\<close>

record admin_login_command =
  al_username :: string
  al_password :: string

record admin_change_password_command =
  acp_username :: string
  acp_current_password :: string
  acp_new_password :: string

datatype admin_login_outcome =
    AdminLoginSuccess string
  | AdminPasswordChangeRequired string
  | AdminRateLimited
  | AdminInvalidCredentials
  | AdminLocked
  | AdminLoginForbidden
  | AdminWeakPassword
  | AdminInternal string

definition admin_stop :: "direct_stop \<Rightarrow> admin_login_outcome" where
  "admin_stop s = (case s of
     DirectRateLimited \<Rightarrow> AdminRateLimited | DirectInvalid \<Rightarrow> AdminInvalidCredentials
   | DirectLocked \<Rightarrow> AdminLocked | DirectInternal m \<Rightarrow> AdminInternal m)"

definition has_admin ::
  "libs \<Rightarrow> config \<Rightarrow> tenant_id \<Rightarrow> user \<Rightarrow> (world, admin_login_outcome + bool) state" where
  "has_admin E C tenant_id user =
     map_err (admin_stop \<circ> direct_failed)
       (cached_has_any_permission E C tenant_id (u_id user) [tenant_admin, system_admin])"

definition admin_authenticate ::
  "libs \<Rightarrow> config \<Rightarrow> tenant_id \<Rightarrow> admin_login_command \<Rightarrow> request_context \<Rightarrow>
   (world, admin_login_outcome + (instant \<times> user)) state" where
  "admin_authenticate E C tenant_id cmd ctx = do {
     now \<leftarrow> clock_now;
     and_then (map_err admin_stop (direct_rate C tenant_id True now ctx)) (\<lambda>_.
     and_then (map_err admin_stop (direct_user E tenant_id (al_username cmd) now ctx)) (\<lambda>user.
     and_then (map_err admin_stop (direct_password E tenant_id user (al_password cmd) ctx)) (\<lambda>_.
     and_then (has_admin E C tenant_id user) (\<lambda>admin.
     if \<not> admin then do {
       record_failure tenant_id (Some (u_id user)) ''missing_admin_permission'' ctx;
       State_Monad.return (Inl AdminLoginForbidden)
     }
     else
     and_then (require (\<not> u_must_change_password user)
       (AdminPasswordChangeRequired (al_username cmd))) (\<lambda>_.
     and_then (map_err admin_stop (clear_login_state user)) (\<lambda>_.
     State_Monad.return (Inr (now, user))))))))
   }"

definition admin_login ::
  "libs \<Rightarrow> config \<Rightarrow> tenant_id \<Rightarrow> admin_login_command \<Rightarrow> request_context \<Rightarrow> (world, admin_login_outcome) state" where
  "admin_login E C tenant_id cmd ctx =
     direct_finish E C tenant_id (admin_stop \<circ> direct_failed)
       (\<lambda>i user. AdminLoginSuccess i) (admin_authenticate E C tenant_id cmd ctx) ctx"

definition admin_change_authenticate ::
  "libs \<Rightarrow> config \<Rightarrow> tenant_id \<Rightarrow> admin_change_password_command \<Rightarrow> request_context \<Rightarrow>
   (world, admin_login_outcome + (instant \<times> user)) state" where
  "admin_change_authenticate E C tenant_id cmd ctx = do {
     now \<leftarrow> clock_now;
     and_then (map_err admin_stop (direct_rate C tenant_id False now ctx)) (\<lambda>_.
     and_then (map_err admin_stop (changing_user E tenant_id (acp_username cmd) now)) (\<lambda>user.
     and_then (map_err admin_stop (direct_password E tenant_id user (acp_current_password cmd) ctx)) (\<lambda>_.
     and_then (has_admin E C tenant_id user) (\<lambda>admin.
     and_then (require admin AdminLoginForbidden) (\<lambda>_.
     and_then (require (\<not> isl (validate_password_strength (acp_new_password cmd))) AdminWeakPassword) (\<lambda>_.
     and_then (map_err admin_stop (store_password E tenant_id user (acp_new_password cmd) ctx)) (\<lambda>_.
     State_Monad.return (Inr (now, user)))))))))
   }"

definition admin_change_password ::
  "libs \<Rightarrow> config \<Rightarrow> tenant_id \<Rightarrow> admin_change_password_command \<Rightarrow> request_context \<Rightarrow>
   (world, admin_login_outcome) state" where
  "admin_change_password E C tenant_id cmd ctx =
     direct_finish E C tenant_id (admin_stop \<circ> direct_failed)
       (\<lambda>i user. AdminLoginSuccess i) (admin_change_authenticate E C tenant_id cmd ctx) ctx"

definition admin_logout ::
  "libs \<Rightarrow> tenant_id \<Rightarrow> string \<Rightarrow> request_context \<Rightarrow> (world, unit) state" where
  "admin_logout E tenant sso_session_id ctx =
     (if sso_session_id = [] then State_Monad.return ()
      else do {
        let session_hash = sha256_hex E sso_session_id;
        found \<leftarrow> sso_sessions_find_by_hash E session_hash;
        let user_id = (case found of Inr (Some session) \<Rightarrow> Some (ss_user_id session) | _ \<Rightarrow> None);
        r \<leftarrow> sso_sessions_delete E session_hash;
        case r of
          Inl _ \<Rightarrow> State_Monad.return ()
        | Inr _ \<Rightarrow> audit_record SsoSessionTerminated AuditSuccess (Some tenant) user_id None
                     (Some ''admin_logout'') ctx
      })"

section \<open>Tickets\<close>

text \<open>What the portal relies on: how the crates print identifiers and encode bytes.\<close>

definition ticket_codec_ok :: "libs \<Rightarrow> bool" where
  "ticket_codec_ok E \<longleftrightarrow> (\<forall>u. CHR ''.'' \<notin> set (uuid_to_string E u) \<and> uuid_parse E (uuid_to_string E u) = Some u) \<and>
     (\<forall>b. hex_decode E (hex_encode E b) = Some b)"

lemma splitn_append: "c \<notin> set a \<Longrightarrow> splitn (Suc (Suc n)) c (a @ c # s) = a # splitn (Suc n) c s"
proof -
  assume "c \<notin> set a"
  then have "dropWhile (\<lambda>x. x \<noteq> c) (a @ c # s) = c # s" "takeWhile (\<lambda>x. x \<noteq> c) (a @ c # s) = a"
    by (induction a) auto
  then show ?thesis by simp
qed

lemma uuid_to_string_eq: "ticket_codec_ok E \<Longrightarrow> uuid_to_string E t = uuid_to_string E t' \<longleftrightarrow> t = t'"
  unfolding ticket_codec_ok_def by (metis option.inject)

lemma splitn_sign_ticket:
  assumes "ticket_codec_ok E"
  shows "splitn 4 CHR ''.'' (sign_ticket E secret t u exp) =
    [uuid_to_string E t, uuid_to_string E u, show_int exp,
     ticket_signature E secret (uuid_to_string E t) (uuid_to_string E u) exp]"
  using assms show_int_no_dot [of exp] splitn_append [of "CHR ''.''"]
  by (simp add: ticket_codec_ok_def sign_ticket_def numeral_eq_Suc)

text \<open>
  A ticket the portal has signed is accepted for the tenant it was issued for, until it expires, and
  then gives the user it was issued to; it is refused for every other tenant and after that time.
\<close>

lemma verify_sign_ticket:
  assumes "ticket_codec_ok E" and "- (2 ^ 63) \<le> exp" and "exp < 2 ^ 63"
  shows "verify_ticket E secret t' (sign_ticket E secret t u exp) now_ts =
    (if t' = t \<and> now_ts \<le> exp then Some u else None)"
  using assms(1) uuid_to_string_eq [OF assms(1), of t t']
  by (auto simp: verify_ticket_def splitn_sign_ticket parse_i64_show_int [OF assms(2,3)]
      ticket_signature_def ticket_codec_ok_def)

text \<open>
  What a ticket that is accepted must look like: the holder of the secret has authenticated the tenant,
  the user and the expiry that are read from it.
\<close>

lemma verify_ticket_Some:
  assumes "verify_ticket E secret t ticket now_ts = Some u"
  shows "\<exists>user_str exp_str exp sig. splitn 4 CHR ''.'' ticket = [uuid_to_string E t, user_str, exp_str, sig] \<and>
    parse_i64 exp_str = Some exp \<and> now_ts \<le> exp \<and> uuid_parse E user_str = Some u \<and>
    hex_decode E sig = Some (hmac_sha256 E secret (ticket_message (uuid_to_string E t) user_str exp))"
  using assms by (auto simp: verify_ticket_def split: list.splits option.splits if_splits)

section \<open>Reading a run\<close>

lemma issue_sso_Inr:
  assumes "run_state (issue_sso E C tenant user ctx now) w = (Inr sso_id, w')"
  shows "\<exists>row. started_sso E C (u_id user) sso_id now row \<and>
     tables (db w') = tables ((db w)\<lparr>db_sso_sessions := db_sso_sessions (db w) @ [row]\<rparr>)"
  using assms unfolding issue_sso_def
  by (intro exI [of _ "last (db_sso_sessions (db w'))"])
     (auto simp: started_sso_def run_rules tables_eq_iff dest!: sso_sessions_create_Inr run_audit)

definition rate_ok :: "config \<Rightarrow> request_context \<Rightarrow> instant \<Rightarrow> world \<Rightarrow> bool" where
  "rate_ok C ctx now w \<longleftrightarrow> (\<forall>ip. ip_address ctx = Some ip \<longrightarrow>
     fst (limiter_step (rate_max_attempts C) (rate_window C) ip now (attempts w)))"

lemma direct_rate_Inr:
  "run_state (direct_rate C tenant audited now ctx) w = (Inr x, w') \<Longrightarrow>
   (\<exists>a. w' = w\<lparr>attempts := a\<rparr>) \<and> rate_ok C ctx now w"
  by (auto simp: direct_rate_def rate_ok_def run_rules intro: exI [of _ "attempts w"])

lemma rate_ok_tick [simp]: "rate_ok C ctx now (tick w) = rate_ok C ctx now w"
  by (simp add: rate_ok_def)

text \<open>The account under this name may log in, and this is its password.\<close>

definition direct_account :: "libs \<Rightarrow> database \<Rightarrow> tenant_id \<Rightarrow> string \<Rightarrow> string \<Rightarrow> instant \<Rightarrow> user \<Rightarrow> bool" where
  "direct_account E d tenant username password now user \<longleftrightarrow>
     find (\<lambda>u. u_tenant_id u = tenant \<and> has_username E username u) (db_users d) = Some user \<and>
     user_is_active user \<and> \<not> user_is_locked_at user now \<and>
     hasher_verify E password (u_password_hash user) = Inr True"

lemma direct_user_Inr:
  assumes "run_state (direct_user E tenant name now ctx) w = (Inr user, w')"
  shows "find (\<lambda>u. u_tenant_id u = tenant \<and> has_username E name u) (db_users (db w)) = Some user \<and>
     user_is_active user \<and> \<not> user_is_locked_at user now \<and> w' = called w"
  using assms by (auto simp: direct_user_def users_find_by_username_def run_rules)

lemma changing_user_Inr:
  assumes "run_state (changing_user E tenant name now) w = (Inr user, w')"
  shows "find (\<lambda>u. u_tenant_id u = tenant \<and> has_username E name u) (db_users (db w)) = Some user \<and>
     user_is_active user \<and> \<not> user_is_locked_at user now \<and> u_must_change_password user \<and> w' = called w"
  using assms by (auto simp: changing_user_def users_find_by_username_def run_rules)

lemma direct_password_Inr:
  "run_state (direct_password E tenant user p ctx) w = (Inr x, w') \<Longrightarrow>
   hasher_verify E p (u_password_hash user) = Inr True \<and> w' = w"
  by (auto simp: direct_password_def run_rules)

lemma clear_login_state_Inr:
  "run_state (clear_login_state user) w = (Inr x, w') \<Longrightarrow> db w' = after_password user (db w)"
  by (auto simp: clear_login_state_def after_password_def users_update_login_state_def update_user_def
      update_where_def clear_failures_def run_rules)

text \<open>How an operation that logs in ends; a statement that fails may still have been applied.\<close>

definition sso_added :: "libs \<Rightarrow> config \<Rightarrow> uuid \<Rightarrow> instant \<Rightarrow> database \<Rightarrow> database \<Rightarrow> bool" where
  "sso_added E C uid now d d' \<longleftrightarrow> db_sso_sessions d' = db_sso_sessions d \<or>
     (\<exists>sso_id row. started_sso E C uid sso_id now row \<and> db_sso_sessions d' = db_sso_sessions d @ [row])"

lemma sso_sessions_create_Inl:
  assumes "run_state (sso_sessions_create E s) w = (Inl e, w')"
  shows "db w' = db w \<or> (\<exists>created. db w' = (db w)\<lparr>db_sso_sessions := db_sso_sessions (db w) @
     [s\<lparr>ss_auth_time := micros (ss_auth_time s), ss_idle_expires_at := micros (ss_idle_expires_at s),
        ss_absolute_expires_at := micros (ss_absolute_expires_at s), ss_created_at := created,
        ss_updated_at := created\<rparr>]\<rparr>)"
  using assms
  by (auto simp: sso_sessions_create_def db_call_def insert_row_def Let_def
      split: if_splits prod.splits option.splits)

lemma issue_sso_Inl:
  assumes "run_state (issue_sso E C tenant user ctx now) w = (Inl e, w')"
  shows "sso_added E C (u_id user) now (db w) (db w')"
proof -
  from assms obtain n b w1 where r: "run_state (random_hex E 32) w = (b, w1)"
    and c: "run_state (sso_sessions_create E
       \<lparr>ss_session_hash = sha256_hex E b, ss_user_id = u_id user, ss_auth_time = now,
        ss_idle_expires_at = now + sso_idle_ttl C,
        ss_absolute_expires_at = now + sso_absolute_ttl C, ss_user_agent = user_agent ctx,
        ss_ip_address = ip_address ctx, ss_created_at = now, ss_updated_at = now\<rparr>) w1 = (Inl e, w')"
    by (auto simp: issue_sso_def run_rules)
  from alwaysD [OF frame_random(2) [where T = "\<lambda>d. d"] r] have w1: "db w1 = db w" by (simp add: frame_def)
  from sso_sessions_create_Inl [OF c] show ?thesis
    unfolding sso_added_def w1 by (auto simp: started_sso_def intro!: exI [of _ b])
qed

lemma frame_issue_sso:
  assumes "\<And>d x. T (d\<lparr>db_sso_sessions := x\<rparr>) = T d" "\<And>d x. T (d\<lparr>db_audit_log := x\<rparr>) = T d"
  shows "always (frame T) (issue_sso E C tenant user ctx now)"
  unfolding issue_sso_def by (intro frame.always_rules frame_ops frame_sso_sessions frame_audit assms)

lemma run_direct_finish:
  assumes "run_state (direct_finish E C tenant failed success auth ctx) w = (out, w')"
  obtains (stopped) "run_state auth w = (Inl out, w')"
  | (failed) now user w1 e where "run_state auth w = (Inr (now, user), w1)" "out = failed e"
      "sso_added E C (u_id user) now (db w1) (db w')"
  | (success) now user w1 sso_id row where "run_state auth w = (Inr (now, user), w1)"
      "out = success sso_id user" "started_sso E C (u_id user) sso_id now row"
      "tables (db w') = tables ((db w1)\<lparr>db_sso_sessions := db_sso_sessions (db w1) @ [row]\<rparr>)"
  using assms unfolding direct_finish_def
  by (auto simp: run_rules dest!: issue_sso_Inl issue_sso_Inr)

text \<open>Up to the new session nothing but the users, the audit log and the limiter's record changes.\<close>

lemma frame_direct_steps:
  assumes "\<And>d x. T (d\<lparr>db_users := x\<rparr>) = T d" "\<And>d x. T (d\<lparr>db_audit_log := x\<rparr>) = T d"
  shows "always (frame T) (direct_rate C tenant audited now ctx)"
    "always (frame T) (direct_user E tenant name now ctx)" "always (frame T) (changing_user E tenant name now)"
    "always (frame T) (direct_password E tenant user p ctx)" "always (frame T) (clear_login_state user)"
    "always (frame T) (record_failure tenant uid reason ctx)" "always (frame T) (store_password E tenant user p ctx)"
    "always (frame T) (user_has_confirmed_totp i)"
  unfolding direct_rate_def direct_user_def changing_user_def direct_password_def clear_login_state_def
    record_failure_def store_password_def direct_password_failure_def user_has_confirmed_totp_def update_wrappers
  by (intro frame.always_rules frame_ops frame_audit frame_users frame_check_and_record assms)+

lemma frame_authenticates:
  assumes "\<And>d x. T (d\<lparr>db_users := x\<rparr>) = T d" "\<And>d x. T (d\<lparr>db_audit_log := x\<rparr>) = T d"
  shows "always (frame T) (portal_authenticate E C tenant cmd ctx)"
    "always (frame T) (portal_change_authenticate E C tenant cmd' ctx)"
    "always (frame T) (portal_mfa_authenticate E C tenant mcmd ctx)"
    "always (frame T) (admin_authenticate E C tenant acmd ctx)"
    "always (frame T) (admin_change_authenticate E C tenant acmd' ctx)"
  unfolding portal_authenticate_def portal_change_authenticate_def portal_mfa_authenticate_def
    admin_authenticate_def admin_change_authenticate_def has_admin_def
  by (intro frame.always_rules frame_direct_steps frame_ops frame_verify_totp_code
      frame_cached_has_any_permission assms)+

lemma portal_authenticate_Inr:
  assumes "run_state (portal_authenticate E C tenant cmd ctx) w = (Inr (now, user), w')"
  shows "now = clock_src w (ticks w) \<and> rate_ok C ctx now w \<and>
     direct_account E (db w) tenant (pl_username cmd) (pl_password cmd) now user \<and> gates_open (db w) user"
  using assms unfolding portal_authenticate_def
  by (clarsimp simp: run_rules dest!: direct_rate_Inr direct_user_Inr direct_password_Inr
        clear_login_state_Inr user_has_confirmed_totp_Inr)
     (auto simp: direct_account_def gates_open_def confirmed_totp_def rate_ok_def after_password_def)

lemma portal_stop_neq [simp]:
  "PortalMfaRequired t \<noteq> portal_stop x" "portal_stop x \<noteq> PortalMfaRequired t"
  "PortalSuccess i l \<noteq> portal_stop x" "portal_stop x \<noteq> PortalSuccess i l"
  by (auto simp: portal_stop_def split: direct_stop.splits)

lemma portal_authenticate_Mfa:
  assumes "run_state (portal_authenticate E C tenant cmd ctx) w = (Inl (PortalMfaRequired ticket), w')"
  shows "\<exists>user. rate_ok C ctx (clock_src w (ticks w)) w \<and>
     direct_account E (db w) tenant (pl_username cmd) (pl_password cmd) (clock_src w (ticks w)) user \<and>
     u_email_verified user \<and> \<not> u_must_change_password user \<and> confirmed_totp (db w) (u_id user) \<and>
     ticket = issue_ticket E C tenant (u_id user) (clock_src w (ticks w))"
  using assms unfolding portal_authenticate_def
  by (clarsimp simp: run_rules dest!: direct_rate_Inr direct_user_Inr direct_password_Inr
        clear_login_state_Inr user_has_confirmed_totp_Inr)
     (auto simp: direct_account_def confirmed_totp_def rate_ok_def after_password_def)

lemma portal_authenticate_not_Success:
  "run_state (portal_authenticate E C tenant cmd ctx) w \<noteq> (Inl (PortalSuccess i l), w')"
  by (auto simp: portal_authenticate_def run_rules)

lemma portal_mfa_authenticate_Inr:
  assumes "run_state (portal_mfa_authenticate E C tenant cmd ctx) w = (Inr (now, user), w')"
  shows "now = clock_src w (ticks w) \<and> rate_ok C ctx now w \<and> db w' = db w \<and>
     verify_ticket E (csrf_secret C) tenant (pm_mfa_ticket cmd) (timestamp now) = Some (u_id user) \<and>
     user \<in> set (db_users (db w)) \<and> user_is_active user \<and> \<not> user_is_locked_at user now \<and>
     (\<exists>s now'. find (\<lambda>t. ts_user_id t = u_id user) (db_totp_secrets (db w)) = Some s \<and>
        totp_is_confirmed s \<and> totp_code_ok E C s (pm_totp_code cmd) now')"
  using assms unfolding portal_mfa_authenticate_def
  by (clarsimp simp: run_rules totp_secrets_find_by_user_id_def
        dest!: direct_rate_Inr users_find_by_id_Some verify_totp_code_True)
     (auto simp: totp_code_ok_def rate_ok_def)

lemma portal_login_Mfa:
  assumes "run_state (portal_login E C tenant cmd ctx) w = (PortalMfaRequired ticket, w')"
  shows "\<exists>user. direct_account E (db w) tenant (pl_username cmd) (pl_password cmd) (clock_src w (ticks w)) user \<and>
    ticket = issue_ticket E C tenant (u_id user) (clock_src w (ticks w))"
  using assms [unfolded portal_login_def]
  by (cases rule: run_direct_finish) (auto dest: portal_authenticate_Mfa)

lemma portal_mfa_authenticate_not_Success:
  "run_state (portal_mfa_authenticate E C tenant cmd ctx) w \<noteq> (Inl (PortalMfaSuccess i l), w')"
  by (auto simp: portal_mfa_authenticate_def portal_mfa_stop_def run_rules)

lemma portal_mfa_Success:
  assumes "run_state (portal_verify_mfa E C tenant cmd ctx) w = (PortalMfaSuccess sso_id lang, w')"
  obtains now user w1 row where
    "run_state (portal_mfa_authenticate E C tenant cmd ctx) w = (Inr (now, user), w1)"
    "started_sso E C (u_id user) sso_id now row"
    "tables (db w') = tables ((db w1)\<lparr>db_sso_sessions := db_sso_sessions (db w1) @ [row]\<rparr>)"
  using assms [unfolded portal_verify_mfa_def]
  by (cases rule: run_direct_finish)
     (auto simp: portal_mfa_stop_def dest: portal_mfa_authenticate_not_Success [THEN notE])

section \<open>Properties\<close>

text \<open>
  C20. The portal starts an SSO session only for an active, unlocked account of the tenant whose password
  was given within the rate limit, with a verified email, no forced password change and no second
  factor; whatever the answer and whatever fails, no other session and no code appears. A user with a
  second factor gets, for the right password, only a ticket that names tenant and user.
\<close>

theorem portal_login_sound:
  assumes "run_state (portal_login E C tenant cmd ctx) w = (out, w')"
  shows "db_codes (db w') = db_codes (db w) \<and>
    (case out of
       PortalSuccess sso_id lang \<Rightarrow> \<exists>user row.
         rate_ok C ctx (clock_src w (ticks w)) w \<and>
         direct_account E (db w) tenant (pl_username cmd) (pl_password cmd) (clock_src w (ticks w)) user \<and>
         gates_open (db w) user \<and> lang = u_language user \<and>
         started_sso E C (u_id user) sso_id (clock_src w (ticks w)) row \<and>
         db_sso_sessions (db w') = db_sso_sessions (db w) @ [row]
     | PortalMfaRequired ticket \<Rightarrow> (\<exists>user.
         direct_account E (db w) tenant (pl_username cmd) (pl_password cmd) (clock_src w (ticks w)) user \<and>
         confirmed_totp (db w) (u_id user) \<and>
         ticket = issue_ticket E C tenant (u_id user) (clock_src w (ticks w))) \<and>
         db_sso_sessions (db w') = db_sso_sessions (db w)
     | PortalInternal m \<Rightarrow> db_sso_sessions (db w') = db_sso_sessions (db w) \<or> (\<exists>user.
         direct_account E (db w) tenant (pl_username cmd) (pl_password cmd) (clock_src w (ticks w)) user \<and>
         gates_open (db w) user \<and> sso_added E C (u_id user) (clock_src w (ticks w)) (db w) (db w'))
     | _ \<Rightarrow> db_sso_sessions (db w') = db_sso_sessions (db w))"
proof -
  have codes: "frame db_codes w w'"
    using assms unfolding portal_login_def direct_finish_def
    by (elim alwaysD [rotated]) (intro frame.always_rules frame_authenticates frame_issue_sso; simp)
  have auth: "frame db_sso_sessions w v" if "run_state (portal_authenticate E C tenant cmd ctx) w = (r, v)" for r v
    by (rule alwaysD [OF frame_authenticates(1) that]) simp_all
  from assms [unfolded portal_login_def] show ?thesis
  proof (cases rule: run_direct_finish)
    case stopped
    with auth codes show ?thesis
      by (auto simp: frame_def split: portal_login_outcome.splits
          dest!: portal_authenticate_Mfa dest: portal_authenticate_not_Success [THEN notE])
  next
    case (failed now user w1 e)
    with auth codes portal_authenticate_Inr [OF failed(1)] show ?thesis
      by (auto simp: frame_def sso_added_def direct_failed_def portal_stop_def split: portal_login_outcome.splits)
  next
    case (success now user w1 sso_id row)
    with auth codes portal_authenticate_Inr [OF success(1)] show ?thesis
      by (auto simp: frame_def tables_eq_iff)
  qed
qed

definition sample_portal :: portal_login_command where
  "sample_portal = \<lparr>pl_username = ''alice'', pl_password = ''secret''\<rparr>"

definition portal_run :: "portal_login_outcome \<times> world" where
  "portal_run = run_state (portal_login sample_libs sample_config 1 sample_portal sample_ctx) sample_world"

theorem portal_login_sound_witness:
  "(\<exists>i. fst portal_run = PortalSuccess i None) \<and>
   (\<exists>user row. gates_open (db sample_world) user \<and>
      db_sso_sessions (db (snd portal_run)) = db_sso_sessions (db sample_world) @ [row])"
proof -
  have "case fst portal_run of PortalSuccess i l \<Rightarrow> l = None | _ \<Rightarrow> False" by code_simp
  then obtain i where i: "fst portal_run = PortalSuccess i None" by (cases "fst portal_run") auto
  from portal_login_sound [OF run_fstI [OF i [unfolded portal_run_def]]] i show ?thesis
    by (auto simp: portal_run_def)
qed

text \<open>
  C19. The two steps of a portal login belong together. Suppose a login was answered with a ticket, and
  later, in any world, the second step succeeds with that ticket. Then it is the same tenant, not
  more than \<open>MFA_TICKET_TTL_SECS\<close> seconds have passed, and the session is for the very user
  whose password the first step checked, still active and not locked, with a valid one-time code for the
  confirmed secret.
\<close>

theorem portal_two_factor:
  assumes "ticket_codec_ok E" and "timestamp (clock_src w (ticks w)) + MFA_TICKET_TTL_SECS \<in> {- (2 ^ 63) ..< 2 ^ 63}"
    and "run_state (portal_login E C tenant cmd ctx) w = (PortalMfaRequired (pm_mfa_ticket mcmd), w1)"
    and "run_state (portal_verify_mfa E C tenant' mcmd ctx') w2 = (PortalMfaSuccess sso_id lang, w3)"
  shows "tenant' = tenant \<and>
    timestamp (clock_src w2 (ticks w2)) \<le> timestamp (clock_src w (ticks w)) + MFA_TICKET_TTL_SECS \<and>
    (\<exists>user user' row s now'.
       direct_account E (db w) tenant (pl_username cmd) (pl_password cmd) (clock_src w (ticks w)) user \<and>
       user' \<in> set (db_users (db w2)) \<and> u_id user' = u_id user \<and> user_is_active user' \<and>
       \<not> user_is_locked_at user' (clock_src w2 (ticks w2)) \<and>
       find (\<lambda>t. ts_user_id t = u_id user) (db_totp_secrets (db w2)) = Some s \<and> totp_is_confirmed s \<and>
       totp_code_ok E C s (pm_totp_code mcmd) now' \<and>
       started_sso E C (u_id user) sso_id (clock_src w2 (ticks w2)) row \<and>
       db_sso_sessions (db w3) = db_sso_sessions (db w2) @ [row])"
proof -
  from portal_login_Mfa [OF assms(3)] obtain user where user:
      "direct_account E (db w) tenant (pl_username cmd) (pl_password cmd) (clock_src w (ticks w)) user"
      "pm_mfa_ticket mcmd = issue_ticket E C tenant (u_id user) (clock_src w (ticks w))" by blast
  from assms(4) obtain now user' w1' row where
      auth: "run_state (portal_mfa_authenticate E C tenant' mcmd ctx') w2 = (Inr (now, user'), w1')"
    and row: "started_sso E C (u_id user') sso_id now row"
      "tables (db w3) = tables ((db w1')\<lparr>db_sso_sessions := db_sso_sessions (db w1') @ [row]\<rparr>)"
    by (rule portal_mfa_Success)
  note second = portal_mfa_authenticate_Inr [OF auth]
  have "verify_ticket E (csrf_secret C) tenant' (pm_mfa_ticket mcmd) (timestamp now) =
     (if tenant' = tenant \<and> timestamp now \<le> timestamp (clock_src w (ticks w)) + MFA_TICKET_TTL_SECS
      then Some (u_id user) else None)"
    unfolding user(2) issue_ticket_def by (rule verify_sign_ticket) (use assms(1,2) in auto)
  with second have same: "tenant' = tenant" "u_id user' = u_id user"
      "timestamp now \<le> timestamp (clock_src w (ticks w)) + MFA_TICKET_TTL_SECS" by (auto split: if_splits)
  with user(1) second row show ?thesis
    by (intro conjI exI [of _ user] exI [of _ user'] exI [of _ row]) (auto simp: tables_eq_iff)
qed

definition mfa_portal_run :: "portal_login_outcome \<times> world" where
  "mfa_portal_run = run_state (portal_login sample_libs sample_config 1 sample_portal sample_ctx) sample_mfa_world"

definition sample_ticket :: portal_mfa_command where
  "sample_ticket = \<lparr>pm_mfa_ticket = ''u.uu.1300.kportal-mfa:u:uu:1300'', pm_totp_code = ''123456''\<rparr>"

definition mfa_second_run :: "portal_mfa_outcome \<times> world" where
  "mfa_second_run =
     run_state (portal_verify_mfa sample_libs sample_config 1 sample_ticket sample_ctx) (snd mfa_portal_run)"

lemma sample_ticket_codec: "ticket_codec_ok sample_libs"
  by (auto simp: ticket_codec_ok_def sample_libs_def list_all_iff)

theorem portal_two_factor_witness:
  "fst mfa_portal_run = PortalMfaRequired (pm_mfa_ticket sample_ticket) \<and>
   (\<exists>i. fst mfa_second_run = PortalMfaSuccess i None) \<and>
   timestamp (clock_src (snd mfa_portal_run) (ticks (snd mfa_portal_run))) \<le> 1300 \<and>
   (\<exists>row. ss_user_id row = 2 \<and>
      db_sso_sessions (db (snd mfa_second_run)) = db_sso_sessions (db (snd mfa_portal_run)) @ [row])"
proof -
  have 1: "fst mfa_portal_run = PortalMfaRequired (pm_mfa_ticket sample_ticket)" by code_simp
  have "case fst mfa_second_run of PortalMfaSuccess i l \<Rightarrow> l = None | _ \<Rightarrow> False" by code_simp
  then obtain i where 2: "fst mfa_second_run = PortalMfaSuccess i None" by (cases "fst mfa_second_run") auto
  have now: "timestamp (clock_src sample_mfa_world (ticks sample_mfa_world)) + MFA_TICKET_TTL_SECS = 1300"
    by code_simp
  have "find (\<lambda>u. u_tenant_id u = 1 \<and> has_username sample_libs (pl_username sample_portal) u)
      (db_users (db sample_mfa_world)) = Some sample_user" by code_simp
  then have user: "direct_account sample_libs (db sample_mfa_world) 1 (pl_username sample_portal) p t u \<Longrightarrow> u_id u = 2"
    for p t u by (auto simp: direct_account_def sample_user_def)
  have "timestamp (clock_src sample_mfa_world (ticks sample_mfa_world)) + MFA_TICKET_TTL_SECS \<in> {- (2 ^ 63) ..< 2 ^ 63}"
    unfolding now by simp
  note two = portal_two_factor [OF sample_ticket_codec this run_fstI [OF 1 [unfolded mfa_portal_run_def]]
      run_fstI [OF 2 [unfolded mfa_second_run_def]], unfolded now, folded mfa_portal_run_def, folded mfa_second_run_def]
  from two [THEN conjunct2, THEN conjunct2] obtain u row where
      u: "direct_account sample_libs (db sample_mfa_world) 1 (pl_username sample_portal) (pl_password sample_portal)
        (clock_src sample_mfa_world (ticks sample_mfa_world)) u"
    and row: "started_sso sample_libs sample_config (u_id u) i
        (clock_src (snd mfa_portal_run) (ticks (snd mfa_portal_run))) row"
      "db_sso_sessions (db (snd mfa_second_run)) = db_sso_sessions (db (snd mfa_portal_run)) @ [row]"
    by (elim exE conjE)
  have "ss_user_id row = 2" using row(1) user [OF u] by (simp add: started_sso_def)
  with 1 2 two [THEN conjunct2, THEN conjunct1] row(2) show ?thesis by blast
qed

section \<open>Administrators\<close>

lemma recently_held_steps [simp]: "recently_held (w\<lparr>attempts := a\<rparr>) k = recently_held w k"
  by (simp add: recently_held_def)

lemma recently_held_later:
  "recently_held (tick w) k \<Longrightarrow> recently_held w k" "recently_held (called w) k \<Longrightarrow> recently_held w k"
  by (auto simp: recently_held_def tick_def called_def dest: Suc_leD)

lemma has_admin_True:
  assumes "run_state (has_admin E C tenant user) w = (Inr True, w')"
  shows "db w' = db w \<and> (\<exists>code \<in> {tenant_admin, system_admin}.
     holds_permission E (db w) tenant (u_id user) code \<or> recently_held w (tenant, u_id user, code))"
proof -
  have "distinct [tenant_admin, system_admin]" by code_simp
  moreover from assms have "run_state (cached_has_any_permission E C tenant (u_id user)
      [tenant_admin, system_admin]) w = (Inr True, w')" by (simp only: has_admin_def run_map_err_Inr)
  ultimately have "db w' = db w \<and> (\<exists>code \<in> set [tenant_admin, system_admin].
      holds_permission E (db w) tenant (u_id user) code \<or> recently_held w (tenant, u_id user, code))"
    by (rule cached_has_any_permission_True [rotated])
  then show ?thesis by simp
qed

definition administers :: "libs \<Rightarrow> world \<Rightarrow> tenant_id \<Rightarrow> user \<Rightarrow> bool" where
  "administers E w tenant user \<longleftrightarrow> (\<exists>code \<in> {tenant_admin, system_admin}.
     holds_permission E (db w) tenant (u_id user) code \<or> recently_held w (tenant, u_id user, code))"

lemma admin_authenticate_Inr:
  assumes "run_state (admin_authenticate E C tenant cmd ctx) w = (Inr (now, user), w')"
  shows "now = clock_src w (ticks w) \<and> rate_ok C ctx now w \<and>
     direct_account E (db w) tenant (al_username cmd) (al_password cmd) now user \<and>
     \<not> u_must_change_password user \<and> administers E w tenant user"
  using assms unfolding admin_authenticate_def
  by (clarsimp simp: run_rules dest!: direct_rate_Inr direct_user_Inr direct_password_Inr has_admin_True
        clear_login_state_Inr)
     (auto simp: direct_account_def administers_def dest!: recently_held_later)

lemma admin_authenticate_not_Success:
  "run_state (admin_authenticate E C tenant cmd ctx) w \<noteq> (Inl (AdminLoginSuccess i), w')"
  by (auto simp: admin_authenticate_def has_admin_def admin_stop_def run_rules split: direct_stop.splits)

text \<open>
  The administration login starts an SSO session only for an active, unlocked account of the tenant
  whose password was given within the rate limit, which need not change it, and which administers this
  tenant: it holds the permission of tenant or system administrators in its scope, in the table or in
  an unexpired entry of the permission cache. Whatever the answer, no code and no other session appears.
\<close>

theorem admin_login_sound:
  assumes "run_state (admin_login E C tenant cmd ctx) w = (out, w')"
  shows "db_codes (db w') = db_codes (db w) \<and>
    (db_sso_sessions (db w') = db_sso_sessions (db w) \<and> (\<nexists>sso_id. out = AdminLoginSuccess sso_id) \<or>
     (\<exists>user. rate_ok C ctx (clock_src w (ticks w)) w \<and>
        direct_account E (db w) tenant (al_username cmd) (al_password cmd) (clock_src w (ticks w)) user \<and>
        \<not> u_must_change_password user \<and> administers E w tenant user \<and>
        sso_added E C (u_id user) (clock_src w (ticks w)) (db w) (db w')))"
proof -
  have codes: "frame db_codes w w'"
    using assms unfolding admin_login_def direct_finish_def
    by (elim alwaysD [rotated]) (intro frame.always_rules frame_authenticates frame_issue_sso; simp)
  have auth: "frame db_sso_sessions w v" if "run_state (admin_authenticate E C tenant cmd ctx) w = (r, v)" for r v
    by (rule alwaysD [OF frame_authenticates(4) that]) simp_all
  from assms [unfolded admin_login_def] show ?thesis
  proof (cases rule: run_direct_finish)
    case stopped
    with auth [OF stopped] codes admin_authenticate_not_Success show ?thesis by (force simp: frame_def)
  next
    case (failed now user w1 e)
    with auth [OF failed(1)] codes admin_authenticate_Inr [OF failed(1)] show ?thesis
      by (auto simp: frame_def sso_added_def)
  next
    case (success now user w1 sso_id row)
    with auth [OF success(1)] codes admin_authenticate_Inr [OF success(1)] show ?thesis
      by (auto simp: frame_def sso_added_def tables_eq_iff)
  qed
qed

definition admin_run :: "world \<Rightarrow> admin_login_outcome \<times> world" where
  "admin_run = run_state (admin_login sample_libs sample_config 1
     \<lparr>al_username = ''alice'', al_password = ''secret''\<rparr> sample_ctx)"

theorem admin_login_sound_witness:
  "(\<exists>i. fst (admin_run sample_world) = AdminLoginSuccess i) \<and>
   (\<exists>user. administers sample_libs sample_world 1 user \<and> \<not> u_must_change_password user)"
proof -
  have "case fst (admin_run sample_world) of AdminLoginSuccess i \<Rightarrow> True | _ \<Rightarrow> False" by code_simp
  then obtain i where i: "fst (admin_run sample_world) = AdminLoginSuccess i"
    by (cases "fst (admin_run sample_world)") auto
  from admin_login_sound [OF run_fstI [OF i [unfolded admin_run_def]]] i show ?thesis by blast
qed

text \<open>
  The other gates of the login are missing here: an administrator with a confirmed second factor gets,
  for the password alone, an SSO session, and this session serves the authorization endpoint and the
  portal like any other.
\<close>

lemma admin_login_without_second_factor:
  "confirmed_totp (db sample_mfa_world) 2"
  "case fst (admin_run sample_mfa_world) of AdminLoginSuccess i \<Rightarrow> True | _ \<Rightarrow> False"
  "map ss_user_id (db_sso_sessions (db (snd (admin_run sample_mfa_world)))) = [2, 2]"
  by code_simp+

end
