(* ===== verification/Account.thy ===== *)
theory Account
  imports PasswordReset Permissions
begin

text \<open>
  The self-service of a signed-in user: language (\<^verbatim>\<open>application/account_language.rs\<close>), display name
  (\<^verbatim>\<open>application/account_profile.rs\<close>), the list of the user's tenants
  (\<^verbatim>\<open>application/account_tenants.rs\<close>) and the password (\<^verbatim>\<open>application/account_password.rs\<close>). The user is the
  one of the SSO session that the cookie names.
\<close>

section \<open>Model\<close>

text \<open>The session of the cookie, if it is valid now; the first step of every operation.\<close>

definition account_session ::
  "libs \<Rightarrow> string \<Rightarrow> instant \<Rightarrow> (world, domain_error + sso_session option) state" where
  "account_session E sso_session_id now =
     and_then (sso_sessions_find_by_hash E (sha256_hex E sso_session_id)) (\<lambda>found.
     State_Monad.return (Inr (case found of
       Some s \<Rightarrow> if sso_is_valid_at s now then Some s else None
     | None \<Rightarrow> None)))"

subsection \<open>Language\<close>

record update_language_command =
  ul_sso_session_id :: string
  ul_language :: string

datatype update_language_outcome =
    LanguageOk
  | LanguageSessionExpired
  | InvalidLanguage
  | LanguageInternal string

definition update_language ::
  "libs \<Rightarrow> update_language_command \<Rightarrow> (world, update_language_outcome) state" where
  "update_language E cmd =
     (let lang = trim (ul_language cmd) in
      if lang \<notin> {''ja'', ''en''} then State_Monad.return InvalidLanguage
      else do {
        now \<leftarrow> clock_now;
        session \<leftarrow> account_session E (ul_sso_session_id cmd) now;
        case session of
          Inl e \<Rightarrow> State_Monad.return (LanguageInternal (domain_error_to_string e))
        | Inr None \<Rightarrow> State_Monad.return LanguageSessionExpired
        | Inr (Some s) \<Rightarrow> do {
            r \<leftarrow> users_update_language (ss_user_id s) (Some lang);
            State_Monad.return (case r of
              Inl e \<Rightarrow> LanguageInternal (domain_error_to_string e)
            | Inr _ \<Rightarrow> LanguageOk)
          }
      })"

subsection \<open>Profile\<close>

datatype profile_outcome =
    ProfileOk "string option" "string option" string
  | ProfileSessionExpired
  | ProfileInternal string

record update_name_command =
  un_sso_session_id :: string
  un_name :: "string option"

datatype update_name_outcome =
    NameOk
  | NameSessionExpired
  | NameInvalid
  | NameInternal string

definition resolve_active_user :: "libs \<Rightarrow> string \<Rightarrow> (world, string + user option) state" where
  "resolve_active_user E sso_session_id = do {
     now \<leftarrow> clock_now;
     map_err domain_error_to_string
       (and_then (account_session E sso_session_id now) (\<lambda>session.
        case session of
          None \<Rightarrow> State_Monad.return (Inr None)
        | Some s \<Rightarrow>
            and_then (users_find_by_id (ss_user_id s)) (\<lambda>found.
            State_Monad.return (Inr (case found of
              Some user \<Rightarrow> if user_is_active user then Some user else None
            | None \<Rightarrow> None)))))
   }"

definition profile_get :: "libs \<Rightarrow> string \<Rightarrow> (world, profile_outcome) state" where
  "profile_get E sso_session_id = do {
     r \<leftarrow> resolve_active_user E sso_session_id;
     State_Monad.return (case r of
       Inr (Some user) \<Rightarrow> ProfileOk (u_name user) (u_preferred_username user) (u_email user)
     | Inr None \<Rightarrow> ProfileSessionExpired
     | Inl e \<Rightarrow> ProfileInternal e)
   }"

definition update_name :: "libs \<Rightarrow> update_name_command \<Rightarrow> (world, update_name_outcome) state" where
  "update_name E cmd =
     (let normalized = non_empty (map_option trim (un_name cmd)) in
      if (case normalized of Some name \<Rightarrow> isl (validate_display_name name) | None \<Rightarrow> False)
      then State_Monad.return NameInvalid
      else do {
        r \<leftarrow> resolve_active_user E (un_sso_session_id cmd);
        case r of
          Inl e \<Rightarrow> State_Monad.return (NameInternal e)
        | Inr None \<Rightarrow> State_Monad.return NameSessionExpired
        | Inr (Some user) \<Rightarrow> do {
            r \<leftarrow> users_update_name (u_id user) normalized;
            State_Monad.return (case r of
              Inl e \<Rightarrow> NameInternal (domain_error_to_string e)
            | Inr _ \<Rightarrow> NameOk)
          }
      })"

subsection \<open>Tenants\<close>

record account_tenant =
  at_tenant_id :: string
  at_name :: string
  at_membership_type :: string

datatype list_tenants_outcome =
    TenantsOk "account_tenant list"
  | TenantsSessionExpired
  | TenantsInternal string

text \<open>The loop over the memberships.\<close>

fun resolve_tenants ::
  "libs \<Rightarrow> tenant_membership list \<Rightarrow> (world, domain_error + account_tenant list) state" where
  "resolve_tenants E [] = State_Monad.return (Inr [])"
| "resolve_tenants E (m # ms) =
     and_then (tenants_find_by_id (tm_tenant_id m)) (\<lambda>found.
     and_then (resolve_tenants E ms) (\<lambda>rest.
     State_Monad.return (Inr (case found of
       Some tenant \<Rightarrow>
         if tenant_is_active tenant
         then \<lparr>at_tenant_id = uuid_to_string E (t_id tenant), at_name = t_name tenant,
               at_membership_type = membership_type_as_str (tm_membership_type m)\<rparr> # rest
         else rest
     | None \<Rightarrow> rest))))"

definition list_tenants :: "libs \<Rightarrow> string \<Rightarrow> (world, list_tenants_outcome) state" where
  "list_tenants E sso_session_id = do {
     now \<leftarrow> clock_now;
     r \<leftarrow> and_then (account_session E sso_session_id now) (\<lambda>session.
       case session of
         None \<Rightarrow> State_Monad.return (Inr None)
       | Some s \<Rightarrow>
           and_then (memberships_list_active_for_user (ss_user_id s)) (\<lambda>memberships.
           and_then (resolve_tenants E memberships) (\<lambda>result.
           State_Monad.return (Inr (Some result)))));
     State_Monad.return (case r of
       Inl e \<Rightarrow> TenantsInternal (domain_error_to_string e)
     | Inr None \<Rightarrow> TenantsSessionExpired
     | Inr (Some result) \<Rightarrow> TenantsOk result)
   }"

subsection \<open>Password\<close>

record account_password_command =
  ap_sso_session_id :: string
  ap_current_password :: string
  ap_new_password :: string

datatype account_password_outcome =
    PasswordOk
  | PasswordSessionExpired
  | PasswordInvalidCurrent
  | PasswordWeak
  | PasswordInternal string

definition password_failed :: "domain_error \<Rightarrow> account_password_outcome" where
  "password_failed e = PasswordInternal (domain_error_to_string e)"

definition password_steps ::
  "libs \<Rightarrow> account_password_command \<Rightarrow> request_context \<Rightarrow> (world, account_password_outcome + unit) state" where
  "password_steps E cmd ctx = do {
     now \<leftarrow> clock_now;
     and_then (map_err password_failed (account_session E (ap_sso_session_id cmd) now)) (\<lambda>session.
     case session of
       None \<Rightarrow> State_Monad.return (Inl PasswordSessionExpired)
     | Some s \<Rightarrow>
         and_then (map_err password_failed (users_find_by_id (ss_user_id s))) (\<lambda>found.
         case found of
           None \<Rightarrow> State_Monad.return (Inl PasswordSessionExpired)
         | Some user \<Rightarrow>
             and_then (require (user_is_active user) PasswordSessionExpired) (\<lambda>_.
             case hasher_verify E (ap_current_password cmd) (u_password_hash user) of
               Inl e \<Rightarrow> State_Monad.return (Inl (password_failed e))
             | Inr verified \<Rightarrow>
                 and_then (require verified PasswordInvalidCurrent) (\<lambda>_.
                 and_then (require (\<not> isl (validate_password_strength (ap_new_password cmd))) PasswordWeak) (\<lambda>_.
                 and_then (map_err password_failed (hasher_hash E (ap_new_password cmd))) (\<lambda>new_hash.
                 and_then (map_err password_failed (users_update_password (u_id user) new_hash)) (\<lambda>_. do {
                 audit_record PasswordChanged AuditSuccess (Some (u_tenant_id user)) (Some (u_id user)) None None ctx;
                 State_Monad.return (Inr ()) })))))))
   }"

definition account_password ::
  "libs \<Rightarrow> account_password_command \<Rightarrow> request_context \<Rightarrow> (world, account_password_outcome) state" where
  "account_password E cmd ctx = do {
     r \<leftarrow> password_steps E cmd ctx;
     State_Monad.return (case r of Inl out \<Rightarrow> out | Inr _ \<Rightarrow> PasswordOk)
   }"

section \<open>Reading a run\<close>

text \<open>A user who has a session under the cookie that is valid at some reading of the clock from now on.\<close>

definition session_owner :: "libs \<Rightarrow> string \<Rightarrow> world \<Rightarrow> uuid \<Rightarrow> bool" where
  "session_owner E sid w i \<longleftrightarrow>
     (\<exists>s \<in> set (db_sso_sessions (db w)). db_eq E (ss_session_hash s) (sha256_hex E sid) \<and> ss_user_id s = i \<and>
        (\<exists>n \<ge> ticks w. sso_is_valid_at s (clock_src w n)))"

lemma account_session_Inr:
  assumes "run_state (account_session E sid now) w = (Inr r, w')"
  shows "w' = called w"
    "r = Some s \<Longrightarrow> s \<in> set (db_sso_sessions (db w)) \<and> db_eq E (ss_session_hash s) (sha256_hex E sid) \<and> sso_is_valid_at s now"
  using assms
  by (auto simp: account_session_def sso_sessions_find_by_hash_def run_rules split: if_splits dest: find_SomeD)

lemma account_session_Inl: "run_state (account_session E sid now) w = (Inl e, w') \<Longrightarrow> w' = called w"
  by (auto simp: account_session_def sso_sessions_find_by_hash_def run_rules)

lemmas account_session_None = account_session_Inr(1) [where r = None]

lemma account_session_owner:
  assumes "run_state (account_session E sid (clock_src w (ticks w))) (tick w) = (Inr (Some s), w')"
  shows "session_owner E sid w (ss_user_id s) \<and> w' = called (tick w)"
  using account_session_Inr [OF assms] by (auto simp: session_owner_def)

lemma resolve_active_user_Some:
  assumes "run_state (resolve_active_user E sid) w = (Inr (Some u), w')"
  shows "session_owner E sid w (u_id u) \<and> user_is_active u \<and>
     find (\<lambda>x. u_id x = u_id u) (db_users (db w)) = Some u \<and> w' = called (called (tick w))"
  using assms unfolding resolve_active_user_def
  by (auto simp: run_rules split: if_splits dest!: account_session_owner users_find_by_id_Some)

lemma resolve_active_user_None:
  assumes "run_state (resolve_active_user E sid) w = (r, w')"
  shows "db w' = db w \<and> same_env w w'"
proof -
  have "always (frame (\<lambda>d. d)) (resolve_active_user E sid)" "always same_env (resolve_active_user E sid)"
    unfolding resolve_active_user_def account_session_def sso_sessions_find_by_hash_def users_find_by_id_def
    by (intro frame.always_rules frame_prims env.always_rules env_prims)+
  with assms show ?thesis by (auto dest!: alwaysD simp: frame_def)
qed

subsection \<open>Which rows a request can touch\<close>

text \<open>What self-service never changes of a user.\<close>

definition same_identity :: "user \<Rightarrow> user \<Rightarrow> bool" where
  "same_identity u u' \<longleftrightarrow> u_id u' = u_id u \<and> u_tenant_id u' = u_tenant_id u \<and> u_sub u' = u_sub u \<and>
     u_email u' = u_email u \<and> u_email_verified u' = u_email_verified u \<and>
     u_preferred_username u' = u_preferred_username u \<and> u_status u' = u_status u \<and>
     u_failed_login_count u' = u_failed_login_count u \<and> u_locked_until u' = u_locked_until u"

text \<open>
  The rows of users who own a session under the cookie may change, but not in what identifies them;
  the rows of others and the other tables stay.
\<close>

definition confined :: "libs \<Rightarrow> string \<Rightarrow> world \<Rightarrow> world \<Rightarrow> bool" where
  "confined E sid w w' \<longleftrightarrow> same_env w w' \<and>
     tables ((db w')\<lparr>db_users := []\<rparr>) = tables ((db w)\<lparr>db_users := []\<rparr>) \<and>
     list_all2 (\<lambda>u u'. u' = u \<or> session_owner E sid w (u_id u) \<and> same_identity u u')
       (db_users (db w)) (db_users (db w'))"

lemma session_owner_later:
  assumes "same_env w w'" and "db_sso_sessions (db w') = db_sso_sessions (db w)" and "session_owner E sid w' i"
  shows "session_owner E sid w i"
  using assms unfolding session_owner_def same_env_def by (auto intro: order_trans)

interpretation conf: kept "confined E sid" for E sid
proof
  show "confined E sid s s" for s
    by (auto simp: confined_def env.kept_refl intro: list.rel_refl)
  show "confined E sid s u" if "confined E sid s t" and "confined E sid t u" for s t u
  proof -
    have env: "same_env s t" "same_env t u"
      and st: "tables ((db t)\<lparr>db_users := []\<rparr>) = tables ((db s)\<lparr>db_users := []\<rparr>)"
      and tu: "tables ((db u)\<lparr>db_users := []\<rparr>) = tables ((db t)\<lparr>db_users := []\<rparr>)"
      using that by (simp_all add: confined_def)
    have owner: "session_owner E sid t i \<Longrightarrow> session_owner E sid s i" for i
      by (rule session_owner_later [OF env(1)]) (use st in \<open>simp_all add: tables_eq_iff\<close>)
    let ?R = "\<lambda>w x x'. x' = x \<or> session_owner E sid w (u_id x) \<and> same_identity x x'"
    have "list_all2 (?R s) (db_users (db s)) (db_users (db u))"
    proof (rule list_all2_trans)
      show "list_all2 (?R s) (db_users (db s)) (db_users (db t))"
        "list_all2 (?R t) (db_users (db t)) (db_users (db u))" using that by (simp_all add: confined_def)
      show "?R t y z \<Longrightarrow> ?R s x y \<Longrightarrow> ?R s x z" for x y z
        using owner by (auto simp: same_identity_def)
    qed
    with env.kept_trans [OF env] st tu show ?thesis by (simp add: confined_def)
  qed
qed

lemma confined_update:
  assumes "run_state (update_user i f) w' = (r, w2)"
    and "session_owner E sid w i" and "\<And>u. same_identity u (f u)" and "db w' = db w" and "same_env w w'"
  shows "confined E sid w w2"
proof -
  have "same_env w' w2" using assms(1) unfolding update_user_def by (rule alwaysD [OF env_prims(2)])
  with assms(5) have env: "same_env w w2" by (rule env.kept_trans)
  have rows: "db_users (db w2) = update_where (\<lambda>u. u_id u = i) f (db_users (db w)) \<or> db_users (db w2) = db_users (db w)"
    and "tables ((db w2)\<lparr>db_users := []\<rparr>) = tables ((db w)\<lparr>db_users := []\<rparr>)"
    using assms(1,4) by (cases r; auto simp: update_user_def run_rules tables_eq_iff)+
  moreover have "list_all2 (\<lambda>u u'. u' = u \<or> session_owner E sid w (u_id u) \<and> same_identity u u')
      us (update_where (\<lambda>u. u_id u = i) f us)" for us
    using assms(2,3) by (induction us) (auto simp: update_where_def)
  ultimately show ?thesis using env by (auto simp: confined_def intro: list.rel_refl)
qed

lemma confined_read: "db w' = db w \<Longrightarrow> same_env w w' \<Longrightarrow> confined E sid w w'"
  by (auto simp: confined_def intro: list.rel_refl)

lemma env_counters: "same_env w (tick w)" "same_env w (called w)" "same_env w (draw w)"
  by (simp_all add: same_env_def tick_def called_def draw_def)

lemma confined_tick_call: "confined E sid w (called (tick w))"
  by (rule confined_read) (simp_all add: same_env_def tick_def called_def)

lemma update_language_confined:
  assumes "run_state (update_language E \<lparr>ul_sso_session_id = sid, ul_language = l\<rparr>) w = (out, w')"
  shows "confined E sid w w'"
proof -
  have upd: "confined E sid w w'"
    if "run_state (account_session E sid (clock_src w (ticks w))) (tick w) = (Inr (Some s), w1)"
      and "run_state (users_update_language (ss_user_id s) lang) w1 = (r, w')" for s w1 lang r
    using that(2) unfolding users_update_language_def
    by (rule confined_update)
       (use account_session_owner [OF that(1)] in \<open>auto simp: same_identity_def same_env_def tick_def called_def\<close>)
  from assms show ?thesis
    unfolding update_language_def Let_def
    by (auto simp: run_rules confined_tick_call conf.kept_refl split: if_splits
        dest!: account_session_Inl account_session_None intro: upd)
qed

lemma update_name_confined:
  assumes "run_state (update_name E \<lparr>un_sso_session_id = sid, un_name = n\<rparr>) w = (out, w')"
  shows "confined E sid w w'"
proof -
  have upd: "confined E sid w w'"
    if "run_state (resolve_active_user E sid) w = (Inr (Some u), w1)"
      and "run_state (users_update_name (u_id u) name) w1 = (r, w')" for u w1 name r
    using that(2) unfolding users_update_name_def
    by (rule confined_update)
       (use resolve_active_user_Some [OF that(1)] resolve_active_user_None [OF that(1)] in
         \<open>auto simp: same_identity_def\<close>)
  have read: "confined E sid w w'" if "run_state (resolve_active_user E sid) w = (r, w')" for r
    using resolve_active_user_None [OF that] by (simp add: confined_read)
  from assms show ?thesis
    unfolding update_name_def Let_def
    by (auto simp: run_rules conf.kept_refl split: if_splits intro: upd read)
qed

text \<open>The last steps of a change of password.\<close>

lemma password_stored:
  assumes "run_state (password_steps E cmd ctx) w = (Inr x, w')"
  obtains s u h w1 where "session_owner E (ap_sso_session_id cmd) w (u_id u)" "user_is_active u"
    "find (\<lambda>x. u_id x = u_id u) (db_users (db w)) = Some u"
    "hasher_verify E (ap_current_password cmd) (u_password_hash u) = Inr True"
    "\<not> isl (validate_password_strength (ap_new_password cmd))"
    "run_state (hasher_hash E (ap_new_password cmd)) (called (called (tick w))) = (Inr h, w1)"
    "tables (db w') = tables ((db w)\<lparr>db_users := update_where (\<lambda>x. u_id x = u_id u)
        (\<lambda>x. x\<lparr>u_password_hash := h, u_must_change_password := False\<rparr>) (db_users (db w))\<rparr>)"
proof -
  from assms obtain s u h w1 w2 t ta where
      s: "run_state (account_session E (ap_sso_session_id cmd) (clock_src w (ticks w))) (tick w) = (Inr (Some s), t)"
    and u: "run_state (users_find_by_id (ss_user_id s)) t = (Inr (Some u), ta)"
    and ok: "user_is_active u" "hasher_verify E (ap_current_password cmd) (u_password_hash u) = Inr True"
      "\<not> isl (validate_password_strength (ap_new_password cmd))"
    and h: "run_state (hasher_hash E (ap_new_password cmd)) ta = (Inr h, w1)"
    and p: "run_state (users_update_password (u_id u) h) w1 = (Inr (), w2)"
    and a: "tables (db w') = tables (db w2)"
    unfolding password_steps_def
    by (auto simp: run_rules dest!: run_audit)
  note s = account_session_owner [OF s]
  then have t: "t = called (tick w)" by simp
  note u = users_find_by_id_Some [OF u [unfolded t]]
  then have ta: "ta = called (called (tick w))" by simp
  have "frame (\<lambda>d. d) (called (called (tick w))) w1" by (rule alwaysD [OF frame_random(4) h [unfolded ta]])
  with p a have "tables (db w') = tables ((db w)\<lparr>db_users := update_where (\<lambda>x. u_id x = u_id u)
        (\<lambda>x. x\<lparr>u_password_hash := h, u_must_change_password := False\<rparr>) (db_users (db w))\<rparr>)"
    by (auto simp: users_update_password_def update_user_def run_rules frame_def)
  with that ok h s u ta show thesis by auto
qed

lemma confined_audit:
  assumes "run_state (audit_record t r i u c m ctx) w = (x, w')"
  shows "confined E sid w w'"
proof -
  have "same_env w w'"
    using assms unfolding audit_record_def audit_sink_record_def
    by (rule alwaysD [rotated]) (intro env.always_rules env_prims)
  with run_audit [OF assms] show ?thesis by (auto simp: confined_def tables_eq_iff intro: list.rel_refl)
qed

lemma hash_reads: "run_state (hasher_hash E p) w = (r, w') \<Longrightarrow> db w' = db w \<and> same_env w w'"
  unfolding hasher_hash_def by (auto simp: run_rules env_counters)

lemma account_password_confined:
  assumes "run_state (password_steps E \<lparr>ap_sso_session_id = sid, ap_current_password = p, ap_new_password = q\<rparr> ctx) w = (out, w')"
  shows "confined E sid w w'"
proof -
  let ?w2 = "called (called (tick w))"
  have w2: "same_env w ?w2" "db ?w2 = db w" by (simp_all add: same_env_def tick_def called_def)
  have upd: "confined E sid w w4"
    if "run_state (account_session E sid (clock_src w (ticks w))) (tick w) = (Inr (Some s), w1)"
      and "run_state (users_find_by_id (ss_user_id s)) w1 = (Inr (Some u), w2)"
      and "run_state (hasher_hash E q) w2 = (Inr h, w3)"
      and "run_state (users_update_password (u_id u) h) w3 = (r, w4)" for s w1 u w2 h w3 r w4
  proof -
    from account_session_owner [OF that(1)] users_find_by_id_Some [OF that(2)]
    have "w2 = ?w2" and owner: "session_owner E sid w (u_id u)" by auto
    with hash_reads [OF that(3)] w2 env.kept_trans have "db w3 = db w" "same_env w w3" by auto
    with owner show ?thesis
      by (intro confined_update [OF that(4) [unfolded users_update_password_def]]) (auto simp: same_identity_def)
  qed
  have found: "w3 = ?w2"
    if "run_state (account_session E sid (clock_src w (ticks w))) (tick w) = (Inr r, w1)"
      and "run_state (users_find_by_id i) w1 = (r', w3)" for r w1 r' w3 i
    using that(2) account_session_Inr(1) [OF that(1)] by (cases r') (auto simp: users_find_by_id_def run_rules)
  have read: "confined E sid w ?w2" using w2 by (simp add: confined_read)
  have hashed: "confined E sid w w3" if "run_state (hasher_hash E q) ?w2 = (r, w3)" for r w3
    using hash_reads [OF that] w2 env.kept_trans by (auto intro: confined_read)
  show ?thesis
  proof (cases out)
    case (Inr x)
    with assms show ?thesis
      unfolding password_steps_def
      by (auto simp: run_rules intro: conf.kept_trans [OF upd confined_audit])
  next
    case (Inl e)
    with assms show ?thesis
      unfolding password_steps_def
      by (auto simp: run_rules confined_tick_call dest!: account_session_Inl account_session_None
          dest: found intro: upd read hashed)
  qed
qed

text \<open>The requests of a browser that holds the cookie \<open>sid\<close>.\<close>

inductive account_step :: "libs \<Rightarrow> string \<Rightarrow> world \<Rightarrow> world \<Rightarrow> bool" for E sid where
  language: "run_state (update_language E \<lparr>ul_sso_session_id = sid, ul_language = l\<rparr>) w = (r, w') \<Longrightarrow>
     account_step E sid w w'"
| name: "run_state (update_name E \<lparr>un_sso_session_id = sid, un_name = n\<rparr>) w = (r, w') \<Longrightarrow>
     account_step E sid w w'"
| password: "run_state (account_password E \<lparr>ap_sso_session_id = sid, ap_current_password = p,
     ap_new_password = q\<rparr> ctx) w = (r, w') \<Longrightarrow> account_step E sid w w'"
| profile: "run_state (profile_get E sid) w = (r, w') \<Longrightarrow> account_step E sid w w'"
| list_tenants: "run_state (list_tenants E sid) w = (r, w') \<Longrightarrow> account_step E sid w w'"

lemma resolve_tenants_reads:
  "always (frame (\<lambda>d. d)) (resolve_tenants E ms)" "always same_env (resolve_tenants E ms)"
  by (induction ms; simp; intro frame.always_rules env.always_rules frame_directory_queries;
      simp add: tenants_find_by_id_def env_prims)+

lemma account_queries_confined:
  "run_state (profile_get E sid) w = (r, w') \<Longrightarrow> confined E sid w w'"
  "run_state (list_tenants E sid) w = (r', w') \<Longrightarrow> confined E sid w w'"
proof -
  assume "run_state (profile_get E sid) w = (r, w')"
  then show "confined E sid w w'"
    by (auto simp: profile_get_def run_bindE run_returnE confined_read dest!: resolve_active_user_None)
next
  assume run: "run_state (list_tenants E sid) w = (r', w')"
  have "always (frame (\<lambda>d. d)) (list_tenants E sid)" "always same_env (list_tenants E sid)"
    unfolding list_tenants_def account_session_def sso_sessions_find_by_hash_def memberships_list_active_for_user_def
    by (intro frame.always_rules frame_prims env.always_rules env_prims resolve_tenants_reads)+
  with run show "confined E sid w w'" by (auto dest!: alwaysD simp: frame_def confined_read)
qed

lemma account_step_confined: "account_step E sid w w' \<Longrightarrow> confined E sid w w'"
  by (induction rule: account_step.induct)
     (auto simp: account_password_def run_bindE run_returnE dest!: account_password_confined
       intro: update_language_confined update_name_confined account_queries_confined)

section \<open>Properties\<close>

text \<open>
  C21. Self-service stays in its own row. Whatever requests a browser makes to change its language,
  display name or password, and whatever they answer, the tables other than the users and the audit
  log stay, the rows of users without a session under that cookie stay, and nobody's identifiers,
  address, tenant, status or lock change.
\<close>

theorem account_requests_confined:
  assumes "(account_step E sid)\<^sup>*\<^sup>* w w'"
  shows "tables ((db w')\<lparr>db_users := []\<rparr>) = tables ((db w)\<lparr>db_users := []\<rparr>) \<and>
     list_all2 (\<lambda>u u'. u' = u \<or> session_owner E sid w (u_id u) \<and> same_identity u u')
       (db_users (db w)) (db_users (db w'))"
proof -
  from assms have "confined E sid w w'"
    by (induction rule: rtranclp_induct)
       (auto intro: conf.kept_refl conf.kept_trans account_step_confined)
  then show ?thesis by (simp add: confined_def)
qed

definition two_users_world :: world where
  "two_users_world = sample_world\<lparr>db := sample_db\<lparr>db_users :=
     [sample_user, sample_user\<lparr>u_id := 5, u_sub := 6, u_email := ''b@b.c'', u_preferred_username := Some ''bob''\<rparr>]\<rparr>\<rparr>"

theorem account_requests_confined_witness:
  "\<exists>w'. (account_step sample_libs ''sso'')\<^sup>*\<^sup>* two_users_world w' \<and>
     map u_language (db_users (db w')) = [Some ''ja'', None] \<and>
     list_all2 same_identity (db_users (db two_users_world)) (db_users (db w'))"
proof -
  let ?cmd = "\<lparr>ul_sso_session_id = ''sso'', ul_language = ''ja''\<rparr>"
  have ok: "fst (run_state (update_language sample_libs ?cmd) two_users_world) = LanguageOk" by code_simp
  let ?w' = "snd (run_state (update_language sample_libs ?cmd) two_users_world)"
  have langs: "map u_language (db_users (db ?w')) = [Some ''ja'', None]" by code_simp
  have "account_step sample_libs ''sso'' two_users_world ?w'"
    by (rule account_step.language [OF run_fstI [OF ok]])
  then have "(account_step sample_libs ''sso'')\<^sup>*\<^sup>* two_users_world ?w'" by (rule r_into_rtranclp)
  moreover have "list_all2 same_identity (db_users (db two_users_world)) (db_users (db ?w'))"
    using account_requests_confined [OF \<open>(account_step sample_libs ''sso'')\<^sup>*\<^sup>* two_users_world ?w'\<close>, THEN conjunct2]
    by (rule list_all2_mono) (unfold same_identity_def, blast)
  ultimately show ?thesis using langs by (intro exI [of _ ?w'] conjI)
qed

text \<open>
  Changing one's password. It succeeds only for an active user with a live session under the cookie
  who gave the current password, and only for a new password of an accepted length. Then the new
  password is the one that verifies against the stored hash, and no other row of any table changed.
\<close>

theorem account_password_sound:
  assumes "hasher_ok E" and "run_state (account_password E cmd ctx) w = (PasswordOk, w')"
  shows "\<exists>u h. session_owner E (ap_sso_session_id cmd) w (u_id u) \<and>
     find (\<lambda>x. u_id x = u_id u) (db_users (db w)) = Some u \<and> user_is_active u \<and>
     hasher_verify E (ap_current_password cmd) (u_password_hash u) = Inr True \<and>
     MIN_PASSWORD_LEN \<le> length (ap_new_password cmd) \<and> length (ap_new_password cmd) \<le> MAX_PASSWORD_LEN \<and>
     hasher_verify E (ap_new_password cmd) h = Inr True \<and>
     tables (db w') = tables ((db w)\<lparr>db_users := update_where (\<lambda>x. u_id x = u_id u)
       (\<lambda>x. x\<lparr>u_password_hash := h, u_must_change_password := False\<rparr>) (db_users (db w))\<rparr>)"
proof -
  have "run_state (password_steps E cmd ctx) w \<noteq> (Inl PasswordOk, w')"
    unfolding password_steps_def by (auto simp: run_rules password_failed_def)
  with assms(2) obtain x where "run_state (password_steps E cmd ctx) w = (Inr x, w')"
    by (auto simp: account_password_def run_bindE run_returnE case_sum_eqE)
  then show ?thesis
  proof (rule password_stored)
    fix s u h w1
    assume "\<not> isl (validate_password_strength (ap_new_password cmd))"
      and "run_state (hasher_hash E (ap_new_password cmd)) (called (called (tick w))) = (Inr h, w1)"
    note this(1) and hasher_hash_verify [OF assms(1) this(2)]
    moreover assume "session_owner E (ap_sso_session_id cmd) w (u_id u)" "user_is_active u"
      "find (\<lambda>x. u_id x = u_id u) (db_users (db w)) = Some u"
      "hasher_verify E (ap_current_password cmd) (u_password_hash u) = Inr True"
      "tables (db w') = tables ((db w)\<lparr>db_users := update_where (\<lambda>x. u_id x = u_id u)
        (\<lambda>x. x\<lparr>u_password_hash := h, u_must_change_password := False\<rparr>) (db_users (db w))\<rparr>)"
    ultimately show ?thesis
      by (intro exI [of _ u] exI [of _ h]) (auto simp: validate_password_strength_def split: if_splits)
  qed
qed

theorem account_password_sound_witness:
  "\<exists>w'. run_state (account_password sample_libs \<lparr>ap_sso_session_id = ''sso'', ap_current_password = ''secret'',
       ap_new_password = ''correct horse battery''\<rparr> sample_ctx) sample_world = (PasswordOk, w') \<and>
     session_owner sample_libs ''sso'' sample_world 2"
proof -
  have ok: "hasher_ok sample_libs" by (simp add: hasher_ok_def sample_libs_def)
  have "fst (run_state (account_password sample_libs \<lparr>ap_sso_session_id = ''sso'', ap_current_password = ''secret'',
       ap_new_password = ''correct horse battery''\<rparr> sample_ctx) sample_world) = PasswordOk" by code_simp
  note run = run_fstI [OF this]
  from account_password_sound [OF ok run] have "session_owner sample_libs ''sso'' sample_world 2"
    by (auto simp: sample_world_def sample_db_def sample_user_def split: if_splits)
  with run show ?thesis by blast
qed

text \<open>
  The language and the list of tenants are served on the session alone: an account that was disabled
  while its session lived can still use them, unlike the profile and the password.
\<close>

lemma disabled_user_keeps_language:
  "\<exists>w w'. \<not> list_ex user_is_active (db_users (db w)) \<and>
     run_state (update_language sample_libs \<lparr>ul_sso_session_id = ''sso'', ul_language = ''ja''\<rparr>) w = (LanguageOk, w') \<and>
     fst (run_state (update_name sample_libs \<lparr>un_sso_session_id = ''sso'', un_name = Some ''A''\<rparr>) w) = NameSessionExpired"
proof -
  let ?w = "sample_world\<lparr>db := sample_db\<lparr>db_users := [sample_user\<lparr>u_status := UserDisabled\<rparr>]\<rparr>\<rparr>"
  have "fst (run_state (update_language sample_libs \<lparr>ul_sso_session_id = ''sso'', ul_language = ''ja''\<rparr>) ?w) = LanguageOk"
    by code_simp
  note run = run_fstI [OF this]
  have "fst (run_state (update_name sample_libs \<lparr>un_sso_session_id = ''sso'', un_name = Some ''A''\<rparr>) ?w) = NameSessionExpired"
    by code_simp
  moreover have "\<not> list_ex user_is_active (db_users (db ?w))" by (simp add: user_is_active_def)
  ultimately show ?thesis using run by blast
qed

text \<open>The listed tenants: one entry for each active membership in an active tenant, in that order.\<close>

definition listed_tenant :: "libs \<Rightarrow> database \<Rightarrow> tenant_membership \<Rightarrow> account_tenant option" where
  "listed_tenant E d m =
     (case find (\<lambda>t. t_id t = tm_tenant_id m) (db_tenants d) of
        Some t \<Rightarrow> then_some (tenant_is_active t) \<lparr>at_tenant_id = uuid_to_string E (t_id t), at_name = t_name t,
           at_membership_type = membership_type_as_str (tm_membership_type m)\<rparr>
      | None \<Rightarrow> None)"

lemma resolve_tenants_Inr:
  "run_state (resolve_tenants E ms) w = (Inr ts, w') \<Longrightarrow> ts = List.map_filter (listed_tenant E (db w)) ms"
proof (induction ms arbitrary: w ts)
  case Nil
  then show ?case by (simp add: run_rules map_filter_simps)
next
  case (Cons m ms)
  then obtain rest where rest: "run_state (resolve_tenants E ms) (called w) = (Inr rest, w')"
    and ts: "ts = (case listed_tenant E (db w) m of Some t \<Rightarrow> t # rest | None \<Rightarrow> rest)"
    by (auto simp: run_rules tenants_find_by_id_def listed_tenant_def split: if_splits)
  from Cons.IH [OF rest] ts show ?case by (simp add: map_filter_simps split: option.splits)
qed

end
