(* ===== verification/Tenants.thy ===== *)
theory Tenants
  imports Cache Permissions
begin

text \<open>
  Tenants: finding the tenant of a request through its cache (\<^verbatim>\<open>application/tenant_resolution.rs\<close>) and
  managing them (\<^verbatim>\<open>application/tenant_management.rs\<close>). A tenant manages its direct children only. The
  tenants form a tree below the root, which no request can break.
\<close>

section \<open>Model\<close>

subsection \<open>Resolution\<close>

definition tenant_cache_get :: "tenant_id \<Rightarrow> (world, tenant option) state" where
  "tenant_cache_get key = State (\<lambda>w.
     let (r, m) = cache_get key (clock_src w (ticks w)) (tenant_cache w)
     in (r, w\<lparr>ticks := Suc (ticks w), tenant_cache := m\<rparr>))"

definition tenant_cache_insert :: "config \<Rightarrow> tenant_id \<Rightarrow> tenant \<Rightarrow> (world, unit) state" where
  "tenant_cache_insert C key t = State (\<lambda>w.
     ((), w\<lparr>ticks := Suc (ticks w),
            tenant_cache := cache_insert (tenant_cache_ttl C) key t (clock_src w (ticks w)) (tenant_cache w)\<rparr>))"

definition resolve_tenant :: "config \<Rightarrow> tenant_id \<Rightarrow> (world, domain_error + tenant option) state" where
  "resolve_tenant C tenant_id = do {
     hit \<leftarrow> tenant_cache_get tenant_id;
     case hit of
       Some cached \<Rightarrow> State_Monad.return (Inr (then_some (tenant_is_active cached) cached))
     | None \<Rightarrow>
         and_then (tenants_find_by_id tenant_id) (\<lambda>found.
         case found of
           Some t \<Rightarrow> do {
             tenant_cache_insert C tenant_id t;
             State_Monad.return (Inr (then_some (tenant_is_active t) t))
           }
         | None \<Rightarrow> State_Monad.return (Inr None))
   }"

definition resolution_invalidate :: "tenant_id \<Rightarrow> (world, unit) state" where
  "resolution_invalidate tenant_id = State (\<lambda>w.
     ((), w\<lparr>tenant_cache := cache_invalidate tenant_id (tenant_cache w)\<rparr>))"

subsection \<open>Management\<close>

definition TENANT_ADMIN_PERMISSION :: string where
  "TENANT_ADMIN_PERMISSION = ''idp.tenant.admin''"

record update_tenant_command =
  ut_name :: "string option"
  ut_status :: "tenant_status option"

datatype tenant_management_error =
    TenantValidation string
  | TenantNotFound
  | TenantForbidden string
  | TenantConflict string
  | TenantInternal string

definition tenant_internal :: "domain_error \<Rightarrow> tenant_management_error" where
  "tenant_internal e = TenantInternal (domain_error_to_string e)"

definition tenant_conflict :: "domain_error \<Rightarrow> tenant_management_error" where
  "tenant_conflict e = (case e of Conflict m \<Rightarrow> TenantConflict m | _ \<Rightarrow> tenant_internal e)"

definition validate_tenant_name :: "string \<Rightarrow> tenant_management_error + string" where
  "validate_tenant_name name =
     (let trimmed = trim name in
      if trimmed = [] then Inl (TenantValidation ''tenant name must not be empty'') else Inr trimmed)"

text \<open>The ids come from a UUIDv7 generator; the model takes them from the same source as the others.\<close>

definition new_id :: "(world, uuid) state" where
  "new_id = new_v4"

definition tenant_reason :: "libs \<Rightarrow> tenant_id \<Rightarrow> string" where
  "tenant_reason E i = ''tenant='' @ uuid_to_string E i"

definition create_tenant ::
  "libs \<Rightarrow> tenant_id \<Rightarrow> string \<Rightarrow> uuid \<Rightarrow> request_context \<Rightarrow>
   (world, tenant_management_error + tenant) state" where
  "create_tenant E requesting cmd_name actor ctx =
     and_then (State_Monad.return (validate_tenant_name cmd_name)) (\<lambda>name. do {
     now \<leftarrow> clock_now;
     i \<leftarrow> new_id;
     let t = \<lparr>t_id = i, t_parent_tenant_id = Some requesting, t_name = name, t_status = TenantActive,
              t_self_registration_enabled = False, t_created_at = now, t_updated_at = now\<rparr>;
     let membership = new_active_guest (t_id t) actor now;
     and_then (map_err tenant_conflict (provision E t membership TENANT_ADMIN_PERMISSION now)) (\<lambda>_. do {
     audit_record TenantCreated AuditSuccess (Some (t_id t)) (Some actor) None
       (Some (tenant_reason E (t_id t) @ '' bootstrap_admin='' @ uuid_to_string E actor)) ctx;
     State_Monad.return (Inr t) }) })"

definition list_children :: "tenant_id \<Rightarrow> (world, tenant_management_error + tenant list) state" where
  "list_children requesting = map_err tenant_internal (tenants_list_children requesting)"

definition load_child :: "tenant_id \<Rightarrow> tenant_id \<Rightarrow> (world, tenant_management_error + tenant) state" where
  "load_child requesting child_id =
     and_then (map_err tenant_internal (tenants_find_by_id child_id)) (\<lambda>found.
     State_Monad.return (case found of
       Some t \<Rightarrow> if t_parent_tenant_id t = Some requesting then Inr t else Inl TenantNotFound
     | None \<Rightarrow> Inl TenantNotFound))"

definition get_child :: "tenant_id \<Rightarrow> tenant_id \<Rightarrow> (world, tenant_management_error + tenant) state" where
  "get_child requesting child_id = load_child requesting child_id"

definition rename_tenant :: "string option \<Rightarrow> tenant \<Rightarrow> tenant_management_error + tenant" where
  "rename_tenant name t =
     (case name of
        None \<Rightarrow> Inr t
      | Some n \<Rightarrow> (case validate_tenant_name n of Inl e \<Rightarrow> Inl e | Inr n \<Rightarrow> Inr (t\<lparr>t_name := n\<rparr>)))"

definition update_tenant ::
  "libs \<Rightarrow> tenant_id \<Rightarrow> tenant_id \<Rightarrow> update_tenant_command \<Rightarrow> uuid \<Rightarrow> request_context \<Rightarrow>
   (world, tenant_management_error + tenant) state" where
  "update_tenant E requesting child_id cmd actor ctx =
     and_then (load_child requesting child_id) (\<lambda>t.
     and_then (State_Monad.return (rename_tenant (ut_name cmd) t)) (\<lambda>t.
     let t = (case ut_status cmd of Some s \<Rightarrow> t\<lparr>t_status := s\<rparr> | None \<Rightarrow> t) in
     and_then (map_err tenant_internal (tenants_update t)) (\<lambda>_. do {
     audit_record TenantUpdated AuditSuccess (Some (t_id t)) (Some actor) None (Some (tenant_reason E (t_id t))) ctx;
     State_Monad.return (Inr t) })))"

definition get_current :: "tenant_id \<Rightarrow> (world, tenant_management_error + tenant) state" where
  "get_current current =
     and_then (map_err tenant_internal (tenants_find_by_id current)) (\<lambda>found.
     State_Monad.return (case found of Some t \<Rightarrow> Inr t | None \<Rightarrow> Inl TenantNotFound))"

definition update_current_settings ::
  "libs \<Rightarrow> tenant_id \<Rightarrow> string \<Rightarrow> bool option \<Rightarrow> uuid \<Rightarrow> request_context \<Rightarrow>
   (world, tenant_management_error + tenant) state" where
  "update_current_settings E current name self_registration_enabled actor ctx =
     and_then (get_current current) (\<lambda>t.
     and_then (State_Monad.return (rename_tenant (Some name) t)) (\<lambda>t.
     let t = (case self_registration_enabled of
                Some enabled \<Rightarrow> t\<lparr>t_self_registration_enabled := enabled\<rparr> | None \<Rightarrow> t) in
     and_then (map_err tenant_internal (tenants_update t)) (\<lambda>_. do {
     audit_record TenantUpdated AuditSuccess (Some (t_id t)) (Some actor) None
       (Some (tenant_reason E (t_id t) @ '' (self settings)'')) ctx;
     State_Monad.return (Inr t) })))"

definition delete_tenant ::
  "libs \<Rightarrow> tenant_id \<Rightarrow> tenant_id \<Rightarrow> uuid \<Rightarrow> request_context \<Rightarrow>
   (world, tenant_management_error + unit) state" where
  "delete_tenant E requesting child_id actor ctx =
     and_then (load_child requesting child_id) (\<lambda>t.
     and_then (require (\<not> tenant_is_root t) (TenantForbidden ''the root tenant cannot be deleted'')) (\<lambda>_.
     and_then (map_err tenant_internal (tenants_list_children (t_id t))) (\<lambda>grandchildren.
     and_then (require (grandchildren = []) (TenantConflict ''tenant has child tenants'')) (\<lambda>_.
     and_then (map_err tenant_conflict (tenants_delete (t_id t))) (\<lambda>_. do {
     audit_record TenantDeleted AuditSuccess (Some (t_id t)) (Some actor) None (Some (tenant_reason E (t_id t))) ctx;
     State_Monad.return (Inr ()) })))))"

section \<open>The tree\<close>

text \<open>
  In the order of insertion, every tenant has an identifier of its own and comes after its parent; only
  the first one has none. \<open>known\<close> are the identifiers of the rows before.
\<close>

primrec tree_ok :: "tenant_id set \<Rightarrow> tenant list \<Rightarrow> bool" where
  "tree_ok known [] = True"
| "tree_ok known (t # ts) \<longleftrightarrow> t_id t \<notin> known \<and>
     (case t_parent_tenant_id t of None \<Rightarrow> known = {} | Some p \<Rightarrow> p \<in> known) \<and>
     tree_ok (insert (t_id t) known) ts"

definition child_of :: "tenant list \<Rightarrow> tenant \<Rightarrow> tenant \<Rightarrow> bool" where
  "child_of ts t p \<longleftrightarrow> p \<in> set ts \<and> t_parent_tenant_id t = Some (t_id p)"

lemma tree_ok_append: "tree_ok K (xs @ ys) \<longleftrightarrow> tree_ok K xs \<and> tree_ok (K \<union> t_id ` set xs) ys"
  by (induction xs arbitrary: K) auto

lemma tree_ok_ids: "tree_ok K ts \<Longrightarrow> t \<in> set ts \<Longrightarrow> t_id t \<notin> K"
  by (induction ts arbitrary: K) auto

lemma tree_ok_distinct: "tree_ok K ts \<Longrightarrow> distinct (map t_id ts)"
  by (induction ts arbitrary: K) (auto dest: tree_ok_ids)

lemma tree_ok_root: "tree_ok {} (t # ts) \<Longrightarrow> x \<in> set ts \<Longrightarrow> t_parent_tenant_id x \<noteq> None"
proof -
  have "tree_ok K ts \<Longrightarrow> K \<noteq> {} \<Longrightarrow> x \<in> set ts \<Longrightarrow> t_parent_tenant_id x \<noteq> None" for K
    by (induction ts arbitrary: K) auto
  then show "tree_ok {} (t # ts) \<Longrightarrow> x \<in> set ts \<Longrightarrow> t_parent_tenant_id x \<noteq> None" by auto
qed

lemma tree_one_root:
  assumes "tree_ok {} ts" and "r \<in> set ts" "tenant_is_root r" and "r' \<in> set ts" "tenant_is_root r'"
  shows "r' = r"
proof (cases ts)
  case Nil
  with assms(2) show ?thesis by simp
next
  case (Cons t us)
  from tree_ok_root [OF assms(1) [unfolded Cons]] have "x \<in> set us \<Longrightarrow> \<not> tenant_is_root x" for x
    by (simp add: tenant_is_root_def)
  with assms(2-) Cons show ?thesis by auto
qed

lemma tree_ok_drop:
  assumes "tree_ok (insert i K) ts" and "\<forall>t \<in> set ts. t_parent_tenant_id t \<noteq> Some i"
  shows "tree_ok K ts"
  using assms by (induction ts arbitrary: K) (auto simp: insert_commute split: option.splits)

lemma tree_ok_delete:
  assumes "tree_ok K ts" and "i \<notin> K" and "\<forall>t \<in> set ts. t_parent_tenant_id t \<noteq> Some i"
  shows "tree_ok K (delete_where (\<lambda>t. t_id t = i) ts)"
  using assms
proof (induction ts arbitrary: K)
  case Nil
  then show ?case by (simp add: delete_where_def)
next
  case (Cons t ts)
  show ?case
  proof (cases "t_id t = i")
    case True
    from Cons.prems True have "tree_ok K ts" by (auto intro: tree_ok_drop)
    moreover have "delete_where (\<lambda>t. t_id t = i) ts = ts"
      using Cons.prems(1) True by (auto simp: delete_where_def filter_id_conv dest: tree_ok_ids)
    ultimately show ?thesis using True by (simp add: delete_where_def)
  next
    case False
    with Cons show ?thesis by (auto simp: delete_where_def)
  qed
qed

lemma tree_ok_update:
  assumes "\<And>t. t_id (f t) = t_id t" and "\<And>t. t_parent_tenant_id (f t) = t_parent_tenant_id t"
  shows "tree_ok K (update_where P f ts) = tree_ok K ts"
  by (induction ts arbitrary: K) (auto simp: update_where_def assms)

lemma tree_reaches_root:
  assumes "tree_ok {} ts" and "t \<in> set ts"
  shows "\<exists>r \<in> set ts. tenant_is_root r \<and> (child_of ts)\<^sup>*\<^sup>* t r"
  using assms
proof (induction ts arbitrary: t rule: rev_induct)
  case Nil
  then show ?case by simp
next
  case (snoc x ts)
  have mono: "(child_of ts)\<^sup>*\<^sup>* a b \<Longrightarrow> (child_of (ts @ [x]))\<^sup>*\<^sup>* a b" for a b
    by (rule rtranclp_mono [THEN predicate2D]) (auto simp: child_of_def)
  from snoc.prems have ts: "tree_ok {} ts" by (simp add: tree_ok_append)
  show ?case
  proof (cases "t \<in> set ts")
    case True
    with snoc.IH [OF ts] mono show ?thesis by fastforce
  next
    case False
    with snoc.prems have t: "t = x" by simp
    show ?thesis
    proof (cases "t_parent_tenant_id x")
      case None
      with t show ?thesis by (auto simp: tenant_is_root_def)
    next
      case (Some p)
      with snoc.prems obtain y where y: "y \<in> set ts" "t_id y = p" by (auto simp: tree_ok_append)
      with snoc.IH [OF ts] mono obtain r where "r \<in> set ts" "tenant_is_root r" "(child_of (ts @ [x]))\<^sup>*\<^sup>* y r"
        by blast
      moreover have "child_of (ts @ [x]) x y" using Some y by (simp add: child_of_def)
      ultimately show ?thesis using t by (auto intro: converse_rtranclp_into_rtranclp)
    qed
  qed
qed

section \<open>Reading a run\<close>

lemma run_and_then_cases:
  "run_state m s = (Inr a, t) \<Longrightarrow> run_state (and_then m f) s = run_state (f a) t"
  "run_state m s = (Inl e, t) \<Longrightarrow> run_state (and_then m f) s = (Inl e, t)"
  by (simp_all add: and_then_def run_state_bind)

lemma run_tenant_cache_get [run_rules]:
  "run_state (tenant_cache_get k) w = (r, w') \<longleftrightarrow>
   r = fst (cache_get k (clock_src w (ticks w)) (tenant_cache w)) \<and>
   w' = (tick w)\<lparr>tenant_cache := snd (cache_get k (clock_src w (ticks w)) (tenant_cache w))\<rparr>"
  by (auto simp: tenant_cache_get_def tick_def case_prod_beta)

lemma run_tenant_cache_insert [run_rules]:
  "run_state (tenant_cache_insert C k t) w = (x, w') \<longleftrightarrow>
   w' = (tick w)\<lparr>tenant_cache :=
           cache_insert (tenant_cache_ttl C) k t (clock_src w (ticks w)) (tenant_cache w)\<rparr>"
  by (auto simp: tenant_cache_insert_def tick_def)

lemma load_child_Inr:
  "run_state (load_child r c) w = (Inr t, w') \<Longrightarrow>
   t \<in> set (db_tenants (db w)) \<and> t_id t = c \<and> t_parent_tenant_id t = Some r \<and> w' = called w"
  by (auto simp: load_child_def tenants_find_by_id_def run_rules split: if_splits dest: find_SomeD)

lemma load_child_other:
  assumes "\<forall>t \<in> set (db_tenants (db w)). t_id t = c \<longrightarrow> t_parent_tenant_id t \<noteq> Some r"
    and "fault_src w (db_calls w) = None"
  shows "run_state (load_child r c) w = (Inl TenantNotFound, called w)"
  using assms
  by (cases "find (\<lambda>t. t_id t = c) (db_tenants (db w))")
     (auto simp: load_child_def tenants_find_by_id_def run_rules dest: find_SomeD)

subsection \<open>The tree is kept\<close>

definition tree_inv :: "tenant_id \<Rightarrow> database \<Rightarrow> bool" where
  "tree_inv R d \<longleftrightarrow> tree_ok {} (db_tenants d) \<and> (\<exists>t \<in> set (db_tenants d). tenant_is_root t \<and> t_id t = R)"

lemma tree_inv_cong: "db_tenants d = db_tenants d' \<Longrightarrow> tree_inv R d = tree_inv R d'"
  by (simp add: tree_inv_def)

lemma keeps_tree_frame: "always (frame db_tenants) m \<Longrightarrow> always (keeps (tree_inv R)) m"
  by (rule keeps_frame [where T = db_tenants]) (simp_all add: tree_inv_def)

lemma tx_then_keeps:
  assumes "P d" and "\<And>d. P d \<Longrightarrow> P (snd (f now d))" and "\<And>d. P d \<Longrightarrow> P (snd (g now d))"
  shows "P (snd (tx_then f g now d))"
  using assms(1) assms(2) [of d] assms(3) [of "snd (f now d)"]
  by (auto simp: tx_then_def split: prod.splits sum.splits)

lemma insert_tenant_tree:
  assumes "tree_inv R d"
  shows "tree_inv R (snd (insert_tenant E t now d))"
proof -
  have "\<exists>x \<in> set (db_tenants d). tenant_is_root x" using assms by (auto simp: tree_inv_def)
  with assms show ?thesis
    by (auto simp: insert_tenant_def tree_inv_def tree_ok_append list_ex_iff parent_exists_def tenant_is_root_def
        split: option.splits)
qed

lemma keeps_provision: "always (keeps (tree_inv R)) (provision E t m c now)"
proof -
  have m: "tree_inv R (snd (insert_membership m now d)) = tree_inv R d"
    and g: "tree_inv R (snd (insert_grant E i u c at now d)) = tree_inv R d" for m i u c at now d
    by (simp_all add: insert_membership_def insert_grant_def tree_inv_def)
  show ?thesis
    unfolding provision_def
    by (intro keeps_db_call tx_then_keeps [where P = "tree_inv R"]) (simp_all add: insert_tenant_tree m g)
qed

lemma keeps_tenants_update: "always (keeps (tree_inv R)) (tenants_update t)"
  unfolding tenants_update_def
proof (rule keeps_db_execute)
  fix now d
  let ?f = "\<lambda>x. x\<lparr>t_name := t_name t, t_status := t_status t, t_self_registration_enabled := t_self_registration_enabled t\<rparr>"
  assume "tree_inv R d"
  then show "tree_inv R (d\<lparr>db_tenants := update_where (\<lambda>x. t_id x = t_id t) ?f (db_tenants d)\<rparr>)"
    unfolding tree_inv_def using keyed_update_where [of "\<lambda>x. tenant_is_root x \<and> t_id x = R" ?f "db_tenants d" "\<lambda>_. True"]
    by (simp add: tree_ok_update tenant_is_root_def)
qed

lemma keeps_tenants_delete:
  assumes "i \<noteq> R"
  shows "always (keeps (tree_inv R)) (tenants_delete i)"
  unfolding tenants_delete_def
proof (rule keeps_db_call)
  fix now d
  assume inv: "tree_inv R d"
  have "tree_ok {} (delete_where (\<lambda>t. t_id t = i) (db_tenants d))"
    if "\<not> (tenant_referenced i d \<and> list_ex (\<lambda>t. t_id t = i) (db_tenants d))"
  proof (cases "list_ex (\<lambda>t. t_id t = i) (db_tenants d)")
    case True
    with that inv show ?thesis
      by (intro tree_ok_delete) (auto simp: tree_inv_def tenant_referenced_def list_ex_iff)
  next
    case False
    then have "delete_where (\<lambda>t. t_id t = i) (db_tenants d) = db_tenants d"
      by (auto simp: delete_where_def filter_id_conv list_ex_iff)
    with inv show ?thesis by (simp add: tree_inv_def)
  qed
  with inv assms show "tree_inv R (snd (if tenant_referenced i d \<and> list_ex (\<lambda>t. t_id t = i) (db_tenants d)
      then (Inl (Conflict ''tenant has child tenants, users, or clients''), d) else (Inr (), delete_tenant_rows i d)))"
    by (auto simp: tree_inv_def delete_tenant_rows_def set_delete_where)
qed

lemma keeps_tree_audit: "always (keeps (tree_inv R)) (audit_record t r i u c m ctx)"
  by (rule keeps_tree_frame, rule frame_audit) simp

lemmas keeps_tree_rules = keep.always_rules keeps_tree_audit keeps_provision keeps_tenants_update
  keeps_tree_frame [OF frame_prims(2)] keeps_tree_frame [OF frame_new_v4] keeps_tree_frame [OF frame_db_query]

lemma keeps_tenant_operations:
  "always (keeps (tree_inv R)) (create_tenant E r n a ctx)"
  "always (keeps (tree_inv R)) (update_tenant E r c cmd a ctx)"
  "always (keeps (tree_inv R)) (update_current_settings E r n b a ctx)"
  unfolding create_tenant_def update_tenant_def update_current_settings_def load_child_def get_current_def new_id_def
    tenants_find_by_id_def
  by (intro keeps_tree_rules)+

lemma delete_tenant_tree:
  assumes inv: "tree_inv R (db w)" and run: "run_state (delete_tenant E r c a ctx) w = (x, w')"
  shows "tree_inv R (db w')"
proof (cases "run_state (load_child r c) w")
  case (Pair y w1)
  show ?thesis
  proof (cases y)
    case (Inl e)
    have "always (frame db_tenants) (load_child r c)"
      unfolding load_child_def by (intro frame.always_rules frame_directory_queries)
    then have "db_tenants (db w1) = db_tenants (db w)" using Pair by (auto dest!: alwaysD simp: frame_def)
    moreover have "w' = w1"
      using run unfolding delete_tenant_def run_and_then_cases(2) [OF Pair [unfolded Inl]] by simp
    ultimately show ?thesis using inv tree_inv_cong by metis
  next
    case (Inr t)
    note t = load_child_Inr [OF Pair [unfolded Inr]]
    from inv obtain root where root: "root \<in> set (db_tenants (db w))" "tenant_is_root root" "t_id root = R"
      and d: "distinct (map t_id (db_tenants (db w)))" by (auto simp: tree_inv_def dest: tree_ok_distinct)
    have "inj_on t_id (set (db_tenants (db w)))" using d by (simp add: distinct_map)
    from inj_onD [OF this, of t root] have "t_id t \<noteq> R"
      using t root by (auto simp: tenant_is_root_def)
    then have "always (keeps (tree_inv R)) (tenants_delete (t_id t))" by (rule keeps_tenants_delete)
    then have rest: "always (keeps (tree_inv R))
      (and_then (require (\<not> tenant_is_root t) (TenantForbidden ''the root tenant cannot be deleted'')) (\<lambda>_.
       and_then (map_err tenant_internal (tenants_list_children (t_id t))) (\<lambda>grandchildren.
       and_then (require (grandchildren = []) (TenantConflict ''tenant has child tenants'')) (\<lambda>_.
       and_then (map_err tenant_conflict (tenants_delete (t_id t))) (\<lambda>_. do {
       audit_record TenantDeleted AuditSuccess (Some (t_id t)) (Some a) None (Some (tenant_reason E (t_id t))) ctx;
       State_Monad.return (Inr ()) })))))" (is "always _ ?rest")
      unfolding tenants_list_children_def by (intro keeps_tree_rules)
    have "run_state ?rest w1 = (x, w')"
      using run unfolding delete_tenant_def run_and_then_cases(1) [OF Pair [unfolded Inr]] .
    from alwaysD [OF rest this] inv t show ?thesis by (simp add: keeps_def)
  qed
qed

lemma keeps_resolve: "always (keeps (tree_inv R)) (resolve_tenant C i)"
proof -
  have "always (keeps (tree_inv R)) (tenant_cache_get k)" "always (keeps (tree_inv R)) (tenant_cache_insert C k t)" for k t
    by (rule alwaysI; simp add: tenant_cache_get_def tenant_cache_insert_def wp_State keeps_def split: prod.splits)+
  then show ?thesis unfolding resolve_tenant_def tenants_find_by_id_def by (intro keeps_tree_rules)
qed

text \<open>The requests that concern tenants, by anyone and with any outcome.\<close>

inductive tenant_step :: "libs \<Rightarrow> config \<Rightarrow> world \<Rightarrow> world \<Rightarrow> bool" for E C where
  create: "run_state (create_tenant E r n a ctx) w = (x, w') \<Longrightarrow> tenant_step E C w w'"
| update: "run_state (update_tenant E r c cmd a ctx) w = (x, w') \<Longrightarrow> tenant_step E C w w'"
| settings: "run_state (update_current_settings E r n b a ctx) w = (x, w') \<Longrightarrow> tenant_step E C w w'"
| delete: "run_state (delete_tenant E r c a ctx) w = (y, w') \<Longrightarrow> tenant_step E C w w'"
| resolve: "run_state (resolve_tenant C i) w = (z, w') \<Longrightarrow> tenant_step E C w w'"

lemma tenant_step_tree: "tenant_step E C w w' \<Longrightarrow> tree_inv R (db w) \<Longrightarrow> tree_inv R (db w')"
  by (induction rule: tenant_step.induct)
     (auto simp: keeps_def dest: alwaysD [OF keeps_tenant_operations(1)] alwaysD [OF keeps_tenant_operations(2)]
        alwaysD [OF keeps_tenant_operations(3)] alwaysD [OF keeps_resolve] intro: delete_tenant_tree)

subsection \<open>Provisioning\<close>

text \<open>What the creation of the tenant \<open>t\<close> by \<open>actor\<close> adds.\<close>

definition bootstrapped :: "libs \<Rightarrow> tenant \<Rightarrow> uuid \<Rightarrow> database \<Rightarrow> database \<Rightarrow> bool" where
  "bootstrapped E t actor d d' \<longleftrightarrow>
     t_id t \<notin> t_id ` set (db_tenants d) \<and> parent_exists t d \<and>
     (\<exists>now. db_tenants d' = db_tenants d @ [t\<lparr>t_created_at := now, t_updated_at := now\<rparr>]) \<and>
     (\<exists>m. membership_key (t_id t) actor m \<and> tm_membership_type m = Guest \<and> membership_is_active m \<and>
        db_memberships d' = db_memberships d @ [m]) \<and>
     holds_permission E d' (t_id t) actor tenant_admin \<and> db_users d' = db_users d"

lemma provision_transaction:
  fixes t :: tenant and actor :: uuid and now :: instant
  assumes "tx_then (tx_then (insert_tenant E t) (insert_membership (new_active_guest (t_id t) actor now)))
     (insert_grant E (t_id t) actor TENANT_ADMIN_PERMISSION now) now' d = (r, d')"
  shows "(\<exists>e. r = Inl e) \<and> d' = d \<or> r = Inr () \<and> bootstrapped E t actor d d'"
proof -
  have perm: "holds_permission E d2 (t_id t) actor tenant_admin"
    if "insert_grant E (t_id t) actor TENANT_ADMIN_PERMISSION now now' d1 = (Inr (), d2)" for d1 d2
    using that by (auto simp: insert_grant_def holds_permission_def permission_key_def db_eq_def
        TENANT_ADMIN_PERMISSION_def tenant_admin_def split: if_splits)
  have grant: "db_tenants d2 = db_tenants d1" "db_memberships d2 = db_memberships d1" "db_users d2 = db_users d1"
    if "insert_grant E (t_id t) actor TENANT_ADMIN_PERMISSION now now' d1 = (Inr (), d2)" for d1 d2
    using that by (auto simp: insert_grant_def split: if_splits)
  show ?thesis
  proof (cases r)
    case (Inl e)
    with assms show ?thesis by (auto simp: tx_then_def split: prod.splits sum.splits)
  next
    case (Inr x)
    with assms obtain d0 d1 where t: "insert_tenant E t now' d = (Inr (), d0)"
      and m: "insert_membership (new_active_guest (t_id t) actor now) now' d0 = (Inr (), d1)"
      and g: "insert_grant E (t_id t) actor TENANT_ADMIN_PERMISSION now now' d1 = (Inr (), d')"
      by (auto simp: tx_then_def split: prod.splits sum.splits)
    from t have d0: "t_id t \<notin> t_id ` set (db_tenants d)" "parent_exists t d"
      "d0 = d\<lparr>db_tenants := db_tenants d @ [t\<lparr>t_created_at := micros now', t_updated_at := micros now'\<rparr>]\<rparr>"
      by (auto simp: insert_tenant_def list_ex_iff split: if_splits)
    let ?row = "(new_active_guest (t_id t) actor now)
      \<lparr>tm_invitation_expires_at := None, tm_created_at := micros now', tm_updated_at := micros now'\<rparr>"
    have "membership_key (t_id t) actor ?row" "tm_membership_type ?row = Guest" "membership_is_active ?row"
      by (simp_all add: new_active_guest_def membership_key_def membership_is_active_def)
    moreover from m have "d1 = d0\<lparr>db_memberships := db_memberships d0 @ [?row]\<rparr>"
      by (simp add: insert_membership_def new_active_guest_def split: if_splits)
    ultimately show ?thesis using d0 perm [OF g] grant [OF g] Inr
      unfolding bootstrapped_def by (intro disjI2 conjI exI [of _ ?row] exI [of _ "micros now'"]) simp_all
  qed
qed

lemma provision_effect:
  assumes "run_state (provision E t (new_active_guest (t_id t) actor now) TENANT_ADMIN_PERMISSION now) w = (r, w')"
  shows "(\<exists>e. r = Inl e) \<and> db w' = db w \<or> bootstrapped E t actor (db w) (db w')"
proof -
  define F where "F = tx_then (tx_then (insert_tenant E t) (insert_membership (new_active_guest (t_id t) actor now)))
     (insert_grant E (t_id t) actor TENANT_ADMIN_PERMISSION now) (clock_src w (ticks w)) (db w)"
  obtain r0 d0 where F: "F = (r0, d0)" by (cases F)
  from assms F have "db w' = d0 \<and> (r = r0 \<or> (\<exists>e. r = Inl e)) \<or> db w' = db w \<and> (\<exists>e. r = Inl e)"
    by (auto simp: provision_def new_active_guest_def F_def db_call_def Let_def split: option.splits if_splits)
  with provision_transaction [OF F [unfolded F_def]] show ?thesis by auto
qed

lemma bootstrapped_cong:
  "bootstrapped E t a d d' \<Longrightarrow> tables d'' = tables d' \<Longrightarrow> bootstrapped E t a d d''"
  by (auto simp: bootstrapped_def tables_eq_iff holds_permission_def)

lemma create_tenant_effect:
  assumes "run_state (create_tenant E r n a ctx) w = (x, w')"
  shows "(\<exists>e. x = Inl e) \<and> db w' = db w \<or>
     (\<exists>t. t_parent_tenant_id t = Some r \<and> t_name t = trim n \<and> trim n \<noteq> [] \<and> tenant_is_active t \<and>
        \<not> t_self_registration_enabled t \<and> bootstrapped E t a (db w) (db w') \<and> (x = Inr t \<or> (\<exists>e. x = Inl e)))"
proof (cases "trim n = []")
  case True
  with assms show ?thesis
    by (cases x) (auto simp: create_tenant_def validate_tenant_name_def run_rules)
next
  case False
  let ?w = "draw (tick w)"
  let ?now = "clock_src w (ticks w)"
  let ?t = "\<lparr>t_id = uuid_src w (draws w), t_parent_tenant_id = Some r, t_name = trim n, t_status = TenantActive,
              t_self_registration_enabled = False, t_created_at = ?now, t_updated_at = ?now\<rparr>"
  let ?p = "run_state (provision E ?t (new_active_guest (t_id ?t) a ?now) TENANT_ADMIN_PERMISSION ?now) ?w"
  obtain y w1 where p: "?p = (y, w1)" by (cases ?p)
  have t: "t_parent_tenant_id ?t = Some r" "t_name ?t = trim n" "tenant_is_active ?t" "\<not> t_self_registration_enabled ?t"
    by (simp_all add: tenant_is_active_def)
  have finish: "(\<exists>e. y = Inl e) \<and> (\<exists>e. x = Inl e) \<and> w' = w1 \<or> (\<exists>u. y = Inr u) \<and> x = Inr ?t \<and> tables (db w') = tables (db w1)"
  proof (cases y)
    case (Inl e)
    with assms False p show ?thesis
      by (cases x) (auto simp: create_tenant_def validate_tenant_name_def new_id_def run_rules)
  next
    case (Inr u)
    with assms False p show ?thesis
      by (cases x) (auto simp: create_tenant_def validate_tenant_name_def new_id_def run_rules dest: run_audit)
  qed
  from provision_effect [OF p] consider (nothing) e where "y = Inl e" "db w1 = db w"
    | (all) "bootstrapped E ?t a (db w) (db w1)" by (auto simp del: tenant.simps)
  then show ?thesis
  proof cases
    case nothing
    with finish show ?thesis by (intro disjI1) auto
  next
    case all
    with finish have "bootstrapped E ?t a (db w) (db w')" and "x = Inr ?t \<or> (\<exists>e. x = Inl e)"
      by (auto intro: bootstrapped_cong)
    with t False show ?thesis by blast
  qed
qed

subsection \<open>Resolution\<close>

lemma resolve_tenantE:
  assumes "run_state (resolve_tenant C i) w = (x, w')"
  obtains (hit) t e where "tenant_cache w i = Some (t, e)" "clock_src w (ticks w) < e"
      "x = Inr (then_some (tenant_is_active t) t)" "w' = tick w"
  | (miss) m where "x = Inr None \<or> (\<exists>e. x = Inl e)" "m i = None" "\<forall>k. m k = None \<or> m k = tenant_cache w k"
      "w' = (called (tick w))\<lparr>tenant_cache := m\<rparr>"
  | (load) t e m where "find (\<lambda>t. t_id t = i) (db_tenants (db w)) = Some t" "\<forall>k. m k = None \<or> m k = tenant_cache w k"
      "x = Inr (then_some (tenant_is_active t) t)"
      "w' = (tick (called (tick w)))\<lparr>tenant_cache := m(i := Some (t, e))\<rparr>"
proof -
  let ?now = "clock_src w (ticks w)"
  obtain r m where g: "cache_get i ?now (tenant_cache w) = (r, m)" by (cases "cache_get i ?now (tenant_cache w)")
  show thesis
  proof (cases r)
    case (Some t)
    with g obtain e where "tenant_cache w i = Some (t, e)" "?now < e" "m = tenant_cache w"
      by (auto simp: cache_get_def split: option.splits if_splits)
    with assms g Some show thesis by (intro hit [of t e]) (auto simp: resolve_tenant_def run_rules tick_def)
  next
    case None
    with g have m: "m i = None" "\<forall>k. m k = None \<or> m k = tenant_cache w k"
      by (auto simp: cache_get_def split: option.splits if_splits)
    from assms g None consider (a) "x = Inr None \<or> (\<exists>e. x = Inl e)" "w' = (called (tick w))\<lparr>tenant_cache := m\<rparr>"
      | (b) t where "find (\<lambda>t. t_id t = i) (db_tenants (db w)) = Some t" "x = Inr (then_some (tenant_is_active t) t)"
        "w' = (tick (called (tick w)))\<lparr>tenant_cache := m(i := Some (t, clock_src w (Suc (Suc (ticks w))) + tenant_cache_ttl C))\<rparr>"
      by (cases x) (auto simp: resolve_tenant_def run_rules tenants_find_by_id_def cache_insert_def tick_def called_def)
    then show thesis
    proof cases
      case a
      with m show thesis by (intro miss)
    next
      case (b t)
      with m show thesis by (intro load)
    qed
  qed
qed

lemma resolve_tenant_Some:
  assumes "run_state (resolve_tenant C i) w = (Inr (Some t), w')"
  shows "tenant_is_active t \<and> ((\<exists>e. tenant_cache w i = Some (t, e) \<and> clock_src w (ticks w) < e) \<or>
     find (\<lambda>t. t_id t = i) (db_tenants (db w)) = Some t)"
  using assms by (cases rule: resolve_tenantE) (auto simp: then_some_def split: if_splits)

lemma resolve_tenant_cache:
  assumes "run_state (resolve_tenant C j) w = (x, w')"
  shows "db w' = db w" "tenant_cache w' k = None \<or> tenant_cache w' k = tenant_cache w k \<or>
     (\<exists>t e. tenant_cache w' k = Some (t, e) \<and> t \<in> set (db_tenants (db w)) \<and> t_id t = k)"
proof -
  show "db w' = db w" using assms by (cases rule: resolve_tenantE) simp_all
  show "tenant_cache w' k = None \<or> tenant_cache w' k = tenant_cache w k \<or>
     (\<exists>t e. tenant_cache w' k = Some (t, e) \<and> t \<in> set (db_tenants (db w)) \<and> t_id t = k)"
    using assms
  proof (cases rule: resolve_tenantE)
    case (hit t e)
    then show ?thesis by (simp add: tick_def)
  next
    case (miss m)
    then have "m k = None \<or> m k = tenant_cache w k" by blast
    with miss(4) show ?thesis by auto
  next
    case (load t e m)
    then have "m k = None \<or> m k = tenant_cache w k" by blast
    with load(1,4) show ?thesis by (auto dest: find_SomeD)
  qed
qed

text \<open>No tenant \<open>i\<close> is active in the database, and what the cache has of it ends by \<open>D\<close>.\<close>

definition fading :: "tenant_id \<Rightarrow> instant \<Rightarrow> world \<Rightarrow> bool" where
  "fading i D w \<longleftrightarrow>
     (\<forall>t e. tenant_cache w i = Some (t, e) \<longrightarrow> tenant_is_active t \<longrightarrow> e \<le> D) \<and>
     (\<forall>t \<in> set (db_tenants (db w)). t_id t = i \<longrightarrow> \<not> tenant_is_active t)"

lemma fading_resolve:
  assumes "run_state (resolve_tenant C j) w = (x, w')" and "fading i D w"
  shows "fading i D w'"
  using resolve_tenant_cache(1) [OF assms(1)] resolve_tenant_cache(2) [OF assms(1), of i] assms(2)
  by (auto simp: fading_def)

lemma fading_None:
  assumes "fading i D w" and "D \<le> clock_src w (ticks w)"
  shows "fst (run_state (resolve_tenant C i) w) \<noteq> Inr (Some t)"
proof
  assume "fst (run_state (resolve_tenant C i) w) = Inr (Some t)"
  from resolve_tenant_Some [OF run_fstI [OF this]] assms show False
    by (auto simp: fading_def dest: find_SomeD)
qed

fun resolve_all :: "config \<Rightarrow> tenant_id list \<Rightarrow> (world, unit) state" where
  "resolve_all C [] = State_Monad.return ()"
| "resolve_all C (i # is) = do { _ \<leftarrow> resolve_tenant C i; resolve_all C is }"

lemma fading_resolve_all:
  "run_state (resolve_all C is) w = (x, w') \<Longrightarrow> fading i D w \<Longrightarrow> fading i D w'"
  by (induction "is" arbitrary: w) (auto simp: run_bindE run_returnE dest: fading_resolve)

section \<open>Properties\<close>

text \<open>
  C16. The tenants stay one tree. Whatever tenants are created, changed and deleted, by whomever and with
  whatever failures of the database, identifiers stay unique, the root stays, and every tenant is
  connected to it by its chain of parents.
\<close>

theorem tenants_stay_a_tree:
  assumes "(tenant_step E C)\<^sup>*\<^sup>* w w'" and "tree_ok {} (db_tenants (db w))"
    and "root \<in> set (db_tenants (db w))" and "tenant_is_root root"
  shows "distinct (map t_id (db_tenants (db w'))) \<and>
     (\<exists>r \<in> set (db_tenants (db w')). t_id r = t_id root \<and> tenant_is_root r \<and>
        (\<forall>t \<in> set (db_tenants (db w')). (child_of (db_tenants (db w')))\<^sup>*\<^sup>* t r))"
proof -
  have "tree_inv (t_id root) (db w)" using assms(2-4) by (auto simp: tree_inv_def)
  with assms(1) have inv: "tree_inv (t_id root) (db w')"
    by (induction rule: rtranclp_induct) (auto intro: tenant_step_tree)
  then obtain r where r: "r \<in> set (db_tenants (db w'))" "tenant_is_root r" "t_id r = t_id root"
    and ok: "tree_ok {} (db_tenants (db w'))" by (auto simp: tree_inv_def)
  have "r' = r" if "r' \<in> set (db_tenants (db w'))" "tenant_is_root r'" for r'
    by (rule tree_one_root [OF ok r(1,2) that])
  with tree_reaches_root [OF ok] have "(child_of (db_tenants (db w')))\<^sup>*\<^sup>* t r" if "t \<in> set (db_tenants (db w'))" for t
    using that by blast
  with r tree_ok_distinct [OF ok] show ?thesis by auto
qed

theorem tenants_stay_a_tree_witness:
  "\<exists>w'. (tenant_step sample_libs sample_config)\<^sup>*\<^sup>* sample_world w' \<and> map t_id (db_tenants (db w')) = [9, 1, 10] \<and>
     (\<exists>r \<in> set (db_tenants (db w')). t_id r = 9 \<and> tenant_is_root r)"
proof -
  let ?run = "run_state (create_tenant sample_libs 1 '' New '' 2 sample_ctx) sample_world"
  have step: "tenant_step sample_libs sample_config sample_world (snd ?run)"
    by (rule tenant_step.create [OF run_fstI [OF refl]])
  have ids: "map t_id (db_tenants (db (snd ?run))) = [9, 1, 10]" by code_simp
  have ok: "tree_ok {} (db_tenants (db sample_world))"
    and root: "sample_root \<in> set (db_tenants (db sample_world))" "tenant_is_root sample_root"
    by (simp_all add: sample_world_def sample_db_def sample_tenant_def sample_root_def tenant_is_root_def)
  note all = r_into_rtranclp [where r = "tenant_step sample_libs sample_config", OF step]
  have "\<exists>r \<in> set (db_tenants (db (snd ?run))). t_id r = 9 \<and> tenant_is_root r"
    using tenants_stay_a_tree [OF all ok root] by (auto simp: sample_root_def)
  with all ids show ?thesis by (intro exI [of _ "snd ?run"] conjI)
qed

text \<open>
  C17. Only direct children are in reach. A tenant that is not a direct child of the requesting one, be it
  the root, a grandchild, the requester itself or the child of another, is answered like one that
  does not exist: reading, changing and deleting it give the same error and change nothing.
\<close>

theorem foreign_tenant_out_of_reach:
  assumes "\<forall>t \<in> set (db_tenants (db w)). t_id t = c \<longrightarrow> t_parent_tenant_id t \<noteq> Some r"
    and "fault_src w (db_calls w) = None"
  shows "run_state (get_child r c) w = (Inl TenantNotFound, called w) \<and>
     run_state (update_tenant E r c cmd a ctx) w = (Inl TenantNotFound, called w) \<and>
     run_state (delete_tenant E r c a ctx) w = (Inl TenantNotFound, called w)"
  using load_child_other [OF assms]
  by (simp add: get_child_def update_tenant_def delete_tenant_def run_and_then_cases(2))

theorem foreign_tenant_out_of_reach_witness:
  "run_state (delete_tenant sample_libs 1 9 2 sample_ctx) sample_world = (Inl TenantNotFound, called sample_world)"
proof -
  have "\<forall>t \<in> set (db_tenants (db sample_world)). t_id t = 9 \<longrightarrow> t_parent_tenant_id t \<noteq> Some 1"
    "fault_src sample_world (db_calls sample_world) = None"
    by (simp_all add: sample_world_def sample_db_def sample_tenant_def sample_root_def)
  from foreign_tenant_out_of_reach [OF this] show ?thesis by blast
qed

text \<open>
  Creating a tenant is all or nothing. Whatever the outcome, either the database is as before, or
  there is a new active tenant below the requesting one, closed to self-registration, whose creator
  is an active guest of it with the permission to administer it. Success means the latter.
\<close>

theorem create_tenant_atomic:
  assumes "run_state (create_tenant E r n a ctx) w = (x, w')"
  shows "(\<exists>e. x = Inl e) \<and> db w' = db w \<or>
     (\<exists>t. t_parent_tenant_id t = Some r \<and> t_name t = trim n \<and> trim n \<noteq> [] \<and> tenant_is_active t \<and>
        \<not> t_self_registration_enabled t \<and> bootstrapped E t a (db w) (db w') \<and> (x = Inr t \<or> (\<exists>e. x = Inl e)))"
  using assms by (rule create_tenant_effect)

theorem create_tenant_atomic_witness:
  "\<exists>t w'. run_state (create_tenant sample_libs 1 ''New'' 2 sample_ctx) sample_world = (Inr t, w') \<and>
     bootstrapped sample_libs t 2 (db sample_world) (db w')"
proof -
  have ok: "\<not> isl (fst (run_state (create_tenant sample_libs 1 ''New'' 2 sample_ctx) sample_world))" by code_simp
  obtain t w' where run: "run_state (create_tenant sample_libs 1 ''New'' 2 sample_ctx) sample_world = (Inr t, w')"
    using run_InrI [OF ok] by blast
  from create_tenant_atomic [OF run] run show ?thesis by auto
qed

lemma update_tenant_fading:
  assumes "run_state (update_tenant E r i \<lparr>ut_name = n, ut_status = Some TenantDisabled\<rparr> a ctx) w = (Inr t, w0)"
    and "\<forall>t e. tenant_cache w i = Some (t, e) \<longrightarrow> e \<le> D"
  shows "fading i D w0"
proof -
  from assms(1) obtain t0 t1 w1 w2 y z where parts: "run_state (load_child r i) w = (Inr t0, w1)"
    "rename_tenant n t0 = Inr t1" "run_state (tenants_update (t1\<lparr>t_status := TenantDisabled\<rparr>)) w1 = (Inr y, w2)"
    "run_state (audit_record TenantUpdated AuditSuccess (Some (t_id t1)) (Some a) None (Some (tenant_reason E (t_id t1))) ctx) w2 = (z, w0)"
    unfolding update_tenant_def by (auto simp: run_and_then_Inr run_map_err_Inr run_bindE run_returnE run_letE)
  have t1: "t_id t1 = i"
    using parts(2) load_child_Inr [OF parts(1)]
    by (auto simp: rename_tenant_def split: option.splits sum.splits)
  have w2: "db_tenants (db w2) = update_where (\<lambda>x. t_id x = i)
      (\<lambda>x. x\<lparr>t_name := t_name t1, t_status := TenantDisabled,
             t_self_registration_enabled := t_self_registration_enabled t1\<rparr>) (db_tenants (db w))"
    "tenant_cache w2 = tenant_cache w"
    using parts(3) load_child_Inr [OF parts(1)] t1 by (auto simp: tenants_update_def run_rules called_def)
  have "tenant_cache w0 = tenant_cache w2"
    using parts(4) by (auto simp: audit_record_def audit_sink_record_def db_execute_def db_call_def run_rules
        tick_def Let_def split: option.splits if_splits)
  moreover have "db_tenants (db w0) = db_tenants (db w2)" using run_audit [OF parts(4)] by (simp add: tables_eq_iff)
  moreover have "\<not> tenant_is_active t" if "t \<in> set (db_tenants (db w2))" "t_id t = i" for t
  proof -
    from that(1) obtain x where x: "t = (if t_id x = i then x\<lparr>t_name := t_name t1, t_status := TenantDisabled,
        t_self_registration_enabled := t_self_registration_enabled t1\<rparr> else x)"
      unfolding w2 set_update_where by blast
    show ?thesis using x that(2) by (cases "t_id x = i") (simp_all add: tenant_is_active_def)
  qed
  ultimately show ?thesis using w2(2) assms(2) by (auto simp: fading_def)
qed

text \<open>
  A disabled tenant fades out of the resolution. Once a tenant is disabled, requests may be resolved
  to it from the cache, but not longer than the time to live after the last instant at which it was
  cached before, however many requests to whatever tenants come in between.
\<close>

theorem disabled_tenant_fades:
  assumes "run_state (update_tenant E r i \<lparr>ut_name = n, ut_status = Some TenantDisabled\<rparr> a ctx) w = (Inr t, w0)"
    and "\<forall>t e. tenant_cache w i = Some (t, e) \<longrightarrow> e \<le> T + tenant_cache_ttl C"
    and "run_state (resolve_all C is) w0 = (x, w1)"
    and "T + tenant_cache_ttl C \<le> clock_src w1 (ticks w1)"
  shows "fst (run_state (resolve_tenant C i) w1) \<noteq> Inr (Some t')"
  by (rule fading_None [OF fading_resolve_all [OF assms(3) update_tenant_fading [OF assms(1,2)]] assms(4)])

definition cached_tenant_world :: world where
  "cached_tenant_world = sample_world\<lparr>tenant_cache := [1 \<mapsto> (sample_tenant, seconds 1020)],
     clock_src := (\<lambda>n. if n < 3 then seconds 1000 else seconds 1030)\<rparr>"

theorem disabled_tenant_fades_witness:
  "\<exists>t w0. run_state (update_tenant sample_libs 9 1 \<lparr>ut_name = None, ut_status = Some TenantDisabled\<rparr> 2 sample_ctx)
       cached_tenant_world = (Inr t, w0) \<and>
     fst (run_state (resolve_tenant sample_config 1) w0) \<noteq> Inr (Some t)"
proof -
  let ?run = "run_state (update_tenant sample_libs 9 1 \<lparr>ut_name = None, ut_status = Some TenantDisabled\<rparr> 2 sample_ctx) cached_tenant_world"
  have ok: "\<not> isl (fst ?run)" by code_simp
  obtain t w0 where run: "?run = (Inr t, w0)" using run_InrI [OF ok] by blast
  have cached: "\<forall>t e. tenant_cache cached_tenant_world 1 = Some (t, e) \<longrightarrow> e \<le> seconds 960 + tenant_cache_ttl sample_config"
    by (auto simp: cached_tenant_world_def sample_config_def seconds_def)
  have none: "run_state (resolve_all sample_config []) w0 = ((), w0)" by simp
  have "seconds 960 + tenant_cache_ttl sample_config \<le> clock_src (snd ?run) (ticks (snd ?run))" by code_simp
  then have late: "seconds 960 + tenant_cache_ttl sample_config \<le> clock_src w0 (ticks w0)" by (simp add: run)
  from disabled_tenant_fades [OF run cached none late] run show ?thesis by blast
qed

text \<open>
  Nothing calls \<open>invalidate\<close> when a tenant changes: until the entry expires, a tenant that has just been
  disabled is still resolved.
\<close>

lemma disabled_tenant_still_resolved:
  "\<exists>t w0 t'. run_state (update_tenant sample_libs 9 1 \<lparr>ut_name = None, ut_status = Some TenantDisabled\<rparr> 2 sample_ctx)
       (sample_world\<lparr>tenant_cache := [1 \<mapsto> (sample_tenant, seconds 1020)]\<rparr>) = (Inr t, w0) \<and>
     fst (run_state (resolve_tenant sample_config 1) w0) = Inr (Some t') \<and> tenant_is_active t'"
proof -
  let ?w = "sample_world\<lparr>tenant_cache := [1 \<mapsto> (sample_tenant, seconds 1020)]\<rparr>"
  let ?run = "run_state (update_tenant sample_libs 9 1 \<lparr>ut_name = None, ut_status = Some TenantDisabled\<rparr> 2 sample_ctx) ?w"
  have ok: "\<not> isl (fst ?run)" by code_simp
  obtain t w0 where run: "?run = (Inr t, w0)" using run_InrI [OF ok] by blast
  have "fst (run_state (resolve_tenant sample_config 1) (snd ?run)) = Inr (Some sample_tenant)" by code_simp
  then have "fst (run_state (resolve_tenant sample_config 1) w0) = Inr (Some sample_tenant)" by (simp add: run)
  moreover have "tenant_is_active sample_tenant" by code_simp
  ultimately show ?thesis using run by blast
qed

end
