(* ===== verification/Registration.thy ===== *)
theory Registration
  imports MfaLogin Permissions Tenants
begin

text \<open>
  The two ways an account comes into being: by an administrator (\<^verbatim>\<open>application/user_management.rs\<close>), with
  a generated password that has to be changed, and by self-registration (\<^verbatim>\<open>application/register.rs\<close>),
  where the tenant allows it, with an address that has to be verified.
\<close>

section \<open>Model\<close>

text \<open>
  Both services check that address and login name are free, and store the user and then the membership
  in the home tenant; \<open>fail\<close> and \<open>clash\<close> are their own constructors of errors.
\<close>

definition ensure_free ::
  "libs \<Rightarrow> (domain_error \<Rightarrow> 'e) \<Rightarrow> (string \<Rightarrow> 'e) \<Rightarrow> tenant_id \<Rightarrow> string \<Rightarrow> string \<Rightarrow> (world, 'e + unit) state" where
  "ensure_free E fail clash tenant_id email preferred_username =
     and_then (map_err fail (users_find_by_email E tenant_id email)) (\<lambda>found.
     and_then (require (found = None) (clash ''email already registered'')) (\<lambda>_.
     and_then (map_err fail (users_find_by_username E tenant_id preferred_username)) (\<lambda>found.
     require (found = None) (clash ''preferred_username already taken''))))"

definition store_home_user ::
  "libs \<Rightarrow> (domain_error \<Rightarrow> 'e) \<Rightarrow> (string \<Rightarrow> 'e) \<Rightarrow> tenant_id \<Rightarrow> user \<Rightarrow> (world, 'e + unit) state" where
  "store_home_user E fail clash tenant_id user =
     and_then (map_err (\<lambda>e. case e of Conflict m \<Rightarrow> clash m | _ \<Rightarrow> fail e) (users_create E user)) (\<lambda>_.
     map_err fail (memberships_create (new_home tenant_id (u_id user) (u_created_at user))))"

subsection \<open>By an administrator\<close>

record create_user_command =
  cu_email :: string
  cu_preferred_username :: "string option"
  cu_name :: "string option"

record created_user =
  cr_user_id :: uuid
  cr_sub :: uuid
  cr_generated_password :: string

datatype user_management_error =
    UserMgmtValidation string
  | UserMgmtConflict string
  | UserMgmtInternal string

definition user_mgmt_internal :: "domain_error \<Rightarrow> user_management_error" where
  "user_mgmt_internal e = UserMgmtInternal (domain_error_to_string e)"

definition user_mgmt_invalid :: "domain_error \<Rightarrow> user_management_error" where
  "user_mgmt_invalid e = UserMgmtValidation (domain_error_to_string e)"

definition CREATED_PASSWORD_BYTES :: nat where
  "CREATED_PASSWORD_BYTES = 32"

definition prepare_user ::
  "libs \<Rightarrow> tenant_id \<Rightarrow> create_user_command \<Rightarrow> (world, user_management_error + user \<times> string) state" where
  "prepare_user E tenant_id cmd =
     (let email = trim (cu_email cmd) in
      and_then (map_err user_mgmt_invalid (State_Monad.return (validate_email email))) (\<lambda>_.
      let preferred_username = (case normalize_optional (cu_preferred_username cmd) of Some n \<Rightarrow> n | None \<Rightarrow> email) in
      and_then (map_err user_mgmt_invalid (State_Monad.return (validate_preferred_username preferred_username))) (\<lambda>_.
      and_then (ensure_free E user_mgmt_internal UserMgmtConflict tenant_id email preferred_username) (\<lambda>_. do {
      generated_password \<leftarrow> random_token E CREATED_PASSWORD_BYTES;
      and_then (map_err user_mgmt_internal (hasher_hash E generated_password)) (\<lambda>password_hash. do {
      now \<leftarrow> clock_now;
      i \<leftarrow> new_id;
      sub \<leftarrow> new_id;
      State_Monad.return (Inr
        (\<lparr>u_id = i, u_tenant_id = tenant_id, u_sub = sub, u_email = email, u_email_verified = True,
          u_preferred_username = Some preferred_username, u_name = normalize_optional (cu_name cmd),
          u_language = None, u_password_hash = password_hash, u_must_change_password = True,
          u_status = UserActive, u_failed_login_count = 0, u_locked_until = None,
          u_created_at = now, u_updated_at = now\<rparr>, generated_password)) }) }))))"

definition create_user ::
  "libs \<Rightarrow> tenant_id \<Rightarrow> create_user_command \<Rightarrow> uuid \<Rightarrow> request_context \<Rightarrow>
   (world, user_management_error + created_user) state" where
  "create_user E tenant_id cmd actor ctx =
     and_then (prepare_user E tenant_id cmd) (\<lambda>(user, generated_password).
     and_then (store_home_user E user_mgmt_internal UserMgmtConflict tenant_id user) (\<lambda>_. do {
     audit_record UserCreated AuditSuccess (Some tenant_id) (Some actor) None
       (Some (''user='' @ uuid_to_string E (u_id user))) ctx;
     State_Monad.return (Inr \<lparr>cr_user_id = u_id user, cr_sub = u_sub user,
                              cr_generated_password = generated_password\<rparr>) }))"

subsection \<open>Self-registration\<close>

definition REGISTER_RATE_LIMIT_MAX_ATTEMPTS :: nat where
  "REGISTER_RATE_LIMIT_MAX_ATTEMPTS = 10"

definition REGISTER_RATE_LIMIT_WINDOW_MINUTES :: int where
  "REGISTER_RATE_LIMIT_WINDOW_MINUTES = 5"

record register_command =
  rc_email :: string
  rc_preferred_username :: "string option"
  rc_password :: string
  rc_name :: "string option"

record registered_user =
  rg_sub :: uuid
  rg_user_id :: uuid
  rg_status :: user_status
  rg_email :: string

datatype register_error =
    RegisterValidation string
  | RegisterForbidden string
  | RegisterRateLimited
  | RegisterConflict string
  | RegisterInternal string

definition register_internal :: "domain_error \<Rightarrow> register_error" where
  "register_internal e = RegisterInternal (domain_error_to_string e)"

definition register_invalid :: "domain_error \<Rightarrow> register_error" where
  "register_invalid e = RegisterValidation (domain_error_to_string e)"

definition register_check_and_record :: "string \<Rightarrow> instant \<Rightarrow> (world, bool) state" where
  "register_check_and_record key now = State (\<lambda>w.
     let (ok, m) = limiter_step REGISTER_RATE_LIMIT_MAX_ATTEMPTS
                     (minutes REGISTER_RATE_LIMIT_WINDOW_MINUTES) key now (register_attempts w)
     in (ok, w\<lparr>register_attempts := m\<rparr>))"

text \<open>The limit per address, and the tenant's own switch, which is read from the database.\<close>

definition register_gates :: "tenant_id \<Rightarrow> string option \<Rightarrow> (world, register_error + unit) state" where
  "register_gates tenant_id ip = do {
     now \<leftarrow> clock_now;
     admitted \<leftarrow> register_check_and_record (case ip of Some a \<Rightarrow> a | None \<Rightarrow> ''unknown'') now;
     and_then (require admitted RegisterRateLimited) (\<lambda>_.
     and_then (map_err register_internal (tenants_find_by_id tenant_id)) (\<lambda>found.
     require (case found of Some t \<Rightarrow> t_self_registration_enabled t | None \<Rightarrow> False)
       (RegisterForbidden ''self-registration is disabled for this tenant'')))
   }"

definition register_prepare ::
  "libs \<Rightarrow> tenant_id \<Rightarrow> register_command \<Rightarrow> (world, register_error + user) state" where
  "register_prepare E tenant_id cmd =
     (let email = trim (rc_email cmd) in
      and_then (map_err register_invalid (State_Monad.return (validate_email email))) (\<lambda>_.
      and_then (map_err RegisterValidation (State_Monad.return (validate_password_strength (rc_password cmd)))) (\<lambda>_.
      let preferred_username = (case normalize_optional (rc_preferred_username cmd) of Some n \<Rightarrow> n | None \<Rightarrow> email) in
      and_then (map_err register_invalid (State_Monad.return (validate_preferred_username preferred_username))) (\<lambda>_.
      and_then (ensure_free E register_internal RegisterConflict tenant_id email preferred_username) (\<lambda>_.
      and_then (map_err register_internal (hasher_hash E (rc_password cmd))) (\<lambda>password_hash. do {
      now \<leftarrow> clock_now;
      i \<leftarrow> new_id;
      sub \<leftarrow> new_id;
      State_Monad.return (Inr
        \<lparr>u_id = i, u_tenant_id = tenant_id, u_sub = sub, u_email = email, u_email_verified = False,
         u_preferred_username = Some preferred_username, u_name = normalize_optional (rc_name cmd),
         u_language = None, u_password_hash = password_hash, u_must_change_password = False,
         u_status = UserActive, u_failed_login_count = 0, u_locked_until = None,
         u_created_at = now, u_updated_at = now\<rparr>) }))))))"

definition register ::
  "libs \<Rightarrow> tenant_id \<Rightarrow> register_command \<Rightarrow> string option \<Rightarrow> (world, register_error + registered_user) state" where
  "register E tenant_id cmd ip =
     and_then (register_gates tenant_id ip) (\<lambda>_.
     and_then (register_prepare E tenant_id cmd) (\<lambda>user.
     and_then (store_home_user E register_internal RegisterConflict tenant_id user) (\<lambda>_.
     State_Monad.return (Inr \<lparr>rg_sub = u_sub user, rg_user_id = u_id user, rg_status = u_status user,
                              rg_email = u_email user\<rparr>))))"

section \<open>Reading a run\<close>

text \<open>
  A new account: one more user, nobody of that tenant has its address or login name, and one more
  membership, in the home tenant.
\<close>

definition account_added :: "libs \<Rightarrow> tenant_id \<Rightarrow> user \<Rightarrow> database \<Rightarrow> database \<Rightarrow> bool" where
  "account_added E tenant u d d' \<longleftrightarrow> db_users d' = db_users d @ [u] \<and> u_tenant_id u = tenant \<and>
     (\<forall>x \<in> set (db_users d). \<not> user_clash E u x) \<and>
     (\<exists>m. membership_key tenant (u_id u) m \<and> tm_membership_type m = Home \<and> membership_is_active m \<and>
        db_memberships d' = db_memberships d @ [m])"

lemma store_home_user_Inr:
  assumes "run_state (store_home_user E fail clash tenant u) w = (Inr x, w')" and "u_tenant_id u = tenant"
  shows "\<exists>now. account_added E tenant (u\<lparr>u_locked_until := map_option micros (u_locked_until u),
     u_created_at := now, u_updated_at := now\<rparr>) (db w) (db w')"
proof -
  from assms(1) obtain w1 where u: "run_state (users_create E u) w = (Inr (), w1)"
    and m: "run_state (memberships_create (new_home tenant (u_id u) (u_created_at u))) w1 = (Inr (), w')"
    by (auto simp: store_home_user_def run_rules)
  from u obtain now where u: "\<not> list_ex (user_clash E u) (db_users (db w))"
    "db w1 = (db w)\<lparr>db_users := db_users (db w) @ [u\<lparr>u_locked_until := map_option micros (u_locked_until u),
       u_created_at := now, u_updated_at := now\<rparr>]\<rparr>"
    by (auto simp: users_create_def insert_user_def run_db_call_Inr split: if_splits)
  from m obtain now' where "db w' = (db w1)\<lparr>db_memberships := db_memberships (db w1) @
       [(new_home tenant (u_id u) (u_created_at u))\<lparr>tm_invitation_expires_at := None, tm_created_at := now', tm_updated_at := now'\<rparr>]\<rparr>"
    by (auto simp: memberships_create_def insert_membership_def run_db_call_Inr new_home_def split: if_splits)
  with u assms(2) show ?thesis
    by (intro exI [of _ now])
       (auto simp: account_added_def list_ex_iff user_clash_def same_username_def new_home_def membership_key_def membership_is_active_def)
qed

text \<open>The login name of a new account is its own.\<close>

lemma account_added_login_name:
  assumes "account_added E tenant u d d'" and "u_preferred_username u = Some n"
  shows "login_name E d' tenant n = Some u"
proof -
  have "find (\<lambda>x. u_tenant_id x = tenant \<and> has_username E n x) (db_users d) = None"
    using assms by (auto simp: account_added_def find_None_iff user_clash_def same_username_def)
  with assms show ?thesis
    by (auto simp: login_name_def account_added_def find_append has_username_def db_eq_def)
qed

text \<open>A login under a name whose account has a closed gate starts nothing.\<close>

lemma closed_gates_login:
  assumes "run_state (login E C tenant cmd ctx) w = (out, w')"
    and "login_name E (db w) tenant (lc_username cmd) = Some user" and "\<not> gates_open (db w) user"
  shows "db_sso_sessions (db w') = db_sso_sessions (db w) \<and> db_codes (db w') = db_codes (db w)"
proof -
  have "\<not> run_state (login_authenticate E C tenant cmd ctx) w = (Inr (now, session, u), v)" for now session u v
    using assms(2,3) by (auto dest!: login_authenticate_Inr simp: password_ok_def login_name_def)
  with assms(1) obtain o' where "run_state (login_authenticate E C tenant cmd ctx) w = (Inl o', w')"
    by (cases rule: run_login) auto
  then have "frame (\<lambda>d. (db_sso_sessions d, db_codes d)) w w'"
    by (rule alwaysD [OF frame_login_authenticate, rotated -1]) simp_all
  then show ?thesis by (simp add: frame_def)
qed

lemma frame_new_id: "always (frame T) new_id"
  unfolding new_id_def by (rule frame_new_v4)

lemma frame_ensure_free: "always (frame T) (ensure_free E fail clash tenant email name)"
  unfolding ensure_free_def users_find_by_email_def users_find_by_username_def
  by (intro frame.always_rules frame_db_query)

lemma frame_prepare:
  "always (frame T) (prepare_user E tenant cmd)" "always (frame T) (register_prepare E tenant rcmd)"
  unfolding prepare_user_def register_prepare_def
  by (intro frame.always_rules frame_random frame_clock_now frame_new_id frame_ensure_free)+

text \<open>The rate limiter lets an attempt from this address through.\<close>

definition register_admitted :: "string option \<Rightarrow> world \<Rightarrow> bool" where
  "register_admitted ip w = fst (limiter_step REGISTER_RATE_LIMIT_MAX_ATTEMPTS
     (minutes REGISTER_RATE_LIMIT_WINDOW_MINUTES) (case ip of Some a \<Rightarrow> a | None \<Rightarrow> ''unknown'')
     (clock_src w (ticks w)) (register_attempts w))"

lemma register_attempts_tick [simp]: "register_attempts (tick w) = register_attempts w"
  by (simp add: tick_def)

lemma register_gates_Inr:
  assumes "run_state (register_gates tenant ip) w = (Inr x, w')"
  shows "db w' = db w" "\<exists>t \<in> set (db_tenants (db w)). t_id t = tenant \<and> t_self_registration_enabled t"
    "register_admitted ip w"
  using assms unfolding register_admitted_def
  by (auto simp: register_gates_def register_check_and_record_def tenants_find_by_id_def run_rules
      split: prod.splits dest!: find_SomeD)

lemma run_return_Inr: "run_state (map_err f (State_Monad.return r)) w = (Inr a, w') \<longleftrightarrow> r = Inr a \<and> w' = w"
  by (auto simp: run_map_err_Inr run_returnE)

text \<open>The account the registration prepares.\<close>

lemma register_prepare_Inr:
  assumes "hasher_ok E" and "run_state (register_prepare E tenant cmd) w = (Inr u, w')"
  shows "db w' = db w" "u_tenant_id u = tenant" "u_email u = trim (rc_email cmd)" "\<not> u_email_verified u"
    "user_is_active u" "u_locked_until u = None"
    "u_preferred_username u = Some (case normalize_optional (rc_preferred_username cmd) of
       Some n \<Rightarrow> n | None \<Rightarrow> trim (rc_email cmd))"
    "hasher_verify E (rc_password cmd) (u_password_hash u) = Inr True"
    "\<not> isl (validate_email (u_email u))" "\<not> isl (validate_password_strength (rc_password cmd))"
    "\<not> isl (validate_preferred_username (the (u_preferred_username u)))"
proof -
  show "db w' = db w" using alwaysD [OF frame_prepare(2) assms(2)] by (simp add: frame_def)
  from assms(2) obtain w1 w2 h where h: "run_state (hasher_hash E (rc_password cmd)) w1 = (Inr h, w2)"
    and "u_password_hash u = h" "u_tenant_id u = tenant" "u_email u = trim (rc_email cmd)" "\<not> u_email_verified u"
      "u_status u = UserActive" "u_locked_until u = None" "\<not> isl (validate_email (trim (rc_email cmd)))"
      "\<not> isl (validate_password_strength (rc_password cmd))"
      "u_preferred_username u = Some (case normalize_optional (rc_preferred_username cmd) of
         Some n \<Rightarrow> n | None \<Rightarrow> trim (rc_email cmd))"
      "\<not> isl (validate_preferred_username (case normalize_optional (rc_preferred_username cmd) of
         Some n \<Rightarrow> n | None \<Rightarrow> trim (rc_email cmd)))"
    unfolding register_prepare_def Let_def
    by (auto simp only: run_and_then_Inr run_return_Inr run_map_err_Inr run_bindE run_returnE sum.inject user.simps sum.disc simp_thms)
  with hasher_hash_verify [OF assms(1) h]
  show "u_tenant_id u = tenant" "u_email u = trim (rc_email cmd)" "\<not> u_email_verified u" "user_is_active u"
    "u_locked_until u = None" "hasher_verify E (rc_password cmd) (u_password_hash u) = Inr True"
    "u_preferred_username u = Some (case normalize_optional (rc_preferred_username cmd) of
       Some n \<Rightarrow> n | None \<Rightarrow> trim (rc_email cmd))"
    "\<not> isl (validate_email (u_email u))" "\<not> isl (validate_password_strength (rc_password cmd))"
    "\<not> isl (validate_preferred_username (the (u_preferred_username u)))"
    by (simp_all add: user_is_active_def)
qed

lemma prepare_user_Inr:
  assumes "hasher_ok E" and "run_state (prepare_user E tenant cmd) w = (Inr (u, g), w')"
  shows "db w' = db w" "u_tenant_id u = tenant" "u_email u = trim (cu_email cmd)" "u_email_verified u"
    "user_is_active u" "u_locked_until u = None" "u_must_change_password u"
    "u_preferred_username u = Some (case normalize_optional (cu_preferred_username cmd) of
       Some n \<Rightarrow> n | None \<Rightarrow> trim (cu_email cmd))"
    "hasher_verify E g (u_password_hash u) = Inr True"
proof -
  show "db w' = db w" using alwaysD [OF frame_prepare(1) assms(2)] by (simp add: frame_def)
  from assms(2) obtain w1 w2 h where h: "run_state (hasher_hash E g) w1 = (Inr h, w2)"
    and "u_password_hash u = h" "u_tenant_id u = tenant" "u_email u = trim (cu_email cmd)" "u_email_verified u"
      "u_status u = UserActive" "u_locked_until u = None" "u_must_change_password u"
      "u_preferred_username u = Some (case normalize_optional (cu_preferred_username cmd) of
         Some n \<Rightarrow> n | None \<Rightarrow> trim (cu_email cmd))"
    unfolding prepare_user_def Let_def
    by (auto simp only: run_and_then_Inr run_return_Inr run_map_err_Inr run_bindE run_returnE sum.inject prod.inject
        user.simps simp_thms)
  with hasher_hash_verify [OF assms(1) h]
  show "u_tenant_id u = tenant" "u_email u = trim (cu_email cmd)" "u_email_verified u" "user_is_active u"
    "u_locked_until u = None" "hasher_verify E g (u_password_hash u) = Inr True" "u_must_change_password u"
    "u_preferred_username u = Some (case normalize_optional (cu_preferred_username cmd) of
       Some n \<Rightarrow> n | None \<Rightarrow> trim (cu_email cmd))"
    by (simp_all add: user_is_active_def)
qed

section \<open>Properties\<close>

text \<open>
  C24. Self-registration. It succeeds only in a tenant whose administrators have opened it, when the rate
  limiter admits the caller, for a well-formed address, a password of accepted length and a login name of
  accepted length, which is the one given or else the address. It adds exactly one account, with an active
  home membership, whose address and login name nobody of the tenant has. The account is active but its address is not verified, so that, whatever password is
  tried, the login service starts no session and issues no code for it.
\<close>

theorem registration_sound:
  assumes "hasher_ok E" and "run_state (register E tenant cmd ip) w = (Inr r, w')"
  shows "\<exists>u n. account_added E tenant u (db w) (db w') \<and> u_id u = rg_user_id r \<and> u_email u = trim (rc_email cmd) \<and>
     (\<exists>l d. u_email u = l @ CHR ''@'' # d \<and> l \<noteq> [] \<and> d \<noteq> [] \<and> CHR ''@'' \<notin> set l \<and> CHR ''@'' \<notin> set d) \<and>
     MIN_PASSWORD_LEN \<le> length (rc_password cmd) \<and> length (rc_password cmd) \<le> MAX_PASSWORD_LEN \<and>
     hasher_verify E (rc_password cmd) (u_password_hash u) = Inr True \<and>
     (\<exists>t \<in> set (db_tenants (db w)). t_id t = tenant \<and> t_self_registration_enabled t) \<and>
     register_admitted ip w \<and>
     u_preferred_username u = Some n \<and> chars_count n \<le> PREFERRED_USERNAME_MAX_LEN \<and>
     n = (case normalize_optional (rc_preferred_username cmd) of Some given \<Rightarrow> given | None \<Rightarrow> trim (rc_email cmd)) \<and>
     user_is_active u \<and> rg_status r = UserActive \<and> \<not> u_email_verified u \<and>
     (\<forall>C lcmd ctx out w2. lc_username lcmd = n \<longrightarrow> run_state (login E C tenant lcmd ctx) w' = (out, w2) \<longrightarrow>
        db_sso_sessions (db w2) = db_sso_sessions (db w') \<and> db_codes (db w2) = db_codes (db w'))"
proof -
  from assms(2) obtain w1 w2 u where g: "run_state (register_gates tenant ip) w = (Inr (), w1)"
    and u: "run_state (register_prepare E tenant cmd) w1 = (Inr u, w2)"
    and s: "run_state (store_home_user E register_internal RegisterConflict tenant u) w2 = (Inr (), w')"
    and r: "rg_user_id r = u_id u" "rg_status r = u_status u"
    by (auto simp: register_def run_rules)
  note u = register_prepare_Inr [OF assms(1) u]
  from store_home_user_Inr [OF s u(2)] obtain now where
    added: "account_added E tenant (u\<lparr>u_locked_until := None, u_created_at := now, u_updated_at := now\<rparr>) (db w) (db w')"
    by (auto simp: u(1,6) register_gates_Inr(1) [OF g])
  let ?u = "u\<lparr>u_locked_until := None, u_created_at := now, u_updated_at := now\<rparr>"
  obtain n where n: "u_preferred_username ?u = Some n" using u(7) by simp
  have closed: "db_sso_sessions (db w3) = db_sso_sessions (db w') \<and> db_codes (db w3) = db_codes (db w')"
    if "lc_username lcmd = n" "run_state (login E C tenant lcmd ctx) w' = (out, w3)" for C lcmd ctx out w3
    using that account_added_login_name [OF added n] u(4)
    by (intro closed_gates_login [OF that(2)]) (auto simp: gates_open_def)
  from u(9) have "validate_email (u_email u) = Inr ()" by (cases "validate_email (u_email u)") auto
  then obtain l d where "u_email u = l @ CHR ''@'' # d" "l \<noteq> []" "d \<noteq> []"
    "CHR ''@'' \<notin> set l" "CHR ''@'' \<notin> set d" by (auto simp: validate_email_iff)
  moreover from u(10) have "MIN_PASSWORD_LEN \<le> length (rc_password cmd)" "length (rc_password cmd) \<le> MAX_PASSWORD_LEN"
    by (auto simp: validate_password_strength_def split: if_splits)
  moreover from u(11) n have "chars_count n \<le> PREFERRED_USERNAME_MAX_LEN"
    by (auto simp: validate_preferred_username_def split: if_splits)
  ultimately show ?thesis
    using u added n r closed register_gates_Inr(2,3) [OF g]
    by (intro exI [of _ ?u] exI [of _ n]) (auto simp: user_is_active_def)
qed

definition open_world :: world where
  "open_world = sample_world\<lparr>db := sample_db\<lparr>db_tenants :=
     [sample_root, sample_tenant\<lparr>t_self_registration_enabled := True\<rparr>]\<rparr>\<rparr>"

definition sample_registration :: register_command where
  "sample_registration = \<lparr>rc_email = '' bob@b.c '', rc_preferred_username = None, rc_password = ''bob-secret'', rc_name = None\<rparr>"

theorem registration_sound_witness:
  "\<exists>r w' u. run_state (register sample_libs 1 sample_registration None) open_world = (Inr r, w') \<and>
     account_added sample_libs 1 u (db open_world) (db w') \<and> user_is_active u \<and> \<not> u_email_verified u"
proof -
  have hash: "hasher_ok sample_libs" by (simp add: hasher_ok_def sample_libs_def)
  have ok: "\<not> isl (fst (run_state (register sample_libs 1 sample_registration None) open_world))" by code_simp
  obtain r w' where run: "run_state (register sample_libs 1 sample_registration None) open_world = (Inr r, w')"
    using run_InrI [OF ok] by blast
  from registration_sound [OF hash run] run show ?thesis by blast
qed

text \<open>
  Accounts made by administrators. The creation adds exactly one account, whose address and login name
  nobody of the tenant has, with the generated password, which is returned. The password opens
  nothing but its own change: until then no login with it starts a session or issues a code.
\<close>

theorem created_user_must_change_password:
  assumes "hasher_ok E" and "run_state (create_user E tenant cmd actor ctx) w = (Inr r, w')"
  shows "\<exists>u n. account_added E tenant u (db w) (db w') \<and> u_id u = cr_user_id r \<and> u_email u = trim (cu_email cmd) \<and>
     hasher_verify E (cr_generated_password r) (u_password_hash u) = Inr True \<and>
     u_preferred_username u = Some n \<and> u_must_change_password u \<and>
     (\<forall>C lcmd ctx out w2. lc_username lcmd = n \<longrightarrow> run_state (login E C tenant lcmd ctx) w' = (out, w2) \<longrightarrow>
        db_sso_sessions (db w2) = db_sso_sessions (db w') \<and> db_codes (db w2) = db_codes (db w'))"
proof -
  from assms(2) obtain w1 w2 u g x where u: "run_state (prepare_user E tenant cmd) w = (Inr (u, g), w1)"
    and s: "run_state (store_home_user E user_mgmt_internal UserMgmtConflict tenant u) w1 = (Inr (), w2)"
    and a: "run_state (audit_record UserCreated AuditSuccess (Some tenant) (Some actor) None
       (Some (''user='' @ uuid_to_string E (u_id u))) ctx) w2 = (x, w')"
    and r: "cr_user_id r = u_id u" "cr_generated_password r = g"
    by (auto simp: create_user_def run_and_then_Inr run_case_prodE run_bindE run_returnE)
  note u = prepare_user_Inr [OF assms(1) u]
  let ?u = "\<lambda>now. u\<lparr>u_locked_until := None, u_created_at := now, u_updated_at := now\<rparr>"
  from store_home_user_Inr [OF s u(2)] obtain now where "account_added E tenant (?u now) (db w) (db w2)"
    by (auto simp: u(1,6))
  with run_audit [OF a] have added: "account_added E tenant (?u now) (db w) (db w')"
    by (simp add: account_added_def tables_eq_iff)
  obtain n where n: "u_preferred_username (?u now) = Some n" using u(8) by simp
  have closed: "db_sso_sessions (db w3) = db_sso_sessions (db w') \<and> db_codes (db w3) = db_codes (db w')"
    if "lc_username lcmd = n" "run_state (login E C tenant lcmd ctx) w' = (out, w3)" for C lcmd ctx out w3
    using that account_added_login_name [OF added n] u(7)
    by (intro closed_gates_login [OF that(2)]) (auto simp: gates_open_def)
  with u added n r show ?thesis by (intro exI [of _ "?u now"] exI [of _ n]) auto
qed

theorem created_user_must_change_password_witness:
  "\<exists>r w' u. run_state (create_user sample_libs 1
       \<lparr>cu_email = ''bob@b.c'', cu_preferred_username = Some ''bob'', cu_name = None\<rparr> 2 sample_ctx) sample_world = (Inr r, w') \<and>
     account_added sample_libs 1 u (db sample_world) (db w') \<and> u_must_change_password u"
proof -
  let ?run = "run_state (create_user sample_libs 1
       \<lparr>cu_email = ''bob@b.c'', cu_preferred_username = Some ''bob'', cu_name = None\<rparr> 2 sample_ctx) sample_world"
  have hash: "hasher_ok sample_libs" by (simp add: hasher_ok_def sample_libs_def)
  have ok: "\<not> isl (fst ?run)" by code_simp
  obtain r w' where run: "?run = (Inr r, w')" using run_InrI [OF ok] by blast
  from created_user_must_change_password [OF hash run] run show ?thesis by blast
qed

text \<open>
  User and membership are two statements: when the second fails, the account is there without its
  membership, and the address cannot be registered again.
\<close>

lemma registration_can_stop_half_way:
  "\<exists>w w' e m. run_state (register sample_libs 1 sample_registration None) w = (Inl e, w') \<and>
     length (db_users (db w')) = Suc (length (db_users (db w))) \<and> db_memberships (db w') = db_memberships (db w) \<and>
     fst (run_state (register sample_libs 1 sample_registration None) w') = Inl (RegisterConflict m)"
proof -
  let ?w = "open_world\<lparr>fault_src := (\<lambda>n. if n = 4 then Some (Repository ''gone'', False) else None)\<rparr>"
  let ?run = "run_state (register sample_libs 1 sample_registration None) ?w"
  have 1: "fst ?run = Inl (RegisterInternal (domain_error_to_string (Repository ''gone'')))" by code_simp
  have 2: "length (db_users (db (snd ?run))) = Suc (length (db_users (db ?w)))"
    "length (db_memberships (db (snd ?run))) = length (db_memberships (db ?w))" by code_simp+
  have 3: "db_memberships (db (snd ?run)) = db_memberships (db ?w)" by code_simp
  have 4: "fst (run_state (register sample_libs 1 sample_registration None) (snd ?run)) =
     Inl (RegisterConflict ''email already registered'')" by code_simp
  show ?thesis by (intro exI conjI, rule run_fstI [OF 1], rule 2(1), rule 3, rule 4)
qed

end
