(* ===== verification/Clients.thy ===== *)
theory Clients
  imports MfaLogin Tenants
begin

text \<open>
  Registration and management of clients (\<^verbatim>\<open>application/client_management.rs\<close>). Every stored client
  satisfies the constraints on redirect URIs, scopes, secrets and PKCE, and a secret leaves the server
  only when it is made.
\<close>

section \<open>Model\<close>

definition CLIENT_ID_BYTES :: nat where
  "CLIENT_ID_BYTES = 16"

definition CLIENT_SECRET_BYTES :: nat where
  "CLIENT_SECRET_BYTES = 32"

record register_client_command =
  rcc_app_name :: string
  rcc_client_type :: client_type
  rcc_redirect_uris :: "string list"
  rcc_scopes :: "string list"
  rcc_require_pkce :: "bool option"
  rcc_post_logout_redirect_uris :: "string list"
  rcc_frontchannel_logout_uri :: "string option"
  rcc_backchannel_logout_uri :: "string option"

record update_client_command =
  ucc_app_name :: "string option"
  ucc_redirect_uris :: "string list option"
  ucc_scopes :: "string list option"
  ucc_status :: "client_status option"
  ucc_post_logout_redirect_uris :: "string list option"
  ucc_frontchannel_logout_uri :: "string option option"
  ucc_backchannel_logout_uri :: "string option option"

datatype client_management_error =
    ClientValidation string
  | ClientNotFound
  | ClientConflict string
  | ClientInternal string

definition client_internal :: "domain_error \<Rightarrow> client_management_error" where
  "client_internal e = ClientInternal (domain_error_to_string e)"

definition client_conflict :: "domain_error \<Rightarrow> client_management_error" where
  "client_conflict e = (case e of Conflict m \<Rightarrow> ClientConflict m | _ \<Rightarrow> client_internal e)"

definition validate_app_name :: "string \<Rightarrow> client_management_error + string" where
  "validate_app_name app_name =
     (let trimmed = trim app_name in
      if trimmed = [] then Inl (ClientValidation ''app_name must not be empty'') else Inr trimmed)"

definition validate_redirect_uri :: "libs \<Rightarrow> string \<Rightarrow> client_management_error + unit" where
  "validate_redirect_uri E uri =
     (if CHR ''*'' \<in> set uri then Inl (ClientValidation (''redirect_uri must not contain a wildcard: '' @ uri))
      else case url_parse E uri of
        None \<Rightarrow> Inl (ClientValidation (''invalid redirect_uri: '' @ uri))
      | Some (scheme, host, fragment) \<Rightarrow>
          if scheme \<notin> {''http'', ''https''}
          then Inl (ClientValidation (''redirect_uri scheme must be http or https: '' @ uri))
          else if fragment \<noteq> None
          then Inl (ClientValidation (''redirect_uri must not contain a fragment: '' @ uri))
          else Inr ())"

text \<open>The loops over the URIs and the scopes; \<open>seen\<close> is the set of the earlier ones.\<close>

fun check_redirect_uris :: "libs \<Rightarrow> string set \<Rightarrow> string list \<Rightarrow> client_management_error + unit" where
  "check_redirect_uris E seen [] = Inr ()"
| "check_redirect_uris E seen (uri # uris) =
     (case validate_redirect_uri E uri of
        Inl e \<Rightarrow> Inl e
      | Inr _ \<Rightarrow>
          if uri \<in> seen then Inl (ClientValidation (''duplicate redirect_uri: '' @ uri))
          else check_redirect_uris E (insert uri seen) uris)"

definition validate_redirect_uris :: "libs \<Rightarrow> string list \<Rightarrow> client_management_error + string list" where
  "validate_redirect_uris E uris =
     (if uris = [] then Inl (ClientValidation ''at least one redirect_uri is required'')
      else case check_redirect_uris E {} uris of Inl e \<Rightarrow> Inl e | Inr _ \<Rightarrow> Inr uris)"

fun check_scopes :: "string set \<Rightarrow> string list \<Rightarrow> client_management_error + unit" where
  "check_scopes seen [] = Inr ()"
| "check_scopes seen (scope # scopes) =
     (if isl (parse_scope scope) then Inl (ClientValidation (''unsupported scope: '' @ scope))
      else if scope \<in> seen then Inl (ClientValidation (''duplicate scope: '' @ scope))
      else check_scopes (insert scope seen) scopes)"

definition validate_scopes :: "string list \<Rightarrow> client_management_error + string list" where
  "validate_scopes scopes =
     (if scopes = [] then Inl (ClientValidation ''at least one scope is required'')
      else case check_scopes {} scopes of
        Inl e \<Rightarrow> Inl e
      | Inr _ \<Rightarrow>
          if \<not> list_ex (\<lambda>s. s = ''openid'') scopes
          then Inl (ClientValidation ''scopes must include `openid`'') else Inr scopes)"

text \<open>Authentication method, PKCE, secret and its hash, from the type of the client.\<close>

definition client_credentials ::
  "libs \<Rightarrow> register_client_command \<Rightarrow>
   (world, client_management_error +
      token_endpoint_auth_method \<times> bool \<times> string option \<times> string option) state" where
  "client_credentials E cmd =
     (case rcc_client_type cmd of
        Public \<Rightarrow> State_Monad.return (Inr (AuthNone, True, None, None))
      | Confidential \<Rightarrow> do {
          plain \<leftarrow> random_token E CLIENT_SECRET_BYTES;
          and_then (map_err client_internal (hasher_hash E plain)) (\<lambda>hash.
          State_Monad.return (Inr (ClientSecretBasic,
            (case rcc_require_pkce cmd of Some b \<Rightarrow> b | None \<Rightarrow> True), Some plain, Some hash)))
        })"

definition register_client ::
  "libs \<Rightarrow> tenant_id \<Rightarrow> register_client_command \<Rightarrow> uuid \<Rightarrow> request_context \<Rightarrow>
   (world, client_management_error + client \<times> string option) state" where
  "register_client E tenant cmd actor ctx =
     and_then (State_Monad.return (validate_app_name (rcc_app_name cmd))) (\<lambda>app_name.
     and_then (State_Monad.return (validate_redirect_uris E (rcc_redirect_uris cmd))) (\<lambda>redirect_uris.
     and_then (State_Monad.return (validate_scopes (rcc_scopes cmd))) (\<lambda>scopes.
     and_then (client_credentials E cmd) (\<lambda>(auth_method, require_pkce, secret_plain, secret_hash). do {
     now \<leftarrow> clock_now;
     i \<leftarrow> new_id;
     client_id \<leftarrow> random_hex E CLIENT_ID_BYTES;
     let client =
       \<lparr>c_id = i, c_tenant_id = tenant, c_client_id = client_id, c_client_secret_hash = secret_hash,
        c_client_type = rcc_client_type cmd, c_client_status = ClientActive, c_app_name = app_name,
        c_redirect_uris = redirect_uris, c_grant_types = [''authorization_code''], c_response_types = [''code''],
        c_scopes = scopes, c_token_endpoint_auth_method = auth_method, c_require_pkce = require_pkce,
        c_post_logout_redirect_uris = rcc_post_logout_redirect_uris cmd,
        c_frontchannel_logout_uri = rcc_frontchannel_logout_uri cmd,
        c_backchannel_logout_uri = rcc_backchannel_logout_uri cmd, c_created_at = now, c_updated_at = now\<rparr>;
     and_then (map_err client_conflict (clients_create E client)) (\<lambda>_. do {
     audit_record ClientRegistered AuditSuccess (Some tenant) (Some actor) (Some (c_client_id client)) None ctx;
     State_Monad.return (Inr (client, secret_plain)) }) }))))"

definition load_managed_client :: "libs \<Rightarrow> tenant_id \<Rightarrow> string \<Rightarrow> (world, client_management_error + client) state" where
  "load_managed_client E tenant client_id =
     and_then (map_err client_internal (clients_find_by_client_id E tenant client_id)) (\<lambda>found.
     State_Monad.return (case found of Some c \<Rightarrow> Inr c | None \<Rightarrow> Inl ClientNotFound))"

definition list_clients :: "tenant_id \<Rightarrow> (world, client_management_error + client list) state" where
  "list_clients tenant = map_err client_internal (clients_list tenant)"

definition get_client :: "libs \<Rightarrow> tenant_id \<Rightarrow> string \<Rightarrow> (world, client_management_error + client) state" where
  "get_client E tenant client_id = load_managed_client E tenant client_id"

text \<open>A field of the command that is given and has to be checked.\<close>

definition if_given :: "'a option \<Rightarrow> ('a \<Rightarrow> 'e + 'b) \<Rightarrow> 'b \<Rightarrow> 'e + 'b" where
  "if_given v check old = (case v of Some x \<Rightarrow> check x | None \<Rightarrow> Inr old)"

definition apply_update :: "libs \<Rightarrow> update_client_command \<Rightarrow> client \<Rightarrow> client_management_error + client" where
  "apply_update E cmd c =
     (case if_given (ucc_app_name cmd) validate_app_name (c_app_name c) of Inl e \<Rightarrow> Inl e | Inr app_name \<Rightarrow>
      case if_given (ucc_redirect_uris cmd) (validate_redirect_uris E) (c_redirect_uris c) of Inl e \<Rightarrow> Inl e | Inr redirect_uris \<Rightarrow>
      case if_given (ucc_scopes cmd) validate_scopes (c_scopes c) of Inl e \<Rightarrow> Inl e | Inr scopes \<Rightarrow>
        Inr (c\<lparr>c_app_name := app_name, c_redirect_uris := redirect_uris, c_scopes := scopes,
               c_client_status := (case ucc_status cmd of Some s \<Rightarrow> s | None \<Rightarrow> c_client_status c),
               c_post_logout_redirect_uris :=
                 (case ucc_post_logout_redirect_uris cmd of Some u \<Rightarrow> u | None \<Rightarrow> c_post_logout_redirect_uris c),
               c_frontchannel_logout_uri :=
                 (case ucc_frontchannel_logout_uri cmd of Some u \<Rightarrow> u | None \<Rightarrow> c_frontchannel_logout_uri c),
               c_backchannel_logout_uri :=
                 (case ucc_backchannel_logout_uri cmd of Some u \<Rightarrow> u | None \<Rightarrow> c_backchannel_logout_uri c)\<rparr>))"

definition update_client ::
  "libs \<Rightarrow> tenant_id \<Rightarrow> string \<Rightarrow> update_client_command \<Rightarrow> uuid \<Rightarrow> request_context \<Rightarrow>
   (world, client_management_error + client) state" where
  "update_client E tenant client_id cmd actor ctx =
     and_then (load_managed_client E tenant client_id) (\<lambda>client.
     and_then (State_Monad.return (apply_update E cmd client)) (\<lambda>client.
     and_then (map_err client_internal (clients_update client)) (\<lambda>_. do {
     audit_record ClientUpdated AuditSuccess (Some tenant) (Some actor) (Some (c_client_id client)) None ctx;
     State_Monad.return (Inr client) })))"

definition rotate_secret ::
  "libs \<Rightarrow> tenant_id \<Rightarrow> string \<Rightarrow> uuid \<Rightarrow> request_context \<Rightarrow>
   (world, client_management_error + client \<times> string) state" where
  "rotate_secret E tenant client_id actor ctx =
     and_then (load_managed_client E tenant client_id) (\<lambda>client.
     and_then (require (c_client_type client = Confidential)
                 (ClientValidation ''only confidential clients have a secret'')) (\<lambda>_. do {
     plain \<leftarrow> random_token E CLIENT_SECRET_BYTES;
     and_then (map_err client_internal (hasher_hash E plain)) (\<lambda>hash.
     let client = client\<lparr>c_client_secret_hash := Some hash\<rparr> in
     and_then (map_err client_internal (clients_update client)) (\<lambda>_. do {
     audit_record ClientSecretRotated AuditSuccess (Some tenant) (Some actor) (Some (c_client_id client)) None ctx;
     State_Monad.return (Inr (client, plain)) })) }))"

section \<open>Well-formed clients\<close>

definition safe_redirect :: "libs \<Rightarrow> string \<Rightarrow> bool" where
  "safe_redirect E uri \<longleftrightarrow> CHR ''*'' \<notin> set uri \<and>
     (\<exists>scheme host. url_parse E uri = Some (scheme, host, None) \<and> scheme \<in> {''http'', ''https''})"

definition client_ok :: "libs \<Rightarrow> client \<Rightarrow> bool" where
  "client_ok E c \<longleftrightarrow> c_app_name c \<noteq> [] \<and>
     c_redirect_uris c \<noteq> [] \<and> distinct (c_redirect_uris c) \<and> (\<forall>u \<in> set (c_redirect_uris c). safe_redirect E u) \<and>
     distinct (c_scopes c) \<and> ''openid'' \<in> set (c_scopes c) \<and> (\<forall>s \<in> set (c_scopes c). \<not> isl (parse_scope s)) \<and>
     (case c_client_type c of
        Public \<Rightarrow> c_require_pkce c \<and> c_client_secret_hash c = None \<and> c_token_endpoint_auth_method c = AuthNone
      | Confidential \<Rightarrow> c_client_secret_hash c \<noteq> None \<and> c_token_endpoint_auth_method c = ClientSecretBasic)"

lemma validate_redirect_uri_Inr: "validate_redirect_uri E uri = Inr x \<longleftrightarrow> safe_redirect E uri"
  by (auto simp: validate_redirect_uri_def safe_redirect_def split: option.splits if_splits)

lemma check_redirect_uris_Inr:
  "check_redirect_uris E seen uris = Inr x \<longleftrightarrow>
   (\<forall>u \<in> set uris. safe_redirect E u) \<and> distinct uris \<and> set uris \<inter> seen = {}"
proof (induction uris arbitrary: seen)
  case Nil
  then show ?case by simp
next
  case (Cons u us)
  then show ?case
    using validate_redirect_uri_Inr [of E u "()"] by (cases "validate_redirect_uri E u") auto
qed

lemma validate_redirect_uris_Inr:
  "validate_redirect_uris E uris = Inr out \<longleftrightarrow>
   out = uris \<and> uris \<noteq> [] \<and> distinct uris \<and> (\<forall>u \<in> set uris. safe_redirect E u)"
  using check_redirect_uris_Inr [of E "{}" uris "()"]
  by (cases "check_redirect_uris E {} uris") (auto simp: validate_redirect_uris_def)

lemma check_scopes_Inr:
  "check_scopes seen ss = Inr x \<longleftrightarrow> (\<forall>s \<in> set ss. \<not> isl (parse_scope s)) \<and> distinct ss \<and> set ss \<inter> seen = {}"
  by (induction ss arbitrary: seen) auto

lemma validate_scopes_Inr:
  "validate_scopes ss = Inr out \<longleftrightarrow>
   out = ss \<and> distinct ss \<and> (\<forall>s \<in> set ss. \<not> isl (parse_scope s)) \<and> ''openid'' \<in> set ss"
  using check_scopes_Inr [of "{}" ss "()"]
  by (cases "check_scopes {} ss") (auto simp: validate_scopes_def list_ex_iff)

lemma validate_app_name_Inr: "validate_app_name n = Inr out \<longleftrightarrow> out = trim n \<and> out \<noteq> []"
  by (auto simp: validate_app_name_def Let_def)

lemma if_given_Inr: "if_given v check old = Inr x \<Longrightarrow> (\<And>y. check y = Inr x \<Longrightarrow> Q x) \<Longrightarrow> Q old \<Longrightarrow> Q x"
  by (auto simp: if_given_def split: option.splits)

lemma apply_update_ok:
  assumes "apply_update E cmd c = Inr c'" and ok: "client_ok E c"
  shows "client_ok E c'"
proof -
  from assms(1) obtain n us ss st p f b where
      n: "if_given (ucc_app_name cmd) validate_app_name (c_app_name c) = Inr n"
    and us: "if_given (ucc_redirect_uris cmd) (validate_redirect_uris E) (c_redirect_uris c) = Inr us"
    and ss: "if_given (ucc_scopes cmd) validate_scopes (c_scopes c) = Inr ss"
    and c': "c' = c\<lparr>c_app_name := n, c_redirect_uris := us, c_scopes := ss, c_client_status := st,
      c_post_logout_redirect_uris := p, c_frontchannel_logout_uri := f, c_backchannel_logout_uri := b\<rparr>"
    by (auto simp: apply_update_def split: sum.splits)
  have "n \<noteq> []"
    using n by (rule if_given_Inr) (use ok in \<open>auto simp: validate_app_name_Inr client_ok_def\<close>)
  moreover have "us \<noteq> [] \<and> distinct us \<and> (\<forall>u \<in> set us. safe_redirect E u)"
    using us by (rule if_given_Inr) (use ok in \<open>auto simp: validate_redirect_uris_Inr client_ok_def\<close>)
  moreover have "distinct ss \<and> ''openid'' \<in> set ss \<and> (\<forall>s \<in> set ss. \<not> isl (parse_scope s))"
    using ss by (rule if_given_Inr) (use ok in \<open>auto simp: validate_scopes_Inr client_ok_def\<close>)
  ultimately show ?thesis
    using ok by (cases "c_client_type c") (simp_all add: client_ok_def c')
qed

lemma client_ok_columns: "client_ok E (client_columns c c') = client_ok E c"
  by (cases "c_client_type c") (simp_all add: client_columns_def client_ok_def)

text \<open>All stored clients are well-formed.\<close>

definition clients_ok :: "libs \<Rightarrow> database \<Rightarrow> bool" where
  "clients_ok E d \<longleftrightarrow> (\<forall>c \<in> set (db_clients d). client_ok E c)"

lemma keeps_clients_frame: "always (frame db_clients) m \<Longrightarrow> always (keeps (clients_ok E)) m"
  by (rule keeps_frame [where T = db_clients]) (simp_all add: clients_ok_def)

lemma keeps_clients_update:
  assumes "client_ok E c"
  shows "always (keeps (clients_ok E)) (clients_update c)"
  unfolding clients_update_def
  by (rule keeps_db_execute) (use assms in \<open>auto simp: clients_ok_def update_where_def client_ok_columns\<close>)

lemma keeps_clients_create:
  assumes "client_ok E c"
  shows "always (keeps (clients_ok E)) (clients_create E' c)"
  unfolding clients_create_def
  by (rule keeps_db_call) (use assms in \<open>auto simp: clients_ok_def client_ok_def split: client_type.splits\<close>)

lemma keeps_clients_audit: "always (keeps (clients_ok E)) (audit_record t r i u c m ctx)"
  by (rule keeps_clients_frame, rule frame_audit) simp

lemma load_managed_client_Inr:
  "run_state (load_managed_client E tenant i) w = (Inr c, w') \<Longrightarrow>
   c \<in> set (db_clients (db w)) \<and> c_tenant_id c = tenant \<and> db_eq E (c_client_id c) i \<and> w' = called w"
  by (auto simp: load_managed_client_def clients_find_by_client_id_def run_rules split: option.splits dest: find_SomeD)

lemma load_managed_client_Inl: "run_state (load_managed_client E tenant i) w = (Inl e, w') \<Longrightarrow> w' = called w"
  by (auto simp: load_managed_client_def clients_find_by_client_id_def run_rules split: option.splits)

lemma frame_client_credentials: "always (frame T) (client_credentials E cmd)"
  unfolding client_credentials_def
  by (cases "rcc_client_type cmd") (simp_all, (intro frame.always_rules frame_random)+)

lemma client_credentials_Inr:
  assumes "run_state (client_credentials E cmd) w = (Inr (m, p, s, h), w')"
  shows "case rcc_client_type cmd of
      Public \<Rightarrow> m = AuthNone \<and> p \<and> s = None \<and> h = None
    | Confidential \<Rightarrow> m = ClientSecretBasic \<and> (\<exists>plain hash w1 w2. s = Some plain \<and> h = Some hash \<and>
        run_state (hasher_hash E plain) w1 = (Inr hash, w2))"
  using assms by (cases "rcc_client_type cmd") (auto simp: client_credentials_def run_rules)

text \<open>Sequencing, where what follows keeps the invariant only for results that satisfy \<open>P\<close>.\<close>

lemma keeps_and_then_post:
  assumes "always (keeps I) m" and "\<And>s a s'. run_state m s = (Inr a, s') \<Longrightarrow> I (db s) \<Longrightarrow> P a"
    and "\<And>a. P a \<Longrightarrow> always (keeps I) (f a)"
  shows "always (keeps I) (and_then m f)"
proof (rule alwaysI)
  fix s
  obtain r t where m: "run_state m s = (r, t)" by (cases "run_state m s")
  from alwaysD [OF assms(1) m] have st: "keeps I s t" .
  show "wp (and_then m f) (\<lambda>_ s'. keeps I s s') s"
  proof (cases r)
    case (Inl e)
    with m st show ?thesis by (simp add: wp_def run_and_then_cases(2))
  next
    case (Inr a)
    obtain b u where f: "run_state (f a) t = (b, u)" by (cases "run_state (f a) t")
    have "keeps I s u"
    proof (cases "I (db s)")
      case True
      with assms(2) m Inr have "P a" by blast
      with assms(3) have "always (keeps I) (f a)" .
      from alwaysD [OF this f] st show ?thesis by (simp add: keeps_def)
    qed (simp add: keeps_def)
    with m Inr f show ?thesis by (simp add: wp_def run_and_then_cases(1))
  qed
qed

lemma keeps_return_then:
  "(\<And>a. r = Inr a \<Longrightarrow> always (keeps I) (f a)) \<Longrightarrow> always (keeps I) (and_then (State_Monad.return r) f)"
  by (rule keeps_and_then_post [where P = "\<lambda>a. r = Inr a"]) (auto simp: run_returnE intro: keep.always_return)

lemma keeps_hash: "always (keeps (clients_ok E)) (hasher_hash E' p)"
  by (rule keeps_clients_frame, rule frame_random)

lemma keeps_load_managed_client: "always (keeps (clients_ok E)) (load_managed_client E' tenant i)"
  unfolding load_managed_client_def clients_find_by_client_id_def
  by (rule keeps_clients_frame) (intro frame.always_rules frame_db_query)

lemma keeps_register_client: "always (keeps (clients_ok E)) (register_client E tenant cmd actor ctx)"
proof -
  let ?P = "\<lambda>(m, p, s :: string option, h). case rcc_client_type cmd of
      Public \<Rightarrow> m = AuthNone \<and> p \<and> h = None | Confidential \<Rightarrow> m = ClientSecretBasic \<and> h \<noteq> None"
  have creds: "?P a" if "run_state (client_credentials E cmd) s = (Inr a, s')" for a s s'
    using that client_credentials_Inr [of E cmd s "fst a" "fst (snd a)" "fst (snd (snd a))" "snd (snd (snd a))" s']
    by (cases "rcc_client_type cmd") (auto simp: case_prod_beta)
  show ?thesis
    unfolding register_client_def Let_def
    apply (intro keeps_return_then keeps_and_then_post [where m = "client_credentials E cmd" and P = ?P])
      apply (rule keeps_clients_frame, rule frame_client_credentials)
     apply (erule creds)
    apply (clarsimp split del: client_type.splits)
    apply (intro keep.always_bind keep.always_and_then keep.always_map_err keep.always_return
        keeps_clients_audit keeps_clients_create keeps_clients_frame [OF frame_clock_now]
        keeps_clients_frame [OF frame_random(2)])
     apply (simp add: new_id_def keeps_clients_frame [OF frame_new_v4])
    apply (auto simp: client_ok_def validate_app_name_Inr validate_redirect_uris_Inr validate_scopes_Inr
        split: client_type.splits)
    done
qed

lemma keeps_update_client: "always (keeps (clients_ok E)) (update_client E tenant i cmd actor ctx)"
  unfolding update_client_def
  apply (rule keeps_and_then_post [where P = "client_ok E", OF keeps_load_managed_client])
   apply (auto simp: clients_ok_def dest!: load_managed_client_Inr)[1]
  apply (intro keeps_return_then keep.always_and_then keep.always_map_err keep.always_bind keep.always_return
      keeps_clients_audit keeps_clients_update)
  apply (erule (1) apply_update_ok)
  done

lemma keeps_rotate_secret: "always (keeps (clients_ok E)) (rotate_secret E tenant i actor ctx)"
  unfolding rotate_secret_def Let_def
  apply (rule keeps_and_then_post [where P = "client_ok E", OF keeps_load_managed_client])
   apply (auto simp: clients_ok_def dest!: load_managed_client_Inr)[1]
  apply (rule keeps_and_then_post [where P = "\<lambda>_. c_client_type a = Confidential" for a], rule keep.always_require)
   apply (auto simp: run_rules)[1]
  apply (intro keep.always_and_then keep.always_map_err keep.always_bind keep.always_return keep.always_let
      keeps_clients_audit keeps_clients_update keeps_hash keeps_clients_frame [OF frame_random(1)])
  apply (auto simp: client_ok_def)
  done

text \<open>The requests that change clients, by anyone and with any outcome.\<close>

inductive client_step :: "libs \<Rightarrow> world \<Rightarrow> world \<Rightarrow> bool" for E where
  register: "run_state (register_client E t cmd a ctx) w = (x, w') \<Longrightarrow> client_step E w w'"
| update: "run_state (update_client E t i ucmd a ctx) w = (y, w') \<Longrightarrow> client_step E w w'"
| rotate: "run_state (rotate_secret E t i a ctx) w = (z, w') \<Longrightarrow> client_step E w w'"

lemma client_step_ok: "client_step E w w' \<Longrightarrow> clients_ok E (db w) \<Longrightarrow> clients_ok E (db w')"
  by (induction rule: client_step.induct)
     (auto simp: keeps_def dest: alwaysD [OF keeps_register_client] alwaysD [OF keeps_update_client]
        alwaysD [OF keeps_rotate_secret])

section \<open>Properties\<close>

text \<open>
  C22. Clients stay well-formed. After any registrations, changes and rotations, with whatever outcomes,
  every stored client has a name, redirect URIs that are distinct http or https URLs without wildcard
  and fragment, distinct known scopes with \<open>openid\<close> among them, and either the public profile (no secret,
  PKCE required) or the confidential one (a secret hash and client authentication).
\<close>

theorem clients_stay_well_formed:
  assumes "(client_step E)\<^sup>*\<^sup>* w w'" and "\<forall>c \<in> set (db_clients (db w)). client_ok E c"
  shows "\<forall>c \<in> set (db_clients (db w')). client_ok E c"
proof -
  from assms(2) have "clients_ok E (db w)" by (simp add: clients_ok_def)
  with assms(1) have "clients_ok E (db w')"
    by (induction rule: rtranclp_induct) (auto intro: client_step_ok)
  then show ?thesis by (simp add: clients_ok_def)
qed

definition sample_client_command :: register_client_command where
  "sample_client_command =
     \<lparr>rcc_app_name = '' Shop '', rcc_client_type = Confidential, rcc_redirect_uris = [''https://shop/cb''],
      rcc_scopes = [''openid'', ''email''], rcc_require_pkce = None, rcc_post_logout_redirect_uris = [],
      rcc_frontchannel_logout_uri = None, rcc_backchannel_logout_uri = None\<rparr>"

theorem clients_stay_well_formed_witness:
  "\<exists>w'. (client_step sample_libs)\<^sup>*\<^sup>* sample_world w' \<and> length (db_clients (db w')) = 3 \<and>
     (\<forall>c \<in> set (db_clients (db w')). client_ok sample_libs c)"
proof -
  let ?run = "run_state (register_client sample_libs 1 sample_client_command 2 sample_ctx) sample_world"
  have step: "client_step sample_libs sample_world (snd ?run)"
    by (rule client_step.register [OF run_fstI [OF refl]])
  have len: "length (db_clients (db (snd ?run))) = 3" by code_simp
  have ok: "\<forall>c \<in> set (db_clients (db sample_world)). client_ok sample_libs c"
    by (simp add: sample_world_def sample_db_def sample_client_def sample_backend_def client_ok_def safe_redirect_def
        parse_scope_def sample_libs_def)
  note all = r_into_rtranclp [where r = "client_step sample_libs", OF step]
  show ?thesis by (intro exI [of _ "snd ?run"] conjI) (rule all, rule len, rule clients_stay_well_formed [OF all ok])
qed

text \<open>
  Rotating a secret. It succeeds for a confidential client of the tenant only; afterwards that
  client's stored hash is of the secret returned, and no other client and no other table but the audit
  log has changed.
\<close>

theorem rotate_secret_sound:
  assumes "hasher_ok E" and "run_state (rotate_secret E tenant i actor ctx) w = (Inr (c, secret), w')"
  shows "\<exists>c0 h. c0 \<in> set (db_clients (db w)) \<and> c_tenant_id c0 = tenant \<and> db_eq E (c_client_id c0) i \<and>
     c_client_type c0 = Confidential \<and> c = c0\<lparr>c_client_secret_hash := Some h\<rparr> \<and>
     hasher_verify E secret h = Inr True \<and>
     tables (db w') = tables ((db w)\<lparr>db_clients := update_where
       (\<lambda>x. c_id x = c_id c0 \<and> c_tenant_id x = tenant) (client_columns c) (db_clients (db w))\<rparr>)"
proof -
  from assms(2) obtain c0 h w1 w2 w3 w4 x y where parts:
    "run_state (load_managed_client E tenant i) w = (Inr c0, w1)" "c_client_type c0 = Confidential"
    "run_state (random_token E CLIENT_SECRET_BYTES) w1 = (secret, w2)"
    "run_state (hasher_hash E secret) w2 = (Inr h, w3)" "c = c0\<lparr>c_client_secret_hash := Some h\<rparr>"
    "run_state (clients_update c) w3 = (Inr x, w4)"
    "run_state (audit_record ClientSecretRotated AuditSuccess (Some tenant) (Some actor) (Some (c_client_id c)) None ctx) w4 = (y, w')"
    unfolding rotate_secret_def Let_def
    by (auto simp only: run_and_then_Inr run_map_err_Inr run_require_Inr run_bindE run_returnE sum.inject prod.inject)
  note c0 = load_managed_client_Inr [OF parts(1)]
  have w3: "db w3 = db w"
    using c0 parts(3) hasher_hash_verify [OF assms(1) parts(4)] by (auto simp: run_random_token)
  have "db w4 = (db w)\<lparr>db_clients := update_where
       (\<lambda>x. c_id x = c_id c0 \<and> c_tenant_id x = tenant) (client_columns c) (db_clients (db w))\<rparr>"
    using parts(5,6) c0 w3 by (auto simp: clients_update_def run_rules)
  with run_audit [OF parts(7)] c0 parts(2,5) hasher_hash_verify [OF assms(1) parts(4)] show ?thesis
    by (intro exI [of _ c0] exI [of _ h]) auto
qed

theorem rotate_secret_sound_witness:
  "\<exists>c secret w' h. run_state (rotate_secret sample_libs 1 ''backend'' 2 sample_ctx) sample_world = (Inr (c, secret), w') \<and>
     hasher_verify sample_libs secret h = Inr True \<and> c_client_secret_hash c = Some h"
proof -
  have hash: "hasher_ok sample_libs" by (simp add: hasher_ok_def sample_libs_def)
  have ok: "\<not> isl (fst (run_state (rotate_secret sample_libs 1 ''backend'' 2 sample_ctx) sample_world))" by code_simp
  obtain c secret w' where run: "run_state (rotate_secret sample_libs 1 ''backend'' 2 sample_ctx) sample_world = (Inr (c, secret), w')"
    using run_InrI [OF ok] by auto
  from rotate_secret_sound [OF hash run] obtain h where "hasher_verify sample_libs secret h = Inr True" "c_client_secret_hash c = Some h"
    by auto
  with run show ?thesis by blast
qed

end
