(* ===== verification/AuditLog.thy ===== *)
theory AuditLog
  imports Evolution Text Samples
begin

text \<open>
  Reading the audit log (\<^verbatim>\<open>application/audit_query.rs\<close>, the queries of
  \<^verbatim>\<open>infrastructure/repositories/audit_log.rs\<close>) and the status page of the clients
  (\<^verbatim>\<open>application/client_status.rs\<close>). Rows are in the order of their ids; the ids themselves are not kept.
\<close>

section \<open>Model\<close>

fun audit_event_as_str :: "audit_event_type \<Rightarrow> string" where
  "audit_event_as_str LoginSucceeded = ''login.succeeded''"
| "audit_event_as_str LoginFailed = ''login.failed''"
| "audit_event_as_str LoginLocked = ''login.locked''"
| "audit_event_as_str AuthorizationCodeIssued = ''authorization_code.issued''"
| "audit_event_as_str AuthorizationCodeUsed = ''authorization_code.used''"
| "audit_event_as_str AuthorizationCodeReuseDetected = ''authorization_code.reuse_detected''"
| "audit_event_as_str TokenIssued = ''token.issued''"
| "audit_event_as_str ClientAuthenticationFailed = ''client.authentication_failed''"
| "audit_event_as_str SsoSessionCreated = ''sso_session.created''"
| "audit_event_as_str SsoSessionResumed = ''sso_session.resumed''"
| "audit_event_as_str SsoSessionExpired = ''sso_session.expired''"
| "audit_event_as_str SsoSessionTerminated = ''sso_session.terminated''"
| "audit_event_as_str UserPermissionGranted = ''user_permission.granted''"
| "audit_event_as_str UserPermissionRevoked = ''user_permission.revoked''"
| "audit_event_as_str ClientRegistered = ''client.registered''"
| "audit_event_as_str ClientUpdated = ''client.updated''"
| "audit_event_as_str ClientSecretRotated = ''client.secret_rotated''"
| "audit_event_as_str RefreshTokenIssued = ''refresh_token.issued''"
| "audit_event_as_str RefreshTokenUsed = ''refresh_token.used''"
| "audit_event_as_str RefreshTokenReuseDetected = ''refresh_token.reuse_detected''"
| "audit_event_as_str ConsentGranted = ''consent.granted''"
| "audit_event_as_str ConsentDenied = ''consent.denied''"
| "audit_event_as_str TenantInvitationCreated = ''tenant_invitation.created''"
| "audit_event_as_str TenantInvitationAccepted = ''tenant_invitation.accepted''"
| "audit_event_as_str TenantMembershipRevoked = ''tenant_membership.revoked''"
| "audit_event_as_str UserCreated = ''user.created''"
| "audit_event_as_str UserStatusChanged = ''user.status_changed''"
| "audit_event_as_str UserDeleted = ''user.deleted''"
| "audit_event_as_str UserPasswordReset = ''user.password_reset''"
| "audit_event_as_str PasswordChanged = ''password.changed''"
| "audit_event_as_str TenantCreated = ''tenant.created''"
| "audit_event_as_str TenantUpdated = ''tenant.updated''"
| "audit_event_as_str TenantDeleted = ''tenant.deleted''"
| "audit_event_as_str SystemSettingsUpdated = ''system_settings.updated''"
| "audit_event_as_str PasswordResetRequested = ''password_reset.requested''"
| "audit_event_as_str PasswordResetCompleted = ''password_reset.completed''"
| "audit_event_as_str EmailVerificationRequested = ''email_verification.requested''"
| "audit_event_as_str EmailVerified = ''email_verification.verified''"

fun audit_result_as_str :: "audit_result \<Rightarrow> string" where
  "audit_result_as_str AuditSuccess = ''success''"
| "audit_result_as_str AuditFailure = ''failure''"

record audit_log_entry =
  al_event_type :: string
  al_occurred_at :: instant
  al_tenant_id :: "uuid option"
  al_user_id :: "uuid option"
  al_client_id :: "string option"
  al_ip_address :: "string option"
  al_user_agent :: "string option"
  al_result :: string
  al_reason :: "string option"
  al_correlation_id :: string

record audit_log_filter =
  af_tenant_id :: "uuid option"
  af_event_type :: "string option"
  af_result :: "string option"
  af_client_id :: "string option"
  af_correlation_id :: "string option"
  af_from :: "instant option"
  af_to :: "instant option"
  af_limit :: int
  af_offset :: int

record audit_query_params =
  aq_event_type :: "string option"
  aq_result :: "string option"
  aq_client_id :: "string option"
  aq_correlation_id :: "string option"
  aq_from :: "instant option"
  aq_to :: "instant option"
  aq_limit :: "int option"
  aq_offset :: "int option"

text \<open>A condition of the query is there only when its value is given.\<close>

definition when_given :: "'a option \<Rightarrow> ('a \<Rightarrow> bool) \<Rightarrow> bool" where
  "when_given v P = (case v of Some x \<Rightarrow> P x | None \<Rightarrow> True)"

definition entry_matches :: "libs \<Rightarrow> audit_log_filter \<Rightarrow> audit_event \<Rightarrow> bool" where
  "entry_matches E f e \<longleftrightarrow>
     when_given (af_tenant_id f) (\<lambda>t. ae_tenant_id e = Some t) \<and>
     when_given (af_event_type f) (db_eq E (audit_event_as_str (ae_event_type e))) \<and>
     when_given (af_result f) (db_eq E (audit_result_as_str (ae_result e))) \<and>
     when_given (af_client_id f) (\<lambda>c. case ae_client_id e of Some x \<Rightarrow> db_eq E x c | None \<Rightarrow> False) \<and>
     when_given (af_correlation_id f) (db_eq E (ae_correlation_id e)) \<and>
     when_given (af_from f) (\<lambda>t. micros t \<le> ae_occurred_at e) \<and>
     when_given (af_to f) (\<lambda>t. ae_occurred_at e \<le> micros t)"

definition log_entry :: "audit_event \<Rightarrow> audit_log_entry" where
  "log_entry e =
     \<lparr>al_event_type = audit_event_as_str (ae_event_type e), al_occurred_at = ae_occurred_at e,
      al_tenant_id = ae_tenant_id e, al_user_id = ae_user_id e, al_client_id = ae_client_id e,
      al_ip_address = ae_ip_address e, al_user_agent = ae_user_agent e,
      al_result = audit_result_as_str (ae_result e), al_reason = ae_reason e,
      al_correlation_id = ae_correlation_id e\<rparr>"

text \<open>\<^verbatim>\<open>ORDER BY occurred_at DESC, id DESC\<close>: sorting is stable, so the later rows go first.\<close>

definition newest_first :: "libs \<Rightarrow> audit_log_filter \<Rightarrow> audit_event list \<Rightarrow> audit_event list" where
  "newest_first E f rows = sort_key (\<lambda>e. - ae_occurred_at e) (rev (filter (entry_matches E f) rows))"

definition page :: "int \<Rightarrow> int \<Rightarrow> 'a list \<Rightarrow> 'a list" where
  "page limit offset rows = take (nat limit) (drop (nat offset) rows)"

definition audit_log_search ::
  "libs \<Rightarrow> audit_log_filter \<Rightarrow> (world, domain_error + audit_log_entry list) state" where
  "audit_log_search E f = db_query (\<lambda>_ d.
     map log_entry (page (af_limit f) (af_offset f) (newest_first E f (db_audit_log d))))"

definition DEFAULT_LIMIT :: int where
  "DEFAULT_LIMIT = 50"

definition MAX_LIMIT :: int where
  "MAX_LIMIT = 200"

definition clamp_limit :: "int option \<Rightarrow> int" where
  "clamp_limit limit =
     (case limit of Some l \<Rightarrow> if l > 0 then min l MAX_LIMIT else DEFAULT_LIMIT | None \<Rightarrow> DEFAULT_LIMIT)"

definition query_filter :: "tenant_id \<Rightarrow> audit_query_params \<Rightarrow> audit_log_filter" where
  "query_filter tenant params =
     \<lparr>af_tenant_id = Some tenant, af_event_type = normalize_optional (aq_event_type params),
      af_result = normalize_optional (aq_result params), af_client_id = normalize_optional (aq_client_id params),
      af_correlation_id = normalize_optional (aq_correlation_id params), af_from = aq_from params,
      af_to = aq_to params, af_limit = clamp_limit (aq_limit params),
      af_offset = max (case aq_offset params of Some n \<Rightarrow> n | None \<Rightarrow> 0) 0\<rparr>"

definition search_audit_log ::
  "libs \<Rightarrow> tenant_id \<Rightarrow> audit_query_params \<Rightarrow> (world, domain_error + audit_log_entry list) state" where
  "search_audit_log E tenant params = audit_log_search E (query_filter tenant params)"

subsection \<open>Status of the clients\<close>

definition is_use :: "tenant_id \<Rightarrow> audit_event \<Rightarrow> bool" where
  "is_use tenant e \<longleftrightarrow> ae_tenant_id e = Some tenant \<and> ae_client_id e \<noteq> None \<and> ae_result e = AuditSuccess \<and>
     ae_event_type e \<in> {TokenIssued, AuthorizationCodeIssued}"

text \<open>
  \<^verbatim>\<open>GROUP BY client_id\<close> groups by the collation; the group has the spelling of its first row.
\<close>

definition latest :: "instant list \<Rightarrow> instant" where
  "latest ts = fold max (tl ts) (hd ts)"

fun group_uses :: "libs \<Rightarrow> (string \<times> instant) list \<Rightarrow> (string \<times> instant) list" where
  "group_uses E [] = []"
| "group_uses E ((c, t) # uses) =
     (c, latest (t # map snd (filter (\<lambda>u. db_eq E (fst u) c) uses))) #
     group_uses E (filter (\<lambda>u. \<not> db_eq E (fst u) c) uses)"

definition last_used_per_client ::
  "libs \<Rightarrow> tenant_id \<Rightarrow> (world, domain_error + (string \<times> instant) list) state" where
  "last_used_per_client E tenant = db_query (\<lambda>_ d.
     group_uses E (map (\<lambda>e. (the (ae_client_id e), ae_occurred_at e)) (filter (is_use tenant) (db_audit_log d))))"

record client_status_view =
  cs_client_id :: string
  cs_app_name :: string
  cs_status :: client_status
  cs_scopes :: "string list"
  cs_last_used_at :: "instant option"

definition to_view :: "(string \<Rightarrow> instant option) \<Rightarrow> client \<Rightarrow> client_status_view" where
  "to_view last_used c =
     \<lparr>cs_client_id = c_client_id c, cs_app_name = c_app_name c, cs_status = c_client_status c,
      cs_scopes = c_scopes c, cs_last_used_at = last_used (c_client_id c)\<rparr>"

definition list_client_status :: "libs \<Rightarrow> tenant_id \<Rightarrow> (world, domain_error + client_status_view list) state" where
  "list_client_status E tenant =
     and_then (clients_list tenant) (\<lambda>clients.
     and_then (last_used_per_client E tenant) (\<lambda>uses.
     State_Monad.return (Inr (map (to_view (map_of (rev uses))) clients))))"

section \<open>Properties\<close>

lemma clamp_limit_bounds: "1 \<le> clamp_limit l \<and> clamp_limit l \<le> MAX_LIMIT"
  by (auto simp: clamp_limit_def DEFAULT_LIMIT_def MAX_LIMIT_def split: option.splits)

lemma sorted_newest_first: "sorted (map (\<lambda>e. - ae_occurred_at e) (newest_first E f rows))"
  by (simp add: newest_first_def)

lemma set_newest_first: "set (newest_first E f rows) = {e \<in> set rows. entry_matches E f e}"
  by (simp add: newest_first_def)

text \<open>
  C35. Administrators read their own log. A search returns entries of the requesting tenant only, whatever
  its parameters, at most the maximum of a page, newest first, all of which match the given filters.
\<close>

theorem audit_search_confined:
  assumes "run_state (search_audit_log E tenant params) w = (Inr entries, w')"
  shows "db w' = db w \<and> int (length entries) \<le> MAX_LIMIT \<and>
     (\<forall>e \<in> set entries. al_tenant_id e = Some tenant) \<and>
     sorted (map (\<lambda>e. - al_occurred_at e) entries) \<and>
     (\<exists>rows. set rows \<subseteq> set (db_audit_log (db w)) \<and> entries = map log_entry rows \<and>
        (\<forall>e \<in> set rows. entry_matches E (query_filter tenant params) e))"
proof -
  let ?f = "query_filter tenant params"
  let ?rows = "page (af_limit ?f) (af_offset ?f) (newest_first E ?f (db_audit_log (db w)))"
  from assms have entries: "entries = map log_entry ?rows" and w': "db w' = db w"
    by (auto simp: search_audit_log_def audit_log_search_def run_rules)
  have sub: "set ?rows \<subseteq> {e \<in> set (db_audit_log (db w)). entry_matches E ?f e}"
    unfolding page_def set_newest_first [symmetric] by (meson order_trans set_drop_subset set_take_subset)
  have "int (length entries) \<le> MAX_LIMIT"
  proof -
    have "length entries \<le> nat (clamp_limit (aq_limit params))" by (simp add: entries page_def query_filter_def)
    with clamp_limit_bounds [of "aq_limit params"] show ?thesis by linarith
  qed
  moreover have "al_tenant_id e = Some tenant" if "e \<in> set entries" for e
    using that sub by (auto simp: entries log_entry_def entry_matches_def query_filter_def when_given_def)
  moreover have "sorted (map (\<lambda>e. - ae_occurred_at e) ?rows)"
    unfolding page_def take_map [symmetric] drop_map [symmetric]
    by (intro sorted_wrt_take sorted_wrt_drop sorted_newest_first)
  then have "sorted (map (\<lambda>e. - al_occurred_at e) entries)" by (simp add: entries log_entry_def comp_def)
  ultimately show ?thesis using w' sub entries by (intro conjI exI [of _ ?rows]) auto
qed

definition sample_event :: "tenant_id \<Rightarrow> instant \<Rightarrow> audit_event" where
  "sample_event t at =
     \<lparr>ae_event_type = LoginFailed, ae_occurred_at = at, ae_tenant_id = Some t, ae_user_id = None, ae_client_id = None,
      ae_ip_address = None, ae_user_agent = None, ae_result = AuditFailure, ae_reason = None, ae_correlation_id = ''c''\<rparr>"

theorem audit_search_confined_witness:
  "\<exists>entries w'. run_state (search_audit_log sample_libs 1
       \<lparr>aq_event_type = None, aq_result = Some '' failure'', aq_client_id = None, aq_correlation_id = None, aq_from = None,
        aq_to = None, aq_limit = Some 1, aq_offset = None\<rparr>)
       (sample_world\<lparr>db := sample_db\<lparr>db_audit_log := [sample_event 1 5, sample_event 9 7, sample_event 1 6]\<rparr>\<rparr>) =
         (Inr entries, w') \<and>
     map al_occurred_at entries = [6] \<and> (\<forall>e \<in> set entries. al_tenant_id e = Some 1)"
proof -
  let ?run = "run_state (search_audit_log sample_libs 1
       \<lparr>aq_event_type = None, aq_result = Some '' failure'', aq_client_id = None, aq_correlation_id = None, aq_from = None,
        aq_to = None, aq_limit = Some 1, aq_offset = None\<rparr>)
       (sample_world\<lparr>db := sample_db\<lparr>db_audit_log := [sample_event 1 5, sample_event 9 7, sample_event 1 6]\<rparr>\<rparr>)"
  have "fst ?run = Inr [log_entry (sample_event 1 6)]" by code_simp
  note run = run_fstI [OF this]
  have times: "map al_occurred_at [log_entry (sample_event 1 6)] = [6]" by code_simp
  have "\<forall>e \<in> set [log_entry (sample_event 1 6)]. al_tenant_id e = Some 1" using audit_search_confined [OF run] by (elim conjE)
  with run times show ?thesis by (intro exI conjI)
qed

text \<open>Successive pages give the whole result, without gap or repetition.\<close>

lemma pages_cover:
  assumes "0 < n"
  shows "concat (map (\<lambda>k. page n (int k * n) rows) [0..<m]) = take (nat n * m) rows"
proof (induction m)
  case 0
  then show ?case by simp
next
  case (Suc m)
  have "nat (int m * n) = nat n * m" using assms by (simp add: nat_mult_distrib mult.commute)
  with Suc show ?case by (simp add: page_def take_add [symmetric] add.commute)
qed

end
