(* ===== verification/Passkeys.thy ===== *)
theory Passkeys
  imports MfaLogin Tenants
begin

text \<open>
  Passkeys: registering them under a session (\<^verbatim>\<open>application/passkey_registration.rs\<close>), signing in with
  one (\<^verbatim>\<open>application/passkey_authentication.rs\<close>), and their tables. The WebAuthn protocol itself is the
  crate webauthn-rs behind \<^verbatim>\<open>domain/webauthn_port.rs\<close>; it is a parameter, and its values are their JSON
  texts. A challenge is kept between the two requests of a ceremony.
\<close>

section \<open>Tables\<close>

text \<open>The unique key covers the first 255 characters of the credential id.\<close>

definition credential_clash :: "libs \<Rightarrow> webauthn_credential \<Rightarrow> webauthn_credential \<Rightarrow> bool" where
  "credential_clash E c x \<longleftrightarrow> wc_id x = wc_id c \<or>
     db_eq E (take 255 (wc_credential_id x)) (take 255 (wc_credential_id c))"

definition credentials_create :: "libs \<Rightarrow> webauthn_credential \<Rightarrow> (world, domain_error + unit) state" where
  "credentials_create E c = db_call (\<lambda>_ d.
     let (r, rows) = insert_row E (credential_clash E c)
           (c\<lparr>wc_created_at := micros (wc_created_at c), wc_last_used_at := map_option micros (wc_last_used_at c)\<rparr>)
           (db_credentials d)
     in (r, d\<lparr>db_credentials := rows\<rparr>))"

definition credentials_find_by_id :: "uuid \<Rightarrow> (world, domain_error + webauthn_credential option) state" where
  "credentials_find_by_id i = db_query (\<lambda>_ d. find (\<lambda>c. wc_id c = i) (db_credentials d))"

definition credentials_find_by_credential_id ::
  "libs \<Rightarrow> string \<Rightarrow> (world, domain_error + webauthn_credential option) state" where
  "credentials_find_by_credential_id E credential_id =
     db_query (\<lambda>_ d. find (\<lambda>c. db_eq E (wc_credential_id c) credential_id) (db_credentials d))"

definition credentials_list_by_user_id :: "uuid \<Rightarrow> (world, domain_error + webauthn_credential list) state" where
  "credentials_list_by_user_id user_id =
     db_query (\<lambda>_ d. sort_key wc_created_at (filter (\<lambda>c. wc_user_id c = user_id) (db_credentials d)))"

definition credentials_update_passkey :: "uuid \<Rightarrow> string \<Rightarrow> instant \<Rightarrow> (world, domain_error + unit) state" where
  "credentials_update_passkey i passkey_json last_used_at = db_execute (\<lambda>_ d.
     d\<lparr>db_credentials := update_where (\<lambda>c. wc_id c = i)
         (\<lambda>c. c\<lparr>wc_passkey_json := passkey_json, wc_last_used_at := Some (micros last_used_at)\<rparr>) (db_credentials d)\<rparr>)"

definition credentials_delete :: "uuid \<Rightarrow> uuid \<Rightarrow> (world, domain_error + unit) state" where
  "credentials_delete i user_id = db_execute (\<lambda>_ d.
     d\<lparr>db_credentials := delete_where (\<lambda>c. wc_id c = i \<and> wc_user_id c = user_id) (db_credentials d)\<rparr>)"

definition challenges_create :: "libs \<Rightarrow> passkey_challenge \<Rightarrow> (world, domain_error + unit) state" where
  "challenges_create E c = db_call (\<lambda>_ d.
     let (r, rows) = insert_row E (\<lambda>x. pc_id x = pc_id c)
           (c\<lparr>pc_expires_at := micros (pc_expires_at c), pc_created_at := micros (pc_created_at c)\<rparr>) (db_challenges d)
     in (r, d\<lparr>db_challenges := rows\<rparr>))"

definition challenges_find_by_id :: "uuid \<Rightarrow> (world, domain_error + passkey_challenge option) state" where
  "challenges_find_by_id i = db_query (\<lambda>_ d. find (\<lambda>c. pc_id c = i) (db_challenges d))"

definition challenges_delete :: "uuid \<Rightarrow> (world, domain_error + unit) state" where
  "challenges_delete i = db_execute (\<lambda>_ d.
     d\<lparr>db_challenges := delete_where (\<lambda>c. pc_id c = i) (db_challenges d)\<rparr>)"

definition challenges_delete_expired :: "instant \<Rightarrow> (world, domain_error + unit) state" where
  "challenges_delete_expired now = db_execute (\<lambda>_ d.
     d\<lparr>db_challenges := delete_where (\<lambda>c. pc_expires_at c \<le> micros now) (db_challenges d)\<rparr>)"

section \<open>Registration\<close>

definition CHALLENGE_TTL :: duration where
  "CHALLENGE_TTL = seconds 300"

datatype passkey_registration_error =
    PasskeySessionExpired
  | PasskeyChallengeNotFound
  | PasskeyInvalidCredential string
  | DuplicateCredential
  | PasskeyNotFound
  | PasskeyInternal string

definition passkey_failed :: "domain_error \<Rightarrow> passkey_registration_error" where
  "passkey_failed e = PasskeyInternal (domain_error_to_string e)"

definition passkey_user :: "libs \<Rightarrow> string \<Rightarrow> (world, passkey_registration_error + uuid) state" where
  "passkey_user E sso_session_id =
     and_then (map_err passkey_failed (sso_sessions_find_by_hash E (sha256_hex E sso_session_id))) (\<lambda>found.
     case found of
       None \<Rightarrow> State_Monad.return (Inl PasskeySessionExpired)
     | Some session \<Rightarrow> do {
         now \<leftarrow> clock_now;
         State_Monad.return
           (if ss_idle_expires_at session \<le> now \<or> ss_absolute_expires_at session \<le> now
            then Inl PasskeySessionExpired else Inr (ss_user_id session))
       })"

text \<open>The ids of the passkeys the user has already; those that do not parse are left out.\<close>

definition exclude_credentials :: "libs \<Rightarrow> webauthn_credential list \<Rightarrow> string list option" where
  "exclude_credentials E existing =
     (let passkeys = filter (\<lambda>p. wa_passkey_error E p = None) (map wc_passkey_json existing)
      in if passkeys = [] then None else Some (map (wa_cred_id E) passkeys))"

definition passkey_register_begin ::
  "libs \<Rightarrow> string \<Rightarrow> string \<Rightarrow> (world, passkey_registration_error + uuid \<times> string) state" where
  "passkey_register_begin E sso_session_id user_name =
     and_then (passkey_user E sso_session_id) (\<lambda>user_id.
     and_then (map_err passkey_failed (credentials_list_by_user_id user_id)) (\<lambda>existing. do {
     random \<leftarrow> random_bytes 32;
     case wa_begin_registration E user_id user_name user_name (exclude_credentials E existing) random of
       Inl e \<Rightarrow> State_Monad.return (Inl (PasskeyInvalidCredential e))
     | Inr (options, Inl e) \<Rightarrow> State_Monad.return (Inl (PasskeyInternal e))
     | Inr (options, Inr state_json) \<Rightarrow> do {
         now \<leftarrow> clock_now;
         challenge_id \<leftarrow> new_v4;
         and_then (map_err passkey_failed (challenges_create E
           \<lparr>pc_id = challenge_id, pc_user_id = Some user_id, pc_challenge_type = Register,
            pc_state_json = state_json, pc_auth_session_id = None, pc_expires_at = now + CHALLENGE_TTL,
            pc_created_at = now\<rparr>)) (\<lambda>_.
         State_Monad.return (case options of
           Inl e \<Rightarrow> Inl (PasskeyInternal e)
         | Inr options_json \<Rightarrow> Inr (challenge_id, options_json)))
       }
     }))"

definition read_json :: "(string \<Rightarrow> string option) \<Rightarrow> (string \<Rightarrow> 'e) \<Rightarrow> string \<Rightarrow> (world, 'e + unit) state" where
  "read_json error fail s = State_Monad.return (case error s of Some e \<Rightarrow> Inl (fail e) | None \<Rightarrow> Inr ())"

definition passkey_register_complete ::
  "libs \<Rightarrow> string \<Rightarrow> uuid \<Rightarrow> string \<Rightarrow> string \<Rightarrow> (world, passkey_registration_error + uuid) state" where
  "passkey_register_complete E sso_session_id challenge_id name credential_value =
     and_then (passkey_user E sso_session_id) (\<lambda>user_id. do {
     now \<leftarrow> clock_now;
     and_then (map_err passkey_failed (challenges_find_by_id challenge_id)) (\<lambda>found.
     case found of
       None \<Rightarrow> State_Monad.return (Inl PasskeyChallengeNotFound)
     | Some challenge \<Rightarrow>
         if pc_expires_at challenge \<le> now \<or> pc_user_id challenge \<noteq> Some user_id then do {
           _ \<leftarrow> challenges_delete challenge_id;
           State_Monad.return (Inl PasskeyChallengeNotFound)
         }
         else
           and_then (read_json (wa_registration_error E) PasskeyInternal (pc_state_json challenge)) (\<lambda>_.
           and_then (read_json (wa_register_response_error E) PasskeyInvalidCredential credential_value) (\<lambda>_.
           case wa_finish_registration E credential_value (pc_state_json challenge) of
             Inl e \<Rightarrow> State_Monad.return (Inl (PasskeyInvalidCredential e))
           | Inr (Inl e) \<Rightarrow> State_Monad.return (Inl (PasskeyInternal e))
           | Inr (Inr passkey_json) \<Rightarrow> do {
               cred_id \<leftarrow> new_id;
               _ \<leftarrow> challenges_delete challenge_id;
               and_then (map_err (\<lambda>e. case e of Conflict _ \<Rightarrow> DuplicateCredential | _ \<Rightarrow> passkey_failed e)
                 (credentials_create E
                   \<lparr>wc_id = cred_id, wc_user_id = user_id,
                    wc_credential_id = b64url_encode E (wa_cred_id E passkey_json),
                    wc_passkey_json = passkey_json, wc_name = trim name, wc_created_at = now,
                    wc_last_used_at = None\<rparr>)) (\<lambda>_.
               State_Monad.return (Inr cred_id))
             }))) })"

definition passkey_delete ::
  "libs \<Rightarrow> string \<Rightarrow> uuid \<Rightarrow> (world, passkey_registration_error + unit) state" where
  "passkey_delete E sso_session_id credential_id =
     and_then (passkey_user E sso_session_id) (\<lambda>user_id.
     map_err passkey_failed (credentials_delete credential_id user_id))"

record credential_info =
  ci_id :: uuid
  ci_name :: string
  ci_created_at :: instant
  ci_last_used_at :: "instant option"

definition passkey_list ::
  "libs \<Rightarrow> string \<Rightarrow> (world, passkey_registration_error + credential_info list) state" where
  "passkey_list E sso_session_id =
     and_then (passkey_user E sso_session_id) (\<lambda>user_id.
     and_then (map_err passkey_failed (credentials_list_by_user_id user_id)) (\<lambda>creds.
     State_Monad.return (Inr (map (\<lambda>c.
       \<lparr>ci_id = wc_id c, ci_name = wc_name c, ci_created_at = wc_created_at c,
        ci_last_used_at = wc_last_used_at c\<rparr>) creds))))"

section \<open>Authentication\<close>

datatype passkey_auth_outcome =
    PasskeySuccess string string
  | PasskeyConsentRequired string string
  | AuthChallengeNotFound
  | AuthSessionExpired
  | AuthInvalidCredential
  | AuthInternal string

definition auth_failed :: "domain_error \<Rightarrow> passkey_auth_outcome" where
  "auth_failed e = AuthInternal (domain_error_to_string e)"

definition auth_stop :: "flow_stop \<Rightarrow> passkey_auth_outcome" where
  "auth_stop s = (case s of FlowExpired \<Rightarrow> AuthSessionExpired | FlowFailed e \<Rightarrow> auth_failed e)"

definition passkey_auth_begin ::
  "libs \<Rightarrow> string option \<Rightarrow> (world, string + uuid \<times> string) state" where
  "passkey_auth_begin E auth_session_id = do {
     now \<leftarrow> clock_now;
     random \<leftarrow> random_bytes 32;
     case wa_begin_authentication E random of
       Inl e \<Rightarrow> State_Monad.return (Inl (''begin_authentication failed: '' @ e))
     | Inr (options, Inl e) \<Rightarrow> State_Monad.return (Inl (''serialize state: '' @ e))
     | Inr (options, Inr state_json) \<Rightarrow> do {
         challenge_id \<leftarrow> new_v4;
         and_then (map_err domain_error_to_string (challenges_create E
           \<lparr>pc_id = challenge_id, pc_user_id = None, pc_challenge_type = Authenticate,
            pc_state_json = state_json, pc_auth_session_id = auth_session_id,
            pc_expires_at = now + CHALLENGE_TTL, pc_created_at = now\<rparr>)) (\<lambda>_.
         State_Monad.return (case options of
           Inl e \<Rightarrow> Inl (''serialize options: '' @ e)
         | Inr options_json \<Rightarrow> Inr (challenge_id, options_json)))
       }
   }"

text \<open>Step 1: the challenge, which is deleted before anything else is done with it.\<close>

definition take_challenge ::
  "uuid \<Rightarrow> instant \<Rightarrow> (world, passkey_auth_outcome + passkey_challenge) state" where
  "take_challenge challenge_id now =
     and_then (map_err auth_failed (challenges_find_by_id challenge_id)) (\<lambda>found.
     case found of
       None \<Rightarrow> State_Monad.return (Inl AuthChallengeNotFound)
     | Some challenge \<Rightarrow>
         if pc_expires_at challenge \<le> now then do {
           _ \<leftarrow> challenges_delete challenge_id;
           State_Monad.return (Inl AuthChallengeNotFound)
         }
         else
           and_then (map_err auth_failed (challenges_delete challenge_id)) (\<lambda>_.
           State_Monad.return (Inr challenge)))"

text \<open>Steps 2 to 5: the response is verified with the stored passkey it names.\<close>

definition verify_response ::
  "libs \<Rightarrow> tenant_id \<Rightarrow> string \<Rightarrow> string \<Rightarrow> request_context \<Rightarrow>
   (world, passkey_auth_outcome + webauthn_credential \<times> string) state" where
  "verify_response E tenant_id state_json credential_value ctx =
     and_then (read_json (wa_authentication_error E) AuthInternal state_json) (\<lambda>_.
     case wa_response_id E credential_value of
       None \<Rightarrow> State_Monad.return (Inl AuthInvalidCredential)
     | Some response_id \<Rightarrow>
         and_then (map_err auth_failed (credentials_find_by_credential_id E response_id)) (\<lambda>found.
         case found of
           None \<Rightarrow> State_Monad.return (Inl AuthInvalidCredential)
         | Some stored_cred \<Rightarrow>
             and_then (read_json (wa_passkey_error E) AuthInternal (wc_passkey_json stored_cred)) (\<lambda>_.
             case wa_finish_authentication E credential_value state_json (wc_passkey_json stored_cred) of
               None \<Rightarrow> do {
                 audit_record LoginFailed AuditFailure (Some tenant_id) (Some (wc_user_id stored_cred)) None
                   (Some ''invalid_passkey'') ctx;
                 State_Monad.return (Inl AuthInvalidCredential)
               }
             | Some auth_result \<Rightarrow> State_Monad.return (Inr (stored_cred, auth_result)))))"

text \<open>Step 6.\<close>

definition update_counter ::
  "libs \<Rightarrow> webauthn_credential \<Rightarrow> string \<Rightarrow> instant \<Rightarrow> (world, passkey_auth_outcome + unit) state" where
  "update_counter E stored_cred auth_result now =
     (case wa_update_credential E (wc_passkey_json stored_cred) auth_result of
        None \<Rightarrow> State_Monad.return (Inr ())
      | Some (Inl e) \<Rightarrow> State_Monad.return (Inl (AuthInternal e))
      | Some (Inr new_json) \<Rightarrow>
          map_err auth_failed (credentials_update_passkey (wc_id stored_cred) new_json now))"

text \<open>Step 7.\<close>

definition ensure_active_member ::
  "tenant_id \<Rightarrow> uuid \<Rightarrow> (world, passkey_auth_outcome + unit) state" where
  "ensure_active_member tenant_id user_id =
     and_then (map_err auth_failed (users_find_by_id user_id)) (\<lambda>found.
     and_then (require (case found of Some u \<Rightarrow> user_is_active u | None \<Rightarrow> False) AuthInvalidCredential) (\<lambda>_.
     and_then (map_err auth_failed (memberships_is_active_member tenant_id user_id)) (\<lambda>member.
     require member AuthInvalidCredential)))"

text \<open>Step 8.\<close>

definition challenge_session ::
  "libs \<Rightarrow> tenant_id \<Rightarrow> passkey_challenge \<Rightarrow> instant \<Rightarrow> (world, passkey_auth_outcome + auth_session) state" where
  "challenge_session E tenant_id challenge now =
     (case pc_auth_session_id challenge of
        None \<Rightarrow> State_Monad.return (Inl (AuthInternal ''no auth_session_id in challenge''))
      | Some i \<Rightarrow> map_err auth_stop (live_session E tenant_id i now))"

definition passkey_authenticate ::
  "libs \<Rightarrow> tenant_id \<Rightarrow> uuid \<Rightarrow> string \<Rightarrow> instant \<Rightarrow> request_context \<Rightarrow>
   (world, passkey_auth_outcome + uuid \<times> auth_session) state" where
  "passkey_authenticate E tenant_id challenge_id credential_value now ctx =
     and_then (take_challenge challenge_id now) (\<lambda>challenge.
     and_then (verify_response E tenant_id (pc_state_json challenge) credential_value ctx) (\<lambda>(stored_cred, auth_result).
     and_then (update_counter E stored_cred auth_result now) (\<lambda>_.
     and_then (ensure_active_member tenant_id (wc_user_id stored_cred)) (\<lambda>_.
     and_then (challenge_session E tenant_id challenge now) (\<lambda>session.
     State_Monad.return (Inr (wc_user_id stored_cred, session)))))))"

definition passkey_auth_complete ::
  "libs \<Rightarrow> config \<Rightarrow> tenant_id \<Rightarrow> uuid \<Rightarrow> string \<Rightarrow> request_context \<Rightarrow>
   (world, passkey_auth_outcome outcome) state" where
  "passkey_auth_complete E C tenant_id challenge_id credential_value ctx = do {
     now \<leftarrow> clock_now;
     r \<leftarrow> and_then (passkey_authenticate E tenant_id challenge_id credential_value now ctx) (\<lambda>(user_id, session).
       and_then (map_err auth_failed (complete_second_step E C tenant_id user_id session now ctx)) (\<lambda>(sso_session_id, finished).
       State_Monad.return (Inr (case finished of
         None \<Rightarrow> Return (PasskeyConsentRequired (as_id session) sso_session_id)
       | Some location \<Rightarrow> map_outcome (\<lambda>l. PasskeySuccess l sso_session_id) location))));
     State_Monad.return (case r of Inl out \<Rightarrow> Return out | Inr out \<Rightarrow> out)
   }"

section \<open>Reading a run\<close>

lemma take_challenge_Inr:
  "run_state (take_challenge i now) w = (Inr c, w') \<Longrightarrow>
   c \<in> set (db_challenges (db w)) \<and> pc_id c = i \<and> now < pc_expires_at c \<and>
   db w' = (db w)\<lparr>db_challenges := delete_where (\<lambda>c. pc_id c = i) (db_challenges (db w))\<rparr>"
  by (auto simp: take_challenge_def challenges_find_by_id_def challenges_delete_def run_rules dest: find_SomeD)

lemma verify_response_Inr:
  assumes "run_state (verify_response E tenant st cred ctx) w = (Inr (c, r), w')"
  shows "\<exists>rid. wa_response_id E cred = Some rid \<and> c \<in> set (db_credentials (db w)) \<and>
     db_eq E (wc_credential_id c) rid \<and> wa_finish_authentication E cred st (wc_passkey_json c) = Some r \<and> db w' = db w"
  using assms
  by (auto simp: verify_response_def read_json_def credentials_find_by_credential_id_def run_rules dest: find_SomeD)

lemma update_counter_Inr:
  "run_state (update_counter E c r now) w = (Inr x, w') \<Longrightarrow>
   db w' = (db w)\<lparr>db_credentials := db_credentials (db w')\<rparr>"
  by (auto simp: update_counter_def credentials_update_passkey_def run_rules)

lemma ensure_active_member_Inr:
  "run_state (ensure_active_member tenant i) w = (Inr x, w') \<Longrightarrow>
   (\<exists>u \<in> set (db_users (db w)). u_id u = i \<and> user_is_active u) \<and>
   (\<exists>m \<in> set (db_memberships (db w)). tm_tenant_id m = tenant \<and> tm_user_id m = i \<and> membership_is_active m) \<and>
   db w' = db w"
  by (auto simp: ensure_active_member_def users_find_by_id_def memberships_is_active_member_def
      membership_is_active_def list_ex_iff run_rules dest: find_SomeD)

lemma challenge_session_Inr:
  "run_state (challenge_session E tenant c now) w = (Inr session, w') \<Longrightarrow>
   (\<exists>i. pc_auth_session_id c = Some i \<and> db_eq E (as_id session) i) \<and>
   session \<in> set (db_auth_sessions (db w)) \<and> as_tenant_id session = tenant \<and>
   \<not> auth_session_is_expired_at session now \<and> db w' = db w"
  by (auto simp: challenge_session_def run_rules dest!: live_session_Inr)

text \<open>Who is signed in with which proof.\<close>

definition passkey_proof ::
  "libs \<Rightarrow> tenant_id \<Rightarrow> uuid \<Rightarrow> string \<Rightarrow> instant \<Rightarrow> database \<Rightarrow> uuid \<Rightarrow> auth_session \<Rightarrow> bool" where
  "passkey_proof E tenant cid cred now d uid session \<longleftrightarrow>
     (\<exists>ch c rid r u m i. ch \<in> set (db_challenges d) \<and> pc_id ch = cid \<and> now < pc_expires_at ch \<and>
        wa_response_id E cred = Some rid \<and> c \<in> set (db_credentials d) \<and> db_eq E (wc_credential_id c) rid \<and>
        wa_finish_authentication E cred (pc_state_json ch) (wc_passkey_json c) = Some r \<and> wc_user_id c = uid \<and>
        u \<in> set (db_users d) \<and> u_id u = uid \<and> user_is_active u \<and>
        m \<in> set (db_memberships d) \<and> tm_tenant_id m = tenant \<and> tm_user_id m = uid \<and> membership_is_active m \<and>
        pc_auth_session_id ch = Some i \<and> db_eq E (as_id session) i \<and>
        session \<in> set (db_auth_sessions d) \<and> as_tenant_id session = tenant \<and> \<not> auth_session_is_expired_at session now)"

lemma passkey_authenticate_Inr:
  assumes "run_state (passkey_authenticate E tenant cid cred now ctx) w = (Inr (uid, session), w')"
  shows "passkey_proof E tenant cid cred now (db w) uid session"
    "db w' = (db w)\<lparr>db_challenges := delete_where (\<lambda>c. pc_id c = cid) (db_challenges (db w)),
       db_credentials := db_credentials (db w')\<rparr>"
proof -
  from assms obtain ch c r w1 w2 w3 w4 x y where parts:
    "run_state (take_challenge cid now) w = (Inr ch, w1)"
    "run_state (verify_response E tenant (pc_state_json ch) cred ctx) w1 = (Inr (c, r), w2)"
    "run_state (update_counter E c r now) w2 = (Inr x, w3)"
    "run_state (ensure_active_member tenant (wc_user_id c)) w3 = (Inr y, w4)"
    "run_state (challenge_session E tenant ch now) w4 = (Inr session, w')" "wc_user_id c = uid"
    by (auto simp: passkey_authenticate_def run_and_then_Inr run_case_prodE run_returnE)
  note 1 = take_challenge_Inr [OF parts(1)]
  note 2 = verify_response_Inr [OF parts(2)]
  note 3 = update_counter_Inr [OF parts(3)]
  note 4 = ensure_active_member_Inr [OF parts(4)]
  note 5 = challenge_session_Inr [OF parts(5)]
  have w3: "db w3 = (db w)\<lparr>db_challenges := delete_where (\<lambda>c. pc_id c = cid) (db_challenges (db w)),
       db_credentials := db_credentials (db w3)\<rparr>" using 1 2 3 by auto
  have same: "db_users (db w3) = db_users (db w)" "db_memberships (db w3) = db_memberships (db w)"
    "db_auth_sessions (db w3) = db_auth_sessions (db w)" by (subst w3; simp)+
  have "db w' = db w3" using 4 5 by simp
  then show "db w' = (db w)\<lparr>db_challenges := delete_where (\<lambda>c. pc_id c = cid) (db_challenges (db w)),
       db_credentials := db_credentials (db w')\<rparr>" by (subst \<open>db w' = db w3\<close>, subst w3, simp)
  from 2 obtain rid where "wa_response_id E cred = Some rid" "c \<in> set (db_credentials (db w1))"
    "db_eq E (wc_credential_id c) rid" "wa_finish_authentication E cred (pc_state_json ch) (wc_passkey_json c) = Some r" by blast
  moreover from 4 same parts(6) obtain u m where "u \<in> set (db_users (db w))" "u_id u = uid" "user_is_active u"
    "m \<in> set (db_memberships (db w))" "tm_tenant_id m = tenant" "tm_user_id m = uid" "membership_is_active m" by auto
  moreover from 5 4 same obtain i where "pc_auth_session_id ch = Some i" "db_eq E (as_id session) i"
    "session \<in> set (db_auth_sessions (db w))" "as_tenant_id session = tenant" "\<not> auth_session_is_expired_at session now"
    by auto
  moreover have "db_credentials (db w1) = db_credentials (db w)" using 1 by simp
  ultimately show "passkey_proof E tenant cid cred now (db w) uid session"
    unfolding passkey_proof_def using 1 parts(6)
    by (intro exI [of _ ch] exI [of _ c] exI [of _ rid] exI [of _ r] exI [of _ u] exI [of _ m] exI [of _ i]) simp
qed

text \<open>What an authentication that stops answers.\<close>

definition auth_stopped :: "passkey_auth_outcome \<Rightarrow> bool" where
  "auth_stopped out \<longleftrightarrow> out \<in> {AuthChallengeNotFound, AuthSessionExpired, AuthInvalidCredential} \<or> (\<exists>m. out = AuthInternal m)"

lemma auth_stopped_simps [simp]:
  "auth_stopped AuthChallengeNotFound" "auth_stopped AuthSessionExpired" "auth_stopped AuthInvalidCredential"
  "auth_stopped (AuthInternal m)" "auth_stopped (auth_failed e)" "auth_stopped (auth_stop s)"
  "\<not> auth_stopped (PasskeySuccess l i)" "\<not> auth_stopped (PasskeyConsentRequired a i)"
  by (auto simp: auth_stopped_def auth_failed_def auth_stop_def split: flow_stop.splits)

lemma passkey_steps_stopped:
  "run_state (take_challenge i now) w = (Inl out, w') \<Longrightarrow> auth_stopped out"
  "run_state (verify_response E tenant st cred ctx) w = (Inl out, w') \<Longrightarrow> auth_stopped out"
  "run_state (update_counter E c r now) w = (Inl out, w') \<Longrightarrow> auth_stopped out"
  "run_state (ensure_active_member tenant u) w = (Inl out, w') \<Longrightarrow> auth_stopped out"
  "run_state (challenge_session E tenant ch now) w = (Inl out, w') \<Longrightarrow> auth_stopped out"
  by (auto simp: take_challenge_def verify_response_def read_json_def update_counter_def ensure_active_member_def
      challenge_session_def run_rules)

lemma passkey_authenticate_stopped:
  "run_state (passkey_authenticate E tenant cid cred now ctx) w = (Inl out, w') \<Longrightarrow> auth_stopped out"
  unfolding passkey_authenticate_def
  by (auto simp: run_and_then_Inl run_case_prodE run_returnE dest: passkey_steps_stopped)

lemma flow_ended_cong:
  assumes "db_sso_sessions d0 = db_sso_sessions d" "db_codes d0 = db_codes d" "db_consents d0 = db_consents d"
  shows "flow_ended E C tenant uid session now d0 d' sso_id finished = flow_ended E C tenant uid session now d d' sso_id finished"
  using assms by (simp add: flow_ended_def consent_given_def split: option.splits)

lemma passkey_auth_Return:
  assumes "run_state (passkey_auth_complete E C tenant cid cred ctx) w = (Return out, w')"
    and "out = PasskeySuccess l sso_id \<or> out = PasskeyConsentRequired i sso_id"
  obtains uid session w1 finished where
    "run_state (passkey_authenticate E tenant cid cred (clock_src w (ticks w)) ctx) (tick w) = (Inr (uid, session), w1)"
    "run_state (complete_second_step E C tenant uid session (clock_src w (ticks w)) ctx) w1 = (Inr (sso_id, finished), w')"
    "out = PasskeyConsentRequired i sso_id \<longrightarrow> finished = None \<and> i = as_id session"
    "out = PasskeySuccess l sso_id \<longrightarrow> finished = Some (Return l)"
proof -
  let ?now = "clock_src w (ticks w)"
  let ?rest = "\<lambda>(uid, session). and_then (map_err auth_failed (complete_second_step E C tenant uid session ?now ctx)) (\<lambda>(sso, finished).
       State_Monad.return (Inr (case finished of
         None \<Rightarrow> Return (PasskeyConsentRequired (as_id session) sso)
       | Some location \<Rightarrow> map_outcome (\<lambda>l. PasskeySuccess l sso) location)))"
  from assms(2) have running: "\<not> auth_stopped out" by auto
  from assms(1) obtain r where r: "run_state (and_then (passkey_authenticate E tenant cid cred ?now ctx) ?rest) (tick w) = (r, w')"
    "Return out = (case r of Inl out \<Rightarrow> Return out | Inr out \<Rightarrow> out)"
    by (auto simp: passkey_auth_complete_def run_bindE run_clock_now run_returnE)
  have "r \<noteq> Inl out"
    using r(1) running passkey_authenticate_stopped
    by (auto simp: run_and_then_Inl run_and_then_Inr run_case_prodE run_map_err_Inl run_returnE)
  with r obtain uid session w1 where
      1: "run_state (passkey_authenticate E tenant cid cred ?now ctx) (tick w) = (Inr (uid, session), w1)"
    and 2: "run_state (?rest (uid, session)) w1 = (Inr (Return out), w')"
    by (cases r) (auto simp: run_and_then_Inr)
  from 2 assms(2) show thesis
    by (auto simp: run_map_err_Inr run_and_then_Inr run_case_prodE run_returnE case_option_eqE map_outcome_Return
        intro!: that [OF 1])
qed

lemma frame_challenges_second_step:
  "run_state (complete_second_step E C tenant uid session now ctx) w = (r, w') \<Longrightarrow> db_challenges (db w') = db_challenges (db w)"
proof -
  have "always (frame db_challenges) (complete_second_step E C tenant uid session now ctx)"
    unfolding complete_second_step_def start_sso_def finish_flow_def session_consented_def issue_and_close_def
      issue_code_def update_wrappers
    by (intro frame.always_rules frame_ops frame_auth_sessions frame_sso_sessions frame_codes frame_audit) simp_all
  then show "run_state (complete_second_step E C tenant uid session now ctx) w = (r, w') \<Longrightarrow> db_challenges (db w') = db_challenges (db w)"
    by (auto dest!: alwaysD simp: frame_def)
qed

section \<open>Properties\<close>

text \<open>
  C18. Signing in with a passkey. It ends in a session, or in a code, only for a response that verifies,
  under the unexpired challenge of that id, with the stored passkey it names, and only for the owner of
  that passkey, who is active and an active member of the tenant, in the live session of that tenant the
  challenge was made for. The session and the code are that user's and that flow's, and the challenge
  is gone.
\<close>

theorem passkey_login_sound:
  assumes "run_state (passkey_auth_complete E C tenant cid cred ctx) w = (Return out, w')"
    and "out = PasskeySuccess location sso_id \<or> out = PasskeyConsentRequired sid sso_id"
  shows "\<exists>uid session now finished.
     passkey_proof E tenant cid cred now (db w) uid session \<and> now = clock_src w (ticks w) \<and>
     flow_ended E C tenant uid session now (db w) (db w') sso_id finished \<and>
     (out = PasskeySuccess location sso_id \<longrightarrow> finished = Some (Return location)) \<and>
     (out = PasskeyConsentRequired sid sso_id \<longrightarrow> finished = None \<and> sid = as_id session) \<and>
     (\<forall>c \<in> set (db_challenges (db w')). pc_id c \<noteq> cid)"
proof -
  from assms obtain uid session w1 finished where
      a: "run_state (passkey_authenticate E tenant cid cred (clock_src w (ticks w)) ctx) (tick w) = (Inr (uid, session), w1)"
    and c: "run_state (complete_second_step E C tenant uid session (clock_src w (ticks w)) ctx) w1 = (Inr (sso_id, finished), w')"
    and out: "out = PasskeyConsentRequired sid sso_id \<longrightarrow> finished = None \<and> sid = as_id session"
      "out = PasskeySuccess location sso_id \<longrightarrow> finished = Some (Return location)"
    by (rule passkey_auth_Return)
  note proof_of = passkey_authenticate_Inr [OF a, unfolded db_counters]
  have same: "db_sso_sessions (db w1) = db_sso_sessions (db w)" "db_codes (db w1) = db_codes (db w)"
    "db_consents (db w1) = db_consents (db w)" by (subst proof_of(2); simp)+
  have "flow_ended E C tenant uid session (clock_src w (ticks w)) (db w) (db w') sso_id finished"
    using complete_second_step_Inr [OF c] flow_ended_cong [OF same] by simp
  moreover have "db_challenges (db w1) = delete_where (\<lambda>c. pc_id c = cid) (db_challenges (db w))"
    by (subst proof_of(2)) simp
  with frame_challenges_second_step [OF c] have "\<forall>c \<in> set (db_challenges (db w')). pc_id c \<noteq> cid"
    by (simp add: set_delete_where)
  ultimately show ?thesis using proof_of(1) out by blast
qed

definition passkey_world :: world where
  "passkey_world = sample_world\<lparr>db := sample_db\<lparr>
     db_challenges :=
       [\<lparr>pc_id = 77, pc_user_id = None, pc_challenge_type = Authenticate, pc_state_json = ''state'',
         pc_auth_session_id = Some ''sess'', pc_expires_at = seconds 1300, pc_created_at = seconds 1000\<rparr>,
        \<lparr>pc_id = 78, pc_user_id = Some 2, pc_challenge_type = Register, pc_state_json = ''state'',
         pc_auth_session_id = None, pc_expires_at = seconds 1300, pc_created_at = seconds 1000\<rparr>],
     db_credentials :=
       [\<lparr>wc_id = 70, wc_user_id = 2, wc_credential_id = ''key'', wc_passkey_json = ''key'', wc_name = ''laptop'',
         wc_created_at = 0, wc_last_used_at = None\<rparr>]\<rparr>\<rparr>"

theorem passkey_login_sound_witness:
  "\<exists>out w' uid session now. run_state (passkey_auth_complete sample_libs sample_config 1 77 ''key'' sample_ctx) passkey_world =
       (Return out, w') \<and>
     passkey_proof sample_libs 1 77 ''key'' now (db passkey_world) uid session \<and>
     (\<forall>c \<in> set (db_challenges (db w')). pc_id c \<noteq> 77)"
proof -
  let ?run = "run_state (passkey_auth_complete sample_libs sample_config 1 77 ''key'' sample_ctx) passkey_world"
  have "fst ?run = Return (PasskeySuccess ''https://app/cb?code=1rrrrrrrrrrrrrrrrrrrrrrrrrrrrrrrr&state=st''
      ''0rrrrrrrrrrrrrrrrrrrrrrrrrrrrrrrr'')" by code_simp
  note run = run_fstI [OF this]
  from passkey_login_sound [OF run disjI1 [OF refl]] run show ?thesis by blast
qed

subsection \<open>Registration\<close>

lemma passkey_user_Inr:
  "run_state (passkey_user E sid) w = (Inr uid, w') \<Longrightarrow>
   (\<exists>s \<in> set (db_sso_sessions (db w)). db_eq E (ss_session_hash s) (sha256_hex E sid) \<and> ss_user_id s = uid \<and>
      (\<exists>n \<ge> ticks w. sso_is_valid_at s (clock_src w n))) \<and> db w' = db w \<and>
   clock_src w' = clock_src w \<and> ticks w \<le> ticks w'"
  by (auto simp: passkey_user_def sso_sessions_find_by_hash_def sso_is_valid_at_def run_rules not_le
      split: if_splits dest!: find_SomeD intro!: bexI exI [of _ "Suc (ticks w)"])

lemma challenges_delete_credentials:
  "run_state (challenges_delete i) w = (r, w') \<Longrightarrow> db_credentials (db w') = db_credentials (db w)"
  by (cases r) (auto simp: challenges_delete_def run_rules)

lemma credentials_create_Inr:
  "run_state (credentials_create E c) w = (Inr x, w') \<Longrightarrow>
   (\<forall>x \<in> set (db_credentials (db w)). \<not> credential_clash E c x) \<and>
   db_credentials (db w') = db_credentials (db w) @
     [c\<lparr>wc_created_at := micros (wc_created_at c), wc_last_used_at := map_option micros (wc_last_used_at c)\<rparr>]"
  by (auto simp: credentials_create_def insert_row_def run_db_call_Inr list_ex_iff split: if_splits)

text \<open>
  Registering a passkey. It succeeds only under a live session, for an unexpired challenge that was
  made for the same user, with a response the protocol accepts under that challenge; it adds one
  credential, of that user, and no credential is there twice.
\<close>

theorem passkey_registration_sound:
  assumes "run_state (passkey_register_complete E sid cid name cred) w = (Inr i, w')"
  shows "\<exists>s ch pk row. s \<in> set (db_sso_sessions (db w)) \<and> db_eq E (ss_session_hash s) (sha256_hex E sid) \<and>
     (\<exists>n \<ge> ticks w. sso_is_valid_at s (clock_src w n)) \<and>
     ch \<in> set (db_challenges (db w)) \<and> pc_id ch = cid \<and> pc_user_id ch = Some (ss_user_id s) \<and>
     (\<exists>n \<ge> ticks w. clock_src w n < pc_expires_at ch) \<and>
     wa_finish_registration E cred (pc_state_json ch) = Inr (Inr pk) \<and>
     wc_id row = i \<and> wc_user_id row = ss_user_id s \<and> wc_passkey_json row = pk \<and>
     wc_credential_id row = b64url_encode E (wa_cred_id E pk) \<and>
     (\<forall>x \<in> set (db_credentials (db w)). \<not> credential_clash E row x) \<and>
     db_credentials (db w') = db_credentials (db w) @ [row]"
proof -
  from assms obtain uid w1 ch w2 pk w3 r w4 x now where parts:
    "run_state (passkey_user E sid) w = (Inr uid, w1)"
    "run_state (challenges_find_by_id cid) (tick w1) = (Inr (Some ch), w2)"
    "pc_user_id ch = Some uid" "wa_finish_registration E cred (pc_state_json ch) = Inr (Inr pk)"
    "clock_src w1 (ticks w1) < pc_expires_at ch" "run_state new_id w2 = (i, w3)" "run_state (challenges_delete cid) w3 = (r, w4)"
    "run_state (credentials_create E
       \<lparr>wc_id = i, wc_user_id = uid, wc_credential_id = b64url_encode E (wa_cred_id E pk),
        wc_passkey_json = pk, wc_name = trim name, wc_created_at = now, wc_last_used_at = None\<rparr>) w4 = (Inr x, w')"
    unfolding passkey_register_complete_def read_json_def
    by (auto simp: run_rules not_le)
  note user = passkey_user_Inr [OF parts(1)]
  then obtain s where s: "s \<in> set (db_sso_sessions (db w))" "db_eq E (ss_session_hash s) (sha256_hex E sid)"
    "ss_user_id s = uid" "\<exists>n \<ge> ticks w. sso_is_valid_at s (clock_src w n)" by blast
  have ch: "ch \<in> set (db_challenges (db w))" "pc_id ch = cid" "db w2 = db w"
    using parts(2) user by (auto simp: challenges_find_by_id_def run_rules dest: find_SomeD)
  have "db_credentials (db w4) = db_credentials (db w)"
    using challenges_delete_credentials [OF parts(7)] parts(6) ch(3) by (simp add: new_id_def run_new_v4)
  with credentials_create_Inr [OF parts(8)] obtain row where row: "wc_id row = i" "wc_user_id row = uid"
    "wc_passkey_json row = pk" "wc_credential_id row = b64url_encode E (wa_cred_id E pk)"
    "\<forall>x \<in> set (db_credentials (db w)). \<not> credential_clash E row x" "db_credentials (db w') = db_credentials (db w) @ [row]"
    by (intro that [of "\<lparr>wc_id = i, wc_user_id = uid, wc_credential_id = b64url_encode E (wa_cred_id E pk),
        wc_passkey_json = pk, wc_name = trim name, wc_created_at = micros now, wc_last_used_at = None\<rparr>"])
       (auto simp: credential_clash_def)
  moreover have "\<exists>n \<ge> ticks w. clock_src w n < pc_expires_at ch"
    using user parts(5) by (intro exI [of _ "ticks w1"]) simp
  ultimately show ?thesis using s ch parts(3,4)
    by (intro exI [of _ s] exI [of _ ch] exI [of _ pk] exI [of _ row]) simp
qed

theorem passkey_registration_sound_witness:
  "\<exists>i w' row. run_state (passkey_register_complete sample_libs ''sso'' 78 ''phone'' ''key2'') passkey_world = (Inr i, w') \<and>
     wc_user_id row = 2 \<and> db_credentials (db w') = db_credentials (db passkey_world) @ [row]"
proof -
  let ?run = "run_state (passkey_register_complete sample_libs ''sso'' 78 ''phone'' ''key2'') passkey_world"
  have ok: "\<not> isl (fst ?run)" by code_simp
  obtain i w' where run: "?run = (Inr i, w')" using run_InrI [OF ok] by blast
  have owner: "\<forall>s \<in> set (db_sso_sessions (db passkey_world)). ss_user_id s = 2"
    by (simp add: passkey_world_def sample_world_def sample_db_def sample_sso_def)
  from passkey_registration_sound [OF run] owner run show ?thesis by (metis (no_types))
qed

text \<open>A user can delete own passkeys only.\<close>

lemma passkey_delete_own:
  assumes "run_state (passkey_delete E sid i) w = (r, w')"
  shows "db_credentials (db w') = db_credentials (db w) \<or>
     (\<exists>s \<in> set (db_sso_sessions (db w)). db_eq E (ss_session_hash s) (sha256_hex E sid) \<and>
        db_credentials (db w') = delete_where (\<lambda>c. wc_id c = i \<and> wc_user_id c = ss_user_id s) (db_credentials (db w)))"
proof (cases "run_state (passkey_user E sid) w")
  case (Pair x w1)
  show ?thesis
  proof (cases x)
    case (Inl e)
    have "always (frame (\<lambda>d. d)) (passkey_user E sid)"
      unfolding passkey_user_def sso_sessions_find_by_hash_def by (intro frame.always_rules frame_prims)
    with Pair assms Inl show ?thesis by (auto simp: passkey_delete_def run_and_then_cases(2) frame_def dest!: alwaysD)
  next
    case (Inr uid)
    note user = passkey_user_Inr [OF Pair [unfolded Inr]]
    from assms have "run_state (map_err passkey_failed (credentials_delete i uid)) w1 = (r, w')"
      unfolding passkey_delete_def run_and_then_cases(1) [OF Pair [unfolded Inr]] .
    then have "db_credentials (db w') = db_credentials (db w1) \<or>
        db_credentials (db w') = delete_where (\<lambda>c. wc_id c = i \<and> wc_user_id c = uid) (db_credentials (db w1))"
      by (cases r) (auto simp: credentials_delete_def run_rules)
    with user show ?thesis by auto
  qed
qed

subsection \<open>Observations\<close>

text \<open>
  The INSERT reports a duplicate key like any other error of the database, so the answer
  \<open>DuplicateCredential\<close> cannot come from a duplicate.
\<close>

lemma credentials_create_no_conflict:
  assumes "run_state (credentials_create E c) w = (Inl (Conflict m), w')"
  shows "\<exists>b. fault_src w (db_calls w) = Some (Conflict m, b)"
  using assms
  by (auto simp: credentials_create_def db_call_def insert_row_def Let_def split: option.splits if_splits)

text \<open>
  The challenge is read and deleted by two statements. Two requests whose statements interleave both
  read it, and both deletions are answered alike: neither learns that the other was first.
\<close>

lemma challenge_read_twice:
  assumes "find (\<lambda>c. pc_id c = i) (db_challenges (db w)) = Some ch" and "\<forall>n. fault_src w n = None"
  shows "\<exists>w1 w2 w3 w4. run_state (challenges_find_by_id i) w = (Inr (Some ch), w1) \<and>
     run_state (challenges_find_by_id i) w1 = (Inr (Some ch), w2) \<and>
     run_state (challenges_delete i) w2 = (Inr (), w3) \<and> run_state (challenges_delete i) w3 = (Inr (), w4)"
  using assms by (auto simp: challenges_find_by_id_def challenges_delete_def run_rules)

end
