(* ===== verification/Saml.thy ===== *)
theory Saml
  imports Clients
begin

text \<open>
  The SAML service providers of a tenant: the entity with its validation
  (\<^verbatim>\<open>domain/saml_service_provider.rs\<close>), the table (\<^verbatim>\<open>infrastructure/repositories/saml_service_provider.rs\<close>)
  and the service that registers, lists, changes and deletes them
  (\<^verbatim>\<open>application/saml_service_provider_management.rs\<close>). Shown: whatever requests of a tenant are served,
  assertions are only ever sent to https addresses or to the local host, entity identifiers stay unique
  in the tenant, and the rows of other tenants stay as they are.
\<close>

section \<open>Validation\<close>

definition DEFAULT_NAME_ID_FORMAT :: string where
  "DEFAULT_NAME_ID_FORMAT = ''urn:oasis:names:tc:SAML:2.0:nameid-format:persistent''"

definition required :: "string \<Rightarrow> string \<Rightarrow> domain_error + string" where
  "required v field =
     (let trimmed = trim v in
      if trimmed = [] then Inl (InvalidValue (field @ '' is required'')) else Inr trimmed)"

definition is_localhost :: "string option \<Rightarrow> bool" where
  "is_localhost host \<longleftrightarrow> host \<in> {Some ''localhost'', Some ''127.0.0.1'', Some ''::1''}"

definition validate_acs_url :: "libs \<Rightarrow> string \<Rightarrow> domain_error + string" where
  "validate_acs_url E raw =
     (case required raw ''acs_url'' of
        Inl e \<Rightarrow> Inl e
      | Inr trimmed \<Rightarrow>
          (case url_parse E trimmed of
             None \<Rightarrow> Inl (InvalidValue ''acs_url must be a valid URL'')
           | Some (scheme, host, fragment) \<Rightarrow>
               if scheme = ''https'' \<or> scheme = ''http'' \<and> is_localhost host then Inr trimmed
               else Inl (InvalidValue ''acs_url must use https or localhost http'')))"

text \<open>\<^verbatim>\<open>SamlServiceProviderChanges\<close>; the input of a registration has the tenant besides.\<close>

record saml_changes =
  sc_display_name :: string
  sc_entity_id :: string
  sc_acs_url :: string
  sc_name_id_format :: string
  sc_x509_certificate :: "string option"
  sc_enabled :: bool

definition validated_fields :: "libs \<Rightarrow> saml_changes \<Rightarrow> domain_error + saml_changes" where
  "validated_fields E input =
     (case required (sc_display_name input) ''display_name'' of
        Inl e \<Rightarrow> Inl e
      | Inr display_name \<Rightarrow>
     (case required (sc_entity_id input) ''entity_id'' of
        Inl e \<Rightarrow> Inl e
      | Inr entity_id \<Rightarrow>
     (case validate_acs_url E (sc_acs_url input) of
        Inl e \<Rightarrow> Inl e
      | Inr acs_url \<Rightarrow> Inr (input\<lparr>sc_display_name := display_name, sc_entity_id := entity_id,
          sc_acs_url := acs_url,
          sc_name_id_format := (let f = trim (sc_name_id_format input) in if f = [] then DEFAULT_NAME_ID_FORMAT else f),
          sc_x509_certificate := normalize_optional (sc_x509_certificate input)\<rparr>))))"

definition saml_register_provider ::
  "libs \<Rightarrow> uuid \<Rightarrow> tenant_id \<Rightarrow> saml_changes \<Rightarrow> instant \<Rightarrow> domain_error + saml_service_provider" where
  "saml_register_provider E i tenant_id input now =
     (case validated_fields E input of
        Inl e \<Rightarrow> Inl e
      | Inr f \<Rightarrow> Inr \<lparr>sp_id = i, sp_tenant_id = tenant_id, sp_display_name = sc_display_name f,
          sp_entity_id = sc_entity_id f, sp_acs_url = sc_acs_url f,
          sp_name_id_format = sc_name_id_format f, sp_x509_certificate = sc_x509_certificate f,
          sp_enabled = sc_enabled input, sp_created_at = now, sp_updated_at = now\<rparr>)"

definition saml_apply ::
  "libs \<Rightarrow> saml_service_provider \<Rightarrow> saml_changes \<Rightarrow> instant \<Rightarrow> domain_error + saml_service_provider" where
  "saml_apply E provider changes now =
     (case validated_fields E changes of
        Inl e \<Rightarrow> Inl e
      | Inr f \<Rightarrow> Inr (provider\<lparr>sp_display_name := sc_display_name f,
          sp_entity_id := sc_entity_id f, sp_acs_url := sc_acs_url f,
          sp_name_id_format := sc_name_id_format f, sp_x509_certificate := sc_x509_certificate f,
          sp_enabled := sc_enabled changes, sp_updated_at := now\<rparr>))"

section \<open>The table\<close>

definition saml_conflict :: domain_error where
  "saml_conflict = Conflict ''SAML service provider entity_id already exists in this tenant''"

definition same_entity :: "libs \<Rightarrow> saml_service_provider \<Rightarrow> saml_service_provider \<Rightarrow> bool" where
  "same_entity E s x \<longleftrightarrow> sp_tenant_id x = sp_tenant_id s \<and> db_eq E (sp_entity_id x) (sp_entity_id s)"

definition saml_create :: "libs \<Rightarrow> saml_service_provider \<Rightarrow> (world, domain_error + unit) state" where
  "saml_create E s = db_call (\<lambda>_ d.
     if list_ex (\<lambda>x. sp_id x = sp_id s \<or> same_entity E s x) (db_service_providers d) then (Inl saml_conflict, d)
     else if \<not> list_ex (\<lambda>t. t_id t = sp_tenant_id s) (db_tenants d)
     then (Inl (Repository (foreign_key_violation E)), d)
     else (Inr (), d\<lparr>db_service_providers := db_service_providers d @
             [s\<lparr>sp_created_at := micros (sp_created_at s), sp_updated_at := micros (sp_updated_at s)\<rparr>]\<rparr>))"

definition saml_list_for_tenant :: "tenant_id \<Rightarrow> (world, domain_error + saml_service_provider list) state" where
  "saml_list_for_tenant tenant_id = db_query (\<lambda>_ d.
     sort_key (\<lambda>s. - sp_created_at s) (filter (\<lambda>s. sp_tenant_id s = tenant_id) (db_service_providers d)))"

definition saml_row :: "tenant_id \<Rightarrow> uuid \<Rightarrow> saml_service_provider \<Rightarrow> bool" where
  "saml_row tenant_id i s \<longleftrightarrow> sp_tenant_id s = tenant_id \<and> sp_id s = i"

definition saml_find_by_id ::
  "tenant_id \<Rightarrow> uuid \<Rightarrow> (world, domain_error + saml_service_provider option) state" where
  "saml_find_by_id tenant_id i = db_query (\<lambda>_ d. find (saml_row tenant_id i) (db_service_providers d))"

definition saml_columns :: "saml_service_provider \<Rightarrow> saml_service_provider \<Rightarrow> saml_service_provider" where
  "saml_columns s x =
     s\<lparr>sp_id := sp_id x, sp_tenant_id := sp_tenant_id x, sp_created_at := sp_created_at x,
       sp_updated_at := micros (sp_updated_at s)\<rparr>"

definition saml_update_row :: "libs \<Rightarrow> saml_service_provider \<Rightarrow> (world, domain_error + bool) state" where
  "saml_update_row E s = db_call (\<lambda>_ d.
     let mine = saml_row (sp_tenant_id s) (sp_id s); rows = db_service_providers d in
     if list_ex mine rows \<and> list_ex (\<lambda>x. \<not> mine x \<and> same_entity E s x) rows then (Inl saml_conflict, d)
     else (Inr (rows_affected mine rows > 0),
           d\<lparr>db_service_providers := update_where mine (saml_columns s) rows\<rparr>))"

definition saml_delete_row :: "tenant_id \<Rightarrow> uuid \<Rightarrow> (world, domain_error + bool) state" where
  "saml_delete_row tenant_id i = db_call (\<lambda>_ d.
     (Inr (rows_affected (saml_row tenant_id i) (db_service_providers d) > 0),
      d\<lparr>db_service_providers := delete_where (saml_row tenant_id i) (db_service_providers d)\<rparr>))"

section \<open>The service\<close>

datatype saml_management_error =
    SamlValidation string
  | SamlConflict string
  | SamlNotFound
  | SamlInternal string

definition saml_internal :: "domain_error \<Rightarrow> saml_management_error" where
  "saml_internal e = SamlInternal (domain_error_to_string e)"

definition saml_invalid :: "domain_error \<Rightarrow> saml_management_error" where
  "saml_invalid e = SamlValidation (domain_error_to_string e)"

definition saml_write_error :: "domain_error \<Rightarrow> saml_management_error" where
  "saml_write_error e =
     (case e of Conflict m \<Rightarrow> SamlConflict m | InvalidValue m \<Rightarrow> SamlValidation m | _ \<Rightarrow> saml_internal e)"

definition saml_register ::
  "libs \<Rightarrow> tenant_id \<Rightarrow> saml_changes \<Rightarrow> (world, saml_management_error + saml_service_provider) state" where
  "saml_register E tenant_id cmd = do {
     i \<leftarrow> new_id;
     now \<leftarrow> clock_now;
     and_then (map_err saml_invalid (State_Monad.return (saml_register_provider E i tenant_id cmd now))) (\<lambda>provider.
     and_then (map_err saml_write_error (saml_create E provider)) (\<lambda>_.
     State_Monad.return (Inr provider)))
   }"

definition saml_list :: "tenant_id \<Rightarrow> (world, saml_management_error + saml_service_provider list) state" where
  "saml_list tenant_id = map_err saml_internal (saml_list_for_tenant tenant_id)"

definition saml_update ::
  "libs \<Rightarrow> tenant_id \<Rightarrow> uuid \<Rightarrow> saml_changes \<Rightarrow> (world, saml_management_error + saml_service_provider) state" where
  "saml_update E tenant_id i cmd =
     and_then (map_err saml_internal (saml_find_by_id tenant_id i)) (\<lambda>found.
     case found of
       None \<Rightarrow> State_Monad.return (Inl SamlNotFound)
     | Some provider \<Rightarrow> do {
         now \<leftarrow> clock_now;
         and_then (map_err saml_invalid (State_Monad.return (saml_apply E provider cmd now))) (\<lambda>provider.
         and_then (map_err saml_write_error (saml_update_row E provider)) (\<lambda>updated.
         and_then (require updated SamlNotFound) (\<lambda>_.
         State_Monad.return (Inr provider))))
       })"

definition saml_delete :: "tenant_id \<Rightarrow> uuid \<Rightarrow> (world, saml_management_error + unit) state" where
  "saml_delete tenant_id i =
     and_then (map_err saml_internal (saml_delete_row tenant_id i)) (\<lambda>deleted.
     require deleted SamlNotFound)"

section \<open>Well-formed providers\<close>

text \<open>
  An address that assertions may be sent to. The documentation of the service allows http to a loopback
  address only.
\<close>

definition safe_acs :: "libs \<Rightarrow> string \<Rightarrow> bool" where
  "safe_acs E uri \<longleftrightarrow> (\<exists>scheme host fragment. url_parse E uri = Some (scheme, host, fragment) \<and>
     (scheme = ''https'' \<or> scheme = ''http'' \<and> is_localhost host))"

definition saml_ok :: "libs \<Rightarrow> saml_service_provider \<Rightarrow> bool" where
  "saml_ok E s \<longleftrightarrow> sp_display_name s \<noteq> [] \<and> sp_entity_id s \<noteq> [] \<and> sp_name_id_format s \<noteq> [] \<and>
     sp_x509_certificate s \<noteq> Some [] \<and> safe_acs E (sp_acs_url s)"

lemma required_Inr: "required v field = Inr out \<longleftrightarrow> out = trim v \<and> out \<noteq> []"
  by (auto simp: required_def Let_def)

lemma validate_acs_url_Inr: "validate_acs_url E raw = Inr out \<longleftrightarrow> out = trim raw \<and> out \<noteq> [] \<and> safe_acs E out"
  by (auto simp: validate_acs_url_def safe_acs_def required_def Let_def split: option.splits prod.splits if_splits)

lemma validated_fields_Inr:
  assumes "validated_fields E input = Inr f"
  shows "sc_display_name f \<noteq> []" "sc_entity_id f \<noteq> []" "sc_name_id_format f \<noteq> []"
    "sc_x509_certificate f \<noteq> Some []" "safe_acs E (sc_acs_url f)"
  using assms
  by (auto simp: validated_fields_def required_Inr validate_acs_url_Inr DEFAULT_NAME_ID_FORMAT_def Let_def
      normalize_optional_def split: sum.splits option.splits if_splits)

lemma saml_register_provider_ok:
  "saml_register_provider E i t input now = Inr s \<Longrightarrow> saml_ok E s \<and> sp_tenant_id s = t"
  using validated_fields_Inr [of E input]
  by (auto simp: saml_register_provider_def saml_ok_def split: sum.splits)

lemma saml_apply_ok:
  "saml_apply E p input now = Inr s \<Longrightarrow> saml_ok E s \<and> sp_tenant_id s = sp_tenant_id p \<and> sp_id s = sp_id p"
  using validated_fields_Inr [of E input]
  by (auto simp: saml_apply_def saml_ok_def split: sum.splits)

text \<open>
  The rows of a tenant \<open>t\<close>, beside the rows \<open>F\<close> of the other tenants: well-formed, with identifiers of
  their own and, up to the collation, entity identifiers of their own in the tenant.
\<close>

definition saml_key :: "libs \<Rightarrow> saml_service_provider \<Rightarrow> tenant_id \<times> string" where
  "saml_key E s = (sp_tenant_id s, collate E (sp_entity_id s))"

definition saml_rows_ok :: "libs \<Rightarrow> saml_service_provider list \<Rightarrow> bool" where
  "saml_rows_ok E rows \<longleftrightarrow>
     (\<forall>s \<in> set rows. saml_ok E s) \<and> distinct (map sp_id rows) \<and> distinct (map (saml_key E) rows)"

definition saml_inv :: "libs \<Rightarrow> tenant_id \<Rightarrow> saml_service_provider list \<Rightarrow> database \<Rightarrow> bool" where
  "saml_inv E t F d \<longleftrightarrow> saml_rows_ok E (db_service_providers d) \<and>
     filter (\<lambda>s. sp_tenant_id s \<noteq> t) (db_service_providers d) = F"

lemma same_entity_key: "same_entity E s x \<longleftrightarrow> saml_key E x = saml_key E s"
  by (auto simp: same_entity_def saml_key_def db_eq_def)

lemma saml_ok_times [simp]: "saml_ok E (s\<lparr>sp_created_at := a, sp_updated_at := b\<rparr>) = saml_ok E s"
  by (simp add: saml_ok_def)

lemma saml_columns_simps [simp]:
  "sp_id (saml_columns s x) = sp_id x" "sp_tenant_id (saml_columns s x) = sp_tenant_id x"
  "sp_entity_id (saml_columns s x) = sp_entity_id s" "saml_ok E (saml_columns s x) = saml_ok E s"
  by (simp_all add: saml_columns_def saml_ok_def)

text \<open>Changing the entity identifier of the one row that has the identifier keeps the keys apart.\<close>

lemma distinct_keys_update_one:
  assumes "distinct (map f rows)" and "distinct (map k rows)"
    and "\<And>x. P x \<Longrightarrow> f x = a \<and> k (u x) = v" and "\<And>x. x \<in> set rows \<Longrightarrow> \<not> P x \<Longrightarrow> k x \<noteq> v"
  shows "distinct (map k (update_where P u rows))"
  using assms
proof (induction rows)
  case (Cons r rows)
  have "\<not> P x" if "P r" "x \<in> set rows" for x
    using Cons.prems(1,3) that by (metis distinct.simps(2) imageI list.map(2) list.set_map)
  then show ?case
    using Cons by (auto simp: update_where_def image_iff split: if_splits)
qed (simp add: update_where_def)

lemma filter_update_where:
  assumes "\<And>x. P x \<Longrightarrow> \<not> Q x \<and> \<not> Q (u x)"
  shows "filter Q (update_where P u rows) = filter Q rows"
  unfolding update_where_def by (induction rows) (use assms in auto)

lemma saml_rows_update:
  assumes "saml_rows_ok E rows" and "saml_ok E s"
    and "list_ex (saml_row (sp_tenant_id s) (sp_id s)) rows \<longrightarrow>
       \<not> list_ex (\<lambda>x. \<not> saml_row (sp_tenant_id s) (sp_id s) x \<and> same_entity E s x) rows"
  shows "saml_rows_ok E (update_where (saml_row (sp_tenant_id s) (sp_id s)) (saml_columns s) rows)"
proof (cases "list_ex (saml_row (sp_tenant_id s) (sp_id s)) rows")
  case True
  have "distinct (map (saml_key E) (update_where (saml_row (sp_tenant_id s) (sp_id s)) (saml_columns s) rows))"
    by (rule distinct_keys_update_one [where f = sp_id and a = "sp_id s" and v = "saml_key E s"])
       (use assms True in \<open>auto simp: saml_rows_ok_def saml_row_def saml_key_def list_ex_iff same_entity_def db_eq_def\<close>)
  moreover have "map sp_id (update_where (saml_row (sp_tenant_id s) (sp_id s)) (saml_columns s) rows) = map sp_id rows"
    by (simp add: update_where_def)
  moreover have "\<forall>x \<in> set (update_where (saml_row (sp_tenant_id s) (sp_id s)) (saml_columns s) rows). saml_ok E x"
    using assms(1,2) by (auto simp: saml_rows_ok_def update_where_def)
  ultimately show ?thesis
    using assms(1) by (simp add: saml_rows_ok_def)
next
  case False
  then have "update_where (saml_row (sp_tenant_id s) (sp_id s)) (saml_columns s) rows = rows"
    by (auto simp: update_where_def list_ex_iff intro: map_idI)
  with assms show ?thesis by simp
qed

lemma keeps_saml_create:
  assumes "saml_ok E s" and "sp_tenant_id s = t"
  shows "always (keeps (saml_inv E t F)) (saml_create E s)"
  unfolding saml_create_def
  by (rule keeps_db_call)
     (use assms in \<open>auto simp: saml_inv_def saml_rows_ok_def list_ex_iff same_entity_key saml_key_def\<close>)

lemma keeps_saml_update_row:
  assumes "saml_ok E s" and "sp_tenant_id s = t"
  shows "always (keeps (saml_inv E t F)) (saml_update_row E s)"
  unfolding saml_update_row_def Let_def
proof (rule keeps_db_call)
  fix now d assume inv: "saml_inv E t F d"
  let ?mine = "saml_row (sp_tenant_id s) (sp_id s)" and ?rows = "db_service_providers d"
  have other: "filter (\<lambda>x. sp_tenant_id x \<noteq> t) (update_where ?mine (saml_columns s) ?rows) =
      filter (\<lambda>x. sp_tenant_id x \<noteq> t) ?rows"
    by (rule filter_update_where) (use assms in \<open>auto simp: saml_row_def\<close>)
  show "saml_inv E t F (snd (if list_ex ?mine ?rows \<and> list_ex (\<lambda>x. \<not> ?mine x \<and> same_entity E s x) ?rows
     then (Inl saml_conflict, d)
     else (Inr (rows_affected ?mine ?rows > 0),
       d\<lparr>db_service_providers := update_where ?mine (saml_columns s) ?rows\<rparr>)))"
    using inv other saml_rows_update [of E ?rows s] assms by (simp add: saml_inv_def)
qed

lemma keeps_saml_delete_row: "always (keeps (saml_inv E t F)) (saml_delete_row t i)"
  unfolding saml_delete_row_def
  by (rule keeps_db_call)
     (auto simp: saml_inv_def saml_rows_ok_def delete_where_def saml_row_def distinct_map_filter intro!: filter_cong)

lemma keeps_saml_frame: "always (frame db_service_providers) m \<Longrightarrow> always (keeps (saml_inv E t F)) m"
  by (rule keeps_frame [where T = db_service_providers]) (simp_all add: saml_inv_def)

lemmas keeps_saml_env = keeps_saml_frame [OF frame_clock_now] keeps_saml_frame [OF frame_new_v4]
  keeps_saml_frame [OF frame_db_query]

lemma map_err_return: "map_err g (State_Monad.return r) = State_Monad.return (map_sum g id r)"
  by (cases r) (simp_all add: map_err_def)

lemma keeps_saml_register: "always (keeps (saml_inv E t F)) (saml_register E t cmd)"
  unfolding saml_register_def new_id_def map_err_return
  by (intro keep.always_bind keeps_saml_env keeps_return_then keep.always_and_then keep.always_map_err
      keep.always_return keeps_saml_create)
     (auto dest: saml_register_provider_ok simp: map_sum_def split: sum.splits)

lemma saml_find_Some:
  "run_state (saml_find_by_id t i) w = (Inr (Some p), w') \<Longrightarrow> sp_tenant_id p = t"
  by (auto simp: saml_find_by_id_def run_rules saml_row_def dest: find_SomeD)

lemma keeps_saml_update: "always (keeps (saml_inv E t F)) (saml_update E t i cmd)"
  unfolding saml_update_def map_err_return
  apply (rule keeps_and_then_post [where P = "\<lambda>found. \<forall>p. found = Some p \<longrightarrow> sp_tenant_id p = t"])
    apply (simp add: saml_find_by_id_def keep.always_map_err keeps_saml_env)
   apply (auto simp: run_rules dest: saml_find_Some)[1]
  apply (auto split: option.splits intro!: keep.always_bind keeps_saml_env keeps_return_then keep.always_and_then
      keep.always_map_err keep.always_return keep.always_require keeps_saml_update_row)
   apply (auto dest: saml_apply_ok simp: map_sum_def split: sum.splits)
  done

lemma keeps_saml_delete: "always (keeps (saml_inv E t F)) (saml_delete t i)"
  unfolding saml_delete_def
  by (intro keep.always_and_then keep.always_map_err keep.always_require keeps_saml_delete_row)

section \<open>Properties\<close>

text \<open>The requests of a tenant that change service providers, with any outcome.\<close>

inductive saml_step :: "libs \<Rightarrow> tenant_id \<Rightarrow> world \<Rightarrow> world \<Rightarrow> bool" for E t where
  register: "run_state (saml_register E t cmd) w = (x, w') \<Longrightarrow> saml_step E t w w'"
| update: "run_state (saml_update E t i cmd) w = (x, w') \<Longrightarrow> saml_step E t w w'"
| delete: "run_state (saml_delete t i) w = (y, w') \<Longrightarrow> saml_step E t w w'"

lemma saml_step_inv: "saml_step E t w w' \<Longrightarrow> saml_inv E t F (db w) \<Longrightarrow> saml_inv E t F (db w')"
  by (induction rule: saml_step.induct)
     (auto simp: keeps_def dest: alwaysD [OF keeps_saml_register] alwaysD [OF keeps_saml_update]
        alwaysD [OF keeps_saml_delete])

text \<open>
  C23. Service providers stay safe. After any registrations, changes and deletions by a tenant, with
  whatever outcomes, every stored provider has a name, an entity identifier and an address that is https
  or http at the local host; identifiers, and entity identifiers within a tenant, are unique; and the
  providers of the other tenants are as they were.
\<close>

theorem service_providers_stay_safe:
  assumes "(saml_step E t)\<^sup>*\<^sup>* w w'" and "saml_rows_ok E (db_service_providers (db w))"
  shows "saml_rows_ok E (db_service_providers (db w')) \<and>
     filter (\<lambda>s. sp_tenant_id s \<noteq> t) (db_service_providers (db w')) =
     filter (\<lambda>s. sp_tenant_id s \<noteq> t) (db_service_providers (db w))"
proof -
  let ?F = "filter (\<lambda>s. sp_tenant_id s \<noteq> t) (db_service_providers (db w))"
  from assms(2) have "saml_inv E t ?F (db w)" by (simp add: saml_inv_def)
  with assms(1) have "saml_inv E t ?F (db w')"
    by (induction rule: rtranclp_induct) (auto intro: saml_step_inv)
  then show ?thesis by (simp add: saml_inv_def)
qed

definition sample_saml :: saml_changes where
  "sample_saml =
     \<lparr>sc_display_name = '' Wiki '', sc_entity_id = ''urn:wiki'', sc_acs_url = ''https://wiki/acs'',
      sc_name_id_format = '' '', sc_x509_certificate = Some '' '', sc_enabled = True\<rparr>"

theorem service_providers_stay_safe_witness:
  "\<exists>w'. (saml_step sample_libs 1)\<^sup>*\<^sup>* sample_world w' \<and> length (db_service_providers (db w')) = 1 \<and>
     saml_rows_ok sample_libs (db_service_providers (db w'))"
proof -
  let ?run = "run_state (saml_register sample_libs 1 sample_saml) sample_world"
  have step: "saml_step sample_libs 1 sample_world (snd ?run)"
    by (rule saml_step.register [OF run_fstI [OF refl]])
  have len: "length (db_service_providers (db (snd ?run))) = 1" by code_simp
  have ok: "saml_rows_ok sample_libs (db_service_providers (db sample_world))"
    by (simp add: sample_world_def sample_db_def saml_rows_ok_def)
  note all = r_into_rtranclp [where r = "saml_step sample_libs 1", OF step]
  show ?thesis
    using service_providers_stay_safe [OF all ok] by (intro exI [of _ "snd ?run"] conjI all len) simp
qed

text \<open>
  A loopback address that is refused: the url crate gives the host of an IPv6 address in brackets, so
  that the last case of \<^const>\<open>is_localhost\<close> never applies.
\<close>

lemma ipv6_loopback_refused:
  assumes "url_parse E (trim raw) = Some (''http'', Some ''[::1]'', fragment)"
  shows "isl (validate_acs_url E raw)"
  using assms by (simp add: validate_acs_url_def is_localhost_def required_def Let_def)

end
