(* ===== verification/SamlMetadata.thy ===== *)
theory SamlMetadata
  imports Saml
begin

text \<open>
  The metadata of SAML (\<^verbatim>\<open>domain/saml_metadata.rs\<close>): reading the metadata a service provider
  publishes and writing the metadata of the identity provider. The XML tokenizer is the quick-xml
  crate; \<open>xml_event\<close> is what its reader delivers, one element per call of \<^verbatim>\<open>read_event\<close>, with the
  attributes of a tag as the pairs of local name and unescaped value that can be read, and the text of
  a text event after unescaping (\<open>Inl\<close> the error's text). The end of the list is the end of the file.
  Shown: reading takes the address of assertions from an element inside the description of the service
  provider, and prefers the POST binding among the ones it found.
\<close>

section \<open>Reading\<close>

datatype xml_event =
    XmlStart string "(string \<times> string) list"
  | XmlEmpty string "(string \<times> string) list"
  | XmlText "string + string"
  | XmlEnd string
  | XmlOther
  | XmlError string

definition BINDING_HTTP_REDIRECT :: string where
  "BINDING_HTTP_REDIRECT = ''urn:oasis:names:tc:SAML:2.0:bindings:HTTP-Redirect''"

definition BINDING_HTTP_POST :: string where
  "BINDING_HTTP_POST = ''urn:oasis:names:tc:SAML:2.0:bindings:HTTP-POST''"

record imported_sp_metadata =
  im_entity_id :: string
  im_acs_url :: string
  im_x509_certificate :: string
  im_name_id_format :: "string option"
  im_display_name :: "string option"

datatype capture = CaptureCertificate | CaptureDisplayName | CaptureNameIdFormat

text \<open>The text after the first colon of a name.\<close>

definition strip_xml_prefix :: "string \<Rightarrow> string" where
  "strip_xml_prefix name =
     (case dropWhile (\<lambda>c. c \<noteq> CHR '':'') name of [] \<Rightarrow> name | _ # rest \<Rightarrow> rest)"

definition attribute :: "(string \<times> string) list \<Rightarrow> string \<Rightarrow> string option" where
  "attribute attrs name = map_option snd (find (\<lambda>a. fst a = name) attrs)"

definition strip_whitespace :: "string \<Rightarrow> string" where
  "strip_whitespace s = concat (split_whitespace s)"

definition push_sso :: "(string \<times> string) list \<Rightarrow> (string \<times> string) list \<Rightarrow> (string \<times> string) list" where
  "push_sso attrs out =
     (case (attribute attrs ''Binding'', attribute attrs ''Location'') of
        (Some binding, Some location) \<Rightarrow> out @ [(binding, location)]
      | _ \<Rightarrow> out)"

fun pick_by_binding :: "(string \<times> string) list \<Rightarrow> string list \<Rightarrow> string option" where
  "pick_by_binding candidates [] = (case candidates of [] \<Rightarrow> None | c # _ \<Rightarrow> Some (snd c))"
| "pick_by_binding candidates (binding # preferred) =
     (case find (\<lambda>c. fst c = binding) candidates of
        Some c \<Rightarrow> Some (snd c)
      | None \<Rightarrow> pick_by_binding candidates preferred)"

definition pick_acs_url :: "(string \<times> string) list \<Rightarrow> string option" where
  "pick_acs_url candidates = pick_by_binding candidates [BINDING_HTTP_POST, BINDING_HTTP_REDIRECT]"

text \<open>The variables of the loop.\<close>

record sp_reader =
  rd_entity_id :: "string option"
  rd_in_sp :: bool
  rd_acs_candidates :: "(string \<times> string) list"
  rd_key_use :: "string option"
  rd_signing_cert :: "string option"
  rd_fallback_cert :: "string option"
  rd_name_id_format :: "string option"
  rd_display_name :: "string option"
  rd_capture :: "capture option"
  rd_text_buf :: string
  rd_in_entity :: bool

definition initial_reader :: sp_reader where
  "initial_reader =
     \<lparr>rd_entity_id = None, rd_in_sp = False, rd_acs_candidates = [], rd_key_use = None,
      rd_signing_cert = None, rd_fallback_cert = None, rd_name_id_format = None, rd_display_name = None,
      rd_capture = None, rd_text_buf = [], rd_in_entity = False\<rparr>"

definition start_tag :: "string \<Rightarrow> (string \<times> string) list \<Rightarrow> sp_reader \<Rightarrow> sp_reader" where
  "start_tag name attrs r =
     (if name = ''EntityDescriptor'' \<and> rd_entity_id r = None then
        r\<lparr>rd_entity_id := attribute attrs ''entityID'', rd_in_entity := True\<rparr>
      else if name = ''SPSSODescriptor'' \<and> rd_in_entity r then r\<lparr>rd_in_sp := True\<rparr>
      else if name = ''KeyDescriptor'' \<and> rd_in_entity r \<and> rd_in_sp r then r\<lparr>rd_key_use := attribute attrs ''use''\<rparr>
      else if name = ''AssertionConsumerService'' \<and> rd_in_entity r \<and> rd_in_sp r then
        r\<lparr>rd_acs_candidates := push_sso attrs (rd_acs_candidates r)\<rparr>
      else if name = ''X509Certificate'' \<and> rd_in_entity r \<and> rd_in_sp r \<and> rd_key_use r \<noteq> Some ''encryption'' then
        r\<lparr>rd_capture := Some CaptureCertificate, rd_text_buf := []\<rparr>
      else if name = ''NameIDFormat'' \<and> rd_in_entity r \<and> rd_in_sp r \<and> rd_name_id_format r = None then
        r\<lparr>rd_capture := Some CaptureNameIdFormat, rd_text_buf := []\<rparr>
      else if name \<in> {''OrganizationDisplayName'', ''OrganizationName''} \<and> rd_in_entity r \<and> rd_display_name r = None then
        r\<lparr>rd_capture := Some CaptureDisplayName, rd_text_buf := []\<rparr>
      else r)"

definition empty_tag :: "string \<Rightarrow> (string \<times> string) list \<Rightarrow> sp_reader \<Rightarrow> sp_reader" where
  "empty_tag name attrs r =
     (if name = ''EntityDescriptor'' \<and> rd_entity_id r = None then r\<lparr>rd_entity_id := attribute attrs ''entityID''\<rparr>
      else if name = ''KeyDescriptor'' \<and> rd_in_entity r \<and> rd_in_sp r then r\<lparr>rd_key_use := attribute attrs ''use''\<rparr>
      else if name = ''AssertionConsumerService'' \<and> rd_in_entity r \<and> rd_in_sp r then
        r\<lparr>rd_acs_candidates := push_sso attrs (rd_acs_candidates r)\<rparr>
      else r)"

text \<open>\<open>Option::get_or_insert\<close>\<close>

definition get_or_insert :: "'a option \<Rightarrow> 'a \<Rightarrow> 'a option" where
  "get_or_insert old v = (case old of Some x \<Rightarrow> Some x | None \<Rightarrow> Some v)"

definition end_certificate :: "sp_reader \<Rightarrow> sp_reader" where
  "end_certificate r =
     (let normalized = strip_whitespace (rd_text_buf r) in
      if rd_capture r = Some CaptureCertificate \<and> normalized \<noteq> [] then
        if rd_key_use r = Some ''signing'' then r\<lparr>rd_signing_cert := get_or_insert (rd_signing_cert r) normalized\<rparr>
        else r\<lparr>rd_fallback_cert := get_or_insert (rd_fallback_cert r) normalized\<rparr>
      else r)"

definition end_text :: "capture \<Rightarrow> string option \<Rightarrow> sp_reader \<Rightarrow> string option" where
  "end_text what old r =
     (if rd_capture r = Some what \<and> trim (rd_text_buf r) \<noteq> [] then get_or_insert old (trim (rd_text_buf r)) else old)"

text \<open>\<open>None\<close> ends the loop.\<close>

definition end_tag :: "string \<Rightarrow> sp_reader \<Rightarrow> sp_reader option" where
  "end_tag name r =
     (if name = ''EntityDescriptor'' \<and> rd_in_entity r then None
      else if name = ''SPSSODescriptor'' then Some (r\<lparr>rd_in_sp := False\<rparr>)
      else if name = ''KeyDescriptor'' then Some (r\<lparr>rd_key_use := None\<rparr>)
      else if name = ''X509Certificate'' then Some ((end_certificate r)\<lparr>rd_capture := None\<rparr>)
      else if name = ''NameIDFormat'' then
        Some (r\<lparr>rd_name_id_format := end_text CaptureNameIdFormat (rd_name_id_format r) r, rd_capture := None\<rparr>)
      else if name \<in> {''OrganizationDisplayName'', ''OrganizationName''} then
        Some (r\<lparr>rd_display_name := end_text CaptureDisplayName (rd_display_name r) r, rd_capture := None\<rparr>)
      else Some r)"

fun read_metadata :: "sp_reader \<Rightarrow> xml_event list \<Rightarrow> domain_error + sp_reader" where
  "read_metadata r [] = Inr r"
| "read_metadata r (XmlError e # es) = Inl (InvalidValue (''invalid SAML metadata XML: '' @ e))"
| "read_metadata r (XmlStart name attrs # es) = read_metadata (start_tag (strip_xml_prefix name) attrs r) es"
| "read_metadata r (XmlEmpty name attrs # es) = read_metadata (empty_tag (strip_xml_prefix name) attrs r) es"
| "read_metadata r (XmlText t # es) =
     (if rd_capture r = None then read_metadata r es
      else case t of
        Inl e \<Rightarrow> Inl (InvalidValue (''invalid SAML metadata text: '' @ e))
      | Inr s \<Rightarrow> read_metadata (r\<lparr>rd_text_buf := rd_text_buf r @ s\<rparr>) es)"
| "read_metadata r (XmlEnd name # es) =
     (case end_tag (strip_xml_prefix name) r of None \<Rightarrow> Inr r | Some r' \<Rightarrow> read_metadata r' es)"
| "read_metadata r (XmlOther # es) = read_metadata r es"

definition parse_sp_metadata :: "xml_event list \<Rightarrow> domain_error + imported_sp_metadata" where
  "parse_sp_metadata events =
     (case read_metadata initial_reader events of
        Inl e \<Rightarrow> Inl e
      | Inr r \<Rightarrow>
          (case rd_entity_id r of
             None \<Rightarrow> Inl (InvalidValue ''SAML metadata is missing entityID'')
           | Some entity_id \<Rightarrow>
               if trim entity_id = [] then Inl (InvalidValue ''SAML metadata is missing entityID'')
               else (case pick_acs_url (rd_acs_candidates r) of
                 None \<Rightarrow> Inl (InvalidValue ''SAML metadata is missing an SP AssertionConsumerService'')
               | Some acs_url \<Rightarrow> Inr
                   \<lparr>im_entity_id = trim entity_id, im_acs_url = acs_url,
                    im_x509_certificate = (case rd_signing_cert r of Some c \<Rightarrow> c
                      | None \<Rightarrow> (case rd_fallback_cert r of Some c \<Rightarrow> c | None \<Rightarrow> [])),
                    im_name_id_format = rd_name_id_format r, im_display_name = rd_display_name r\<rparr>)))"

section \<open>Writing\<close>

datatype idp_signing_key =
    IdpRsa string string
  | IdpEc string string

text \<open>\<^verbatim>\<open>quick_xml::escape::escape\<close> is the parameter \<open>esc\<close>. \<open>nl\<close> is a line end and its indentation.\<close>

definition nl :: "nat \<Rightarrow> string" where
  "nl n = CHR 0x0A # replicate n CHR '' ''"

definition key_value_xml :: "(string \<Rightarrow> string) \<Rightarrow> idp_signing_key \<Rightarrow> string" where
  "key_value_xml esc k =
     (case k of
        IdpRsa modulus exponent \<Rightarrow>
          ''<ds:KeyValue>'' @ nl 10 @ ''<ds:RSAKeyValue>'' @
          nl 12 @ ''<ds:Modulus>'' @ esc modulus @ ''</ds:Modulus>'' @
          nl 12 @ ''<ds:Exponent>'' @ esc exponent @ ''</ds:Exponent>'' @
          nl 10 @ ''</ds:RSAKeyValue>'' @ nl 8 @ ''</ds:KeyValue>''
      | IdpEc curve public_key \<Rightarrow>
          ''<ds11:ECKeyValue xmlns:ds11=\"http://www.w3.org/2009/xmldsig11#\">'' @
          nl 10 @ ''<ds11:NamedCurve URI=\"'' @ esc curve @ ''\"/>'' @
          nl 10 @ ''<ds11:PublicKey>'' @ esc public_key @ ''</ds11:PublicKey>'' @
          nl 8 @ ''</ds11:ECKeyValue>'')"

definition to_key_descriptor :: "(string \<Rightarrow> string) \<Rightarrow> idp_signing_key \<Rightarrow> string" where
  "to_key_descriptor esc k =
     nl 4 @ ''<md:KeyDescriptor use=\"signing\">'' @
     nl 6 @ ''<ds:KeyInfo xmlns:ds=\"http://www.w3.org/2000/09/xmldsig#\">'' @
     nl 8 @ key_value_xml esc k @
     nl 6 @ ''</ds:KeyInfo>'' @ nl 4 @ ''</md:KeyDescriptor>''"

definition build_idp_metadata_xml ::
  "(string \<Rightarrow> string) \<Rightarrow> string \<Rightarrow> string \<Rightarrow> idp_signing_key option \<Rightarrow> string" where
  "build_idp_metadata_xml esc entity_id sso_url signing_key =
     ''<?xml version=\"1.0\" encoding=\"UTF-8\"?>'' @
     nl 0 @ ''<md:EntityDescriptor xmlns:md=\"urn:oasis:names:tc:SAML:2.0:metadata\" entityID=\"'' @ esc entity_id @ ''\">'' @
     nl 2 @ ''<md:IDPSSODescriptor WantAuthnRequestsSigned=\"false\" protocolSupportEnumeration=\"urn:oasis:names:tc:SAML:2.0:protocol\">'' @
     (case signing_key of Some k \<Rightarrow> to_key_descriptor esc k | None \<Rightarrow> []) @
     nl 4 @ ''<md:NameIDFormat>urn:oasis:names:tc:SAML:2.0:nameid-format:persistent</md:NameIDFormat>'' @
     nl 4 @ ''<md:NameIDFormat>urn:oasis:names:tc:SAML:1.1:nameid-format:emailAddress</md:NameIDFormat>'' @
     nl 4 @ ''<md:SingleSignOnService Binding=\"'' @ BINDING_HTTP_REDIRECT @ ''\" Location=\"'' @ esc sso_url @ ''\"/>'' @
     nl 4 @ ''<md:SingleSignOnService Binding=\"'' @ BINDING_HTTP_POST @ ''\" Location=\"'' @ esc sso_url @ ''\"/>'' @
     nl 2 @ ''</md:IDPSSODescriptor>'' @ nl 0 @ ''</md:EntityDescriptor>'' @ nl 0"

section \<open>Where the values come from\<close>

text \<open>The event at a position is a tag of the given name; the position lies inside such an element.\<close>

definition opens :: "xml_event \<Rightarrow> string \<Rightarrow> bool" where
  "opens e name \<longleftrightarrow> (\<exists>n attrs. e = XmlStart n attrs \<and> strip_xml_prefix n = name)"

definition closes :: "xml_event \<Rightarrow> string \<Rightarrow> bool" where
  "closes e name \<longleftrightarrow> (\<exists>n. e = XmlEnd n \<and> strip_xml_prefix n = name)"

definition inside :: "string \<Rightarrow> xml_event list \<Rightarrow> bool" where
  "inside name before \<longleftrightarrow> (\<exists>xs e ys. before = xs @ e # ys \<and> opens e name \<and> (\<forall>y \<in> set ys. \<not> closes y name))"

definition acs_event :: "xml_event \<Rightarrow> string \<Rightarrow> string \<Rightarrow> bool" where
  "acs_event e binding location \<longleftrightarrow>
     (\<exists>n attrs. (e = XmlStart n attrs \<or> e = XmlEmpty n attrs) \<and> strip_xml_prefix n = ''AssertionConsumerService'' \<and>
        attribute attrs ''Binding'' = Some binding \<and> attribute attrs ''Location'' = Some location)"

text \<open>An endpoint is offered when its element lies inside the description of the service provider.\<close>

definition offered :: "xml_event list \<Rightarrow> string \<Rightarrow> string \<Rightarrow> bool" where
  "offered events binding location \<longleftrightarrow>
     (\<exists>before e after. events = before @ e # after \<and> acs_event e binding location \<and> inside ''SPSSODescriptor'' before)"

lemma inside_open: "opens e name \<Longrightarrow> inside name (before @ [e])"
  unfolding inside_def by (intro exI [of _ before] exI [of _ e] exI [of _ "[]"]) simp

lemma inside_stay:
  assumes "inside name before" and "\<not> closes e name"
  shows "inside name (before @ [e])"
proof -
  from assms(1) obtain xs o' ys where "before = xs @ o' # ys" "opens o' name" "\<forall>y \<in> set ys. \<not> closes y name"
    unfolding inside_def by blast
  with assms(2) show ?thesis
    unfolding inside_def by (intro exI [of _ xs] exI [of _ o'] exI [of _ "ys @ [e]"]) auto
qed

lemma offered_stay: "offered before b l \<Longrightarrow> offered (before @ after) b l"
  unfolding offered_def by fastforce

lemma offered_here: "acs_event e b l \<Longrightarrow> inside ''SPSSODescriptor'' before \<Longrightarrow> offered (before @ [e]) b l"
  unfolding offered_def by blast

lemma offered_push:
  assumes "(b, l) \<in> set (push_sso attrs out)"
    and "\<And>b l. (b, l) \<in> set out \<Longrightarrow> offered before b l"
    and "inside ''SPSSODescriptor'' before" and "e = XmlStart n attrs \<or> e = XmlEmpty n attrs"
    and "strip_xml_prefix n = ''AssertionConsumerService''"
  shows "offered (before @ [e]) b l"
proof (cases "(b, l) \<in> set out")
  case True
  with assms(2) show ?thesis by (simp add: offered_stay)
next
  case False
  with assms(1) have "attribute attrs ''Binding'' = Some b" "attribute attrs ''Location'' = Some l"
    by (auto simp: push_sso_def split: option.splits)
  with assms(4,5) have "acs_event e b l" unfolding acs_event_def by blast
  with assms(3) show ?thesis by (rule offered_here [rotated])
qed

text \<open>What holds of the variables after the events read so far.\<close>

definition reads :: "xml_event list \<Rightarrow> sp_reader \<Rightarrow> bool" where
  "reads before r \<longleftrightarrow> (rd_in_sp r \<longrightarrow> inside ''SPSSODescriptor'' before) \<and>
     (\<forall>b l. (b, l) \<in> set (rd_acs_candidates r) \<longrightarrow> offered before b l)"

lemma start_tag_simps:
  "rd_acs_candidates (start_tag n attrs r) =
     (if n = ''AssertionConsumerService'' \<and> rd_in_entity r \<and> rd_in_sp r
      then push_sso attrs (rd_acs_candidates r) else rd_acs_candidates r)"
  "rd_in_sp (start_tag n attrs r) = (rd_in_sp r \<or> n = ''SPSSODescriptor'' \<and> rd_in_entity r)"
proof -
  show "rd_acs_candidates (start_tag n attrs r) =
     (if n = ''AssertionConsumerService'' \<and> rd_in_entity r \<and> rd_in_sp r
      then push_sso attrs (rd_acs_candidates r) else rd_acs_candidates r)"
    by (simp add: start_tag_def)
  show "rd_in_sp (start_tag n attrs r) = (rd_in_sp r \<or> n = ''SPSSODescriptor'' \<and> rd_in_entity r)"
    by (cases "n = ''SPSSODescriptor''"; cases "rd_in_entity r"; cases "rd_in_sp r") (auto simp: start_tag_def)
qed

lemma empty_tag_simps:
  "rd_acs_candidates (empty_tag n attrs r) =
     (if n = ''AssertionConsumerService'' \<and> rd_in_entity r \<and> rd_in_sp r
      then push_sso attrs (rd_acs_candidates r) else rd_acs_candidates r)"
  "rd_in_sp (empty_tag n attrs r) = rd_in_sp r"
  by (simp_all add: empty_tag_def)

lemma reads_tag:
  assumes "reads before r" and e: "e = XmlStart n attrs \<or> e = XmlEmpty n attrs"
    and sp: "rd_in_sp r' \<Longrightarrow> rd_in_sp r \<or> opens e ''SPSSODescriptor''"
    and acs: "rd_acs_candidates r' = (if strip_xml_prefix n = ''AssertionConsumerService'' \<and> rd_in_entity r \<and> rd_in_sp r
       then push_sso attrs (rd_acs_candidates r) else rd_acs_candidates r)"
  shows "reads (before @ [e]) r'"
  unfolding reads_def
proof (intro conjI impI allI)
  from e have "\<not> closes e ''SPSSODescriptor''" by (auto simp: closes_def)
  with assms(1) sp show "rd_in_sp r' \<Longrightarrow> inside ''SPSSODescriptor'' (before @ [e])"
    unfolding reads_def by (blast intro: inside_stay inside_open)
next
  fix b l assume in': "(b, l) \<in> set (rd_acs_candidates r')"
  from assms(1) have old: "\<And>b l. (b, l) \<in> set (rd_acs_candidates r) \<Longrightarrow> offered before b l"
    and sp: "rd_in_sp r \<Longrightarrow> inside ''SPSSODescriptor'' before" by (auto simp: reads_def)
  show "offered (before @ [e]) b l"
  proof (cases "strip_xml_prefix n = ''AssertionConsumerService'' \<and> rd_in_entity r \<and> rd_in_sp r")
    case True
    with in' acs have "(b, l) \<in> set (push_sso attrs (rd_acs_candidates r))" by simp
    from offered_push [OF this old sp e] True show ?thesis by blast
  next
    case False
    with in' acs have "(b, l) \<in> set (rd_acs_candidates r)" by (simp only: if_False)
    from offered_stay [OF old [OF this]] show ?thesis .
  qed
qed

lemma reads_start: "reads before r \<Longrightarrow> reads (before @ [XmlStart n attrs]) (start_tag (strip_xml_prefix n) attrs r)"
  by (rule reads_tag [where n = n and attrs = attrs]) (auto simp only: start_tag_simps opens_def)

lemma reads_empty: "reads before r \<Longrightarrow> reads (before @ [XmlEmpty n attrs]) (empty_tag (strip_xml_prefix n) attrs r)"
  by (rule reads_tag [where n = n and attrs = attrs]) (auto simp only: empty_tag_simps)

lemma reads_same:
  assumes "reads before r" and "\<not> closes e ''SPSSODescriptor'' \<or> \<not> rd_in_sp r'"
    and "rd_in_sp r' \<longrightarrow> rd_in_sp r" and "rd_acs_candidates r' = rd_acs_candidates r"
  shows "reads (before @ [e]) r'"
  using assms by (auto simp: reads_def intro: inside_stay offered_stay)

lemma end_certificate_same [simp]:
  "rd_in_sp (end_certificate r) = rd_in_sp r" "rd_acs_candidates (end_certificate r) = rd_acs_candidates r"
  by (simp_all add: end_certificate_def Let_def)

lemma reads_end: "reads before r \<Longrightarrow> end_tag (strip_xml_prefix n) r = Some r' \<Longrightarrow> reads (before @ [XmlEnd n]) r'"
  by (erule reads_same) (auto simp: end_tag_def closes_def split: if_splits)

lemma read_metadata_reads:
  "reads before r \<Longrightarrow> read_metadata r es = Inr r' \<Longrightarrow> \<exists>n. reads (before @ take n es) r'"
proof (induction r es arbitrary: before rule: read_metadata.induct)
  case (1 r)
  then show ?case by auto
next
  case (2 r e es)
  then show ?case by simp
next
  case (3 r name attrs es)
  from 3(1) [OF reads_start [OF 3(2)]] 3(3) obtain n where "reads (before @ XmlStart name attrs # take n es) r'" by auto
  then show ?case by (intro exI [of _ "Suc n"]) simp
next
  case (4 r name attrs es)
  from 4(1) [OF reads_empty [OF 4(2)]] 4(3) obtain n where "reads (before @ XmlEmpty name attrs # take n es) r'" by auto
  then show ?case by (intro exI [of _ "Suc n"]) simp
next
  case (5 r t es)
  have step: "reads (before @ [XmlText t]) (r\<lparr>rd_text_buf := x\<rparr>)" "reads (before @ [XmlText t]) r" for x
    by (rule reads_same [OF 5(3)]; simp add: closes_def)+
  have "\<exists>n. reads ((before @ [XmlText t]) @ take n es) r'"
  proof (cases "rd_capture r = None")
    case True
    with 5(1) [OF True step(2)] 5(4) show ?thesis by simp
  next
    case False
    with 5(4) obtain x where x: "t = Inr x" by (cases t) auto
    with 5(2) [OF False x step(1)] 5(4) False show ?thesis by simp
  qed
  then obtain n where "reads (before @ XmlText t # take n es) r'" by auto
  then show ?case by (intro exI [of _ "Suc n"]) simp
next
  case (6 r name es)
  show ?case
  proof (cases "end_tag (strip_xml_prefix name) r")
    case None
    with 6(2,3) show ?thesis by (intro exI [of _ 0]) simp
  next
    case (Some r1)
    from 6(1) [OF Some reads_end [OF 6(2) Some]] 6(3) Some obtain n where
      "reads (before @ XmlEnd name # take n es) r'" by auto
    then show ?thesis by (intro exI [of _ "Suc n"]) simp
  qed
next
  case (7 r es)
  have "reads (before @ [XmlOther]) r" by (rule reads_same [OF 7(2)]) (simp_all add: closes_def)
  from 7(1) [OF this] 7(3) obtain n where "reads (before @ XmlOther # take n es) r'" by auto
  then show ?case by (intro exI [of _ "Suc n"]) simp
qed

lemma pick_by_binding_in: "pick_by_binding cs bs = Some l \<Longrightarrow> \<exists>b. (b, l) \<in> set cs"
  by (induction bs) (auto split: list.splits option.splits dest!: find_SomeD)

lemma pick_acs_url_post:
  assumes "pick_acs_url cs = Some l" and "(BINDING_HTTP_POST, x) \<in> set cs"
  shows "(BINDING_HTTP_POST, l) \<in> set cs"
  using assms by (auto simp: pick_acs_url_def find_None_iff split: option.splits dest!: find_SomeD)

text \<open>
  Imported metadata. The address taken from a document is the location of an assertion consumer service
  inside the description of a service provider; the entity identifier is not empty.
\<close>

theorem imported_metadata_sound:
  assumes "parse_sp_metadata events = Inr md"
  shows "(\<exists>b. offered events b (im_acs_url md)) \<and> im_entity_id md \<noteq> []"
proof -
  from assms obtain r where r: "read_metadata initial_reader events = Inr r"
    and url: "pick_acs_url (rd_acs_candidates r) = Some (im_acs_url md)" and entity: "im_entity_id md \<noteq> []"
    by (auto simp: parse_sp_metadata_def split: sum.splits option.splits if_splits)
  have "reads [] initial_reader" by (simp add: reads_def initial_reader_def)
  from read_metadata_reads [OF this r] obtain n where n: "reads (take n events) r" by auto
  from url obtain b where "(b, im_acs_url md) \<in> set (rd_acs_candidates r)"
    unfolding pick_acs_url_def by (blast dest: pick_by_binding_in)
  with n have "offered (take n events) b (im_acs_url md)" by (simp add: reads_def)
  from offered_stay [OF this, of "drop n events"] entity show ?thesis by auto
qed

lemma sample_metadata:
  "parse_sp_metadata
     [XmlStart ''md:EntityDescriptor'' [(''entityID'', '' urn:sp '')], XmlStart ''md:SPSSODescriptor'' [],
      XmlStart ''KeyDescriptor'' [(''use'', ''encryption'')], XmlStart ''X509Certificate'' [], XmlText (Inr ''enc''),
      XmlEnd ''X509Certificate'', XmlEnd ''KeyDescriptor'',
      XmlEmpty ''AssertionConsumerService'' [(''Binding'', BINDING_HTTP_REDIRECT), (''Location'', ''https://sp/r'')],
      XmlEmpty ''AssertionConsumerService'' [(''Binding'', BINDING_HTTP_POST), (''Location'', ''https://sp/p'')],
      XmlEnd ''md:SPSSODescriptor'', XmlEnd ''md:EntityDescriptor'', XmlError ''never read''] =
   Inr \<lparr>im_entity_id = ''urn:sp'', im_acs_url = ''https://sp/p'', im_x509_certificate = [],
        im_name_id_format = None, im_display_name = None\<rparr>"
  by code_simp

end
