(* ===== verification/Http.thy ===== *)
theory Http
  imports Tenants Configuration SamlMetadata
begin

text \<open>
  What the endpoints of the API share: requests and responses, cookies, the error type and its
  rendering, the request id, the security headers, the language of messages, the tenant of a request,
  the context of an audit record and the two guards of authenticated endpoints
  (\<^verbatim>\<open>presentation/\<close> of the api crate: \<^verbatim>\<open>cookies.rs\<close>, \<^verbatim>\<open>error.rs\<close>, \<^verbatim>\<open>correlation.rs\<close>,
  \<^verbatim>\<open>security_headers.rs\<close>, \<^verbatim>\<open>i18n.rs\<close>, \<^verbatim>\<open>tenant.rs\<close>, \<^verbatim>\<open>admin.rs\<close>, \<^verbatim>\<open>handlers/mod.rs\<close>).

  A request is what hyper delivers: the method, the segments of the path as they are in the URI, the
  headers with names in lower case, the query and the body. A response is its status, its headers and
  its body, a JSON value where the code hands one to serde; \<open>JText\<close> is a value the code keeps as it got it,
  by its text.
\<close>

section \<open>Requests and responses\<close>

type_synonym headers = "(string \<times> string) list"

datatype json =
    JNull | JBool bool | JInt int | JStr string | JText string | JArr "json list" | JObj "(string \<times> json) list"

datatype body = NoBody | JsonBody json | HtmlBody string | XmlBody string | TextBody string

record request =
  rq_method :: string
  rq_path :: "string list"
  rq_headers :: headers
  rq_query :: "string option"
  rq_body :: string

record response =
  re_status :: nat
  re_headers :: headers
  re_body :: body

text \<open>\<open>HeaderMap::get\<close>, \<open>get_all\<close>, \<open>insert\<close> (one value afterwards) and \<open>append\<close>.\<close>

definition header_get :: "headers \<Rightarrow> string \<Rightarrow> string option" where
  "header_get hs name = map_of hs name"

definition header_get_all :: "headers \<Rightarrow> string \<Rightarrow> string list" where
  "header_get_all hs name = map snd (filter (\<lambda>h. fst h = name) hs)"

definition header_insert :: "string \<Rightarrow> string \<Rightarrow> headers \<Rightarrow> headers" where
  "header_insert name v hs = (name, v) # filter (\<lambda>h. fst h \<noteq> name) hs"

definition header_append :: "string \<Rightarrow> string \<Rightarrow> headers \<Rightarrow> headers" where
  "header_append name v hs = hs @ [(name, v)]"

definition json_response :: "nat \<Rightarrow> json \<Rightarrow> response" where
  "json_response status j =
     \<lparr>re_status = status, re_headers = [(''content-type'', ''application/json'')], re_body = JsonBody j\<rparr>"

definition empty_response :: "nat \<Rightarrow> response" where
  "empty_response status = \<lparr>re_status = status, re_headers = [], re_body = NoBody\<rparr>"

text \<open>
  Fields of a JSON object: \<open>nullable\<close> is an \<open>Option\<close> that serde writes as \<^verbatim>\<open>null\<close>, \<open>optional\<close> one with
  \<^verbatim>\<open>skip_serializing_if = "Option::is_none"\<close>.
\<close>

definition nullable :: "('a \<Rightarrow> json) \<Rightarrow> 'a option \<Rightarrow> json" where
  "nullable f v = (case v of None \<Rightarrow> JNull | Some x \<Rightarrow> f x)"

definition optional :: "string \<Rightarrow> ('a \<Rightarrow> json) \<Rightarrow> 'a option \<Rightarrow> (string \<times> json) list" where
  "optional key f v = (case v of None \<Rightarrow> [] | Some x \<Rightarrow> [(key, f x)])"

definition strings :: "string list \<Rightarrow> json" where
  "strings ss = JArr (map JStr ss)"

section \<open>Third-party code\<close>

text \<open>The language of a message, decided from \<open>Accept-Language\<close> below.\<close>

datatype api_locale = LocaleEn | LocaleJa

text \<open>
  \<^item> http: \<open>header_to_str\<close> is \<open>HeaderValue::to_str\<close> (\<open>None\<close> when the value has other than visible ASCII
    characters), \<open>header_value_ok\<close> whether \<open>HeaderValue::from_str\<close> accepts a text; \<open>header_rejection\<close> is what
    axum answers when a header of a response is not accepted;
  \<^item> axum: \<open>path_decode\<close> decodes a segment of the path (\<open>None\<close> when it is not UTF-8) and
    \<open>path_rejection\<close> answers then; \<open>not_found_response\<close> and \<open>method_not_allowed\<close> are its own answers for
    an unknown path and for a method a path does not have;
  \<^item> fluent: \<open>fluent_message\<close>, the text of a key in the resource of a language;
  \<^item> uuid, chrono, quick-xml, percent-encoding: \<open>uuid_simple\<close> prints without hyphens, \<open>parse_rfc3339\<close> reads
    a time, \<open>xml_events\<close> splits a text, \<open>xml_escape\<close> escapes one, \<open>percent_decode_utf8\<close> decodes one.

  The extractors \<open>Json<T>\<close>, \<open>Query<T>\<close> and \<open>Form<T>\<close> with serde's derived readers are parameters too:
  each endpoint takes a function from the request to the value read, or to axum's rejection.
\<close>

record http_libs =
  header_to_str :: "string \<Rightarrow> string option"
  header_value_ok :: "string \<Rightarrow> bool"
  header_rejection :: response
  path_decode :: "string \<Rightarrow> string option"
  path_rejection :: response
  not_found_response :: response
  method_not_allowed :: response
  fluent_message :: "api_locale \<Rightarrow> string \<Rightarrow> string option"
  uuid_simple :: "uuid \<Rightarrow> string"
  parse_rfc3339 :: "string \<Rightarrow> instant option"
  xml_events :: "string \<Rightarrow> xml_event list"
  xml_escape :: "string \<Rightarrow> string"
  percent_decode_utf8 :: "string \<Rightarrow> string option"

type_synonym 'a extractor = "request \<Rightarrow> response + 'a"

text \<open>
  The state of the application: the third-party code, the settings it was started with and the
  configuration the services were built from.
\<close>

record app =
  ap_libs :: libs
  ap_config :: config
  ap_http :: http_libs
  ap_settings :: app_config

text \<open>
  A request on its way to a tenant-scoped handler: the request id and the tenant that the middleware
  resolved. The type gives every such handler a resolved tenant, as the router puts the middleware before
  each of them; the answer 500 of a handler without one is therefore not modelled. The parameters of
  the path are arguments of the handlers.
\<close>

record incoming =
  in_request :: request
  in_correlation :: string
  in_tenant :: tenant

section \<open>Cookies\<close>

definition AUTH_SESSION_COOKIE :: string where
  "AUTH_SESSION_COOKIE = ''auth_session_id''"

definition SSO_SESSION_COOKIE :: string where
  "SSO_SESSION_COOKIE = ''sso_session_id''"

text \<open>\<open>str::split_once\<close> on a character, and \<open>Iterator::find_map\<close>.\<close>

definition split_once :: "char \<Rightarrow> string \<Rightarrow> (string \<times> string) option" where
  "split_once c s =
     (case dropWhile (\<lambda>x. x \<noteq> c) s of [] \<Rightarrow> None | _ # rest \<Rightarrow> Some (takeWhile (\<lambda>x. x \<noteq> c) s, rest))"

fun find_map :: "('a \<Rightarrow> 'b option) \<Rightarrow> 'a list \<Rightarrow> 'b option" where
  "find_map f [] = None"
| "find_map f (x # xs) = (case f x of Some y \<Rightarrow> Some y | None \<Rightarrow> find_map f xs)"

definition cookie_pair :: "string \<Rightarrow> string \<Rightarrow> string option" where
  "cookie_pair name pair =
     (case split_once CHR ''='' (trim pair) of
        Some (k, v) \<Rightarrow> if k = name then Some v else None
      | None \<Rightarrow> None)"

definition cookies_get :: "http_libs \<Rightarrow> headers \<Rightarrow> string \<Rightarrow> string option" where
  "cookies_get K hs name =
     find_map (\<lambda>value. case header_to_str K value of
         Some raw \<Rightarrow> find_map (cookie_pair name) (split_on CHR '';'' raw)
       | None \<Rightarrow> None)
       (header_get_all hs ''cookie'')"

definition cookies_build :: "string \<Rightarrow> string \<Rightarrow> nat \<Rightarrow> bool \<Rightarrow> string" where
  "cookies_build name value max_age_secs secure =
     name @ ''='' @ value @ ''; Max-Age='' @ show_nat max_age_secs @ ''; Path=/; HttpOnly; SameSite=Lax'' @
     (if secure then ''; Secure'' else [])"

definition cookies_expire :: "string \<Rightarrow> bool \<Rightarrow> string" where
  "cookies_expire name secure = cookies_build name [] 0 secure"

section \<open>Errors\<close>

datatype api_error =
    ApiBadRequest string
  | ApiUnauthorized string
  | ApiForbidden string
  | ApiNotFound string
  | ApiConflict string
  | ApiTooManyRequests string
  | ApiInternal string

fun api_error_parts :: "api_error \<Rightarrow> nat \<times> string \<times> string" where
  "api_error_parts (ApiBadRequest m) = (400, ''invalid_request'', m)"
| "api_error_parts (ApiUnauthorized m) = (401, ''unauthorized'', m)"
| "api_error_parts (ApiForbidden m) = (403, ''forbidden'', m)"
| "api_error_parts (ApiNotFound m) = (404, ''not_found'', m)"
| "api_error_parts (ApiConflict m) = (409, ''conflict'', m)"
| "api_error_parts (ApiTooManyRequests m) = (429, ''rate_limited'', m)"
| "api_error_parts (ApiInternal m) = (500, ''server_error'', m)"

text \<open>The JSON of an error, built the same way in \<^verbatim>\<open>error.rs\<close>, \<^verbatim>\<open>admin.rs\<close> and \<^verbatim>\<open>tenant.rs\<close>.\<close>

definition error_response :: "nat \<Rightarrow> string \<Rightarrow> string \<Rightarrow> response" where
  "error_response status code message =
     json_response status (JObj [(''error'', JStr code), (''message'', JStr message)])"

definition api_error_response :: "api_error \<Rightarrow> response" where
  "api_error_response e =
     (let (status, code, message) = api_error_parts e
      in error_response status code (if status = 500 then ''internal server error'' else message))"

section \<open>Languages\<close>

definition language_of_part :: "string \<Rightarrow> api_locale option" where
  "language_of_part part =
     (let tag = map ascii_lower (trim (hd (split_on CHR '';'' part)))
      in if tag = ''ja'' \<or> starts_with tag ''ja-'' then Some LocaleJa
         else if tag = ''en'' \<or> starts_with tag ''en-'' then Some LocaleEn
         else None)"

definition from_accept_language :: "string option \<Rightarrow> api_locale" where
  "from_accept_language header =
     (case header of
        None \<Rightarrow> LocaleJa
      | Some h \<Rightarrow> (case find_map language_of_part (split_on CHR '','' h) of Some l \<Rightarrow> l | None \<Rightarrow> LocaleJa))"

definition request_locale :: "http_libs \<Rightarrow> headers \<Rightarrow> api_locale" where
  "request_locale K hs =
     from_accept_language (Option.bind (header_get hs ''accept-language'') (header_to_str K))"

definition api_message :: "http_libs \<Rightarrow> api_locale \<Rightarrow> string \<Rightarrow> string" where
  "api_message K locale key = (case fluent_message K locale key of Some m \<Rightarrow> m | None \<Rightarrow> key)"

section \<open>Request ids and security headers\<close>

definition REQUEST_ID_HEADER :: string where
  "REQUEST_ID_HEADER = ''x-request-id''"

definition MAX_REQUEST_ID_LEN :: nat where
  "MAX_REQUEST_ID_LEN = 64"

definition is_valid_request_id :: "string \<Rightarrow> bool" where
  "is_valid_request_id v \<longleftrightarrow> v \<noteq> [] \<and> length v \<le> MAX_REQUEST_ID_LEN \<and>
     list_all (\<lambda>b. is_ascii_alphanumeric b \<or> b = CHR ''-'' \<or> b = CHR ''_'') v"

definition request_id :: "http_libs \<Rightarrow> request \<Rightarrow> (world, string) state" where
  "request_id K rq =
     (case Option.bind (header_get (rq_headers rq) REQUEST_ID_HEADER) (header_to_str K) of
        Some v \<Rightarrow> if is_valid_request_id v then State_Monad.return v
                  else State_Monad.bind new_v4 (\<lambda>u. State_Monad.return (uuid_simple K u))
      | None \<Rightarrow> State_Monad.bind new_v4 (\<lambda>u. State_Monad.return (uuid_simple K u)))"

definition set_request_id :: "http_libs \<Rightarrow> string \<Rightarrow> response \<Rightarrow> response" where
  "set_request_id K i rs =
     (if header_value_ok K i then rs\<lparr>re_headers := header_insert REQUEST_ID_HEADER i (re_headers rs)\<rparr> else rs)"

text \<open>The layer around the routes; a panic of a handler passes through it, and hyper closes the connection.\<close>

definition propagate ::
  "http_libs \<Rightarrow> (string \<Rightarrow> request \<Rightarrow> (world, response outcome) state) \<Rightarrow> request \<Rightarrow>
   (world, response outcome) state" where
  "propagate K next rq = do {
     i \<leftarrow> request_id K rq;
     r \<leftarrow> next i rq;
     State_Monad.return (case r of Return rs \<Rightarrow> Return (set_request_id K i rs) | Panic \<Rightarrow> Panic)
   }"

definition security_headers :: "http_libs \<Rightarrow> int \<Rightarrow> response \<Rightarrow> response" where
  "security_headers K hsts_max_age rs =
     (let hs = header_insert ''x-frame-options'' ''DENY''
                 (header_insert ''referrer-policy'' ''strict-origin-when-cross-origin''
                   (header_insert ''x-content-type-options'' ''nosniff'' (re_headers rs)));
          hsts = ''max-age='' @ show_int hsts_max_age
      in rs\<lparr>re_headers :=
           if hsts_max_age > 0 \<and> header_value_ok K hsts
           then header_insert ''strict-transport-security'' hsts hs else hs\<rparr>)"

definition add_security_headers ::
  "http_libs \<Rightarrow> int \<Rightarrow> (request \<Rightarrow> (world, response outcome) state) \<Rightarrow> request \<Rightarrow> (world, response outcome) state" where
  "add_security_headers K hsts_max_age next rq = do {
     r \<leftarrow> next rq;
     State_Monad.return (case r of Return rs \<Rightarrow> Return (security_headers K hsts_max_age rs) | Panic \<Rightarrow> Panic)
   }"

section \<open>The tenant of a request\<close>

definition unknown_tenant :: response where
  "unknown_tenant = error_response 404 ''not_found'' ''unknown tenant''"

definition resolve_raw_tenant :: "app \<Rightarrow> string \<Rightarrow> (world, response + tenant) state" where
  "resolve_raw_tenant A raw =
     (case uuid_parse (ap_libs A) raw of
        None \<Rightarrow> State_Monad.return (Inl unknown_tenant)
      | Some tenant_id \<Rightarrow> do {
          r \<leftarrow> resolve_tenant (ap_config A) tenant_id;
          State_Monad.return (case r of
            Inr (Some tenant) \<Rightarrow> Inr tenant
          | Inr None \<Rightarrow> Inl unknown_tenant
          | Inl _ \<Rightarrow> Inl (error_response 503 ''unavailable'' ''tenant resolution failed''))
        })"

definition invalid_tenant :: response where
  "invalid_tenant = error_response 400 ''invalid_request'' ''missing or invalid tenant_id''"

definition require_internal_tenant :: "libs \<Rightarrow> string option \<Rightarrow> response + tenant_id" where
  "require_internal_tenant E raw_tenant_id =
     (case non_empty raw_tenant_id of
        Some raw \<Rightarrow> (case uuid_parse E raw of Some i \<Rightarrow> Inr i | None \<Rightarrow> Inl invalid_tenant)
      | None \<Rightarrow> Inl invalid_tenant)"

section \<open>Helpers of the handlers\<close>

definition found :: "http_libs \<Rightarrow> string \<Rightarrow> response" where
  "found K location =
     (if header_value_ok K location
      then \<lparr>re_status = 302, re_headers = [(''location'', location)], re_body = NoBody\<rparr>
      else empty_response 500)"

definition request_context_of :: "http_libs \<Rightarrow> headers \<Rightarrow> string \<Rightarrow> bool \<Rightarrow> request_context" where
  "request_context_of K hs correlation trust_forwarded =
     \<lparr>correlation_id = correlation,
      ip_address =
        (if trust_forwarded
         then non_empty (map_option (\<lambda>v. trim (hd (split_on CHR '','' v)))
                (Option.bind (header_get hs ''x-forwarded-for'') (header_to_str K)))
         else None),
      user_agent = Option.bind (header_get hs ''user-agent'') (header_to_str K)\<rparr>"

definition context_of :: "app \<Rightarrow> incoming \<Rightarrow> request_context" where
  "context_of A i =
     request_context_of (ap_http A) (rq_headers (in_request i)) (in_correlation i)
       (cfg_trust_forwarded_headers (ap_settings A))"

definition map_permission_management_error ::
  "http_libs \<Rightarrow> permission_management_error \<Rightarrow> api_locale \<Rightarrow> api_error" where
  "map_permission_management_error K e locale =
     (case e of
        PermValidation m \<Rightarrow> ApiBadRequest m
      | PermNotFound \<Rightarrow> ApiNotFound (api_message K locale ''api-user-not-found'')
      | PermForbidden m \<Rightarrow> ApiForbidden m
      | PermInternal m \<Rightarrow> ApiInternal m)"

text \<open>A response with headers put before it in a tuple.\<close>

definition with_header :: "http_libs \<Rightarrow> string \<Rightarrow> string \<Rightarrow> response \<Rightarrow> response" where
  "with_header K name v rs =
     (if header_value_ok K v then rs\<lparr>re_headers := header_insert name v (re_headers rs)\<rparr> else header_rejection K)"

section \<open>Guards\<close>

definition require_perms :: "app \<Rightarrow> string \<Rightarrow> incoming \<Rightarrow> (world, response + authorized_admin) state" where
  "require_perms A code i = do {
     r \<leftarrow> authorize_admin (ap_libs A) (ap_config A) (t_id (in_tenant i))
            (cookies_get (ap_http A) (rq_headers (in_request i)) SSO_SESSION_COOKIE) code;
     State_Monad.return (case r of
       AdminGranted admin \<Rightarrow> Inr admin
     | AdminUnauthenticated \<Rightarrow> Inl (error_response 401 ''unauthorized'' ''authentication required'')
     | AdminForbidden \<Rightarrow> Inl (error_response 403 ''forbidden'' ''insufficient permission''))
   }"

definition require_authenticated_user :: "app \<Rightarrow> incoming \<Rightarrow> (world, response + uuid) state" where
  "require_authenticated_user A i = do {
     r \<leftarrow> authenticated_user (ap_libs A)
            (cookies_get (ap_http A) (rq_headers (in_request i)) SSO_SESSION_COOKIE);
     State_Monad.return (case r of
       Some user_id \<Rightarrow> Inr user_id
     | None \<Rightarrow> Inl (error_response 401 ''unauthorized'' ''authentication required''))
   }"

text \<open>The result of a handler: its \<open>Err\<close> is turned into a response like its \<open>Ok\<close>.\<close>

definition respond :: "(world, response + response) state \<Rightarrow> (world, response outcome) state" where
  "respond m = State_Monad.bind m (\<lambda>r. State_Monad.return (Return (case r of Inl rs \<Rightarrow> rs | Inr rs \<Rightarrow> rs)))"

definition api_err :: "('e \<Rightarrow> api_error) \<Rightarrow> (world, 'e + 'a) state \<Rightarrow> (world, response + 'a) state" where
  "api_err f m = map_err (\<lambda>e. api_error_response (f e)) m"

definition decide :: "response + 'a \<Rightarrow> (world, response + 'a) state" where
  "decide r = State_Monad.return r"

section \<open>Cookies come back\<close>

text \<open>A cookie as a browser returns it, and the header it puts them into.\<close>

definition cookie_text :: "string \<times> string \<Rightarrow> string" where
  "cookie_text c = fst c @ ''='' @ snd c"

definition cookie_ok :: "string \<times> string \<Rightarrow> bool" where
  "cookie_ok c \<longleftrightarrow> CHR ''='' \<notin> set (fst c) \<and> CHR '';'' \<notin> set (fst c) \<and> CHR '';'' \<notin> set (snd c) \<and>
     trim (cookie_text c) = cookie_text c"

lemma split_once_append: "c \<notin> set p \<Longrightarrow> split_once c (p @ c # s) = Some (p, s)"
  by (simp add: split_once_def takeWhile_append dropWhile_append)

lemma trim_space: "trim (CHR '' '' # s) = trim s"
  by (simp add: trim_def trim_start.simps [of "CHR '' '' # s"] whitespace_prefix_space)

lemma cookie_pair_text:
  "cookie_ok c \<Longrightarrow> cookie_pair name (cookie_text c) = (if fst c = name then Some (snd c) else None)"
  using split_once_append [of "CHR ''=''" "fst c" "snd c"]
  by (cases c) (simp add: cookie_pair_def cookie_ok_def cookie_text_def)

lemma cookie_pair_space: "cookie_pair name (CHR '' '' # p) = cookie_pair name p"
  by (simp add: cookie_pair_def trim_space)

lemma cookie_text_no_semicolon: "cookie_ok c \<Longrightarrow> CHR '';'' \<notin> set (cookie_text c)"
  by (auto simp: cookie_ok_def cookie_text_def)

lemma find_map_cookies:
  "list_all cookie_ok (c # cs) \<Longrightarrow>
   find_map (cookie_pair name) (split_on CHR '';'' (join ''; '' (map cookie_text (c # cs)))) = map_of (c # cs) name"
proof (induction cs arbitrary: c)
  case Nil
  then show ?case
    by (cases c) (auto simp: split_on_no_sep cookie_text_no_semicolon cookie_pair_text)
next
  case (Cons d ds)
  let ?rest = "join ''; '' (map cookie_text (d # ds))"
  from Cons.prems have c: "cookie_ok c" "CHR '';'' \<notin> set (cookie_text c)" by (auto dest: cookie_text_no_semicolon)
  have "split_on CHR '';'' (join ''; '' (map cookie_text (c # d # ds))) =
      cookie_text c # split_on CHR '';'' (CHR '' '' # ?rest)"
    using c(2) by (simp add: split_on_append)
  moreover obtain p ps where s: "split_on CHR '';'' ?rest = p # ps" by (cases "split_on CHR '';'' ?rest") auto
  moreover have "find_map (cookie_pair name) (p # ps) = map_of (d # ds) name"
    using Cons.IH [of d] Cons.prems s by simp
  ultimately show ?case using c(1) by (cases c) (auto simp: cookie_pair_text cookie_pair_space)
qed

text \<open>
  What a browser sends back in one \<open>Cookie\<close> header is read as it was set: of several cookies each name
  gives its own value.
\<close>

theorem cookies_roundtrip:
  assumes "list_all cookie_ok (c # cs)" and "header_to_str K (join ''; '' (map cookie_text (c # cs))) =
      Some (join ''; '' (map cookie_text (c # cs)))"
  shows "cookies_get K [(''cookie'', join ''; '' (map cookie_text (c # cs)))] name = map_of (c # cs) name"
  using assms find_map_cookies [OF assms(1), of name]
  by (simp add: cookies_get_def header_get_all_def split: option.splits)

section \<open>Layers and guards\<close>

lemma header_get_insert: "header_get (header_insert n v hs) m = (if m = n then Some v else header_get hs m)"
  by (auto simp: header_get_def header_insert_def map_of_filter_in) (induction hs, auto)

lemma security_headers_get:
  "header_get (re_headers (security_headers K n rs)) ''x-content-type-options'' = Some ''nosniff''"
  "header_get (re_headers (security_headers K n rs)) ''referrer-policy'' = Some ''strict-origin-when-cross-origin''"
  "header_get (re_headers (security_headers K n rs)) ''x-frame-options'' = Some ''DENY''"
  "n > 0 \<Longrightarrow> header_value_ok K (''max-age='' @ show_int n) \<Longrightarrow>
     header_get (re_headers (security_headers K n rs)) ''strict-transport-security'' = Some (''max-age='' @ show_int n)"
  by (simp_all add: security_headers_def Let_def header_get_insert)

lemma internal_error_opaque: "api_error_response (ApiInternal m) = api_error_response (ApiInternal m')"
  by (simp add: api_error_response_def)

lemma frame_request_id: "always (frame T) (request_id K rq)"
  unfolding request_id_def by (intro frame.always_rules frame_new_v4)

lemma frame_resolve_raw_tenant: "always (frame T) (resolve_raw_tenant A raw)"
proof -
  have "always (frame T) (resolve_tenant C i)" for C i
    by (rule alwaysI, rule wpI) (simp add: frame_def resolve_tenant_cache(1))
  then show ?thesis unfolding resolve_raw_tenant_def by (intro frame.always_rules)
qed

lemma frame_require_perms: "always (frame T) (require_perms A code i)"
  unfolding require_perms_def by (intro frame.always_rules frame_authorize_admin)

lemma require_perms_Inr:
  assumes "run_state (require_perms A code i) w = (Inr admin, w')"
  shows "admin_entitled (ap_libs A) w (ticks w + 1) (t_id (in_tenant i))
      (cookies_get (ap_http A) (rq_headers (in_request i)) SSO_SESSION_COOKIE) code (aa_user_id admin)"
  using assms unfolding require_perms_def run_bindE run_returnE
  by (elim exE conjE, case_tac a) (auto dest: authorize_admin_Granted)

lemma require_perms_Inl:
  assumes "run_state (require_perms A code i) w = (Inl rs, w')"
  shows "db w' = db w \<and> re_status rs \<in> {401, 403}"
proof -
  have "db w' = db w" using alwaysD [OF frame_require_perms assms, of id] by (simp add: frame_def)
  moreover have "re_status rs \<in> {401, 403}" using assms
    unfolding require_perms_def run_bindE run_returnE
    by (elim exE conjE, case_tac a) (auto simp: error_response_def json_response_def)
  ultimately show ?thesis by simp
qed

text \<open>The address a client claims to have is not believed unless the operator says so.\<close>

lemma untrusted_forwarded_ignored:
  "ip_address (request_context_of K hs correlation False) = None"
  "request_context_of K ((''x-forwarded-for'', v) # hs) correlation False = request_context_of K hs correlation False"
  by (simp_all add: request_context_of_def header_get_def)

text \<open>A request id is the one of the client only if it is short and made of letters, digits, dashes and underscores.\<close>

lemma request_id_valid:
  assumes "run_state (request_id K rq) w = (i, w')"
  shows "is_valid_request_id i \<or> (\<exists>u. i = uuid_simple K u)"
  using assms by (auto simp: request_id_def run_rules split: option.splits if_splits)

end
