(* ===== verification/AdminApi.thy ===== *)
theory AdminApi
  imports Http Clients AuditLog Saml Registration UserLifecycle Invitation SystemSettings KeyService
begin

text \<open>
  The administration endpoints (\<^verbatim>\<open>presentation/handlers/admin*.rs\<close> of the api crate): who may call them,
  what they call, and how results and errors become responses. Every handler first runs the guard
  \<open>require_perms\<close> with the permission code of its \<open>RequirePerms\<close> marker: \<open>tenant_admin\<close> for
  \<^verbatim>\<open>IdpAdmin\<close>, \<open>system_admin\<close> for \<^verbatim>\<open>IdpSystemAdmin\<close>. The request bodies and queries are read by
  the extractors of the record \<open>admin_extractors\<close>. The ids of audit rows and the descriptions of settings
  are not in the model and so not in the responses.
\<close>

section \<open>Request data\<close>

record client_register_request =
  crr_app_name :: string
  crr_client_type :: string
  crr_redirect_uris :: "string list"
  crr_scopes :: "string list"
  crr_require_pkce :: "bool option"
  crr_post_logout_redirect_uris :: "string list option"
  crr_frontchannel_logout_uri :: "string option"
  crr_backchannel_logout_uri :: "string option"

record client_update_request =
  cur_app_name :: "string option"
  cur_redirect_uris :: "string list option"
  cur_scopes :: "string list option"
  cur_client_status :: "string option"
  cur_post_logout_redirect_uris :: "string list option"
  cur_frontchannel_logout_uri :: "string option"
  cur_backchannel_logout_uri :: "string option"

record audit_log_query_params =
  alq_event_type :: "string option"
  alq_result :: "string option"
  alq_client_id :: "string option"
  alq_correlation_id :: "string option"
  alq_from :: "string option"
  alq_to :: "string option"
  alq_limit :: "int option"
  alq_offset :: "int option"

record update_tenant_request =
  utr_name :: "string option"
  utr_status :: "string option"

text \<open>
  A request with one field is that field; the SMTP settings, the new user and the service provider have
  the fields of the commands they become.
\<close>

record admin_extractors =
  x_create_tenant :: "string extractor"
  x_update_tenant :: "update_tenant_request extractor"
  x_tenant_admin_password_reset :: "string extractor"
  x_update_tenant_settings :: "(string \<times> bool option) extractor"
  x_update_runtime_setting :: "(string \<times> string option) extractor"
  x_update_system_settings :: "update_smtp_command extractor"
  x_create_invitation :: "string extractor"
  x_client_register :: "client_register_request extractor"
  x_client_update :: "client_update_request extractor"
  x_grant_permission :: "string extractor"
  x_create_user :: "create_user_command extractor"
  x_user_search :: "string option extractor"
  x_update_user_status :: "string extractor"
  x_audit_log_query :: "audit_log_query_params extractor"
  x_saml_service_provider :: "saml_changes extractor"
  x_saml_metadata_import :: "string extractor"
  x_generate_signing_key :: "string extractor"

section \<open>The shape of an administration endpoint\<close>

definition admin_only ::
  "app \<Rightarrow> string \<Rightarrow> incoming \<Rightarrow> (authorized_admin \<Rightarrow> (world, response + response) state) \<Rightarrow>
   (world, response outcome) state" where
  "admin_only A code i handler = respond (and_then (require_perms A code i) handler)"

definition ok :: "response \<Rightarrow> (world, response + response) state" where
  "ok r = State_Monad.return (Inr r)"

definition locale_of :: "app \<Rightarrow> incoming \<Rightarrow> api_locale" where
  "locale_of A i = request_locale (ap_http A) (rq_headers (in_request i))"

definition message_of :: "app \<Rightarrow> incoming \<Rightarrow> string \<Rightarrow> string" where
  "message_of A i key = api_message (ap_http A) (locale_of A i) key"

definition no_content :: response where
  "no_content = empty_response 204"

definition id_json :: "libs \<Rightarrow> uuid \<Rightarrow> json" where
  "id_json E i = JStr (uuid_to_string E i)"

definition time_json :: "libs \<Rightarrow> instant \<Rightarrow> json" where
  "time_json E t = JStr (to_rfc3339 E t)"

section \<open>Who am I\<close>

definition whoami :: "app \<Rightarrow> incoming \<Rightarrow> (world, response outcome) state" where
  "whoami A i = admin_only A tenant_admin i (\<lambda>admin. ok (json_response 200 (JObj
     [(''user_id'', id_json (ap_libs A) (aa_user_id admin)),
      (''name'', nullable JStr (aa_name admin)),
      (''preferred_username'', nullable JStr (aa_preferred_username admin))])))"

section \<open>Tenants\<close>

definition tenant_response :: "libs \<Rightarrow> tenant \<Rightarrow> json" where
  "tenant_response E t = JObj
     ([(''id'', id_json E (t_id t))] @ optional ''parent_tenant_id'' (id_json E) (t_parent_tenant_id t) @
      [(''name'', JStr (t_name t)), (''status'', JStr (tenant_status_as_str (t_status t))),
       (''self_registration_enabled'', JBool (t_self_registration_enabled t)),
       (''created_at'', time_json E (t_created_at t)), (''updated_at'', time_json E (t_updated_at t))])"

fun map_tenant_error :: "tenant_management_error \<Rightarrow> api_error" where
  "map_tenant_error (TenantValidation m) = ApiBadRequest m"
| "map_tenant_error TenantNotFound = ApiNotFound ''tenant not found''"
| "map_tenant_error (TenantForbidden m) = ApiForbidden m"
| "map_tenant_error (TenantConflict m) = ApiConflict m"
| "map_tenant_error (TenantInternal m) = ApiInternal m"

fun map_tenant_lifecycle_error :: "user_lifecycle_error \<Rightarrow> api_error" where
  "map_tenant_lifecycle_error LifecycleNotFound = ApiNotFound ''user not found''"
| "map_tenant_lifecycle_error (LifecycleForbidden m) = ApiForbidden m"
| "map_tenant_lifecycle_error (LifecycleValidation m) = ApiBadRequest m"
| "map_tenant_lifecycle_error (LifecycleInternal m) = ApiInternal m"

definition parse_tenant_id :: "libs \<Rightarrow> string \<Rightarrow> response + tenant_id" where
  "parse_tenant_id E raw =
     (case uuid_parse E raw of
        Some i \<Rightarrow> Inr i | None \<Rightarrow> Inl (api_error_response (ApiNotFound ''tenant not found'')))"

definition list_tenants_endpoint :: "app \<Rightarrow> incoming \<Rightarrow> (world, response outcome) state" where
  "list_tenants_endpoint A i = admin_only A system_admin i (\<lambda>_.
     and_then (api_err map_tenant_error (list_children (t_id (in_tenant i)))) (\<lambda>children.
     ok (json_response 200 (JArr (map (tenant_response (ap_libs A)) children)))))"

definition create_tenant_endpoint ::
  "app \<Rightarrow> admin_extractors \<Rightarrow> incoming \<Rightarrow> (world, response outcome) state" where
  "create_tenant_endpoint A X i = admin_only A system_admin i (\<lambda>admin.
     and_then (decide (x_create_tenant X (in_request i))) (\<lambda>name.
     and_then (api_err map_tenant_error
       (create_tenant (ap_libs A) (t_id (in_tenant i)) name (aa_user_id admin) (context_of A i))) (\<lambda>created.
     ok (json_response 201 (tenant_response (ap_libs A) created)))))"

definition get_tenant_endpoint :: "app \<Rightarrow> string \<Rightarrow> incoming \<Rightarrow> (world, response outcome) state" where
  "get_tenant_endpoint A child_id i = admin_only A system_admin i (\<lambda>_.
     and_then (decide (parse_tenant_id (ap_libs A) child_id)) (\<lambda>child.
     and_then (api_err map_tenant_error (get_child (t_id (in_tenant i)) child)) (\<lambda>t.
     ok (json_response 200 (tenant_response (ap_libs A) t)))))"

text \<open>\<open>.map(TenantStatus::parse).transpose()\<close>\<close>

definition parse_optional :: "(string \<Rightarrow> domain_error + 'a) \<Rightarrow> string \<Rightarrow> string option \<Rightarrow> response + 'a option" where
  "parse_optional parse message v =
     (case v of
        None \<Rightarrow> Inr None
      | Some s \<Rightarrow> (case parse s of Inr a \<Rightarrow> Inr (Some a) | Inl _ \<Rightarrow> Inl (api_error_response (ApiBadRequest message))))"

definition update_tenant_endpoint ::
  "app \<Rightarrow> admin_extractors \<Rightarrow> string \<Rightarrow> incoming \<Rightarrow> (world, response outcome) state" where
  "update_tenant_endpoint A X child_id i = admin_only A system_admin i (\<lambda>admin.
     and_then (decide (x_update_tenant X (in_request i))) (\<lambda>body.
     and_then (decide (parse_tenant_id (ap_libs A) child_id)) (\<lambda>child.
     and_then (decide (parse_optional parse_tenant_status ''invalid status'' (utr_status body))) (\<lambda>status.
     and_then (api_err map_tenant_error
       (update_tenant (ap_libs A) (t_id (in_tenant i)) child \<lparr>ut_name = utr_name body, ut_status = status\<rparr>
          (aa_user_id admin) (context_of A i))) (\<lambda>updated.
     ok (json_response 200 (tenant_response (ap_libs A) updated)))))))"

definition delete_tenant_endpoint :: "app \<Rightarrow> string \<Rightarrow> incoming \<Rightarrow> (world, response outcome) state" where
  "delete_tenant_endpoint A child_id i = admin_only A system_admin i (\<lambda>admin.
     and_then (decide (parse_tenant_id (ap_libs A) child_id)) (\<lambda>child.
     and_then (api_err map_tenant_error
       (delete_tenant (ap_libs A) (t_id (in_tenant i)) child (aa_user_id admin) (context_of A i))) (\<lambda>_.
     ok no_content)))"

definition password_reset_response :: "libs \<Rightarrow> reset_user_password \<Rightarrow> json" where
  "password_reset_response E r =
     JObj [(''user_id'', id_json E (ru_user_id r)), (''generated_password'', JStr (ru_generated_password r))]"

definition reset_tenant_admin_password ::
  "app \<Rightarrow> admin_extractors \<Rightarrow> string \<Rightarrow> incoming \<Rightarrow> (world, response outcome) state" where
  "reset_tenant_admin_password A X child_id i = admin_only A system_admin i (\<lambda>admin.
     and_then (decide (x_tenant_admin_password_reset X (in_request i))) (\<lambda>email.
     and_then (decide (parse_tenant_id (ap_libs A) child_id)) (\<lambda>child.
     and_then (api_err map_tenant_error (get_child (t_id (in_tenant i)) child)) (\<lambda>child_tenant.
     and_then (api_err map_tenant_lifecycle_error
       (reset_password_by_email (ap_libs A) (t_id child_tenant) email (aa_user_id admin) (context_of A i))) (\<lambda>reset.
     ok (json_response 200 (password_reset_response (ap_libs A) reset)))))))"

definition get_current_tenant :: "app \<Rightarrow> incoming \<Rightarrow> (world, response outcome) state" where
  "get_current_tenant A i = admin_only A tenant_admin i (\<lambda>_.
     and_then (api_err map_tenant_error (get_current (t_id (in_tenant i)))) (\<lambda>current.
     ok (json_response 200 (tenant_response (ap_libs A) current))))"

definition update_current_tenant ::
  "app \<Rightarrow> admin_extractors \<Rightarrow> incoming \<Rightarrow> (world, response outcome) state" where
  "update_current_tenant A X i = admin_only A tenant_admin i (\<lambda>admin.
     and_then (decide (x_update_tenant_settings X (in_request i))) (\<lambda>(name, self_registration).
     and_then (api_err map_tenant_error
       (update_current_settings (ap_libs A) (t_id (in_tenant i)) name self_registration
          (aa_user_id admin) (context_of A i))) (\<lambda>updated.
     ok (json_response 200 (tenant_response (ap_libs A) updated)))))"

section \<open>System settings\<close>

definition runtime_setting_response :: "resolved_setting \<Rightarrow> string option \<Rightarrow> json" where
  "runtime_setting_response s db_value = JObj
     ([(''key'', JStr (rs_key s)),
       (''owner'', JStr (case rs_owner s of Builtin \<Rightarrow> ''BUILTIN'' | EnvLocked \<Rightarrow> ''ENV_LOCKED'' | DbManaged \<Rightarrow> ''DB_MANAGED'')),
       (''source'', JStr (case rs_source s of SourceBuiltin \<Rightarrow> ''BUILTIN'' | SourceEnv \<Rightarrow> ''ENV'' | SourceDb \<Rightarrow> ''DB'')),
       (''secret'', JBool (rs_secret s)),
       (''restart_required'', JBool (rs_restart_required s)),
       (''default_risk'', JStr (case rs_default_risk s of Safe \<Rightarrow> ''SAFE'' | Review \<Rightarrow> ''REVIEW'' | Dangerous \<Rightarrow> ''DANGEROUS'')),
       (''status'', JStr (case rs_status s of StatusSafe \<Rightarrow> ''SAFE'' | NeedsAction \<Rightarrow> ''NEEDS_ACTION'')),
       (''reason'', JStr (rs_reason s))] @
      optional ''value'' JStr (rs_value s) @
      optional ''default_value'' JStr (rs_default_value s) @
      optional ''db_value'' JStr (if rs_secret s then None else db_value) @
      [(''editable'', JBool (rs_owner s = DbManaged \<and> \<not> rs_secret s))])"

definition system_settings_response ::
  "smtp_settings_view \<Rightarrow> resolved_setting list \<Rightarrow> (string \<Rightarrow> string option) \<Rightarrow> json" where
  "system_settings_response smtp runtime db_overrides = JObj
     ([(''smtp_host'', JStr (sv_host smtp))] @
      optional ''smtp_port'' (\<lambda>p. JInt (int p)) (sv_port smtp) @
      [(''smtp_username'', JStr (sv_username smtp)),
       (''smtp_password_set'', JBool (sv_password_set smtp)),
       (''smtp_from_address'', JStr (sv_from_address smtp)),
       (''smtp_use_tls'', JBool (sv_use_tls smtp)),
       (''runtime_settings'', JArr (map (\<lambda>s. runtime_setting_response s (db_overrides (rs_key s))) runtime))])"

definition internal_api_error :: "domain_error \<Rightarrow> api_error" where
  "internal_api_error e = ApiInternal (domain_error_to_string e)"

definition get_system_settings :: "app \<Rightarrow> incoming \<Rightarrow> (world, response outcome) state" where
  "get_system_settings A i = admin_only A system_admin i (\<lambda>_.
     and_then (api_err internal_api_error get_smtp) (\<lambda>smtp.
     and_then (api_err internal_api_error runtime_overrides) (\<lambda>overrides.
     ok (json_response 200 (system_settings_response smtp (cfg_resolved_settings (ap_settings A)) overrides)))))"

definition update_runtime_setting_endpoint ::
  "app \<Rightarrow> admin_extractors \<Rightarrow> incoming \<Rightarrow> (world, response outcome) state" where
  "update_runtime_setting_endpoint A X i = admin_only A system_admin i (\<lambda>admin.
     and_then (decide (x_update_runtime_setting X (in_request i))) (\<lambda>(key, value).
     and_then (api_err (\<lambda>e. case e of InvalidValue m \<Rightarrow> ApiBadRequest m | other \<Rightarrow> internal_api_error other)
       (update_runtime_setting (ap_libs A) (t_id (in_tenant i)) key value (aa_user_id admin) (context_of A i))) (\<lambda>_.
     and_then (api_err internal_api_error get_smtp) (\<lambda>smtp.
     and_then (api_err internal_api_error runtime_overrides) (\<lambda>overrides.
     ok (json_response 200 (system_settings_response smtp (cfg_resolved_settings (ap_settings A)) overrides)))))))"

definition update_system_settings ::
  "app \<Rightarrow> admin_extractors \<Rightarrow> incoming \<Rightarrow> (world, response outcome) state" where
  "update_system_settings A X i = admin_only A system_admin i (\<lambda>admin.
     and_then (decide (x_update_system_settings X (in_request i))) (\<lambda>cmd.
     and_then (api_err internal_api_error
       (update_smtp (ap_libs A) (ap_config A) (t_id (in_tenant i)) cmd (aa_user_id admin) (context_of A i))) (\<lambda>updated.
     and_then (api_err internal_api_error runtime_overrides) (\<lambda>overrides.
     ok (json_response 200 (system_settings_response updated (cfg_resolved_settings (ap_settings A)) overrides))))))"

section \<open>Members and invitations\<close>

definition map_member_error :: "app \<Rightarrow> incoming \<Rightarrow> invitation_error \<Rightarrow> api_error" where
  "map_member_error A i e =
     (case e of
        InviteNotFound \<Rightarrow> ApiNotFound (message_of A i ''api-member-not-found'')
      | AlreadyMember \<Rightarrow> ApiConflict ''already a member''
      | InviteForbidden m \<Rightarrow> ApiForbidden m
      | InviteInvalidOrExpired \<Rightarrow> ApiBadRequest (message_of A i ''api-invalid-request'')
      | InviteInternal m \<Rightarrow> ApiInternal m)"

definition map_invitation_error :: "app \<Rightarrow> incoming \<Rightarrow> invitation_error \<Rightarrow> api_error" where
  "map_invitation_error A i e =
     (case e of
        InviteNotFound \<Rightarrow> ApiNotFound (message_of A i ''api-invitation-user-not-found'')
      | AlreadyMember \<Rightarrow> ApiConflict ''already a member''
      | InviteForbidden m \<Rightarrow> ApiForbidden m
      | InviteInvalidOrExpired \<Rightarrow> ApiBadRequest (message_of A i ''api-invalid-request'')
      | InviteInternal m \<Rightarrow> ApiInternal m)"

text \<open>\<open>Uuid::parse_str\<close> with the error the handler gives a text that is not a UUID.\<close>

definition parse_id :: "app \<Rightarrow> api_error \<Rightarrow> string \<Rightarrow> response + uuid" where
  "parse_id A e raw =
     (case uuid_parse (ap_libs A) raw of Some u \<Rightarrow> Inr u | None \<Rightarrow> Inl (api_error_response e))"

definition invalid_request :: "app \<Rightarrow> incoming \<Rightarrow> api_error" where
  "invalid_request A i = ApiBadRequest (message_of A i ''api-invalid-request'')"

definition member_response :: "libs \<Rightarrow> tenant_member \<Rightarrow> json" where
  "member_response E m = JObj
     ([(''user_id'', id_json E (mem_user_id m))] @
      optional ''email'' JStr (mem_email m) @ optional ''name'' JStr (mem_name m) @
      [(''membership_type'', JStr (membership_type_as_str (mem_membership_type m))),
       (''status'', JStr (membership_status_as_str (mem_status m)))] @
      optional ''user_status'' (\<lambda>s. JStr (user_status_as_str s)) (mem_user_status m))"

definition list_members_endpoint :: "app \<Rightarrow> incoming \<Rightarrow> (world, response outcome) state" where
  "list_members_endpoint A i = admin_only A tenant_admin i (\<lambda>_.
     and_then (api_err (map_member_error A i) (list_members (t_id (in_tenant i)))) (\<lambda>members.
     ok (json_response 200 (JArr (map (member_response (ap_libs A)) members)))))"

definition revoke_member :: "app \<Rightarrow> string \<Rightarrow> incoming \<Rightarrow> (world, response outcome) state" where
  "revoke_member A user_id i = admin_only A tenant_admin i (\<lambda>admin.
     and_then (decide (parse_id A (invalid_request A i) user_id)) (\<lambda>target.
     and_then (api_err (map_member_error A i)
       (revoke_membership (ap_libs A) (t_id (in_tenant i)) target (aa_user_id admin) (context_of A i))) (\<lambda>_.
     ok no_content)))"

definition create_invitation_endpoint ::
  "app \<Rightarrow> admin_extractors \<Rightarrow> incoming \<Rightarrow> (world, response outcome) state" where
  "create_invitation_endpoint A X i = admin_only A tenant_admin i (\<lambda>admin.
     and_then (decide (x_create_invitation X (in_request i))) (\<lambda>user_id.
     and_then (decide (parse_id A (invalid_request A i) user_id)) (\<lambda>target.
     and_then (api_err (map_invitation_error A i)
       (create_invitation (ap_libs A) (ap_config A) (t_id (in_tenant i)) target (aa_user_id admin) (context_of A i)))
       (\<lambda>created.
     ok (json_response 201 (JObj
       [(''token'', JStr (inv_token created)), (''expires_at'', time_json (ap_libs A) (inv_expires_at created)),
        (''email_sent'', JBool (inv_email_sent created)), (''invitee_email'', JStr (inv_invitee_email created))]))))))"

section \<open>Clients\<close>

definition map_client_error :: "app \<Rightarrow> incoming \<Rightarrow> client_management_error \<Rightarrow> api_error" where
  "map_client_error A i e =
     (case e of
        ClientValidation m \<Rightarrow> ApiBadRequest m
      | ClientNotFound \<Rightarrow> ApiNotFound (message_of A i ''api-client-not-found'')
      | ClientConflict m \<Rightarrow> ApiConflict m
      | ClientInternal m \<Rightarrow> ApiInternal m)"

definition client_fields :: "libs \<Rightarrow> client \<Rightarrow> (string \<times> json) list" where
  "client_fields E c =
     [(''id'', id_json E (c_id c)), (''client_id'', JStr (c_client_id c)),
      (''client_type'', JStr (client_type_as_str (c_client_type c))),
      (''client_status'', JStr (client_status_as_str (c_client_status c))),
      (''app_name'', JStr (c_app_name c)), (''redirect_uris'', strings (c_redirect_uris c)),
      (''grant_types'', strings (c_grant_types c)), (''response_types'', strings (c_response_types c)),
      (''scopes'', strings (c_scopes c)),
      (''token_endpoint_auth_method'', JStr (token_endpoint_auth_method_as_str (c_token_endpoint_auth_method c))),
      (''require_pkce'', JBool (c_require_pkce c))] @
     (if c_post_logout_redirect_uris c = [] then []
      else [(''post_logout_redirect_uris'', strings (c_post_logout_redirect_uris c))]) @
     optional ''frontchannel_logout_uri'' JStr (c_frontchannel_logout_uri c) @
     optional ''backchannel_logout_uri'' JStr (c_backchannel_logout_uri c) @
     [(''created_at'', time_json E (c_created_at c)), (''updated_at'', time_json E (c_updated_at c))]"

definition client_response :: "libs \<Rightarrow> client \<Rightarrow> json" where
  "client_response E c = JObj (client_fields E c)"

definition to_register_command :: "client_register_request \<Rightarrow> client_type \<Rightarrow> register_client_command" where
  "to_register_command b client_type =
     \<lparr>rcc_app_name = crr_app_name b, rcc_client_type = client_type,
      rcc_redirect_uris = crr_redirect_uris b, rcc_scopes = crr_scopes b,
      rcc_require_pkce = crr_require_pkce b,
      rcc_post_logout_redirect_uris = (case crr_post_logout_redirect_uris b of Some l \<Rightarrow> l | None \<Rightarrow> []),
      rcc_frontchannel_logout_uri = crr_frontchannel_logout_uri b,
      rcc_backchannel_logout_uri = crr_backchannel_logout_uri b\<rparr>"

definition create_client :: "app \<Rightarrow> admin_extractors \<Rightarrow> incoming \<Rightarrow> (world, response outcome) state" where
  "create_client A X i = admin_only A tenant_admin i (\<lambda>admin.
     and_then (decide (x_client_register X (in_request i))) (\<lambda>body.
     and_then (decide (case parse_client_type (crr_client_type body) of
         Inr t \<Rightarrow> Inr t
       | Inl _ \<Rightarrow> Inl (api_error_response (ApiBadRequest (message_of A i ''api-client-type-invalid''))))) (\<lambda>client_type.
     and_then (api_err (map_client_error A i)
       (register_client (ap_libs A) (t_id (in_tenant i)) (to_register_command body client_type)
          (aa_user_id admin) (context_of A i))) (\<lambda>(client, secret).
     ok (json_response 201 (JObj (client_fields (ap_libs A) client @ optional ''client_secret'' JStr secret)))))))"

definition list_clients_endpoint :: "app \<Rightarrow> incoming \<Rightarrow> (world, response outcome) state" where
  "list_clients_endpoint A i = admin_only A tenant_admin i (\<lambda>_.
     and_then (api_err (map_client_error A i) (list_clients (t_id (in_tenant i)))) (\<lambda>clients.
     ok (json_response 200 (JArr (map (client_response (ap_libs A)) clients)))))"

definition get_client_endpoint :: "app \<Rightarrow> string \<Rightarrow> incoming \<Rightarrow> (world, response outcome) state" where
  "get_client_endpoint A client_id i = admin_only A tenant_admin i (\<lambda>_.
     and_then (api_err (map_client_error A i) (get_client (ap_libs A) (t_id (in_tenant i)) client_id)) (\<lambda>client.
     ok (json_response 200 (client_response (ap_libs A) client))))"

definition to_update_command :: "client_update_request \<Rightarrow> client_status option \<Rightarrow> update_client_command" where
  "to_update_command b status =
     \<lparr>ucc_app_name = cur_app_name b, ucc_redirect_uris = cur_redirect_uris b, ucc_scopes = cur_scopes b,
      ucc_status = status, ucc_post_logout_redirect_uris = cur_post_logout_redirect_uris b,
      ucc_frontchannel_logout_uri = map_option Some (cur_frontchannel_logout_uri b),
      ucc_backchannel_logout_uri = map_option Some (cur_backchannel_logout_uri b)\<rparr>"

definition update_client_endpoint ::
  "app \<Rightarrow> admin_extractors \<Rightarrow> string \<Rightarrow> incoming \<Rightarrow> (world, response outcome) state" where
  "update_client_endpoint A X client_id i = admin_only A tenant_admin i (\<lambda>admin.
     and_then (decide (x_client_update X (in_request i))) (\<lambda>body.
     and_then (decide (parse_optional parse_client_status (message_of A i ''api-client-status-invalid'')
       (cur_client_status body))) (\<lambda>status.
     and_then (api_err (map_client_error A i)
       (update_client (ap_libs A) (t_id (in_tenant i)) client_id (to_update_command body status)
          (aa_user_id admin) (context_of A i))) (\<lambda>client.
     ok (json_response 200 (client_response (ap_libs A) client))))))"

definition rotate_client_secret :: "app \<Rightarrow> string \<Rightarrow> incoming \<Rightarrow> (world, response outcome) state" where
  "rotate_client_secret A client_id i = admin_only A tenant_admin i (\<lambda>admin.
     and_then (api_err (map_client_error A i)
       (rotate_secret (ap_libs A) (t_id (in_tenant i)) client_id (aa_user_id admin) (context_of A i)))
       (\<lambda>(client, secret).
     ok (json_response 200 (JObj
       [(''client_id'', JStr (c_client_id client)), (''client_secret'', JStr secret)]))))"

definition list_client_status_endpoint :: "app \<Rightarrow> incoming \<Rightarrow> (world, response outcome) state" where
  "list_client_status_endpoint A i = admin_only A tenant_admin i (\<lambda>_.
     and_then (api_err internal_api_error (list_client_status (ap_libs A) (t_id (in_tenant i)))) (\<lambda>views.
     ok (json_response 200 (JArr (map (\<lambda>v. JObj
       [(''client_id'', JStr (cs_client_id v)), (''app_name'', JStr (cs_app_name v)),
        (''status'', JStr (client_status_as_str (cs_status v))), (''scopes'', strings (cs_scopes v)),
        (''last_used_at'', nullable (time_json (ap_libs A)) (cs_last_used_at v))]) views)))))"

section \<open>Permissions\<close>

definition permission_error :: "app \<Rightarrow> incoming \<Rightarrow> permission_management_error \<Rightarrow> api_error" where
  "permission_error A i e = map_permission_management_error (ap_http A) e (locale_of A i)"

definition user_permissions_response :: "libs \<Rightarrow> uuid \<Rightarrow> string list \<Rightarrow> json" where
  "user_permissions_response E target codes =
     JObj [(''user_id'', id_json E target), (''permission_codes'', strings codes)]"

definition list_available_permissions :: "app \<Rightarrow> incoming \<Rightarrow> (world, response outcome) state" where
  "list_available_permissions A i = admin_only A tenant_admin i (\<lambda>_.
     and_then (api_err (permission_error A i) (available_codes (ap_libs A))) (\<lambda>codes.
     ok (json_response 200 (JObj [(''codes'', strings codes)]))))"

definition list_permissions_endpoint :: "app \<Rightarrow> string \<Rightarrow> incoming \<Rightarrow> (world, response outcome) state" where
  "list_permissions_endpoint A user_id i = admin_only A tenant_admin i (\<lambda>_.
     and_then (decide (parse_id A (invalid_request A i) user_id)) (\<lambda>target.
     and_then (api_err (permission_error A i) (list_permissions (t_id (in_tenant i)) target)) (\<lambda>codes.
     ok (json_response 200 (user_permissions_response (ap_libs A) target codes)))))"

definition grant_permission_endpoint ::
  "app \<Rightarrow> admin_extractors \<Rightarrow> string \<Rightarrow> incoming \<Rightarrow> (world, response outcome) state" where
  "grant_permission_endpoint A X user_id i = admin_only A tenant_admin i (\<lambda>admin.
     and_then (decide (x_grant_permission X (in_request i))) (\<lambda>code.
     and_then (decide (parse_id A (invalid_request A i) user_id)) (\<lambda>target.
     and_then (api_err (permission_error A i)
       (grant_permission (ap_libs A) (ap_config A) (t_id (in_tenant i)) target code (aa_user_id admin) (context_of A i)))
       (\<lambda>codes.
     ok (json_response 200 (user_permissions_response (ap_libs A) target codes))))))"

definition revoke_permission_endpoint ::
  "app \<Rightarrow> string \<Rightarrow> string \<Rightarrow> incoming \<Rightarrow> (world, response outcome) state" where
  "revoke_permission_endpoint A user_id code i = admin_only A tenant_admin i (\<lambda>admin.
     and_then (decide (parse_id A (invalid_request A i) user_id)) (\<lambda>target.
     and_then (api_err (permission_error A i)
       (revoke_permission (ap_libs A) (ap_config A) (t_id (in_tenant i)) target code (aa_user_id admin) (context_of A i)))
       (\<lambda>codes.
     ok (json_response 200 (user_permissions_response (ap_libs A) target codes)))))"

section \<open>Users\<close>

definition user_not_found :: "app \<Rightarrow> incoming \<Rightarrow> api_error" where
  "user_not_found A i = ApiNotFound (message_of A i ''api-user-not-found'')"

definition map_user_lifecycle_error :: "app \<Rightarrow> incoming \<Rightarrow> user_lifecycle_error \<Rightarrow> api_error" where
  "map_user_lifecycle_error A i e =
     (case e of
        LifecycleNotFound \<Rightarrow> user_not_found A i
      | LifecycleForbidden m \<Rightarrow> ApiForbidden m
      | LifecycleValidation m \<Rightarrow> ApiBadRequest m
      | LifecycleInternal m \<Rightarrow> ApiInternal m)"

fun map_user_management_error :: "user_management_error \<Rightarrow> api_error" where
  "map_user_management_error (UserMgmtValidation m) = ApiBadRequest m"
| "map_user_management_error (UserMgmtConflict m) = ApiConflict m"
| "map_user_management_error (UserMgmtInternal m) = ApiInternal m"

definition user_summary :: "libs \<Rightarrow> user \<Rightarrow> json" where
  "user_summary E u = JObj
     [(''id'', id_json E (u_id u)), (''sub'', id_json E (u_sub u)), (''email'', JStr (u_email u)),
      (''email_verified'', JBool (u_email_verified u)),
      (''preferred_username'', nullable JStr (u_preferred_username u)), (''name'', nullable JStr (u_name u)),
      (''status'', JStr (user_status_as_str (u_status u)))]"

definition create_user_endpoint :: "app \<Rightarrow> admin_extractors \<Rightarrow> incoming \<Rightarrow> (world, response outcome) state" where
  "create_user_endpoint A X i = admin_only A tenant_admin i (\<lambda>admin.
     and_then (decide (x_create_user X (in_request i))) (\<lambda>cmd.
     and_then (api_err map_user_management_error
       (create_user (ap_libs A) (t_id (in_tenant i)) cmd (aa_user_id admin) (context_of A i))) (\<lambda>created.
     ok (json_response 201 (JObj
       [(''user_id'', id_json (ap_libs A) (cr_user_id created)), (''sub'', id_json (ap_libs A) (cr_sub created)),
        (''generated_password'', JStr (cr_generated_password created))])))))"

definition search_user :: "app \<Rightarrow> admin_extractors \<Rightarrow> incoming \<Rightarrow> (world, response outcome) state" where
  "search_user A X i = admin_only A tenant_admin i (\<lambda>_.
     and_then (decide (x_user_search X (in_request i))) (\<lambda>q.
     let term = unwrap_or_default q
     in if trim term = [] then decide (Inl (api_error_response (user_not_found A i)))
        else and_then (api_err (permission_error A i)
            (find_user_by_identifier (ap_libs A) (t_id (in_tenant i)) term)) (\<lambda>r.
          case r of
            Some user \<Rightarrow> ok (json_response 200 (user_summary (ap_libs A) user))
          | None \<Rightarrow> decide (Inl (api_error_response (user_not_found A i))))))"

definition get_user_endpoint :: "app \<Rightarrow> string \<Rightarrow> incoming \<Rightarrow> (world, response outcome) state" where
  "get_user_endpoint A user_id i = admin_only A tenant_admin i (\<lambda>_.
     and_then (decide (parse_id A (user_not_found A i) user_id)) (\<lambda>target.
     and_then (api_err (permission_error A i) (get_user (t_id (in_tenant i)) target)) (\<lambda>user.
     ok (json_response 200 (user_summary (ap_libs A) user)))))"

definition update_user_status ::
  "app \<Rightarrow> admin_extractors \<Rightarrow> string \<Rightarrow> incoming \<Rightarrow> (world, response outcome) state" where
  "update_user_status A X user_id i = admin_only A tenant_admin i (\<lambda>admin.
     and_then (decide (x_update_user_status X (in_request i))) (\<lambda>body.
     and_then (decide (parse_id A (user_not_found A i) user_id)) (\<lambda>target.
     and_then (decide (case parse_user_status body of
         Inr s \<Rightarrow> Inr s | Inl _ \<Rightarrow> Inl (api_error_response (ApiBadRequest ''invalid status'')))) (\<lambda>status.
     and_then (api_err (map_user_lifecycle_error A i)
       (set_status (ap_libs A) (t_id (in_tenant i)) target status (aa_user_id admin) (context_of A i))) (\<lambda>_.
     and_then (api_err (permission_error A i) (get_user (t_id (in_tenant i)) target)) (\<lambda>user.
     ok (json_response 200 (user_summary (ap_libs A) user))))))))"

definition delete_user_endpoint :: "app \<Rightarrow> string \<Rightarrow> incoming \<Rightarrow> (world, response outcome) state" where
  "delete_user_endpoint A user_id i = admin_only A tenant_admin i (\<lambda>admin.
     and_then (decide (parse_id A (user_not_found A i) user_id)) (\<lambda>target.
     and_then (api_err (map_user_lifecycle_error A i)
       (delete_user (ap_libs A) (t_id (in_tenant i)) target (aa_user_id admin) (context_of A i))) (\<lambda>_.
     ok no_content)))"

definition reset_user_password_endpoint :: "app \<Rightarrow> string \<Rightarrow> incoming \<Rightarrow> (world, response outcome) state" where
  "reset_user_password_endpoint A user_id i = admin_only A tenant_admin i (\<lambda>admin.
     and_then (decide (parse_id A (user_not_found A i) user_id)) (\<lambda>target.
     and_then (api_err (map_user_lifecycle_error A i)
       (lifecycle_reset_password (ap_libs A) (t_id (in_tenant i)) target (aa_user_id admin) (context_of A i))) (\<lambda>reset.
     ok (json_response 200 (password_reset_response (ap_libs A) reset)))))"

section \<open>Audit log\<close>

definition parse_datetime :: "http_libs \<Rightarrow> string option \<Rightarrow> string \<Rightarrow> response + instant option" where
  "parse_datetime K value field =
     (case non_empty (map_option trim value) of
        None \<Rightarrow> Inr None
      | Some v \<Rightarrow> (case parse_rfc3339 K v of
            Some t \<Rightarrow> Inr (Some t)
          | None \<Rightarrow> Inl (api_error_response (ApiBadRequest (''invalid RFC3339 datetime in `'' @ field @ ''`'')))))"

definition audit_entry_response :: "libs \<Rightarrow> audit_log_entry \<Rightarrow> json" where
  "audit_entry_response E e = JObj
     ([(''event_type'', JStr (al_event_type e)), (''occurred_at'', time_json E (al_occurred_at e))] @
      optional ''user_id'' (id_json E) (al_user_id e) @ optional ''client_id'' JStr (al_client_id e) @
      optional ''ip_address'' JStr (al_ip_address e) @ optional ''user_agent'' JStr (al_user_agent e) @
      [(''result'', JStr (al_result e))] @ optional ''reason'' JStr (al_reason e) @
      [(''correlation_id'', JStr (al_correlation_id e))])"

definition list_audit_logs :: "app \<Rightarrow> admin_extractors \<Rightarrow> incoming \<Rightarrow> (world, response outcome) state" where
  "list_audit_logs A X i = admin_only A tenant_admin i (\<lambda>_.
     and_then (decide (x_audit_log_query X (in_request i))) (\<lambda>params.
     and_then (decide (parse_datetime (ap_http A) (alq_from params) ''from'')) (\<lambda>from.
     and_then (decide (parse_datetime (ap_http A) (alq_to params) ''to'')) (\<lambda>to.
     and_then (api_err internal_api_error (search_audit_log (ap_libs A) (t_id (in_tenant i))
       \<lparr>aq_event_type = alq_event_type params, aq_result = alq_result params, aq_client_id = alq_client_id params,
        aq_correlation_id = alq_correlation_id params, aq_from = from, aq_to = to,
        aq_limit = alq_limit params, aq_offset = alq_offset params\<rparr>)) (\<lambda>entries.
     ok (json_response 200 (JArr (map (audit_entry_response (ap_libs A)) entries))))))))"

section \<open>SAML service providers\<close>

definition map_saml_error :: "app \<Rightarrow> incoming \<Rightarrow> saml_management_error \<Rightarrow> api_error" where
  "map_saml_error A i e =
     (case e of
        SamlValidation _ \<Rightarrow> invalid_request A i
      | SamlConflict m \<Rightarrow> ApiConflict m
      | SamlNotFound \<Rightarrow> ApiNotFound (message_of A i ''api-saml-sp-not-found'')
      | SamlInternal m \<Rightarrow> ApiInternal m)"

definition saml_sp_response :: "libs \<Rightarrow> saml_service_provider \<Rightarrow> json" where
  "saml_sp_response E p = JObj
     [(''id'', id_json E (sp_id p)), (''tenant_id'', id_json E (sp_tenant_id p)),
      (''display_name'', JStr (sp_display_name p)), (''entity_id'', JStr (sp_entity_id p)),
      (''acs_url'', JStr (sp_acs_url p)), (''name_id_format'', JStr (sp_name_id_format p)),
      (''x509_certificate'', nullable JStr (sp_x509_certificate p)), (''enabled'', JBool (sp_enabled p)),
      (''created_at'', time_json E (sp_created_at p)), (''updated_at'', time_json E (sp_updated_at p))]"

definition saml_id :: "app \<Rightarrow> incoming \<Rightarrow> string \<Rightarrow> response + uuid" where
  "saml_id A i raw = parse_id A (ApiNotFound (message_of A i ''api-saml-sp-not-found'')) raw"

definition register_service_provider ::
  "app \<Rightarrow> admin_extractors \<Rightarrow> incoming \<Rightarrow> (world, response outcome) state" where
  "register_service_provider A X i = admin_only A tenant_admin i (\<lambda>_.
     and_then (decide (x_saml_service_provider X (in_request i))) (\<lambda>body.
     and_then (api_err (map_saml_error A i) (saml_register (ap_libs A) (t_id (in_tenant i)) body)) (\<lambda>provider.
     ok (json_response 201 (saml_sp_response (ap_libs A) provider)))))"

definition update_service_provider ::
  "app \<Rightarrow> admin_extractors \<Rightarrow> string \<Rightarrow> incoming \<Rightarrow> (world, response outcome) state" where
  "update_service_provider A X raw i = admin_only A tenant_admin i (\<lambda>_.
     and_then (decide (x_saml_service_provider X (in_request i))) (\<lambda>body.
     and_then (decide (saml_id A i raw)) (\<lambda>sp.
     and_then (api_err (map_saml_error A i) (saml_update (ap_libs A) (t_id (in_tenant i)) sp body)) (\<lambda>provider.
     ok (json_response 200 (saml_sp_response (ap_libs A) provider))))))"

definition delete_service_provider :: "app \<Rightarrow> string \<Rightarrow> incoming \<Rightarrow> (world, response outcome) state" where
  "delete_service_provider A raw i = admin_only A tenant_admin i (\<lambda>_.
     and_then (decide (saml_id A i raw)) (\<lambda>sp.
     and_then (api_err (map_saml_error A i) (saml_delete (t_id (in_tenant i)) sp)) (\<lambda>_.
     ok no_content)))"

definition list_service_providers :: "app \<Rightarrow> incoming \<Rightarrow> (world, response outcome) state" where
  "list_service_providers A i = admin_only A tenant_admin i (\<lambda>_.
     and_then (api_err (map_saml_error A i) (saml_list (t_id (in_tenant i)))) (\<lambda>providers.
     ok (json_response 200 (JArr (map (saml_sp_response (ap_libs A)) providers)))))"

definition import_metadata :: "app \<Rightarrow> admin_extractors \<Rightarrow> incoming \<Rightarrow> (world, response outcome) state" where
  "import_metadata A X i = admin_only A tenant_admin i (\<lambda>_.
     and_then (decide (x_saml_metadata_import X (in_request i))) (\<lambda>metadata_xml.
     and_then (decide (case parse_sp_metadata (xml_events (ap_http A) metadata_xml) of
         Inr md \<Rightarrow> Inr md | Inl _ \<Rightarrow> Inl (api_error_response (invalid_request A i)))) (\<lambda>md.
     ok (json_response 200 (JObj
       [(''display_name'', JStr (unwrap_or_default (im_display_name md))),
        (''entity_id'', JStr (im_entity_id md)), (''acs_url'', JStr (im_acs_url md)),
        (''name_id_format'', JStr (unwrap_or_default (im_name_id_format md))),
        (''x509_certificate'', JStr (im_x509_certificate md))])))))"

section \<open>Signing keys\<close>

definition map_key_error :: "app \<Rightarrow> incoming \<Rightarrow> key_management_error \<Rightarrow> api_error" where
  "map_key_error A i e =
     (case e of
        KeyNotFound _ \<Rightarrow> ApiNotFound (message_of A i ''api-signing-key-not-found'')
      | KeyValidation _ \<Rightarrow> invalid_request A i
      | KeyInternal m \<Rightarrow> ApiInternal m)"

definition key_response :: "libs \<Rightarrow> signing_key \<Rightarrow> json" where
  "key_response E k = JObj
     [(''kid'', JStr (sk_kid k)), (''algorithm'', JStr (sk_algorithm k)),
      (''status'', JStr (signing_key_status_as_str (sk_status k))),
      (''not_before'', time_json E (sk_not_before k)), (''not_after'', time_json E (sk_not_after k)),
      (''created_at'', time_json E (sk_created_at k))]"

definition list_keys_endpoint :: "app \<Rightarrow> incoming \<Rightarrow> (world, response outcome) state" where
  "list_keys_endpoint A i = admin_only A tenant_admin i (\<lambda>_.
     and_then (api_err (map_key_error A i) list_keys) (\<lambda>keys.
     ok (json_response 200 (JArr (map (key_response (ap_libs A)) keys)))))"

definition generate_key_endpoint :: "app \<Rightarrow> admin_extractors \<Rightarrow> incoming \<Rightarrow> (world, response outcome) state" where
  "generate_key_endpoint A X i = admin_only A tenant_admin i (\<lambda>_.
     and_then (decide (x_generate_signing_key X (in_request i))) (\<lambda>body.
     and_then (decide (case parse_signing_algorithm body of
         Inr a \<Rightarrow> Inr a | Inl _ \<Rightarrow> Inl (api_error_response (invalid_request A i)))) (\<lambda>algorithm.
     and_then (api_err (map_key_error A i) (generate_key (ap_libs A) (ap_config A) algorithm)) (\<lambda>key.
     ok (json_response 201 (key_response (ap_libs A) key))))))"

definition retire_key_endpoint :: "app \<Rightarrow> string \<Rightarrow> incoming \<Rightarrow> (world, response outcome) state" where
  "retire_key_endpoint A kid i = admin_only A tenant_admin i (\<lambda>_.
     and_then (api_err (map_key_error A i) (retire_key (ap_libs A) kid)) (\<lambda>_. ok no_content))"

definition delete_key_endpoint :: "app \<Rightarrow> string \<Rightarrow> incoming \<Rightarrow> (world, response outcome) state" where
  "delete_key_endpoint A kid i = admin_only A tenant_admin i (\<lambda>_.
     and_then (api_err (map_key_error A i) (delete_key (ap_libs A) kid)) (\<lambda>_. ok no_content))"

section \<open>What the guard gives\<close>

text \<open>
  The handlers above as a relation: what they need of the world they are called in. \<open>guarded\<close> says that
  a handler either refuses with 401 or 403 and leaves the database alone, or is called by someone with the
  permission.
\<close>

definition guarded :: "app \<Rightarrow> string \<Rightarrow> (incoming \<Rightarrow> (world, response outcome) state) \<Rightarrow> bool" where
  "guarded A code h \<longleftrightarrow>
     (\<forall>i w r w'. run_state (h i) w = (r, w') \<longrightarrow>
        (\<exists>u. admin_entitled (ap_libs A) w (ticks w + 1) (t_id (in_tenant i))
           (cookies_get (ap_http A) (rq_headers (in_request i)) SSO_SESSION_COOKIE) code u) \<or>
        db w' = db w \<and> (\<exists>rs. r = Return rs \<and> re_status rs \<in> {401, 403}))"

lemma guarded_admin_only: "guarded A code (\<lambda>i. admin_only A code i (f i))"
  unfolding guarded_def
proof (intro allI impI)
  fix i w r w'
  assume run: "run_state (admin_only A code i (f i)) w = (r, w')"
  obtain g w1 where g: "run_state (require_perms A code i) w = (g, w1)" by (cases "run_state (require_perms A code i) w")
  show "(\<exists>u. admin_entitled (ap_libs A) w (ticks w + 1) (t_id (in_tenant i))
           (cookies_get (ap_http A) (rq_headers (in_request i)) SSO_SESSION_COOKIE) code u) \<or>
        db w' = db w \<and> (\<exists>rs. r = Return rs \<and> re_status rs \<in> {401, 403})"
  proof (cases g)
    case (Inl rs)
    with g run have "r = Return rs" "w' = w1"
      by (auto simp: admin_only_def respond_def and_then_def run_bindE run_returnE)
    with require_perms_Inl g Inl show ?thesis by blast
  next
    case (Inr admin)
    with g require_perms_Inr show ?thesis by blast
  qed
qed

end
