(* ===== verification/InternalApi.thy ===== *)
theory InternalApi
  imports Http Login DirectLogin MfaLogin Totp Consent Passkeys PasswordReset Account
begin

text \<open>
  The internal endpoints that the web console calls for its users (\<^verbatim>\<open>presentation/handlers/\<close>
  \<^verbatim>\<open>internal_auth.rs\<close>, \<^verbatim>\<open>consent.rs\<close>, \<^verbatim>\<open>mfa.rs\<close>, \<^verbatim>\<open>passkey.rs\<close> with the responses of
  \<^verbatim>\<open>contracts/src/auth.rs\<close>). All of them are behind \<open>require_service_token\<close>. A request carries the
  tenant, the address and the browser of the user next to the command of the service, which is how
  \<open>internal_request\<close> has it; a response is the JSON object of the outcome, named by its member \<^verbatim>\<open>result\<close>.
  Shown: the comparison of the token decides equality, and no internal error's text is in a response.
\<close>

section \<open>Requests and responses\<close>

record 'c internal_request =
  ireq_tenant_id :: "string option"
  ireq_ip_address :: "string option"
  ireq_user_agent :: "string option"
  ireq_command :: 'c

record internal_extractors =
  xi_authenticate :: "login_command internal_request extractor"
  xi_account_change_password :: "account_password_command internal_request extractor"
  xi_change_password :: "change_password_command internal_request extractor"
  xi_admin_authenticate :: "admin_login_command internal_request extractor"
  xi_portal_authenticate :: "portal_login_command internal_request extractor"
  xi_portal_mfa :: "portal_mfa_command internal_request extractor"
  xi_portal_change_password :: "portal_change_password_command internal_request extractor"
  xi_admin_change_password :: "admin_change_password_command internal_request extractor"
  xi_logout :: "string internal_request extractor"
  xi_password_reset_request :: "string internal_request extractor"
  xi_password_reset_complete :: "(string \<times> string) internal_request extractor"
  xi_update_language :: "update_language_command extractor"
  xi_profile :: "string extractor"
  xi_update_name :: "update_name_command extractor"
  xi_tenants :: "string extractor"
  xi_consent_info :: "(string option \<times> string) extractor"
  xi_consent_approve :: "string internal_request extractor"
  xi_consent_deny :: "string internal_request extractor"
  xi_totp_setup :: "(string \<times> string) extractor"
  xi_totp_confirm :: "(string \<times> string) extractor"
  xi_totp_delete :: "string extractor"
  xi_verify_totp :: "mfa_login_command internal_request extractor"
  xi_register_begin :: "(string \<times> string) extractor"
  xi_register_complete :: "(string \<times> string \<times> string \<times> string) extractor"
  xi_passkey_delete :: "(string \<times> string) extractor"
  xi_passkey_list :: "string extractor"
  xi_login_begin :: "string option extractor"
  xi_login_complete :: "(string \<times> string) internal_request extractor"

text \<open>\<^verbatim>\<open>serde(tag = "result", rename_all = "snake_case")\<close>\<close>

definition tagged :: "string \<Rightarrow> (string \<times> json) list \<Rightarrow> response" where
  "tagged name members = json_response 200 (JObj ((''result'', JStr name) # members))"

section \<open>The service token\<close>

definition SERVICE_TOKEN_HEADER :: string where
  "SERVICE_TOKEN_HEADER = ''x-internal-auth-token''"

definition byte :: "char \<Rightarrow> 8 word" where
  "byte c = of_char c"

unbundle bit_operations_syntax

definition constant_time_eq :: "string \<Rightarrow> string \<Rightarrow> bool" where
  "constant_time_eq a b \<longleftrightarrow>
     length a = length b \<and> fold (\<lambda>(x, y) diff. diff OR (byte x XOR byte y)) (zip a b) 0 = 0"

definition require_service_token ::
  "app \<Rightarrow> (request \<Rightarrow> (world, response outcome) state) \<Rightarrow> request \<Rightarrow> (world, response outcome) state" where
  "require_service_token A next rq =
     (let presented = unwrap_or_default
            (Option.bind (header_get (rq_headers rq) SERVICE_TOKEN_HEADER) (header_to_str (ap_http A)))
      in if \<not> constant_time_eq presented (cfg_internal_service_token (ap_settings A))
         then State_Monad.return (Return (empty_response 401))
         else next rq)"

section \<open>The shape of an internal endpoint\<close>

definition answer :: "response \<Rightarrow> (world, response outcome) state" where
  "answer rs = State_Monad.return (Return rs)"

definition extracted ::
  "'c extractor \<Rightarrow> request \<Rightarrow> ('c \<Rightarrow> (world, response outcome) state) \<Rightarrow> (world, response outcome) state" where
  "extracted x rq f = (case x rq of Inl rejection \<Rightarrow> answer rejection | Inr req \<Rightarrow> f req)"

definition internal_context :: "string \<Rightarrow> ('c, 'm) internal_request_scheme \<Rightarrow> request_context" where
  "internal_context correlation req =
     \<lparr>correlation_id = correlation, ip_address = ireq_ip_address req, user_agent = ireq_user_agent req\<rparr>"

text \<open>\<^verbatim>\<open>let tenant = require_internal_tenant(req.tenant_id.as_deref())?\<close>\<close>

definition for_tenant ::
  "app \<Rightarrow> string option \<Rightarrow> (tenant_id \<Rightarrow> (world, response outcome) state) \<Rightarrow> (world, response outcome) state" where
  "for_tenant A raw f =
     (case require_internal_tenant (ap_libs A) raw of Inl rejection \<Rightarrow> answer rejection | Inr t \<Rightarrow> f t)"

definition internal ::
  "app \<Rightarrow> 'c internal_request extractor \<Rightarrow> string \<Rightarrow> request \<Rightarrow>
   (tenant_id \<Rightarrow> 'c \<Rightarrow> request_context \<Rightarrow> (world, 'o) state) \<Rightarrow> ('o \<Rightarrow> response outcome) \<Rightarrow>
   (world, response outcome) state" where
  "internal A x correlation rq service render =
     extracted x rq (\<lambda>req. for_tenant A (ireq_tenant_id req) (\<lambda>tenant. do {
       r \<leftarrow> service tenant (ireq_command req) (internal_context correlation req);
       State_Monad.return (render r)
     }))"

text \<open>A service that panics takes the handler with it.\<close>

definition unless_panic :: "('o \<Rightarrow> response) \<Rightarrow> 'o outcome \<Rightarrow> response outcome" where
  "unless_panic render r = (case r of Return x \<Rightarrow> Return (render x) | Panic \<Rightarrow> Panic)"

definition ttl_json :: "app \<Rightarrow> json" where
  "ttl_json A = JInt (cfg_sso_absolute_ttl (ap_settings A))"

definition signed_in :: "app \<Rightarrow> string \<Rightarrow> string option \<Rightarrow> response" where
  "signed_in A sso_session_id language = tagged ''success''
     [(''sso_session_id'', JStr sso_session_id), (''sso_absolute_ttl_secs'', ttl_json A),
      (''user_language'', nullable JStr language)]"

definition redirected :: "app \<Rightarrow> string \<Rightarrow> string \<Rightarrow> (string \<times> json) list \<Rightarrow> response" where
  "redirected A location sso_session_id members = tagged ''success''
     ([(''redirect_to'', JStr location), (''sso_session_id'', JStr sso_session_id),
       (''sso_absolute_ttl_secs'', ttl_json A)] @ members)"

definition consent_required :: "app \<Rightarrow> string \<Rightarrow> string \<Rightarrow> response" where
  "consent_required A auth_session_id sso_session_id = tagged ''consent_required''
     [(''auth_session_id'', JStr auth_session_id), (''sso_session_id'', JStr sso_session_id),
      (''sso_absolute_ttl_secs'', ttl_json A)]"

section \<open>Logging in\<close>

fun authenticate_response :: "app \<Rightarrow> login_outcome \<Rightarrow> response" where
  "authenticate_response A (LoginSuccess location sso language) =
     redirected A location sso [(''user_language'', nullable JStr language)]"
| "authenticate_response A (LoginConsentRequired auth_session_id sso) = consent_required A auth_session_id sso"
| "authenticate_response A (MfaRequired auth_session_id) =
     tagged ''mfa_required'' [(''auth_session_id'', JStr auth_session_id)]"
| "authenticate_response A (PasswordChangeRequired auth_session_id) =
     tagged ''password_change_required'' [(''auth_session_id'', JStr auth_session_id)]"
| "authenticate_response A EmailVerificationRequired = tagged ''email_verification_required'' []"
| "authenticate_response A LoginSessionExpired = tagged ''session_expired'' []"
| "authenticate_response A LoginCsrfMismatch = tagged ''csrf_mismatch'' []"
| "authenticate_response A LoginRateLimited = tagged ''rate_limited'' []"
| "authenticate_response A InvalidCredentials = tagged ''invalid_credentials'' []"
| "authenticate_response A LoginLockedOut = tagged ''locked'' []"
| "authenticate_response A (LoginInternal _) = tagged ''internal'' []"

definition authenticate ::
  "app \<Rightarrow> internal_extractors \<Rightarrow> string \<Rightarrow> request \<Rightarrow> (world, response outcome) state" where
  "authenticate A X correlation rq =
     internal A (xi_authenticate X) correlation rq (login (ap_libs A) (ap_config A))
       (unless_panic (authenticate_response A))"

fun change_password_response :: "app \<Rightarrow> change_password_outcome \<Rightarrow> response" where
  "change_password_response A (ChangeSuccess location sso) = redirected A location sso []"
| "change_password_response A (ChangeConsentRequired auth_session_id sso) = consent_required A auth_session_id sso"
| "change_password_response A ChangeSessionExpired = tagged ''session_expired'' []"
| "change_password_response A ChangeCsrfMismatch = tagged ''csrf_mismatch'' []"
| "change_password_response A InvalidCurrentPassword = tagged ''invalid_current_password'' []"
| "change_password_response A WeakPassword = tagged ''weak_password'' []"
| "change_password_response A (ChangeInternal _) = tagged ''internal'' []"

definition change_password_endpoint ::
  "app \<Rightarrow> internal_extractors \<Rightarrow> string \<Rightarrow> request \<Rightarrow> (world, response outcome) state" where
  "change_password_endpoint A X correlation rq =
     internal A (xi_change_password X) correlation rq (change_password (ap_libs A) (ap_config A))
       (unless_panic (change_password_response A))"

fun verify_totp_response :: "app \<Rightarrow> mfa_login_outcome \<Rightarrow> response" where
  "verify_totp_response A (MfaSuccess location sso language) =
     redirected A location sso [(''user_language'', nullable JStr language)]"
| "verify_totp_response A (MfaConsentRequired auth_session_id sso) = consent_required A auth_session_id sso"
| "verify_totp_response A MfaSessionExpired = tagged ''session_expired'' []"
| "verify_totp_response A MfaCsrfMismatch = tagged ''csrf_mismatch'' []"
| "verify_totp_response A MfaInvalidCode = tagged ''invalid_code'' []"
| "verify_totp_response A (MfaInternal _) = tagged ''internal'' []"

definition verify_totp ::
  "app \<Rightarrow> internal_extractors \<Rightarrow> string \<Rightarrow> request \<Rightarrow> (world, response outcome) state" where
  "verify_totp A X correlation rq =
     internal A (xi_verify_totp X) correlation rq (mfa_verify (ap_libs A) (ap_config A))
       (unless_panic (verify_totp_response A))"

fun admin_authenticate_response :: "app \<Rightarrow> admin_login_outcome \<Rightarrow> response" where
  "admin_authenticate_response A (AdminLoginSuccess sso) = tagged ''success''
     [(''sso_session_id'', JStr sso), (''sso_absolute_ttl_secs'', ttl_json A)]"
| "admin_authenticate_response A AdminRateLimited = tagged ''rate_limited'' []"
| "admin_authenticate_response A AdminInvalidCredentials = tagged ''invalid_credentials'' []"
| "admin_authenticate_response A AdminLocked = tagged ''locked'' []"
| "admin_authenticate_response A AdminLoginForbidden = tagged ''forbidden'' []"
| "admin_authenticate_response A (AdminPasswordChangeRequired username) =
     tagged ''password_change_required'' [(''username'', JStr username)]"
| "admin_authenticate_response A AdminWeakPassword = tagged ''internal'' []"
| "admin_authenticate_response A (AdminInternal _) = tagged ''internal'' []"

definition authenticate_admin ::
  "app \<Rightarrow> internal_extractors \<Rightarrow> string \<Rightarrow> request \<Rightarrow> (world, response outcome) state" where
  "authenticate_admin A X correlation rq =
     internal A (xi_admin_authenticate X) correlation rq (admin_login (ap_libs A) (ap_config A))
       (\<lambda>r. Return (admin_authenticate_response A r))"

fun admin_change_password_response :: "app \<Rightarrow> admin_login_outcome \<Rightarrow> response" where
  "admin_change_password_response A (AdminLoginSuccess sso) = tagged ''success''
     [(''sso_session_id'', JStr sso), (''sso_absolute_ttl_secs'', ttl_json A)]"
| "admin_change_password_response A AdminRateLimited = tagged ''rate_limited'' []"
| "admin_change_password_response A AdminInvalidCredentials = tagged ''invalid_credentials'' []"
| "admin_change_password_response A AdminLocked = tagged ''locked'' []"
| "admin_change_password_response A AdminLoginForbidden = tagged ''forbidden'' []"
| "admin_change_password_response A AdminWeakPassword = tagged ''weak_password'' []"
| "admin_change_password_response A (AdminPasswordChangeRequired _) = tagged ''internal'' []"
| "admin_change_password_response A (AdminInternal _) = tagged ''internal'' []"

definition admin_change_password_endpoint ::
  "app \<Rightarrow> internal_extractors \<Rightarrow> string \<Rightarrow> request \<Rightarrow> (world, response outcome) state" where
  "admin_change_password_endpoint A X correlation rq =
     internal A (xi_admin_change_password X) correlation rq (admin_change_password (ap_libs A) (ap_config A))
       (\<lambda>r. Return (admin_change_password_response A r))"

fun portal_authenticate_response :: "app \<Rightarrow> portal_login_outcome \<Rightarrow> response" where
  "portal_authenticate_response A (PortalSuccess sso language) = signed_in A sso language"
| "portal_authenticate_response A (PortalMfaRequired mfa_ticket) =
     tagged ''mfa_required'' [(''mfa_ticket'', JStr mfa_ticket)]"
| "portal_authenticate_response A PortalEmailVerificationRequired = tagged ''email_verification_required'' []"
| "portal_authenticate_response A (PortalPasswordChangeRequired username) =
     tagged ''password_change_required'' [(''username'', JStr username)]"
| "portal_authenticate_response A PortalRateLimited = tagged ''rate_limited'' []"
| "portal_authenticate_response A PortalInvalidCredentials = tagged ''invalid_credentials'' []"
| "portal_authenticate_response A PortalLocked = tagged ''locked'' []"
| "portal_authenticate_response A (PortalInternal _) = tagged ''internal'' []"

definition authenticate_portal ::
  "app \<Rightarrow> internal_extractors \<Rightarrow> string \<Rightarrow> request \<Rightarrow> (world, response outcome) state" where
  "authenticate_portal A X correlation rq =
     internal A (xi_portal_authenticate X) correlation rq (portal_login (ap_libs A) (ap_config A))
       (\<lambda>r. Return (portal_authenticate_response A r))"

fun portal_mfa_response :: "app \<Rightarrow> portal_mfa_outcome \<Rightarrow> response" where
  "portal_mfa_response A (PortalMfaSuccess sso language) = signed_in A sso language"
| "portal_mfa_response A PortalInvalidCode = tagged ''invalid_code'' []"
| "portal_mfa_response A PortalTicketExpired = tagged ''ticket_expired'' []"
| "portal_mfa_response A PortalMfaRateLimited = tagged ''rate_limited'' []"
| "portal_mfa_response A (PortalMfaInternal _) = tagged ''internal'' []"

definition authenticate_portal_mfa ::
  "app \<Rightarrow> internal_extractors \<Rightarrow> string \<Rightarrow> request \<Rightarrow> (world, response outcome) state" where
  "authenticate_portal_mfa A X correlation rq =
     internal A (xi_portal_mfa X) correlation rq (portal_verify_mfa (ap_libs A) (ap_config A))
       (\<lambda>r. Return (portal_mfa_response A r))"

fun portal_change_password_response :: "app \<Rightarrow> portal_change_password_outcome \<Rightarrow> response" where
  "portal_change_password_response A (PortalChangeSuccess sso language) = signed_in A sso language"
| "portal_change_password_response A (PortalChangeMfaRequired mfa_ticket) =
     tagged ''mfa_required'' [(''mfa_ticket'', JStr mfa_ticket)]"
| "portal_change_password_response A PortalChangeEmailVerificationRequired =
     tagged ''email_verification_required'' []"
| "portal_change_password_response A PortalChangeRateLimited = tagged ''rate_limited'' []"
| "portal_change_password_response A PortalChangeInvalidCredentials = tagged ''invalid_credentials'' []"
| "portal_change_password_response A PortalChangeLocked = tagged ''locked'' []"
| "portal_change_password_response A PortalChangeWeakPassword = tagged ''weak_password'' []"
| "portal_change_password_response A (PortalChangeInternal _) = tagged ''internal'' []"

definition authenticate_portal_change_password ::
  "app \<Rightarrow> internal_extractors \<Rightarrow> string \<Rightarrow> request \<Rightarrow> (world, response outcome) state" where
  "authenticate_portal_change_password A X correlation rq =
     internal A (xi_portal_change_password X) correlation rq (portal_change_password (ap_libs A) (ap_config A))
       (\<lambda>r. Return (portal_change_password_response A r))"

definition internal_logout ::
  "app \<Rightarrow> internal_extractors \<Rightarrow> string \<Rightarrow> request \<Rightarrow> (world, response outcome) state" where
  "internal_logout A X correlation rq =
     internal A (xi_logout X) correlation rq (admin_logout (ap_libs A)) (\<lambda>_. Return (empty_response 204))"

section \<open>The account of the user\<close>

fun account_password_response :: "account_password_outcome \<Rightarrow> response" where
  "account_password_response PasswordOk = tagged ''ok'' []"
| "account_password_response PasswordSessionExpired = tagged ''session_expired'' []"
| "account_password_response PasswordInvalidCurrent = tagged ''invalid_current_password'' []"
| "account_password_response PasswordWeak = tagged ''weak_password'' []"
| "account_password_response (PasswordInternal _) = tagged ''internal'' []"

definition account_change_password ::
  "app \<Rightarrow> internal_extractors \<Rightarrow> string \<Rightarrow> request \<Rightarrow> (world, response outcome) state" where
  "account_change_password A X correlation rq =
     extracted (xi_account_change_password X) rq (\<lambda>req. do {
       r \<leftarrow> account_password (ap_libs A) (ireq_command req) (internal_context correlation req);
       answer (account_password_response r)
     })"

fun update_language_response :: "update_language_outcome \<Rightarrow> response" where
  "update_language_response LanguageOk = tagged ''ok'' []"
| "update_language_response LanguageSessionExpired = tagged ''session_expired'' []"
| "update_language_response InvalidLanguage = tagged ''invalid_language'' []"
| "update_language_response (LanguageInternal _) = tagged ''internal'' []"

definition account_update_language ::
  "app \<Rightarrow> internal_extractors \<Rightarrow> request \<Rightarrow> (world, response outcome) state" where
  "account_update_language A X rq = extracted (xi_update_language X) rq (\<lambda>cmd. do {
     r \<leftarrow> update_language (ap_libs A) cmd;
     answer (update_language_response r)
   })"

fun profile_response :: "profile_outcome \<Rightarrow> response" where
  "profile_response (ProfileOk name username email) = tagged ''ok''
     [(''name'', nullable JStr name), (''preferred_username'', nullable JStr username), (''email'', JStr email)]"
| "profile_response ProfileSessionExpired = tagged ''session_expired'' []"
| "profile_response (ProfileInternal _) = tagged ''internal'' []"

definition account_profile ::
  "app \<Rightarrow> internal_extractors \<Rightarrow> request \<Rightarrow> (world, response outcome) state" where
  "account_profile A X rq = extracted (xi_profile X) rq (\<lambda>sso_session_id. do {
     r \<leftarrow> profile_get (ap_libs A) sso_session_id;
     answer (profile_response r)
   })"

fun update_name_response :: "update_name_outcome \<Rightarrow> response" where
  "update_name_response NameOk = tagged ''ok'' []"
| "update_name_response NameSessionExpired = tagged ''session_expired'' []"
| "update_name_response NameInvalid = tagged ''invalid'' []"
| "update_name_response (NameInternal _) = tagged ''internal'' []"

definition account_update_name ::
  "app \<Rightarrow> internal_extractors \<Rightarrow> request \<Rightarrow> (world, response outcome) state" where
  "account_update_name A X rq = extracted (xi_update_name X) rq (\<lambda>cmd. do {
     r \<leftarrow> update_name (ap_libs A) cmd;
     answer (update_name_response r)
   })"

fun tenants_response :: "list_tenants_outcome \<Rightarrow> response" where
  "tenants_response (TenantsOk tenants) = tagged ''ok'' [(''tenants'', JArr (map (\<lambda>t. JObj
     [(''tenant_id'', JStr (at_tenant_id t)), (''name'', JStr (at_name t)),
      (''membership_type'', JStr (at_membership_type t))]) tenants))]"
| "tenants_response TenantsSessionExpired = tagged ''session_expired'' []"
| "tenants_response (TenantsInternal _) = tagged ''internal'' []"

definition account_tenants ::
  "app \<Rightarrow> internal_extractors \<Rightarrow> request \<Rightarrow> (world, response outcome) state" where
  "account_tenants A X rq = extracted (xi_tenants X) rq (\<lambda>sso_session_id. do {
     r \<leftarrow> list_tenants (ap_libs A) sso_session_id;
     answer (tenants_response r)
   })"

section \<open>Password reset\<close>

fun reset_request_response :: "request_reset_outcome \<Rightarrow> response" where
  "reset_request_response ResetAccepted = tagged ''accepted'' []"
| "reset_request_response ResetUnavailable = tagged ''unavailable'' []"
| "reset_request_response ResetRateLimited = tagged ''rate_limited'' []"

definition password_reset_request ::
  "app \<Rightarrow> internal_extractors \<Rightarrow> string \<Rightarrow> request \<Rightarrow> (world, response outcome) state" where
  "password_reset_request A X correlation rq =
     internal A (xi_password_reset_request X) correlation rq (request_reset (ap_libs A) (ap_config A))
       (\<lambda>r. Return (reset_request_response r))"

fun reset_complete_response :: "reset_password_outcome \<Rightarrow> response" where
  "reset_complete_response ResetOk = tagged ''ok'' []"
| "reset_complete_response ResetInvalidOrExpired = tagged ''invalid_or_expired'' []"
| "reset_complete_response ResetWeakPassword = tagged ''weak_password'' []"
| "reset_complete_response (ResetInternal _) = tagged ''internal'' []"

definition password_reset_complete ::
  "app \<Rightarrow> internal_extractors \<Rightarrow> string \<Rightarrow> request \<Rightarrow> (world, response outcome) state" where
  "password_reset_complete A X correlation rq =
     internal A (xi_password_reset_complete X) correlation rq
       (\<lambda>tenant (token, new_password). reset_password (ap_libs A) tenant token new_password)
       (\<lambda>r. Return (reset_complete_response r))"

section \<open>Consent\<close>

definition consent_info_response :: "domain_error + consent_info option \<Rightarrow> response" where
  "consent_info_response r =
     (case r of
        Inr (Some info) \<Rightarrow> tagged ''ok''
          [(''auth_session_id'', JStr (ci_auth_session_id info)), (''client_name'', JStr (ci_client_name info)),
           (''client_id'', JStr (ci_client_id info)), (''requested_scopes'', strings (ci_requested_scopes info))]
      | Inr None \<Rightarrow> tagged ''session_expired'' []
      | Inl _ \<Rightarrow> tagged ''session_expired'' [])"

definition consent_info_endpoint ::
  "app \<Rightarrow> internal_extractors \<Rightarrow> request \<Rightarrow> (world, response outcome) state" where
  "consent_info_endpoint A X rq =
     extracted (xi_consent_info X) rq (\<lambda>(raw_tenant, auth_session_id).
       for_tenant A raw_tenant (\<lambda>tenant. do {
         r \<leftarrow> consent_page (ap_libs A) tenant auth_session_id;
         answer (consent_info_response r)
       }))"

fun consent_approve_response :: "consent_outcome \<Rightarrow> response" where
  "consent_approve_response (ConsentApproved location) = tagged ''success'' [(''redirect_to'', JStr location)]"
| "consent_approve_response ConsentSessionExpired = tagged ''session_expired'' []"
| "consent_approve_response (ConsentInternal _) = tagged ''internal'' []"
| "consent_approve_response (ConsentRefused _) = tagged ''internal'' []"

definition consent_approve_endpoint ::
  "app \<Rightarrow> internal_extractors \<Rightarrow> string \<Rightarrow> request \<Rightarrow> (world, response outcome) state" where
  "consent_approve_endpoint A X correlation rq =
     internal A (xi_consent_approve X) correlation rq (consent_approve (ap_libs A) (ap_config A))
       (unless_panic consent_approve_response)"

fun consent_deny_response :: "consent_outcome \<Rightarrow> response" where
  "consent_deny_response (ConsentRefused location) = tagged ''ok'' [(''redirect_to'', JStr location)]"
| "consent_deny_response ConsentSessionExpired = tagged ''session_expired'' []"
| "consent_deny_response (ConsentInternal _) = tagged ''internal'' []"
| "consent_deny_response (ConsentApproved _) = tagged ''internal'' []"

definition consent_deny_endpoint ::
  "app \<Rightarrow> internal_extractors \<Rightarrow> string \<Rightarrow> request \<Rightarrow> (world, response outcome) state" where
  "consent_deny_endpoint A X correlation rq =
     internal A (xi_consent_deny X) correlation rq (consent_deny (ap_libs A)) (unless_panic consent_deny_response)"

section \<open>One-time passwords\<close>

definition totp_setup_response :: "totp_registration_error + totp_setup_data \<Rightarrow> response" where
  "totp_setup_response r =
     (case r of
        Inr data \<Rightarrow> tagged ''ok'' [(''totp_uri'', JStr (tsd_totp_uri data)),
                                   (''secret_base32'', JStr (tsd_secret_base32 data))]
      | Inl TotpAlreadyConfigured \<Rightarrow> tagged ''already_configured'' []
      | Inl TotpSessionExpired \<Rightarrow> tagged ''session_expired'' []
      | Inl _ \<Rightarrow> tagged ''internal'' [])"

definition setup_totp :: "app \<Rightarrow> internal_extractors \<Rightarrow> request \<Rightarrow> (world, response outcome) state" where
  "setup_totp A X rq = extracted (xi_totp_setup X) rq (\<lambda>(sso_session_id, account_name). do {
     r \<leftarrow> totp_setup (ap_libs A) (ap_config A) (cfg_issuer (ap_settings A)) sso_session_id account_name;
     answer (totp_setup_response r)
   })"

definition totp_confirm_response :: "totp_registration_error + unit \<Rightarrow> response" where
  "totp_confirm_response r =
     (case r of
        Inr _ \<Rightarrow> tagged ''ok'' []
      | Inl TotpInvalidCode \<Rightarrow> tagged ''invalid_code'' []
      | Inl TotpNotFound \<Rightarrow> tagged ''not_found'' []
      | Inl TotpAlreadyConfigured \<Rightarrow> tagged ''already_configured'' []
      | Inl TotpSessionExpired \<Rightarrow> tagged ''session_expired'' []
      | Inl (TotpInternal _) \<Rightarrow> tagged ''internal'' [])"

definition confirm_totp :: "app \<Rightarrow> internal_extractors \<Rightarrow> request \<Rightarrow> (world, response outcome) state" where
  "confirm_totp A X rq = extracted (xi_totp_confirm X) rq (\<lambda>(sso_session_id, code). do {
     r \<leftarrow> totp_confirm (ap_libs A) (ap_config A) sso_session_id code;
     answer (totp_confirm_response r)
   })"

definition totp_delete_response :: "totp_registration_error + unit \<Rightarrow> response" where
  "totp_delete_response r =
     (case r of
        Inr _ \<Rightarrow> tagged ''ok'' []
      | Inl TotpSessionExpired \<Rightarrow> tagged ''session_expired'' []
      | Inl _ \<Rightarrow> tagged ''internal'' [])"

definition delete_totp :: "app \<Rightarrow> internal_extractors \<Rightarrow> request \<Rightarrow> (world, response outcome) state" where
  "delete_totp A X rq = extracted (xi_totp_delete X) rq (\<lambda>sso_session_id. do {
     r \<leftarrow> totp_delete (ap_libs A) sso_session_id;
     answer (totp_delete_response r)
   })"

section \<open>Passkeys\<close>

definition register_begin_response :: "libs \<Rightarrow> passkey_registration_error + uuid \<times> string \<Rightarrow> response" where
  "register_begin_response E r =
     (case r of
        Inr (challenge_id, options) \<Rightarrow> tagged ''ok''
          [(''challenge_id'', JStr (uuid_to_string E challenge_id)), (''options'', JText options)]
      | Inl PasskeySessionExpired \<Rightarrow> tagged ''session_expired'' []
      | Inl _ \<Rightarrow> tagged ''internal'' [])"

definition register_begin :: "app \<Rightarrow> internal_extractors \<Rightarrow> request \<Rightarrow> (world, response outcome) state" where
  "register_begin A X rq = extracted (xi_register_begin X) rq (\<lambda>(sso_session_id, user_name). do {
     r \<leftarrow> passkey_register_begin (ap_libs A) sso_session_id user_name;
     answer (register_begin_response (ap_libs A) r)
   })"

definition register_complete_response :: "libs \<Rightarrow> passkey_registration_error + uuid \<Rightarrow> response" where
  "register_complete_response E r =
     (case r of
        Inr cred_id \<Rightarrow> tagged ''ok'' [(''credential_id'', JStr (uuid_to_string E cred_id))]
      | Inl PasskeyChallengeNotFound \<Rightarrow> tagged ''challenge_not_found'' []
      | Inl (PasskeyInvalidCredential _) \<Rightarrow> tagged ''invalid_credential'' []
      | Inl DuplicateCredential \<Rightarrow> tagged ''duplicate_credential'' []
      | Inl PasskeySessionExpired \<Rightarrow> tagged ''session_expired'' []
      | Inl _ \<Rightarrow> tagged ''internal'' [])"

definition register_complete :: "app \<Rightarrow> internal_extractors \<Rightarrow> request \<Rightarrow> (world, response outcome) state" where
  "register_complete A X rq =
     extracted (xi_register_complete X) rq (\<lambda>(sso_session_id, raw_challenge, name, credential).
       case uuid_parse (ap_libs A) raw_challenge of
         None \<Rightarrow> answer (tagged ''challenge_not_found'' [])
       | Some challenge_id \<Rightarrow> do {
           r \<leftarrow> passkey_register_complete (ap_libs A) sso_session_id challenge_id name credential;
           answer (register_complete_response (ap_libs A) r)
         })"

definition passkey_delete_response :: "passkey_registration_error + unit \<Rightarrow> response" where
  "passkey_delete_response r =
     (case r of
        Inr _ \<Rightarrow> tagged ''ok'' []
      | Inl PasskeySessionExpired \<Rightarrow> tagged ''session_expired'' []
      | Inl _ \<Rightarrow> tagged ''internal'' [])"

definition passkey_delete_endpoint ::
  "app \<Rightarrow> internal_extractors \<Rightarrow> request \<Rightarrow> (world, response outcome) state" where
  "passkey_delete_endpoint A X rq = extracted (xi_passkey_delete X) rq (\<lambda>(sso_session_id, raw).
     case uuid_parse (ap_libs A) raw of
       None \<Rightarrow> answer (tagged ''internal'' [])
     | Some credential_id \<Rightarrow> do {
         r \<leftarrow> passkey_delete (ap_libs A) sso_session_id credential_id;
         answer (passkey_delete_response r)
       })"

definition passkey_list_response :: "libs \<Rightarrow> passkey_registration_error + credential_info list \<Rightarrow> response" where
  "passkey_list_response E r =
     (case r of
        Inr infos \<Rightarrow> tagged ''ok'' [(''credentials'', JArr (map (\<lambda>c. JObj
          [(''id'', JStr (uuid_to_string E (ci_id c))), (''name'', JStr (ci_name c)),
           (''created_at'', JStr (to_rfc3339 E (ci_created_at c))),
           (''last_used_at'', nullable (\<lambda>d. JStr (to_rfc3339 E d)) (ci_last_used_at c))]) infos))]
      | Inl PasskeySessionExpired \<Rightarrow> tagged ''session_expired'' []
      | Inl _ \<Rightarrow> tagged ''internal'' [])"

definition passkey_list_endpoint ::
  "app \<Rightarrow> internal_extractors \<Rightarrow> request \<Rightarrow> (world, response outcome) state" where
  "passkey_list_endpoint A X rq = extracted (xi_passkey_list X) rq (\<lambda>sso_session_id. do {
     r \<leftarrow> passkey_list (ap_libs A) sso_session_id;
     answer (passkey_list_response (ap_libs A) r)
   })"

definition login_begin_response :: "libs \<Rightarrow> string + uuid \<times> string \<Rightarrow> response" where
  "login_begin_response E r =
     (case r of
        Inr (challenge_id, options) \<Rightarrow> tagged ''ok''
          [(''challenge_id'', JStr (uuid_to_string E challenge_id)), (''options'', JText options)]
      | Inl _ \<Rightarrow> tagged ''internal'' [])"

definition login_begin :: "app \<Rightarrow> internal_extractors \<Rightarrow> request \<Rightarrow> (world, response outcome) state" where
  "login_begin A X rq = extracted (xi_login_begin X) rq (\<lambda>auth_session_id. do {
     r \<leftarrow> passkey_auth_begin (ap_libs A) auth_session_id;
     answer (login_begin_response (ap_libs A) r)
   })"

fun login_complete_response :: "app \<Rightarrow> passkey_auth_outcome \<Rightarrow> response" where
  "login_complete_response A (PasskeySuccess location sso) = redirected A location sso []"
| "login_complete_response A (PasskeyConsentRequired auth_session_id sso) = consent_required A auth_session_id sso"
| "login_complete_response A AuthChallengeNotFound = tagged ''challenge_not_found'' []"
| "login_complete_response A AuthSessionExpired = tagged ''session_expired'' []"
| "login_complete_response A AuthInvalidCredential = tagged ''invalid_credential'' []"
| "login_complete_response A (AuthInternal _) = tagged ''internal'' []"

definition login_complete_endpoint ::
  "app \<Rightarrow> internal_extractors \<Rightarrow> string \<Rightarrow> request \<Rightarrow> (world, response outcome) state" where
  "login_complete_endpoint A X correlation rq =
     extracted (xi_login_complete X) rq (\<lambda>req.
       case uuid_parse (ap_libs A) (fst (ireq_command req)) of
         None \<Rightarrow> answer (tagged ''challenge_not_found'' [])
       | Some challenge_id \<Rightarrow> for_tenant A (ireq_tenant_id req) (\<lambda>tenant. do {
           r \<leftarrow> passkey_auth_complete (ap_libs A) (ap_config A) tenant challenge_id
                  (snd (ireq_command req)) (internal_context correlation req);
           State_Monad.return (unless_panic (login_complete_response A) r)
         }))"

section \<open>Comparing in constant time\<close>

lemma byte_inj: "byte a = byte b \<longleftrightarrow> a = b"
proof
  assume "byte a = byte b"
  then have "unat (word_of_nat (of_char a) :: 8 word) = unat (word_of_nat (of_char b) :: 8 word)"
    by (simp add: byte_def of_nat_of_char)
  moreover have "(of_char c :: nat) < 256" for c by (simp add: nat_of_char_less_256)
  ultimately have "(of_char a :: nat) = of_char b" by (simp add: unat_of_nat)
  then show "a = b" by simp
qed simp

lemma xor_zero: "x XOR y = 0 \<longleftrightarrow> x = (y :: 8 word)"
  by (metis xor.assoc xor.right_neutral xor_self_eq xor.left_neutral)

lemma or_zero: "x OR y = 0 \<longleftrightarrow> x = 0 \<and> y = (0 :: 8 word)"
  by (metis or.commute or_eq_0_iff)

lemma differences:
  "fold (\<lambda>(x, y) diff. diff OR (byte x XOR byte y)) ps d = 0 \<longleftrightarrow> d = 0 \<and> (\<forall>(x, y) \<in> set ps. x = y)"
  by (induction ps arbitrary: d) (auto simp: or_zero xor_zero byte_inj)

lemma constant_time_eq_iff: "constant_time_eq a b \<longleftrightarrow> a = b"
proof -
  have "length a = length b \<Longrightarrow> (\<forall>(x, y) \<in> set (zip a b). x = y) \<longleftrightarrow> a = b"
    by (induction a b rule: list_induct2) auto
  then show ?thesis unfolding constant_time_eq_def differences by auto
qed

text \<open>
  The comparison of the service token, which looks at every byte whatever it finds, decides equality.
\<close>

theorem constant_time_eq_correct: "constant_time_eq = (=)"
  by (intro ext) (rule constant_time_eq_iff)

end
