(* ===== verification/PublicApi.thy ===== *)
theory PublicApi
  imports Http Authorize Token TokenStatus Logout Registration EmailVerification Invitation KeyService
begin

text \<open>
  The public endpoints: authorization, tokens, userinfo, introspection, revocation, logout, registration,
  the acceptance of invitations, discovery and the health checks (\<^verbatim>\<open>presentation/handlers/\<close>
  \<^verbatim>\<open>authorize.rs\<close>, \<^verbatim>\<open>token.rs\<close>, \<^verbatim>\<open>userinfo.rs\<close>, \<^verbatim>\<open>introspect.rs\<close>, \<^verbatim>\<open>revoke.rs\<close>, \<^verbatim>\<open>logout.rs\<close>,
  \<^verbatim>\<open>register.rs\<close>, \<^verbatim>\<open>invitations.rs\<close>, \<^verbatim>\<open>discovery.rs\<close>, \<^verbatim>\<open>health.rs\<close>). Shown: client credentials sent as
  RFC 6749 says are read back as they are, and what the page of the front-channel logout does with the
  address it sends the browser to.
\<close>

section \<open>Request data\<close>

record token_request =
  tr_grant_type :: "string option"
  tr_code :: "string option"
  tr_redirect_uri :: "string option"
  tr_code_verifier :: "string option"
  tr_client_id :: "string option"
  tr_refresh_token :: "string option"

record token_reference =
  tk_token :: "string option"
  tk_token_type_hint :: "string option"
  tk_client_id :: "string option"

record logout_params =
  lp_id_token_hint :: "string option"
  lp_post_logout_redirect_uri :: "string option"
  lp_state :: "string option"
  lp_client_id :: "string option"

text \<open>The query of \<^verbatim>\<open>/authorize\<close> has the fields of \<open>authorize_request\<close> but the session, which the handler adds.\<close>

record public_extractors =
  xp_authorize :: "authorize_request extractor"
  xp_token :: "token_request extractor"
  xp_introspect :: "token_reference extractor"
  xp_revoke :: "token_reference extractor"
  xp_logout :: "logout_params extractor"
  xp_register :: "register_command extractor"
  xp_verify_email :: "string extractor"
  xp_accept_invitation :: "string extractor"

section \<open>Shared pieces\<close>

definition reply :: "response \<Rightarrow> (world, response outcome) state" where
  "reply rs = State_Monad.return (Return rs)"

definition read_request ::
  "'c extractor \<Rightarrow> request \<Rightarrow> ('c \<Rightarrow> (world, response outcome) state) \<Rightarrow> (world, response outcome) state" where
  "read_request x rq f = (case x rq of Inl rejection \<Rightarrow> reply rejection | Inr req \<Rightarrow> f req)"

definition oauth_error :: "nat \<Rightarrow> headers \<Rightarrow> string \<Rightarrow> string \<Rightarrow> response" where
  "oauth_error status hs code description =
     \<lparr>re_status = status, re_headers = hs @ [(''content-type'', ''application/json'')],
      re_body = JsonBody (JObj [(''error'', JStr code), (''error_description'', JStr description)])\<rparr>"

text \<open>\<open>str::strip_prefix\<close>\<close>

definition strip_prefix :: "string \<Rightarrow> string \<Rightarrow> string option" where
  "strip_prefix p s = (if starts_with s p then Some (drop (length p) s) else None)"

text \<open>The client's credentials; \<open>None\<close> stands for \<^verbatim>\<open>Err\<close>. The three endpoints each have this function.\<close>

definition parse_basic_credentials :: "app \<Rightarrow> headers \<Rightarrow> (string \<times> string) option option" where
  "parse_basic_credentials A hs =
     (case header_get hs ''authorization'' of
        None \<Rightarrow> Some None
      | Some raw \<Rightarrow>
          Option.bind (header_to_str (ap_http A) raw) (\<lambda>value.
          Option.bind (strip_prefix ''Basic '' value) (\<lambda>encoded.
          case b64std_decode (ap_libs A) (trim encoded) of
            Inl _ \<Rightarrow> None
          | Inr decoded \<Rightarrow>
              (case from_utf8 decoded of
                 Inl _ \<Rightarrow> None
               | Inr text \<Rightarrow>
                   Option.bind (split_once CHR '':'' text) (\<lambda>(raw_id, raw_secret).
                   Option.bind (percent_decode_utf8 (ap_http A) raw_id) (\<lambda>client_id.
                   Option.bind (percent_decode_utf8 (ap_http A) raw_secret) (\<lambda>secret.
                   Some (Some (client_id, secret)))))))))"

section \<open>Authorization\<close>

definition session_redirect :: "app \<Rightarrow> incoming \<Rightarrow> string \<Rightarrow> string \<Rightarrow> response" where
  "session_redirect A i auth_session_id page =
     with_header (ap_http A) ''set-cookie''
       (cookies_build AUTH_SESSION_COOKIE auth_session_id (nat (cfg_auth_session_ttl (ap_settings A)))
          (cfg_cookie_secure (ap_settings A)))
       (found (ap_http A) (''/'' @ uuid_to_string (ap_libs A) (t_id (in_tenant i)) @ page))"

fun authorize_response :: "app \<Rightarrow> incoming \<Rightarrow> authorize_outcome \<Rightarrow> response" where
  "authorize_response A i (Redirect location) = found (ap_http A) location"
| "authorize_response A i (ErrorRedirect location) = found (ap_http A) location"
| "authorize_response A i (LoginRequired auth_session_id) = session_redirect A i auth_session_id ''/login''"
| "authorize_response A i (ConsentRequired auth_session_id) = session_redirect A i auth_session_id ''/consent''"
| "authorize_response A i (FatalError e description) = oauth_error 400 [] (oauth_error_as_str e) description"

definition authorize_endpoint ::
  "app \<Rightarrow> public_extractors \<Rightarrow> incoming \<Rightarrow> (world, response outcome) state" where
  "authorize_endpoint A X i = read_request (xp_authorize X) (in_request i) (\<lambda>params. do {
     r \<leftarrow> authorize (ap_libs A) (ap_config A) (t_id (in_tenant i))
            (params\<lparr>ar_sso_session_id := cookies_get (ap_http A) (rq_headers (in_request i)) SSO_SESSION_COOKIE\<rparr>)
            (context_of A i);
     State_Monad.return (case r of Return x \<Rightarrow> Return (authorize_response A i x) | Panic \<Rightarrow> Panic)
   })"

section \<open>Tokens\<close>

definition basic_realm :: "string \<Rightarrow> headers" where
  "basic_realm realm = [(''www-authenticate'', ''Basic realm='' @ [CHR 0x22] @ realm @ [CHR 0x22])]"

definition coded_error :: "string \<Rightarrow> oauth_error_code \<Rightarrow> string \<Rightarrow> response" where
  "coded_error realm code description =
     (if code = InvalidClient then oauth_error 401 (basic_realm realm) (oauth_error_as_str code) description
      else if code = ServerError then oauth_error 500 [] (oauth_error_as_str code) description
      else oauth_error 400 [] (oauth_error_as_str code) description)"

definition malformed_basic :: "string \<Rightarrow> response" where
  "malformed_basic realm =
     oauth_error 401 (basic_realm realm) (oauth_error_as_str InvalidClient) ''malformed Basic authorization header''"

definition token_response :: "issued_tokens \<Rightarrow> response" where
  "token_response t =
     \<lparr>re_status = 200,
      re_headers = [(''cache-control'', ''no-store''), (''pragma'', ''no-cache''), (''content-type'', ''application/json'')],
      re_body = JsonBody (JObj
        ([(''access_token'', JStr (it_access_token t)), (''token_type'', JStr ''Bearer''),
          (''expires_in'', JInt (uint (it_expires_in t))), (''id_token'', JStr (it_id_token t)),
          (''scope'', JStr (it_scope t))] @ optional ''refresh_token'' JStr (it_refresh_token t)))\<rparr>"

definition token_endpoint ::
  "app \<Rightarrow> public_extractors \<Rightarrow> incoming \<Rightarrow> (world, response outcome) state" where
  "token_endpoint A X i = read_request (xp_token X) (in_request i) (\<lambda>body.
     case parse_basic_credentials A (rq_headers (in_request i)) of
       None \<Rightarrow> reply (malformed_basic ''token'')
     | Some basic_credentials \<Rightarrow> do {
         r \<leftarrow> exchange (ap_libs A) (ap_config A) (t_id (in_tenant i))
                \<lparr>tc_grant_type = tr_grant_type body, tc_code = tr_code body, tc_redirect_uri = tr_redirect_uri body,
                 tc_code_verifier = tr_code_verifier body, tc_client_id = tr_client_id body,
                 tc_basic_credentials = basic_credentials, tc_refresh_token = tr_refresh_token body\<rparr>
                (context_of A i);
         reply (case r of Inr tokens \<Rightarrow> token_response tokens
                        | Inl e \<Rightarrow> coded_error ''token'' (te_code e) (te_description e))
       })"

section \<open>Userinfo, introspection, revocation\<close>

definition bearer_error :: "string \<Rightarrow> headers" where
  "bearer_error e = [(''www-authenticate'', ''Bearer error='' @ [CHR 0x22] @ e @ [CHR 0x22])]"

definition unauthorized :: "string \<Rightarrow> response" where
  "unauthorized reason = oauth_error 401 (bearer_error ''invalid_token'') ''invalid_token'' reason"

definition userinfo_response :: "user_info_error + user_info_claims \<Rightarrow> response" where
  "userinfo_response r =
     (case r of
        Inr c \<Rightarrow> json_response 200 (JObj ([(''sub'', JStr (ui_sub c))] @ optional ''email'' JStr (ui_email c) @
          optional ''email_verified'' JBool (ui_email_verified c) @
          optional ''preferred_username'' JStr (ui_preferred_username c) @ optional ''name'' JStr (ui_name c)))
      | Inl (InvalidToken reason) \<Rightarrow> unauthorized reason
      | Inl InsufficientScope \<Rightarrow>
          oauth_error 403 (bearer_error ''insufficient_scope'') ''insufficient_scope'' ''openid scope is required''
      | Inl (UserInfoInternal _) \<Rightarrow> empty_response 500)"

definition userinfo_endpoint :: "app \<Rightarrow> incoming \<Rightarrow> (world, response outcome) state" where
  "userinfo_endpoint A i =
     (case Option.bind (Option.bind (header_get (rq_headers (in_request i)) ''authorization'')
         (header_to_str (ap_http A))) (strip_prefix ''Bearer '') of
        None \<Rightarrow> reply (unauthorized ''missing bearer token'')
      | Some token \<Rightarrow> do {
          r \<leftarrow> userinfo (ap_libs A) (ap_config A) (t_id (in_tenant i)) token;
          reply (userinfo_response r)
        })"

definition introspection_json :: "introspection_response \<Rightarrow> response" where
  "introspection_json r = json_response 200 (JObj ([(''active'', JBool (ir_active r))] @
     optional ''scope'' JStr (ir_scope r) @ optional ''client_id'' JStr (ir_client_id r) @
     optional ''username'' JStr (ir_username r) @ optional ''token_type'' JStr (ir_token_type r) @
     optional ''exp'' JInt (ir_exp r) @ optional ''iat'' JInt (ir_iat r) @ optional ''sub'' JStr (ir_sub r) @
     optional ''iss'' JStr (ir_iss r) @ optional ''jti'' JStr (ir_jti r)))"

definition introspect_endpoint ::
  "app \<Rightarrow> public_extractors \<Rightarrow> incoming \<Rightarrow> (world, response outcome) state" where
  "introspect_endpoint A X i = read_request (xp_introspect X) (in_request i) (\<lambda>body.
     case parse_basic_credentials A (rq_headers (in_request i)) of
       None \<Rightarrow> reply (malformed_basic ''introspect'')
     | Some None \<Rightarrow> reply (oauth_error 401 (basic_realm ''introspect'') (oauth_error_as_str InvalidClient)
                              ''client authentication is required for introspection'')
     | Some (Some (client_id, client_secret)) \<Rightarrow>
         (case non_empty (tk_token body) of
            None \<Rightarrow> reply (introspection_json inactive)
          | Some token \<Rightarrow> do {
              r \<leftarrow> introspect (ap_libs A) (ap_config A) (t_id (in_tenant i)) token (tk_token_type_hint body)
                     client_id (Some (client_id, client_secret));
              reply (case r of
                Inr x \<Rightarrow> introspection_json x
              | Inl e \<Rightarrow> oauth_error 401 (basic_realm ''introspect'') (oauth_error_as_str (ie_code e)) (ie_description e))
            }))"

definition revoke_endpoint ::
  "app \<Rightarrow> public_extractors \<Rightarrow> incoming \<Rightarrow> (world, response outcome) state" where
  "revoke_endpoint A X i = read_request (xp_revoke X) (in_request i) (\<lambda>body.
     case non_empty (tk_token body) of
       None \<Rightarrow> reply (empty_response 200)
     | Some token \<Rightarrow>
         (case parse_basic_credentials A (rq_headers (in_request i)) of
            None \<Rightarrow> reply (malformed_basic ''revoke'')
          | Some credentials \<Rightarrow>
              (case non_empty (case credentials of Some (i, _) \<Rightarrow> Some i | None \<Rightarrow> tk_client_id body) of
                 None \<Rightarrow> reply (oauth_error 401 (basic_realm ''revoke'') (oauth_error_as_str InvalidClient)
                                  ''client_id is required'')
               | Some client_id \<Rightarrow> do {
                   r \<leftarrow> revoke_token (ap_libs A) (t_id (in_tenant i)) token (tk_token_type_hint body)
                          client_id credentials (context_of A i);
                   reply (case r of
                     Inr _ \<Rightarrow> empty_response 200
                   | Inl e \<Rightarrow> coded_error ''revoke'' (re_code e) (re_description e))
                 })))"

section \<open>Logout\<close>

definition replace_char :: "char \<Rightarrow> string \<Rightarrow> string \<Rightarrow> string" where
  "replace_char c by s = concat (map (\<lambda>x. if x = c then by else [x]) s)"

definition html_escape :: "string \<Rightarrow> string" where
  "html_escape s =
     replace_char CHR ''>'' ''&gt;'' (replace_char CHR ''<'' ''&lt;''
       (replace_char CHR 0x22 ''&quot;'' (replace_char CHR ''&'' ''&amp;'' s)))"

text \<open>A backslash, an apostrophe and the line ends of a JavaScript string.\<close>

definition js_escape :: "string \<Rightarrow> string" where
  "js_escape s =
     replace_char CHR 0x0D [CHR 0x5C, CHR ''r''] (replace_char CHR 0x0A [CHR 0x5C, CHR ''n'']
       (replace_char CHR 0x27 [CHR 0x5C, CHR 0x27] (replace_char CHR 0x5C [CHR 0x5C, CHR 0x5C] s)))"

definition iframe :: "string \<Rightarrow> string" where
  "iframe uri =
     ''<iframe src='' @ [CHR 0x22] @ html_escape uri @ [CHR 0x22] @
     '' style='' @ [CHR 0x22] @ ''display:none;width:0;height:0;'' @ [CHR 0x22] @
     '' sandbox='' @ [CHR 0x22] @ ''allow-same-origin allow-scripts'' @ [CHR 0x22] @ ''></iframe>''"

definition goto :: "string \<Rightarrow> string" where
  "goto uri = ''window.location.href = '' @ [CHR 0x27] @ js_escape uri @ [CHR 0x27] @ '';''"

definition redirect_script :: "string \<Rightarrow> string" where
  "redirect_script uri =
     (let frames = ''document.querySelectorAll('' @ [CHR 0x27] @ ''iframe'' @ [CHR 0x27] @ '')''
      in join [CHR 0x0A]
           [''<script>'', ''var loaded = 0;'', ''var total = '' @ frames @ ''.length;'',
            ''function onIframeLoad() { loaded++; if (loaded >= total) { '' @ goto uri @ '' } }'',
            ''var frames = '' @ frames @ '';'', ''if (frames.length === 0) { '' @ goto uri @ '' }'',
            ''else { frames.forEach(function(f) { f.onload = onIframeLoad; }); }'', ''</script>''])"

definition build_frontchannel_html :: "string list \<Rightarrow> string option \<Rightarrow> string" where
  "build_frontchannel_html uris redirect_to =
     join [CHR 0x0A]
       [''<!DOCTYPE html>'', ''<html>'',
        ''<head><meta charset='' @ [CHR 0x22] @ ''utf-8'' @ [CHR 0x22] @ ''><title>Logout</title></head>'', ''<body>'',
        join [CHR 0x0A] (map iframe uris), (case redirect_to of Some uri \<Rightarrow> redirect_script uri | None \<Rightarrow> []),
        ''</body>'', ''</html>'']"

text \<open>
  What the handler leaves to a background task: the targets, the subject and the issuer of the logout
  tokens. The task signs one token per target and posts it; its network calls are not modelled.
\<close>

record backchannel_job =
  bj_targets :: "backchannel_target list"
  bj_subject :: string
  bj_issuer :: string

definition spawn_backchannel :: "app \<Rightarrow> logout_result \<Rightarrow> backchannel_job option" where
  "spawn_backchannel A r =
     (if lr_backchannel_targets r = [] then None
      else map_option (\<lambda>sub. \<lparr>bj_targets = lr_backchannel_targets r, bj_subject = sub,
                               bj_issuer = cfg_issuer (ap_settings A)\<rparr>) (lr_user_sub r))"

definition with_state :: "libs \<Rightarrow> string option \<Rightarrow> string \<Rightarrow> string" where
  "with_state E state_val uri =
     (case non_empty state_val of
        Some v \<Rightarrow> uri @ [if CHR ''?'' \<in> set uri then CHR ''&'' else CHR ''?''] @ ''state='' @ percent_encode E v
      | None \<Rightarrow> uri)"

definition logout_response :: "app \<Rightarrow> logout_params \<Rightarrow> logout_result \<Rightarrow> response" where
  "logout_response A params r =
     (let K = ap_http A;
          expire_cookie = cookies_expire SSO_SESSION_COOKIE (cfg_cookie_secure (ap_settings A));
          redirect_to = map_option (with_state (ap_libs A) (lp_state params)) (lr_post_logout_redirect_uri r)
      in if lr_frontchannel_uris r \<noteq> [] then
           with_header K ''set-cookie'' expire_cookie
             \<lparr>re_status = 200, re_headers = [(''content-type'', ''text/html; charset=utf-8'')],
              re_body = HtmlBody (build_frontchannel_html (lr_frontchannel_uris r) redirect_to)\<rparr>
         else case redirect_to of
           Some uri \<Rightarrow> (found K uri)\<lparr>re_headers := header_insert ''set-cookie''
               (if header_value_ok K expire_cookie then expire_cookie else []) (re_headers (found K uri))\<rparr>
         | None \<Rightarrow> with_header K ''set-cookie'' expire_cookie (empty_response 204))"

definition logout_with_job ::
  "app \<Rightarrow> logout_params \<Rightarrow> incoming \<Rightarrow> (world, response \<times> backchannel_job option) state" where
  "logout_with_job A params i = do {
     r \<leftarrow> logout (ap_libs A) (ap_config A) (t_id (in_tenant i))
            (cookies_get (ap_http A) (rq_headers (in_request i)) SSO_SESSION_COOKIE)
            (lp_client_id params) (lp_post_logout_redirect_uri params) (context_of A i);
     State_Monad.return (logout_response A params r, spawn_backchannel A r)
   }"

definition logout_endpoint ::
  "app \<Rightarrow> public_extractors \<Rightarrow> incoming \<Rightarrow> (world, response outcome) state" where
  "logout_endpoint A X i = read_request (xp_logout X) (in_request i) (\<lambda>params. do {
     r \<leftarrow> logout_with_job A params i;
     reply (fst r)
   })"

section \<open>Registration and invitations\<close>

fun map_register_error :: "register_error \<Rightarrow> api_error" where
  "map_register_error (RegisterValidation m) = ApiBadRequest m"
| "map_register_error (RegisterForbidden m) = ApiForbidden m"
| "map_register_error RegisterRateLimited = ApiTooManyRequests ''too many registration attempts''"
| "map_register_error (RegisterConflict m) = ApiConflict m"
| "map_register_error (RegisterInternal m) = ApiInternal m"

definition register_endpoint ::
  "app \<Rightarrow> public_extractors \<Rightarrow> incoming \<Rightarrow> (world, response outcome) state" where
  "register_endpoint A X i = read_request (xp_register X) (in_request i) (\<lambda>cmd.
     respond (and_then (api_err map_register_error
       (register (ap_libs A) (t_id (in_tenant i)) cmd (ip_address (context_of A i)))) (\<lambda>registered. do {
       required \<leftarrow> send_verification (ap_libs A) (ap_config A) (t_id (in_tenant i)) (rg_user_id registered)
                     (rg_email registered) (context_of A i);
       State_Monad.return (Inr (json_response 201 (JObj
         [(''sub'', JStr (uuid_to_string (ap_libs A) (rg_sub registered))),
          (''status'', JStr (user_status_as_str (rg_status registered))),
          (''email_verification_required'', JBool required)])))
     })))"

definition verify_email_endpoint ::
  "app \<Rightarrow> public_extractors \<Rightarrow> incoming \<Rightarrow> (world, response outcome) state" where
  "verify_email_endpoint A X i = read_request (xp_verify_email X) (in_request i) (\<lambda>token. do {
     r \<leftarrow> verify_email (ap_libs A) (t_id (in_tenant i)) token (context_of A i);
     reply (case r of
       VerifyOk \<Rightarrow> empty_response 204
     | VerifyInvalidOrExpired \<Rightarrow> api_error_response (ApiBadRequest ''invalid or expired verification token'')
     | VerifyInternal m \<Rightarrow> api_error_response (ApiInternal m))
   })"

fun map_acceptance_error :: "invitation_error \<Rightarrow> api_error" where
  "map_acceptance_error InviteNotFound = ApiNotFound ''not found''"
| "map_acceptance_error AlreadyMember = ApiConflict ''already a member''"
| "map_acceptance_error (InviteForbidden m) = ApiForbidden m"
| "map_acceptance_error InviteInvalidOrExpired = ApiBadRequest ''invalid or expired invitation''"
| "map_acceptance_error (InviteInternal m) = ApiInternal m"

definition accept_invitation_endpoint ::
  "app \<Rightarrow> public_extractors \<Rightarrow> incoming \<Rightarrow> (world, response outcome) state" where
  "accept_invitation_endpoint A X i = respond (
     and_then (require_authenticated_user A i) (\<lambda>user_id.
     and_then (decide (xp_accept_invitation X (in_request i))) (\<lambda>token.
     and_then (api_err map_acceptance_error
       (accept_invitation (ap_libs A) (t_id (in_tenant i)) user_id token (context_of A i))) (\<lambda>_.
     State_Monad.return (Inr (empty_response 204))))))"

section \<open>Discovery\<close>

definition request_issuer :: "app \<Rightarrow> incoming \<Rightarrow> string" where
  "request_issuer A i = tenant_issuer (ap_libs A) (cfg_issuer (ap_settings A)) (t_id (in_tenant i))"

definition discovery_document :: "string \<Rightarrow> json" where
  "discovery_document issuer = JObj
     [(''issuer'', JStr issuer),
      (''authorization_endpoint'', JStr (issuer @ ''/authorize'')),
      (''token_endpoint'', JStr (issuer @ ''/token'')),
      (''userinfo_endpoint'', JStr (issuer @ ''/userinfo'')),
      (''end_session_endpoint'', JStr (issuer @ ''/logout'')),
      (''revocation_endpoint'', JStr (issuer @ ''/revoke'')),
      (''introspection_endpoint'', JStr (issuer @ ''/introspect'')),
      (''jwks_uri'', JStr (issuer @ ''/.well-known/jwks.json'')),
      (''scopes_supported'', strings [''openid'', ''profile'', ''email'', ''offline_access'']),
      (''response_types_supported'', strings [''code'']),
      (''grant_types_supported'', strings [''authorization_code'', ''refresh_token'']),
      (''subject_types_supported'', strings [''public'']),
      (''id_token_signing_alg_values_supported'', strings [''RS256'']),
      (''token_endpoint_auth_methods_supported'', strings [''client_secret_basic'', ''none'']),
      (''code_challenge_methods_supported'', strings [''S256'']),
      (''frontchannel_logout_supported'', JBool True),
      (''backchannel_logout_supported'', JBool True),
      (''claims_supported'', strings
         [''sub'', ''iss'', ''aud'', ''exp'', ''iat'', ''auth_time'', ''nonce'',
          ''email'', ''email_verified'', ''preferred_username'', ''name''])]"

definition openid_configuration :: "app \<Rightarrow> incoming \<Rightarrow> (world, response outcome) state" where
  "openid_configuration A i = reply (json_response 200 (discovery_document (request_issuer A i)))"

definition jwk_json :: "jwk \<Rightarrow> json" where
  "jwk_json k = JObj
     ([(''kty'', JStr (jwk_kty k)), (''use'', JStr (jwk_use k)), (''kid'', JStr (jwk_kid k)), (''alg'', JStr (jwk_alg k))] @
      optional ''n'' JStr (jwk_n k) @ optional ''e'' JStr (jwk_e k) @ optional ''crv'' JStr (jwk_crv k) @
      optional ''x'' JStr (jwk_x k) @ optional ''y'' JStr (jwk_y k))"

definition jwks_endpoint :: "app \<Rightarrow> incoming \<Rightarrow> (world, response outcome) state" where
  "jwks_endpoint A i = do {
     r \<leftarrow> jwks (ap_libs A);
     reply (case r of
       Inr keys \<Rightarrow> json_response 200 (JObj [(''keys'', JArr (map jwk_json keys))])
     | Inl _ \<Rightarrow> empty_response 500)
   }"

text \<open>\<^verbatim>\<open>URL_SAFE_NO_PAD.decode(value.trim_end_matches('='))\<close>\<close>

definition decode_unpadded :: "libs \<Rightarrow> string \<Rightarrow> string option" where
  "decode_unpadded E v = b64url_decode E (rev (dropWhile (\<lambda>c. c = CHR ''='') (rev v)))"

definition base64url_to_base64 :: "libs \<Rightarrow> string \<Rightarrow> string option" where
  "base64url_to_base64 E v = map_option (b64std_encode E) (decode_unpadded E v)"

definition named_curve_uri :: "string \<Rightarrow> string option" where
  "named_curve_uri crv =
     (if crv = ''P-256'' then Some ''urn:oid:1.2.840.10045.3.1.7''
      else if crv = ''P-384'' then Some ''urn:oid:1.3.132.0.34''
      else if crv = ''P-521'' then Some ''urn:oid:1.3.132.0.35''
      else None)"

definition jwk_signing_key :: "libs \<Rightarrow> jwk \<Rightarrow> idp_signing_key option" where
  "jwk_signing_key E k =
     (if jwk_kty k = ''RSA'' then
        Option.bind (Option.bind (jwk_n k) (base64url_to_base64 E)) (\<lambda>modulus.
        Option.bind (Option.bind (jwk_e k) (base64url_to_base64 E)) (\<lambda>exponent.
        Some (IdpRsa modulus exponent)))
      else if jwk_kty k = ''EC'' then
        Option.bind (Option.bind (jwk_crv k) named_curve_uri) (\<lambda>curve.
        Option.bind (Option.bind (jwk_x k) (decode_unpadded E)) (\<lambda>x.
        Option.bind (Option.bind (jwk_y k) (decode_unpadded E)) (\<lambda>y.
        Some (IdpEc curve (b64std_encode E (CHR 0x04 # x @ y))))))
      else None)"

definition active_idp_signing_key :: "app \<Rightarrow> (world, idp_signing_key option) state" where
  "active_idp_signing_key A = do {
     r \<leftarrow> active_signing_key (ap_libs A) (ap_config A);
     case r of
       Inl _ \<Rightarrow> State_Monad.return None
     | Inr key \<Rightarrow> do {
         ks \<leftarrow> jwks (ap_libs A);
         State_Monad.return (case ks of
           Inl _ \<Rightarrow> None
         | Inr keys \<Rightarrow> Option.bind (find (\<lambda>k. jwk_kid k = ask_kid key) keys) (jwk_signing_key (ap_libs A)))
       }
   }"

definition saml_idp_metadata :: "app \<Rightarrow> incoming \<Rightarrow> (world, response outcome) state" where
  "saml_idp_metadata A i = do {
     signing_key \<leftarrow> active_idp_signing_key A;
     reply \<lparr>re_status = 200,
        re_headers = [(''content-type'', ''application/xml; charset=utf-8''),
          (''content-disposition'', ''attachment; filename='' @ [CHR 0x22] @ ''idp-metadata.xml'' @ [CHR 0x22])],
        re_body = XmlBody (build_idp_metadata_xml (xml_escape (ap_http A)) (request_issuer A i)
          (request_issuer A i @ ''/saml/sso'') signing_key)\<rparr>
   }"

section \<open>Health\<close>

definition liveness :: "(world, response outcome) state" where
  "liveness = reply (json_response 200 (JObj [(''status'', JStr ''ok'')]))"

definition readiness :: "(world, response outcome) state" where
  "readiness = do {
     r \<leftarrow> db_query (\<lambda>_ _. ());
     reply (case r of
       Inr _ \<Rightarrow> json_response 200 (JObj [(''status'', JStr ''ready'')])
     | Inl _ \<Rightarrow> json_response 503 (JObj [(''status'', JStr ''unavailable'')]))
   }"

section \<open>Credentials\<close>

lemma starts_with_prefix: "starts_with (p @ s) p"
  by (induction p) auto

lemma strip_prefix_append: "strip_prefix p (p @ s) = Some s"
  by (simp add: strip_prefix_def starts_with_prefix)

text \<open>
  A client's side of RFC 6749, section 2.3.1: identifier and secret are encoded as
  \<^verbatim>\<open>application/x-www-form-urlencoded\<close> has it (a space is a plus sign, letters, digits and \<^verbatim>\<open>*-._\<close> are
  themselves, every other byte is a percent sign and two hexadecimal digits), joined by a colon and written
  in base64.
\<close>

definition upper_hex :: "nat \<Rightarrow> char" where
  "upper_hex n = (if n < 10 then char_of (48 + n) else char_of (55 + n))"

definition form_byte :: "char \<Rightarrow> string" where
  "form_byte c =
     (if is_ascii_alphanumeric c \<or> c \<in> set ''*-._'' then [c]
      else if c = CHR '' '' then ''+''
      else [CHR ''%'', upper_hex (of_char c div 16), upper_hex (of_char c mod 16)])"

definition form_urlencode :: "string \<Rightarrow> string" where
  "form_urlencode s = concat (map form_byte s)"

definition basic_header :: "libs \<Rightarrow> string \<Rightarrow> string \<Rightarrow> string" where
  "basic_header E client_id secret =
     ''Basic '' @ b64std_encode E (form_urlencode client_id @ '':'' @ form_urlencode secret)"

text \<open>
  What the crate \<^verbatim>\<open>percent-encoding\<close> documents of \<^verbatim>\<open>percent_decode_str(..).decode_utf8()\<close>: a percent sign and two
  hexadecimal digits are the byte they name, everything else is itself, and the bytes have to be UTF-8. A
  plus sign is not a space there.
\<close>

definition hex_value :: "char \<Rightarrow> nat option" where
  "hex_value c =
     (let n = of_char c in
      if 48 \<le> n \<and> n \<le> 57 then Some (n - 48)
      else if 65 \<le> n \<and> n \<le> 70 then Some (n - 55)
      else if 97 \<le> n \<and> n \<le> 102 then Some (n - 87) else None)"

fun percent_decode :: "string \<Rightarrow> string" where
  "percent_decode (c # a # b # s) =
     (case (hex_value a, hex_value b) of
        (Some h, Some l) \<Rightarrow>
          if c = CHR ''%'' then char_of (16 * h + l) # percent_decode s else c # percent_decode (a # b # s)
      | _ \<Rightarrow> c # percent_decode (a # b # s))"
| "percent_decode s = s"

definition percent_decode_to_utf8 :: "string \<Rightarrow> string option" where
  "percent_decode_to_utf8 s = (case from_utf8 (percent_decode s) of Inr t \<Rightarrow> Some t | Inl _ \<Rightarrow> None)"

definition b64_ok :: "app \<Rightarrow> string \<Rightarrow> bool" where
  "b64_ok A s \<longleftrightarrow>
     b64std_decode (ap_libs A) (b64std_encode (ap_libs A) s) = Inr s \<and>
     trim (b64std_encode (ap_libs A) s) = b64std_encode (ap_libs A) s \<and>
     header_to_str (ap_http A) (''Basic '' @ b64std_encode (ap_libs A) s) = Some (''Basic '' @ b64std_encode (ap_libs A) s)"

text \<open>What decoding the encoded text gives: the text, but for its spaces.\<close>

definition plus_for_space :: "string \<Rightarrow> string" where
  "plus_for_space s = map (\<lambda>c. if c = CHR '' '' then CHR ''+'' else c) s"

lemma plus_for_space_id: "plus_for_space s = s \<longleftrightarrow> CHR '' '' \<notin> set s"
  by (induction s) (auto simp: plus_for_space_def)

lemma hex_value_upper_hex: "n < 16 \<Longrightarrow> hex_value (upper_hex n) = Some n"
  by (auto simp: hex_value_def upper_hex_def Let_def)

lemma upper_hex_plain: "n < 16 \<Longrightarrow> of_char (upper_hex n) < (128 :: nat) \<and> upper_hex n \<noteq> CHR '':''"
  by (auto simp: upper_hex_def dest!: arg_cong [of _ _ "of_char :: char \<Rightarrow> nat"])

lemma of_char_digits: "of_char (c :: char) div 16 < (16 :: nat)" "of_char (c :: char) mod 16 < (16 :: nat)"
  using nat_of_char_less_256 [of c] by (auto simp: less_mult_imp_div_less)

lemma percent_decode_plain: "c \<noteq> CHR ''%'' \<Longrightarrow> percent_decode (c # s) = c # percent_decode s"
  by (cases "(c # s)" rule: percent_decode.cases) (auto split: option.splits)

lemma percent_decode_form_byte:
  "percent_decode (form_byte c @ s) = (if c = CHR '' '' then CHR ''+'' else c) # percent_decode s"
proof -
  consider "is_ascii_alphanumeric c \<or> c \<in> set ''*-._''" | "c = CHR '' ''"
    | "\<not> (is_ascii_alphanumeric c \<or> c \<in> set ''*-._'')" "c \<noteq> CHR '' ''" by blast
  then show ?thesis
  proof cases
    case 1
    then have "c \<noteq> CHR ''%''" "c \<noteq> CHR '' ''" by (auto simp: is_ascii_alphanumeric_def)
    with 1 show ?thesis by (simp add: form_byte_def percent_decode_plain)
  next
    case 2
    then show ?thesis by (simp add: form_byte_def percent_decode_plain is_ascii_alphanumeric_def)
  next
    case 3
    have "16 * (of_char c div 16) + of_char c mod 16 = (of_char c :: nat)" by simp
    with 3 show ?thesis
      by (simp add: form_byte_def hex_value_upper_hex of_char_digits del: mult_div_mod_eq)
  qed
qed

lemma percent_decode_form_urlencode: "percent_decode (form_urlencode s) = plus_for_space s"
  by (induction s) (simp_all add: form_urlencode_def plus_for_space_def percent_decode_form_byte)

lemma alphanumeric_plain: "is_ascii_alphanumeric c \<Longrightarrow> of_char c < (128 :: nat) \<and> c \<noteq> CHR '':''"
  by (auto simp: is_ascii_alphanumeric_def Let_def)

lemma form_byte_plain: "x \<in> set (form_byte c) \<Longrightarrow> of_char x < (128 :: nat) \<and> x \<noteq> CHR '':''"
  using upper_hex_plain [OF of_char_digits(1) [of c]] upper_hex_plain [OF of_char_digits(2) [of c]]
    alphanumeric_plain [of c]
  by (cases "is_ascii_alphanumeric c") (auto simp: form_byte_def split: if_splits)

lemma form_urlencode_plain: "c \<in> set (form_urlencode s) \<Longrightarrow> of_char c < (128 :: nat) \<and> c \<noteq> CHR '':''"
  unfolding form_urlencode_def using form_byte_plain by fastforce

text \<open>Turning spaces into plus signs leaves a text UTF-8.\<close>

definition plus_byte :: "nat \<Rightarrow> nat" where
  "plus_byte b = (if b = 32 then 43 else b)"

lemma plus_byte_classes:
  "utf8_width (plus_byte a) = utf8_width a" "continuation (plus_byte b) = continuation b"
  "second_ok (plus_byte a) (plus_byte b) = second_ok a b"
  by (auto simp: plus_byte_def utf8_width_def continuation_def second_ok_def)

lemma utf8_bad_plus: "utf8_bad (map plus_byte bs) = utf8_bad bs"
  by (auto simp: utf8_bad_def plus_byte_classes Let_def split: list.splits)

lemma utf8_error_plus: "utf8_error i (map plus_byte bs) = utf8_error i bs"
proof (induction i bs rule: utf8_error.induct)
  case (2 i b bs)
  then show ?case
    using utf8_bad_plus [of "b # bs"] by (auto simp: plus_byte_classes drop_map [symmetric] split: option.splits)
qed simp

lemma from_utf8_plus: "from_utf8 s = Inr s \<Longrightarrow> from_utf8 (plus_for_space s) = Inr (plus_for_space s)"
proof -
  have "of_char c = (32 :: nat) \<longleftrightarrow> c = CHR '' ''" for c
    using of_char_eq_iff [of c "CHR '' ''", where 'a = nat] by simp
  then have "map of_char (plus_for_space s) = map plus_byte (map of_char s)"
    by (simp add: plus_for_space_def plus_byte_def)
  then have "utf8_error 0 (map of_char (plus_for_space s)) = utf8_error 0 (map of_char s)"
    by (simp only: utf8_error_plus)
  then show "from_utf8 s = Inr s \<Longrightarrow> ?thesis"
    by (auto simp: from_utf8_def split: option.splits)
qed

text \<open>
  C36. Client credentials, as the token, introspection and revocation endpoints read them. Of what a client sends
  by the rules of RFC 6749, form-urlencoded, identifier and secret come back, colons and other special
  characters included, with the one exception that each space has become a plus sign. So exactly the
  credentials without a space are read as the client has them. Used of the libraries: the documented
  percent-decoding, and that base64 text has no blanks and decodes to what was encoded.
\<close>

theorem basic_credentials_roundtrip:
  assumes "\<And>s. percent_decode_utf8 (ap_http A) s = percent_decode_to_utf8 s"
    and "from_utf8 client_id = Inr client_id" and "from_utf8 secret = Inr secret"
    and "b64_ok A (form_urlencode client_id @ '':'' @ form_urlencode secret)"
  shows "parse_basic_credentials A [(''authorization'', basic_header (ap_libs A) client_id secret)] =
      Some (Some (plus_for_space client_id, plus_for_space secret)) \<and>
    (parse_basic_credentials A [(''authorization'', basic_header (ap_libs A) client_id secret)] =
      Some (Some (client_id, secret)) \<longleftrightarrow> CHR '' '' \<notin> set client_id \<and> CHR '' '' \<notin> set secret)"
proof -
  let ?id = "form_urlencode client_id" and ?secret = "form_urlencode secret"
  have "\<forall>c \<in> set (?id @ '':'' @ ?secret). of_char c < (128 :: nat)" by (auto dest: form_urlencode_plain)
  then have "from_utf8 (?id @ '':'' @ ?secret) = Inr (?id @ '':'' @ ?secret)" by (rule from_utf8_ascii)
  moreover have "split_once CHR '':'' (?id @ '':'' @ ?secret) = Some (?id, ?secret)"
    using split_once_append [of "CHR '':''" ?id ?secret] by (auto dest: form_urlencode_plain)
  moreover have "strip_prefix ''Basic '' (basic_header (ap_libs A) client_id secret) =
      Some (b64std_encode (ap_libs A) (?id @ '':'' @ ?secret))"
    unfolding basic_header_def by (rule strip_prefix_append)
  ultimately have "parse_basic_credentials A [(''authorization'', basic_header (ap_libs A) client_id secret)] =
      Some (Some (plus_for_space client_id, plus_for_space secret))"
    using assms unfolding parse_basic_credentials_def basic_header_def
    by (simp add: header_get_def b64_ok_def percent_decode_to_utf8_def percent_decode_form_urlencode from_utf8_plus)
  then show ?thesis by (simp add: plus_for_space_id)
qed

section \<open>The page of the front-channel logout\<close>

lemma set_replace_char: "c \<notin> set by \<Longrightarrow> c \<notin> set (replace_char c by s)"
  by (auto simp: replace_char_def)

lemma set_replace_char_other: "d \<notin> set by \<Longrightarrow> d \<notin> set s \<Longrightarrow> d \<notin> set (replace_char c by s)"
  by (auto simp: replace_char_def split: if_splits)

text \<open>An address in the attribute of a frame cannot close the attribute or the tag.\<close>

lemma html_escape_closed: "CHR 0x22 \<notin> set (html_escape s) \<and> CHR ''<'' \<notin> set (html_escape s) \<and> CHR ''>'' \<notin> set (html_escape s)"
  unfolding html_escape_def
  by (intro conjI set_replace_char_other [of _ "''&gt;''"] set_replace_char_other [of _ "''&lt;''"] set_replace_char) simp_all

text \<open>
  An address in the script can: only backslashes, apostrophes and line ends are replaced, so a text such
  as \<^verbatim>\<open></script>\<close> in it ends the script element.
\<close>

lemma replace_char_absent: "c \<notin> set s \<Longrightarrow> replace_char c by s = s"
  by (induction s) (auto simp: replace_char_def)

lemma js_escape_keeps_tags:
  "CHR 0x5C \<notin> set s \<Longrightarrow> CHR 0x27 \<notin> set s \<Longrightarrow> CHR 0x0A \<notin> set s \<Longrightarrow> CHR 0x0D \<notin> set s \<Longrightarrow> js_escape s = s"
  by (simp add: js_escape_def replace_char_absent)

text \<open>
  The issuer of the logout tokens is the base issuer of the service, which is the issuer of no tenant's
  ID tokens.
\<close>

lemma logout_token_issuer:
  assumes "spawn_backchannel A r = Some job"
  shows "bj_issuer job = cfg_issuer (ap_settings A)"
    and "bj_issuer job \<noteq> tenant_issuer (ap_libs A) (cfg_issuer (ap_settings A)) t"
  using assms by (auto simp: spawn_backchannel_def tenant_issuer_def split: if_splits)

end
