(* ===== verification/Router.thy ===== *)
theory Router
  imports PublicApi InternalApi AdminApi
begin

text \<open>
  The router of the API (\<^verbatim>\<open>presentation/router.rs\<close>): the tables of paths and methods, the middleware of the
  two groups of routes, the layers around all of them, and the theorems about every request that follow
  from where each handler stands. The swagger pages and the two version pages are answered by \<open>pages\<close>,
  a parameter: their contents are generated by the build.

  axum chooses the route whose segments match, a literal segment before a parameter; the tables list the
  literal ones first, so that the first match is that route (\<open>literal_first\<close>). A middleware of a group
  runs before the method of the request is looked up in the route.
\<close>

section \<open>Routes\<close>

datatype segment = Lit string | Param

text \<open>The parameters of a path that a pattern matches; a parameter is not empty.\<close>

fun match_path :: "segment list \<Rightarrow> string list \<Rightarrow> string list option" where
  "match_path [] [] = Some []"
| "match_path (Lit s # ps) (x # xs) = (if x = s then match_path ps xs else None)"
| "match_path (Param # ps) (x # xs) = (if x = [] then None else map_option (Cons x) (match_path ps xs))"
| "match_path _ _ = None"

text \<open>A route: its pattern, and for each of its methods the handler, given the parameters.\<close>

type_synonym 'h route = "segment list \<times> (string \<times> 'h) list"

fun find_route :: "'h route list \<Rightarrow> string list \<Rightarrow> (string list \<times> (string \<times> 'h) list) option" where
  "find_route [] path = None"
| "find_route ((pattern, methods) # routes) path =
     (case match_path pattern path of Some params \<Rightarrow> Some (params, methods) | None \<Rightarrow> find_route routes path)"

type_synonym tenant_handler = "string list \<Rightarrow> incoming \<Rightarrow> (world, response outcome) state"
type_synonym internal_handler = "string \<Rightarrow> request \<Rightarrow> (world, response outcome) state"

definition no_params :: "(incoming \<Rightarrow> (world, response outcome) state) \<Rightarrow> tenant_handler" where
  "no_params h = (\<lambda>params i. h i)"

definition one_param :: "(string \<Rightarrow> incoming \<Rightarrow> (world, response outcome) state) \<Rightarrow> tenant_handler" where
  "one_param h = (\<lambda>params i. h (hd params) i)"

definition two_params :: "(string \<Rightarrow> string \<Rightarrow> incoming \<Rightarrow> (world, response outcome) state) \<Rightarrow> tenant_handler" where
  "two_params h = (\<lambda>params i. h (hd params) (hd (tl params)) i)"

record api =
  api_app :: app
  api_public :: public_extractors
  api_internal :: internal_extractors
  api_admin :: admin_extractors
  api_pages :: "request \<Rightarrow> response option"

text \<open>The administration routes, by the permission each handler asks for.\<close>

definition system_routes :: "api \<Rightarrow> tenant_handler route list" where
  "system_routes S = (let A = api_app S; X = api_admin S in
     [([Lit ''tenants''], [(''GET'', no_params (list_tenants_endpoint A)), (''POST'', no_params (create_tenant_endpoint A X))]),
      ([Lit ''tenants'', Param],
        [(''GET'', one_param (get_tenant_endpoint A)), (''PATCH'', one_param (update_tenant_endpoint A X)),
         (''DELETE'', one_param (delete_tenant_endpoint A))]),
      ([Lit ''tenants'', Param, Lit ''admin-password-reset''], [(''POST'', one_param (reset_tenant_admin_password A X))]),
      ([Lit ''system-settings''],
        [(''GET'', no_params (get_system_settings A)), (''PUT'', no_params (update_system_settings A X))]),
      ([Lit ''system-settings'', Lit ''runtime''], [(''PUT'', no_params (update_runtime_setting_endpoint A X))])])"

definition tenant_routes :: "api \<Rightarrow> tenant_handler route list" where
  "tenant_routes S = (let A = api_app S; X = api_admin S in
     [([Lit ''whoami''], [(''GET'', no_params (whoami A))]),
      ([Lit ''settings'', Lit ''tenant''],
        [(''GET'', no_params (get_current_tenant A)), (''PATCH'', no_params (update_current_tenant A X))]),
      ([Lit ''members''], [(''GET'', no_params (list_members_endpoint A))]),
      ([Lit ''members'', Param], [(''DELETE'', one_param (revoke_member A))]),
      ([Lit ''invitations''], [(''POST'', no_params (create_invitation_endpoint A X))]),
      ([Lit ''clients''],
        [(''POST'', no_params (create_client A X)), (''GET'', no_params (list_clients_endpoint A))]),
      ([Lit ''clients'', Lit ''status''], [(''GET'', no_params (list_client_status_endpoint A))]),
      ([Lit ''clients'', Param],
        [(''GET'', one_param (get_client_endpoint A)), (''PATCH'', one_param (update_client_endpoint A X))]),
      ([Lit ''clients'', Param, Lit ''secret''], [(''POST'', one_param (rotate_client_secret A))]),
      ([Lit ''permissions''], [(''GET'', no_params (list_available_permissions A))]),
      ([Lit ''users''],
        [(''POST'', no_params (create_user_endpoint A X)), (''GET'', no_params (search_user A X))]),
      ([Lit ''users'', Param],
        [(''GET'', one_param (get_user_endpoint A)), (''PATCH'', one_param (update_user_status A X)),
         (''DELETE'', one_param (delete_user_endpoint A))]),
      ([Lit ''users'', Param, Lit ''password-reset''], [(''POST'', one_param (reset_user_password_endpoint A))]),
      ([Lit ''users'', Param, Lit ''permissions''],
        [(''GET'', one_param (list_permissions_endpoint A)), (''POST'', one_param (grant_permission_endpoint A X))]),
      ([Lit ''users'', Param, Lit ''permissions'', Param], [(''DELETE'', two_params (revoke_permission_endpoint A))]),
      ([Lit ''audit-logs''], [(''GET'', no_params (list_audit_logs A X))]),
      ([Lit ''saml-service-providers''],
        [(''GET'', no_params (list_service_providers A)), (''POST'', no_params (register_service_provider A X))]),
      ([Lit ''saml-service-providers'', Lit ''import-metadata''], [(''POST'', no_params (import_metadata A X))]),
      ([Lit ''saml-service-providers'', Param],
        [(''PUT'', one_param (update_service_provider A X)), (''DELETE'', one_param (delete_service_provider A))]),
      ([Lit ''signing-keys''],
        [(''GET'', no_params (list_keys_endpoint A)), (''POST'', no_params (generate_key_endpoint A X))]),
      ([Lit ''signing-keys'', Param, Lit ''retire''], [(''POST'', one_param (retire_key_endpoint A))]),
      ([Lit ''signing-keys'', Param], [(''DELETE'', one_param (delete_key_endpoint A))])])"

definition public_routes :: "api \<Rightarrow> tenant_handler route list" where
  "public_routes S = (let A = api_app S; X = api_public S in
     [([Lit ''auth'', Lit ''register''], [(''POST'', no_params (register_endpoint A X))]),
      ([Lit ''auth'', Lit ''verify-email''], [(''POST'', no_params (verify_email_endpoint A X))]),
      ([Lit ''authorize''], [(''GET'', no_params (authorize_endpoint A X))]),
      ([Lit ''token''], [(''POST'', no_params (token_endpoint A X))]),
      ([Lit ''userinfo''], [(''GET'', no_params (userinfo_endpoint A))]),
      ([Lit ''logout''], [(''GET'', no_params (logout_endpoint A X))]),
      ([Lit ''revoke''], [(''POST'', no_params (revoke_endpoint A X))]),
      ([Lit ''introspect''], [(''POST'', no_params (introspect_endpoint A X))]),
      ([Lit ''invitations'', Lit ''accept''], [(''POST'', no_params (accept_invitation_endpoint A X))]),
      ([Lit ''.well-known'', Lit ''openid-configuration''], [(''GET'', no_params (openid_configuration A))]),
      ([Lit ''.well-known'', Lit ''jwks.json''], [(''GET'', no_params (jwks_endpoint A))]),
      ([Lit ''saml'', Lit ''metadata''], [(''GET'', no_params (saml_idp_metadata A))])])"

definition under :: "string \<Rightarrow> 'h route list \<Rightarrow> 'h route list" where
  "under s routes = map (\<lambda>(pattern, methods). (Lit s # pattern, methods)) routes"

definition tenant_scoped :: "api \<Rightarrow> tenant_handler route list" where
  "tenant_scoped S = under ''admin'' (system_routes S @ tenant_routes S) @ public_routes S"

definition internal_routes :: "api \<Rightarrow> internal_handler route list" where
  "internal_routes S = (let A = api_app S; X = api_internal S in
     [([Lit ''authenticate''], [(''POST'', authenticate A X)]),
      ([Lit ''authenticate'', Lit ''admin''], [(''POST'', authenticate_admin A X)]),
      ([Lit ''authenticate'', Lit ''admin'', Lit ''change-password''], [(''POST'', admin_change_password_endpoint A X)]),
      ([Lit ''authenticate'', Lit ''portal''], [(''POST'', authenticate_portal A X)]),
      ([Lit ''authenticate'', Lit ''portal'', Lit ''mfa''], [(''POST'', authenticate_portal_mfa A X)]),
      ([Lit ''authenticate'', Lit ''portal'', Lit ''change-password''],
        [(''POST'', authenticate_portal_change_password A X)]),
      ([Lit ''change-password''], [(''POST'', change_password_endpoint A X)]),
      ([Lit ''account'', Lit ''change-password''], [(''POST'', account_change_password A X)]),
      ([Lit ''account'', Lit ''update-language''], [(''POST'', \<lambda>_. account_update_language A X)]),
      ([Lit ''account'', Lit ''profile''], [(''POST'', \<lambda>_. account_profile A X)]),
      ([Lit ''account'', Lit ''update-name''], [(''POST'', \<lambda>_. account_update_name A X)]),
      ([Lit ''account'', Lit ''tenants''], [(''POST'', \<lambda>_. account_tenants A X)]),
      ([Lit ''logout''], [(''POST'', internal_logout A X)]),
      ([Lit ''password-reset'', Lit ''request''], [(''POST'', password_reset_request A X)]),
      ([Lit ''password-reset'', Lit ''complete''], [(''POST'', password_reset_complete A X)]),
      ([Lit ''consent-info''], [(''GET'', \<lambda>_. consent_info_endpoint A X)]),
      ([Lit ''consent'', Lit ''approve''], [(''POST'', consent_approve_endpoint A X)]),
      ([Lit ''consent'', Lit ''deny''], [(''POST'', consent_deny_endpoint A X)]),
      ([Lit ''mfa'', Lit ''totp'', Lit ''setup''], [(''POST'', \<lambda>_. setup_totp A X)]),
      ([Lit ''mfa'', Lit ''totp'', Lit ''confirm''], [(''POST'', \<lambda>_. confirm_totp A X)]),
      ([Lit ''mfa'', Lit ''totp'', Lit ''delete''], [(''POST'', \<lambda>_. delete_totp A X)]),
      ([Lit ''mfa'', Lit ''totp'', Lit ''verify''], [(''POST'', verify_totp A X)]),
      ([Lit ''passkey'', Lit ''register'', Lit ''begin''], [(''POST'', \<lambda>_. register_begin A X)]),
      ([Lit ''passkey'', Lit ''register'', Lit ''complete''], [(''POST'', \<lambda>_. register_complete A X)]),
      ([Lit ''passkey'', Lit ''delete''], [(''POST'', \<lambda>_. passkey_delete_endpoint A X)]),
      ([Lit ''passkey'', Lit ''list''], [(''POST'', \<lambda>_. passkey_list_endpoint A X)]),
      ([Lit ''passkey'', Lit ''login'', Lit ''begin''], [(''POST'', \<lambda>_. login_begin A X)]),
      ([Lit ''passkey'', Lit ''login'', Lit ''complete''], [(''POST'', login_complete_endpoint A X)])])"

section \<open>Dispatch\<close>

text \<open>axum answers HEAD with the handler of GET and drops the body.\<close>

definition without_body :: "response outcome \<Rightarrow> response outcome" where
  "without_body r = (case r of Return rs \<Rightarrow> Return (rs\<lparr>re_body := NoBody\<rparr>) | Panic \<Rightarrow> Panic)"

definition by_method ::
  "http_libs \<Rightarrow> (string \<times> 'h) list \<Rightarrow> string \<Rightarrow> ('h \<Rightarrow> (world, response outcome) state) \<Rightarrow>
   (world, response outcome) state" where
  "by_method K methods verb run =
     (case map_of methods verb of
        Some h \<Rightarrow> run h
      | None \<Rightarrow>
          (case (if verb = ''HEAD'' then map_of methods ''GET'' else None) of
             Some h \<Rightarrow> State_Monad.bind (run h) (\<lambda>r. State_Monad.return (without_body r))
           | None \<Rightarrow> State_Monad.return (Return (method_not_allowed K))))"

text \<open>The extractor \<^verbatim>\<open>Path<HashMap<String, String>>\<close> of the middleware decodes every parameter.\<close>

fun decode_all :: "http_libs \<Rightarrow> string list \<Rightarrow> string list option" where
  "decode_all K [] = Some []"
| "decode_all K (x # xs) =
     Option.bind (path_decode K x) (\<lambda>y. Option.bind (decode_all K xs) (\<lambda>ys. Some (y # ys)))"

definition resolve_tenant_layer ::
  "app \<Rightarrow> string \<Rightarrow> (tenant \<Rightarrow> (world, response outcome) state) \<Rightarrow> (world, response outcome) state" where
  "resolve_tenant_layer A raw_tenant_id next = do {
     r \<leftarrow> resolve_raw_tenant A raw_tenant_id;
     case r of Inl rejection \<Rightarrow> State_Monad.return (Return rejection) | Inr tenant \<Rightarrow> next tenant
   }"

definition tenant_service ::
  "api \<Rightarrow> string list \<Rightarrow> (string \<times> tenant_handler) list \<Rightarrow> string \<Rightarrow> request \<Rightarrow> (world, response outcome) state" where
  "tenant_service S params methods correlation rq =
     (let A = api_app S in
      case decode_all (ap_http A) params of
        None \<Rightarrow> State_Monad.return (Return (path_rejection (ap_http A)))
      | Some decoded \<Rightarrow>
          resolve_tenant_layer A (hd decoded) (\<lambda>tenant.
            by_method (ap_http A) methods (rq_method rq)
              (\<lambda>h. h (tl decoded) \<lparr>in_request = rq, in_correlation = correlation, in_tenant = tenant\<rparr>)))"

text \<open>
  The routes without a tenant, then the internal ones, then the tenant's: a path that begins with a literal
  of the first two kinds is not taken by the last.
\<close>

definition plain_routes :: "(world, response outcome) state route list" where
  "plain_routes = [([Lit ''healthz''], [(''GET'', liveness)]), ([Lit ''readyz''], [(''GET'', readiness)])]"

definition routes :: "api \<Rightarrow> string \<Rightarrow> request \<Rightarrow> (world, response outcome) state" where
  "routes S correlation rq =
     (let A = api_app S; K = ap_http A in
      case api_pages S rq of
        Some rs \<Rightarrow> State_Monad.return (Return rs)
      | None \<Rightarrow>
        (case find_route plain_routes (rq_path rq) of
           Some (_, methods) \<Rightarrow> by_method K methods (rq_method rq) (\<lambda>h. h)
         | None \<Rightarrow>
        (case find_route (under ''internal'' (internal_routes S)) (rq_path rq) of
           Some (_, methods) \<Rightarrow>
             require_service_token A (\<lambda>rq. by_method K methods (rq_method rq) (\<lambda>h. h correlation rq)) rq
         | None \<Rightarrow>
        (case find_route (map (\<lambda>(pattern, methods). (Param # pattern, methods)) (tenant_scoped S)) (rq_path rq) of
           Some (params, methods) \<Rightarrow> tenant_service S params methods correlation rq
         | None \<Rightarrow> State_Monad.return (Return (not_found_response K))))))"

definition build :: "api \<Rightarrow> request \<Rightarrow> (world, response outcome) state" where
  "build S rq =
     (let K = ap_http (api_app S) in
      add_security_headers K (cfg_hsts_max_age (ap_settings (api_app S))) (propagate K (routes S)) rq)"

section \<open>The tables\<close>

text \<open>
  No route is hidden: of two patterns of a table that match a common path, the one that comes first has
  a literal where they first differ.
\<close>

fun overlap :: "segment list \<Rightarrow> segment list \<Rightarrow> bool" where
  "overlap [] [] = True"
| "overlap (Lit s # ps) (Lit t # qs) = (s = t \<and> overlap ps qs)"
| "overlap (_ # ps) (_ # qs) = overlap ps qs"
| "overlap _ _ = False"

fun more_literal :: "segment list \<Rightarrow> segment list \<Rightarrow> bool" where
  "more_literal (Lit s # ps) (Param # qs) = True"
| "more_literal (Param # ps) (Lit s # qs) = False"
| "more_literal (_ # ps) (_ # qs) = more_literal ps qs"
| "more_literal _ _ = False"

definition literal_first :: "segment list list \<Rightarrow> bool" where
  "literal_first = sorted_wrt (\<lambda>p q. overlap p q \<longrightarrow> more_literal p q)"

lemma tables_literal_first:
  "literal_first (map fst (tenant_scoped S))" "literal_first (map fst (internal_routes S))"
  by (simp_all only: tenant_scoped_def system_routes_def tenant_routes_def public_routes_def internal_routes_def
      under_def Let_def map_append append.simps list.map prod.case fst_conv) code_simp+

section \<open>Finding a route\<close>

lemma find_route_append:
  "find_route (xs @ ys) path = (case find_route xs path of Some r \<Rightarrow> Some r | None \<Rightarrow> find_route ys path)"
  by (induction xs) (auto split: option.splits)

lemma find_route_under:
  "find_route (under s rs) (x # path) = (if x = s then find_route rs path else None)"
  by (induction rs) (auto simp: under_def split: option.splits)

lemma find_route_param:
  "find_route (map (\<lambda>(pattern, methods). (Param # pattern, methods)) rs) (x # path) =
     (if x = [] then None else map_option (\<lambda>(ps, methods). (x # ps, methods)) (find_route rs path))"
  by (induction rs) (auto split: option.splits)

lemma find_route_SomeD: "find_route rs path = Some (ps, methods) \<Longrightarrow> \<exists>pattern. (pattern, methods) \<in> set rs"
  by (induction rs) (auto split: option.splits)

lemma public_not_admin: "find_route (public_routes S) (''admin'' # rest) = None"
  by (simp add: public_routes_def Let_def)

lemma internal_not_admin: "find_route (internal_routes S) (''admin'' # rest) = None"
  by (simp add: internal_routes_def Let_def)

lemma plain_single: "find_route plain_routes (x # y # rest) = None"
  by (simp add: plain_routes_def)

text \<open>The permission an administration path asks for.\<close>

definition required_code :: "string list \<Rightarrow> string" where
  "required_code rest =
     (case rest of x # _ \<Rightarrow> if x \<in> {''tenants'', ''system-settings''} then system_admin else tenant_admin
                 | [] \<Rightarrow> tenant_admin)"

lemma system_route_code: "find_route (system_routes S) rest = Some r \<Longrightarrow> required_code rest = system_admin"
  by (cases rest) (auto simp: system_routes_def Let_def required_code_def split: if_splits)

lemma tenant_route_code: "find_route (tenant_routes S) rest = Some r \<Longrightarrow> required_code rest = tenant_admin"
  by (cases rest) (auto simp: tenant_routes_def Let_def required_code_def)

lemma find_admin_route:
  "find_route (tenant_scoped S) (''admin'' # rest) =
     (case find_route (system_routes S) rest of Some r \<Rightarrow> Some r | None \<Rightarrow> find_route (tenant_routes S) rest)"
  by (simp add: tenant_scoped_def find_route_append find_route_under public_not_admin split: option.splits)

section \<open>Every administration handler is guarded\<close>

lemma guarded_no_params: "(\<And>i. h i = admin_only A code i (f i)) \<Longrightarrow> guarded A code (no_params h ps)"
  using guarded_admin_only [of A code f] by (simp add: no_params_def)

lemma guarded_one_param: "(\<And>c i. h c i = admin_only A code i (f c i)) \<Longrightarrow> guarded A code (one_param h ps)"
  using guarded_admin_only [of A code "f (hd ps)"] by (simp add: one_param_def)

lemma guarded_two_params: "(\<And>c d i. h c d i = admin_only A code i (f c d i)) \<Longrightarrow> guarded A code (two_params h ps)"
  using guarded_admin_only [of A code "f (hd ps) (hd (tl ps))"] by (simp add: two_params_def)

definition all_guarded :: "api \<Rightarrow> string \<Rightarrow> tenant_handler route list \<Rightarrow> bool" where
  "all_guarded S code rs \<longleftrightarrow>
     (\<forall>pattern methods v h ps. (pattern, methods) \<in> set rs \<longrightarrow> (v, h) \<in> set methods \<longrightarrow> guarded (api_app S) code (h ps))"

lemma all_guarded_Nil: "all_guarded S code []"
  by (simp add: all_guarded_def)

lemma all_guarded_Cons:
  "(\<And>v h ps. (v, h) \<in> set methods \<Longrightarrow> guarded (api_app S) code (h ps)) \<Longrightarrow> all_guarded S code rs \<Longrightarrow>
   all_guarded S code ((pattern, methods) # rs)"
  by (auto simp: all_guarded_def)

lemma guarded_methods_Nil: "(v, h) \<in> set [] \<Longrightarrow> guarded A code (h ps)"
  by simp

lemma guarded_methods_Cons:
  "(v, h) \<in> set ((v', h') # hs) \<Longrightarrow> guarded A code (h' ps) \<Longrightarrow>
   ((v, h) \<in> set hs \<Longrightarrow> guarded A code (h ps)) \<Longrightarrow> guarded A code (h ps)"
  by auto

lemmas system_handlers = list_tenants_endpoint_def create_tenant_endpoint_def get_tenant_endpoint_def
  update_tenant_endpoint_def delete_tenant_endpoint_def reset_tenant_admin_password_def
  get_system_settings_def update_system_settings_def update_runtime_setting_endpoint_def

lemmas tenant_handlers = whoami_def get_current_tenant_def update_current_tenant_def list_members_endpoint_def
  revoke_member_def create_invitation_endpoint_def create_client_def list_clients_endpoint_def
  list_client_status_endpoint_def get_client_endpoint_def update_client_endpoint_def rotate_client_secret_def
  list_available_permissions_def create_user_endpoint_def search_user_def get_user_endpoint_def
  update_user_status_def delete_user_endpoint_def reset_user_password_endpoint_def list_permissions_endpoint_def
  grant_permission_endpoint_def revoke_permission_endpoint_def list_audit_logs_def list_service_providers_def
  register_service_provider_def import_metadata_def update_service_provider_def delete_service_provider_def
  list_keys_endpoint_def generate_key_endpoint_def retire_key_endpoint_def delete_key_endpoint_def

lemma system_guarded: "all_guarded S system_admin (system_routes S)"
  unfolding system_routes_def Let_def
  by (intro all_guarded_Cons all_guarded_Nil;
      (erule guarded_methods_Cons guarded_methods_Nil,
       (rule guarded_no_params guarded_one_param, rule system_handlers)?)+)

lemma tenant_guarded: "all_guarded S tenant_admin (tenant_routes S)"
  unfolding tenant_routes_def Let_def
  by (intro all_guarded_Cons all_guarded_Nil;
      (erule guarded_methods_Cons guarded_methods_Nil,
       (rule guarded_no_params guarded_one_param guarded_two_params, rule tenant_handlers)?)+)

section \<open>The layers\<close>

text \<open>What the layers do around the routes.\<close>

definition layered :: "api \<Rightarrow> string \<Rightarrow> response \<Rightarrow> response" where
  "layered S i rs = security_headers (ap_http (api_app S)) (cfg_hsts_max_age (ap_settings (api_app S)))
     (set_request_id (ap_http (api_app S)) i rs)"

lemma layered_status [simp]: "re_status (layered S i rs) = re_status rs" "re_body (layered S i rs) = re_body rs"
  by (simp_all add: layered_def security_headers_def set_request_id_def Let_def)

definition layered_outcome :: "api \<Rightarrow> string \<Rightarrow> response outcome \<Rightarrow> response outcome" where
  "layered_outcome S i r = (case r of Return rs \<Rightarrow> Return (layered S i rs) | Panic \<Rightarrow> Panic)"

lemma run_request_id:
  assumes "run_state (request_id K rq) w = (i, w')"
  shows "w' = w \<or> w' = draw w"
  using assms by (auto simp: request_id_def run_rules new_v4_def draw_def split: option.splits if_splits)

lemma run_build:
  assumes "run_state (build S rq) w = (r, w')"
  obtains i w1 r1 where "w1 = w \<or> w1 = draw w" "is_valid_request_id i \<or> (\<exists>u. i = uuid_simple (ap_http (api_app S)) u)"
    "run_state (routes S i rq) w1 = (r1, w')" "r = layered_outcome S i r1"
proof -
  from assms obtain i w1 r1 where
      i: "run_state (request_id (ap_http (api_app S)) rq) w = (i, w1)" and "run_state (routes S i rq) w1 = (r1, w')"
      "r = layered_outcome S i r1"
    by (auto simp: build_def add_security_headers_def propagate_def Let_def run_rules layered_outcome_def layered_def
        split: outcome.splits)
  with run_request_id [OF i] request_id_valid [OF i] that show thesis by blast
qed

text \<open>
  C34. Every response is protected. Whatever the request and whatever a handler does, a response that leaves
  the service forbids framing and content sniffing, limits the referrer, asks for HTTPS when that is
  configured, and carries a request id: the client's own only if it is short and harmless.
\<close>

theorem responses_carry_security_headers:
  assumes "run_state (build S rq) w = (Return rs, w')"
    and "\<And>v. is_valid_request_id v \<or> (\<exists>u. v = uuid_simple (ap_http (api_app S)) u) \<Longrightarrow>
      header_value_ok (ap_http (api_app S)) v"
  shows "header_get (re_headers rs) ''x-content-type-options'' = Some ''nosniff'' \<and>
    header_get (re_headers rs) ''referrer-policy'' = Some ''strict-origin-when-cross-origin'' \<and>
    header_get (re_headers rs) ''x-frame-options'' = Some ''DENY'' \<and>
    (let n = cfg_hsts_max_age (ap_settings (api_app S)) in
     0 < n \<and> header_value_ok (ap_http (api_app S)) (''max-age='' @ show_int n) \<longrightarrow>
     header_get (re_headers rs) ''strict-transport-security'' = Some (''max-age='' @ show_int n)) \<and>
    (\<exists>i. header_get (re_headers rs) REQUEST_ID_HEADER = Some i \<and>
       (is_valid_request_id i \<or> (\<exists>u. i = uuid_simple (ap_http (api_app S)) u)))"
proof -
  from assms(1) obtain i r1 where
      i: "is_valid_request_id i \<or> (\<exists>u. i = uuid_simple (ap_http (api_app S)) u)" "Return rs = layered_outcome S i r1"
    by (rule run_build)
  then obtain rs1 where rs: "rs = layered S i rs1" by (auto simp: layered_outcome_def split: outcome.splits)
  have "header_get (re_headers rs) REQUEST_ID_HEADER = Some i"
    using assms(2) [OF i(1)] unfolding rs layered_def
    by (simp add: security_headers_def set_request_id_def Let_def header_get_insert REQUEST_ID_HEADER_def)
  with i(1) show ?thesis
    unfolding rs layered_def Let_def by (simp add: security_headers_get)
qed

section \<open>Internal endpoints\<close>

definition presented_token :: "app \<Rightarrow> request \<Rightarrow> string" where
  "presented_token A rq = unwrap_or_default
     (Option.bind (header_get (rq_headers rq) SERVICE_TOKEN_HEADER) (header_to_str (ap_http A)))"

lemma service_token_refused:
  "presented_token A rq \<noteq> cfg_internal_service_token (ap_settings A) \<Longrightarrow>
   require_service_token A next rq = State_Monad.return (Return (empty_response 401))"
  by (simp add: require_service_token_def presented_token_def Let_def constant_time_eq_iff)

text \<open>
  C13. The internal endpoints are closed to everyone else. A request for one of them without the token that
  the two services share is answered 401, with an empty body and before anything is read or written:
  the world has at most drawn a request id.
\<close>

theorem internal_endpoints_need_token:
  assumes "find_route (internal_routes S) rest = Some route" and "rq_path rq = ''internal'' # rest"
    and "api_pages S rq = None"
    and "presented_token (api_app S) rq \<noteq> cfg_internal_service_token (ap_settings (api_app S))"
    and "run_state (build S rq) w = (r, w')"
  shows "\<exists>rs. r = Return rs \<and> re_status rs = 401 \<and> re_body rs = NoBody \<and> (w' = w \<or> w' = draw w)"
proof -
  from assms(1) have "rest \<noteq> []" by (auto simp: internal_routes_def Let_def)
  then have plain: "find_route plain_routes (''internal'' # rest) = None" by (cases rest) (simp_all add: plain_single)
  from assms(5) obtain i w1 r1 where i: "w1 = w \<or> w1 = draw w"
      "run_state (routes S i rq) w1 = (r1, w')" "r = layered_outcome S i r1"
    by (rule run_build)
  have "routes S i rq = State_Monad.return (Return (empty_response 401))"
    using assms(1,2,3) plain service_token_refused [OF assms(4)]
    by (cases route) (simp add: routes_def Let_def find_route_under)
  with i show ?thesis by (auto simp: run_rules layered_outcome_def empty_response_def)
qed

section \<open>Administration endpoints\<close>

text \<open>An answer that no administration handler gave after its guard let the caller through.\<close>

definition refusal :: "http_libs \<Rightarrow> response \<Rightarrow> bool" where
  "refusal K rs \<longleftrightarrow> re_status rs \<in> {401, 403, 404, 503} \<or>
     re_status rs \<in> re_status ` {path_rejection K, method_not_allowed K, not_found_response K}"

lemma refusal_layered [simp]: "refusal K (layered S i rs) = refusal K rs"
  by (simp add: refusal_def)

lemma by_method_guarded:
  assumes "all_guarded S code rs" and "(pattern, methods) \<in> set rs"
    and run: "run_state (by_method K methods verb (\<lambda>h. h ps inc)) w = (r, w')"
  shows "(\<exists>u. admin_entitled (ap_libs (api_app S)) w (ticks w + 1) (t_id (in_tenant inc))
        (cookies_get (ap_http (api_app S)) (rq_headers (in_request inc)) SSO_SESSION_COOKIE) code u) \<or>
     db w' = db w \<and> (\<exists>rs. r = Return rs \<and> refusal K rs)"
proof -
  have guarded: "map_of methods v = Some h \<Longrightarrow> guarded (api_app S) code (h ps)" for v h
    using assms(1,2) unfolding all_guarded_def by (blast dest: map_of_SomeD)
  from run consider h r1 where "guarded (api_app S) code (h ps)" "run_state (h ps inc) w = (r1, w')" "r = r1 \<or> r = without_body r1"
    | "r = Return (method_not_allowed K)" "w' = w"
    by (auto simp: by_method_def run_rules split: option.splits if_splits dest!: guarded)
  then show ?thesis
  proof cases
    case (1 h r1)
    then show ?thesis unfolding guarded_def by (fastforce simp: refusal_def without_body_def)
  qed (simp add: refusal_def)
qed

lemma admin_entitled_earlier:
  assumes "admin_entitled E w2 n t cookie code u" and "db w2 = db w" "permission_cache w2 = permission_cache w"
    "clock_src w2 = clock_src w" "ticks w \<le> ticks w2"
  shows "admin_entitled E w n t cookie code u"
proof -
  have "recently_held w2 k \<Longrightarrow> recently_held w k" for k
    using assms(3-5) unfolding recently_held_def by (metis order_trans)
  with assms(1,2,4) show ?thesis unfolding admin_entitled_def by auto
qed

text \<open>The tenants in the cache are filed under their own ids.\<close>

definition cache_keyed :: "world \<Rightarrow> bool" where
  "cache_keyed w \<longleftrightarrow> (\<forall>k t e. tenant_cache w k = Some (t, e) \<longrightarrow> t_id t = k)"

lemma resolve_raw_tenant_Inr:
  assumes "run_state (resolve_raw_tenant A raw) w = (Inr t, w')" and "cache_keyed w"
  shows "uuid_parse (ap_libs A) raw = Some (t_id t) \<and> db w' = db w \<and> permission_cache w' = permission_cache w \<and>
    clock_src w' = clock_src w \<and> ticks w \<le> ticks w' \<and> ticks w' \<le> ticks w + 3"
proof -
  from assms(1) obtain k where k: "uuid_parse (ap_libs A) raw = Some k"
      "run_state (resolve_tenant (ap_config A) k) w = (Inr (Some t), w')"
    by (auto simp: resolve_raw_tenant_def run_rules)
  from resolve_tenant_Some [OF k(2)] assms(2) have "t_id t = k"
    by (auto simp: cache_keyed_def dest: find_SomeD)
  moreover from k(2) have "db w' = db w \<and> permission_cache w' = permission_cache w \<and>
      clock_src w' = clock_src w \<and> ticks w \<le> ticks w' \<and> ticks w' \<le> ticks w + 3"
    by (cases rule: resolve_tenantE) (auto simp: tick_def called_def)
  ultimately show ?thesis using k(1) by simp
qed

lemma resolve_raw_tenant_Inl:
  assumes "run_state (resolve_raw_tenant A raw) w = (Inl rs, w')"
  shows "db w' = db w \<and> refusal K rs"
proof -
  have "db w' = db w" using alwaysD [OF frame_resolve_raw_tenant assms, of id] by (simp add: frame_def)
  with assms show ?thesis
    by (auto simp: resolve_raw_tenant_def run_rules refusal_def unknown_tenant_def error_response_def json_response_def)
qed

lemma tenant_service_guarded:
  assumes "all_guarded S code rs" and "(pattern, methods) \<in> set rs" and "cache_keyed w"
    and run: "run_state (tenant_service S (raw # ps) methods correlation rq) w = (r, w')"
  shows "(\<exists>seg t u n. path_decode (ap_http (api_app S)) raw = Some seg \<and> uuid_parse (ap_libs (api_app S)) seg = Some t \<and>
        ticks w < n \<and> n \<le> ticks w + 4 \<and>
        admin_entitled (ap_libs (api_app S)) w n t
          (cookies_get (ap_http (api_app S)) (rq_headers rq) SSO_SESSION_COOKIE) code u) \<or>
     db w' = db w \<and> (\<exists>rs. r = Return rs \<and> refusal (ap_http (api_app S)) rs)"
proof (cases "decode_all (ap_http (api_app S)) (raw # ps)")
  case None
  with run show ?thesis by (auto simp: tenant_service_def Let_def run_rules refusal_def)
next
  case (Some decoded)
  then obtain seg qs where seg: "path_decode (ap_http (api_app S)) raw = Some seg" "decoded = seg # qs"
    by (auto split: option.splits bind_splits)
  obtain x w1 where x: "run_state (resolve_raw_tenant (api_app S) seg) w = (x, w1)"
    by (cases "run_state (resolve_raw_tenant (api_app S) seg) w")
  show ?thesis
  proof (cases x)
    case (Inl rs)
    with run Some seg x have "r = Return rs" "w' = w1"
      by (auto simp: tenant_service_def resolve_tenant_layer_def Let_def run_rules)
    with resolve_raw_tenant_Inl x Inl show ?thesis by blast
  next
    case (Inr t)
    let ?inc = "\<lparr>in_request = rq, in_correlation = correlation, in_tenant = t\<rparr>"
    from run Some seg x Inr have
        "run_state (by_method (ap_http (api_app S)) methods (rq_method rq) (\<lambda>h. h qs ?inc)) w1 = (r, w')"
      by (auto simp: tenant_service_def resolve_tenant_layer_def Let_def run_rules)
    note guard = by_method_guarded [OF assms(1,2) this]
    note w1 = resolve_raw_tenant_Inr [OF x [unfolded Inr] assms(3)]
    have earlier: "admin_entitled E w1 n k c code u \<Longrightarrow> admin_entitled E w n k c code u" for E n k c u
      by (erule admin_entitled_earlier) (use w1 in simp_all)
    show ?thesis
    proof (cases "db w' = db w1 \<and> (\<exists>rs. r = Return rs \<and> refusal (ap_http (api_app S)) rs)")
      case True
      with w1 show ?thesis by simp
    next
      case False
      with guard obtain u where "admin_entitled (ap_libs (api_app S)) w1 (ticks w1 + 1) (t_id t)
          (cookies_get (ap_http (api_app S)) (rq_headers rq) SSO_SESSION_COOKIE) code u" by auto
      note entitled = earlier [OF this]
      have "ticks w < ticks w1 + 1" "ticks w1 + 1 \<le> ticks w + 4" using w1 by linarith+
      with entitled seg(1) w1 show ?thesis by blast
    qed
  qed
qed

lemma routes_admin:
  assumes "rq_path rq = raw # ''admin'' # rest" and "api_pages S rq = None"
  shows "routes S i rq =
     (if raw = [] then State_Monad.return (Return (not_found_response (ap_http (api_app S))))
      else case find_route (tenant_scoped S) (''admin'' # rest) of
        Some (ps, methods) \<Rightarrow> tenant_service S (raw # ps) methods i rq
      | None \<Rightarrow> State_Monad.return (Return (not_found_response (ap_http (api_app S)))))"
  using assms
  by (auto simp: routes_def Let_def plain_single find_route_under internal_not_admin find_route_param split: option.splits)

text \<open>
  C8. The administration interface is closed to everyone without the permission. For a request whose path is
  under \<^verbatim>\<open>/{tenant}/admin\<close>: either the caller's session is live at the moment the access check reads the clock
  (one of the first readings of the request: before it, the tenant is looked up in the cache, or in the
  cache and the table, and then the session) and belongs to an active user who holds, for exactly
  the tenant named in the path, the permission of the route (\<open>system_admin\<close> for tenants and system settings,
  \<open>tenant_admin\<close> or \<open>system_admin\<close> for the rest), or nothing in the database changes and the answer is a
  refusal. No route of the table is an exception.
\<close>

theorem admin_endpoints_need_permission:
  assumes "rq_path rq = raw # ''admin'' # rest" and "api_pages S rq = None" and "cache_keyed w"
    and "run_state (build S rq) w = (r, w')"
  shows "(\<exists>seg t u n. path_decode (ap_http (api_app S)) raw = Some seg \<and> uuid_parse (ap_libs (api_app S)) seg = Some t \<and>
        ticks w < n \<and> n \<le> ticks w + 4 \<and>
        admin_entitled (ap_libs (api_app S)) w n t
          (cookies_get (ap_http (api_app S)) (rq_headers rq) SSO_SESSION_COOKIE) (required_code rest) u) \<or>
     db w' = db w \<and> (\<exists>rs. r = Return rs \<and> refusal (ap_http (api_app S)) rs)"
proof -
  from assms(4) obtain i w1 r1 where i: "w1 = w \<or> w1 = draw w" "run_state (routes S i rq) w1 = (r1, w')"
      "r = layered_outcome S i r1"
    by (rule run_build)
  from i(1) have w1: "db w1 = db w" "permission_cache w1 = permission_cache w" "clock_src w1 = clock_src w"
      "ticks w \<le> ticks w1" "tenant_cache w1 = tenant_cache w"
    by (auto simp: draw_def)
  then have keyed: "cache_keyed w1" using assms(3) by (simp add: cache_keyed_def)
  have missing: "db w' = db w \<and> (\<exists>rs. r = Return rs \<and> refusal (ap_http (api_app S)) rs)"
    if "routes S i rq = State_Monad.return (Return (not_found_response (ap_http (api_app S))))"
    using i(2,3) w1(1) unfolding that by (auto simp: run_rules layered_outcome_def refusal_def)
  show ?thesis
  proof (cases "raw = [] \<or> find_route (tenant_scoped S) (''admin'' # rest) = None")
    case True
    with missing routes_admin [OF assms(1,2), of i] show ?thesis by auto
  next
    case False
    then obtain ps methods where route: "find_route (tenant_scoped S) (''admin'' # rest) = Some (ps, methods)" "raw \<noteq> []"
      by auto
    with i(2) routes_admin [OF assms(1,2), of i]
    have run: "run_state (tenant_service S (raw # ps) methods i rq) w1 = (r1, w')" by simp
    from route(1) obtain rs pattern where "all_guarded S (required_code rest) rs" "(pattern, methods) \<in> set rs"
      unfolding find_admin_route
      by (auto split: option.splits dest: find_route_SomeD system_route_code tenant_route_code)
         (metis find_route_SomeD system_guarded system_route_code tenant_guarded tenant_route_code)+
    note guard = tenant_service_guarded [OF this keyed run]
    have "admin_entitled E w1 n t c code u \<Longrightarrow> admin_entitled E w n t c code u" for E n t c code u
      by (rule admin_entitled_earlier [OF _ w1(1-4)])
    moreover have "ticks w1 = ticks w" using i(1) by auto
    ultimately show ?thesis using guard i(3) w1(1) by (fastforce simp: layered_outcome_def)
  qed
qed

section \<open>Witnesses\<close>

definition sample_http :: http_libs where
  "sample_http =
     \<lparr>header_to_str = Some, header_value_ok = (\<lambda>v. True), header_rejection = empty_response 500,
      path_decode = Some, path_rejection = empty_response 400, not_found_response = empty_response 404,
      method_not_allowed = empty_response 405, fluent_message = (\<lambda>l k. None),
      uuid_simple = (\<lambda>u. replicate 32 CHR ''0''), parse_rfc3339 = (\<lambda>s. None), xml_events = (\<lambda>s. []),
      xml_escape = (\<lambda>s. s), percent_decode_utf8 = percent_decode_to_utf8\<rparr>"

definition sample_app_config :: app_config where
  "sample_app_config =
     \<lparr>cfg_issuer = ''https://idp'', cfg_bind_addr = ''0.0.0.0:8080'', cfg_database_url = ''mysql://db'',
      cfg_db_max_connections = 10, cfg_log_format = Json, cfg_auth_session_ttl = 600,
      cfg_authorization_code_ttl = 60, cfg_sso_idle_ttl = 28800, cfg_sso_absolute_ttl = 86400,
      cfg_access_token_ttl = 900, cfg_id_token_ttl = 3600, cfg_refresh_token_ttl = 2592000, cfg_clock_skew = 60,
      cfg_invitation_ttl = 604800, cfg_password_reset_ttl = 1800, cfg_email_verification_ttl = 86400,
      cfg_tenant_cache_ttl = 60, cfg_permission_cache_ttl = 60, cfg_cookie_secure = True,
      cfg_key_encryption_key = replicate 32 CHR ''k'', cfg_key_encryption_key_is_dev = False,
      cfg_key_rotation_lead_days = 7, cfg_trust_forwarded_headers = False, cfg_hsts_max_age = 31536000,
      cfg_internal_service_token = ''shared'', cfg_internal_service_token_is_dev = False,
      cfg_csrf_secret = replicate 32 CHR ''c'', cfg_csrf_secret_is_dev = False,
      cfg_public_web_base_url = ''https://web'', cfg_resolved_settings = []\<rparr>"

definition sample_app :: app where
  "sample_app = \<lparr>ap_libs = sample_libs, ap_config = sample_config, ap_http = sample_http, ap_settings = sample_app_config\<rparr>"

text \<open>A service at which every body is refused: what the witnesses need is decided before.\<close>

definition no_body :: "'a extractor" where
  "no_body rq = Inl (empty_response 400)"

definition sample_api :: api where
  "sample_api =
     \<lparr>api_app = sample_app,
      api_public = \<lparr>xp_authorize = no_body, xp_token = no_body, xp_introspect = no_body, xp_revoke = no_body,
        xp_logout = no_body, xp_register = no_body, xp_verify_email = no_body, xp_accept_invitation = no_body\<rparr>,
      api_internal = \<lparr>xi_authenticate = no_body, xi_account_change_password = no_body, xi_change_password = no_body,
        xi_admin_authenticate = no_body, xi_portal_authenticate = no_body, xi_portal_mfa = no_body,
        xi_portal_change_password = no_body, xi_admin_change_password = no_body, xi_logout = no_body,
        xi_password_reset_request = no_body, xi_password_reset_complete = no_body, xi_update_language = no_body,
        xi_profile = no_body, xi_update_name = no_body, xi_tenants = no_body, xi_consent_info = no_body,
        xi_consent_approve = no_body, xi_consent_deny = no_body, xi_totp_setup = no_body, xi_totp_confirm = no_body,
        xi_totp_delete = no_body, xi_verify_totp = no_body, xi_register_begin = no_body,
        xi_register_complete = no_body, xi_passkey_delete = no_body, xi_passkey_list = no_body,
        xi_login_begin = no_body, xi_login_complete = no_body\<rparr>,
      api_admin = \<lparr>x_create_tenant = no_body, x_update_tenant = no_body, x_tenant_admin_password_reset = no_body,
        x_update_tenant_settings = no_body, x_update_runtime_setting = no_body, x_update_system_settings = no_body,
        x_create_invitation = no_body, x_client_register = no_body, x_client_update = no_body,
        x_grant_permission = no_body, x_create_user = no_body, x_user_search = no_body, x_update_user_status = no_body,
        x_audit_log_query = no_body, x_saml_service_provider = no_body, x_saml_metadata_import = no_body,
        x_generate_signing_key = no_body\<rparr>,
      api_pages = (\<lambda>rq. None)\<rparr>"

definition sample_http_request :: "string \<Rightarrow> string list \<Rightarrow> headers \<Rightarrow> request" where
  "sample_http_request verb path hs =
     \<lparr>rq_method = verb, rq_path = path, rq_headers = hs, rq_query = None, rq_body = []\<rparr>"

lemma sample_api_simps [simp]:
  "api_app sample_api = sample_app" "api_pages sample_api rq = None" "ap_http sample_app = sample_http"
  "ap_settings sample_app = sample_app_config" "ap_libs sample_app = sample_libs"
  by (simp_all add: sample_api_def sample_app_def)

lemma sample_http_request_simps [simp]:
  "rq_path (sample_http_request m p hs) = p" "rq_headers (sample_http_request m p hs) = hs" "rq_method (sample_http_request m p hs) = m"
  by (simp_all add: sample_http_request_def)

theorem responses_carry_security_headers_witness:
  "\<exists>rs w'. run_state (build sample_api (sample_http_request ''GET'' [''healthz''] [])) sample_world = (Return rs, w') \<and>
     header_get (re_headers rs) ''x-frame-options'' = Some ''DENY'' \<and>
     header_get (re_headers rs) ''strict-transport-security'' = Some (''max-age='' @ show_int 31536000)"
proof -
  obtain r w' where run: "run_state (build sample_api (sample_http_request ''GET'' [''healthz''] [])) sample_world = (r, w')"
    by (cases "run_state (build sample_api (sample_http_request ''GET'' [''healthz''] [])) sample_world")
  then obtain i w1 r1 where i: "run_state (routes sample_api i (sample_http_request ''GET'' [''healthz''] [])) w1 = (r1, w')"
      "r = layered_outcome sample_api i r1"
    by (rule run_build)
  then obtain rs where r: "r = Return rs"
    by (auto simp: routes_def Let_def plain_routes_def by_method_def liveness_def reply_def run_rules layered_outcome_def)
  have "header_value_ok sample_http v" for v by (simp add: sample_http_def)
  with responses_carry_security_headers [OF run [unfolded r]] run r show ?thesis
    by (auto simp: Let_def sample_app_config_def)
qed

theorem internal_endpoints_need_token_witness:
  "\<exists>rs w'. run_state (build sample_api (sample_http_request ''POST'' [''internal'', ''logout'']
        [(SERVICE_TOKEN_HEADER, ''guess'')])) sample_world = (Return rs, w') \<and> re_status rs = 401"
proof -
  let ?rq = "sample_http_request ''POST'' [''internal'', ''logout''] [(SERVICE_TOKEN_HEADER, ''guess'')]"
  obtain r w' where run: "run_state (build sample_api ?rq) sample_world = (r, w')"
    by (cases "run_state (build sample_api ?rq) sample_world")
  have "\<exists>route. find_route (internal_routes sample_api) [''logout''] = Some route"
    by (simp add: internal_routes_def Let_def)
  then obtain route where "find_route (internal_routes sample_api) [''logout''] = Some route" by blast
  from internal_endpoints_need_token [OF this _ _ _ run] run show ?thesis
    by (auto simp: presented_token_def header_get_def sample_http_def sample_app_config_def unwrap_or_default_def)
qed

theorem admin_endpoints_need_permission_witness:
  "db (snd (run_state (build sample_api (sample_http_request ''DELETE'' [''u'', ''admin'', ''users'', ''uu''] [])) sample_world)) =
   db sample_world"
proof -
  let ?rq = "sample_http_request ''DELETE'' [''u'', ''admin'', ''users'', ''uu''] []"
  obtain r w' where run: "run_state (build sample_api ?rq) sample_world = (r, w')"
    by (cases "run_state (build sample_api ?rq) sample_world")
  have "cache_keyed sample_world" by (simp add: cache_keyed_def sample_world_def)
  from admin_endpoints_need_permission [OF _ _ this run] run show ?thesis
    by (auto simp: admin_entitled_def cookies_get_def header_get_all_def)
qed

theorem basic_credentials_roundtrip_witness:
  "parse_basic_credentials sample_app [(''authorization'', basic_header sample_libs ''my app'' ''s:3%'')] =
     Some (Some (''my+app'', ''s:3%'')) \<and>
   parse_basic_credentials sample_app [(''authorization'', basic_header sample_libs ''my app'' ''s:3%'')] \<noteq>
     Some (Some (''my app'', ''s:3%''))"
proof -
  have "percent_decode_utf8 (ap_http sample_app) s = percent_decode_to_utf8 s" for s by (simp add: sample_http_def)
  moreover have "from_utf8 ''my app'' = Inr ''my app''" "from_utf8 ''s:3%'' = Inr ''s:3%''" by code_simp+
  moreover have "b64_ok sample_app (form_urlencode ''my app'' @ '':'' @ form_urlencode ''s:3%'')" by code_simp
  ultimately show ?thesis
    using basic_credentials_roundtrip [of sample_app "''my app''" "''s:3%''"] by (simp add: plus_for_space_def)
qed

end
