(* ===== verification/WebTypes.thy ===== *)
theory WebTypes
  imports Http
begin

text \<open>
  The data of the web console: what the API answers on its internal endpoints
  (\<^verbatim>\<open>contracts/src/auth.rs\<close>) and its administration endpoints (\<^verbatim>\<open>web/src/admin_dto.rs\<close>,
  \<^verbatim>\<open>contracts/src/admin.rs\<close>), and the pages the console renders (\<^verbatim>\<open>web/src/templates.rs\<close>), one constructor
  per template with the fields of its struct. The language of a page stands for the messages it is
  rendered with.
\<close>

section \<open>Answers of the internal endpoints\<close>

datatype authenticate_reply =
    AuthSuccess string string nat "string option"
  | AuthConsentRequired string string nat
  | AuthMfaRequired string
  | AuthPasswordChangeRequired string
  | AuthEmailVerificationRequired
  | ReAuthSessionExpired
  | AuthCsrfMismatch
  | AuthRateLimited
  | AuthInvalidCredentials
  | AuthLocked
  | ReAuthInternal

datatype totp_setup_reply = SetupReady string string | SetupAlreadyConfigured | SetupSessionExpired | SetupInternal

datatype totp_confirm_reply =
    ConfirmDone | ConfirmInvalidCode | ConfirmNotFound | ConfirmAlreadyConfigured | ConfirmSessionExpired | ConfirmInternal

datatype totp_delete_reply = DeleteDone | DeleteSessionExpired | DeleteInternal

datatype verify_totp_reply =
    VerifySuccess string string nat "string option"
  | VerifyConsentRequired string string nat
  | VerifySessionExpired
  | VerifyCsrfMismatch
  | VerifyInvalidCode
  | ReVerifyInternal

datatype change_password_reply =
    ReChangeSuccess string string nat
  | ReChangeConsentRequired string string nat
  | ReChangeSessionExpired
  | ReChangeCsrfMismatch
  | ChangeInvalidCurrentPassword
  | ChangeWeakPassword
  | ReChangeInternal

datatype account_password_reply =
    AccountPasswordDone | AccountPasswordSessionExpired | AccountPasswordInvalidCurrent | AccountPasswordWeak
  | AccountPasswordInternal

datatype reset_request_reply = ReResetAccepted | ReResetUnavailable | ReResetRateLimited

datatype reset_complete_reply = ResetDone | ReResetInvalidOrExpired | ReResetWeakPassword | ReResetInternal

datatype admin_authenticate_reply =
    AdminAuthSuccess string nat
  | AdminAuthRateLimited
  | AdminAuthInvalidCredentials
  | AdminAuthLocked
  | AdminAuthForbidden
  | AdminAuthPasswordChangeRequired string
  | AdminAuthInternal

datatype admin_change_reply =
    AdminChangeSuccess string nat
  | AdminChangeRateLimited
  | AdminChangeInvalidCredentials
  | AdminChangeLocked
  | AdminChangeForbidden
  | AdminChangeWeakPassword
  | AdminChangeInternal

datatype portal_authenticate_reply =
    PortalAuthSuccess string nat "string option"
  | PortalAuthMfaRequired string
  | PortalAuthEmailVerificationRequired
  | PortalAuthPasswordChangeRequired string
  | PortalAuthRateLimited
  | PortalAuthInvalidCredentials
  | PortalAuthLocked
  | PortalAuthInternal

datatype portal_change_reply =
    RePortalChangeSuccess string nat "string option"
  | RePortalChangeMfaRequired string
  | RePortalChangeEmailVerificationRequired
  | RePortalChangeRateLimited
  | RePortalChangeInvalidCredentials
  | RePortalChangeLocked
  | RePortalChangeWeakPassword
  | RePortalChangeInternal

datatype portal_mfa_reply =
    RePortalMfaSuccess string nat "string option" | PortalMfaInvalidCode | PortalMfaTicketExpired | RePortalMfaRateLimited
  | RePortalMfaInternal

text \<open>Of the consent page: the session, the name and the id of the client, and the scopes.\<close>

datatype consent_info_reply = ConsentInfo string string string "string list" | ConsentInfoSessionExpired

datatype consent_reply = ConsentRedirect string | ReConsentSessionExpired | ReConsentInternal

text \<open>An answer that is passed on to the browser unchanged keeps its JSON.\<close>

datatype register_begin_reply = BeginOk json | BeginSessionExpired | BeginInternal
datatype register_complete_reply = CompleteOther json | CompleteSessionExpired | CompleteInternal

record passkey_info =
  pi_id :: string
  pi_name :: string
  pi_created_at :: string
  pi_last_used_at :: "string option"

datatype passkey_delete_reply = PasskeyDeleted | PasskeyDeleteSessionExpired | PasskeyDeleteInternal
datatype passkey_list_reply = PasskeyList "passkey_info list" | PasskeyListSessionExpired | PasskeyListInternal

datatype passkey_login_reply =
    RePasskeySuccess string string nat
  | RePasskeyConsentRequired string string nat
  | RePasskeyChallengeNotFound
  | RePasskeySessionExpired
  | RePasskeyInvalidCredential
  | RePasskeyInternal

datatype update_language_reply = LanguageDone | ReLanguageSessionExpired | LanguageInvalid | ReLanguageInternal

datatype profile_reply = ReProfile "string option" "string option" string | ReProfileSessionExpired | ReProfileInternal

datatype update_name_reply = NameDone | ReNameSessionExpired | ReNameInvalid | ReNameInternal

record tenant_summary =
  ts_tenant_id :: string
  ts_name :: string
  ts_membership_type :: string

datatype tenants_reply = TenantsList "tenant_summary list" | ReTenantsSessionExpired | ReTenantsInternal

section \<open>Answers of the administration endpoints\<close>

record whoami_view =
  wv_user_id :: string
  wv_name :: "string option"
  wv_preferred_username :: "string option"

record client_view =
  cv_id :: string
  cv_client_id :: string
  cv_client_type :: string
  cv_client_status :: string
  cv_app_name :: string
  cv_redirect_uris :: "string list"
  cv_grant_types :: "string list"
  cv_response_types :: "string list"
  cv_scopes :: "string list"
  cv_token_endpoint_auth_method :: string
  cv_require_pkce :: bool
  cv_created_at :: string
  cv_updated_at :: string

record client_created_view =
  ccv_client :: client_view
  ccv_client_secret :: "string option"

record client_secret_view =
  csv_client_id :: string
  csv_client_secret :: string

record audit_log_view =
  av_id :: int
  av_event_type :: string
  av_occurred_at :: string
  av_user_id :: "string option"
  av_client_id :: "string option"
  av_ip_address :: "string option"
  av_user_agent :: "string option"
  av_result :: string
  av_reason :: "string option"
  av_correlation_id :: string

record signing_key_view =
  skv_kid :: string
  skv_algorithm :: string
  skv_status :: string
  skv_not_before :: string
  skv_not_after :: string
  skv_created_at :: string

record saml_provider_view =
  spv_id :: string
  spv_display_name :: string
  spv_entity_id :: string
  spv_acs_url :: string
  spv_name_id_format :: string
  spv_x509_certificate :: "string option"
  spv_enabled :: bool

record metadata_import_view =
  miv_display_name :: string
  miv_entity_id :: string
  miv_acs_url :: string
  miv_name_id_format :: string
  miv_x509_certificate :: string

record user_created_view =
  ucv_user_id :: string
  ucv_sub :: string
  ucv_generated_password :: string

record member_view =
  mv_user_id :: string
  mv_email :: "string option"
  mv_name :: "string option"
  mv_membership_type :: string
  mv_status :: string
  mv_user_status :: "string option"

record password_reset_view =
  prv_user_id :: string
  prv_generated_password :: string

record invitation_created_view =
  icv_token :: string
  icv_expires_at :: string
  icv_email_sent :: bool
  icv_invitee_email :: string

record tenant_view =
  tv_id :: string
  tv_name :: string
  tv_self_registration_enabled :: bool
  tv_status :: string

record tenant_created_view =
  tcv_id :: string
  tcv_parent_tenant_id :: "string option"
  tcv_name :: string
  tcv_self_registration_enabled :: bool
  tcv_status :: string
  tcv_created_at :: string
  tcv_updated_at :: string

record runtime_setting_view =
  rsv_key :: string
  rsv_owner :: string
  rsv_source :: string
  rsv_secret :: bool
  rsv_restart_required :: bool
  rsv_default_risk :: string
  rsv_status :: string
  rsv_reason :: string
  rsv_description :: string
  rsv_value :: "string option"
  rsv_default_value :: "string option"
  rsv_db_value :: "string option"
  rsv_editable :: bool

record system_settings_view =
  ssv_smtp_host :: string
  ssv_smtp_port :: "int option"
  ssv_smtp_username :: string
  ssv_smtp_password_set :: bool
  ssv_smtp_from_address :: string
  ssv_smtp_use_tls :: bool
  ssv_runtime_settings :: "runtime_setting_view list"

record user_summary_view =
  usv_id :: string
  usv_sub :: string
  usv_email :: string
  usv_email_verified :: bool
  usv_preferred_username :: "string option"
  usv_name :: "string option"
  usv_status :: string

record client_status_entry =
  cst_client_id :: string
  cst_app_name :: string
  cst_status :: string
  cst_scopes :: "string list"
  cst_last_used_at :: "string option"

section \<open>Pages\<close>

record client_form_values =
  fv_app_name :: string
  fv_client_type :: string
  fv_redirect_uris :: string
  fv_scopes :: string
  fv_require_pkce :: bool
  fv_client_status :: string

record saml_form_values =
  sf_display_name :: string
  sf_entity_id :: string
  sf_acs_url :: string
  sf_name_id_format :: string
  sf_x509_certificate :: string
  sf_enabled :: bool

text \<open>What every page of the administration console has: the language, the prefix of the tenant, the administrator.\<close>

record chrome =
  ch_locale :: api_locale
  ch_tenant :: string
  ch_admin :: string

datatype (plugins only: code size) console_page =
    ConsoleHome "string option"
  | ConsoleNotice "string option" string bool "string option" string
  | AuditLogs bool string string string string string string "audit_log_view list" "string option" "string option"
  | ClientStatus "client_status_entry list"
  | UsersPermissions user_summary_view "string list" "string list" string "string option"
  | UserForm string "string option" string string string
  | UserCreatedPage string string
  | MembersList "member_view list" string string "string option"
  | PasswordResetResult string string string string
  | InvitationForm string "string option" string
  | InvitationCreated string string bool string
  | ClientsList "client_view list"
  | ClientForm string "string option" string string bool client_form_values
  | ClientDetail client_view string
  | ClientSecret string string "string option"
  | SigningKeysList "signing_key_view list" string "string option"
  | TenantsConsole "tenant_view list" string "string option"
  | SwitchTenant "tenant_summary list" string bool
  | TenantCreatedPage tenant_created_view
  | AdminSettings string string string bool string bool "string option" "system_settings_view option"
  | SamlServiceProvidersConsole string bool bool bool bool "string option" "saml_provider_view list" saml_form_values

datatype (plugins only: code size) web_page =
    MessagePage string string
  | LoginTemplate api_locale string string "string option"
  | PortalLogin api_locale string string "string option"
  | PortalMfa api_locale string string "string option"
  | ConsentTemplate api_locale string string string "string list"
  | PasswordChangeTemplate api_locale string "string option"
  | ForcedPasswordChange api_locale string string string "string option"
  | ConsoleLogin api_locale string "string option"
  | TotpSetupTemplate api_locale string string "string option"
  | TotpVerifyTemplate api_locale string "string option"
  | ForgotPassword api_locale bool "string option"
  | PasswordResetPage api_locale string bool string bool "string option"
  | InvitationAccept api_locale bool string string bool "string option"
  | VerifyEmail api_locale bool string bool "string option"
  | UserSettings api_locale string string string string "string option" "string option" bool
  | PasskeyListTemplate api_locale string "passkey_info list"
  | PasskeyRegisterTemplate api_locale string "string option"
  | ConsolePage chrome console_page

end
