(* ===== verification/Web.thy ===== *)
theory Web
  imports WebTypes
begin

text \<open>
  What the handlers of the web console share: its configuration (\<^verbatim>\<open>web/src/config.rs\<close>), its CSRF tokens
  (\<^verbatim>\<open>csrf.rs\<close>), languages (\<^verbatim>\<open>i18n.rs\<close>), the reading of forms (\<^verbatim>\<open>dto.rs\<close>) and the helpers of
  \<^verbatim>\<open>handlers/mod.rs\<close>. The console keeps no state of its own: what a handler does is the requests it sends to
  the API and the response it gives. \<open>web_world\<close> records the former, and holds what the environment supplies:
  the outcome of every request, which is the answer of the API or the error of the connection, and random
  identifiers. Nothing is assumed of either.

  Cookies, request ids, and the reading of \<open>Accept-Language\<close> are the same code in both crates; the
  definitions of Http.thy are used for both.
\<close>

section \<open>State\<close>

record api_call =
  cl_method :: string
  cl_url :: string
  cl_headers :: headers
  cl_query :: "(string \<times> string) list"
  cl_body :: "json option"

record web_world =
  ww_sent :: "api_call list"
  ww_net :: "nat \<Rightarrow> string + response"
  ww_uuids :: "nat \<Rightarrow> uuid"
  ww_drawn :: nat

definition send_call :: "api_call \<Rightarrow> (web_world, string + response) state" where
  "send_call c = State (\<lambda>w. (ww_net w (length (ww_sent w)), w\<lparr>ww_sent := ww_sent w @ [c]\<rparr>))"

definition web_new_v4 :: "(web_world, uuid) state" where
  "web_new_v4 = State (\<lambda>w. (ww_uuids w (ww_drawn w), w\<lparr>ww_drawn := Suc (ww_drawn w)\<rparr>))"

section \<open>Configuration\<close>

record web_config =
  wc_bind_addr :: string
  wc_api_base_url :: string
  wc_internal_service_token :: string
  wc_internal_service_token_is_dev :: bool
  wc_csrf_secret :: string
  wc_csrf_secret_is_dev :: bool
  wc_cookie_secure :: bool
  wc_auth_session_ttl_secs :: int
  wc_hsts_max_age :: int
  wc_log_format :: log_format

definition web_env_or :: "environment \<Rightarrow> string \<Rightarrow> string \<Rightarrow> string" where
  "web_env_or env key fallback = (case env_lookup env key of Some v \<Rightarrow> v | None \<Rightarrow> fallback)"

definition web_env_parse :: "(string \<Rightarrow> string + 'a) \<Rightarrow> environment \<Rightarrow> string \<Rightarrow> 'a \<Rightarrow> string + 'a" where
  "web_env_parse parse env key fallback =
     (case env_lookup env key of
        Some v \<Rightarrow> map_sum (\<lambda>e. ''invalid value for '' @ key @ '': '' @ e) id (parse v)
      | None \<Rightarrow> Inr fallback)"

definition web_internal_token :: "environment \<Rightarrow> string \<times> bool" where
  "web_internal_token env =
     (case env_lookup env ''INTERNAL_SERVICE_TOKEN'' of
        Some v \<Rightarrow> (v, False)
      | None \<Rightarrow> (''idp-dev-insecure-internal-service-token'', True))"

definition web_load_csrf_secret :: "libs \<Rightarrow> environment \<Rightarrow> string + (string \<times> bool)" where
  "web_load_csrf_secret E env =
     (case env_lookup env ''CSRF_SECRET'' of
        None \<Rightarrow> Inr (''idp-dev-insecure-csrf-secret-xxx'', True)
      | Some raw \<Rightarrow>
          (let v = trim raw in
           if str_contains v ''CHANGE-ME'' then
             Inl (''CSRF_SECRET is still the .env template placeholder '' @ [CHR 0x22] @ ''CHANGE-ME'' @ [CHR 0x22] @
                  ''; replace it with a real value (generate with `openssl rand -base64 32`, shared with api)'')
           else (case b64std_decode E v of
             Inl e \<Rightarrow> Inl (''CSRF_SECRET must be base64 (generate with `openssl rand -base64 32`): '' @ e)
           | Inr bytes \<Rightarrow>
               if length bytes = 32 then Inr (bytes, False)
               else Inl ''CSRF_SECRET must decode to exactly 32 bytes'')))"

definition web_ensure_production_secrets :: "string \<Rightarrow> bool \<Rightarrow> bool \<Rightarrow> string + unit" where
  "web_ensure_production_secrets issuer token_is_dev csrf_is_dev =
     (if starts_with issuer ''https://'' \<and> token_is_dev then
        Inl (''ISSUER is https ('' @ issuer @ '') but INTERNAL_SERVICE_TOKEN is not set; refusing to start with the built-in development token. Set INTERNAL_SERVICE_TOKEN (shared with api) in production.'')
      else if starts_with issuer ''https://'' \<and> csrf_is_dev then
        Inl (''ISSUER is https ('' @ issuer @ '') but CSRF_SECRET is not set; refusing to start with the built-in development secret. Set CSRF_SECRET (base64, 32 bytes, shared with api) in production.'')
      else Inr ())"

definition web_from_env :: "libs \<Rightarrow> environment \<Rightarrow> string + web_config" where
  "web_from_env E env =
     (let issuer = normalize_issuer (web_env_or env ''ISSUER'' ''http://localhost:8080'') in
      sum_bind (web_env_parse from_str_bool env ''COOKIE_SECURE'' (starts_with issuer ''https://'')) (\<lambda>cookie_secure.
      let (token, token_is_dev) = web_internal_token env in
      sum_bind (web_load_csrf_secret E env) (\<lambda>(csrf_secret, csrf_is_dev).
      sum_bind (web_ensure_production_secrets issuer token_is_dev csrf_is_dev) (\<lambda>_.
      sum_bind (web_env_parse from_str_u64 env ''AUTH_SESSION_TTL_SECS'' 600) (\<lambda>auth_session_ttl_secs.
      sum_bind (web_env_parse from_str_u64 env ''HSTS_MAX_AGE'' 0) (\<lambda>hsts_max_age.
      Inr \<lparr>wc_bind_addr = web_env_or env ''WEB_BIND_ADDR'' ''0.0.0.0:8081'',
           wc_api_base_url = trim_end_slashes (web_env_or env ''API_BASE_URL'' ''http://localhost:8080''),
           wc_internal_service_token = token, wc_internal_service_token_is_dev = token_is_dev,
           wc_csrf_secret = csrf_secret, wc_csrf_secret_is_dev = csrf_is_dev,
           wc_cookie_secure = cookie_secure, wc_auth_session_ttl_secs = auth_session_ttl_secs,
           wc_hsts_max_age = hsts_max_age,
           wc_log_format = (if map ascii_lower (web_env_or env ''LOG_FORMAT'' ''json'') = ''pretty'' then Pretty else Json)\<rparr>))))))"

section \<open>Third-party code\<close>

text \<open>
  \<^item> serde: one reader per type of answer; the error is its text.
  \<^item> axum: \<open>wb_form\<close>, \<open>wb_query\<close> and \<open>wb_multipart\<close> read the pairs of a form or a query and the parts of a
    multipart body, or answer with a rejection; \<open>wb_field_rejection\<close> answers when a field that is needed is
    missing or there twice. The JSON bodies of the passkey endpoints are read by their own extractors.
  \<^item> askama and qrcode: \<open>wb_render\<close> renders a page (with the fixed page of \<^verbatim>\<open>render\<close> when that fails),
    \<open>wb_qr\<close> draws a code (empty when it fails).
  \<^item> url: \<open>wb_url\<close>, the scheme and host of an absolute address.
  \<^item> multer: \<open>wb_text\<close> decodes the text of a part, with replacement characters for what is not UTF-8.
  \<^item> std: \<open>wb_utf8\<close>, \<open>String::from_utf8\<close>, and \<open>wb_lowercase\<close>, \<open>str::to_lowercase\<close>, which follows the tables of Unicode.
  \<^item> http: \<open>wb_status\<close>, a status as text, for the log.
\<close>

type_synonym 'a reader = "response \<Rightarrow> string + 'a"

record internal_codecs =
  rd_authenticate :: "authenticate_reply reader"
  rd_totp_setup :: "totp_setup_reply reader"
  rd_totp_confirm :: "totp_confirm_reply reader"
  rd_totp_delete :: "totp_delete_reply reader"
  rd_verify_totp :: "verify_totp_reply reader"
  rd_change_password :: "change_password_reply reader"
  rd_account_password :: "account_password_reply reader"
  rd_reset_request :: "reset_request_reply reader"
  rd_reset_complete :: "reset_complete_reply reader"
  rd_admin_authenticate :: "admin_authenticate_reply reader"
  rd_admin_change :: "admin_change_reply reader"
  rd_portal_authenticate :: "portal_authenticate_reply reader"
  rd_portal_change :: "portal_change_reply reader"
  rd_portal_mfa :: "portal_mfa_reply reader"
  rd_consent_info :: "consent_info_reply reader"
  rd_consent_approve :: "consent_reply reader"
  rd_consent_deny :: "consent_reply reader"
  rd_register_begin :: "register_begin_reply reader"
  rd_register_complete :: "register_complete_reply reader"
  rd_passkey_delete :: "passkey_delete_reply reader"
  rd_passkey_list :: "passkey_list_reply reader"
  rd_login_begin :: "json reader"
  rd_passkey_login :: "passkey_login_reply reader"
  rd_update_language :: "update_language_reply reader"
  rd_profile :: "profile_reply reader"
  rd_update_name :: "update_name_reply reader"
  rd_tenants_reply :: "tenants_reply reader"

record admin_codecs =
  rd_whoami :: "whoami_view reader"
  rd_clients :: "client_view list reader"
  rd_client :: "client_view reader"
  rd_client_created :: "client_created_view reader"
  rd_client_secret :: "client_secret_view reader"
  rd_user :: "user_summary_view reader"
  rd_user_created :: "user_created_view reader"
  rd_user_permissions :: "string list reader"
  rd_available_permissions :: "string list reader"
  rd_password_reset :: "password_reset_view reader"
  rd_members :: "member_view list reader"
  rd_invitation :: "invitation_created_view reader"
  rd_audit_logs :: "audit_log_view list reader"
  rd_client_status :: "client_status_entry list reader"
  rd_saml_providers :: "saml_provider_view list reader"
  rd_saml_provider :: "saml_provider_view reader"
  rd_metadata_import :: "metadata_import_view reader"
  rd_signing_keys :: "signing_key_view list reader"
  rd_signing_key :: "signing_key_view reader"
  rd_tenants :: "tenant_view list reader"
  rd_tenant :: "tenant_view reader"
  rd_tenant_created :: "tenant_created_view reader"
  rd_system_settings :: "system_settings_view reader"
  rd_error_message :: "string reader"

type_synonym fields = "(string \<times> string) list"

text \<open>A part of a multipart body: its name and its bytes, or the failure to read it; \<open>None\<close> when the body itself cannot be read.\<close>

type_synonym part = "(string option \<times> string option) option"

record web =
  wb_libs :: libs
  wb_http :: http_libs
  wb_config :: web_config
  wb_internal :: internal_codecs
  wb_admin :: admin_codecs
  wb_form :: "fields extractor"
  wb_query :: "fields extractor"
  wb_register_begin :: "string extractor"
  wb_register_complete :: "(string \<times> string \<times> json) extractor"
  wb_login_complete :: "(string \<times> json) extractor"
  wb_multipart :: "part list extractor"
  wb_field_rejection :: response
  wb_utf8 :: "string \<Rightarrow> string option"
  wb_text :: "string \<Rightarrow> string"
  wb_render :: "web_page \<Rightarrow> string"
  wb_qr :: "string \<Rightarrow> string"
  wb_url :: "string \<Rightarrow> (string \<times> string option) option"
  wb_lowercase :: "string \<Rightarrow> string"
  wb_status :: "nat \<Rightarrow> string"

text \<open>A request on its way to a handler below \<^verbatim>\<open>/{tenant_id}\<close>, with the request id and the id of the tenant as it is in the path.\<close>

record web_incoming =
  wi_request :: request
  wi_correlation :: string
  wi_tenant :: string

type_synonym web_handler = "web_incoming \<Rightarrow> (web_world, response) state"

section \<open>Forms\<close>

definition values_of :: "fields \<Rightarrow> string \<Rightarrow> string list" where
  "values_of fs name = map snd (filter (\<lambda>f. fst f = name) fs)"

text \<open>A field as serde reads it: one that must be there, one with the default, and an \<open>Option\<close>; a field given twice is an error.\<close>

definition field :: "fields \<Rightarrow> string \<Rightarrow> string option" where
  "field fs name = (case values_of fs name of [v] \<Rightarrow> Some v | _ \<Rightarrow> None)"

definition field_default :: "fields \<Rightarrow> string \<Rightarrow> string option" where
  "field_default fs name = (case values_of fs name of [] \<Rightarrow> Some [] | [v] \<Rightarrow> Some v | _ \<Rightarrow> None)"

definition field_option :: "fields \<Rightarrow> string \<Rightarrow> string option option" where
  "field_option fs name = (case values_of fs name of [] \<Rightarrow> Some None | [v] \<Rightarrow> Some (Some v) | _ \<Rightarrow> None)"

definition with_form ::
  "web \<Rightarrow> (fields \<Rightarrow> 'f option) \<Rightarrow> web_incoming \<Rightarrow> ('f \<Rightarrow> (web_world, response) state) \<Rightarrow> (web_world, response) state" where
  "with_form W read i f =
     (case wb_form W (wi_request i) of
        Inl rejection \<Rightarrow> State_Monad.return rejection
      | Inr fs \<Rightarrow> (case read fs of Some form \<Rightarrow> f form | None \<Rightarrow> State_Monad.return (wb_field_rejection W)))"

definition with_query ::
  "web \<Rightarrow> (fields \<Rightarrow> 'f option) \<Rightarrow> web_incoming \<Rightarrow> ('f \<Rightarrow> (web_world, response) state) \<Rightarrow> (web_world, response) state" where
  "with_query W read i f =
     (case wb_query W (wi_request i) of
        Inl rejection \<Rightarrow> State_Monad.return rejection
      | Inr fs \<Rightarrow> (case read fs of Some query \<Rightarrow> f query | None \<Rightarrow> State_Monad.return (wb_field_rejection W)))"

section \<open>Tokens, languages and responses\<close>

definition admin_csrf_token :: "web \<Rightarrow> string \<Rightarrow> string" where
  "admin_csrf_token W csrf_id = hmac_sha256_hex (wb_libs W) (wc_csrf_secret (wb_config W)) (''admin-csrf:'' @ csrf_id)"

definition console_csrf_token :: "web \<Rightarrow> string \<Rightarrow> string" where
  "console_csrf_token W sso_session_id =
     hmac_sha256_hex (wb_libs W) (wc_csrf_secret (wb_config W)) (''console-csrf:'' @ sso_session_id)"

definition portal_csrf_token :: "web \<Rightarrow> string \<Rightarrow> string" where
  "portal_csrf_token W csrf_id = hmac_sha256_hex (wb_libs W) (wc_csrf_secret (wb_config W)) (''portal-csrf:'' @ csrf_id)"

definition ADMIN_CSRF_COOKIE :: string where
  "ADMIN_CSRF_COOKIE = ''admin_csrf_id''"

definition PORTAL_CSRF_COOKIE :: string where
  "PORTAL_CSRF_COOKIE = ''portal_csrf_id''"

definition PORTAL_MFA_COOKIE :: string where
  "PORTAL_MFA_COOKIE = ''portal_mfa_ticket''"

definition LANG_COOKIE :: string where
  "LANG_COOKIE = ''lang''"

definition LANG_COOKIE_MAX_AGE_SECS :: nat where
  "LANG_COOKIE_MAX_AGE_SECS = 31536000"

definition web_cookie :: "web \<Rightarrow> web_incoming \<Rightarrow> string \<Rightarrow> string option" where
  "web_cookie W i name = cookies_get (wb_http W) (rq_headers (wi_request i)) name"

definition set_cookie :: "web \<Rightarrow> string \<Rightarrow> string \<Rightarrow> nat \<Rightarrow> string" where
  "set_cookie W name v max_age_secs = cookies_build name v max_age_secs (wc_cookie_secure (wb_config W))"

definition clear_cookie :: "web \<Rightarrow> string \<Rightarrow> string" where
  "clear_cookie W name = cookies_expire name (wc_cookie_secure (wb_config W))"

definition locale_from_tag :: "string \<Rightarrow> api_locale option" where
  "locale_from_tag tag =
     (let t = map ascii_lower (trim tag) in
      if t = ''ja'' then Some LocaleJa else if t = ''en'' then Some LocaleEn else None)"

fun locale_as_tag :: "api_locale \<Rightarrow> string" where
  "locale_as_tag LocaleEn = ''en''"
| "locale_as_tag LocaleJa = ''ja''"

definition locale_resolve :: "string option \<Rightarrow> string option \<Rightarrow> string option \<Rightarrow> string option \<Rightarrow> api_locale" where
  "locale_resolve query_lang user_language cookie_lang accept_language =
     (case find_map (\<lambda>t. Option.bind t locale_from_tag) [query_lang, user_language, cookie_lang] of
        Some l \<Rightarrow> l
      | None \<Rightarrow> from_accept_language accept_language)"

definition accept_language_of :: "web \<Rightarrow> web_incoming \<Rightarrow> string option" where
  "accept_language_of W i =
     Option.bind (header_get (rq_headers (wi_request i)) ''accept-language'') (header_to_str (wb_http W))"

definition web_locale :: "web \<Rightarrow> web_incoming \<Rightarrow> api_locale" where
  "web_locale W i = locale_resolve None None (web_cookie W i LANG_COOKIE) (accept_language_of W i)"

definition web_message :: "web \<Rightarrow> web_incoming \<Rightarrow> string \<Rightarrow> string" where
  "web_message W i key = api_message (wb_http W) (web_locale W i) key"

text \<open>The address and the browser that are passed on to the API.\<close>

definition forwarded_ip :: "web \<Rightarrow> web_incoming \<Rightarrow> string option" where
  "forwarded_ip W i = ip_address (request_context_of (wb_http W) (rq_headers (wi_request i)) (wi_correlation i) True)"

definition forwarded_user_agent :: "web \<Rightarrow> web_incoming \<Rightarrow> string option" where
  "forwarded_user_agent W i = user_agent (request_context_of (wb_http W) (rq_headers (wi_request i)) (wi_correlation i) True)"

definition web_found :: "web \<Rightarrow> string \<Rightarrow> response" where
  "web_found W location = found (wb_http W) location"

definition see_other :: "web \<Rightarrow> string \<Rightarrow> response" where
  "see_other W location =
     (if header_value_ok (wb_http W) location
      then \<lparr>re_status = 303, re_headers = [(''location'', location)], re_body = NoBody\<rparr>
      else header_rejection (wb_http W))"

definition html :: "nat \<Rightarrow> string \<Rightarrow> response" where
  "html status text =
     \<lparr>re_status = status, re_headers = [(''content-type'', ''text/html; charset=utf-8'')], re_body = HtmlBody text\<rparr>"

definition page_response :: "web \<Rightarrow> nat \<Rightarrow> web_page \<Rightarrow> response" where
  "page_response W status p = html status (wb_render W p)"

text \<open>A response with cookies appended to it.\<close>

definition with_cookies :: "web \<Rightarrow> string list \<Rightarrow> response \<Rightarrow> response" where
  "with_cookies W cs rs =
     (if list_all (header_value_ok (wb_http W)) cs
      then rs\<lparr>re_headers := re_headers rs @ map (\<lambda>c. (''set-cookie'', c)) cs\<rparr>
      else header_rejection (wb_http W))"

definition tenant_prefix :: "web_incoming \<Rightarrow> string" where
  "tenant_prefix i = ''/'' @ wi_tenant i"

definition redirect_under :: "web \<Rightarrow> web_incoming \<Rightarrow> string \<Rightarrow> response" where
  "redirect_under W i path = web_found W (tenant_prefix i @ path)"

definition message_page :: "web \<Rightarrow> web_incoming \<Rightarrow> string \<Rightarrow> nat \<Rightarrow> string \<Rightarrow> response" where
  "message_page W i title_key status key =
     page_response W status (MessagePage (web_message W i title_key) (web_message W i key))"

end
