(* ===== verification/WebClient.thy ===== *)
theory WebClient
  imports Web
begin

text \<open>
  The client of the API that the web console has (\<^verbatim>\<open>web/src/api_client.rs\<close>): one definition per method. A request
  to the administration API carries the cookie of the session and the id of the request, one to the internal
  endpoints the service token. The body of an internal request is given by the fields that the handler sets;
  those of the tenant, the address and the browser are added here where the request has them.
\<close>

section \<open>The client of the API\<close>

datatype admin_api_error =
    ApiUnauthorizedError | ApiForbiddenError | ApiNotFoundError | ApiValidationError string | ApiConflictError string
  | ApiTransportError string

definition is_success :: "response \<Rightarrow> bool" where
  "is_success rs \<longleftrightarrow> 200 \<le> re_status rs \<and> re_status rs < 300"

definition internal_headers :: "web \<Rightarrow> string \<Rightarrow> headers" where
  "internal_headers W correlation =
     [(''x-internal-auth-token'', wc_internal_service_token (wb_config W)), (REQUEST_ID_HEADER, correlation)]"

definition post_internal ::
  "web \<Rightarrow> string \<Rightarrow> string \<Rightarrow> json \<Rightarrow> 'r reader \<Rightarrow> (web_world, string + 'r) state" where
  "post_internal W path correlation body read = do {
     r \<leftarrow> send_call \<lparr>cl_method = ''POST'', cl_url = wc_api_base_url (wb_config W) @ path,
                     cl_headers = internal_headers W correlation, cl_query = [], cl_body = Some body\<rparr>;
     State_Monad.return (case r of
       Inl e \<Rightarrow> Inl (''request to api '' @ path @ '' failed: '' @ e)
     | Inr rs \<Rightarrow>
         if \<not> is_success rs then Inl (''api '' @ path @ '' returned unexpected status '' @ wb_status W (re_status rs))
         else map_sum (\<lambda>e. ''failed to decode api '' @ path @ '' response: '' @ e) id (read rs))
   }"

definition admin_headers :: "string \<Rightarrow> string \<Rightarrow> headers" where
  "admin_headers correlation sso =
     [(REQUEST_ID_HEADER, correlation), (''cookie'', SSO_SESSION_COOKIE @ ''='' @ sso)]"

definition admin_call ::
  "web \<Rightarrow> string \<Rightarrow> web_incoming \<Rightarrow> string \<Rightarrow> string \<Rightarrow> (string \<times> string) list \<Rightarrow> json option \<Rightarrow> api_call" where
  "admin_call W verb i path sso query body =
     \<lparr>cl_method = verb, cl_url = wc_api_base_url (wb_config W) @ ''/'' @ wi_tenant i @ path,
      cl_headers = admin_headers (wi_correlation i) sso, cl_query = query, cl_body = body\<rparr>"

definition admin_error :: "web \<Rightarrow> response \<Rightarrow> admin_api_error" where
  "admin_error W rs =
     (let message = (case rd_error_message (wb_admin W) rs of Inr m \<Rightarrow> m | Inl _ \<Rightarrow> []) in
      if re_status rs = 401 then ApiUnauthorizedError
      else if re_status rs = 403 then ApiForbiddenError
      else if re_status rs = 404 then ApiNotFoundError
      else if re_status rs = 400 then ApiValidationError message
      else if re_status rs = 409 then ApiConflictError message
      else ApiTransportError (''unexpected status '' @ wb_status W (re_status rs)))"

definition handle_admin_response :: "web \<Rightarrow> string \<Rightarrow> 'r reader \<Rightarrow> response \<Rightarrow> admin_api_error + 'r" where
  "handle_admin_response W path read rs =
     (if is_success rs then map_sum (\<lambda>e. ApiTransportError (''decode '' @ path @ '': '' @ e)) id (read rs)
      else Inl (admin_error W rs))"

definition admin_send ::
  "web \<Rightarrow> string \<Rightarrow> web_incoming \<Rightarrow> string \<Rightarrow> string \<Rightarrow> json option \<Rightarrow> 'r reader \<Rightarrow>
   (web_world, admin_api_error + 'r) state" where
  "admin_send W verb i path sso body read = do {
     r \<leftarrow> send_call (admin_call W verb i path sso [] body);
     State_Monad.return (case r of
       Inl e \<Rightarrow> Inl (ApiTransportError e)
     | Inr rs \<Rightarrow> handle_admin_response W path read rs)
   }"

definition admin_send_no_content ::
  "web \<Rightarrow> string \<Rightarrow> web_incoming \<Rightarrow> string \<Rightarrow> string \<Rightarrow> json option \<Rightarrow> (web_world, admin_api_error + unit) state" where
  "admin_send_no_content W verb i path sso body = do {
     r \<leftarrow> send_call (admin_call W verb i path sso [] body);
     State_Monad.return (case r of
       Inl e \<Rightarrow> Inl (ApiTransportError e)
     | Inr rs \<Rightarrow> if is_success rs then Inr () else Inl (admin_error W rs))
   }"

text \<open>Who is signed in to the console: the label of the administrator, or why there is none.\<close>

datatype admin_session = Authenticated string | Unauthenticated | ForbiddenSession | SessionError

definition admin_display_label :: "whoami_view \<Rightarrow> string" where
  "admin_display_label w =
     (case non_empty (map_option trim (wv_name w)) of
        Some n \<Rightarrow> n
      | None \<Rightarrow> (case non_empty (map_option trim (wv_preferred_username w)) of Some n \<Rightarrow> n | None \<Rightarrow> wv_user_id w))"

definition admin_whoami :: "web \<Rightarrow> web_incoming \<Rightarrow> string \<Rightarrow> (web_world, admin_session) state" where
  "admin_whoami W i sso = do {
     r \<leftarrow> send_call (admin_call W ''GET'' i ''/admin/whoami'' sso [] None);
     State_Monad.return (case r of
       Inl _ \<Rightarrow> SessionError
     | Inr rs \<Rightarrow>
         if re_status rs = 200 then
           (case rd_whoami (wb_admin W) rs of Inr v \<Rightarrow> Authenticated (admin_display_label v) | Inl _ \<Rightarrow> SessionError)
         else if re_status rs = 401 then Unauthenticated
         else if re_status rs = 403 then ForbiddenSession
         else SessionError)
   }"

section \<open>Requests to the internal endpoints\<close>

definition jopt :: "string option \<Rightarrow> json" where
  "jopt v = nullable JStr v"

text \<open>The first and the last fields of a request that acts for a tenant.\<close>

definition in_flow :: "web \<Rightarrow> web_incoming \<Rightarrow> (string \<times> json) list \<Rightarrow> json" where
  "in_flow W i fs =
     JObj ([(''tenant_id'', JStr (wi_tenant i))] @ fs @
       [(''ip_address'', jopt (forwarded_ip W i)), (''user_agent'', jopt (forwarded_user_agent W i))])"

definition flow_call ::
  "web \<Rightarrow> web_incoming \<Rightarrow> string \<Rightarrow> (string \<times> json) list \<Rightarrow> 'r reader \<Rightarrow> (web_world, string + 'r) state" where
  "flow_call W i path fs read = post_internal W path (wi_correlation i) (in_flow W i fs) read"

definition session_call ::
  "web \<Rightarrow> string \<Rightarrow> string \<Rightarrow> (string \<times> json) list \<Rightarrow> 'r reader \<Rightarrow> (web_world, string + 'r) state" where
  "session_call W correlation path fs read = post_internal W path correlation (JObj fs) read"

definition api_authenticate :: "web \<Rightarrow> web_incoming \<Rightarrow> (string \<times> json) list \<Rightarrow> (web_world, string + authenticate_reply) state" where
  "api_authenticate W i fs =
     flow_call W i ''/internal/authenticate'' fs (rd_authenticate (wb_internal W))"

definition api_change_password :: "web \<Rightarrow> web_incoming \<Rightarrow> (string \<times> json) list \<Rightarrow> (web_world, string + change_password_reply) state" where
  "api_change_password W i fs =
     flow_call W i ''/internal/change-password'' fs (rd_change_password (wb_internal W))"

definition api_authenticate_admin :: "web \<Rightarrow> web_incoming \<Rightarrow> (string \<times> json) list \<Rightarrow> (web_world, string + admin_authenticate_reply) state" where
  "api_authenticate_admin W i fs =
     flow_call W i ''/internal/authenticate/admin'' fs (rd_admin_authenticate (wb_internal W))"

definition api_authenticate_portal :: "web \<Rightarrow> web_incoming \<Rightarrow> (string \<times> json) list \<Rightarrow> (web_world, string + portal_authenticate_reply) state" where
  "api_authenticate_portal W i fs =
     flow_call W i ''/internal/authenticate/portal'' fs (rd_portal_authenticate (wb_internal W))"

definition api_authenticate_portal_mfa :: "web \<Rightarrow> web_incoming \<Rightarrow> (string \<times> json) list \<Rightarrow> (web_world, string + portal_mfa_reply) state" where
  "api_authenticate_portal_mfa W i fs =
     flow_call W i ''/internal/authenticate/portal/mfa'' fs (rd_portal_mfa (wb_internal W))"

definition api_authenticate_portal_change_password :: "web \<Rightarrow> web_incoming \<Rightarrow> (string \<times> json) list \<Rightarrow> (web_world, string + portal_change_reply) state" where
  "api_authenticate_portal_change_password W i fs =
     flow_call W i ''/internal/authenticate/portal/change-password'' fs (rd_portal_change (wb_internal W))"

definition api_admin_change_password :: "web \<Rightarrow> web_incoming \<Rightarrow> (string \<times> json) list \<Rightarrow> (web_world, string + admin_change_reply) state" where
  "api_admin_change_password W i fs =
     flow_call W i ''/internal/authenticate/admin/change-password'' fs (rd_admin_change (wb_internal W))"

definition api_password_reset_request :: "web \<Rightarrow> web_incoming \<Rightarrow> (string \<times> json) list \<Rightarrow> (web_world, string + reset_request_reply) state" where
  "api_password_reset_request W i fs =
     flow_call W i ''/internal/password-reset/request'' fs (rd_reset_request (wb_internal W))"

definition api_password_reset_complete :: "web \<Rightarrow> web_incoming \<Rightarrow> (string \<times> json) list \<Rightarrow> (web_world, string + reset_complete_reply) state" where
  "api_password_reset_complete W i fs =
     flow_call W i ''/internal/password-reset/complete'' fs (rd_reset_complete (wb_internal W))"

definition api_consent_approve :: "web \<Rightarrow> web_incoming \<Rightarrow> (string \<times> json) list \<Rightarrow> (web_world, string + consent_reply) state" where
  "api_consent_approve W i fs =
     flow_call W i ''/internal/consent/approve'' fs (rd_consent_approve (wb_internal W))"

definition api_consent_deny :: "web \<Rightarrow> web_incoming \<Rightarrow> (string \<times> json) list \<Rightarrow> (web_world, string + consent_reply) state" where
  "api_consent_deny W i fs =
     flow_call W i ''/internal/consent/deny'' fs (rd_consent_deny (wb_internal W))"

definition api_totp_setup :: "web \<Rightarrow> web_incoming \<Rightarrow> (string \<times> json) list \<Rightarrow> (web_world, string + totp_setup_reply) state" where
  "api_totp_setup W i fs =
     session_call W (wi_correlation i) ''/internal/mfa/totp/setup'' fs (rd_totp_setup (wb_internal W))"

definition api_totp_confirm :: "web \<Rightarrow> web_incoming \<Rightarrow> (string \<times> json) list \<Rightarrow> (web_world, string + totp_confirm_reply) state" where
  "api_totp_confirm W i fs =
     session_call W (wi_correlation i) ''/internal/mfa/totp/confirm'' fs (rd_totp_confirm (wb_internal W))"

definition api_totp_delete :: "web \<Rightarrow> web_incoming \<Rightarrow> (string \<times> json) list \<Rightarrow> (web_world, string + totp_delete_reply) state" where
  "api_totp_delete W i fs =
     session_call W (wi_correlation i) ''/internal/mfa/totp/delete'' fs (rd_totp_delete (wb_internal W))"

definition api_verify_totp :: "web \<Rightarrow> web_incoming \<Rightarrow> (string \<times> json) list \<Rightarrow> (web_world, string + verify_totp_reply) state" where
  "api_verify_totp W i fs =
     flow_call W i ''/internal/mfa/totp/verify'' fs (rd_verify_totp (wb_internal W))"

definition api_passkey_register_begin :: "web \<Rightarrow> web_incoming \<Rightarrow> (string \<times> json) list \<Rightarrow> (web_world, string + register_begin_reply) state" where
  "api_passkey_register_begin W i fs =
     session_call W (wi_correlation i) ''/internal/passkey/register/begin'' fs (rd_register_begin (wb_internal W))"

definition api_passkey_register_complete :: "web \<Rightarrow> web_incoming \<Rightarrow> (string \<times> json) list \<Rightarrow> (web_world, string + register_complete_reply) state" where
  "api_passkey_register_complete W i fs =
     session_call W (wi_correlation i) ''/internal/passkey/register/complete'' fs (rd_register_complete (wb_internal W))"

definition api_passkey_delete :: "web \<Rightarrow> web_incoming \<Rightarrow> (string \<times> json) list \<Rightarrow> (web_world, string + passkey_delete_reply) state" where
  "api_passkey_delete W i fs =
     session_call W (wi_correlation i) ''/internal/passkey/delete'' fs (rd_passkey_delete (wb_internal W))"

definition api_passkey_list :: "web \<Rightarrow> web_incoming \<Rightarrow> (string \<times> json) list \<Rightarrow> (web_world, string + passkey_list_reply) state" where
  "api_passkey_list W i fs =
     session_call W (wi_correlation i) ''/internal/passkey/list'' fs (rd_passkey_list (wb_internal W))"

definition api_passkey_login_begin :: "web \<Rightarrow> web_incoming \<Rightarrow> (string \<times> json) list \<Rightarrow> (web_world, string + json) state" where
  "api_passkey_login_begin W i fs =
     session_call W (wi_correlation i) ''/internal/passkey/login/begin'' fs (rd_login_begin (wb_internal W))"

definition api_passkey_login_complete :: "web \<Rightarrow> web_incoming \<Rightarrow> (string \<times> json) list \<Rightarrow> (web_world, string + passkey_login_reply) state" where
  "api_passkey_login_complete W i fs =
     flow_call W i ''/internal/passkey/login/complete'' fs (rd_passkey_login (wb_internal W))"

definition api_account_change_password :: "web \<Rightarrow> web_incoming \<Rightarrow> (string \<times> json) list \<Rightarrow> (web_world, string + account_password_reply) state" where
  "api_account_change_password W i fs =
     session_call W (wi_correlation i) ''/internal/account/change-password'' fs (rd_account_password (wb_internal W))"

definition api_account_update_language :: "web \<Rightarrow> (string \<times> json) list \<Rightarrow> (web_world, string + update_language_reply) state" where
  "api_account_update_language W fs = session_call W [] ''/internal/account/update-language'' fs (rd_update_language (wb_internal W))"

definition api_account_profile :: "web \<Rightarrow> (string \<times> json) list \<Rightarrow> (web_world, string + profile_reply) state" where
  "api_account_profile W fs = session_call W [] ''/internal/account/profile'' fs (rd_profile (wb_internal W))"

definition api_account_update_name :: "web \<Rightarrow> (string \<times> json) list \<Rightarrow> (web_world, string + update_name_reply) state" where
  "api_account_update_name W fs = session_call W [] ''/internal/account/update-name'' fs (rd_update_name (wb_internal W))"

definition api_account_tenants :: "web \<Rightarrow> (string \<times> json) list \<Rightarrow> (web_world, string + tenants_reply) state" where
  "api_account_tenants W fs = session_call W [] ''/internal/account/tenants'' fs (rd_tenants_reply (wb_internal W))"

definition api_consent_info :: "web \<Rightarrow> web_incoming \<Rightarrow> string \<Rightarrow> (web_world, string + consent_info_reply) state" where
  "api_consent_info W i auth_session_id = do {
     r \<leftarrow> send_call \<lparr>cl_method = ''GET'', cl_url = wc_api_base_url (wb_config W) @ ''/internal/consent-info'',
                     cl_headers = internal_headers W (wi_correlation i),
                     cl_query = [(''tenant_id'', wi_tenant i), (''auth_session_id'', auth_session_id)], cl_body = None\<rparr>;
     State_Monad.return (case r of
       Inl e \<Rightarrow> Inl (''request to api /internal/consent-info failed: '' @ e)
     | Inr rs \<Rightarrow> map_sum (\<lambda>e. ''failed to decode consent-info response: '' @ e) id (rd_consent_info (wb_internal W) rs))
   }"

text \<open>The result of the call is not used by its callers.\<close>

definition api_logout :: "web \<Rightarrow> web_incoming \<Rightarrow> string \<Rightarrow> (web_world, string + unit) state" where
  "api_logout W i sso = do {
     r \<leftarrow> send_call \<lparr>cl_method = ''POST'', cl_url = wc_api_base_url (wb_config W) @ ''/internal/logout'',
                     cl_headers = internal_headers W (wi_correlation i), cl_query = [],
                     cl_body = Some (in_flow W i [(''sso_session_id'', JStr sso)])\<rparr>;
     State_Monad.return (case r of
       Inl e \<Rightarrow> Inl (''request to api /internal/logout failed: '' @ e)
     | Inr rs \<Rightarrow> if is_success rs then Inr ()
                 else Inl (''api /internal/logout returned status '' @ wb_status W (re_status rs)))
   }"

datatype verify_email_result = LinkVerified | LinkInvalidOrExpired

definition api_verify_email :: "web \<Rightarrow> web_incoming \<Rightarrow> string \<Rightarrow> (web_world, string + verify_email_result) state" where
  "api_verify_email W i token = do {
     r \<leftarrow> send_call \<lparr>cl_method = ''POST'', cl_url = wc_api_base_url (wb_config W) @ ''/'' @ wi_tenant i @ ''/auth/verify-email'',
                     cl_headers = [(REQUEST_ID_HEADER, wi_correlation i)], cl_query = [],
                     cl_body = Some (JObj [(''token'', JStr token)])\<rparr>;
     State_Monad.return (case r of
       Inl e \<Rightarrow> Inl (''request to api /auth/verify-email failed: '' @ e)
     | Inr rs \<Rightarrow>
         if is_success rs then Inr LinkVerified
         else if re_status rs = 400 then Inr LinkInvalidOrExpired
         else Inl (''api /auth/verify-email returned status '' @ wb_status W (re_status rs)))
   }"

definition is_api_reachable :: "web \<Rightarrow> (web_world, bool) state" where
  "is_api_reachable W = do {
     r \<leftarrow> send_call \<lparr>cl_method = ''GET'', cl_url = wc_api_base_url (wb_config W) @ ''/healthz'', cl_headers = [],
                     cl_query = [], cl_body = None\<rparr>;
     State_Monad.return (case r of Inr rs \<Rightarrow> is_success rs | Inl _ \<Rightarrow> False)
   }"

section \<open>Requests to the administration API\<close>

definition api_search_audit_logs ::
  "web \<Rightarrow> web_incoming \<Rightarrow> string \<Rightarrow> (string \<times> string) list \<Rightarrow> (web_world, admin_api_error + audit_log_view list) state" where
  "api_search_audit_logs W i sso query = do {
     r \<leftarrow> send_call (admin_call W ''GET'' i ''/admin/audit-logs'' sso query None);
     State_Monad.return (case r of
       Inl e \<Rightarrow> Inl (ApiTransportError e)
     | Inr rs \<Rightarrow> handle_admin_response W ''/admin/audit-logs'' (rd_audit_logs (wb_admin W)) rs)
   }"

definition api_list_clients :: "web \<Rightarrow> web_incoming \<Rightarrow> string \<Rightarrow> (web_world, admin_api_error + client_view list) state" where
  "api_list_clients W i sso =
     admin_send W ''GET'' i ''/admin/clients'' sso None (rd_clients (wb_admin W))"

definition api_get_client :: "web \<Rightarrow> web_incoming \<Rightarrow> string \<Rightarrow> string \<Rightarrow> (web_world, admin_api_error + client_view) state" where
  "api_get_client W i sso client_id =
     admin_send W ''GET'' i (''/admin/clients/'' @ client_id) sso None (rd_client (wb_admin W))"

definition api_create_client :: "web \<Rightarrow> web_incoming \<Rightarrow> string \<Rightarrow> json \<Rightarrow> (web_world, admin_api_error + client_created_view) state" where
  "api_create_client W i sso body =
     admin_send W ''POST'' i ''/admin/clients'' sso (Some body) (rd_client_created (wb_admin W))"

definition api_update_client :: "web \<Rightarrow> web_incoming \<Rightarrow> string \<Rightarrow> string \<Rightarrow> json \<Rightarrow> (web_world, admin_api_error + client_view) state" where
  "api_update_client W i sso client_id body =
     admin_send W ''PATCH'' i (''/admin/clients/'' @ client_id) sso (Some body) (rd_client (wb_admin W))"

definition api_rotate_client_secret :: "web \<Rightarrow> web_incoming \<Rightarrow> string \<Rightarrow> string \<Rightarrow> (web_world, admin_api_error + client_secret_view) state" where
  "api_rotate_client_secret W i sso client_id =
     admin_send W ''POST'' i (''/admin/clients/'' @ client_id @ ''/secret'') sso None (rd_client_secret (wb_admin W))"

definition api_get_user :: "web \<Rightarrow> web_incoming \<Rightarrow> string \<Rightarrow> string \<Rightarrow> (web_world, admin_api_error + user_summary_view) state" where
  "api_get_user W i sso user_id =
     admin_send W ''GET'' i (''/admin/users/'' @ user_id) sso None (rd_user (wb_admin W))"

definition api_create_user :: "web \<Rightarrow> web_incoming \<Rightarrow> string \<Rightarrow> json \<Rightarrow> (web_world, admin_api_error + user_created_view) state" where
  "api_create_user W i sso body =
     admin_send W ''POST'' i ''/admin/users'' sso (Some body) (rd_user_created (wb_admin W))"

definition api_available_permissions :: "web \<Rightarrow> web_incoming \<Rightarrow> string \<Rightarrow> (web_world, admin_api_error + string list) state" where
  "api_available_permissions W i sso =
     admin_send W ''GET'' i ''/admin/permissions'' sso None (rd_available_permissions (wb_admin W))"

definition api_list_user_permissions :: "web \<Rightarrow> web_incoming \<Rightarrow> string \<Rightarrow> string \<Rightarrow> (web_world, admin_api_error + string list) state" where
  "api_list_user_permissions W i sso user_id =
     admin_send W ''GET'' i (''/admin/users/'' @ user_id @ ''/permissions'') sso None (rd_user_permissions (wb_admin W))"

definition api_grant_permission :: "web \<Rightarrow> web_incoming \<Rightarrow> string \<Rightarrow> string \<Rightarrow> string \<Rightarrow> (web_world, admin_api_error + string list) state" where
  "api_grant_permission W i sso user_id code =
     admin_send W ''POST'' i (''/admin/users/'' @ user_id @ ''/permissions'') sso (Some (JObj [(''permission_code'', JStr code)])) (rd_user_permissions (wb_admin W))"

definition api_revoke_permission :: "web \<Rightarrow> web_incoming \<Rightarrow> string \<Rightarrow> string \<Rightarrow> string \<Rightarrow> (web_world, admin_api_error + string list) state" where
  "api_revoke_permission W i sso user_id code =
     admin_send W ''DELETE'' i (''/admin/users/'' @ user_id @ ''/permissions/'' @ code) sso None (rd_user_permissions (wb_admin W))"

definition api_update_user_status :: "web \<Rightarrow> web_incoming \<Rightarrow> string \<Rightarrow> string \<Rightarrow> string \<Rightarrow> (web_world, admin_api_error + user_summary_view) state" where
  "api_update_user_status W i sso user_id status =
     admin_send W ''PATCH'' i (''/admin/users/'' @ user_id) sso (Some (JObj [(''status'', JStr status)])) (rd_user (wb_admin W))"

definition api_delete_user :: "web \<Rightarrow> web_incoming \<Rightarrow> string \<Rightarrow> string \<Rightarrow> (web_world, admin_api_error + unit) state" where
  "api_delete_user W i sso user_id =
     admin_send_no_content W ''DELETE'' i (''/admin/users/'' @ user_id) sso None"

definition api_reset_user_password :: "web \<Rightarrow> web_incoming \<Rightarrow> string \<Rightarrow> string \<Rightarrow> (web_world, admin_api_error + password_reset_view) state" where
  "api_reset_user_password W i sso user_id =
     admin_send W ''POST'' i (''/admin/users/'' @ user_id @ ''/password-reset'') sso None (rd_password_reset (wb_admin W))"

definition api_list_members :: "web \<Rightarrow> web_incoming \<Rightarrow> string \<Rightarrow> (web_world, admin_api_error + member_view list) state" where
  "api_list_members W i sso =
     admin_send W ''GET'' i ''/admin/members'' sso None (rd_members (wb_admin W))"

definition api_revoke_member :: "web \<Rightarrow> web_incoming \<Rightarrow> string \<Rightarrow> string \<Rightarrow> (web_world, admin_api_error + unit) state" where
  "api_revoke_member W i sso user_id =
     admin_send_no_content W ''DELETE'' i (''/admin/members/'' @ user_id) sso None"

definition api_create_invitation :: "web \<Rightarrow> web_incoming \<Rightarrow> string \<Rightarrow> string \<Rightarrow> (web_world, admin_api_error + invitation_created_view) state" where
  "api_create_invitation W i sso user_id =
     admin_send W ''POST'' i ''/admin/invitations'' sso (Some (JObj [(''user_id'', JStr user_id)])) (rd_invitation (wb_admin W))"

definition api_accept_invitation :: "web \<Rightarrow> web_incoming \<Rightarrow> string \<Rightarrow> string \<Rightarrow> (web_world, admin_api_error + unit) state" where
  "api_accept_invitation W i sso token =
     admin_send_no_content W ''POST'' i ''/invitations/accept'' sso (Some (JObj [(''token'', JStr token)]))"

definition api_list_client_status :: "web \<Rightarrow> web_incoming \<Rightarrow> string \<Rightarrow> (web_world, admin_api_error + client_status_entry list) state" where
  "api_list_client_status W i sso =
     admin_send W ''GET'' i ''/admin/clients/status'' sso None (rd_client_status (wb_admin W))"

definition api_list_saml_service_providers :: "web \<Rightarrow> web_incoming \<Rightarrow> string \<Rightarrow> (web_world, admin_api_error + saml_provider_view list) state" where
  "api_list_saml_service_providers W i sso =
     admin_send W ''GET'' i ''/admin/saml-service-providers'' sso None (rd_saml_providers (wb_admin W))"

definition api_register_saml_service_provider :: "web \<Rightarrow> web_incoming \<Rightarrow> string \<Rightarrow> json \<Rightarrow> (web_world, admin_api_error + saml_provider_view) state" where
  "api_register_saml_service_provider W i sso body =
     admin_send W ''POST'' i ''/admin/saml-service-providers'' sso (Some body) (rd_saml_provider (wb_admin W))"

definition api_update_saml_service_provider :: "web \<Rightarrow> web_incoming \<Rightarrow> string \<Rightarrow> string \<Rightarrow> json \<Rightarrow> (web_world, admin_api_error + saml_provider_view) state" where
  "api_update_saml_service_provider W i sso pid body =
     admin_send W ''PUT'' i (''/admin/saml-service-providers/'' @ pid) sso (Some body) (rd_saml_provider (wb_admin W))"

definition api_delete_saml_service_provider :: "web \<Rightarrow> web_incoming \<Rightarrow> string \<Rightarrow> string \<Rightarrow> (web_world, admin_api_error + unit) state" where
  "api_delete_saml_service_provider W i sso pid =
     admin_send_no_content W ''DELETE'' i (''/admin/saml-service-providers/'' @ pid) sso None"

definition api_import_saml_sp_metadata :: "web \<Rightarrow> web_incoming \<Rightarrow> string \<Rightarrow> string \<Rightarrow> (web_world, admin_api_error + metadata_import_view) state" where
  "api_import_saml_sp_metadata W i sso metadata_xml =
     admin_send W ''POST'' i ''/admin/saml-service-providers/import-metadata'' sso (Some (JObj [(''metadata_xml'', JStr metadata_xml)])) (rd_metadata_import (wb_admin W))"

definition api_list_signing_keys :: "web \<Rightarrow> web_incoming \<Rightarrow> string \<Rightarrow> (web_world, admin_api_error + signing_key_view list) state" where
  "api_list_signing_keys W i sso =
     admin_send W ''GET'' i ''/admin/signing-keys'' sso None (rd_signing_keys (wb_admin W))"

definition api_generate_signing_key :: "web \<Rightarrow> web_incoming \<Rightarrow> string \<Rightarrow> string \<Rightarrow> (web_world, admin_api_error + signing_key_view) state" where
  "api_generate_signing_key W i sso algorithm =
     admin_send W ''POST'' i ''/admin/signing-keys'' sso (Some (JObj [(''algorithm'', JStr algorithm)])) (rd_signing_key (wb_admin W))"

definition api_retire_signing_key :: "web \<Rightarrow> web_incoming \<Rightarrow> string \<Rightarrow> string \<Rightarrow> (web_world, admin_api_error + unit) state" where
  "api_retire_signing_key W i sso kid =
     admin_send_no_content W ''POST'' i (''/admin/signing-keys/'' @ kid @ ''/retire'') sso None"

definition api_delete_signing_key :: "web \<Rightarrow> web_incoming \<Rightarrow> string \<Rightarrow> string \<Rightarrow> (web_world, admin_api_error + unit) state" where
  "api_delete_signing_key W i sso kid =
     admin_send_no_content W ''DELETE'' i (''/admin/signing-keys/'' @ kid) sso None"

definition api_list_tenants :: "web \<Rightarrow> web_incoming \<Rightarrow> string \<Rightarrow> (web_world, admin_api_error + tenant_view list) state" where
  "api_list_tenants W i sso =
     admin_send W ''GET'' i ''/admin/tenants'' sso None (rd_tenants (wb_admin W))"

definition api_create_tenant :: "web \<Rightarrow> web_incoming \<Rightarrow> string \<Rightarrow> string \<Rightarrow> (web_world, admin_api_error + tenant_created_view) state" where
  "api_create_tenant W i sso name =
     admin_send W ''POST'' i ''/admin/tenants'' sso (Some (JObj [(''name'', JStr name)])) (rd_tenant_created (wb_admin W))"

definition api_delete_tenant :: "web \<Rightarrow> web_incoming \<Rightarrow> string \<Rightarrow> string \<Rightarrow> (web_world, admin_api_error + unit) state" where
  "api_delete_tenant W i sso child_id =
     admin_send_no_content W ''DELETE'' i (''/admin/tenants/'' @ child_id) sso None"

definition api_reset_tenant_admin_password :: "web \<Rightarrow> web_incoming \<Rightarrow> string \<Rightarrow> string \<Rightarrow> string \<Rightarrow> (web_world, admin_api_error + password_reset_view) state" where
  "api_reset_tenant_admin_password W i sso child_id email =
     admin_send W ''POST'' i (''/admin/tenants/'' @ child_id @ ''/admin-password-reset'') sso (Some (JObj [(''email'', JStr email)])) (rd_password_reset (wb_admin W))"

definition api_get_current_tenant :: "web \<Rightarrow> web_incoming \<Rightarrow> string \<Rightarrow> (web_world, admin_api_error + tenant_view) state" where
  "api_get_current_tenant W i sso =
     admin_send W ''GET'' i ''/admin/settings/tenant'' sso None (rd_tenant (wb_admin W))"

definition api_update_current_tenant :: "web \<Rightarrow> web_incoming \<Rightarrow> string \<Rightarrow> string \<Rightarrow> bool \<Rightarrow> (web_world, admin_api_error + tenant_view) state" where
  "api_update_current_tenant W i sso name self_registration_enabled =
     admin_send W ''PATCH'' i ''/admin/settings/tenant'' sso (Some (JObj [(''name'', JStr name), (''self_registration_enabled'', JBool self_registration_enabled)])) (rd_tenant (wb_admin W))"

definition api_get_system_settings :: "web \<Rightarrow> web_incoming \<Rightarrow> string \<Rightarrow> (web_world, admin_api_error + system_settings_view) state" where
  "api_get_system_settings W i sso =
     admin_send W ''GET'' i ''/admin/system-settings'' sso None (rd_system_settings (wb_admin W))"

definition api_update_system_settings :: "web \<Rightarrow> web_incoming \<Rightarrow> string \<Rightarrow> json \<Rightarrow> (web_world, admin_api_error + system_settings_view) state" where
  "api_update_system_settings W i sso body =
     admin_send W ''PUT'' i ''/admin/system-settings'' sso (Some body) (rd_system_settings (wb_admin W))"

definition api_update_runtime_setting :: "web \<Rightarrow> web_incoming \<Rightarrow> string \<Rightarrow> string \<Rightarrow> string option \<Rightarrow> (web_world, admin_api_error + system_settings_view) state" where
  "api_update_runtime_setting W i sso key value =
     admin_send W ''PUT'' i ''/admin/system-settings/runtime'' sso (Some (JObj [(''key'', JStr key), (''value'', jopt value)])) (rd_system_settings (wb_admin W))"

end
