(* ===== verification/WebLogin.thy ===== *)
theory WebLogin
  imports WebClient
begin

text \<open>
  The handlers of the web console for users (\<^verbatim>\<open>web/src/handlers/\<close>): signing in for a client
  (\<^verbatim>\<open>login.rs\<close>, \<^verbatim>\<open>password_change.rs\<close>, \<^verbatim>\<open>mfa_totp.rs\<close>, \<^verbatim>\<open>consent.rs\<close>, \<^verbatim>\<open>passkey.rs\<close>), to the
  own account (\<^verbatim>\<open>portal.rs\<close>) and what can be done there (\<^verbatim>\<open>user_settings.rs\<close>), and the pages that mailed
  links lead to (\<^verbatim>\<open>password_reset.rs\<close>, \<^verbatim>\<open>verify_email.rs\<close>, \<^verbatim>\<open>invitation_accept.rs\<close>).
\<close>

section \<open>Forms\<close>

record login_form =
  lf_username :: string
  lf_password :: string
  lf_csrf_token :: string

definition read_login_form :: "fields \<Rightarrow> login_form option" where
  "read_login_form fs = do {
     u \<leftarrow> field fs ''username'';
     p \<leftarrow> field fs ''password'';
     c \<leftarrow> field fs ''csrf_token'';
     Some \<lparr>lf_username = u, lf_password = p, lf_csrf_token = c\<rparr>
   }"

record password_change_form =
  pf_current_password :: string
  pf_new_password :: string
  pf_new_password_confirm :: string
  pf_csrf_token :: string

definition read_password_change_form :: "fields \<Rightarrow> password_change_form option" where
  "read_password_change_form fs = do {
     c \<leftarrow> field fs ''current_password'';
     n \<leftarrow> field fs ''new_password'';
     n' \<leftarrow> field fs ''new_password_confirm'';
     t \<leftarrow> field fs ''csrf_token'';
     Some \<lparr>pf_current_password = c, pf_new_password = n, pf_new_password_confirm = n', pf_csrf_token = t\<rparr>
   }"

text \<open>The form of a forced change names the user as well.\<close>

definition read_forced_form :: "fields \<Rightarrow> (string \<times> password_change_form) option" where
  "read_forced_form fs = do {
     u \<leftarrow> field fs ''username'';
     f \<leftarrow> read_password_change_form fs;
     Some (u, f)
   }"

definition read_totp_form :: "fields \<Rightarrow> (string \<times> string) option" where
  "read_totp_form fs = do {
     c \<leftarrow> field fs ''totp_code'';
     t \<leftarrow> field fs ''csrf_token'';
     Some (c, t)
   }"

record consent_form =
  cf_auth_session_id :: string
  cf_csrf_token :: string
  cf_action :: string

definition read_consent_form :: "fields \<Rightarrow> consent_form option" where
  "read_consent_form fs = do {
     s \<leftarrow> field fs ''auth_session_id'';
     t \<leftarrow> field fs ''csrf_token'';
     a \<leftarrow> field fs ''action'';
     Some \<lparr>cf_auth_session_id = s, cf_csrf_token = t, cf_action = a\<rparr>
   }"

section \<open>What the sign-in handlers share\<close>

definition sso_cookie :: "web \<Rightarrow> string \<Rightarrow> nat \<Rightarrow> string" where
  "sso_cookie W sso_session_id ttl = set_cookie W SSO_SESSION_COOKIE sso_session_id ttl"

definition auth_cookie :: "web \<Rightarrow> string \<Rightarrow> string" where
  "auth_cookie W auth_session_id =
     set_cookie W AUTH_SESSION_COOKIE auth_session_id (nat (wc_auth_session_ttl_secs (wb_config W)))"

definition lang_cookies :: "web \<Rightarrow> string option \<Rightarrow> string list" where
  "lang_cookies W user_language =
     (case Option.bind user_language locale_from_tag of
        Some l \<Rightarrow> [set_cookie W LANG_COOKIE (locale_as_tag l) LANG_COOKIE_MAX_AGE_SECS]
      | None \<Rightarrow> [])"

definition web_signed_in :: "web \<Rightarrow> string \<Rightarrow> string \<Rightarrow> nat \<Rightarrow> string option \<Rightarrow> response" where
  "web_signed_in W redirect_to sso ttl user_language =
     with_cookies W ([sso_cookie W sso ttl, clear_cookie W AUTH_SESSION_COOKIE] @ lang_cookies W user_language)
       (web_found W redirect_to)"

definition to_consent :: "web \<Rightarrow> web_incoming \<Rightarrow> string \<Rightarrow> string \<Rightarrow> nat \<Rightarrow> response" where
  "to_consent W i auth_session_id sso ttl =
     with_cookies W [sso_cookie W sso ttl, auth_cookie W auth_session_id] (redirect_under W i ''/consent'')"

definition login_token :: "web \<Rightarrow> string \<Rightarrow> string" where
  "login_token W auth_session_id = login_csrf_token (wb_libs W) auth_session_id (wc_csrf_secret (wb_config W))"

definition bad_gateway :: response where
  "bad_gateway = empty_response 502"

section \<open>The portal\<close>

definition PORTAL_CSRF_TTL_SECS :: nat where
  "PORTAL_CSRF_TTL_SECS = 900"

definition PORTAL_MFA_TTL_SECS :: nat where
  "PORTAL_MFA_TTL_SECS = 300"

text \<open>The check of a form against the seed in a cookie, for the portal and for the administration console.\<close>

definition seed_valid :: "(string \<Rightarrow> string) \<Rightarrow> string option \<Rightarrow> string \<Rightarrow> bool" where
  "seed_valid token seed submitted = (case non_empty seed of Some s \<Rightarrow> token s = submitted | None \<Rightarrow> False)"

definition portal_csrf_ok :: "web \<Rightarrow> web_incoming \<Rightarrow> string \<Rightarrow> bool" where
  "portal_csrf_ok W i submitted = seed_valid (portal_csrf_token W) (web_cookie W i PORTAL_CSRF_COOKIE) submitted"

definition portal_token :: "web \<Rightarrow> web_incoming \<Rightarrow> string" where
  "portal_token W i = portal_csrf_token W (unwrap_or_default (web_cookie W i PORTAL_CSRF_COOKIE))"

definition portal_form :: "web \<Rightarrow> web_incoming \<Rightarrow> nat \<Rightarrow> string \<Rightarrow> string option \<Rightarrow> response" where
  "portal_form W i status csrf error_key =
     page_response W status (PortalLogin (web_locale W i) (tenant_prefix i) csrf error_key)"

definition portal_change_form :: "web \<Rightarrow> web_incoming \<Rightarrow> nat \<Rightarrow> string \<Rightarrow> string \<Rightarrow> string option \<Rightarrow> response" where
  "portal_change_form W i status csrf username error_key =
     page_response W status
       (ForcedPasswordChange (web_locale W i) (tenant_prefix i @ ''/login/password-change'') csrf username error_key)"

definition portal_mfa_form :: "web \<Rightarrow> web_incoming \<Rightarrow> nat \<Rightarrow> string \<Rightarrow> string option \<Rightarrow> response" where
  "portal_mfa_form W i status csrf error_key =
     page_response W status (PortalMfa (web_locale W i) (tenant_prefix i) csrf error_key)"

definition sso_success_response :: "web \<Rightarrow> web_incoming \<Rightarrow> string \<Rightarrow> nat \<Rightarrow> string option \<Rightarrow> string list \<Rightarrow> response" where
  "sso_success_response W i sso ttl user_language expired =
     with_cookies W ([sso_cookie W sso ttl] @ map (clear_cookie W) expired @ lang_cookies W user_language)
       (redirect_under W i ''/settings'')"

definition to_portal_mfa :: "web \<Rightarrow> web_incoming \<Rightarrow> string \<Rightarrow> response" where
  "to_portal_mfa W i ticket =
     with_cookies W [set_cookie W PORTAL_MFA_COOKIE ticket PORTAL_MFA_TTL_SECS] (redirect_under W i ''/login/mfa'')"

definition portal_login_page :: "web \<Rightarrow> web_handler" where
  "portal_login_page W i = do {
     u \<leftarrow> web_new_v4;
     let csrf_id = uuid_simple (wb_http W) u in
     State_Monad.return (with_cookies W [set_cookie W PORTAL_CSRF_COOKIE csrf_id PORTAL_CSRF_TTL_SECS]
       (portal_form W i 200 (portal_csrf_token W csrf_id) None))
   }"

definition portal_login_response :: "web \<Rightarrow> web_incoming \<Rightarrow> portal_authenticate_reply \<Rightarrow> response" where
  "portal_login_response W i outcome =
     (case outcome of
        PortalAuthSuccess sso ttl lang \<Rightarrow> sso_success_response W i sso ttl lang [PORTAL_CSRF_COOKIE]
      | PortalAuthMfaRequired ticket \<Rightarrow> to_portal_mfa W i ticket
      | PortalAuthEmailVerificationRequired \<Rightarrow>
          message_page W i ''portal-login-title'' 403 ''login-error-email-not-verified''
      | PortalAuthPasswordChangeRequired username \<Rightarrow> portal_change_form W i 200 (portal_token W i) username None
      | PortalAuthRateLimited \<Rightarrow> portal_form W i 429 (portal_token W i) (Some ''login-error-rate-limited'')
      | PortalAuthInvalidCredentials \<Rightarrow> portal_form W i 401 (portal_token W i) (Some ''login-error-invalid-credentials'')
      | PortalAuthLocked \<Rightarrow> portal_form W i 403 (portal_token W i) (Some ''login-error-locked'')
      | PortalAuthInternal \<Rightarrow> html 500 [])"

definition web_portal_login :: "web \<Rightarrow> web_incoming \<Rightarrow> login_form \<Rightarrow> (web_world, response) state" where
  "web_portal_login W i form =
     (if \<not> portal_csrf_ok W i (lf_csrf_token form) then
        State_Monad.return (portal_form W i 400 [] (Some ''login-error-csrf''))
      else do {
        r \<leftarrow> api_authenticate_portal W i
               [(''username'', JStr (lf_username form)), (''password'', JStr (lf_password form))];
        State_Monad.return (case r of Inl _ \<Rightarrow> bad_gateway | Inr outcome \<Rightarrow> portal_login_response W i outcome)
      })"

definition portal_password_change_page :: "web \<Rightarrow> web_handler" where
  "portal_password_change_page W i = State_Monad.return (redirect_under W i ''/login'')"

definition portal_change_response :: "web \<Rightarrow> web_incoming \<Rightarrow> string \<Rightarrow> portal_change_reply \<Rightarrow> response" where
  "portal_change_response W i username outcome =
     (let reshow = (\<lambda>status key. portal_change_form W i status (portal_token W i) username (Some key)) in
      case outcome of
        RePortalChangeSuccess sso ttl lang \<Rightarrow> sso_success_response W i sso ttl lang [PORTAL_CSRF_COOKIE]
      | RePortalChangeMfaRequired ticket \<Rightarrow> to_portal_mfa W i ticket
      | RePortalChangeEmailVerificationRequired \<Rightarrow>
          message_page W i ''portal-login-title'' 403 ''login-error-email-not-verified''
      | RePortalChangeRateLimited \<Rightarrow> reshow 429 ''login-error-rate-limited''
      | RePortalChangeInvalidCredentials \<Rightarrow> reshow 401 ''password-change-error-invalid-current''
      | RePortalChangeLocked \<Rightarrow> reshow 403 ''login-error-locked''
      | RePortalChangeWeakPassword \<Rightarrow> reshow 422 ''password-change-error-weak''
      | RePortalChangeInternal \<Rightarrow> html 500 [])"

definition web_portal_password_change :: "web \<Rightarrow> web_handler" where
  "web_portal_password_change W i = with_form W read_forced_form i (\<lambda>(username, form).
     if \<not> portal_csrf_ok W i (pf_csrf_token form) then
       State_Monad.return (portal_change_form W i 400 [] username (Some ''login-error-csrf''))
     else if pf_new_password form \<noteq> pf_new_password_confirm form then
       State_Monad.return (portal_change_form W i 422 (portal_token W i) username (Some ''password-change-error-mismatch''))
     else do {
       r \<leftarrow> api_authenticate_portal_change_password W i
              [(''username'', JStr username), (''current_password'', JStr (pf_current_password form)),
               (''new_password'', JStr (pf_new_password form))];
       State_Monad.return (case r of Inl _ \<Rightarrow> bad_gateway | Inr outcome \<Rightarrow> portal_change_response W i username outcome)
     })"

definition portal_mfa_page :: "web \<Rightarrow> web_handler" where
  "portal_mfa_page W i = State_Monad.return
     (case web_cookie W i PORTAL_MFA_COOKIE of
        None \<Rightarrow> redirect_under W i ''/login''
      | Some _ \<Rightarrow> portal_mfa_form W i 200 (portal_token W i) None)"

definition web_portal_mfa_response :: "web \<Rightarrow> web_incoming \<Rightarrow> portal_mfa_reply \<Rightarrow> response" where
  "web_portal_mfa_response W i outcome =
     (case outcome of
        RePortalMfaSuccess sso ttl lang \<Rightarrow>
          sso_success_response W i sso ttl lang [PORTAL_CSRF_COOKIE, PORTAL_MFA_COOKIE]
      | PortalMfaInvalidCode \<Rightarrow> portal_mfa_form W i 401 (portal_token W i) (Some ''mfa-error-invalid-code'')
      | PortalMfaTicketExpired \<Rightarrow> with_cookies W [clear_cookie W PORTAL_MFA_COOKIE] (redirect_under W i ''/login'')
      | RePortalMfaRateLimited \<Rightarrow> with_cookies W [clear_cookie W PORTAL_MFA_COOKIE] (redirect_under W i ''/login'')
      | RePortalMfaInternal \<Rightarrow> html 500 [])"

definition portal_mfa_submit :: "web \<Rightarrow> web_handler" where
  "portal_mfa_submit W i = with_form W read_totp_form i (\<lambda>(totp_code, csrf_token).
     if \<not> portal_csrf_ok W i csrf_token then
       State_Monad.return (portal_mfa_form W i 400 (portal_token W i) (Some ''login-error-csrf''))
     else case web_cookie W i PORTAL_MFA_COOKIE of
       None \<Rightarrow> State_Monad.return (redirect_under W i ''/login'')
     | Some mfa_ticket \<Rightarrow> do {
         r \<leftarrow> api_authenticate_portal_mfa W i
                [(''mfa_ticket'', JStr mfa_ticket), (''totp_code'', JStr totp_code)];
         State_Monad.return (case r of Inl _ \<Rightarrow> bad_gateway | Inr outcome \<Rightarrow> web_portal_mfa_response W i outcome)
       })"

text \<open>Both consoles end a session in the same way and differ in the page they lead to.\<close>

definition web_logout_to :: "web \<Rightarrow> string \<Rightarrow> web_handler" where
  "web_logout_to W path i = do {
     _ \<leftarrow> (case web_cookie W i SSO_SESSION_COOKIE of
            Some sso \<Rightarrow> State_Monad.bind (api_logout W i sso) (\<lambda>_. State_Monad.return ())
          | None \<Rightarrow> State_Monad.return ());
     State_Monad.return (with_cookies W [clear_cookie W SSO_SESSION_COOKIE] (redirect_under W i path))
   }"

definition portal_logout :: "web \<Rightarrow> web_handler" where
  "portal_logout W = web_logout_to W ''/login''"

section \<open>Signing in for a client\<close>

definition web_login_form :: "web \<Rightarrow> web_incoming \<Rightarrow> nat \<Rightarrow> string \<Rightarrow> string option \<Rightarrow> response" where
  "web_login_form W i status auth_session_id error_key =
     page_response W status (LoginTemplate (web_locale W i) (tenant_prefix i) (login_token W auth_session_id) error_key)"

definition web_login_page :: "web \<Rightarrow> web_handler" where
  "web_login_page W i =
     (case web_cookie W i AUTH_SESSION_COOKIE of
        None \<Rightarrow> portal_login_page W i
      | Some auth_session_id \<Rightarrow> State_Monad.return (web_login_form W i 200 auth_session_id None))"

text \<open>A form that is shown again needs the session, which the code keeps as an \<open>Option\<close>; there it is always one.\<close>

definition web_login_response :: "web \<Rightarrow> web_incoming \<Rightarrow> string \<Rightarrow> authenticate_reply \<Rightarrow> response" where
  "web_login_response W i session outcome =
     (case outcome of
        AuthSuccess redirect_to sso ttl lang \<Rightarrow> web_signed_in W redirect_to sso ttl lang
      | AuthMfaRequired auth_session_id \<Rightarrow>
          with_cookies W [auth_cookie W auth_session_id] (redirect_under W i ''/mfa/totp'')
      | AuthPasswordChangeRequired auth_session_id \<Rightarrow>
          with_cookies W [auth_cookie W auth_session_id] (redirect_under W i ''/password-change'')
      | ReAuthSessionExpired \<Rightarrow> with_cookies W [clear_cookie W AUTH_SESSION_COOKIE] (redirect_under W i ''/login'')
      | AuthCsrfMismatch \<Rightarrow> message_page W i ''login-title'' 400 ''login-error-csrf''
      | AuthRateLimited \<Rightarrow> message_page W i ''login-title'' 429 ''login-error-rate-limited''
      | AuthInvalidCredentials \<Rightarrow> web_login_form W i 401 session (Some ''login-error-invalid-credentials'')
      | AuthLocked \<Rightarrow> web_login_form W i 403 session (Some ''login-error-locked'')
      | AuthEmailVerificationRequired \<Rightarrow> message_page W i ''login-title'' 403 ''login-error-email-not-verified''
      | AuthConsentRequired auth_session_id sso ttl \<Rightarrow> to_consent W i auth_session_id sso ttl
      | ReAuthInternal \<Rightarrow> html 500 [])"

definition web_login :: "web \<Rightarrow> web_handler" where
  "web_login W i = with_form W read_login_form i (\<lambda>form.
     case web_cookie W i AUTH_SESSION_COOKIE of
       None \<Rightarrow> web_portal_login W i form
     | Some session \<Rightarrow> do {
         r \<leftarrow> api_authenticate W i
                [(''auth_session_id'', JStr session), (''username'', JStr (lf_username form)),
                 (''password'', JStr (lf_password form)), (''csrf_token'', JStr (lf_csrf_token form))];
         State_Monad.return (case r of Inl _ \<Rightarrow> bad_gateway | Inr outcome \<Rightarrow> web_login_response W i session outcome)
       })"

definition change_form :: "web \<Rightarrow> web_incoming \<Rightarrow> nat \<Rightarrow> string option \<Rightarrow> string option \<Rightarrow> response" where
  "change_form W i status auth_session_id error_key =
     (case auth_session_id of
        Some s \<Rightarrow> page_response W status (PasswordChangeTemplate (web_locale W i) (login_token W s) error_key)
      | None \<Rightarrow> message_page W i ''password-change-title'' 400 ''login-error-session-expired'')"

definition password_change_page :: "web \<Rightarrow> web_handler" where
  "password_change_page W i = State_Monad.return (change_form W i 200 (web_cookie W i AUTH_SESSION_COOKIE) None)"

definition password_change_response :: "web \<Rightarrow> web_incoming \<Rightarrow> string option \<Rightarrow> change_password_reply \<Rightarrow> response" where
  "password_change_response W i session outcome =
     (case outcome of
        ReChangeSuccess redirect_to sso ttl \<Rightarrow> web_signed_in W redirect_to sso ttl None
      | ReChangeConsentRequired auth_session_id sso ttl \<Rightarrow> to_consent W i auth_session_id sso ttl
      | ReChangeSessionExpired \<Rightarrow> message_page W i ''password-change-title'' 400 ''login-error-session-expired''
      | ReChangeCsrfMismatch \<Rightarrow> message_page W i ''password-change-title'' 400 ''login-error-csrf''
      | ChangeInvalidCurrentPassword \<Rightarrow> change_form W i 401 session (Some ''password-change-error-invalid-current'')
      | ChangeWeakPassword \<Rightarrow> change_form W i 422 session (Some ''password-change-error-weak'')
      | ReChangeInternal \<Rightarrow> html 500 [])"

definition password_change_submit :: "web \<Rightarrow> web_handler" where
  "password_change_submit W i = with_form W read_password_change_form i (\<lambda>form.
     let session = web_cookie W i AUTH_SESSION_COOKIE in
     if pf_new_password form \<noteq> pf_new_password_confirm form then
       State_Monad.return (change_form W i 422 session (Some ''password-change-error-mismatch''))
     else do {
       r \<leftarrow> api_change_password W i
              [(''auth_session_id'', jopt session), (''current_password'', JStr (pf_current_password form)),
               (''new_password'', JStr (pf_new_password form)), (''csrf_token'', JStr (pf_csrf_token form))];
       State_Monad.return (case r of Inl _ \<Rightarrow> bad_gateway | Inr outcome \<Rightarrow> password_change_response W i session outcome)
     })"

definition verify_form :: "web \<Rightarrow> web_incoming \<Rightarrow> nat \<Rightarrow> string option \<Rightarrow> string option \<Rightarrow> response" where
  "verify_form W i status auth_session_id error_key =
     (case auth_session_id of
        Some s \<Rightarrow> page_response W status (TotpVerifyTemplate (web_locale W i) (login_token W s) error_key)
      | None \<Rightarrow> message_page W i ''mfa-title'' 400 ''mfa-error-session-expired'')"

definition totp_verify_page :: "web \<Rightarrow> web_handler" where
  "totp_verify_page W i = State_Monad.return (verify_form W i 200 (web_cookie W i AUTH_SESSION_COOKIE) None)"

definition totp_verify_response :: "web \<Rightarrow> web_incoming \<Rightarrow> string option \<Rightarrow> verify_totp_reply \<Rightarrow> response" where
  "totp_verify_response W i session outcome =
     (case outcome of
        VerifySuccess redirect_to sso ttl lang \<Rightarrow> web_signed_in W redirect_to sso ttl lang
      | VerifyConsentRequired auth_session_id sso ttl \<Rightarrow> to_consent W i auth_session_id sso ttl
      | VerifyInvalidCode \<Rightarrow> verify_form W i 401 session (Some ''mfa-error-invalid-code'')
      | VerifyCsrfMismatch \<Rightarrow> message_page W i ''mfa-title'' 400 ''login-error-csrf''
      | VerifySessionExpired \<Rightarrow> message_page W i ''mfa-title'' 400 ''mfa-error-session-expired''
      | ReVerifyInternal \<Rightarrow> html 500 [])"

definition totp_verify :: "web \<Rightarrow> web_handler" where
  "totp_verify W i = with_form W read_totp_form i (\<lambda>(totp_code, csrf_token).
     let session = web_cookie W i AUTH_SESSION_COOKIE in do {
       r \<leftarrow> api_verify_totp W i
              [(''auth_session_id'', jopt session), (''totp_code'', JStr totp_code), (''csrf_token'', JStr csrf_token)];
       State_Monad.return (case r of Inl _ \<Rightarrow> bad_gateway | Inr outcome \<Rightarrow> totp_verify_response W i session outcome)
     })"

section \<open>Consent\<close>

definition web_consent_page :: "web \<Rightarrow> web_handler" where
  "web_consent_page W i =
     (case web_cookie W i AUTH_SESSION_COOKIE of
        None \<Rightarrow> State_Monad.return (message_page W i ''consent-title'' 400 ''consent-error-session-expired'')
      | Some auth_session_id \<Rightarrow> do {
          r \<leftarrow> api_consent_info W i auth_session_id;
          State_Monad.return (case r of
            Inr (ConsentInfo session_id client_name client_id requested_scopes) \<Rightarrow>
              page_response W 200 (ConsentTemplate (web_locale W i)
                (consent_csrf_token (wb_libs W) session_id (wc_csrf_secret (wb_config W))) session_id client_name requested_scopes)
          | Inr ConsentInfoSessionExpired \<Rightarrow> message_page W i ''consent-title'' 400 ''consent-error-session-expired''
          | Inl _ \<Rightarrow> bad_gateway)
        })"

definition consent_result :: "web \<Rightarrow> web_incoming \<Rightarrow> string + consent_reply \<Rightarrow> response" where
  "consent_result W i r =
     (case r of
        Inr (ConsentRedirect redirect_to) \<Rightarrow>
          with_header (wb_http W) ''set-cookie'' (clear_cookie W AUTH_SESSION_COOKIE) (web_found W redirect_to)
      | Inr ReConsentSessionExpired \<Rightarrow> message_page W i ''consent-title'' 400 ''consent-error-session-expired''
      | Inr ReConsentInternal \<Rightarrow> empty_response 500
      | Inl _ \<Rightarrow> empty_response 500)"

definition consent_submit :: "web \<Rightarrow> web_handler" where
  "consent_submit W i = with_form W read_consent_form i (\<lambda>form.
     let fs = [(''auth_session_id'', JStr (cf_auth_session_id form))] in
     if cf_csrf_token form \<noteq> consent_csrf_token (wb_libs W) (cf_auth_session_id form) (wc_csrf_secret (wb_config W)) then
       State_Monad.return (message_page W i ''consent-title'' 400 ''consent-error-csrf'')
     else if cf_action form = ''approve'' then do {
       r \<leftarrow> api_consent_approve W i fs;
       State_Monad.return (consent_result W i r)
     } else do {
       r \<leftarrow> api_consent_deny W i fs;
       State_Monad.return (consent_result W i r)
     })"

section \<open>The second factor of an account\<close>

definition setup_call :: "web \<Rightarrow> web_incoming \<Rightarrow> string \<Rightarrow> (web_world, string + totp_setup_reply) state" where
  "setup_call W i sso = api_totp_setup W i
     [(''sso_session_id'', JStr sso), (''account_name'', JStr [])]"

definition setup_form :: "web \<Rightarrow> web_incoming \<Rightarrow> nat \<Rightarrow> string \<Rightarrow> string \<Rightarrow> string option \<Rightarrow> response" where
  "setup_form W i status totp_uri secret_base32 error_key =
     page_response W status (TotpSetupTemplate (web_locale W i) (wb_qr W totp_uri) secret_base32 error_key)"

text \<open>The user of a page that needs a session, and what is done without one.\<close>

definition with_session :: "web \<Rightarrow> web_incoming \<Rightarrow> response \<Rightarrow> (string \<Rightarrow> (web_world, response) state) \<Rightarrow> (web_world, response) state" where
  "with_session W i missing f =
     (case web_cookie W i SSO_SESSION_COOKIE of Some sso \<Rightarrow> f sso | None \<Rightarrow> State_Monad.return missing)"

definition totp_setup_page :: "web \<Rightarrow> web_handler" where
  "totp_setup_page W i = with_session W i (message_page W i ''mfa-title'' 401 ''mfa-error-not-signed-in'') (\<lambda>sso. do {
     r \<leftarrow> setup_call W i sso;
     State_Monad.return (case r of
       Inl _ \<Rightarrow> bad_gateway
     | Inr (SetupReady totp_uri secret) \<Rightarrow> setup_form W i 200 totp_uri secret None
     | Inr SetupAlreadyConfigured \<Rightarrow> message_page W i ''mfa-title'' 409 ''mfa-error-already-configured''
     | Inr SetupSessionExpired \<Rightarrow> message_page W i ''mfa-title'' 401 ''mfa-error-session-expired''
     | Inr SetupInternal \<Rightarrow> empty_response 500)
   })"

text \<open>After a wrong code the set-up is called again for a new page, which stores a new secret.\<close>

definition totp_setup_confirm :: "web \<Rightarrow> web_handler" where
  "totp_setup_confirm W i = with_form W (\<lambda>fs. field fs ''code'') i (\<lambda>code.
     with_session W i (message_page W i ''mfa-title'' 401 ''mfa-error-not-signed-in'') (\<lambda>sso. do {
       r \<leftarrow> api_totp_confirm W i
              [(''sso_session_id'', JStr sso), (''code'', JStr (trim code))];
       case r of
         Inl _ \<Rightarrow> State_Monad.return bad_gateway
       | Inr ConfirmDone \<Rightarrow>
           State_Monad.return (message_page W i ''mfa-setup-confirmed-title'' 200 ''mfa-setup-confirmed-message'')
       | Inr ConfirmInvalidCode \<Rightarrow> do {
           q \<leftarrow> setup_call W i sso;
           State_Monad.return (case q of
             Inr (SetupReady totp_uri secret) \<Rightarrow> setup_form W i 422 totp_uri secret (Some ''mfa-error-invalid-code'')
           | _ \<Rightarrow> message_page W i ''mfa-title'' 422 ''mfa-error-invalid-code'')
         }
       | Inr ConfirmNotFound \<Rightarrow> State_Monad.return (message_page W i ''mfa-title'' 401 ''mfa-error-session-expired'')
       | Inr ConfirmSessionExpired \<Rightarrow> State_Monad.return (message_page W i ''mfa-title'' 401 ''mfa-error-session-expired'')
       | Inr ConfirmAlreadyConfigured \<Rightarrow>
           State_Monad.return (message_page W i ''mfa-title'' 409 ''mfa-error-already-configured'')
       | Inr ConfirmInternal \<Rightarrow> State_Monad.return (empty_response 500)
     }))"

definition totp_setup_delete :: "web \<Rightarrow> web_handler" where
  "totp_setup_delete W i = with_session W i (message_page W i ''mfa-title'' 401 ''mfa-error-not-signed-in'') (\<lambda>sso. do {
     r \<leftarrow> api_totp_delete W i [(''sso_session_id'', JStr sso)];
     State_Monad.return (case r of
       Inl _ \<Rightarrow> bad_gateway
     | Inr DeleteDone \<Rightarrow> message_page W i ''mfa-deleted-title'' 200 ''mfa-deleted-message''
     | Inr DeleteSessionExpired \<Rightarrow> message_page W i ''mfa-title'' 401 ''mfa-error-session-expired''
     | Inr DeleteInternal \<Rightarrow> empty_response 500)
   })"

section \<open>Passkeys\<close>

definition passkey_list_page :: "web \<Rightarrow> web_handler" where
  "passkey_list_page W i = with_session W i (message_page W i ''passkey-title'' 401 ''passkey-error-not-signed-in'') (\<lambda>sso. do {
     r \<leftarrow> api_passkey_list W i [(''sso_session_id'', JStr sso)];
     State_Monad.return (case r of
       Inl _ \<Rightarrow> bad_gateway
     | Inr (PasskeyList credentials) \<Rightarrow>
         page_response W 200 (PasskeyListTemplate (web_locale W i) (tenant_prefix i) credentials)
     | Inr PasskeyListSessionExpired \<Rightarrow> message_page W i ''passkey-title'' 401 ''passkey-error-session-expired''
     | Inr PasskeyListInternal \<Rightarrow> empty_response 500)
   })"

definition passkey_register_page :: "web \<Rightarrow> web_handler" where
  "passkey_register_page W i =
     with_session W i (message_page W i ''passkey-title'' 401 ''passkey-error-not-signed-in'') (\<lambda>_.
       State_Monad.return (page_response W 200 (PasskeyRegisterTemplate (web_locale W i) (tenant_prefix i) None)))"

definition with_body ::
  "'b extractor \<Rightarrow> web_incoming \<Rightarrow> ('b \<Rightarrow> (web_world, response) state) \<Rightarrow> (web_world, response) state" where
  "with_body read i f =
     (case read (wi_request i) of Inl rejection \<Rightarrow> State_Monad.return rejection | Inr b \<Rightarrow> f b)"

definition passkey_register_begin_api :: "web \<Rightarrow> web_handler" where
  "passkey_register_begin_api W i = with_body (wb_register_begin W) i (\<lambda>name.
     with_session W i (empty_response 401) (\<lambda>sso. do {
       r \<leftarrow> api_passkey_register_begin W i
              [(''sso_session_id'', JStr sso), (''user_name'', JStr name)];
       State_Monad.return (case r of
         Inl _ \<Rightarrow> bad_gateway
       | Inr (BeginOk j) \<Rightarrow> json_response 200 j
       | Inr BeginSessionExpired \<Rightarrow> empty_response 401
       | Inr BeginInternal \<Rightarrow> empty_response 500)
     }))"

definition passkey_register_complete_api :: "web \<Rightarrow> web_handler" where
  "passkey_register_complete_api W i = with_body (wb_register_complete W) i (\<lambda>(challenge_id, name, credential).
     with_session W i (empty_response 401) (\<lambda>sso. do {
       r \<leftarrow> api_passkey_register_complete W i
              [(''sso_session_id'', JStr sso), (''challenge_id'', JStr challenge_id), (''name'', JStr name),
               (''credential'', credential)];
       State_Monad.return (case r of
         Inl _ \<Rightarrow> bad_gateway
       | Inr CompleteInternal \<Rightarrow> empty_response 500
       | Inr CompleteSessionExpired \<Rightarrow> empty_response 401
       | Inr (CompleteOther j) \<Rightarrow> json_response 200 j)
     }))"

definition web_passkey_delete :: "web \<Rightarrow> web_handler" where
  "web_passkey_delete W i = with_form W (\<lambda>fs. field fs ''credential_id'') i (\<lambda>credential_id.
     with_session W i (message_page W i ''passkey-title'' 401 ''passkey-error-not-signed-in'') (\<lambda>sso. do {
       r \<leftarrow> api_passkey_delete W i
              [(''sso_session_id'', JStr sso), (''credential_id'', JStr credential_id)];
       State_Monad.return (case r of
         Inl _ \<Rightarrow> bad_gateway
       | Inr PasskeyDeleted \<Rightarrow> message_page W i ''passkey-deleted-title'' 200 ''passkey-deleted-message''
       | Inr PasskeyDeleteSessionExpired \<Rightarrow> message_page W i ''passkey-title'' 401 ''passkey-error-session-expired''
       | Inr PasskeyDeleteInternal \<Rightarrow> empty_response 500)
     }))"

definition passkey_login_begin_api :: "web \<Rightarrow> web_handler" where
  "passkey_login_begin_api W i = do {
     r \<leftarrow> api_passkey_login_begin W i
            [(''auth_session_id'', jopt (web_cookie W i AUTH_SESSION_COOKIE))];
     State_Monad.return (case r of Inl _ \<Rightarrow> bad_gateway | Inr j \<Rightarrow> json_response 200 j)
   }"

definition passkey_login_response :: "web \<Rightarrow> web_incoming \<Rightarrow> passkey_login_reply \<Rightarrow> response" where
  "passkey_login_response W i outcome =
     (let redirect = (\<lambda>location. json_response 200 (JObj [(''redirect_to'', JStr location)]));
          failed = (\<lambda>code. json_response 200 (JObj [(''error'', JStr code)])) in
      case outcome of
        RePasskeySuccess redirect_to sso ttl \<Rightarrow>
          with_cookies W [sso_cookie W sso ttl, clear_cookie W AUTH_SESSION_COOKIE] (redirect redirect_to)
      | RePasskeyConsentRequired auth_session_id sso ttl \<Rightarrow>
          with_cookies W [sso_cookie W sso ttl, auth_cookie W auth_session_id] (redirect (tenant_prefix i @ ''/consent''))
      | RePasskeyChallengeNotFound \<Rightarrow> failed ''challenge_not_found''
      | RePasskeySessionExpired \<Rightarrow> failed ''session_expired''
      | RePasskeyInvalidCredential \<Rightarrow> failed ''invalid_credential''
      | RePasskeyInternal \<Rightarrow> empty_response 500)"

definition passkey_login_complete_api :: "web \<Rightarrow> web_handler" where
  "passkey_login_complete_api W i = with_body (wb_login_complete W) i (\<lambda>(challenge_id, credential). do {
     r \<leftarrow> api_passkey_login_complete W i
            [(''challenge_id'', JStr challenge_id), (''credential'', credential)];
     State_Monad.return (case r of Inl _ \<Rightarrow> bad_gateway | Inr outcome \<Rightarrow> passkey_login_response W i outcome)
   })"

section \<open>Mailed links\<close>

definition forgot_view :: "web \<Rightarrow> web_incoming \<Rightarrow> nat \<Rightarrow> bool \<Rightarrow> string option \<Rightarrow> response" where
  "forgot_view W i status accepted error_key =
     page_response W status (ForgotPassword (web_locale W i) accepted error_key)"

definition forgot_page :: "web \<Rightarrow> web_handler" where
  "forgot_page W i = State_Monad.return (forgot_view W i 200 False None)"

definition forgot_submit :: "web \<Rightarrow> web_handler" where
  "forgot_submit W i = with_form W (\<lambda>fs. field fs ''email'') i (\<lambda>email. do {
     r \<leftarrow> api_password_reset_request W i [(''email'', JStr email)];
     State_Monad.return (case r of
       Inr ReResetAccepted \<Rightarrow> forgot_view W i 200 True None
     | Inr ReResetUnavailable \<Rightarrow> forgot_view W i 200 False (Some ''forgot-password-error-unavailable'')
     | Inr ReResetRateLimited \<Rightarrow> forgot_view W i 429 False (Some ''forgot-password-error-rate-limited'')
     | Inl _ \<Rightarrow> forgot_view W i 502 False (Some ''admin-error-internal''))
   })"

definition reset_view :: "web \<Rightarrow> web_incoming \<Rightarrow> bool \<Rightarrow> string \<Rightarrow> bool \<Rightarrow> string option \<Rightarrow> nat \<Rightarrow> response" where
  "reset_view W i show_form token success error_key status =
     page_response W status (PasswordResetPage (web_locale W i) (tenant_prefix i) show_form token success error_key)"

definition token_query :: "fields \<Rightarrow> string option" where
  "token_query fs = map_option unwrap_or_default (field_option fs ''token'')"

definition reset_page :: "web \<Rightarrow> web_handler" where
  "reset_page W i = with_query W token_query i (\<lambda>token. State_Monad.return
     (if token = [] then reset_view W i False [] False (Some ''password-reset-error-missing-token'') 400
      else reset_view W i True token False None 200))"

definition read_reset_form :: "fields \<Rightarrow> (string \<times> string \<times> string) option" where
  "read_reset_form fs = do {
     t \<leftarrow> field fs ''token'';
     n \<leftarrow> field fs ''new_password'';
     n' \<leftarrow> field fs ''new_password_confirm'';
     Some (t, n, n')
   }"

definition reset_submit :: "web \<Rightarrow> web_handler" where
  "reset_submit W i = with_form W read_reset_form i (\<lambda>(token, new_password, new_password_confirm).
     if new_password \<noteq> new_password_confirm then
       State_Monad.return (reset_view W i True token False (Some ''password-reset-error-mismatch'') 400)
     else do {
       r \<leftarrow> api_password_reset_complete W i
              [(''token'', JStr token), (''new_password'', JStr new_password)];
       State_Monad.return (case r of
         Inr ResetDone \<Rightarrow> reset_view W i False [] True None 200
       | Inr ReResetInvalidOrExpired \<Rightarrow> reset_view W i False [] False (Some ''password-reset-error-invalid'') 400
       | Inr ReResetWeakPassword \<Rightarrow> reset_view W i True token False (Some ''password-reset-error-weak'') 400
       | Inr ReResetInternal \<Rightarrow> reset_view W i True token False (Some ''admin-error-internal'') 500
       | Inl _ \<Rightarrow> reset_view W i True token False (Some ''admin-error-internal'') 502)
     })"

definition verify_email_view :: "web \<Rightarrow> web_incoming \<Rightarrow> nat \<Rightarrow> bool \<Rightarrow> string \<Rightarrow> bool \<Rightarrow> string option \<Rightarrow> response" where
  "verify_email_view W i status show_form token success error_key =
     page_response W status (VerifyEmail (web_locale W i) show_form token success error_key)"

definition verify_email_page :: "web \<Rightarrow> web_handler" where
  "verify_email_page W i = with_query W token_query i (\<lambda>token. State_Monad.return
     (if token = [] then verify_email_view W i 400 False [] False None
      else verify_email_view W i 200 True token False None))"

definition verify_email_submit :: "web \<Rightarrow> web_handler" where
  "verify_email_submit W i = with_form W (\<lambda>fs. field fs ''token'') i (\<lambda>token. do {
     r \<leftarrow> api_verify_email W i token;
     State_Monad.return (case r of
       Inr LinkVerified \<Rightarrow> verify_email_view W i 200 False [] True None
     | Inr LinkInvalidOrExpired \<Rightarrow> verify_email_view W i 400 True token False (Some ''verify-email-error-invalid'')
     | Inl _ \<Rightarrow> verify_email_view W i 500 True token False (Some ''admin-error-internal''))
   })"

definition invitation_view :: "web \<Rightarrow> web_incoming \<Rightarrow> nat \<Rightarrow> bool \<Rightarrow> string \<Rightarrow> string \<Rightarrow> string option \<Rightarrow> response" where
  "invitation_view W i status show_form token csrf error_key =
     page_response W status (InvitationAccept (web_locale W i) show_form token csrf False error_key)"

definition invitation_page :: "web \<Rightarrow> web_handler" where
  "invitation_page W i = with_query W token_query i (\<lambda>token. State_Monad.return
     (if token = [] then invitation_view W i 400 False [] [] None
      else case web_cookie W i SSO_SESSION_COOKIE of
        Some sso \<Rightarrow> invitation_view W i 200 True token (console_csrf_token W sso) None
      | None \<Rightarrow> invitation_view W i 200 False token [] None))"

definition read_accept_form :: "fields \<Rightarrow> (string \<times> string) option" where
  "read_accept_form fs = do {
     t \<leftarrow> field fs ''token'';
     c \<leftarrow> field fs ''csrf_token'';
     Some (t, c)
   }"

definition invitation_submit :: "web \<Rightarrow> web_handler" where
  "invitation_submit W i = with_form W read_accept_form i (\<lambda>(token, csrf_token).
     with_session W i (invitation_view W i 200 False token [] None) (\<lambda>sso.
       let csrf = console_csrf_token W sso in
       if csrf \<noteq> csrf_token then
         State_Monad.return (invitation_view W i 400 True token csrf (Some ''admin-error-csrf''))
       else do {
         r \<leftarrow> api_accept_invitation W i sso token;
         State_Monad.return (case r of
           Inr _ \<Rightarrow> page_response W 200 (InvitationAccept (web_locale W i) False [] [] True None)
         | Inl ApiUnauthorizedError \<Rightarrow> invitation_view W i 200 False token [] None
         | Inl ApiForbiddenError \<Rightarrow> invitation_view W i 400 True token csrf (Some ''invitation-accept-error-forbidden'')
         | Inl (ApiValidationError _) \<Rightarrow> invitation_view W i 400 True token csrf (Some ''invitation-accept-error-invalid'')
         | Inl (ApiConflictError _) \<Rightarrow> invitation_view W i 400 True token csrf (Some ''invitation-accept-error-invalid'')
         | Inl _ \<Rightarrow> invitation_view W i 400 True token csrf (Some ''admin-error-internal''))
       }))"

section \<open>The own account\<close>

record settings_query =
  sq_lang :: "string option"
  sq_saved :: "string option"
  sq_error :: "string option"
  sq_from :: "string option"

definition read_settings_query :: "fields \<Rightarrow> settings_query option" where
  "read_settings_query fs = do {
     l \<leftarrow> field_option fs ''lang'';
     s \<leftarrow> field_option fs ''saved'';
     e \<leftarrow> field_option fs ''error'';
     f \<leftarrow> field_option fs ''from'';
     Some \<lparr>sq_lang = l, sq_saved = s, sq_error = e, sq_from = f\<rparr>
   }"

definition settings_saved_key :: "string \<Rightarrow> string option" where
  "settings_saved_key = map_of
     [(''password'', ''user-settings-password-saved''), (''name'', ''user-settings-name-saved'')]"

definition settings_error_key :: "string \<Rightarrow> string option" where
  "settings_error_key = map_of
     [(''mismatch'', ''user-settings-error-mismatch''), (''invalid-current'', ''user-settings-error-invalid-current''),
      (''weak'', ''user-settings-error-weak''), (''session'', ''user-settings-error-session''),
      (''internal'', ''user-settings-error-internal''), (''name-invalid'', ''user-settings-error-name-invalid'')]"

definition profile_names :: "web \<Rightarrow> web_incoming \<Rightarrow> (web_world, string \<times> string) state" where
  "profile_names W i =
     (case web_cookie W i SSO_SESSION_COOKIE of
        None \<Rightarrow> State_Monad.return ([], [])
      | Some sso \<Rightarrow> do {
          r \<leftarrow> api_account_profile W [(''sso_session_id'', JStr sso)];
          State_Monad.return (case r of
            Inr (ReProfile name preferred_username _) \<Rightarrow> (unwrap_or_default name, unwrap_or_default preferred_username)
          | _ \<Rightarrow> ([], []))
        })"

text \<open>A chosen language is stored for the signed-in user, by a GET request, and kept in a cookie.\<close>

definition settings_page :: "web \<Rightarrow> web_handler" where
  "settings_page W i = with_query W read_settings_query i (\<lambda>query. do {
     let locale = locale_resolve (sq_lang query) None (web_cookie W i LANG_COOKIE) (accept_language_of W i) in do {
     names \<leftarrow> profile_names W i;
     let body = page_response W 200 (UserSettings locale (tenant_prefix i) (locale_as_tag locale) (fst names) (snd names)
                  (Option.bind (sq_saved query) settings_saved_key) (Option.bind (sq_error query) settings_error_key)
                  (sq_from query = Some ''admin'')) in
     case map_option locale_as_tag (Option.bind (sq_lang query) locale_from_tag) of
       None \<Rightarrow> State_Monad.return body
     | Some tag \<Rightarrow> do {
         _ \<leftarrow> (case web_cookie W i SSO_SESSION_COOKIE of
                None \<Rightarrow> State_Monad.return ()
              | Some sso \<Rightarrow> State_Monad.bind
                  (api_account_update_language W
                     [(''sso_session_id'', JStr sso), (''language'', JStr tag)])
                  (\<lambda>_. State_Monad.return ()));
         State_Monad.return (with_cookies W [set_cookie W LANG_COOKIE tag LANG_COOKIE_MAX_AGE_SECS] body)
       }
   }})"

definition from_suffix :: "string option \<Rightarrow> string" where
  "from_suffix from_page = (if from_page = Some ''admin'' then ''&from=admin'' else [])"

definition settings_redirect :: "web \<Rightarrow> web_incoming \<Rightarrow> string \<Rightarrow> string option \<Rightarrow> response" where
  "settings_redirect W i query from_page = redirect_under W i (''/settings?'' @ query @ from_suffix from_page)"

definition read_account_password_form :: "fields \<Rightarrow> (string \<times> string \<times> string \<times> string option) option" where
  "read_account_password_form fs = do {
     c \<leftarrow> field fs ''current_password'';
     n \<leftarrow> field fs ''new_password'';
     n' \<leftarrow> field fs ''new_password_confirm'';
     f \<leftarrow> field_option fs ''from'';
     Some (c, n, n', f)
   }"

definition settings_change_password :: "web \<Rightarrow> web_handler" where
  "settings_change_password W i = with_form W read_account_password_form i
     (\<lambda>(current_password, new_password, new_password_confirm, from_page).
     if new_password \<noteq> new_password_confirm then State_Monad.return (settings_redirect W i ''error=mismatch'' from_page)
     else with_session W i (settings_redirect W i ''error=session'' from_page) (\<lambda>sso. do {
       r \<leftarrow> api_account_change_password W i
              [(''sso_session_id'', JStr sso), (''current_password'', JStr current_password),
               (''new_password'', JStr new_password), (''ip_address'', jopt (forwarded_ip W i)),
               (''user_agent'', jopt (forwarded_user_agent W i))];
       State_Monad.return (case r of
         Inl _ \<Rightarrow> bad_gateway
       | Inr AccountPasswordDone \<Rightarrow> settings_redirect W i ''saved=password'' from_page
       | Inr AccountPasswordSessionExpired \<Rightarrow> settings_redirect W i ''error=session'' from_page
       | Inr AccountPasswordInvalidCurrent \<Rightarrow> settings_redirect W i ''error=invalid-current'' from_page
       | Inr AccountPasswordWeak \<Rightarrow> settings_redirect W i ''error=weak'' from_page
       | Inr AccountPasswordInternal \<Rightarrow> settings_redirect W i ''error=internal'' from_page)
     }))"

definition read_account_name_form :: "fields \<Rightarrow> (string option \<times> string option) option" where
  "read_account_name_form fs = do {
     n \<leftarrow> field_option fs ''name'';
     f \<leftarrow> field_option fs ''from'';
     Some (n, f)
   }"

definition settings_change_name :: "web \<Rightarrow> web_handler" where
  "settings_change_name W i = with_form W read_account_name_form i (\<lambda>(name, from_page).
     with_session W i (settings_redirect W i ''error=session'' from_page) (\<lambda>sso. do {
       r \<leftarrow> api_account_update_name W
              [(''sso_session_id'', JStr sso), (''name'', jopt name)];
       State_Monad.return (case r of
         Inl _ \<Rightarrow> bad_gateway
       | Inr NameDone \<Rightarrow> settings_redirect W i ''saved=name'' from_page
       | Inr ReNameSessionExpired \<Rightarrow> settings_redirect W i ''error=session'' from_page
       | Inr ReNameInvalid \<Rightarrow> settings_redirect W i ''error=name-invalid'' from_page
       | Inr ReNameInternal \<Rightarrow> settings_redirect W i ''error=internal'' from_page)
     }))"

end
