(* ===== verification/WebConsole.thy ===== *)
theory WebConsole
  imports WebLogin
begin

text \<open>
  The handlers of the administration console (\<^verbatim>\<open>web/src/handlers/admin_*.rs\<close>). Every page first asks the API
  who is signed in (\<open>resolve_admin\<close>); a form that changes something is checked against the token of the
  session before anything is sent. What the modules repeat is written once: the page that is shown when
  data cannot be had, the token of the session and its check.
\<close>

section \<open>Signing in\<close>

definition admin_token :: "web \<Rightarrow> web_incoming \<Rightarrow> string" where
  "admin_token W i = admin_csrf_token W (unwrap_or_default (web_cookie W i ADMIN_CSRF_COOKIE))"

definition admin_csrf_ok :: "web \<Rightarrow> web_incoming \<Rightarrow> string \<Rightarrow> bool" where
  "admin_csrf_ok W i submitted = seed_valid (admin_csrf_token W) (web_cookie W i ADMIN_CSRF_COOKIE) submitted"

definition redirect_to_login :: "web \<Rightarrow> web_incoming \<Rightarrow> response" where
  "redirect_to_login W i = redirect_under W i ''/admin/login''"

definition forbidden_response :: "web \<Rightarrow> web_incoming \<Rightarrow> response" where
  "forbidden_response W i = message_page W i ''admin-forbidden-title'' 403 ''admin-forbidden-message''"

definition sso :: "web \<Rightarrow> web_incoming \<Rightarrow> string" where
  "sso W i = unwrap_or_default (web_cookie W i SSO_SESSION_COOKIE)"

definition resolve_admin :: "web \<Rightarrow> web_incoming \<Rightarrow> (web_world, response + string) state" where
  "resolve_admin W i = do {
     s \<leftarrow> admin_whoami W i (sso W i);
     State_Monad.return (case s of
       Authenticated user_id \<Rightarrow> Inr user_id
     | Unauthenticated \<Rightarrow> Inl (redirect_to_login W i)
     | ForbiddenSession \<Rightarrow> Inl (forbidden_response W i)
     | SessionError \<Rightarrow> Inl (html 502 []))
   }"

definition with_admin :: "web \<Rightarrow> web_incoming \<Rightarrow> (string \<Rightarrow> (web_world, response) state) \<Rightarrow> (web_world, response) state" where
  "with_admin W i f = do {
     r \<leftarrow> resolve_admin W i;
     case r of Inl rejection \<Rightarrow> State_Monad.return rejection | Inr admin \<Rightarrow> f admin
   }"

definition console :: "web \<Rightarrow> web_incoming \<Rightarrow> string \<Rightarrow> nat \<Rightarrow> console_page \<Rightarrow> response" where
  "console W i admin status p =
     page_response W status (ConsolePage \<lparr>ch_locale = web_locale W i, ch_tenant = tenant_prefix i, ch_admin = admin\<rparr> p)"

definition admin_login_form :: "web \<Rightarrow> web_incoming \<Rightarrow> nat \<Rightarrow> string \<Rightarrow> string option \<Rightarrow> response" where
  "admin_login_form W i status csrf error_key = page_response W status (ConsoleLogin (web_locale W i) csrf error_key)"

definition admin_change_form :: "web \<Rightarrow> web_incoming \<Rightarrow> nat \<Rightarrow> string \<Rightarrow> string \<Rightarrow> string option \<Rightarrow> response" where
  "admin_change_form W i status csrf username error_key =
     page_response W status
       (ForcedPasswordChange (web_locale W i) (tenant_prefix i @ ''/admin/password-change'') csrf username error_key)"

definition console_home :: "web \<Rightarrow> web_handler" where
  "console_home W i = with_admin W i (\<lambda>admin. do {
     r \<leftarrow> api_get_current_tenant W i (sso W i);
     State_Monad.return (console W i admin 200 (ConsoleHome (case r of Inr t \<Rightarrow> Some (tv_name t) | Inl _ \<Rightarrow> None)))
   })"

definition switch_tenant :: "web \<Rightarrow> web_handler" where
  "switch_tenant W i = with_admin W i (\<lambda>admin. do {
     r \<leftarrow> api_account_tenants W [(''sso_session_id'', JStr (sso W i))];
     State_Monad.return (console W i admin 200 (SwitchTenant
       (case r of Inr (TenantsList ts) \<Rightarrow> ts | _ \<Rightarrow> []) (wi_tenant i) (isl r)))
   })"

definition admin_login_page :: "web \<Rightarrow> web_handler" where
  "admin_login_page W i = do {
     signed \<leftarrow> (case web_cookie W i SSO_SESSION_COOKIE of
        Some s \<Rightarrow> State_Monad.bind (admin_whoami W i s)
          (\<lambda>r. State_Monad.return (case r of Authenticated _ \<Rightarrow> True | _ \<Rightarrow> False))
      | None \<Rightarrow> State_Monad.return False);
     if signed then State_Monad.return (redirect_under W i ''/admin'')
     else do {
       u \<leftarrow> web_new_v4;
       let csrf_id = uuid_simple (wb_http W) u in
       State_Monad.return (with_cookies W [set_cookie W ADMIN_CSRF_COOKIE csrf_id 3600]
         (admin_login_form W i 200 (admin_csrf_token W csrf_id) None))
     }
   }"

definition admin_signed_in :: "web \<Rightarrow> web_incoming \<Rightarrow> string \<Rightarrow> nat \<Rightarrow> response" where
  "admin_signed_in W i session_id ttl =
     with_cookies W [sso_cookie W session_id ttl, clear_cookie W ADMIN_CSRF_COOKIE] (redirect_under W i ''/admin'')"

definition admin_login_response :: "web \<Rightarrow> web_incoming \<Rightarrow> admin_authenticate_reply \<Rightarrow> response" where
  "admin_login_response W i outcome =
     (let reshow = (\<lambda>status key. admin_login_form W i status (admin_token W i) (Some key)) in
      case outcome of
        AdminAuthSuccess session_id ttl \<Rightarrow> admin_signed_in W i session_id ttl
      | AdminAuthPasswordChangeRequired username \<Rightarrow> admin_change_form W i 200 (admin_token W i) username None
      | AdminAuthRateLimited \<Rightarrow> reshow 429 ''login-error-rate-limited''
      | AdminAuthInvalidCredentials \<Rightarrow> reshow 401 ''login-error-invalid-credentials''
      | AdminAuthLocked \<Rightarrow> reshow 403 ''login-error-locked''
      | AdminAuthForbidden \<Rightarrow> reshow 403 ''admin-login-error-forbidden''
      | AdminAuthInternal \<Rightarrow> html 500 [])"

definition web_admin_login :: "web \<Rightarrow> web_handler" where
  "web_admin_login W i = with_form W read_login_form i (\<lambda>form.
     if \<not> admin_csrf_ok W i (lf_csrf_token form) then
       State_Monad.return (admin_login_form W i 400 [] (Some ''login-error-csrf''))
     else do {
       r \<leftarrow> api_authenticate_admin W i
              [(''username'', JStr (lf_username form)), (''password'', JStr (lf_password form))];
       State_Monad.return (case r of Inl _ \<Rightarrow> bad_gateway | Inr outcome \<Rightarrow> admin_login_response W i outcome)
     })"

definition admin_password_change_page :: "web \<Rightarrow> web_handler" where
  "admin_password_change_page W i = State_Monad.return (redirect_to_login W i)"

definition admin_change_response :: "web \<Rightarrow> web_incoming \<Rightarrow> string \<Rightarrow> admin_change_reply \<Rightarrow> response" where
  "admin_change_response W i username outcome =
     (let reshow = (\<lambda>status key. admin_change_form W i status (admin_token W i) username (Some key)) in
      case outcome of
        AdminChangeSuccess session_id ttl \<Rightarrow> admin_signed_in W i session_id ttl
      | AdminChangeRateLimited \<Rightarrow> reshow 429 ''login-error-rate-limited''
      | AdminChangeInvalidCredentials \<Rightarrow> reshow 401 ''password-change-error-invalid-current''
      | AdminChangeLocked \<Rightarrow> reshow 403 ''login-error-locked''
      | AdminChangeForbidden \<Rightarrow> reshow 403 ''admin-login-error-forbidden''
      | AdminChangeWeakPassword \<Rightarrow> reshow 422 ''password-change-error-weak''
      | AdminChangeInternal \<Rightarrow> html 500 [])"

definition web_admin_password_change :: "web \<Rightarrow> web_handler" where
  "web_admin_password_change W i = with_form W read_forced_form i (\<lambda>(username, form).
     if \<not> admin_csrf_ok W i (pf_csrf_token form) then
       State_Monad.return (admin_change_form W i 400 [] username (Some ''login-error-csrf''))
     else if pf_new_password form \<noteq> pf_new_password_confirm form then
       State_Monad.return (admin_change_form W i 422 (admin_token W i) username (Some ''password-change-error-mismatch''))
     else do {
       r \<leftarrow> api_admin_change_password W i
              [(''username'', JStr username), (''current_password'', JStr (pf_current_password form)),
               (''new_password'', JStr (pf_new_password form))];
       State_Monad.return (case r of Inl _ \<Rightarrow> bad_gateway | Inr outcome \<Rightarrow> admin_change_response W i username outcome)
     })"

definition web_admin_logout :: "web \<Rightarrow> web_handler" where
  "web_admin_logout W = web_logout_to W ''/admin/login''"

section \<open>What the pages share\<close>

text \<open>The token of the forms of the console, its check, and the variant of it that takes a missing cookie as empty.\<close>

definition csrf_from :: "web \<Rightarrow> web_incoming \<Rightarrow> string" where
  "csrf_from W i = (case web_cookie W i SSO_SESSION_COOKIE of Some s \<Rightarrow> console_csrf_token W s | None \<Rightarrow> [])"

definition csrf_valid :: "web \<Rightarrow> web_incoming \<Rightarrow> string \<Rightarrow> bool" where
  "csrf_valid W i submitted =
     (case web_cookie W i SSO_SESSION_COOKIE of Some s \<Rightarrow> console_csrf_token W s = submitted | None \<Rightarrow> False)"

definition session_csrf :: "web \<Rightarrow> web_incoming \<Rightarrow> string" where
  "session_csrf W i = console_csrf_token W (sso W i)"

definition read_csrf_form :: "fields \<Rightarrow> string option" where
  "read_csrf_form fs = field fs ''csrf_token''"

definition back_with :: "web \<Rightarrow> web_incoming \<Rightarrow> string \<Rightarrow> string \<Rightarrow> response" where
  "back_with W i segment suffix = redirect_under W i (segment @ suffix)"

definition internal_notice :: "web \<Rightarrow> web_incoming \<Rightarrow> string \<Rightarrow> response" where
  "internal_notice W i admin =
     console W i admin 500 (ConsoleNotice None (web_message W i ''admin-error-internal'') True None [])"

definition map_data_error ::
  "web \<Rightarrow> web_incoming \<Rightarrow> string \<Rightarrow> response \<Rightarrow> admin_api_error \<Rightarrow> response" where
  "map_data_error W i admin missing e =
     (case e of
        ApiUnauthorizedError \<Rightarrow> redirect_to_login W i
      | ApiForbiddenError \<Rightarrow> forbidden_response W i
      | ApiNotFoundError \<Rightarrow> missing
      | _ \<Rightarrow> internal_notice W i admin)"

text \<open>The key of the message for an error that a redirect named in the query.\<close>

definition query_error :: "fields \<Rightarrow> string option option" where
  "query_error fs = field_option fs ''error''"

section \<open>Members\<close>

definition filter_members :: "web \<Rightarrow> member_view list \<Rightarrow> string \<Rightarrow> member_view list" where
  "filter_members W members term =
     (let needle = wb_lowercase W (trim term);
          holds = (\<lambda>v. str_contains (wb_lowercase W (unwrap_or_default v)) needle) in
      if needle = [] then members else filter (\<lambda>m. holds (mv_email m) \<or> holds (mv_name m)) members)"

definition members_error_key :: "string \<Rightarrow> string option" where
  "members_error_key = map_of
     [(''csrf'', ''admin-error-csrf''), (''forbidden'', ''admin-members-error-home''),
      (''notfound'', ''admin-members-error-notfound''), (''self'', ''admin-members-error-self''),
      (''user-notfound'', ''admin-members-error-user-notfound''), (''internal'', ''admin-error-internal'')]"

definition read_members_query :: "fields \<Rightarrow> (string option \<times> string option) option" where
  "read_members_query fs = do {
     e \<leftarrow> field_option fs ''error'';
     q \<leftarrow> field_option fs ''q'';
     Some (e, q)
   }"

definition members_page :: "web \<Rightarrow> web_handler" where
  "members_page W i = with_query W read_members_query i (\<lambda>(error, q). with_admin W i (\<lambda>admin. do {
     r \<leftarrow> api_list_members W i (sso W i);
     State_Monad.return (case r of
       Inr members \<Rightarrow> console W i admin 200
         (MembersList (filter_members W members (unwrap_or_default q)) (trim (unwrap_or_default q)) (csrf_from W i)
           (Option.bind error members_error_key))
     | Inl ApiUnauthorizedError \<Rightarrow> redirect_to_login W i
     | Inl ApiForbiddenError \<Rightarrow> forbidden_response W i
     | Inl _ \<Rightarrow> internal_notice W i admin)
   }))"

definition members_back :: "web \<Rightarrow> web_incoming \<Rightarrow> string \<Rightarrow> response" where
  "members_back W i suffix = back_with W i ''/admin/members'' suffix"

definition members_revoke :: "web \<Rightarrow> string \<Rightarrow> web_handler" where
  "members_revoke W user_id i = with_form W read_csrf_form i (\<lambda>csrf_token. with_admin W i (\<lambda>_.
     if \<not> csrf_valid W i csrf_token then State_Monad.return (members_back W i ''?error=csrf'')
     else do {
       r \<leftarrow> api_revoke_member W i (sso W i) user_id;
       State_Monad.return (case r of
         Inr _ \<Rightarrow> members_back W i []
       | Inl ApiUnauthorizedError \<Rightarrow> redirect_to_login W i
       | Inl ApiForbiddenError \<Rightarrow> members_back W i ''?error=forbidden''
       | Inl ApiNotFoundError \<Rightarrow> members_back W i ''?error=notfound''
       | Inl _ \<Rightarrow> members_back W i ''?error=internal'')
     }))"

text \<open>The errors of the operations on the members' accounts.\<close>

definition members_failed :: "web \<Rightarrow> web_incoming \<Rightarrow> admin_api_error \<Rightarrow> response" where
  "members_failed W i e =
     (case e of
        ApiUnauthorizedError \<Rightarrow> redirect_to_login W i
      | ApiForbiddenError \<Rightarrow> members_back W i ''?error=self''
      | ApiNotFoundError \<Rightarrow> members_back W i ''?error=user-notfound''
      | _ \<Rightarrow> members_back W i ''?error=internal'')"

definition read_status_form :: "fields \<Rightarrow> (string \<times> string) option" where
  "read_status_form fs = do {
     s \<leftarrow> field fs ''status'';
     t \<leftarrow> field fs ''csrf_token'';
     Some (s, t)
   }"

definition members_set_status :: "web \<Rightarrow> string \<Rightarrow> web_handler" where
  "members_set_status W user_id i = with_form W read_status_form i (\<lambda>(status, csrf_token). with_admin W i (\<lambda>_.
     if \<not> csrf_valid W i csrf_token then State_Monad.return (members_back W i ''?error=csrf'')
     else do {
       r \<leftarrow> api_update_user_status W i (sso W i) user_id (trim status);
       State_Monad.return (case r of Inr _ \<Rightarrow> members_back W i [] | Inl e \<Rightarrow> members_failed W i e)
     }))"

definition read_action_form :: "fields \<Rightarrow> (string \<times> string) option" where
  "read_action_form fs = do {
     e \<leftarrow> field_default fs ''email'';
     t \<leftarrow> field fs ''csrf_token'';
     Some (e, t)
   }"

definition members_reset_password :: "web \<Rightarrow> string \<Rightarrow> web_handler" where
  "members_reset_password W user_id i = with_form W read_action_form i (\<lambda>(email, csrf_token). with_admin W i (\<lambda>admin.
     if \<not> csrf_valid W i csrf_token then State_Monad.return (members_back W i ''?error=csrf'')
     else do {
       r \<leftarrow> api_reset_user_password W i (sso W i) user_id;
       State_Monad.return (case r of
         Inl e \<Rightarrow> members_failed W i e
       | Inr reset \<Rightarrow> console W i admin 200 (PasswordResetResult
           (if trim email = [] then user_id else trim email) (prv_generated_password reset)
           (tenant_prefix i @ ''/admin/members'') ''admin-members-back''))
     }))"

definition members_delete :: "web \<Rightarrow> string \<Rightarrow> web_handler" where
  "members_delete W user_id i = with_form W read_action_form i (\<lambda>(email, csrf_token). with_admin W i (\<lambda>_.
     if \<not> csrf_valid W i csrf_token then State_Monad.return (members_back W i ''?error=csrf'')
     else do {
       r \<leftarrow> api_delete_user W i (sso W i) user_id;
       State_Monad.return (case r of Inr _ \<Rightarrow> members_back W i [] | Inl e \<Rightarrow> members_failed W i e)
     }))"

section \<open>Users and permissions\<close>

definition web_user_not_found :: "web \<Rightarrow> web_incoming \<Rightarrow> string \<Rightarrow> response" where
  "web_user_not_found W i admin = console W i admin 404
     (ConsoleNotice (Some (web_message W i ''admin-user-not-found-title''))
       (web_message W i ''admin-user-not-found-message'') False (Some (tenant_prefix i @ ''/admin/members''))
       (web_message W i ''admin-members-back''))"

definition user_new_form :: "web \<Rightarrow> web_handler" where
  "user_new_form W i = with_admin W i (\<lambda>admin.
     State_Monad.return (console W i admin 200 (UserForm (csrf_from W i) None [] [] [])))"

record new_user_form =
  nu_email :: string
  nu_preferred_username :: string
  nu_name :: string
  nu_csrf_token :: string

definition read_new_user_form :: "fields \<Rightarrow> new_user_form option" where
  "read_new_user_form fs = do {
     e \<leftarrow> field fs ''email'';
     u \<leftarrow> field_default fs ''preferred_username'';
     n \<leftarrow> field_default fs ''name'';
     t \<leftarrow> field fs ''csrf_token'';
     Some \<lparr>nu_email = e, nu_preferred_username = u, nu_name = n, nu_csrf_token = t\<rparr>
   }"

definition user_form_again :: "web \<Rightarrow> web_incoming \<Rightarrow> string \<Rightarrow> new_user_form \<Rightarrow> string \<Rightarrow> response" where
  "user_form_again W i admin form error = console W i admin 400
     (UserForm (csrf_from W i) (Some error) (nu_email form) (nu_preferred_username form) (nu_name form))"

definition user_create :: "web \<Rightarrow> web_handler" where
  "user_create W i = with_form W read_new_user_form i (\<lambda>form. with_admin W i (\<lambda>admin.
     if \<not> csrf_valid W i (nu_csrf_token form) then
       State_Monad.return (user_form_again W i admin form (web_message W i ''admin-error-csrf''))
     else do {
       r \<leftarrow> api_create_user W i (sso W i)
              (JObj [(''email'', JStr (nu_email form)),
                 (''preferred_username'', jopt (non_empty (Some (trim (nu_preferred_username form))))),
                 (''name'', jopt (non_empty (Some (trim (nu_name form)))))]);
       State_Monad.return (case r of
         Inr created \<Rightarrow> console W i admin 200 (UserCreatedPage (nu_email form) (ucv_generated_password created))
       | Inl (ApiValidationError m) \<Rightarrow> user_form_again W i admin form m
       | Inl (ApiConflictError m) \<Rightarrow> user_form_again W i admin form m
       | Inl e \<Rightarrow> map_data_error W i admin (web_user_not_found W i admin) e)
     }))"

definition permissions_error_key :: "string \<Rightarrow> string option" where
  "permissions_error_key = map_of
     [(''csrf'', ''admin-error-csrf''), (''code'', ''admin-permission-error-unknown''),
      (''notfound'', ''admin-user-not-found-message''), (''internal'', ''admin-error-internal'')]"

definition permissions_page :: "web \<Rightarrow> string \<Rightarrow> web_handler" where
  "permissions_page W user_id i = with_query W query_error i (\<lambda>error. with_admin W i (\<lambda>admin. do {
     u \<leftarrow> api_get_user W i (sso W i) user_id;
     case u of
       Inl e \<Rightarrow> State_Monad.return (map_data_error W i admin (web_user_not_found W i admin) e)
     | Inr user \<Rightarrow> do {
         c \<leftarrow> api_list_user_permissions W i (sso W i) user_id;
         case c of
           Inl e \<Rightarrow> State_Monad.return (map_data_error W i admin (web_user_not_found W i admin) e)
         | Inr codes \<Rightarrow> do {
             a \<leftarrow> api_available_permissions W i (sso W i);
             State_Monad.return (console W i admin 200 (UsersPermissions user codes (case a of Inr cs \<Rightarrow> cs | Inl _ \<Rightarrow> [])
               (csrf_from W i) (Option.bind error permissions_error_key)))
           }
       }
   }))"

definition read_permission_form :: "fields \<Rightarrow> (string \<times> string) option" where
  "read_permission_form fs = do {
     c \<leftarrow> field fs ''permission_code'';
     t \<leftarrow> field fs ''csrf_token'';
     Some (c, t)
   }"

definition apply_change :: "web \<Rightarrow> bool \<Rightarrow> string \<Rightarrow> web_handler" where
  "apply_change W grant user_id i = with_form W read_permission_form i (\<lambda>(code, csrf_token). with_admin W i (\<lambda>_.
     let back = back_with W i (''/admin/users/'' @ user_id @ ''/permissions'') in
     if \<not> csrf_valid W i csrf_token then State_Monad.return (back ''?error=csrf'')
     else do {
       r \<leftarrow> (if grant
              then api_grant_permission W i (sso W i) user_id code
              else api_revoke_permission W i (sso W i) user_id code);
       State_Monad.return (case r of
         Inr _ \<Rightarrow> back []
       | Inl ApiUnauthorizedError \<Rightarrow> redirect_to_login W i
       | Inl ApiForbiddenError \<Rightarrow> forbidden_response W i
       | Inl (ApiValidationError _) \<Rightarrow> back ''?error=code''
       | Inl ApiNotFoundError \<Rightarrow> back ''?error=notfound''
       | Inl _ \<Rightarrow> back ''?error=internal'')
     }))"

definition permission_grant :: "web \<Rightarrow> string \<Rightarrow> web_handler" where
  "permission_grant W = apply_change W True"

definition permission_revoke :: "web \<Rightarrow> string \<Rightarrow> web_handler" where
  "permission_revoke W = apply_change W False"

section \<open>Invitations\<close>

definition invitation_form_page :: "web \<Rightarrow> web_handler" where
  "invitation_form_page W i = with_admin W i (\<lambda>admin.
     State_Monad.return (console W i admin 200 (InvitationForm (csrf_from W i) None [])))"

definition read_invitation_form :: "fields \<Rightarrow> (string \<times> string) option" where
  "read_invitation_form fs = do {
     u \<leftarrow> field fs ''user_id'';
     t \<leftarrow> field fs ''csrf_token'';
     Some (u, t)
   }"

definition invitation_create :: "web \<Rightarrow> web_handler" where
  "invitation_create W i = with_form W read_invitation_form i (\<lambda>(user_id, csrf_token). with_admin W i (\<lambda>admin.
     let again = (\<lambda>error. console W i admin 400 (InvitationForm (csrf_from W i) (Some error) user_id)) in
     if \<not> csrf_valid W i csrf_token then State_Monad.return (again (web_message W i ''admin-error-csrf''))
     else do {
       r \<leftarrow> api_create_invitation W i (sso W i) user_id;
       State_Monad.return (case r of
         Inr created \<Rightarrow> console W i admin 200
           (InvitationCreated (icv_token created) (icv_expires_at created) (icv_email_sent created) (icv_invitee_email created))
       | Inl ApiUnauthorizedError \<Rightarrow> redirect_to_login W i
       | Inl ApiForbiddenError \<Rightarrow> forbidden_response W i
       | Inl (ApiValidationError m) \<Rightarrow> again m
       | Inl (ApiConflictError m) \<Rightarrow> again m
       | Inl ApiNotFoundError \<Rightarrow> again (web_message W i ''admin-invitations-error-notfound'')
       | Inl _ \<Rightarrow> again (web_message W i ''admin-error-internal''))
     }))"

section \<open>Signing keys\<close>

text \<open>The notices of this page have the keys of their messages as texts.\<close>

definition keys_notice :: "web \<Rightarrow> web_incoming \<Rightarrow> string \<Rightarrow> nat \<Rightarrow> string option \<Rightarrow> string \<Rightarrow> response" where
  "keys_notice W i admin status heading message = console W i admin status
     (ConsoleNotice heading message True (Some (tenant_prefix i @ ''/admin/signing-keys'')) ''admin-nav-home'')"

definition keys_error :: "web \<Rightarrow> web_incoming \<Rightarrow> string \<Rightarrow> admin_api_error \<Rightarrow> response" where
  "keys_error W i admin e =
     (case e of
        ApiUnauthorizedError \<Rightarrow> redirect_to_login W i
      | ApiForbiddenError \<Rightarrow> forbidden_response W i
      | _ \<Rightarrow> keys_notice W i admin 500 None ''admin-error-internal'')"

definition keys_page :: "web \<Rightarrow> web_handler" where
  "keys_page W i = with_admin W i (\<lambda>admin. do {
     r \<leftarrow> api_list_signing_keys W i (sso W i);
     State_Monad.return (case r of
       Inr keys \<Rightarrow> console W i admin 200 (SigningKeysList keys (csrf_from W i) None)
     | Inl e \<Rightarrow> keys_error W i admin e)
   })"

definition keys_again :: "web \<Rightarrow> web_incoming \<Rightarrow> string \<Rightarrow> string \<Rightarrow> (web_world, response) state" where
  "keys_again W i admin error = do {
     r \<leftarrow> api_list_signing_keys W i (sso W i);
     State_Monad.return (console W i admin 400
       (SigningKeysList (case r of Inr keys \<Rightarrow> keys | Inl _ \<Rightarrow> []) (csrf_from W i) (Some error)))
   }"

definition read_generate_form :: "fields \<Rightarrow> (string \<times> string) option" where
  "read_generate_form fs = do {
     a \<leftarrow> field fs ''algorithm'';
     t \<leftarrow> field fs ''csrf_token'';
     Some (a, t)
   }"

definition key_generate :: "web \<Rightarrow> web_handler" where
  "key_generate W i = with_form W read_generate_form i (\<lambda>(algorithm, csrf_token). with_admin W i (\<lambda>admin.
     if \<not> csrf_valid W i csrf_token then keys_again W i admin ''admin-error-csrf''
     else do {
       r \<leftarrow> api_generate_signing_key W i (sso W i) algorithm;
       case r of
         Inr _ \<Rightarrow> State_Monad.return (see_other W (tenant_prefix i @ ''/admin/signing-keys''))
       | Inl (ApiValidationError m) \<Rightarrow> keys_again W i admin m
       | Inl e \<Rightarrow> State_Monad.return (keys_error W i admin e)
     }))"

definition read_kid_form :: "fields \<Rightarrow> (string \<times> string) option" where
  "read_kid_form fs = do {
     k \<leftarrow> field fs ''kid'';
     t \<leftarrow> field fs ''csrf_token'';
     Some (k, t)
   }"

definition key_action ::
  "web \<Rightarrow> (web_incoming \<Rightarrow> string \<Rightarrow> string \<Rightarrow> (web_world, admin_api_error + unit) state) \<Rightarrow> web_handler" where
  "key_action W call i = with_form W read_kid_form i (\<lambda>(kid, csrf_token). with_admin W i (\<lambda>admin.
     if \<not> csrf_valid W i csrf_token then keys_again W i admin ''admin-error-csrf''
     else do {
       r \<leftarrow> call i (sso W i) kid;
       case r of
         Inr _ \<Rightarrow> State_Monad.return (see_other W (tenant_prefix i @ ''/admin/signing-keys''))
       | Inl ApiNotFoundError \<Rightarrow> State_Monad.return (keys_notice W i admin 404
           (Some ''admin-signing-keys-not-found-title'') ''admin-signing-keys-not-found-message'')
       | Inl (ApiValidationError m) \<Rightarrow> keys_again W i admin m
       | Inl e \<Rightarrow> State_Monad.return (keys_error W i admin e)
     }))"

definition key_retire :: "web \<Rightarrow> web_handler" where
  "key_retire W = key_action W (api_retire_signing_key W)"

definition key_delete :: "web \<Rightarrow> web_handler" where
  "key_delete W = key_action W (api_delete_signing_key W)"

section \<open>Tenants\<close>

definition tenants_error_key :: "string \<Rightarrow> string option" where
  "tenants_error_key = map_of
     [(''csrf'', ''admin-error-csrf''), (''forbidden'', ''admin-tenants-error-forbidden''),
      (''validation'', ''admin-tenants-error-validation''), (''conflict'', ''admin-tenants-error-conflict''),
      (''delete-conflict'', ''admin-tenants-error-delete-conflict''), (''notfound'', ''admin-tenants-error-notfound''),
      (''reset-notfound'', ''admin-tenants-error-reset-notfound''), (''internal'', ''admin-error-internal'')]"

definition tenants_page :: "web \<Rightarrow> web_handler" where
  "tenants_page W i = with_query W query_error i (\<lambda>error. with_admin W i (\<lambda>admin. do {
     r \<leftarrow> api_list_tenants W i (sso W i);
     let show = (\<lambda>tenants. console W i admin 200
       (TenantsConsole tenants (session_csrf W i) (Option.bind error tenants_error_key))) in
     State_Monad.return (case r of
       Inr tenants \<Rightarrow> show tenants
     | Inl ApiUnauthorizedError \<Rightarrow> redirect_to_login W i
     | Inl ApiForbiddenError \<Rightarrow> forbidden_response W i
     | Inl _ \<Rightarrow> show [])
   }))"

definition tenants_back :: "web \<Rightarrow> web_incoming \<Rightarrow> string \<Rightarrow> response" where
  "tenants_back W i suffix = back_with W i ''/admin/tenants'' suffix"

definition read_tenant_create_form :: "fields \<Rightarrow> (string \<times> string) option" where
  "read_tenant_create_form fs = do {
     n \<leftarrow> field fs ''name'';
     t \<leftarrow> field fs ''csrf_token'';
     Some (n, t)
   }"

definition tenant_create :: "web \<Rightarrow> web_handler" where
  "tenant_create W i = with_form W read_tenant_create_form i (\<lambda>(name, csrf_token). with_admin W i (\<lambda>admin.
     if session_csrf W i \<noteq> csrf_token then State_Monad.return (tenants_back W i ''?error=csrf'')
     else do {
       r \<leftarrow> api_create_tenant W i (sso W i) (trim name);
       State_Monad.return (case r of
         Inr created \<Rightarrow> console W i admin 200 (TenantCreatedPage created)
       | Inl ApiUnauthorizedError \<Rightarrow> redirect_to_login W i
       | Inl ApiForbiddenError \<Rightarrow> tenants_back W i ''?error=forbidden''
       | Inl (ApiValidationError _) \<Rightarrow> tenants_back W i ''?error=validation''
       | Inl (ApiConflictError _) \<Rightarrow> tenants_back W i ''?error=conflict''
       | Inl _ \<Rightarrow> tenants_back W i ''?error=internal'')
     }))"

definition tenant_delete :: "web \<Rightarrow> string \<Rightarrow> web_handler" where
  "tenant_delete W child_id i = with_form W read_csrf_form i (\<lambda>csrf_token. with_admin W i (\<lambda>_.
     if session_csrf W i \<noteq> csrf_token then State_Monad.return (tenants_back W i ''?error=csrf'')
     else do {
       r \<leftarrow> api_delete_tenant W i (sso W i) child_id;
       State_Monad.return (case r of
         Inr _ \<Rightarrow> tenants_back W i []
       | Inl ApiUnauthorizedError \<Rightarrow> redirect_to_login W i
       | Inl ApiForbiddenError \<Rightarrow> tenants_back W i ''?error=forbidden''
       | Inl ApiNotFoundError \<Rightarrow> tenants_back W i ''?error=notfound''
       | Inl (ApiConflictError _) \<Rightarrow> tenants_back W i ''?error=delete-conflict''
       | Inl _ \<Rightarrow> tenants_back W i ''?error=internal'')
     }))"

definition tenant_reset_admin_password :: "web \<Rightarrow> string \<Rightarrow> web_handler" where
  "tenant_reset_admin_password W child_id i = with_form W read_action_form i (\<lambda>(raw_email, csrf_token).
     with_admin W i (\<lambda>admin.
       let email = trim raw_email in
       if session_csrf W i \<noteq> csrf_token then State_Monad.return (tenants_back W i ''?error=csrf'')
       else if email = [] then State_Monad.return (tenants_back W i ''?error=validation'')
       else do {
         r \<leftarrow> api_reset_tenant_admin_password W i (sso W i) child_id email;
         State_Monad.return (case r of
           Inr reset \<Rightarrow> console W i admin 200 (PasswordResetResult email (prv_generated_password reset)
             (tenant_prefix i @ ''/admin/tenants'') ''admin-tenants-back'')
         | Inl ApiUnauthorizedError \<Rightarrow> redirect_to_login W i
         | Inl ApiForbiddenError \<Rightarrow> tenants_back W i ''?error=forbidden''
         | Inl ApiNotFoundError \<Rightarrow> tenants_back W i ''?error=reset-notfound''
         | Inl (ApiValidationError _) \<Rightarrow> tenants_back W i ''?error=validation''
         | Inl _ \<Rightarrow> tenants_back W i ''?error=internal'')
       }))"

end
