(* ===== verification/WebAdmin.thy ===== *)
theory WebAdmin
  imports WebConsole
begin

text \<open>
  The administration console, continued: settings (\<^verbatim>\<open>admin_settings.rs\<close>), clients
  (\<^verbatim>\<open>admin_clients_console.rs\<close>), SAML service providers (\<^verbatim>\<open>admin_saml_clients_console.rs\<close>), the audit log
  and the status of clients (\<^verbatim>\<open>admin_status_console.rs\<close>).
\<close>

section \<open>Settings\<close>

definition settings_error_keys :: "string \<Rightarrow> string option" where
  "settings_error_keys = map_of
     [(''csrf'', ''admin-error-csrf''), (''forbidden'', ''admin-settings-error-forbidden''),
      (''validation'', ''admin-settings-error-validation''),
      (''runtime-validation'', ''admin-settings-error-runtime-validation''), (''internal'', ''admin-error-internal'')]"

definition admin_settings_page :: "web \<Rightarrow> web_handler" where
  "admin_settings_page W i = with_query W read_settings_query i (\<lambda>query. with_admin W i (\<lambda>admin. do {
     t \<leftarrow> api_get_current_tenant W i (sso W i);
     s \<leftarrow> api_get_system_settings W i (sso W i);
     State_Monad.return (case t of
       Inl ApiUnauthorizedError \<Rightarrow> redirect_to_login W i
     | Inl ApiForbiddenError \<Rightarrow> forbidden_response W i
     | Inl _ \<Rightarrow> internal_notice W i admin
     | Inr tenant \<Rightarrow>
         if s = Inl ApiUnauthorizedError then redirect_to_login W i
         else console W i admin 200 (AdminSettings (tv_id tenant) (tv_name tenant) (tv_status tenant)
           (tv_self_registration_enabled tenant) (session_csrf W i) (sq_saved query \<noteq> None)
           (Option.bind (sq_error query) settings_error_keys) (case s of Inr v \<Rightarrow> Some v | Inl _ \<Rightarrow> None)))
   }))"

definition settings_back :: "web \<Rightarrow> web_incoming \<Rightarrow> string \<Rightarrow> response" where
  "settings_back W i suffix = back_with W i ''/admin/settings'' suffix"

definition settings_result :: "web \<Rightarrow> web_incoming \<Rightarrow> string \<Rightarrow> string \<Rightarrow> admin_api_error + 'a \<Rightarrow> response" where
  "settings_result W i saved invalid r =
     (case r of
        Inr _ \<Rightarrow> settings_back W i saved
      | Inl ApiUnauthorizedError \<Rightarrow> redirect_to_login W i
      | Inl ApiForbiddenError \<Rightarrow> settings_back W i ''?error=forbidden''
      | Inl (ApiValidationError _) \<Rightarrow> settings_back W i invalid
      | Inl _ \<Rightarrow> settings_back W i ''?error=internal'')"

definition read_tenant_settings_form :: "fields \<Rightarrow> (string \<times> bool \<times> string) option" where
  "read_tenant_settings_form fs = do {
     n \<leftarrow> field fs ''name'';
     r \<leftarrow> field_option fs ''self_registration_enabled'';
     t \<leftarrow> field fs ''csrf_token'';
     Some (n, r \<noteq> None, t)
   }"

definition update_tenant_settings :: "web \<Rightarrow> web_handler" where
  "update_tenant_settings W i = with_form W read_tenant_settings_form i (\<lambda>(name, self_registration, csrf_token).
     with_admin W i (\<lambda>_.
       if session_csrf W i \<noteq> csrf_token then State_Monad.return (settings_back W i ''?error=csrf'')
       else do {
         r \<leftarrow> api_update_current_tenant W i (sso W i) (trim name) self_registration;
         State_Monad.return (settings_result W i ''?saved=1'' ''?error=validation'' r)
       }))"

record system_settings_form =
  sy_host :: string
  sy_port :: string
  sy_username :: string
  sy_password :: string
  sy_from_address :: string
  sy_use_tls :: bool
  sy_csrf_token :: string

definition read_system_settings_form :: "fields \<Rightarrow> system_settings_form option" where
  "read_system_settings_form fs = do {
     h \<leftarrow> field_default fs ''smtp_host'';
     p \<leftarrow> field_default fs ''smtp_port'';
     u \<leftarrow> field_default fs ''smtp_username'';
     w \<leftarrow> field_default fs ''smtp_password'';
     a \<leftarrow> field_default fs ''smtp_from_address'';
     s \<leftarrow> field_option fs ''smtp_use_tls'';
     t \<leftarrow> field fs ''csrf_token'';
     Some \<lparr>sy_host = h, sy_port = p, sy_username = u, sy_password = w, sy_from_address = a, sy_use_tls = (s \<noteq> None),
           sy_csrf_token = t\<rparr>
   }"

text \<open>The port of the form: \<open>None\<close> when it is not a number of 16 bits, otherwise what is sent.\<close>

definition form_port :: "string \<Rightarrow> nat option option" where
  "form_port raw =
     (if trim raw = [] then Some None
      else case parse_u16 (trim raw) of Some p \<Rightarrow> Some (Some p) | None \<Rightarrow> None)"

definition update_system_form :: "web \<Rightarrow> web_handler" where
  "update_system_form W i = with_form W read_system_settings_form i (\<lambda>form. with_admin W i (\<lambda>_.
     if session_csrf W i \<noteq> sy_csrf_token form then State_Monad.return (settings_back W i ''?error=csrf'')
     else case form_port (sy_port form) of
       None \<Rightarrow> State_Monad.return (settings_back W i ''?error=validation'')
     | Some port \<Rightarrow> do {
         r \<leftarrow> api_update_system_settings W i (sso W i)
              (JObj [(''smtp_host'', JStr (sy_host form)), (''smtp_port'', nullable (\<lambda>p. JInt (int p)) port),
                   (''smtp_username'', JStr (sy_username form)),
                   (''smtp_password'', jopt (non_empty (Some (sy_password form)))),
                   (''smtp_from_address'', JStr (sy_from_address form)), (''smtp_use_tls'', JBool (sy_use_tls form))]);
         State_Monad.return (settings_result W i ''?saved=1'' ''?error=validation'' r)
       }))"

definition read_runtime_form :: "fields \<Rightarrow> (string \<times> string \<times> string) option" where
  "read_runtime_form fs = do {
     k \<leftarrow> field fs ''key'';
     v \<leftarrow> field_default fs ''value'';
     t \<leftarrow> field fs ''csrf_token'';
     Some (k, v, t)
   }"

definition update_runtime_form :: "web \<Rightarrow> web_handler" where
  "update_runtime_form W i = with_form W read_runtime_form i (\<lambda>(key, value, csrf_token). with_admin W i (\<lambda>_.
     if session_csrf W i \<noteq> csrf_token then State_Monad.return (settings_back W i ''?error=csrf'')
     else do {
       r \<leftarrow> api_update_runtime_setting W i (sso W i) (trim key) (non_empty (Some (trim value)));
       State_Monad.return (settings_result W i ''?saved=1#runtime-settings'' ''?error=runtime-validation#runtime-settings'' r)
     }))"

section \<open>Clients\<close>

definition default_new :: client_form_values where
  "default_new =
     \<lparr>fv_app_name = [], fv_client_type = ''confidential'', fv_redirect_uris = [], fv_scopes = ''openid'',
      fv_require_pkce = True, fv_client_status = ''ACTIVE''\<rparr>"

definition from_client :: "client_view \<Rightarrow> client_form_values" where
  "from_client c =
     \<lparr>fv_app_name = cv_app_name c, fv_client_type = cv_client_type c, fv_redirect_uris = join [CHR 0x0A] (cv_redirect_uris c),
      fv_scopes = join '' '' (cv_scopes c), fv_require_pkce = cv_require_pkce c, fv_client_status = cv_client_status c\<rparr>"

definition parse_uris :: "string \<Rightarrow> string list" where
  "parse_uris raw = split_whitespace raw"

text \<open>\<open>str::split\<close> on any of the characters of a list.\<close>

fun split_any :: "char list \<Rightarrow> string \<Rightarrow> string list" where
  "split_any cs [] = [[]]"
| "split_any cs (x # xs) =
     (if x \<in> set cs then [] # split_any cs xs
      else (case split_any cs xs of w # ws \<Rightarrow> (x # w) # ws | [] \<Rightarrow> [[x]]))"

definition parse_scopes :: "string \<Rightarrow> string list" where
  "parse_scopes raw = filter (\<lambda>s. s \<noteq> []) (split_any [CHR '' '', CHR 0x09, CHR 0x0A, CHR 0x0D, CHR '',''] raw)"

definition client_not_found :: "web \<Rightarrow> web_incoming \<Rightarrow> string \<Rightarrow> response" where
  "client_not_found W i admin = console W i admin 404
     (ConsoleNotice (Some (web_message W i ''admin-client-not-found-title''))
       (web_message W i ''admin-client-not-found-message'') False (Some (tenant_prefix i @ ''/admin/clients''))
       (web_message W i ''admin-client-back''))"

definition client_error :: "web \<Rightarrow> web_incoming \<Rightarrow> string \<Rightarrow> admin_api_error \<Rightarrow> response" where
  "client_error W i admin e = map_data_error W i admin (client_not_found W i admin) e"

definition client_new_form :: "web \<Rightarrow> web_incoming \<Rightarrow> string \<Rightarrow> nat \<Rightarrow> client_form_values \<Rightarrow> string option \<Rightarrow> response" where
  "client_new_form W i admin status values error = console W i admin status
     (ClientForm (csrf_from W i) error (web_message W i ''admin-clients-new'')
       (tenant_prefix i @ ''/admin/clients/new'') True values)"

definition client_edit_form ::
  "web \<Rightarrow> web_incoming \<Rightarrow> string \<Rightarrow> nat \<Rightarrow> client_view \<Rightarrow> client_form_values \<Rightarrow> string option \<Rightarrow> response" where
  "client_edit_form W i admin status client values error = console W i admin status
     (ClientForm (csrf_from W i) error (web_message W i ''admin-client-edit'' @ '': '' @ cv_app_name client)
       (tenant_prefix i @ ''/admin/clients/'' @ cv_client_id client @ ''/edit'') False values)"

definition client_secret_page :: "web \<Rightarrow> web_incoming \<Rightarrow> string \<Rightarrow> string \<Rightarrow> string option \<Rightarrow> bool \<Rightarrow> response" where
  "client_secret_page W i admin client_id secret is_new = console W i admin 200
     (ClientSecret
       (web_message W i (if is_new then ''admin-client-created-title'' else ''admin-client-secret-rotated-title''))
       client_id secret)"

definition client_bad_request :: "web \<Rightarrow> web_incoming \<Rightarrow> string \<Rightarrow> string \<Rightarrow> response" where
  "client_bad_request W i admin message = console W i admin 400
     (ConsoleNotice None message True (Some (tenant_prefix i @ ''/admin/clients'')) (web_message W i ''admin-client-back''))"

definition clients_page :: "web \<Rightarrow> web_handler" where
  "clients_page W i = with_admin W i (\<lambda>admin. do {
     r \<leftarrow> api_list_clients W i (sso W i);
     State_Monad.return (case r of
       Inr clients \<Rightarrow> console W i admin 200 (ClientsList clients)
     | Inl e \<Rightarrow> client_error W i admin e)
   })"

definition client_new_page :: "web \<Rightarrow> web_handler" where
  "client_new_page W i = with_admin W i (\<lambda>admin. State_Monad.return (client_new_form W i admin 200 default_new None))"

record new_client_form =
  nc_app_name :: string
  nc_client_type :: string
  nc_redirect_uris :: string
  nc_scopes :: string
  nc_require_pkce :: bool
  nc_csrf_token :: string

definition read_new_client_form :: "fields \<Rightarrow> new_client_form option" where
  "read_new_client_form fs = do {
     a \<leftarrow> field fs ''app_name'';
     c \<leftarrow> field fs ''client_type'';
     r \<leftarrow> field fs ''redirect_uris'';
     s \<leftarrow> field fs ''scopes'';
     p \<leftarrow> field_option fs ''require_pkce'';
     t \<leftarrow> field fs ''csrf_token'';
     Some \<lparr>nc_app_name = a, nc_client_type = c, nc_redirect_uris = r, nc_scopes = s, nc_require_pkce = (p \<noteq> None),
           nc_csrf_token = t\<rparr>
   }"

definition client_create :: "web \<Rightarrow> web_handler" where
  "client_create W i = with_form W read_new_client_form i (\<lambda>form. with_admin W i (\<lambda>admin.
     let values = \<lparr>fv_app_name = nc_app_name form, fv_client_type = nc_client_type form,
           fv_redirect_uris = nc_redirect_uris form, fv_scopes = nc_scopes form,
           fv_require_pkce = nc_require_pkce form, fv_client_status = ''ACTIVE''\<rparr> in
     if \<not> csrf_valid W i (nc_csrf_token form) then
       State_Monad.return (client_new_form W i admin 400 values (Some (web_message W i ''admin-error-csrf'')))
     else do {
       r \<leftarrow> api_create_client W i (sso W i)
              (JObj [(''app_name'', JStr (nc_app_name form)), (''client_type'', JStr (nc_client_type form)),
                 (''redirect_uris'', strings (parse_uris (nc_redirect_uris form))),
                 (''scopes'', strings (parse_scopes (nc_scopes form))), (''require_pkce'', JBool (nc_require_pkce form))]);
       State_Monad.return (case r of
         Inr created \<Rightarrow>
           client_secret_page W i admin (cv_client_id (ccv_client created)) (ccv_client_secret created) True
       | Inl (ApiValidationError m) \<Rightarrow> client_new_form W i admin 400 values (Some m)
       | Inl (ApiConflictError m) \<Rightarrow> client_new_form W i admin 400 values (Some m)
       | Inl e \<Rightarrow> client_error W i admin e)
     }))"

definition client_detail :: "web \<Rightarrow> string \<Rightarrow> web_handler" where
  "client_detail W client_id i = with_admin W i (\<lambda>admin. do {
     r \<leftarrow> api_get_client W i (sso W i) client_id;
     State_Monad.return (case r of
       Inr client \<Rightarrow> console W i admin 200 (ClientDetail client (csrf_from W i))
     | Inl e \<Rightarrow> client_error W i admin e)
   })"

definition client_edit_page :: "web \<Rightarrow> string \<Rightarrow> web_handler" where
  "client_edit_page W client_id i = with_admin W i (\<lambda>admin. do {
     r \<leftarrow> api_get_client W i (sso W i) client_id;
     State_Monad.return (case r of
       Inr client \<Rightarrow> client_edit_form W i admin 200 client (from_client client) None
     | Inl e \<Rightarrow> client_error W i admin e)
   })"

record edit_client_form =
  ec_app_name :: string
  ec_redirect_uris :: string
  ec_scopes :: string
  ec_client_status :: string
  ec_csrf_token :: string

definition read_edit_client_form :: "fields \<Rightarrow> edit_client_form option" where
  "read_edit_client_form fs = do {
     a \<leftarrow> field fs ''app_name'';
     r \<leftarrow> field fs ''redirect_uris'';
     s \<leftarrow> field fs ''scopes'';
     c \<leftarrow> field fs ''client_status'';
     t \<leftarrow> field fs ''csrf_token'';
     Some \<lparr>ec_app_name = a, ec_redirect_uris = r, ec_scopes = s, ec_client_status = c, ec_csrf_token = t\<rparr>
   }"

definition web_client_update :: "web \<Rightarrow> string \<Rightarrow> web_handler" where
  "web_client_update W client_id i = with_form W read_edit_client_form i (\<lambda>form. with_admin W i (\<lambda>admin. do {
     c \<leftarrow> api_get_client W i (sso W i) client_id;
     case c of
       Inl e \<Rightarrow> State_Monad.return (client_error W i admin e)
     | Inr client \<Rightarrow>
         (let values = (from_client client)\<lparr>fv_app_name := ec_app_name form, fv_redirect_uris := ec_redirect_uris form,
                fv_scopes := ec_scopes form, fv_client_status := ec_client_status form\<rparr>;
              again = (\<lambda>error. client_edit_form W i admin 400 client values (Some error)) in
          if \<not> csrf_valid W i (ec_csrf_token form) then
            State_Monad.return (again (web_message W i ''admin-error-csrf''))
          else do {
            r \<leftarrow> api_update_client W i (sso W i) client_id
              (JObj [(''app_name'', JStr (ec_app_name form)),
                      (''redirect_uris'', strings (parse_uris (ec_redirect_uris form))),
                      (''scopes'', strings (parse_scopes (ec_scopes form))),
                      (''client_status'', JStr (ec_client_status form))]);
            State_Monad.return (case r of
              Inr _ \<Rightarrow> redirect_under W i (''/admin/clients/'' @ client_id)
            | Inl (ApiValidationError m) \<Rightarrow> again m
            | Inl (ApiConflictError m) \<Rightarrow> again m
            | Inl e \<Rightarrow> client_error W i admin e)
          })
   }))"

definition client_rotate_secret :: "web \<Rightarrow> string \<Rightarrow> web_handler" where
  "client_rotate_secret W client_id i = with_form W read_csrf_form i (\<lambda>csrf_token. with_admin W i (\<lambda>admin.
     if \<not> csrf_valid W i csrf_token then
       State_Monad.return (client_bad_request W i admin (web_message W i ''admin-error-csrf''))
     else do {
       r \<leftarrow> api_rotate_client_secret W i (sso W i) client_id;
       case r of
         Inr secret \<Rightarrow> do {
           c \<leftarrow> api_get_client W i (sso W i) client_id;
           State_Monad.return (case c of
             Inr client \<Rightarrow> client_secret_page W i admin (cv_client_id client) (Some (csv_client_secret secret)) False
           | Inl e \<Rightarrow> client_error W i admin e)
         }
       | Inl (ApiValidationError m) \<Rightarrow> State_Monad.return (client_bad_request W i admin m)
       | Inl e \<Rightarrow> State_Monad.return (client_error W i admin e)
     }))"

section \<open>SAML service providers\<close>

definition saml_error_key :: "string \<Rightarrow> string option" where
  "saml_error_key = map_of
     [(''csrf'', ''admin-error-csrf''), (''validation'', ''admin-saml-client-error-validation''),
      (''acs-url'', ''admin-saml-client-error-acs-url''), (''conflict'', ''admin-saml-client-error-conflict''),
      (''notfound'', ''admin-saml-client-error-notfound''), (''forbidden'', ''admin-settings-error-forbidden''),
      (''internal'', ''admin-error-internal'')]"

record saml_query =
  mq_saved :: "string option"
  mq_updated :: "string option"
  mq_deleted :: "string option"
  mq_error :: "string option"

definition read_saml_query :: "fields \<Rightarrow> saml_query option" where
  "read_saml_query fs = do {
     s \<leftarrow> field_option fs ''saved'';
     u \<leftarrow> field_option fs ''updated'';
     d \<leftarrow> field_option fs ''deleted'';
     e \<leftarrow> field_option fs ''error'';
     Some \<lparr>mq_saved = s, mq_updated = u, mq_deleted = d, mq_error = e\<rparr>
   }"

definition no_values :: saml_form_values where
  "no_values = \<lparr>sf_display_name = [], sf_entity_id = [], sf_acs_url = [], sf_name_id_format = [], sf_x509_certificate = [],
     sf_enabled = False\<rparr>"

definition saml_page :: "web \<Rightarrow> web_handler" where
  "saml_page W i = with_query W read_saml_query i (\<lambda>query. with_admin W i (\<lambda>admin. do {
     r \<leftarrow> api_list_saml_service_providers W i (sso W i);
     let show = (\<lambda>providers error_key. console W i admin 200
       (SamlServiceProvidersConsole (session_csrf W i) (mq_saved query \<noteq> None) (mq_updated query \<noteq> None)
         (mq_deleted query \<noteq> None) False error_key providers no_values)) in
     State_Monad.return (case r of
       Inr providers \<Rightarrow> show providers (Option.bind (mq_error query) saml_error_key)
     | Inl ApiUnauthorizedError \<Rightarrow> redirect_to_login W i
     | Inl ApiForbiddenError \<Rightarrow> show [] (Some ''admin-settings-error-forbidden'')
     | Inl _ \<Rightarrow> show [] (Some ''admin-error-internal''))
   }))"

definition saml_back :: "web \<Rightarrow> web_incoming \<Rightarrow> string \<Rightarrow> response" where
  "saml_back W i suffix = back_with W i ''/admin/saml-clients'' suffix"

definition acs_url_allowed :: "web \<Rightarrow> string \<Rightarrow> bool" where
  "acs_url_allowed W raw =
     (case wb_url W (trim raw) of
        None \<Rightarrow> False
      | Some (scheme, host) \<Rightarrow>
          scheme = ''https'' \<or> scheme = ''http'' \<and> host \<in> {Some ''localhost'', Some ''127.0.0.1'', Some ''::1''})"

record saml_form =
  sm_display_name :: string
  sm_entity_id :: string
  sm_acs_url :: string
  sm_name_id_format :: string
  sm_x509_certificate :: string
  sm_enabled :: bool
  sm_csrf_token :: string

definition read_saml_form :: "fields \<Rightarrow> saml_form option" where
  "read_saml_form fs = do {
     d \<leftarrow> field fs ''display_name'';
     e \<leftarrow> field fs ''entity_id'';
     a \<leftarrow> field fs ''acs_url'';
     n \<leftarrow> field_default fs ''name_id_format'';
     x \<leftarrow> field_default fs ''x509_certificate'';
     b \<leftarrow> field_option fs ''enabled'';
     t \<leftarrow> field fs ''csrf_token'';
     Some \<lparr>sm_display_name = d, sm_entity_id = e, sm_acs_url = a, sm_name_id_format = n, sm_x509_certificate = x,
           sm_enabled = (b \<noteq> None), sm_csrf_token = t\<rparr>
   }"

definition saml_form_json :: "saml_form \<Rightarrow> json" where
  "saml_form_json form =
     JObj [(''display_name'', JStr (sm_display_name form)), (''entity_id'', JStr (sm_entity_id form)),
       (''acs_url'', JStr (sm_acs_url form)), (''name_id_format'', JStr (sm_name_id_format form)),
       (''x509_certificate'', jopt (non_empty (Some (trim (sm_x509_certificate form))))), (''enabled'', JBool (sm_enabled form))]"

text \<open>What registration and update check, in this order, before they send the form.\<close>

definition saml_form_problem :: "web \<Rightarrow> web_incoming \<Rightarrow> saml_form \<Rightarrow> string option" where
  "saml_form_problem W i form =
     (if session_csrf W i \<noteq> sm_csrf_token form then Some ''?error=csrf''
      else if trim (sm_display_name form) = [] \<or> trim (sm_entity_id form) = [] \<or> trim (sm_acs_url form) = [] then
        Some ''?error=validation''
      else if \<not> acs_url_allowed W (sm_acs_url form) then Some ''?error=acs-url''
      else None)"

definition web_saml_create :: "web \<Rightarrow> web_handler" where
  "web_saml_create W i = with_form W read_saml_form i (\<lambda>form. with_admin W i (\<lambda>_.
     case saml_form_problem W i form of
       Some problem \<Rightarrow> State_Monad.return (saml_back W i problem)
     | None \<Rightarrow> do {
         r \<leftarrow> api_register_saml_service_provider W i (sso W i) (saml_form_json form);
         State_Monad.return (case r of
           Inr _ \<Rightarrow> saml_back W i ''?saved=1''
         | Inl ApiUnauthorizedError \<Rightarrow> redirect_to_login W i
         | Inl ApiForbiddenError \<Rightarrow> saml_back W i ''?error=forbidden''
         | Inl (ApiValidationError _) \<Rightarrow> saml_back W i ''?error=validation''
         | Inl (ApiConflictError _) \<Rightarrow> saml_back W i ''?error=conflict''
         | Inl _ \<Rightarrow> saml_back W i ''?error=internal'')
       }))"

definition web_saml_update :: "web \<Rightarrow> string \<Rightarrow> web_handler" where
  "web_saml_update W pid i = with_form W read_saml_form i (\<lambda>form. with_admin W i (\<lambda>_.
     case saml_form_problem W i form of
       Some problem \<Rightarrow> State_Monad.return (saml_back W i problem)
     | None \<Rightarrow> do {
         r \<leftarrow> api_update_saml_service_provider W i (sso W i) pid (saml_form_json form);
         State_Monad.return (case r of
           Inr _ \<Rightarrow> saml_back W i ''?updated=1''
         | Inl ApiUnauthorizedError \<Rightarrow> redirect_to_login W i
         | Inl ApiForbiddenError \<Rightarrow> saml_back W i ''?error=forbidden''
         | Inl (ApiValidationError _) \<Rightarrow> saml_back W i ''?error=validation''
         | Inl (ApiConflictError _) \<Rightarrow> saml_back W i ''?error=conflict''
         | Inl ApiNotFoundError \<Rightarrow> saml_back W i ''?error=notfound''
         | Inl (ApiTransportError _) \<Rightarrow> saml_back W i ''?error=internal'')
       }))"

definition saml_delete_form :: "web \<Rightarrow> string \<Rightarrow> web_handler" where
  "saml_delete_form W pid i = with_form W read_csrf_form i (\<lambda>csrf_token. with_admin W i (\<lambda>_.
     if session_csrf W i \<noteq> csrf_token then State_Monad.return (saml_back W i ''?error=csrf'')
     else do {
       r \<leftarrow> api_delete_saml_service_provider W i (sso W i) pid;
       State_Monad.return (case r of
         Inr _ \<Rightarrow> saml_back W i ''?deleted=1''
       | Inl ApiUnauthorizedError \<Rightarrow> redirect_to_login W i
       | Inl ApiForbiddenError \<Rightarrow> saml_back W i ''?error=forbidden''
       | Inl ApiNotFoundError \<Rightarrow> saml_back W i ''?error=notfound''
       | Inl _ \<Rightarrow> saml_back W i ''?error=internal'')
     }))"

text \<open>
  The parts of an upload. A text part that cannot be read counts as empty; the file must be UTF-8 and no
  larger than a megabyte, and an empty one counts as none. A later part of a name replaces an earlier one.
\<close>

record upload =
  up_csrf_token :: string
  up_pasted_xml :: string
  up_uploaded_xml :: "string option"
  up_read_failed :: bool

definition MAX_METADATA_BYTES :: nat where
  "MAX_METADATA_BYTES = 1048576"

definition read_metadata_file :: "web \<Rightarrow> string option \<Rightarrow> unit + string option" where
  "read_metadata_file W bytes =
     (case bytes of
        None \<Rightarrow> Inl ()
      | Some b \<Rightarrow>
          if b = [] then Inr None
          else if length b > MAX_METADATA_BYTES then Inl ()
          else (case wb_utf8 W b of
            None \<Rightarrow> Inl ()
          | Some text \<Rightarrow> Inr (if trim text = [] then None else Some text)))"

definition read_part :: "web \<Rightarrow> upload \<Rightarrow> string option \<Rightarrow> string option \<Rightarrow> upload" where
  "read_part W u name bytes =
     (let text = (case bytes of Some b \<Rightarrow> wb_text W b | None \<Rightarrow> []) in
      if name = Some ''csrf_token'' then u\<lparr>up_csrf_token := text\<rparr>
      else if name = Some ''metadata_xml'' then u\<lparr>up_pasted_xml := text\<rparr>
      else if name = Some ''metadata_file'' then
        (case read_metadata_file W bytes of
           Inr (Some xml) \<Rightarrow> u\<lparr>up_uploaded_xml := Some xml\<rparr>
         | Inr None \<Rightarrow> u
         | Inl _ \<Rightarrow> u\<lparr>up_read_failed := True\<rparr>)
      else u)"

fun read_parts :: "web \<Rightarrow> part list \<Rightarrow> upload \<Rightarrow> upload" where
  "read_parts W [] u = u"
| "read_parts W (None # ps) u = u\<lparr>up_read_failed := True\<rparr>"
| "read_parts W (Some (name, bytes) # ps) u = read_parts W ps (read_part W u name bytes)"

definition empty_upload :: upload where
  "empty_upload = \<lparr>up_csrf_token = [], up_pasted_xml = [], up_uploaded_xml = None, up_read_failed = False\<rparr>"

definition upload_xml :: "upload \<Rightarrow> string" where
  "upload_xml u =
     (case up_uploaded_xml u of
        Some xml \<Rightarrow> if trim xml = [] then up_pasted_xml u else xml
      | None \<Rightarrow> up_pasted_xml u)"

definition imported_page :: "web \<Rightarrow> web_incoming \<Rightarrow> string \<Rightarrow> saml_form_values \<Rightarrow> bool \<Rightarrow> string option \<Rightarrow> (web_world, response) state" where
  "imported_page W i admin values imported error_key = do {
     r \<leftarrow> api_list_saml_service_providers W i (sso W i);
     State_Monad.return (console W i admin 200 (SamlServiceProvidersConsole (session_csrf W i) False False False imported
       error_key (case r of Inr ps \<Rightarrow> ps | Inl _ \<Rightarrow> []) values))
   }"

definition saml_import :: "web \<Rightarrow> web_handler" where
  "saml_import W i = with_body (wb_multipart W) i (\<lambda>parts. with_admin W i (\<lambda>admin.
     let u = read_parts W parts empty_upload in
     if session_csrf W i \<noteq> up_csrf_token u then State_Monad.return (saml_back W i ''?error=csrf'')
     else if up_read_failed u \<or> trim (upload_xml u) = [] then
       imported_page W i admin no_values False (Some ''admin-saml-client-error-import'')
     else do {
       r \<leftarrow> api_import_saml_sp_metadata W i (sso W i) (upload_xml u);
       case r of
         Inr p \<Rightarrow> imported_page W i admin
           \<lparr>sf_display_name = miv_display_name p, sf_entity_id = miv_entity_id p, sf_acs_url = miv_acs_url p,
            sf_name_id_format = miv_name_id_format p, sf_x509_certificate = miv_x509_certificate p, sf_enabled = True\<rparr>
           True None
       | Inl ApiUnauthorizedError \<Rightarrow> State_Monad.return (redirect_to_login W i)
       | Inl ApiForbiddenError \<Rightarrow> imported_page W i admin no_values False (Some ''admin-settings-error-forbidden'')
       | Inl (ApiValidationError _) \<Rightarrow> imported_page W i admin no_values False (Some ''admin-saml-client-error-import'')
       | Inl ApiNotFoundError \<Rightarrow> imported_page W i admin no_values False (Some ''admin-saml-client-error-import'')
       | Inl _ \<Rightarrow> imported_page W i admin no_values False (Some ''admin-error-internal'')
     }))"

section \<open>The audit log and the status of clients\<close>

definition WEB_DEFAULT_LIMIT :: int where
  "WEB_DEFAULT_LIMIT = 50"

record audit_form =
  wf_event_type :: "string option"
  wf_result :: "string option"
  wf_client_id :: "string option"
  wf_correlation_id :: "string option"
  wf_from :: "string option"
  wf_to :: "string option"
  wf_offset :: "int option"

text \<open>The offset is an \<^verbatim>\<open>i64\<close>; a text that is none is refused.\<close>

definition read_audit_form :: "fields \<Rightarrow> audit_form option" where
  "read_audit_form fs = do {
     e \<leftarrow> field_option fs ''event_type'';
     r \<leftarrow> field_option fs ''result'';
     c \<leftarrow> field_option fs ''client_id'';
     k \<leftarrow> field_option fs ''correlation_id'';
     f \<leftarrow> field_option fs ''from'';
     t \<leftarrow> field_option fs ''to'';
     raw \<leftarrow> field_option fs ''offset'';
     n \<leftarrow> (case raw of None \<Rightarrow> Some None | Some v \<Rightarrow> map_option Some (parse_i64 v));
     Some \<lparr>wf_event_type = e, wf_result = r, wf_client_id = c, wf_correlation_id = k, wf_from = f, wf_to = t, wf_offset = n\<rparr>
   }"

definition audit_pair :: "string \<Rightarrow> string option \<Rightarrow> (string \<times> string) list" where
  "audit_pair key v = (case non_empty (map_option trim v) of Some x \<Rightarrow> [(key, x)] | None \<Rightarrow> [])"

definition audit_params :: "audit_form \<Rightarrow> int \<Rightarrow> (string \<times> string) list" where
  "audit_params form offset =
     audit_pair ''event_type'' (wf_event_type form) @ audit_pair ''result'' (wf_result form) @
     audit_pair ''client_id'' (wf_client_id form) @ audit_pair ''correlation_id'' (wf_correlation_id form) @
     audit_pair ''from'' (wf_from form) @ audit_pair ''to'' (wf_to form) @ [(''offset'', show_int offset)]"

definition hex_digit_upper :: "nat \<Rightarrow> char" where
  "hex_digit_upper n = ''0123456789ABCDEF'' ! n"

definition urlencode_byte :: "char \<Rightarrow> string" where
  "urlencode_byte b =
     (if is_ascii_alphanumeric b \<or> b \<in> {CHR ''-'', CHR ''.'', CHR ''_'', CHR ''~''} then [b]
      else [CHR ''%'', hex_digit_upper (of_char b div 16), hex_digit_upper (of_char b mod 16)])"

definition urlencode :: "string \<Rightarrow> string" where
  "urlencode s = concat (map urlencode_byte s)"

definition audit_query_string :: "web_incoming \<Rightarrow> audit_form \<Rightarrow> int \<Rightarrow> string" where
  "audit_query_string i form offset =
     tenant_prefix i @ ''/admin/audit-logs?'' @
     join ''&'' (map (\<lambda>(k, v). k @ ''='' @ urlencode v) (audit_params form offset))"

definition pager_links :: "web_incoming \<Rightarrow> audit_form \<Rightarrow> int \<Rightarrow> nat \<Rightarrow> string option \<times> string option" where
  "pager_links i form offset page_len =
     (if offset > 0 then Some (audit_query_string i form (max (offset - WEB_DEFAULT_LIMIT) 0)) else None,
      if int page_len = WEB_DEFAULT_LIMIT then Some (audit_query_string i form (i64 (offset + WEB_DEFAULT_LIMIT))) else None)"

definition audit_view :: "web \<Rightarrow> web_incoming \<Rightarrow> string \<Rightarrow> audit_form \<Rightarrow> int \<Rightarrow> bool \<Rightarrow> audit_log_view list \<Rightarrow> response" where
  "audit_view W i admin form offset date_error entries =
     (let (prev_href, next_href) = pager_links i form offset (length entries) in
      console W i admin 200 (AuditLogs date_error (unwrap_or_default (wf_event_type form))
        (unwrap_or_default (wf_result form)) (unwrap_or_default (wf_client_id form))
        (unwrap_or_default (wf_correlation_id form)) (unwrap_or_default (wf_from form)) (unwrap_or_default (wf_to form))
        entries prev_href next_href))"

definition audit_logs_page :: "web \<Rightarrow> web_handler" where
  "audit_logs_page W i = with_query W read_audit_form i (\<lambda>form. with_admin W i (\<lambda>admin.
     let offset = max (case wf_offset form of Some n \<Rightarrow> n | None \<Rightarrow> 0) 0 in do {
     r \<leftarrow> api_search_audit_logs W i (sso W i) (audit_params form offset);
     State_Monad.return (case r of
       Inr entries \<Rightarrow> audit_view W i admin form offset False entries
     | Inl (ApiValidationError _) \<Rightarrow> audit_view W i admin form offset True []
     | Inl ApiUnauthorizedError \<Rightarrow> redirect_to_login W i
     | Inl ApiForbiddenError \<Rightarrow> forbidden_response W i
     | Inl _ \<Rightarrow> internal_notice W i admin)
   }))"

definition client_status_page :: "web \<Rightarrow> web_handler" where
  "client_status_page W i = with_admin W i (\<lambda>admin. do {
     r \<leftarrow> api_list_client_status W i (sso W i);
     State_Monad.return (case r of
       Inr views \<Rightarrow> console W i admin 200 (ClientStatus views)
     | Inl ApiUnauthorizedError \<Rightarrow> redirect_to_login W i
     | Inl ApiForbiddenError \<Rightarrow> forbidden_response W i
     | Inl _ \<Rightarrow> internal_notice W i admin)
   })"

end
