(* ===== verification/WebRouter.thy ===== *)
theory WebRouter
  imports WebAdmin Router
begin

text \<open>
  The router of the web console (\<^verbatim>\<open>web/src/router.rs\<close>) with its layers (\<^verbatim>\<open>correlation.rs\<close>,
  \<^verbatim>\<open>security_headers.rs\<close>, \<^verbatim>\<open>tenant.rs\<close>), and what the tables give: a form of the console changes nothing
  without the token of the session, a sign-in form sends nothing without its own. The version page and the
  static files are answered by \<open>assets\<close>, a parameter: their contents are generated by the build.
\<close>

section \<open>Layers\<close>

definition web_request_id :: "web \<Rightarrow> request \<Rightarrow> (web_world, string) state" where
  "web_request_id W rq =
     (case Option.bind (header_get (rq_headers rq) REQUEST_ID_HEADER) (header_to_str (wb_http W)) of
        Some v \<Rightarrow> if is_valid_request_id v then State_Monad.return v
                  else State_Monad.bind web_new_v4 (\<lambda>u. State_Monad.return (uuid_simple (wb_http W) u))
      | None \<Rightarrow> State_Monad.bind web_new_v4 (\<lambda>u. State_Monad.return (uuid_simple (wb_http W) u)))"

definition web_propagate ::
  "web \<Rightarrow> (string \<Rightarrow> request \<Rightarrow> (web_world, response) state) \<Rightarrow> request \<Rightarrow> (web_world, response) state" where
  "web_propagate W next rq = do {
     i \<leftarrow> web_request_id W rq;
     rs \<leftarrow> next i rq;
     State_Monad.return (set_request_id (wb_http W) i rs)
   }"

definition CONTENT_SECURITY_POLICY :: string where
  "CONTENT_SECURITY_POLICY =
     ''default-src '' @ [CHR 0x27] @ ''self'' @ [CHR 0x27] @ ''; script-src '' @ [CHR 0x27] @ ''self'' @ [CHR 0x27] @ '' '' @
     [CHR 0x27] @ ''unsafe-inline'' @ [CHR 0x27] @ ''; style-src '' @ [CHR 0x27] @ ''self'' @ [CHR 0x27] @ '' '' @
     [CHR 0x27] @ ''unsafe-inline'' @ [CHR 0x27] @ ''; img-src '' @ [CHR 0x27] @ ''self'' @ [CHR 0x27] @
     '' data:; object-src '' @ [CHR 0x27] @ ''none'' @ [CHR 0x27] @ ''; base-uri '' @ [CHR 0x27] @ ''self'' @ [CHR 0x27] @
     ''; form-action '' @ [CHR 0x27] @ ''self'' @ [CHR 0x27] @ ''; frame-ancestors '' @ [CHR 0x27] @ ''none'' @ [CHR 0x27]"

definition web_security_headers :: "web \<Rightarrow> response \<Rightarrow> response" where
  "web_security_headers W rs =
     (let hs = header_insert ''content-security-policy'' CONTENT_SECURITY_POLICY
                 (header_insert ''x-frame-options'' ''DENY''
                   (header_insert ''referrer-policy'' ''strict-origin-when-cross-origin''
                     (header_insert ''x-content-type-options'' ''nosniff'' (re_headers rs))));
          max_age = wc_hsts_max_age (wb_config W);
          hsts = ''max-age='' @ show_int max_age
      in rs\<lparr>re_headers :=
           if max_age > 0 \<and> header_value_ok (wb_http W) hsts
           then header_insert ''strict-transport-security'' hsts hs else hs\<rparr>)"

section \<open>Routes\<close>

type_synonym web_route = "string list \<Rightarrow> web_handler"

definition no_arg :: "web_handler \<Rightarrow> web_route" where
  "no_arg h = (\<lambda>params. h)"

definition one_arg :: "(string \<Rightarrow> web_handler) \<Rightarrow> web_route" where
  "one_arg h = (\<lambda>params. h (hd params))"

definition user_routes :: "web \<Rightarrow> web_route route list" where
  "user_routes W =
     [([Lit ''login''], [(''GET'', no_arg (web_login_page W)), (''POST'', no_arg (web_login W))]),
      ([Lit ''login'', Lit ''mfa''], [(''GET'', no_arg (portal_mfa_page W)), (''POST'', no_arg (portal_mfa_submit W))]),
      ([Lit ''login'', Lit ''password-change''],
        [(''GET'', no_arg (portal_password_change_page W)), (''POST'', no_arg (web_portal_password_change W))]),
      ([Lit ''logout''], [(''POST'', no_arg (portal_logout W))]),
      ([Lit ''password-change''],
        [(''GET'', no_arg (password_change_page W)), (''POST'', no_arg (password_change_submit W))]),
      ([Lit ''forgot-password''], [(''GET'', no_arg (forgot_page W)), (''POST'', no_arg (forgot_submit W))]),
      ([Lit ''password-reset''], [(''GET'', no_arg (reset_page W)), (''POST'', no_arg (reset_submit W))]),
      ([Lit ''verify-email''], [(''GET'', no_arg (verify_email_page W)), (''POST'', no_arg (verify_email_submit W))]),
      ([Lit ''settings''], [(''GET'', no_arg (settings_page W))]),
      ([Lit ''settings'', Lit ''password''], [(''POST'', no_arg (settings_change_password W))]),
      ([Lit ''settings'', Lit ''name''], [(''POST'', no_arg (settings_change_name W))]),
      ([Lit ''invitations'', Lit ''accept''],
        [(''GET'', no_arg (invitation_page W)), (''POST'', no_arg (invitation_submit W))]),
      ([Lit ''consent''], [(''GET'', no_arg (web_consent_page W)), (''POST'', no_arg (consent_submit W))]),
      ([Lit ''mfa'', Lit ''totp''], [(''GET'', no_arg (totp_verify_page W)), (''POST'', no_arg (totp_verify W))]),
      ([Lit ''account'', Lit ''mfa'', Lit ''totp'', Lit ''setup''],
        [(''GET'', no_arg (totp_setup_page W)), (''POST'', no_arg (totp_setup_confirm W))]),
      ([Lit ''account'', Lit ''mfa'', Lit ''totp'', Lit ''delete''], [(''POST'', no_arg (totp_setup_delete W))]),
      ([Lit ''account'', Lit ''passkey''], [(''GET'', no_arg (passkey_list_page W))]),
      ([Lit ''account'', Lit ''passkey'', Lit ''register''], [(''GET'', no_arg (passkey_register_page W))]),
      ([Lit ''account'', Lit ''passkey'', Lit ''delete''], [(''POST'', no_arg (web_passkey_delete W))]),
      ([Lit ''passkey'', Lit ''register'', Lit ''begin''], [(''POST'', no_arg (passkey_register_begin_api W))]),
      ([Lit ''passkey'', Lit ''register'', Lit ''complete''], [(''POST'', no_arg (passkey_register_complete_api W))]),
      ([Lit ''passkey'', Lit ''login'', Lit ''begin''], [(''POST'', no_arg (passkey_login_begin_api W))]),
      ([Lit ''passkey'', Lit ''login'', Lit ''complete''], [(''POST'', no_arg (passkey_login_complete_api W))])]"

definition sign_in_routes :: "web \<Rightarrow> web_route route list" where
  "sign_in_routes W =
     [([Lit ''login''], [(''GET'', no_arg (admin_login_page W)), (''POST'', no_arg (web_admin_login W))]),
      ([Lit ''password-change''],
        [(''GET'', no_arg (admin_password_change_page W)), (''POST'', no_arg (web_admin_password_change W))]),
      ([Lit ''logout''], [(''POST'', no_arg (web_admin_logout W))])]"

definition console_routes :: "web \<Rightarrow> web_route route list" where
  "console_routes W =
     [([], [(''GET'', no_arg (console_home W))]),
      ([Lit ''switch-tenant''], [(''GET'', no_arg (switch_tenant W))]),
      ([Lit ''settings''], [(''GET'', no_arg (admin_settings_page W))]),
      ([Lit ''settings'', Lit ''tenant''], [(''POST'', no_arg (update_tenant_settings W))]),
      ([Lit ''system-settings''], [(''POST'', no_arg (update_system_form W))]),
      ([Lit ''system-settings'', Lit ''runtime''], [(''POST'', no_arg (update_runtime_form W))]),
      ([Lit ''tenants''], [(''GET'', no_arg (tenants_page W)), (''POST'', no_arg (tenant_create W))]),
      ([Lit ''tenants'', Param, Lit ''delete''], [(''POST'', one_arg (tenant_delete W))]),
      ([Lit ''tenants'', Param, Lit ''reset-admin-password''], [(''POST'', one_arg (tenant_reset_admin_password W))]),
      ([Lit ''clients''], [(''GET'', no_arg (clients_page W))]),
      ([Lit ''clients'', Lit ''new''], [(''GET'', no_arg (client_new_page W)), (''POST'', no_arg (client_create W))]),
      ([Lit ''clients'', Param], [(''GET'', one_arg (client_detail W))]),
      ([Lit ''clients'', Param, Lit ''edit''],
        [(''GET'', one_arg (client_edit_page W)), (''POST'', one_arg (web_client_update W))]),
      ([Lit ''clients'', Param, Lit ''rotate-secret''], [(''POST'', one_arg (client_rotate_secret W))]),
      ([Lit ''saml-clients''], [(''GET'', no_arg (saml_page W)), (''POST'', no_arg (web_saml_create W))]),
      ([Lit ''saml-clients'', Lit ''import''], [(''POST'', no_arg (saml_import W))]),
      ([Lit ''saml-clients'', Param, Lit ''update''], [(''POST'', one_arg (web_saml_update W))]),
      ([Lit ''saml-clients'', Param, Lit ''delete''], [(''POST'', one_arg (saml_delete_form W))]),
      ([Lit ''users'', Lit ''new''], [(''GET'', no_arg (user_new_form W)), (''POST'', no_arg (user_create W))]),
      ([Lit ''users'', Param, Lit ''permissions''], [(''GET'', one_arg (permissions_page W))]),
      ([Lit ''users'', Param, Lit ''permissions'', Lit ''grant''], [(''POST'', one_arg (permission_grant W))]),
      ([Lit ''users'', Param, Lit ''permissions'', Lit ''revoke''], [(''POST'', one_arg (permission_revoke W))]),
      ([Lit ''members''], [(''GET'', no_arg (members_page W))]),
      ([Lit ''members'', Param, Lit ''revoke''], [(''POST'', one_arg (members_revoke W))]),
      ([Lit ''members'', Param, Lit ''status''], [(''POST'', one_arg (members_set_status W))]),
      ([Lit ''members'', Param, Lit ''reset-password''], [(''POST'', one_arg (members_reset_password W))]),
      ([Lit ''members'', Param, Lit ''delete''], [(''POST'', one_arg (members_delete W))]),
      ([Lit ''invitations''],
        [(''GET'', no_arg (invitation_form_page W)), (''POST'', no_arg (invitation_create W))]),
      ([Lit ''audit-logs''], [(''GET'', no_arg (audit_logs_page W))]),
      ([Lit ''status''], [(''GET'', no_arg (client_status_page W))]),
      ([Lit ''signing-keys''], [(''GET'', no_arg (keys_page W))]),
      ([Lit ''signing-keys'', Lit ''generate''], [(''POST'', no_arg (key_generate W))]),
      ([Lit ''signing-keys'', Lit ''retire''], [(''POST'', no_arg (key_retire W))]),
      ([Lit ''signing-keys'', Lit ''delete''], [(''POST'', no_arg (key_delete W))])]"

definition web_tenant_scoped :: "web \<Rightarrow> web_route route list" where
  "web_tenant_scoped W = user_routes W @ under ''admin'' (sign_in_routes W @ console_routes W)"

section \<open>Dispatch\<close>

definition web_by_method ::
  "web \<Rightarrow> (string \<times> 'h) list \<Rightarrow> string \<Rightarrow> ('h \<Rightarrow> (web_world, response) state) \<Rightarrow> (web_world, response) state" where
  "web_by_method W methods verb run =
     (case map_of methods verb of
        Some h \<Rightarrow> run h
      | None \<Rightarrow>
          (case (if verb = ''HEAD'' then map_of methods ''GET'' else None) of
             Some h \<Rightarrow> State_Monad.bind (run h) (\<lambda>rs. State_Monad.return (rs\<lparr>re_body := NoBody\<rparr>))
           | None \<Rightarrow> State_Monad.return (method_not_allowed (wb_http W))))"

definition capture_tenant ::
  "web \<Rightarrow> string list \<Rightarrow> (string \<times> web_route) list \<Rightarrow> string \<Rightarrow> request \<Rightarrow> (web_world, response) state" where
  "capture_tenant W params methods correlation rq =
     (case decode_all (wb_http W) params of
        None \<Rightarrow> State_Monad.return (path_rejection (wb_http W))
      | Some decoded \<Rightarrow>
          if uuid_parse (wb_libs W) (hd decoded) = None then State_Monad.return (empty_response 404)
          else web_by_method W methods (rq_method rq)
            (\<lambda>h. h (tl decoded) \<lparr>wi_request = rq, wi_correlation = correlation, wi_tenant = hd decoded\<rparr>))"

definition root_entrypoint :: "web \<Rightarrow> web_handler" where
  "root_entrypoint W i = State_Monad.return (message_page W i ''root-landing-title'' 404 ''root-landing-message'')"

definition web_liveness :: "web_handler" where
  "web_liveness i = State_Monad.return (empty_response 200)"

definition web_readiness :: "web \<Rightarrow> web_handler" where
  "web_readiness W i = do {
     ok \<leftarrow> is_api_reachable W;
     State_Monad.return (empty_response (if ok then 200 else 503))
   }"

text \<open>The path of the root has one empty segment.\<close>

definition web_plain_routes :: "web \<Rightarrow> web_handler route list" where
  "web_plain_routes W =
     [([Lit []], [(''GET'', root_entrypoint W)]), ([Lit ''healthz''], [(''GET'', web_liveness)]),
      ([Lit ''readyz''], [(''GET'', web_readiness W)])]"

definition web_routes :: "web \<Rightarrow> (request \<Rightarrow> response option) \<Rightarrow> string \<Rightarrow> request \<Rightarrow> (web_world, response) state" where
  "web_routes W assets correlation rq =
     (case assets rq of
        Some rs \<Rightarrow> State_Monad.return rs
      | None \<Rightarrow>
        (case find_route (web_plain_routes W) (rq_path rq) of
           Some (_, methods) \<Rightarrow> web_by_method W methods (rq_method rq)
             (\<lambda>h. h \<lparr>wi_request = rq, wi_correlation = correlation, wi_tenant = []\<rparr>)
         | None \<Rightarrow>
        (case find_route (map (\<lambda>(pattern, methods). (Param # pattern, methods)) (web_tenant_scoped W)) (rq_path rq) of
           Some (params, methods) \<Rightarrow> capture_tenant W params methods correlation rq
         | None \<Rightarrow> State_Monad.return (not_found_response (wb_http W)))))"

definition web_build :: "web \<Rightarrow> (request \<Rightarrow> response option) \<Rightarrow> request \<Rightarrow> (web_world, response) state" where
  "web_build W assets rq = do {
     rs \<leftarrow> web_propagate W (web_routes W assets) rq;
     State_Monad.return (web_security_headers W rs)
   }"

lemma web_tables_literal_first: "literal_first (map fst (web_tenant_scoped W))"
  by (simp only: web_tenant_scoped_def user_routes_def sign_in_routes_def console_routes_def
      under_def map_append append.simps list.map prod.case fst_conv) code_simp

section \<open>What is sent\<close>

text \<open>The requests of a run are all reads, and there are none.\<close>

definition only_reads :: "web_world \<Rightarrow> web_world \<Rightarrow> bool" where
  "only_reads w w' \<longleftrightarrow> (\<exists>cs. ww_sent w' = ww_sent w @ cs \<and> list_all (\<lambda>c. cl_method c = ''GET'') cs)"

definition silent :: "web_world \<Rightarrow> web_world \<Rightarrow> bool" where
  "silent w w' \<longleftrightarrow> ww_sent w' = ww_sent w"

lemma reads_send_call: "cl_method c = ''GET'' \<Longrightarrow> always only_reads (send_call c)"
  by (rule alwaysI) (simp add: send_call_def wp_State only_reads_def)

text \<open>
  What a router keeps: a relation that composes and that drawing an id respects holds of a whole request when it
  holds of the handler the request reaches.
\<close>

locale web_kept = kept R for R :: "web_world \<Rightarrow> web_world \<Rightarrow> bool" +
  assumes draws: "always R web_new_v4"
begin

lemma always_with_form:
  assumes "\<And>fs form. wb_form W (wi_request i) = Inr fs \<Longrightarrow> read fs = Some form \<Longrightarrow> always R (f form)"
  shows "always R (with_form W read i f)"
  unfolding with_form_def using assms by (auto split: sum.split option.split intro: always_return)

lemma always_request_id: "always R (web_request_id W rq)"
  unfolding web_request_id_def by (intro always_case_option always_if always_bind always_return draws)

lemma always_capture_tenant:
  assumes "\<And>h params i. map_of methods (rq_method rq) = Some h \<Longrightarrow> wi_request i = rq \<Longrightarrow> always R (h params i)"
    and "rq_method rq \<noteq> ''HEAD''"
  shows "always R (capture_tenant W params methods c rq)"
  unfolding capture_tenant_def web_by_method_def using assms
  by (auto split: option.split intro!: always_return assms)

lemma always_web_build:
  assumes path: "rq_path rq = raw # p # rest" and verb: "rq_method rq \<noteq> ''HEAD''"
    and handlers: "\<And>ps methods h params i. find_route (web_tenant_scoped W) (p # rest) = Some (ps, methods) \<Longrightarrow>
      map_of methods (rq_method rq) = Some h \<Longrightarrow> wi_request i = rq \<Longrightarrow> always R (h params i)"
  shows "always R (web_build W assets rq)"
proof -
  have plain: "find_route (web_plain_routes W) (raw # p # rest) = None" by (simp add: web_plain_routes_def)
  have "always R (web_routes W assets c rq)" for c
    unfolding web_routes_def path plain find_route_param option.case
    by (auto split: option.split if_split intro!: always_return always_capture_tenant handlers verb)
  then show ?thesis unfolding web_build_def web_propagate_def
    by (intro always_bind always_return always_request_id)
qed

end

interpretation reads: web_kept only_reads
proof
  show "only_reads s s" for s by (simp add: only_reads_def)
  show "only_reads s u" if "only_reads s t" "only_reads t u" for s t u
    using that by (fastforce simp: only_reads_def)
  show "always only_reads web_new_v4" by (rule alwaysI) (simp add: web_new_v4_def wp_State only_reads_def)
qed

interpretation quiet: web_kept silent
proof
  show "always silent web_new_v4" by (rule alwaysI) (simp add: web_new_v4_def wp_State silent_def)
qed (simp_all add: silent_def)

lemma reads_admin_send: "always only_reads (admin_send W ''GET'' i path s body read)"
  unfolding admin_send_def by (intro reads.always_bind reads.always_return reads_send_call) (simp add: admin_call_def)

lemma reads_with_admin: "(\<And>admin. always only_reads (f admin)) \<Longrightarrow> always only_reads (with_admin W i f)"
  unfolding with_admin_def resolve_admin_def admin_whoami_def
  by (intro reads.always_bind reads.always_case_sum reads.always_return reads_send_call) (simp_all add: admin_call_def)

lemma reads_keys_again: "always only_reads (keys_again W i admin e)"
  unfolding keys_again_def api_list_signing_keys_def by (intro reads.always_bind reads.always_return reads_admin_send)

section \<open>Forms of the console\<close>

text \<open>
  A request of another site: whatever it submits, as a form or in parts, is not the token of the session
  whose cookie the browser sends along.
\<close>

definition forged :: "web \<Rightarrow> web_incoming \<Rightarrow> bool" where
  "forged W i \<longleftrightarrow>
     (\<forall>fs. wb_form W (wi_request i) = Inr fs \<longrightarrow> field fs ''csrf_token'' \<noteq> Some (session_csrf W i)) \<and>
     (\<forall>ps. wb_multipart W (wi_request i) = Inr ps \<longrightarrow> up_csrf_token (read_parts W ps empty_upload) \<noteq> session_csrf W i)"

lemma csrf_validD: "csrf_valid W i t \<Longrightarrow> t = session_csrf W i"
  by (simp add: csrf_valid_def session_csrf_def sso_def unwrap_or_default_def split: option.splits)

lemma forgedD: "forged W i \<Longrightarrow> wb_form W (wi_request i) = Inr fs \<Longrightarrow> field fs ''csrf_token'' = Some t \<Longrightarrow>
    t \<noteq> session_csrf W i \<and> session_csrf W i \<noteq> t \<and> \<not> csrf_valid W i t"
  by (auto simp: forged_def dest: csrf_validD)

text \<open>Every reader of a form takes the token from the field of that name.\<close>

lemma reader_tokens:
  "read_csrf_form fs = Some t \<Longrightarrow> field fs ''csrf_token'' = Some t"
  "read_status_form fs = Some (a, t) \<Longrightarrow> field fs ''csrf_token'' = Some t"
  "read_action_form fs = Some (a, t) \<Longrightarrow> field fs ''csrf_token'' = Some t"
  "read_permission_form fs = Some (a, t) \<Longrightarrow> field fs ''csrf_token'' = Some t"
  "read_invitation_form fs = Some (a, t) \<Longrightarrow> field fs ''csrf_token'' = Some t"
  "read_generate_form fs = Some (a, t) \<Longrightarrow> field fs ''csrf_token'' = Some t"
  "read_kid_form fs = Some (a, t) \<Longrightarrow> field fs ''csrf_token'' = Some t"
  "read_tenant_create_form fs = Some (a, t) \<Longrightarrow> field fs ''csrf_token'' = Some t"
  "read_tenant_settings_form fs = Some (a, b, t) \<Longrightarrow> field fs ''csrf_token'' = Some t"
  "read_runtime_form fs = Some (a, c, t) \<Longrightarrow> field fs ''csrf_token'' = Some t"
  "read_new_user_form fs = Some nu \<Longrightarrow> field fs ''csrf_token'' = Some (nu_csrf_token nu)"
  "read_system_settings_form fs = Some sy \<Longrightarrow> field fs ''csrf_token'' = Some (sy_csrf_token sy)"
  "read_new_client_form fs = Some nc \<Longrightarrow> field fs ''csrf_token'' = Some (nc_csrf_token nc)"
  "read_edit_client_form fs = Some ec \<Longrightarrow> field fs ''csrf_token'' = Some (ec_csrf_token ec)"
  "read_saml_form fs = Some sp \<Longrightarrow> field fs ''csrf_token'' = Some (sm_csrf_token sp)"
  "read_login_form fs = Some lf \<Longrightarrow> field fs ''csrf_token'' = Some (lf_csrf_token lf)"
  "read_forced_form fs = Some (a, pf) \<Longrightarrow> field fs ''csrf_token'' = Some (pf_csrf_token pf)"
  "read_totp_form fs = Some (a, t) \<Longrightarrow> field fs ''csrf_token'' = Some t"
  by (auto simp: read_csrf_form_def read_status_form_def read_action_form_def read_permission_form_def
      read_invitation_form_def read_generate_form_def read_kid_form_def read_tenant_create_form_def
      read_tenant_settings_form_def read_runtime_form_def read_new_user_form_def read_system_settings_form_def
      read_new_client_form_def read_edit_client_form_def read_saml_form_def read_login_form_def read_forced_form_def
      read_password_change_form_def read_totp_form_def split: bind_splits)

lemma guarded_form:
  assumes "forged W i"
    and "\<And>fs form. read fs = Some form \<Longrightarrow> field fs ''csrf_token'' = Some (tok form)"
    and "\<And>form admin. tok form \<noteq> session_csrf W i \<Longrightarrow> \<not> csrf_valid W i (tok form) \<Longrightarrow> always only_reads (f form admin)"
  shows "always only_reads (with_form W read i (\<lambda>form. with_admin W i (f form)))"
proof (rule reads.always_with_form)
  fix fs form
  assume "wb_form W (wi_request i) = Inr fs" "read fs = Some form"
  then have "tok form \<noteq> session_csrf W i \<and> session_csrf W i \<noteq> tok form \<and> \<not> csrf_valid W i (tok form)"
    using forgedD [OF assms(1)] assms(2) by blast
  then show "always only_reads (with_admin W i (f form))"
    using assms(3) by (intro reads_with_admin) blast
qed

lemmas guarded_single = guarded_form [where tok = "\<lambda>t. t"]
lemmas guarded_pair = guarded_form [where tok = snd]
lemmas guarded_triple = guarded_form [where tok = "\<lambda>form. snd (snd form)"]

lemma forged_members:
  assumes "forged W i"
  shows "always only_reads (members_revoke W u i)"
    and "always only_reads (members_set_status W u i)"
    and "always only_reads (members_reset_password W u i)"
    and "always only_reads (members_delete W u i)"
  unfolding members_revoke_def members_set_status_def members_reset_password_def members_delete_def case_prod_unfold
  by (rule guarded_single [OF assms] guarded_pair [OF assms],
      auto simp: reader_tokens intro: reads.always_return)+

lemma forged_users:
  assumes "forged W i"
  shows "always only_reads (user_create W i)"
    and "always only_reads (permission_grant W u i)"
    and "always only_reads (permission_revoke W u i)"
    and "always only_reads (invitation_create W i)"
  unfolding user_create_def permission_grant_def permission_revoke_def apply_change_def invitation_create_def
    case_prod_unfold Let_def
  by (rule guarded_form [OF assms, where tok = nu_csrf_token] guarded_pair [OF assms],
      auto simp: reader_tokens intro: reads.always_return)+

lemma forged_keys:
  assumes "forged W i"
  shows "always only_reads (key_generate W i)"
    and "always only_reads (key_retire W i)"
    and "always only_reads (key_delete W i)"
  unfolding key_generate_def key_retire_def key_delete_def key_action_def case_prod_unfold
  by (rule guarded_pair [OF assms], auto simp: reader_tokens intro: reads_keys_again)+

lemma forged_tenants:
  assumes "forged W i"
  shows "always only_reads (tenant_create W i)"
    and "always only_reads (tenant_delete W u i)"
    and "always only_reads (tenant_reset_admin_password W u i)"
  unfolding tenant_create_def tenant_delete_def tenant_reset_admin_password_def case_prod_unfold Let_def
  by (rule guarded_single [OF assms] guarded_pair [OF assms],
      auto simp: reader_tokens intro: reads.always_return)+

lemma forged_settings:
  assumes "forged W i"
  shows "always only_reads (update_tenant_settings W i)"
    and "always only_reads (update_system_form W i)"
    and "always only_reads (update_runtime_form W i)"
  unfolding update_tenant_settings_def update_system_form_def update_runtime_form_def case_prod_unfold
  by (rule guarded_form [OF assms, where tok = sy_csrf_token] guarded_triple [OF assms],
      auto simp: reader_tokens intro: reads.always_return)+

lemma forged_clients:
  assumes "forged W i"
  shows "always only_reads (client_create W i)"
    and "always only_reads (web_client_update W u i)"
    and "always only_reads (client_rotate_secret W u i)"
  unfolding client_create_def web_client_update_def client_rotate_secret_def api_get_client_def Let_def
  by (rule guarded_form [OF assms, where tok = nc_csrf_token] guarded_form [OF assms, where tok = ec_csrf_token]
        guarded_single [OF assms],
      auto simp: reader_tokens intro!: reads.always_return reads.always_bind reads_admin_send split: sum.split)+

lemma reads_imported_page: "always only_reads (imported_page W i admin values imported e)"
  unfolding imported_page_def api_list_saml_service_providers_def by (intro reads.always_bind reads.always_return reads_admin_send)

lemma forged_saml:
  assumes "forged W i"
  shows "always only_reads (web_saml_create W i)"
    and "always only_reads (web_saml_update W u i)"
    and "always only_reads (saml_delete_form W u i)"
  unfolding web_saml_create_def web_saml_update_def saml_delete_form_def
  by (rule guarded_form [OF assms, where tok = sm_csrf_token] guarded_single [OF assms],
      auto simp: reader_tokens saml_form_problem_def intro: reads.always_return)+

lemma forged_import:
  assumes "forged W i"
  shows "always only_reads (saml_import W i)"
  unfolding saml_import_def with_body_def
  using assms by (auto simp: forged_def Let_def split: sum.split intro!: reads_with_admin reads.always_return)

lemmas forged_reads = forged_members forged_users forged_keys forged_tenants forged_settings forged_clients
  forged_saml forged_import

text \<open>Every form of the table of the console, whatever the segments of its path.\<close>

definition posts_of :: "'h route list \<Rightarrow> 'h list" where
  "posts_of table = List.map_filter (\<lambda>(pattern, methods). map_of methods ''POST'') table"

lemma forged_posts:
  assumes "forged W i" "h \<in> set (posts_of (console_routes W))"
  shows "always only_reads (h params i)"
  using assms by (auto simp: posts_of_def console_routes_def map_filter_simps no_arg_def one_arg_def forged_reads)

lemma forged_cong: "forged W i \<Longrightarrow> wi_request j = wi_request i \<Longrightarrow> forged W j" for j :: web_incoming
  by (simp add: forged_def session_csrf_def sso_def web_cookie_def)

lemma user_not_admin: "find_route (user_routes W) (''admin'' # rest) = None"
  by (simp add: user_routes_def)

lemma sign_in_only:
  "rest \<notin> {[''login''], [''password-change''], [''logout'']} \<Longrightarrow> find_route (sign_in_routes W) rest = None"
  by (cases rest; cases "tl rest") (auto simp: sign_in_routes_def)

lemma find_console:
  assumes "rest \<notin> {[''login''], [''password-change''], [''logout'']}"
  shows "find_route (web_tenant_scoped W) (''admin'' # rest) = find_route (console_routes W) rest"
  unfolding web_tenant_scoped_def find_route_append find_route_under user_not_admin
  by (simp add: sign_in_only [OF assms])

lemma posts_ofI: "(pattern, methods) \<in> set table \<Longrightarrow> map_of methods ''POST'' = Some h \<Longrightarrow> h \<in> set (posts_of table)"
  by (force simp: posts_of_def List.map_filter_def)

text \<open>
  C14. The forms of the administration console need the token of the session: a POST below
  \<^verbatim>\<open>/{tenant}/admin\<close>, the forms that sign in and out apart, whose body does not hold the token of the session
  whose cookie it carries makes the console send nothing to the API but GET requests, whatever the API answers.
\<close>

theorem console_forms_need_csrf:
  assumes "run_state (web_build W assets rq) w = (rs, w')"
    and "rq_method rq = ''POST''" "rq_path rq = raw # ''admin'' # rest"
    and "rest \<notin> {[''login''], [''password-change''], [''logout'']}"
    and "forged W i" "wi_request i = rq"
  shows "\<exists>cs. ww_sent w' = ww_sent w @ cs \<and> list_all (\<lambda>c. cl_method c = ''GET'') cs"
proof -
  have "always only_reads (web_build W assets rq)"
  proof (rule reads.always_web_build [OF assms(3)])
    fix ps methods h params and j :: web_incoming
    assume route: "find_route (web_tenant_scoped W) (''admin'' # rest) = Some (ps, methods)"
      and h: "map_of methods (rq_method rq) = Some h" and j: "wi_request j = rq"
    have "h \<in> set (posts_of (console_routes W))"
      using route h assms(2) by (auto simp: find_console [OF assms(4)] dest!: find_route_SomeD intro: posts_ofI)
    moreover have "forged W j" using forged_cong [OF assms(5)] assms(6) j by simp
    ultimately show "always only_reads (h params j)" by (simp add: forged_posts)
  qed (simp add: assms(2))
  from alwaysD [OF this assms(1)] show ?thesis by (simp add: only_reads_def)
qed

section \<open>Forms that sign in\<close>

text \<open>
  These forms are shown before there is a session: their token belongs to a cookie that was set with the form. The
  form of a sign-in for a client is left to the API, which checks it against the session of the request.
\<close>

definition sign_in_paths :: "string list list" where
  "sign_in_paths = [[''login''], [''login'', ''mfa''], [''login'', ''password-change''],
     [''admin'', ''login''], [''admin'', ''password-change'']]"

definition sign_in_token :: "web \<Rightarrow> web_incoming \<Rightarrow> string list \<Rightarrow> string option" where
  "sign_in_token W i path =
     (if hd path = ''admin'' then map_option (admin_csrf_token W) (non_empty (web_cookie W i ADMIN_CSRF_COOKIE))
      else map_option (portal_csrf_token W) (non_empty (web_cookie W i PORTAL_CSRF_COOKIE)))"

lemma seed_validD: "seed_valid token seed t \<Longrightarrow> map_option token (non_empty seed) = Some t"
  unfolding seed_valid_def by (erule case_option_boolE [THEN iffD1, elim_format]) auto

lemma csrf_okD:
  "portal_csrf_ok W i t \<Longrightarrow> hd path \<noteq> ''admin'' \<Longrightarrow> sign_in_token W i path = Some t"
  "admin_csrf_ok W i t \<Longrightarrow> hd path = ''admin'' \<Longrightarrow> sign_in_token W i path = Some t"
  unfolding portal_csrf_ok_def admin_csrf_ok_def sign_in_token_def by (simp_all only: seed_validD if_True if_False refl)

lemma silent_form:
  assumes "\<And>fs t. wb_form W (wi_request i) = Inr fs \<Longrightarrow> field fs ''csrf_token'' = Some t \<Longrightarrow> \<not> fits t"
    and "\<And>fs form. read fs = Some form \<Longrightarrow> field fs ''csrf_token'' = Some (tok form)"
    and "\<And>form. \<not> fits (tok form) \<Longrightarrow> always silent (f form)"
  shows "always silent (with_form W read i f)"
  using assms by (intro quiet.always_with_form) blast

lemma portal_silent:
  assumes "\<And>fs t. wb_form W (wi_request i) = Inr fs \<Longrightarrow> field fs ''csrf_token'' = Some t \<Longrightarrow> \<not> portal_csrf_ok W i t"
  shows "web_cookie W i AUTH_SESSION_COOKIE = None \<Longrightarrow> always silent (web_login W i)"
    and "always silent (portal_mfa_submit W i)"
    and "always silent (web_portal_password_change W i)"
  unfolding web_login_def web_portal_login_def portal_mfa_submit_def web_portal_password_change_def case_prod_unfold
  by (rule silent_form [OF assms, where tok = lf_csrf_token] silent_form [OF assms, where tok = snd]
        silent_form [OF assms, where tok = "\<lambda>form. pf_csrf_token (snd form)"];
      auto simp: reader_tokens intro: quiet.always_return)+

lemma admin_silent:
  assumes "\<And>fs t. wb_form W (wi_request i) = Inr fs \<Longrightarrow> field fs ''csrf_token'' = Some t \<Longrightarrow> \<not> admin_csrf_ok W i t"
  shows "always silent (web_admin_login W i)"
    and "always silent (web_admin_password_change W i)"
  unfolding web_admin_login_def web_admin_password_change_def case_prod_unfold
  by (rule silent_form [OF assms, where tok = lf_csrf_token]
        silent_form [OF assms, where tok = "\<lambda>form. pf_csrf_token (snd form)"];
      auto simp: reader_tokens intro: quiet.always_return)+

lemma sign_in_entries:
  "find_route (web_tenant_scoped W) [''login''] =
     Some ([], [(''GET'', no_arg (web_login_page W)), (''POST'', no_arg (web_login W))])"
  "find_route (web_tenant_scoped W) [''login'', ''mfa''] =
     Some ([], [(''GET'', no_arg (portal_mfa_page W)), (''POST'', no_arg (portal_mfa_submit W))])"
  "find_route (web_tenant_scoped W) [''login'', ''password-change''] =
     Some ([], [(''GET'', no_arg (portal_password_change_page W)), (''POST'', no_arg (web_portal_password_change W))])"
  "find_route (web_tenant_scoped W) [''admin'', ''login''] =
     Some ([], [(''GET'', no_arg (admin_login_page W)), (''POST'', no_arg (web_admin_login W))])"
  "find_route (web_tenant_scoped W) [''admin'', ''password-change''] =
     Some ([], [(''GET'', no_arg (admin_password_change_page W)), (''POST'', no_arg (web_admin_password_change W))])"
  by (simp_all add: web_tenant_scoped_def find_route_append user_routes_def sign_in_routes_def find_route_under)

lemma find_sign_in:
  assumes "path \<in> set sign_in_paths" "find_route (web_tenant_scoped W) path = Some (ps, methods)" "map_of methods ''POST'' = Some h"
  shows "path = [''login''] \<and> h = no_arg (web_login W) \<or> path = [''login'', ''mfa''] \<and> h = no_arg (portal_mfa_submit W) \<or>
    path = [''login'', ''password-change''] \<and> h = no_arg (web_portal_password_change W) \<or>
    path = [''admin'', ''login''] \<and> h = no_arg (web_admin_login W) \<or>
    path = [''admin'', ''password-change''] \<and> h = no_arg (web_admin_password_change W)"
proof -
  from assms(1) have "path = [''login''] \<or> path = [''login'', ''mfa''] \<or> path = [''login'', ''password-change''] \<or>
    path = [''admin'', ''login''] \<or> path = [''admin'', ''password-change'']" by (simp add: sign_in_paths_def)
  then show ?thesis using assms(2,3) by (elim disjE) (clarsimp simp: sign_in_entries)+
qed

text \<open>
  C15. The forms that sign in need the token of the cookie they were shown with: a POST to one of them, at the
  portal (unless a sign-in for a client is under way, whose token the API checks) or at the administration console,
  that does not hold the token of that cookie, or comes without it, makes the console send nothing at all, so that no
  password and no code of another site's form is ever tried.
\<close>

theorem sign_in_forms_need_csrf:
  assumes "run_state (web_build W assets rq) w = (rs, w')"
    and "rq_method rq = ''POST''" "rq_path rq = raw # path" "path \<in> set sign_in_paths"
    and "path = [''login''] \<longrightarrow> web_cookie W i AUTH_SESSION_COOKIE = None"
    and "wi_request i = rq"
    and "\<And>fs t. wb_form W rq = Inr fs \<Longrightarrow> field fs ''csrf_token'' = Some t \<Longrightarrow> sign_in_token W i path \<noteq> Some t"
  shows "ww_sent w' = ww_sent w"
proof -
  obtain p rest where path: "path = p # rest" using assms(4) by (auto simp: sign_in_paths_def)
  have "always silent (web_build W assets rq)"
  proof (rule quiet.always_web_build [OF assms(3) [unfolded path]])
    fix ps methods h params and j :: web_incoming
    assume route: "find_route (web_tenant_scoped W) (p # rest) = Some (ps, methods)"
      and h: "map_of methods (rq_method rq) = Some h" and j: "wi_request j = rq"
    have same: "web_cookie W j n = web_cookie W i n" for n using j assms(6) by (simp add: web_cookie_def)
    have "sign_in_token W j path = sign_in_token W i path" by (simp only: sign_in_token_def same)
    then have wrong: "sign_in_token W j path \<noteq> Some t" if "wb_form W (wi_request j) = Inr fs" "field fs ''csrf_token'' = Some t" for fs t
      using assms(7) that j by metis
    note portal = portal_silent [of W j] and admin = admin_silent [of W j]
    have "hd path = ''admin'' \<Longrightarrow> \<not> admin_csrf_ok W j t" "hd path \<noteq> ''admin'' \<Longrightarrow> \<not> portal_csrf_ok W j t"
      if "wb_form W (wi_request j) = Inr fs" "field fs ''csrf_token'' = Some t" for fs t
      using wrong [OF that] csrf_okD by blast+
    note tokens = this
    from find_sign_in [OF assms(4) route [folded path] h [unfolded assms(2)]] assms(5)
    show "always silent (h params j)" by (elim disjE conjE) (simp_all add: no_arg_def same portal admin tokens)
  qed (simp add: assms(2))
  from alwaysD [OF this assms(1)] show ?thesis by (simp add: silent_def)
qed

section \<open>Console and API\<close>

lemma web_from_env_secrets:
  assumes "web_from_env E env = Inr wc"
  shows "web_internal_token env = (wc_internal_service_token wc, wc_internal_service_token_is_dev wc) \<and>
    web_load_csrf_secret E env = Inr (wc_csrf_secret wc, wc_csrf_secret_is_dev wc)"
proof -
  have "yields (\<lambda>wc. web_internal_token env = (wc_internal_service_token wc, wc_internal_service_token_is_dev wc) \<and>
      web_load_csrf_secret E env = Inr (wc_csrf_secret wc, wc_csrf_secret_is_dev wc)) (web_from_env E env)"
    unfolding web_from_env_def Let_def by (intro yields_bind yields_prod yields_Inr) simp
  with assms show ?thesis by (simp add: yields_def)
qed

text \<open>The two services read the secrets by code of their own, with texts of their own for the errors.\<close>

lemma same_secrets:
  "web_internal_token env = internal_token env"
  "web_load_csrf_secret E env = Inr s \<longleftrightarrow> load_csrf_secret E env = Inr s"
  by (auto simp: web_internal_token_def internal_token_def DEV_INTERNAL_SERVICE_TOKEN_def web_load_csrf_secret_def
      load_csrf_secret_def load_secret_def DEV_CSRF_SECRET_def decode_secret_32_def Let_def split: option.splits sum.splits if_splits)

text \<open>
  C39. Console and API understand each other when they are started from one environment, the settings in the database
  notwithstanding: the token in a sign-in form of the console is the one for which the API looks, and a request with
  the console's headers passes the check of the service token.
\<close>

theorem console_and_api_agree:
  assumes "from_env_and_db_settings E env dbs = Inr c" "build_services c = Return C"
    and "web_from_env E env = Inr (wb_config W)" "wb_libs W = E"
    and "ap_settings A = c" "rq_headers rq = internal_headers W correlation"
    and "header_to_str (ap_http A) (wc_internal_service_token (wb_config W)) = Some (wc_internal_service_token (wb_config W))"
  shows "login_token W session_id = login_csrf_token E session_id (csrf_secret C) \<and>
    require_service_token A next rq = next rq"
proof -
  have "wc_csrf_secret (wb_config W) = cfg_csrf_secret c"
      and token: "wc_internal_service_token (wb_config W) = cfg_internal_service_token c"
    using from_env_secrets [OF assms(1)] web_from_env_secrets [OF assms(3)] by (simp_all add: same_secrets)
  moreover have "csrf_secret C = cfg_csrf_secret c" using assms(2) by (auto simp: build_services_def split: if_splits)
  moreover have "presented_token A rq = cfg_internal_service_token c"
    using assms(6,7) token
    by (simp add: presented_token_def internal_headers_def header_get_def SERVICE_TOKEN_HEADER_def unwrap_or_default_def)
  ultimately show ?thesis using assms(4,5)
    by (simp add: login_token_def require_service_token_def presented_token_def [symmetric] Let_def constant_time_eq_iff)
qed

section \<open>Witnesses\<close>

definition unread :: "'a reader" where
  "unread rs = Inl ''unreadable''"

definition sample_internal_codecs :: internal_codecs where
  "sample_internal_codecs =
     \<lparr>rd_authenticate = unread, rd_totp_setup = unread, rd_totp_confirm = unread, rd_totp_delete = unread,
      rd_verify_totp = unread, rd_change_password = unread, rd_account_password = unread, rd_reset_request = unread,
      rd_reset_complete = unread, rd_admin_authenticate = unread, rd_admin_change = unread,
      rd_portal_authenticate = unread, rd_portal_change = unread, rd_portal_mfa = unread, rd_consent_info = unread,
      rd_consent_approve = unread, rd_consent_deny = unread, rd_register_begin = unread, rd_register_complete = unread,
      rd_passkey_delete = unread, rd_passkey_list = unread, rd_login_begin = unread, rd_passkey_login = unread,
      rd_update_language = unread, rd_profile = unread, rd_update_name = unread, rd_tenants_reply = unread\<rparr>"

definition sample_admin_codecs :: admin_codecs where
  "sample_admin_codecs =
     \<lparr>rd_whoami = (\<lambda>rs. Inr \<lparr>wv_user_id = ''uuu'', wv_name = None, wv_preferred_username = None\<rparr>), rd_clients = unread,
      rd_client = unread, rd_client_created = unread, rd_client_secret = unread, rd_user = unread,
      rd_user_created = unread, rd_user_permissions = unread, rd_available_permissions = unread,
      rd_password_reset = unread, rd_members = unread, rd_invitation = unread, rd_audit_logs = unread,
      rd_client_status = unread, rd_saml_providers = unread, rd_saml_provider = unread, rd_metadata_import = unread,
      rd_signing_keys = unread, rd_signing_key = unread, rd_tenants = unread, rd_tenant = unread,
      rd_tenant_created = unread, rd_system_settings = unread, rd_error_message = unread\<rparr>"

definition sample_web_config :: web_config where
  "sample_web_config =
     \<lparr>wc_bind_addr = ''0.0.0.0:8081'', wc_api_base_url = ''http://localhost:8080'', wc_internal_service_token = ''t'',
      wc_internal_service_token_is_dev = False, wc_csrf_secret = replicate 32 CHR ''c'', wc_csrf_secret_is_dev = False,
      wc_cookie_secure = True, wc_auth_session_ttl_secs = 600, wc_hsts_max_age = 0, wc_log_format = Json\<rparr>"

text \<open>A console at which every form has the same wrong token, and an administrator who is signed in.\<close>

definition sample_web :: web where
  "sample_web =
     \<lparr>wb_libs = exact_libs, wb_http = sample_http, wb_config = sample_web_config, wb_internal = sample_internal_codecs,
      wb_admin = sample_admin_codecs, wb_form = (\<lambda>rq. Inr [(''csrf_token'', ''guess'')]), wb_query = no_body,
      wb_register_begin = no_body, wb_register_complete = no_body, wb_login_complete = no_body, wb_multipart = no_body,
      wb_field_rejection = empty_response 422, wb_utf8 = Some, wb_text = (\<lambda>s. s), wb_render = (\<lambda>p. []),
      wb_qr = (\<lambda>s. []), wb_url = (\<lambda>s. None), wb_lowercase = (\<lambda>s. s), wb_status = (\<lambda>n. [])\<rparr>"

definition sample_web_world :: web_world where
  "sample_web_world = \<lparr>ww_sent = [], ww_net = (\<lambda>n. Inr (empty_response 200)), ww_uuids = of_nat, ww_drawn = 0\<rparr>"

lemma sample_tokens:
  "console_csrf_token sample_web s \<noteq> ''guess''" "portal_csrf_token sample_web s \<noteq> ''guess''"
  by (simp_all add: console_csrf_token_def portal_csrf_token_def hmac_sha256_hex_def sample_web_def sample_web_config_def
      exact_libs_def sample_libs_def numeral_eq_Suc)

lemma sample_forms:
  "wb_form sample_web rq = Inr [(''csrf_token'', ''guess'')]" "wb_multipart sample_web rq = Inl (empty_response 400)"
  "field [(''csrf_token'', ''guess'')] ''csrf_token'' = Some ''guess''"
  by (simp_all add: sample_web_def no_body_def field_def values_of_def)

theorem console_forms_need_csrf_witness:
  "let rq = sample_http_request ''POST'' [''u'', ''admin'', ''tenants'', ''uu'', ''delete''] [(''cookie'', ''sso_session_id=s'')]
   in list_all (\<lambda>c. cl_method c = ''GET'')
     (ww_sent (snd (run_state (web_build sample_web (\<lambda>_. None) rq) sample_web_world)))"
proof -
  let ?rq = "sample_http_request ''POST'' [''u'', ''admin'', ''tenants'', ''uu'', ''delete''] [(''cookie'', ''sso_session_id=s'')]"
  let ?i = "\<lparr>wi_request = ?rq, wi_correlation = [], wi_tenant = []\<rparr>"
  obtain r w' where run: "run_state (web_build sample_web (\<lambda>_. None) ?rq) sample_web_world = (r, w')"
    by (cases "run_state (web_build sample_web (\<lambda>_. None) ?rq) sample_web_world")
  have "forged sample_web ?i"
    by (simp add: forged_def sample_forms session_csrf_def sample_tokens(1) [symmetric])
  from console_forms_need_csrf [OF run _ _ _ this] run show ?thesis
    by (auto simp: sample_web_world_def Let_def)
qed

theorem sign_in_forms_need_csrf_witness:
  "ww_sent (snd (run_state (web_build sample_web (\<lambda>_. None)
     (sample_http_request ''POST'' [''u'', ''login'', ''mfa''] [(''cookie'', ''portal_csrf_id=s'')])) sample_web_world)) = []"
proof -
  let ?rq = "sample_http_request ''POST'' [''u'', ''login'', ''mfa''] [(''cookie'', ''portal_csrf_id=s'')]"
  let ?i = "\<lparr>wi_request = ?rq, wi_correlation = [], wi_tenant = []\<rparr>"
  obtain r w' where run: "run_state (web_build sample_web (\<lambda>_. None) ?rq) sample_web_world = (r, w')"
    by (cases "run_state (web_build sample_web (\<lambda>_. None) ?rq) sample_web_world")
  have "sign_in_token sample_web ?i [''login'', ''mfa''] \<noteq> Some ''guess''"
    using sample_tokens(2) by (auto simp: sign_in_token_def)
  then have "ww_sent w' = ww_sent sample_web_world"
    by (intro sign_in_forms_need_csrf [OF run, where i = ?i and path = "[''login'', ''mfa'']"])
       (auto simp: sample_forms sign_in_paths_def)
  with run show ?thesis by (simp add: sample_web_world_def)
qed

lemma sample_web_start: "web_from_env exact_libs sample_environment = Inr sample_web_config"
  by code_simp

theorem console_and_api_agree_witness:
  "\<exists>c C. from_env exact_libs sample_environment = Inr c \<and> build_services c = Return C \<and>
     login_token sample_web ''s'' = login_csrf_token exact_libs ''s'' (csrf_secret C)"
proof -
  from sample_start obtain c C where c: "from_env exact_libs sample_environment = Inr c" "build_services c = Return C"
    by blast
  let ?A = "sample_app\<lparr>ap_settings := c\<rparr>"
  let ?rq = "sample_http_request ''POST'' [''internal'', ''logout''] (internal_headers sample_web ''r'')"
  have W: "wb_config sample_web = sample_web_config" "wb_libs sample_web = exact_libs" by (simp_all add: sample_web_def)
  have "header_to_str (ap_http ?A) v = Some v" for v by (simp add: sample_http_def)
  then show ?thesis
    using c console_and_api_agree [OF c(1) [unfolded from_env_def] c(2) sample_web_start [folded W(1)] W(2),
        of ?A ?rq "''r''" "''s''" "\<lambda>rq. State_Monad.return (Return (empty_response 200))"] by auto
qed

end
