(* ===== verification/Spec2Isabelle.thy ===== *)
theory Spec2Isabelle
  imports KeyService Token Authorize RateLimit Login Totp MfaLogin Consent TokenStatus Logout
    Text Cache Directory Permissions SystemSettings Messages LinkTokens PasswordReset
    EmailVerification UserLifecycle Invitation DirectLogin Configuration
    Account Tenants Registration Clients AuditLog Passkeys Saml SamlMetadata
    Http AdminApi InternalApi PublicApi Router WebTypes Web WebClient WebLogin WebConsole WebAdmin WebRouter
begin

text \<open>
  Verification of a multi-tenant OpenID Connect identity provider.

  \<^bold>\<open>The program.\<close> The crate \<^verbatim>\<open>core\<close> holds the domain (\<^verbatim>\<open>src/crates/core/src/domain\<close>), one service
  per use case (\<^verbatim>\<open>application\<close>) and the adapters (\<^verbatim>\<open>infrastructure\<close>: the sqlx repositories over
  MariaDB, a TTL cache, a rate limiter, the mailer, the password hasher). The crate \<^verbatim>\<open>api\<close> is the HTTP
  server: its router sends a request through the middleware to a handler, which calls a service and turns
  its outcome into a response. The crate \<^verbatim>\<open>web\<close> is the console for browsers: it shows the pages, checks
  the CSRF tokens of their forms, keeps the cookies, and calls the internal endpoints of \<^verbatim>\<open>api\<close> with a
  shared service token and its administration endpoints with the cookie of the session. \<^verbatim>\<open>contracts\<close> holds
  what the two exchange.

  An authorization request (\<open>authorize\<close>) finds an SSO session or starts an authorization session; the
  login, second-factor, password-change, passkey and consent services take that session forward until a
  code is issued; the token endpoint exchanges the code once; userinfo, introspection, revocation and
  logout work on what was issued. Besides there are the self-service of users, the administration of
  tenants, users, permissions, clients, SAML service providers, settings and keys, and the audit log.

  \<^bold>\<open>How it is modelled.\<close> A service or repository method is a function in the state monad over \<open>world\<close>
  (World.thy), written step by step in the order of the source; a result of Rust is a sum type (\<open>Inl\<close>
  the error), an early return is a branch, a panic is a value. \<open>world\<close> holds the database as one list of
  rows per table, the memory of the process (caches, rate limiters), the outbox, and the sequences of
  clock readings, random numbers and faults that the environment supplies. Third-party crates and the
  collation of the database are the record \<open>libs\<close>; those of the HTTP layer are \<open>http_libs\<close> and the
  extractors of requests. A theorem states what it needs of them as a hypothesis, and its witness
  instantiates them with the functions of Samples.thy and of the end of Router.thy.

  \<^bold>\<open>Theories and sources.\<close> Paths are below \<^verbatim>\<open>src/crates/core/src\<close> unless they say otherwise.

  \<^item> Prelude: types, string functions of the standard library, tables of rows, the calculus of
    preconditions for the monad and the locale \<open>kept\<close> of relations that a run keeps when its steps do.
  \<^item> Values, Entities: \<^verbatim>\<open>domain/error.rs\<close>, \<^verbatim>\<open>values.rs\<close>, \<^verbatim>\<open>password.rs\<close>, \<^verbatim>\<open>pkce.rs\<close> and the
    entity files of \<^verbatim>\<open>domain\<close>. The locale \<open>string_enum\<close> is the contract of an enumeration with its
    strings; every enumeration interprets it.
  \<^item> World, Samples: state, effects and configuration; a concrete environment.
  \<^item> Repositories, Evolution, Directory: \<^verbatim>\<open>infrastructure/repositories\<close>. Evolution has, for each table of
    credentials, the relation of all statements that write it, whose closure accounts for every
    interleaving of requests; the locale \<open>one_time_store\<close> is the contract of a credential that can be used
    once, interpreted for authorization codes and for mailed links (LinkTokens).
  \<^item> Crypto, Text: \<^verbatim>\<open>domain/crypto.rs\<close>, \<^verbatim>\<open>jwt.rs\<close>, \<^verbatim>\<open>issuer.rs\<close>, \<^verbatim>\<open>infrastructure/password.rs\<close>,
    \<^verbatim>\<open>contracts/src/csrf.rs\<close>; trimming, reading and printing of integers.
  \<^item> Cache, RateLimit: \<^verbatim>\<open>infrastructure/cache.rs\<close>, \<^verbatim>\<open>rate_limit.rs\<close>, each refining a specification by the
    history of its operations (locale \<open>cache_interface\<close>; the log of admitted attempts).
  \<^item> KeyService, Token, Authorize, Login, Totp, MfaLogin, Consent, TokenStatus, Logout: the services
    \<^verbatim>\<open>application/key_service.rs\<close>, \<^verbatim>\<open>code_issuance.rs\<close> and \<^verbatim>\<open>token.rs\<close>, \<^verbatim>\<open>authorize.rs\<close>, \<^verbatim>\<open>login.rs\<close>,
    \<^verbatim>\<open>totp_registration.rs\<close>, \<^verbatim>\<open>mfa_login.rs\<close> and \<^verbatim>\<open>change_password.rs\<close>, \<^verbatim>\<open>consent.rs\<close>, \<^verbatim>\<open>userinfo.rs\<close>
    with \<^verbatim>\<open>introspection.rs\<close> and \<^verbatim>\<open>revocation.rs\<close>, \<^verbatim>\<open>logout.rs\<close>.
  \<^item> DirectLogin, Passkeys: logins without an authorization request (\<^verbatim>\<open>portal_login.rs\<close>,
    \<^verbatim>\<open>admin_login.rs\<close>) and with a passkey (\<^verbatim>\<open>passkey_registration.rs\<close>, \<^verbatim>\<open>passkey_authentication.rs\<close>).
  \<^item> Permissions, Tenants, Clients, Saml, SamlMetadata, AuditLog, UserLifecycle, Invitation, Registration:
    administration (\<^verbatim>\<open>permission_management.rs\<close> with its cached repository and \<^verbatim>\<open>admin_access.rs\<close>,
    \<^verbatim>\<open>tenant_resolution.rs\<close>, \<^verbatim>\<open>tenant_management.rs\<close>, \<^verbatim>\<open>client_management.rs\<close>,
    \<^verbatim>\<open>saml_service_provider_management.rs\<close>, \<^verbatim>\<open>domain/saml_metadata.rs\<close>, \<^verbatim>\<open>audit_query.rs\<close>,
    \<^verbatim>\<open>client_status.rs\<close>, \<^verbatim>\<open>user_lifecycle.rs\<close>, \<^verbatim>\<open>invitation.rs\<close>, \<^verbatim>\<open>user_management.rs\<close>, \<^verbatim>\<open>register.rs\<close>).
  \<^item> LinkTokens, Messages, PasswordReset, EmailVerification, Account: mailed links and the self-service
    (\<^verbatim>\<open>password_reset.rs\<close>, \<^verbatim>\<open>email_verification.rs\<close>, \<^verbatim>\<open>account_*.rs\<close>).
  \<^item> SystemSettings, Configuration: \<^verbatim>\<open>system_settings.rs\<close>, \<^verbatim>\<open>infrastructure/mailer.rs\<close>, \<^verbatim>\<open>config.rs\<close> and
    the start of the server (\<^verbatim>\<open>src/crates/api/src/lib.rs\<close>, \<^verbatim>\<open>presentation/state.rs\<close>).
  \<^item> Http, AdminApi, InternalApi, PublicApi, Router: \<^verbatim>\<open>src/crates/api/src/presentation\<close>, in the order
    middleware and guards, the three groups of handlers, and the router that composes everything.
  \<^item> WebTypes, Web, WebClient, WebLogin, WebConsole, WebAdmin, WebRouter: \<^verbatim>\<open>src/crates/web/src\<close>. The data of
    answers and pages; configuration, forms, CSRF tokens, cookies and languages; \<^verbatim>\<open>api_client.rs\<close>; the
    handlers for users and those of the administration console; the router. A handler is a function in the
    state monad over \<open>web_world\<close>, which records the requests sent to the API. The locale \<open>web_kept\<close>, an
    extension of \<open>kept\<close>, carries a relation from the handlers to the whole router; it is interpreted for
    ``only reads were sent'' and for ``nothing was sent''.

  \<^bold>\<open>What the lemmas show.\<close>

  \<^item> Credentials. Tokens are issued only for a code or refresh token whose every check held in the database
    the request found (\<open>exchange_code_sound\<close>, \<open>exchange_refresh_sound\<close>), and never twice, whatever
    statements of other requests run in between (\<open>code_single_use\<close>, \<open>refresh_token_single_use\<close>,
    \<open>reset_link_single_use\<close>); a revoked access token is rejected, and userinfo answers exactly what its
    specification says.
  \<^item> Login. A code or an SSO session comes only out of the login that the account needs: password, second
    factor, forced change, verified address, consent, membership, lock (\<open>authorize_code_sound\<close>,
    \<open>login_gated\<close>, \<open>login_success_sound\<close>, \<open>mfa_success_sound\<close>, \<open>passkey_login_sound\<close>, \<open>portal_login_sound\<close>,
    \<open>portal_two_factor\<close>, \<open>consent_approve_sound\<close>); guesses are bounded by lock and rate limit; redirects
    go to registered addresses; the endpoint does not panic.
  \<^item> Administration. Every administration route asks for its permission before it does anything
    (\<open>admin_endpoints_need_permission\<close>) and every internal one for the service token
    (\<open>internal_endpoints_need_token\<close>); a revoked permission and a disabled user lose their effect; tenants
    stay a tree and reach only their children; clients and service providers stay well formed; a guest's
    removal fails closed; an audit search stays in its tenant and its bounds.
  \<^item> Self-service touches only the caller's own row; a password reset answers the same with and without an
    account; every response has the security headers; reading inverts writing for settings, and for the
    form-urlencoded credentials of clients up to their spaces, which come back as plus signs
    (\<open>basic_credentials_roundtrip\<close>); settings in the database never keep the server from starting.
  \<^item> Console. A form of the administration console, those of the sign-in, the change of password there and the
    sign-out apart, that does not hold the token of its session makes the console send nothing but reads (\<open>console_forms_need_csrf\<close>), a sign-in form without the token of its
    cookie nothing at all (\<open>sign_in_forms_need_csrf\<close>), whatever the API answers; started from one
    environment, console and API agree on tokens and secrets (\<open>console_and_api_agree\<close>).

  \<^bold>\<open>Time.\<close> The world has the sequence of all clock readings, \<open>clock_src\<close>, and the number of those that were
  taken, \<open>ticks\<close>; a statement of the database takes one too, for the server's own clock. Where a property says
  that something is live, expired or within an age, it says so at a reading of the very run: by its index
  (\<open>clock_src w (ticks w + 2)\<close> for the session that the authorization endpoint resumes after two lookups), or
  as one between the start and the end of the run (\<open>clock_reading\<close>).

  \<^bold>\<open>Bounds and termination.\<close> No definition uses fuel: the loops of the program run over finite rows, lists
  or bytes and are total functions here. The failure counter of a user is a 32-bit word and wraps as in a
  release build; other integers are checked or saturated in the source, and are integers with those checks.

  \<^bold>\<open>Assumptions.\<close> Durations of the configuration keep instants inside chrono's range. A statement of SQL is
  atomic, and so is a transaction; a failing statement may or may not have been applied. A query without an
  order gives rows in the order of the table. String columns are compared with the collation, a parameter.
  Time columns have microseconds. Of the foreign keys, the deletions that cascade and the references of tenants
  to their parent, of permissions and of service providers are modelled; other insertions, that of a
  membership among them, do not check that the rows they refer to exist and so permit more than the schema. Strings are the bytes of their UTF-8 encoding. Random identifiers come from
  an arbitrary source; where a theorem needs that a value is not drawn again it says so (\<open>no_reissue\<close>).
  The column \<open>updated_at\<close> is modelled only where it is set explicitly; descriptions of settings and the ids
  of audit rows are left out. Among the routes that match a path axum takes the one with the literal
  segment; the tables of Router.thy and WebRouter.thy list that one first (\<open>tables_literal_first\<close>,
  \<open>web_tables_literal_first\<close>). The outcome of a request of the console to the API is arbitrary; the reading
  of its JSON, of forms and of multipart bodies, and the rendering of pages are parameters.

  \<^bold>\<open>Not modelled.\<close> Of the crate \<^verbatim>\<open>web\<close> the texts of the templates, the static files and the version page.
  The remaining data types of \<^verbatim>\<open>contracts\<close>, whose code is derived by serde; the handlers of the API are
  modelled on the commands they are read into. The pool and the migrations of the database, logging, the
  system clock and the adapter of the webauthn-rs crate: input and output, or calls into crates. The traits
  of \<^verbatim>\<open>domain\<close> (ports), whose implementations are modelled. The API documentation and the version pages,
  which print data of the build. The back-channel calls after a logout: their input is modelled
  (\<open>spawn_backchannel\<close>), the signing of the notices in the background and the HTTP requests are not.
\<close>

end
